(* ===== verification/Go_Base.thy ===== *)
theory Go_Base
  imports Complex_Main "HOL-Library.AList" "HOL-Library.Monad_Syntax"
begin

text \<open>
  Prelude, part one: the Go values, errors and mutable maps that every component of endly
  shares, and the operations of the package viant/toolbox that the repository only calls.

  \<^item> \<open>value\<close> is Go's \<open>interface{}\<close> as endly uses it; \<open>gofloat\<close> is \<open>float64\<close> with its
    non-finite members, so that \<open><\<close> and \<open>==\<close> have Go's meaning.
  \<^item> \<open>go_error\<close> is the \<open>error\<close> interface: an ordinary error, endly's own \<open>*Error\<close>
    (error.go), and a run-time panic. A fallible operation returns \<open>go_error + 'a\<close>.
  \<^item> \<open>heap\<close> is the store of the maps (\<open>data.Map\<close>) that are shared by reference.
  \<^item> \<open>toolbox\<close> collects the operations of viant/toolbox, which is not part of the
    repository: every definition that uses one takes the record as an argument.
\<close>

named_theorems go_simps \<open>computation rules of the Go base operations\<close>
named_theorems map_law \<open>laws of the toolbox map operations\<close>

section \<open>Floating point numbers\<close>

datatype gofloat = FNaN | FInf bool | FFin rat

text \<open>\<open>FInf True\<close> is the positive infinity. The order is IEEE: NaN compares false.\<close>

fun fl_less :: "gofloat \<Rightarrow> gofloat \<Rightarrow> bool" where
  "fl_less FNaN _ = False"
| "fl_less _ FNaN = False"
| "fl_less (FInf s) (FInf t) = (\<not> s \<and> t)"
| "fl_less (FInf s) (FFin _) = (\<not> s)"
| "fl_less (FFin _) (FInf t) = t"
| "fl_less (FFin a) (FFin b) = (a < b)"

fun fl_eq :: "gofloat \<Rightarrow> gofloat \<Rightarrow> bool" where
  "fl_eq FNaN _ = False"
| "fl_eq _ FNaN = False"
| "fl_eq a b = (a = b)"

definition fl_leq :: "gofloat \<Rightarrow> gofloat \<Rightarrow> bool" where
  "fl_leq a b \<longleftrightarrow> fl_less a b \<or> fl_eq a b"

definition is_nan :: "gofloat \<Rightarrow> bool" where
  "is_nan a \<longleftrightarrow> a = FNaN"

lemma fl_eq_iff: "fl_eq a b \<longleftrightarrow> a = b \<and> a \<noteq> FNaN"
  by (cases "(a, b)" rule: fl_eq.cases) auto

lemma fl_less_irrefl [simp]: "\<not> fl_less a a"
  by (cases a) auto

lemma fl_not_leq_iff: "a \<noteq> FNaN \<Longrightarrow> b \<noteq> FNaN \<Longrightarrow> \<not> fl_leq a b \<longleftrightarrow> fl_less b a"
  by (cases a; cases b) (auto simp: fl_leq_def)

lemma fl_less_not_leq_swap: "fl_less a b \<Longrightarrow> \<not> fl_leq b a"
  by (cases a; cases b) (auto simp: fl_leq_def)

section \<open>Values and errors\<close>

datatype "value" =
    VNil
  | VBool bool
  | VInt int
  | VFloat gofloat
  | VStr string
  | VSlice "value list"
  | VMap "(string \<times> value) list"
  | VRef nat
  | VStruct string "(string \<times> value) list"
  | VFunc string

text \<open>
  \<open>VMap\<close> is a map that is only read, \<open>VRef\<close> a map of the \<open>heap\<close>, which may be changed
  through any alias; \<open>VStruct\<close> carries the Go type name that \<open>%T\<close> prints; \<open>VFunc\<close> is a
  function value (a user defined function of the state).
\<close>

type_synonym smap = "(string \<times> value) list"

datatype go_error =
    PlainErr string
  | PathErr "string list" go_error
  | Panicked string

text \<open>A comparison \<open>x == y\<close> of two interface values panics when both hold the same
  uncomparable dynamic type (slices, maps, functions).\<close>

definition uncomparable :: "value \<Rightarrow> value \<Rightarrow> bool" where
  "uncomparable x y =
     (case x of
        VSlice _ \<Rightarrow> (case y of VSlice _ \<Rightarrow> True | _ \<Rightarrow> False)
      | VMap _ \<Rightarrow> (case y of VMap _ \<Rightarrow> True | VRef _ \<Rightarrow> True | _ \<Rightarrow> False)
      | VRef _ \<Rightarrow> (case y of VMap _ \<Rightarrow> True | VRef _ \<Rightarrow> True | _ \<Rightarrow> False)
      | VFunc _ \<Rightarrow> (case y of VFunc _ \<Rightarrow> True | _ \<Rightarrow> False)
      | _ \<Rightarrow> False)"

definition go_eq :: "value \<Rightarrow> value \<Rightarrow> go_error + bool" where
  "go_eq x y =
     (if uncomparable x y then Inl (Panicked ''comparing uncomparable type'')
      else (case x of
        VFloat a \<Rightarrow> (case y of VFloat b \<Rightarrow> Inr (fl_eq a b) | _ \<Rightarrow> Inr False)
      | _ \<Rightarrow> Inr (x = y)))"

section \<open>The result monad\<close>

definition ebind :: "'e + 'a \<Rightarrow> ('a \<Rightarrow> 'e + 'b) \<Rightarrow> 'e + 'b" where
  "ebind r f = (case r of Inl e \<Rightarrow> Inl e | Inr x \<Rightarrow> f x)"

lemma ebind_simps [simp]: "ebind (Inl e) f = Inl e" "ebind (Inr x) f = f x"
  by (simp_all add: ebind_def)

lemma ebind_assoc: "ebind (ebind r f) g = ebind r (\<lambda>x. ebind (f x) g)"
  by (cases r) simp_all

lemma ebind_Inr_iff: "ebind r f = Inr y \<longleftrightarrow> (\<exists>x. r = Inr x \<and> f x = Inr y)"
  by (cases r) auto

lemma ebind_Inl_iff: "ebind r f = Inl e \<longleftrightarrow> r = Inl e \<or> (\<exists>x. r = Inr x \<and> f x = Inl e)"
  by (cases r) auto

fun emap :: "('a \<Rightarrow> 'e + 'b) \<Rightarrow> 'a list \<Rightarrow> 'e + 'b list" where
  "emap f [] = Inr []"
| "emap f (x # xs) = ebind (f x) (\<lambda>y. ebind (emap f xs) (\<lambda>ys. Inr (y # ys)))"

fun efold :: "('a \<Rightarrow> 's \<Rightarrow> 'e + 's) \<Rightarrow> 'a list \<Rightarrow> 's \<Rightarrow> 'e + 's" where
  "efold f [] s = Inr s"
| "efold f (x # xs) s = ebind (f x s) (efold f xs)"

definition is_panic :: "go_error \<Rightarrow> bool" where
  "is_panic e = (case e of Panicked _ \<Rightarrow> True | _ \<Rightarrow> False)"

definition is_ok :: "'e + 'a \<Rightarrow> bool" where
  "is_ok r = (case r of Inl _ \<Rightarrow> False | Inr _ \<Rightarrow> True)"

lemma is_ok_simps [simp]: "is_ok (Inl e) = False" "is_ok (Inr x) = True"
  by (simp_all add: is_ok_def)

lemma emap_length: "emap f xs = Inr ys \<Longrightarrow> length ys = length xs"
  by (induction xs arbitrary: ys) (auto simp: ebind_Inr_iff)

lemma emap_all_ok: "\<forall>x\<in>set xs. is_ok (f x) \<Longrightarrow> is_ok (emap f xs)"
  by (induction xs) (auto simp: is_ok_def split: sum.splits)

lemma efold_append: "efold f (xs @ ys) s = ebind (efold f xs s) (efold f ys)"
proof (induction xs arbitrary: s)
  case Nil
  then show ?case by simp
next
  case (Cons x xs)
  then show ?case by (cases "f x s") simp_all
qed

text \<open>An invariant kept by every step is kept by the loop.\<close>

lemma efold_invariant:
  assumes "efold f xs s = Inr t" and "P s"
    and "\<And>x s t. x \<in> set xs \<Longrightarrow> P s \<Longrightarrow> f x s = Inr t \<Longrightarrow> P t"
  shows "P t"
  using assms
proof (induction xs arbitrary: s)
  case Nil
  then show ?case by simp
next
  case (Cons x xs)
  then obtain s' where s': "f x s = Inr s'" "efold f xs s' = Inr t"
    by (auto simp: ebind_Inr_iff)
  with Cons.prems have "P s'" by (meson list.set_intros(1))
  with Cons s' show ?case by (meson list.set_intros(2))
qed

section \<open>Maps\<close>

text \<open>Go maps as association lists without duplicate keys, in the order in which a
  \<open>range\<close> loop happens to visit them.\<close>

definition mget :: "('k \<times> 'v) list \<Rightarrow> 'k \<Rightarrow> 'v option" where
  "mget m k = map_of m k"

definition mput :: "'k \<Rightarrow> 'v \<Rightarrow> ('k \<times> 'v) list \<Rightarrow> ('k \<times> 'v) list" where
  "mput k v m = AList.update k v m"

definition mdel :: "'k \<Rightarrow> ('k \<times> 'v) list \<Rightarrow> ('k \<times> 'v) list" where
  "mdel k m = AList.delete k m"

definition mhas :: "('k \<times> 'v) list \<Rightarrow> 'k \<Rightarrow> bool" where
  "mhas m k \<longleftrightarrow> k \<in> fst ` set m"

fun mput_all :: "('k \<times> 'v) list \<Rightarrow> ('k \<times> 'v) list \<Rightarrow> ('k \<times> 'v) list" where
  "mput_all [] m = m"
| "mput_all ((k, v) # kvs) m = mput_all kvs (mput k v m)"

lemma mget_mput [simp]: "mget (mput k v m) j = (if j = k then Some v else mget m j)"
  by (simp add: mget_def mput_def update_conv')

lemma mget_mdel [simp]: "mget (mdel k m) j = (if j = k then None else mget m j)"
  by (simp add: mget_def mdel_def delete_conv')

lemma mget_empty [simp]: "mget [] k = None"
  by (simp add: mget_def)

lemma mget_Cons: "mget ((k, v) # m) j = (if j = k then Some v else mget m j)"
  by (simp add: mget_def)

lemma mhas_iff: "mhas m k \<longleftrightarrow> mget m k \<noteq> None"
  by (auto simp: mhas_def mget_def map_of_eq_None_iff)

lemma mget_mput_all:
  "mget (mput_all kvs m) k = (case mget (rev kvs) k of None \<Rightarrow> mget m k | Some v \<Rightarrow> Some v)"
proof (induction kvs arbitrary: m rule: rev_induct)
  case Nil
  then show ?case by simp
next
  case (snoc x xs)
  obtain a b where x: "x = (a, b)" by fastforce
  have "mput_all (xs @ [x]) m = mput a b (mput_all xs m)" for m
    by (induction xs arbitrary: m) (auto simp: x)
  with snoc show ?case by (simp add: x mget_Cons)
qed

lemma mput_keys: "fst ` set (mput k v m) = insert k (fst ` set m)"
  by (simp add: mput_def dom_update)

lemma mhas_mput: "mhas (mput k v m) k' \<longleftrightarrow> k' = k \<or> mhas m k'"
  by (auto simp: mhas_def mput_keys)

lemma mput_distinct: "distinct (map fst m) \<Longrightarrow> distinct (map fst (mput k v m))"
  by (simp add: mput_def distinct_update)

lemma mdel_keys: "fst ` set (mdel k m) = fst ` set m - {k}"
  by (auto simp: mdel_def delete_keys simp flip: set_map)

lemma mdel_distinct: "distinct (map fst m) \<Longrightarrow> distinct (map fst (mdel k m))"
  by (simp add: mdel_def distinct_delete)

section \<open>The store of shared maps\<close>

record heap =
  cells :: "nat \<Rightarrow> smap"
  fresh :: nat

definition alloc :: "smap \<Rightarrow> heap \<Rightarrow> nat \<times> heap" where
  "alloc m h = (fresh h, h\<lparr>cells := (cells h)(fresh h := m), fresh := Suc (fresh h)\<rparr>)"

definition cell :: "heap \<Rightarrow> nat \<Rightarrow> smap" where
  "cell h a = cells h a"

definition write_cell :: "nat \<Rightarrow> smap \<Rightarrow> heap \<Rightarrow> heap" where
  "write_cell a m h = h\<lparr>cells := (cells h)(a := m)\<rparr>"

lemma cell_write [simp]: "cell (write_cell a m h) b = (if b = a then m else cell h b)"
  by (simp add: cell_def write_cell_def)

lemma fresh_write [simp]: "fresh (write_cell a m h) = fresh h"
  by (simp add: write_cell_def)

lemma alloc_simps [simp]:
  "fst (alloc m h) = fresh h"
  "fresh (snd (alloc m h)) = Suc (fresh h)"
  "cell (snd (alloc m h)) b = (if b = fresh h then m else cell h b)"
  by (simp_all add: alloc_def cell_def)

section \<open>The toolbox operations\<close>

text \<open>
  The conversions \<open>toolbox.AsString\<close>, \<open>AsBoolean\<close>, \<open>AsInt\<close>, \<open>AsFloat\<close> and the methods
  of \<open>data.Map\<close>: \<open>Put\<close>, \<open>Get\<close>, \<open>Has\<close>, \<open>Delete\<close>, \<open>Apply\<close>, \<open>GetMap\<close> on the keys of one map, and
  \<open>GetValue\<close>, \<open>SetValue\<close>, \<open>Expand\<close>, \<open>ExpandAsText\<close> on paths and expressions, which may
  follow references to other maps of the store.
\<close>

record toolbox =
  as_string :: "value \<Rightarrow> string"
  as_bool :: "value \<Rightarrow> bool"
  as_int :: "value \<Rightarrow> int"
  as_float :: "value \<Rightarrow> gofloat"
  as_map :: "value \<Rightarrow> smap"
  tb_put :: "nat \<Rightarrow> string \<Rightarrow> value \<Rightarrow> heap \<Rightarrow> heap"
  tb_get :: "heap \<Rightarrow> nat \<Rightarrow> string \<Rightarrow> value"
  tb_has :: "heap \<Rightarrow> nat \<Rightarrow> string \<Rightarrow> bool"
  tb_delete :: "nat \<Rightarrow> string \<Rightarrow> heap \<Rightarrow> heap"
  tb_apply :: "nat \<Rightarrow> smap \<Rightarrow> heap \<Rightarrow> heap"
  tb_get_map :: "heap \<Rightarrow> nat \<Rightarrow> string \<Rightarrow> smap"
  get_value :: "heap \<Rightarrow> nat \<Rightarrow> string \<Rightarrow> value \<times> bool"
  set_value :: "nat \<Rightarrow> string \<Rightarrow> value \<Rightarrow> heap \<Rightarrow> heap"
  expand :: "heap \<Rightarrow> nat \<Rightarrow> value \<Rightarrow> value"
  expand_text :: "heap \<Rightarrow> nat \<Rightarrow> string \<Rightarrow> string"

text \<open>
  The documented behaviour of the map methods: \<open>Put\<close> stores under the key and touches
  nothing else, \<open>Get\<close> and \<open>Has\<close> read the key, \<open>Delete\<close> removes it, and none of them
  allocates a map.
\<close>

definition map_laws :: "toolbox \<Rightarrow> bool" where
  "map_laws tb \<longleftrightarrow>
     (\<forall>a k v h b. cell (tb_put tb a k v h) b = (if b = a then mput k v (cell h a) else cell h b)) \<and>
     (\<forall>a k h b. cell (tb_delete tb a k h) b = (if b = a then mdel k (cell h a) else cell h b)) \<and>
     (\<forall>h a k. tb_get tb h a k = (case mget (cell h a) k of None \<Rightarrow> VNil | Some v \<Rightarrow> v)) \<and>
     (\<forall>h a k. tb_has tb h a k = mhas (cell h a) k) \<and>
     (\<forall>a m h b. cell (tb_apply tb a m h) b = (if b = a then mput_all m (cell h a) else cell h b)) \<and>
     (\<forall>a k v h. fresh (tb_put tb a k v h) = fresh h) \<and>
     (\<forall>a k h. fresh (tb_delete tb a k h) = fresh h) \<and>
     (\<forall>a m h. fresh (tb_apply tb a m h) = fresh h)"

lemma map_laws_put [map_law]:
  "map_laws tb \<Longrightarrow> cell (tb_put tb a k v h) b = (if b = a then mput k v (cell h a) else cell h b)"
  "map_laws tb \<Longrightarrow> fresh (tb_put tb a k v h) = fresh h"
  by (simp_all add: map_laws_def)

lemma map_laws_delete [map_law]:
  "map_laws tb \<Longrightarrow> cell (tb_delete tb a k h) b = (if b = a then mdel k (cell h a) else cell h b)"
  "map_laws tb \<Longrightarrow> fresh (tb_delete tb a k h) = fresh h"
  by (simp_all add: map_laws_def)

lemma map_laws_get [map_law]:
  "map_laws tb \<Longrightarrow> tb_get tb h a k = (case mget (cell h a) k of None \<Rightarrow> VNil | Some v \<Rightarrow> v)"
  "map_laws tb \<Longrightarrow> tb_has tb h a k = mhas (cell h a) k"
  by (simp_all add: map_laws_def)

lemma map_laws_apply [map_law]:
  "map_laws tb \<Longrightarrow> cell (tb_apply tb a m h) b = (if b = a then mput_all m (cell h a) else cell h b)"
  "map_laws tb \<Longrightarrow> fresh (tb_apply tb a m h) = fresh h"
  by (simp_all add: map_laws_def)

end
