(* ===== verification/Go_Strings.thy ===== *)
theory Go_Strings
  imports Go_Base "HOL-Library.Sublist" "HOL-Library.Char_ord"
begin

text \<open>
  Prelude, part two: the functions of Go's packages \<open>strings\<close>, \<open>path\<close> and \<open>unicode/utf8\<close>
  that the repository uses, on byte strings (\<open>string\<close>, a list of \<open>char\<close>). A position
  that Go reports as \<open>-1\<close> is \<open>None\<close>. The separators and cut sets of the source are
  non-empty ASCII constants. The lemmas at the end of each section are the ones the
  components share.
\<close>

section \<open>Searching\<close>

fun index_of :: "string \<Rightarrow> string \<Rightarrow> nat option" where
  "index_of [] sub = (if sub = [] then Some 0 else None)"
| "index_of (c # s) sub =
     (if prefix sub (c # s) then Some 0 else map_option Suc (index_of s sub))"

fun last_index_of :: "string \<Rightarrow> string \<Rightarrow> nat option" where
  "last_index_of [] sub = (if sub = [] then Some 0 else None)"
| "last_index_of (c # s) sub =
     (case last_index_of s sub of
        Some i \<Rightarrow> Some (Suc i)
      | None \<Rightarrow> if prefix sub (c # s) then Some 0 else None)"

definition contains :: "string \<Rightarrow> string \<Rightarrow> bool" where
  "contains s sub \<longleftrightarrow> index_of s sub \<noteq> None"

definition has_prefix :: "string \<Rightarrow> string \<Rightarrow> bool" where
  "has_prefix s p \<longleftrightarrow> prefix p s"

definition has_suffix :: "string \<Rightarrow> string \<Rightarrow> bool" where
  "has_suffix s p \<longleftrightarrow> suffix p s"

lemma index_of_Some:
  "index_of s sub = Some i \<Longrightarrow> i + length sub \<le> length s \<and> take (length sub) (drop i s) = sub"
proof (induction s arbitrary: i)
  case Nil
  then show ?case by (auto split: if_splits)
next
  case (Cons c s)
  show ?case
  proof (cases "prefix sub (c # s)")
    case True
    with Cons.prems have "i = 0" by simp
    with True show ?thesis using prefix_length_le [OF True] by (auto simp: prefix_def)
  next
    case False
    with Cons.prems obtain j where "index_of s sub = Some j" "i = Suc j" by auto
    with Cons.IH show ?thesis by auto
  qed
qed

lemma index_of_split:
  assumes "index_of s sub = Some i"
  shows "s = take i s @ sub @ drop (i + length sub) s"
proof -
  have "take (length sub) (drop i s) = sub" using index_of_Some [OF assms] by simp
  then have "drop i s = sub @ drop (length sub) (drop i s)"
    by (metis append_take_drop_id)
  then have "drop i s = sub @ drop (i + length sub) s" by (simp add: add.commute)
  then show ?thesis by (metis append_take_drop_id)
qed

lemma last_index_of_Some:
  "last_index_of s sub = Some i \<Longrightarrow> i + length sub \<le> length s \<and> take (length sub) (drop i s) = sub"
proof (induction s arbitrary: i)
  case Nil
  then show ?case by (auto split: if_splits)
next
  case (Cons c s)
  then show ?case
    using prefix_length_le [of sub "c # s"]
    by (auto simp: prefix_def split: option.splits if_splits)
qed

lemma last_index_of_split:
  assumes "last_index_of s sub = Some i"
  shows "s = take i s @ sub @ drop (i + length sub) s"
proof -
  have "take (length sub) (drop i s) = sub" using last_index_of_Some [OF assms] by simp
  then have "drop i s = sub @ drop (length sub) (drop i s)"
    by (metis append_take_drop_id)
  then have "drop i s = sub @ drop (i + length sub) s" by (simp add: add.commute)
  then show ?thesis by (metis append_take_drop_id)
qed

lemma last_index_None_iff: "last_index_of s sub = None \<longleftrightarrow> index_of s sub = None"
  by (induction s) (auto split: option.splits)

lemma index_of_char_None: "index_of s [c] = None \<longleftrightarrow> c \<notin> set s"
  by (induction s) (auto simp: prefix_def)

lemma contains_char [simp]: "contains s [c] \<longleftrightarrow> c \<in> set s"
  by (simp add: contains_def index_of_char_None)

lemma index_of_char_append:
  "c \<notin> set p \<Longrightarrow> index_of (p @ c # s) [c] = Some (length p)"
  by (induction p) (auto simp: prefix_def)

lemma last_index_char_append:
  "c \<notin> set s \<Longrightarrow> last_index_of (p @ c # s) [c] = Some (length p)"
proof (induction p)
  case Nil
  then have "last_index_of s [c] = None" by (simp add: last_index_None_iff index_of_char_None)
  then show ?case by simp
next
  case (Cons a p)
  then show ?case by simp
qed

lemma last_index_char_None: "last_index_of s [c] = None \<longleftrightarrow> c \<notin> set s"
  by (simp add: last_index_None_iff index_of_char_None)

section \<open>Splitting and joining\<close>

text \<open>\<open>strings.Split\<close> by a non-empty separator, and \<open>strings.SplitN\<close> with \<open>n = 2\<close>.\<close>

function split_on :: "string \<Rightarrow> string \<Rightarrow> string list" where
  "split_on sep s =
     (if sep = [] then [s]
      else case index_of s sep of
             None \<Rightarrow> [s]
           | Some i \<Rightarrow> take i s # split_on sep (drop (i + length sep) s))"
  by pat_completeness auto
termination
proof (relation "measure (\<lambda>(sep, s). length s)")
  fix sep s :: string and i
  assume "sep \<noteq> []" "index_of s sep = Some i"
  then show "((sep, drop (i + length sep) s), (sep, s)) \<in> measure (\<lambda>(sep, s). length s)"
    using index_of_Some [of s sep i] by (cases sep) auto
qed simp

declare split_on.simps [simp del]

definition split2 :: "string \<Rightarrow> string \<Rightarrow> string list" where
  "split2 sep s =
     (case index_of s sep of
        None \<Rightarrow> [s]
      | Some i \<Rightarrow> [take i s, drop (i + length sep) s])"

fun join :: "string \<Rightarrow> string list \<Rightarrow> string" where
  "join sep [] = []"
| "join sep [x] = x"
| "join sep (x # y # xs) = x @ sep @ join sep (y # xs)"

lemma split_on_nonempty: "split_on sep s \<noteq> []"
  by (subst split_on.simps) (auto split: option.splits)

lemma join_Cons: "xs \<noteq> [] \<Longrightarrow> join sep (x # xs) = x @ sep @ join sep xs"
  by (cases xs) auto

lemma join_split_on: "join sep (split_on sep s) = s"
proof (induction sep s rule: split_on.induct)
  case (1 sep s)
  show ?case
  proof (cases "sep = [] \<or> index_of s sep = None")
    case True
    then show ?thesis by (subst split_on.simps) auto
  next
    case False
    then obtain i where i: "sep \<noteq> []" "index_of s sep = Some i" by auto
    with "1.IH" have "join sep (split_on sep (drop (i + length sep) s)) = drop (i + length sep) s"
      by simp
    with i show ?thesis
      by (subst split_on.simps) (simp add: join_Cons split_on_nonempty flip: index_of_split)
  qed
qed

lemma split_on_no_sep: "c \<notin> set s \<Longrightarrow> split_on [c] s = [s]"
  by (subst split_on.simps) (simp add: index_of_char_None [THEN iffD2])

lemma split_on_char_Cons:
  "c \<notin> set p \<Longrightarrow> split_on [c] (p @ c # s) = p # split_on [c] s"
  by (subst split_on.simps) (simp add: index_of_char_append)

lemma split_on_join:
  assumes "xs \<noteq> []" and "\<forall>x\<in>set xs. c \<notin> set x"
  shows "split_on [c] (join [c] xs) = xs"
  using assms
proof (induction xs)
  case Nil
  then show ?case by simp
next
  case (Cons x xs)
  show ?case
  proof (cases "xs = []")
    case True
    with Cons.prems show ?thesis by (simp add: split_on_no_sep)
  next
    case False
    with Cons show ?thesis by (simp add: join_Cons split_on_char_Cons)
  qed
qed

lemma split_on_char_parts: "x \<in> set (split_on [c] s) \<Longrightarrow> c \<notin> set x"
proof (induction "[c]" s rule: split_on.induct)
  case (1 s)
  show ?case
  proof (cases "index_of s [c]")
    case None
    with "1.prems" show ?thesis
      by (subst (asm) split_on.simps) (simp add: index_of_char_None)
  next
    case (Some i)
    have notin: "index_of s [c] = Some i \<Longrightarrow> c \<notin> set (take i s)" for s i
    proof (induction s arbitrary: i)
      case Nil
      then show ?case by simp
    next
      case (Cons a s)
      show ?case
      proof (cases "a = c")
        case True
        with Cons.prems show ?thesis by (simp add: prefix_def)
      next
        case False
        with Cons.prems obtain j where "index_of s [c] = Some j" "i = Suc j"
          by (auto simp: prefix_def split: if_splits)
        with Cons.IH False show ?thesis by simp
      qed
    qed
    from Some "1.prems" have "x = take i s \<or> x \<in> set (split_on [c] (drop (i + 1) s))"
      by (subst (asm) split_on.simps) simp
    with "1.hyps" Some notin show ?thesis by auto
  qed
qed

section \<open>Trimming\<close>

text \<open>
  \<open>strings.TrimSpace\<close> removes the Unicode white space at both ends. \<open>space_len\<close> is the
  number of bytes of the white space rune at the front of a string, 0 if there is none:
  the six ASCII ones, and the UTF-8 sequences of U+0085, U+00A0, U+1680, U+2000 to U+200A,
  U+2028, U+2029, U+202F, U+205F and U+3000.
\<close>

definition ascii_space :: "char \<Rightarrow> bool" where
  "ascii_space c \<longleftrightarrow> of_char c \<in> {9, 10, 11, 12, 13, 32 :: nat}"

definition space_seqs :: "nat list list" where
  "space_seqs =
     [[194, 133], [194, 160], [225, 154, 128], [226, 128, 168], [226, 128, 169],
      [226, 128, 175], [226, 129, 159], [227, 128, 128]]
     @ map (\<lambda>b. [226, 128, b]) [128..<139]"

definition space_len :: "string \<Rightarrow> nat" where
  "space_len s =
     (case s of
        [] \<Rightarrow> 0
      | c # _ \<Rightarrow> if ascii_space c then 1
               else case find (\<lambda>q. prefix q (map of_char s)) space_seqs of
                      None \<Rightarrow> 0
                    | Some q \<Rightarrow> length q)"

definition rspace_len :: "string \<Rightarrow> nat" where
  "rspace_len s =
     (case rev s of
        [] \<Rightarrow> 0
      | c # _ \<Rightarrow> if ascii_space c then 1
               else case find (\<lambda>q. suffix q (map of_char s)) space_seqs of
                      None \<Rightarrow> 0
                    | Some q \<Rightarrow> length q)"

function trim_left_space :: "string \<Rightarrow> string" where
  "trim_left_space s =
     (if s = [] \<or> space_len s = 0 then s else trim_left_space (drop (space_len s) s))"
  by pat_completeness auto
termination by (relation "measure length") auto

function trim_right_space :: "string \<Rightarrow> string" where
  "trim_right_space s =
     (if s = [] \<or> rspace_len s = 0 then s
      else trim_right_space (take (length s - rspace_len s) s))"
  by pat_completeness auto
termination by (relation "measure length") auto

declare trim_left_space.simps [simp del] trim_right_space.simps [simp del]

definition trim_space :: "string \<Rightarrow> string" where
  "trim_space s = trim_right_space (trim_left_space s)"

definition trim_right :: "string \<Rightarrow> char \<Rightarrow> string" where
  "trim_right s c = rev (dropWhile (\<lambda>x. x = c) (rev s))"

definition trim_left :: "string \<Rightarrow> char \<Rightarrow> string" where
  "trim_left s c = dropWhile (\<lambda>x. x = c) s"

definition trim_char :: "string \<Rightarrow> char \<Rightarrow> string" where
  "trim_char s c = trim_right (trim_left s c) c"

text \<open>A string of printable ASCII characters is left alone.\<close>

definition plain_text :: "string \<Rightarrow> bool" where
  "plain_text s \<longleftrightarrow> (\<forall>c\<in>set s. 33 \<le> (of_char c :: nat) \<and> (of_char c :: nat) < 127)"

lemma space_seqs_hd: "q \<in> set space_seqs \<Longrightarrow> q \<noteq> [] \<and> 127 \<le> hd q"
  by (auto simp: space_seqs_def)

lemma space_seqs_last: "q \<in> set space_seqs \<Longrightarrow> q \<noteq> [] \<and> 127 \<le> last q"
  by (auto simp: space_seqs_def)

lemma space_len_plain:
  assumes "33 \<le> (of_char c :: nat)" "(of_char c :: nat) < 127"
  shows "space_len (c # s) = 0"
proof -
  have "\<not> prefix q (map of_char (c # s))" if "q \<in> set space_seqs" for q
    using space_seqs_hd [OF that] assms(2) by (cases q) auto
  then have "find (\<lambda>q. prefix q (map of_char (c # s))) space_seqs = None"
    by (simp add: find_None_iff)
  moreover have "\<not> ascii_space c" using assms(1) by (auto simp: ascii_space_def)
  ultimately show ?thesis by (simp add: space_len_def)
qed

lemma rspace_len_plain:
  assumes "33 \<le> (of_char c :: nat)" "(of_char c :: nat) < 127"
  shows "rspace_len (s @ [c]) = 0"
proof -
  have "\<not> suffix q (map of_char (s @ [c]))" if q: "q \<in> set space_seqs" for q
  proof
    assume "suffix q (map of_char (s @ [c]))"
    then obtain zs where "map of_char (s @ [c]) = zs @ q" by (auto simp: suffix_def)
    then have "last (map of_char (s @ [c])) = last (zs @ q)" by simp
    with space_seqs_last [OF q] assms(2) show False by simp
  qed
  then have "find (\<lambda>q. suffix q (map of_char (s @ [c]))) space_seqs = None"
    by (simp add: find_None_iff)
  moreover have "\<not> ascii_space c" using assms(1) by (auto simp: ascii_space_def)
  ultimately show ?thesis by (simp add: rspace_len_def)
qed

lemma trim_space_plain: "plain_text s \<Longrightarrow> trim_space s = s"
proof -
  assume p: "plain_text s"
  have "s = [] \<or> space_len s = 0"
    using p by (cases s) (simp_all add: plain_text_def space_len_plain)
  then have "trim_left_space s = s" by (simp add: trim_left_space.simps [of s])
  moreover have "s = [] \<or> rspace_len s = 0"
    using p by (cases s rule: rev_cases) (simp_all add: plain_text_def rspace_len_plain)
  then have "trim_right_space s = s" by (simp add: trim_right_space.simps [of s])
  moreover note p
  ultimately show ?thesis by (simp add: trim_space_def)
qed

lemma trim_space_Nil [simp]: "trim_space [] = []"
  by (simp add: trim_space_def trim_left_space.simps trim_right_space.simps)

text \<open>Trimming a trimmed string does nothing.\<close>

lemma trim_left_done: "trim_left_space s = [] \<or> space_len (trim_left_space s) = 0"
proof (induction s rule: trim_left_space.induct)
  case (1 s)
  show ?case
  proof (cases "s = [] \<or> space_len s = 0")
    case True
    then have "trim_left_space s = s" by (simp add: trim_left_space.simps [of s])
    with True show ?thesis by simp
  next
    case False
    then have "trim_left_space s = trim_left_space (drop (space_len s) s)"
      by (simp add: trim_left_space.simps [of s])
    with 1 [OF False] show ?thesis by simp
  qed
qed

lemma trim_right_done: "trim_right_space s = [] \<or> rspace_len (trim_right_space s) = 0"
proof (induction s rule: trim_right_space.induct)
  case (1 s)
  show ?case
  proof (cases "s = [] \<or> rspace_len s = 0")
    case True
    then have "trim_right_space s = s" by (simp add: trim_right_space.simps [of s])
    with True show ?thesis by simp
  next
    case False
    then have "trim_right_space s = trim_right_space (take (length s - rspace_len s) s)"
      by (simp add: trim_right_space.simps [of s])
    with 1 [OF False] show ?thesis by simp
  qed
qed

lemma trim_right_prefix: "prefix (trim_right_space s) s"
proof (induction s rule: trim_right_space.induct)
  case (1 s)
  then show ?case
    using take_is_prefix [of "length s - rspace_len s" s] prefix_order.trans
    by (cases "s = [] \<or> rspace_len s = 0") (auto simp: trim_right_space.simps [of s])
qed

lemma space_len_prefix:
  assumes "prefix t s" "t \<noteq> []" "space_len s = 0"
  shows "space_len t = 0"
proof -
  obtain c t' s' where ct: "t = c # t'" "s = c # s'" "prefix t' s'" using assms(1,2) by (cases t; cases s) auto
  have c: "\<not> ascii_space c" using assms(3) by (auto simp: ct space_len_def)
  have seq: "find (\<lambda>q. prefix q (map of_char s)) space_seqs = None"
  proof (cases "find (\<lambda>q. prefix q (map of_char s)) space_seqs")
    case (Some q)
    then have "q \<in> set space_seqs" by (auto simp: find_Some_iff)
    with Some assms(3) c space_seqs_hd [of q] show ?thesis by (simp add: ct space_len_def)
  qed
  have "\<not> prefix q (map of_char t)" if "q \<in> set space_seqs" for q
    using seq that prefix_order.trans [of q "map of_char t" "map of_char s"] map_mono_prefix [OF assms(1)]
    by (auto simp: find_None_iff)
  then have "find (\<lambda>q. prefix q (map of_char t)) space_seqs = None" by (simp add: find_None_iff)
  with c show ?thesis by (simp add: ct space_len_def)
qed

lemma trim_space_idem [simp]: "trim_space (trim_space s) = trim_space s"
proof (cases "trim_space s = []")
  case False
  let ?l = "trim_left_space s"
  have "?l \<noteq> []" using False by (auto simp: trim_space_def trim_right_space.simps [of "[]"])
  then have "space_len ?l = 0" using trim_left_done by blast
  then have "space_len (trim_space s) = 0"
    using False trim_right_prefix [of ?l] space_len_prefix by (auto simp: trim_space_def)
  then have "trim_left_space (trim_space s) = trim_space s"
    by (simp add: trim_left_space.simps [of "trim_space s"])
  moreover have "rspace_len (trim_space s) = 0"
    using False trim_right_done [of ?l] by (simp add: trim_space_def)
  then have "trim_right_space (trim_space s) = trim_space s"
    by (simp add: trim_right_space.simps [of "trim_space s"])
  ultimately show ?thesis by (simp add: trim_space_def)
qed simp

section \<open>Replacing, counting, letter case\<close>

definition replace_first :: "string \<Rightarrow> string \<Rightarrow> string \<Rightarrow> string" where
  "replace_first s old new =
     (case index_of s old of
        None \<Rightarrow> s
      | Some i \<Rightarrow> take i s @ new @ drop (i + length old) s)"

definition replace_all :: "string \<Rightarrow> string \<Rightarrow> string \<Rightarrow> string" where
  "replace_all s old new = join new (split_on old s)"

definition count_of :: "string \<Rightarrow> string \<Rightarrow> nat" where
  "count_of s sub = length (split_on sub s) - 1"

text \<open>ASCII letters only: the keys the source lowers are identifiers.\<close>

definition to_lower :: "string \<Rightarrow> string" where
  "to_lower s = map (\<lambda>c. if 65 \<le> (of_char c :: nat) \<and> (of_char c :: nat) \<le> 90
                         then char_of ((of_char c :: nat) + 32) else c) s"

definition is_digit :: "char \<Rightarrow> bool" where
  "is_digit c \<longleftrightarrow> 48 \<le> (of_char c :: nat) \<and> (of_char c :: nat) \<le> 57"

definition is_letter :: "char \<Rightarrow> bool" where
  "is_letter c \<longleftrightarrow> (65 \<le> (of_char c :: nat) \<and> (of_char c :: nat) \<le> 90) \<or>
                   (97 \<le> (of_char c :: nat) \<and> (of_char c :: nat) \<le> 122)"

lemma count_of_zero: "count_of s [c] = 0 \<longleftrightarrow> c \<notin> set s"
proof
  assume 0: "count_of s [c] = 0"
  show "c \<notin> set s"
  proof
    assume "c \<in> set s"
    then obtain p q where "s = p @ c # q" "c \<notin> set p" by (meson split_list_first)
    then have "length (split_on [c] s) = Suc (length (split_on [c] q))"
      by (simp add: split_on_char_Cons)
    with 0 split_on_nonempty [of "[c]" q] show False by (simp add: count_of_def)
  qed
qed (simp add: count_of_def split_on_no_sep)

section \<open>Decimal numbers\<close>

fun nat_digits :: "nat \<Rightarrow> string" where
  "nat_digits n = (if n < 10 then [char_of (48 + n)]
                   else nat_digits (n div 10) @ [char_of (48 + n mod 10)])"

declare nat_digits.simps [simp del]

definition show_int :: "int \<Rightarrow> string" where
  "show_int i = (if i < 0 then CHR ''-'' # nat_digits (nat (- i)) else nat_digits (nat i))"

lemma nat_digits_nonempty: "nat_digits n \<noteq> []"
  by (subst nat_digits.simps) simp

lemma nat_digits_digit: "c \<in> set (nat_digits n) \<Longrightarrow> is_digit c"
proof (induction n rule: nat_digits.induct)
  case (1 n)
  show ?case
  proof (cases "n < 10")
    case True
    with "1.prems" show ?thesis by (subst (asm) nat_digits.simps) (simp add: is_digit_def)
  next
    case False
    with "1.prems" have "c \<in> set (nat_digits (n div 10)) \<or> c = char_of (48 + n mod 10)"
      by (subst (asm) nat_digits.simps) auto
    with "1.IH" False show ?thesis by (auto simp: is_digit_def)
  qed
qed

section \<open>Paths\<close>

text \<open>\<open>path.Split\<close> and \<open>path.Ext\<close>.\<close>

definition path_split :: "string \<Rightarrow> string \<times> string" where
  "path_split p =
     (case last_index_of p ''/'' of
        None \<Rightarrow> ([], p)
      | Some i \<Rightarrow> (take (Suc i) p, drop (Suc i) p))"

fun path_ext_rev :: "string \<Rightarrow> string \<Rightarrow> string" where
  "path_ext_rev [] acc = []"
| "path_ext_rev (c # cs) acc =
     (if c = CHR ''/'' then [] else if c = CHR ''.'' then c # acc
      else path_ext_rev cs (c # acc))"

definition path_ext :: "string \<Rightarrow> string" where
  "path_ext p = path_ext_rev (rev p) []"

lemma path_split_append: "fst (path_split p) @ snd (path_split p) = p"
  by (simp add: path_split_def split: option.splits)

lemma path_ext_rev_suffix: "path_ext_rev cs acc = [] \<or> (\<exists>q. rev cs @ acc = q @ path_ext_rev cs acc)"
proof (induction cs arbitrary: acc)
  case Nil
  then show ?case by simp
next
  case (Cons c cs)
  from Cons.IH [of "c # acc"] show ?case by auto
qed

lemma path_ext_suffix: "\<exists>q. p = q @ path_ext p"
  using path_ext_rev_suffix [of "rev p" "[]"] by (auto simp: path_ext_def)

lemma path_ext_append_nil:
  assumes "CHR ''.'' \<notin> set p"
  shows "path_ext p = []"
proof -
  have "CHR ''.'' \<notin> set cs \<Longrightarrow> path_ext_rev cs acc = []" for cs acc
    by (induction cs arbitrary: acc) auto
  with assms show ?thesis by (simp add: path_ext_def)
qed

end
