(* ===== verification/Criteria_Ast.thy ===== *)
theory Criteria_Ast
  imports Go_Strings
begin

text \<open>
  model/criteria/ast and model/criteria/matcher: the nodes of a parsed criteria, their
  printing, and the three hand written matchers. A nil \<open>ast.Node\<close> is \<open>None\<close>. The lexer
  package viant/parsly is not part of the repository: \<open>parsly\<close> is its interface, and
  \<open>parsly_ok\<close> its documented behaviour.
\<close>

section \<open>Nodes\<close>

datatype node =
    Literal string string string
  | Selector string
  | Unary "node option" string
  | Binary "node option" string "node option"
  | Group "node option"

text \<open>\<open>Literal v t q\<close> has value, type and quote; \<open>Unary x op\<close> and \<open>Binary x op y\<close> keep
  the field order of the structs. \<open>Stringify\<close> of a nil operand is a nil dereference.\<close>

definition literal_stringify :: "string \<Rightarrow> string \<Rightarrow> string \<Rightarrow> string" where
  "literal_stringify v t q =
     (if t = ''string'' \<and> q \<noteq> [] then q @ v @ q else v)"

fun stringify :: "node \<Rightarrow> go_error + string"
  and stringify_opt :: "node option \<Rightarrow> go_error + string" where
  "stringify (Literal v t q) = Inr (literal_stringify v t q)"
| "stringify (Selector x) = Inr x"
| "stringify (Unary x op) = ebind (stringify_opt x) (\<lambda>s. Inr (op @ '' '' @ s))"
| "stringify (Binary x op y) =
     ebind (stringify_opt x) (\<lambda>s. ebind (stringify_opt y) (\<lambda>t. Inr (s @ '' '' @ op @ '' '' @ t)))"
| "stringify (Group x) = ebind (stringify_opt x) (\<lambda>s. Inr (''('' @ s @ '')''))"
| "stringify_opt None = Inl (Panicked ''nil pointer dereference'')"
| "stringify_opt (Some n) = stringify n"

section \<open>The lexer interface\<close>

datatype tok =
    TParen | TLogical | TUnary | TBinary | TSingle | TDouble | TBool | TString | TNumeric
  | TSelector | TQuestion | TTermInc | TTermExc | TColon

text \<open>The outcome of \<open>cursor.MatchAfterOptional(whitespaceMatcher, ...)\<close>: the code, the
  position of the matched text and the cursor position afterwards.\<close>

datatype mcode = MEof | MInvalid | MTok tok

record tok_match =
  tm_code :: mcode
  tm_from :: nat
  tm_pos :: nat

record parsly =
  ps_letter :: "char \<Rightarrow> bool"
  ps_space :: "char \<Rightarrow> bool"
  ps_match :: "tok list \<Rightarrow> string \<Rightarrow> nat \<Rightarrow> tok_match"
  ps_error :: "tok list \<Rightarrow> string \<Rightarrow> nat \<Rightarrow> string"

definition match_text :: "string \<Rightarrow> tok_match \<Rightarrow> string" where
  "match_text inp m = take (tm_pos m - tm_from m) (drop (tm_from m) inp)"

text \<open>
  What the parser relies on: the cursor never moves back and stays in the input, a matched
  token is one of the candidates and consumes at least one byte, and a block or a quoted
  string has both its delimiters.
\<close>

definition parsly_ok :: "parsly \<Rightarrow> bool" where
  "parsly_ok ps \<longleftrightarrow>
     (\<forall>toks inp pos. pos \<le> length inp \<longrightarrow>
        (let m = ps_match ps toks inp pos in
           pos \<le> tm_pos m \<and> tm_pos m \<le> length inp \<and>
           (\<forall>t. tm_code m = MTok t \<longrightarrow>
              t \<in> set toks \<and> pos \<le> tm_from m \<and> tm_from m < tm_pos m \<and>
              (t \<in> {TParen, TSingle, TDouble} \<longrightarrow> tm_from m + 2 \<le> tm_pos m))))"

lemma parsly_ok_pos:
  "parsly_ok ps \<Longrightarrow> pos \<le> length inp \<Longrightarrow> pos \<le> tm_pos (ps_match ps toks inp pos)"
  "parsly_ok ps \<Longrightarrow> pos \<le> length inp \<Longrightarrow> tm_pos (ps_match ps toks inp pos) \<le> length inp"
  by (simp_all add: parsly_ok_def Let_def)

lemma parsly_ok_tok:
  assumes "parsly_ok ps" "pos \<le> length inp" "tm_code (ps_match ps toks inp pos) = MTok t"
  shows "t \<in> set toks" "pos \<le> tm_from (ps_match ps toks inp pos)"
    "tm_from (ps_match ps toks inp pos) < tm_pos (ps_match ps toks inp pos)"
    "t \<in> {TParen, TSingle, TDouble} \<Longrightarrow>
       tm_from (ps_match ps toks inp pos) + 2 \<le> tm_pos (ps_match ps toks inp pos)"
  using assms by (auto simp: parsly_ok_def Let_def)

lemma match_text_length:
  assumes "parsly_ok ps" "pos \<le> length inp"
  shows "length (match_text inp (ps_match ps toks inp pos)) =
    tm_pos (ps_match ps toks inp pos) - tm_from (ps_match ps toks inp pos)"
  using parsly_ok_pos(2) [OF assms, of toks] by (simp add: match_text_def)

section \<open>The matchers\<close>

text \<open>
  A matcher gets the input from the cursor position on and returns the number of matched
  bytes, 0 for no match. An empty rest cannot occur (the cursor is not at the end).
\<close>

fun fragment_loop :: "parsly \<Rightarrow> string \<Rightarrow> int \<Rightarrow> int \<Rightarrow> nat \<Rightarrow> nat" where
  "fragment_loop ps [] ad od m = m"
| "fragment_loop ps (c # cs) ad od m =
     (if od = 0 \<and> ad = 0 \<and> (ps_space ps c \<or> c \<in> {CHR '':'', CHR ''!'', CHR ''=''}) then m
      else if c = CHR ''['' then fragment_loop ps cs (if od = 0 then ad + 1 else ad) od (Suc m)
      else if c = CHR '']'' then fragment_loop ps cs (if od = 0 then ad - 1 else ad) od (Suc m)
      else if c = CHR ''{'' then fragment_loop ps cs ad (if ad = 0 then od + 1 else od) (Suc m)
      else if c = CHR ''}'' then fragment_loop ps cs ad (if ad = 0 then od - 1 else od) (Suc m)
      else fragment_loop ps cs ad od (Suc m))"

definition fragment_match :: "parsly \<Rightarrow> string \<Rightarrow> nat" where
  "fragment_match ps s =
     (case s of [] \<Rightarrow> 0
      | c # cs \<Rightarrow> if ps_letter ps c then fragment_loop ps cs 0 0 1 else 0)"

fun selector_loop :: "parsly \<Rightarrow> string \<Rightarrow> int \<Rightarrow> int \<Rightarrow> nat \<Rightarrow> nat" where
  "selector_loop ps [] d b m = m"
| "selector_loop ps (c # cs) d b m =
     (if is_digit c \<or> c \<in> {CHR ''_'', CHR ''['', CHR '']'', CHR ''.''}
      then selector_loop ps cs d b (Suc m)
      else if c = CHR ''('' then selector_loop ps cs d (if d = 0 then b + 1 else b) (Suc m)
      else if c = CHR '')'' then
        (if d = 0 then if b - 1 = 0 then Suc m else selector_loop ps cs d (b - 1) (Suc m)
         else selector_loop ps cs d b (Suc m))
      else if c = CHR ''{'' then selector_loop ps cs (if b = 0 then d + 1 else d) b (Suc m)
      else if c = CHR ''}'' then
        (if b = 0 then if d - 1 = 0 then Suc m else selector_loop ps cs (d - 1) b (Suc m)
         else selector_loop ps cs d b (Suc m))
      else if 0 < d \<or> 0 < b \<or> ps_letter ps c then selector_loop ps cs d b (Suc m)
      else m)"

definition selector_match :: "parsly \<Rightarrow> string \<Rightarrow> nat" where
  "selector_match ps s =
     (case s of [] \<Rightarrow> 0
      | c # cs \<Rightarrow> if c = CHR ''$'' then selector_loop ps cs 0 0 1 else 0)"

fun terminator_loop :: "char \<Rightarrow> bool \<Rightarrow> string \<Rightarrow> nat \<Rightarrow> nat" where
  "terminator_loop v incl [] m = 0"
| "terminator_loop v incl (c # cs) m =
     (if c = v then (if incl then Suc m else m) else terminator_loop v incl cs (Suc m))"

definition terminator_match :: "char \<Rightarrow> bool \<Rightarrow> string \<Rightarrow> nat" where
  "terminator_match v incl s = terminator_loop v incl (drop 1 s) 1"

text \<open>Every matcher stays inside the input.\<close>

lemma fragment_loop_bounds:
  "m \<le> fragment_loop ps s ad od m \<and> fragment_loop ps s ad od m \<le> m + length s"
proof (induction s arbitrary: ad od m)
  case Nil
  then show ?case by simp
next
  case (Cons c cs)
  have IH: "m \<le> fragment_loop ps cs ad od (Suc m)"
    "fragment_loop ps cs ad od (Suc m) \<le> Suc (m + length cs)" for ad od
    using Cons.IH [of "Suc m" ad od] by simp_all
  show ?case by (simp add: IH)
qed

lemma fragment_match_le: "fragment_match ps s \<le> length s"
  using fragment_loop_bounds [of 1 ps "tl s" 0 0]
  by (auto simp: fragment_match_def split: list.splits)

lemma selector_loop_bounds:
  "m \<le> selector_loop ps s d b m \<and> selector_loop ps s d b m \<le> m + length s"
proof (induction s arbitrary: d b m)
  case Nil
  then show ?case by simp
next
  case (Cons c cs)
  have IH: "m \<le> selector_loop ps cs d b (Suc m)"
    "selector_loop ps cs d b (Suc m) \<le> Suc (m + length cs)" for d b
    using Cons.IH [of "Suc m" d b] by simp_all
  show ?case by (simp add: IH)
qed

lemma selector_match_le: "selector_match ps s \<le> length s"
  using selector_loop_bounds [of 1 ps "tl s" 0 0]
  by (auto simp: selector_match_def split: list.splits)

lemma terminator_loop_bounds: "terminator_loop v incl s m \<le> m + length s"
proof (induction s arbitrary: m)
  case Nil
  then show ?case by simp
next
  case (Cons c cs)
  from Cons.IH [of "Suc m"] show ?case by simp
qed

text \<open>A terminator match ends at the first terminator after the first byte.\<close>

lemma terminator_loop_found:
  "v \<notin> set p \<Longrightarrow>
     terminator_loop v incl (p @ v # q) m = m + length p + (if incl then 1 else 0)"
  by (induction p arbitrary: m) auto

end
