(* ===== verification/Criteria_Parser.thy ===== *)
theory Criteria_Parser
  imports Criteria_Ast
begin

text \<open>
  model/criteria/parser: the recursive descent parser of criteria (\<open>ParseCriteria\<close>) and of
  variable declarations (\<open>ParseDeclaration\<close>). The cursor is its input and a position,
  passed explicitly. The recursion spends fuel; \<open>parse_fuel\<close> is enough for every input
  (\<open>parse_terminates\<close>), so running out, which Go would report as a stack overflow, does not
  happen for a lexer that makes progress.

  \<open>parseQualify\<close> is only ever called with an empty \<open>ast.Binary\<close>, so the model builds the
  three fields instead of receiving them.
\<close>

section \<open>Operators of the two levels\<close>

definition default_operands :: "tok list" where
  "default_operands =
     [TBool, TDouble, TSingle, TNumeric, TUnary, TBinary, TLogical, TSelector, TParen, TString]"

fun normalize_binary :: "node option \<Rightarrow> string \<Rightarrow> node option \<Rightarrow> node option \<times> string \<times> node option" where
  "normalize_binary x op y =
     (if op = ''&&'' \<or> op = ''||'' then (x, op, y)
      else case y of
        Some (Binary yx yop yy) \<Rightarrow>
          (Some (Binary x op yx), yop,
           case yy of
             Some (Binary a o' b) \<Rightarrow>
               (case normalize_binary a o' b of (a', o'', b') \<Rightarrow> Some (Binary a' o'' b'))
           | _ \<Rightarrow> yy)
      | _ \<Rightarrow> (x, op, y))"

declare normalize_binary.simps [simp del]

text \<open>The end of \<open>parseQualify\<close>: the right operand is attached and the result normalized.\<close>

definition attach_right ::
  "node option \<Rightarrow> string \<Rightarrow> node option \<times> string \<times> node option \<Rightarrow> node option \<times> string \<times> node option" where
  "attach_right x op yexpr =
     (case yexpr of (yx, yop, yy) \<Rightarrow>
        let y1 = (if yx \<noteq> None then Some (Binary yx yop yy) else None);
            y2 = (if yop = [] \<and> yy = None then yx else y1)
        in normalize_binary x op y2)"

definition inner_text :: "string \<Rightarrow> go_error + string" where
  "inner_text s =
     (if length s < 2 then Inl (Panicked ''slice bounds out of range'')
      else Inr (take (length s - 2) (drop 1 s)))"

section \<open>The parser\<close>

text \<open>
  One layer of the recursive descent: \<open>operand_step\<close>, \<open>qualify_step\<close> and \<open>criteria_step\<close>
  are the bodies of \<open>expectOperand\<close>, \<open>parseQualify\<close> and \<open>ParseCriteria\<close>, their recursive
  calls being the arguments \<open>E\<close>, \<open>Q\<close> and \<open>C\<close>; \<open>parser_layer\<close> ties the knot.
\<close>

type_synonym operand_fn = "tok list \<Rightarrow> string \<Rightarrow> nat \<Rightarrow> ((go_error + node option) \<times> nat) option"
type_synonym qualify_fn =
  "bool \<Rightarrow> string \<Rightarrow> string \<Rightarrow> nat \<Rightarrow> ((go_error + (node option \<times> string \<times> node option)) \<times> nat) option"
type_synonym criteria_fn = "string \<Rightarrow> (go_error + node) option"

definition token_operand ::
  "operand_fn \<Rightarrow> criteria_fn \<Rightarrow> tok \<Rightarrow> string \<Rightarrow> string \<Rightarrow> nat \<Rightarrow> nat \<Rightarrow> ((go_error + node option) \<times> nat) option" where
  "token_operand E C t txt inp pos p =
     (case t of
        TTermInc \<Rightarrow> Some (Inr (Some (Literal txt ''string'' [])), p)
      | TTermExc \<Rightarrow> Some (Inr (Some (Literal txt ''string'' [])), p)
      | TBool \<Rightarrow> Some (Inr (Some (Literal txt ''bool'' [])), p)
      | TString \<Rightarrow> Some (Inr (Some (Literal txt ''string'' [])), p)
      | TNumeric \<Rightarrow> Some (Inr (Some (Literal txt ''numeric'' [])), p)
      | TSingle \<Rightarrow>
          Some (ebind (inner_text txt) (\<lambda>s. Inr (Some (Literal s ''string'' [char_of (39::nat)]))), p)
      | TDouble \<Rightarrow>
          Some (ebind (inner_text txt) (\<lambda>s. Inr (Some (Literal s ''string'' [char_of (34::nat)]))), p)
      | TUnary \<Rightarrow>
          (case E [] inp p of
             None \<Rightarrow> None
           | Some (r, p') \<Rightarrow> Some (ebind r (\<lambda>x. Inr (Some (Unary x txt))), p'))
      | TSelector \<Rightarrow> Some (Inr (Some (Selector txt)), p)
      | TParen \<Rightarrow>
          (case inner_text txt of
             Inl e \<Rightarrow> Some (Inl e, p)
           | Inr block \<Rightarrow>
               (case C block of
                  None \<Rightarrow> None
                | Some r \<Rightarrow> Some (ebind r (\<lambda>q. Inr (Some (Group (Some q)))), p)))
      | _ \<Rightarrow> Some (Inr None, pos))"

definition operand_step :: "parsly \<Rightarrow> operand_fn \<Rightarrow> criteria_fn \<Rightarrow> operand_fn" where
  "operand_step ps E C toks inp pos =
     (let ops = (if toks = [] then default_operands else toks);
          m = ps_match ps ops inp pos
      in case tm_code m of
           MEof \<Rightarrow> Some (Inr None, tm_pos m)
         | MInvalid \<Rightarrow> Some (Inl (PlainErr (ps_error ps ops inp (tm_pos m))), tm_pos m)
         | MTok t \<Rightarrow> token_operand E C t (match_text inp m) inp pos (tm_pos m))"

definition qualify_tail ::
  "parsly \<Rightarrow> qualify_fn \<Rightarrow> bool \<Rightarrow> string \<Rightarrow> string \<Rightarrow> node option \<Rightarrow> nat
     \<Rightarrow> ((go_error + (node option \<times> string \<times> node option)) \<times> nat) option" where
  "qualify_tail ps Q decl term inp x p =
     (let m = ps_match ps [TParen, TBinary, TUnary, TLogical] inp p;
          op = match_text inp m
      in if tm_code m \<in> {MTok TUnary, MTok TLogical, MTok TBinary} then
           (let term' = (if has_suffix op ''/'' then ''/'' else term)
            in case Q decl term' inp (tm_pos m) of
                 None \<Rightarrow> None
               | Some (Inl e, p2) \<Rightarrow> Some (Inl e, p2)
               | Some (Inr yexpr, p2) \<Rightarrow> Some (Inr (attach_right x op yexpr), p2))
         else Some (Inr (x, [], None), tm_pos m))"

definition qualify_step :: "parsly \<Rightarrow> operand_fn \<Rightarrow> qualify_fn \<Rightarrow> qualify_fn" where
  "qualify_step ps E Q decl term inp pos =
     (let m0 = ps_match ps [TQuestion, TColon] inp pos
      in if decl \<and> tm_code m0 \<in> {MTok TQuestion, MTok TColon} then Some (Inr (None, [], None), pos)
         else
           let pos0 = (if decl then tm_pos m0 else pos);
               toks = (if term = [] then [] else if decl then [TTermInc] else [TTermExc])
           in case E toks inp pos0 of
                None \<Rightarrow> None
              | Some (Inl e, p) \<Rightarrow> Some (Inl e, p)
              | Some (Inr x, p) \<Rightarrow> qualify_tail ps Q decl term inp x p)"

definition criteria_step :: "qualify_fn \<Rightarrow> criteria_fn" where
  "criteria_step Q inp =
     (case Q False [] inp 0 of
        None \<Rightarrow> None
      | Some (Inl e, p) \<Rightarrow> Some (Inl e)
      | Some (Inr (x, op, y), p) \<Rightarrow>
          Some (Inr
            (if op = [] \<and> y = None \<and> x \<noteq> None then
               (case x of Some (Unary u o') \<Rightarrow> Unary u o' | _ \<Rightarrow> Unary x [])
             else Binary x op y)))"

primrec parser_layer :: "parsly \<Rightarrow> nat \<Rightarrow> operand_fn \<times> qualify_fn \<times> criteria_fn" where
  "parser_layer ps 0 = (\<lambda>_ _ _. None, \<lambda>_ _ _ _. None, \<lambda>_. None)"
| "parser_layer ps (Suc n) =
     (case parser_layer ps n of
        (E, Q, C) \<Rightarrow> (operand_step ps E C, qualify_step ps E Q, criteria_step Q))"

definition expect_operand :: "parsly \<Rightarrow> nat \<Rightarrow> operand_fn" where
  "expect_operand ps n = fst (parser_layer ps n)"

definition parse_qualify :: "parsly \<Rightarrow> nat \<Rightarrow> qualify_fn" where
  "parse_qualify ps n = fst (snd (parser_layer ps n))"

definition parse_criteria_fuel :: "parsly \<Rightarrow> nat \<Rightarrow> criteria_fn" where
  "parse_criteria_fuel ps n = snd (snd (parser_layer ps n))"

lemma expect_operand_simps [simp]:
  "expect_operand ps 0 toks inp pos = None"
  "expect_operand ps (Suc n) = operand_step ps (expect_operand ps n) (parse_criteria_fuel ps n)"
  by (simp_all add: expect_operand_def parse_criteria_fuel_def split: prod.splits)

lemma parse_qualify_simps [simp]:
  "parse_qualify ps 0 decl term inp pos = None"
  "parse_qualify ps (Suc n) = qualify_step ps (expect_operand ps n) (parse_qualify ps n)"
  by (simp_all add: expect_operand_def parse_qualify_def split: prod.splits)

lemma parse_criteria_fuel_simps [simp]:
  "parse_criteria_fuel ps 0 inp = None"
  "parse_criteria_fuel ps (Suc n) = criteria_step (parse_qualify ps n)"
  by (simp_all add: parse_criteria_fuel_def parse_qualify_def split: prod.splits)

text \<open>Evaluation unfolds a layer only when it is called.\<close>

lemma expect_operand_code [code]:
  "expect_operand ps n toks inp pos =
     (case n of 0 \<Rightarrow> None
      | Suc k \<Rightarrow> operand_step ps (expect_operand ps k) (parse_criteria_fuel ps k) toks inp pos)"
  by (cases n) simp_all

lemma parse_qualify_code [code]:
  "parse_qualify ps n decl term inp pos =
     (case n of 0 \<Rightarrow> None
      | Suc k \<Rightarrow> qualify_step ps (expect_operand ps k) (parse_qualify ps k) decl term inp pos)"
  by (cases n) simp_all

lemma parse_criteria_fuel_code [code]:
  "parse_criteria_fuel ps n inp =
     (case n of 0 \<Rightarrow> None | Suc k \<Rightarrow> criteria_step (parse_qualify ps k) inp)"
  by (cases n) simp_all

definition parse_fuel :: "string \<Rightarrow> nat" where
  "parse_fuel inp = 3 * length inp + 3"

definition stack_overflow :: go_error where
  "stack_overflow = Panicked ''stack overflow''"

definition parse_criteria :: "parsly \<Rightarrow> string \<Rightarrow> go_error + node" where
  "parse_criteria ps inp =
     (case parse_criteria_fuel ps (parse_fuel inp) inp of
        None \<Rightarrow> Inl stack_overflow
      | Some r \<Rightarrow> r)"

text \<open>
  \<open>parseDeclare\<close>: \<open>[when ?] then [: else]\<close>. Everything that is not such a declaration is
  returned as the value, with no error but the one of a malformed operand.
\<close>

definition parse_declare :: "parsly \<Rightarrow> string \<Rightarrow> (string \<times> string \<times> string) \<times> go_error option" where
  "parse_declare ps inp =
     (let fallback = (([], inp, []), None);
          fuel = parse_fuel inp
      in if inp = [] then (([], [], []), None)
         else if hd inp \<in> {CHR ''<'', CHR ''{'', CHR ''[''} then fallback
         else case parse_qualify ps fuel True [] inp 0 of
           None \<Rightarrow> (([], inp, []), Some stack_overflow)
         | Some (Inl e, p) \<Rightarrow> (if is_panic e then (([], inp, []), Some e) else fallback)
         | Some (Inr q, p) \<Rightarrow>
             (let when = take p inp;
                  m = ps_match ps [TQuestion] inp p
              in if tm_code m \<noteq> MTok TQuestion then fallback
                 else case expect_operand ps fuel [] inp (tm_pos m) of
                   None \<Rightarrow> (([], inp, []), Some stack_overflow)
                 | Some (Inl e, p1) \<Rightarrow> (([], inp, []), Some e)
                 | Some (Inr None, p1) \<Rightarrow> fallback
                 | Some (Inr (Some en), p1) \<Rightarrow>
                     (case stringify en of
                        Inl e \<Rightarrow> (([], inp, []), Some e)
                      | Inr expr \<Rightarrow>
                          (let m2 = ps_match ps [TColon] inp p1;
                               finish = (\<lambda>expr els.
                                 case index_of expr '':'' of
                                   Some i \<Rightarrow> if els = []
                                     then ((when, take i expr, drop (Suc i) expr), None)
                                     else ((when, expr, els), None)
                                 | None \<Rightarrow> ((when, expr, els), None))
                           in if tm_code m2 = MTok TColon then
                                (case expect_operand ps fuel [] inp (tm_pos m2) of
                                   None \<Rightarrow> (([], inp, []), Some stack_overflow)
                                 | Some (Inl e, p2) \<Rightarrow> (([], inp, []), Some e)
                                 | Some (Inr None, p2) \<Rightarrow> fallback
                                 | Some (Inr (Some elsen), p2) \<Rightarrow>
                                     (case stringify elsen of
                                        Inl e \<Rightarrow> (([], inp, []), Some e)
                                      | Inr els \<Rightarrow> finish expr els))
                              else finish expr []))))"

section \<open>Termination\<close>

text \<open>
  Three units of fuel for each remaining byte suffice: every recursive call follows a token
  of at least one byte, or is one of two calls at the same position.
\<close>

definition returns_at :: "nat \<Rightarrow> string \<Rightarrow> ('a \<times> nat) option \<Rightarrow> bool" where
  "returns_at pos inp r \<longleftrightarrow> (\<exists>x p. r = Some (x, p) \<and> pos \<le> p \<and> p \<le> length inp)"

lemma returns_at_Some [simp]: "returns_at pos inp (Some (x, p)) \<longleftrightarrow> pos \<le> p \<and> p \<le> length inp"
  by (simp add: returns_at_def)

lemma returns_at_mono: "returns_at q inp r \<Longrightarrow> pos \<le> q \<Longrightarrow> returns_at pos inp r"
  by (auto simp: returns_at_def)

lemma inner_text_length: "inner_text s = Inr b \<Longrightarrow> length b + 2 = length s"
  by (auto simp: inner_text_def split: if_splits)

lemma operand_step_returns:
  assumes ok: "parsly_ok ps" and pos: "pos \<le> length inp"
    and E: "\<And>q. pos < q \<Longrightarrow> q \<le> length inp \<Longrightarrow> returns_at q inp (E [] inp q)"
    and C: "\<And>b. length b + 2 \<le> length inp - pos \<Longrightarrow> C b \<noteq> None"
  shows "returns_at pos inp (operand_step ps E C toks inp pos)"
proof -
  define ops where "ops = (if toks = [] then default_operands else toks)"
  define m where "m = ps_match ps ops inp pos"
  have step: "operand_step ps E C toks inp pos =
    (case tm_code m of
           MEof \<Rightarrow> Some (Inr None, tm_pos m)
         | MInvalid \<Rightarrow> Some (Inl (PlainErr (ps_error ps ops inp (tm_pos m))), tm_pos m)
         | MTok t \<Rightarrow> token_operand E C t (match_text inp m) inp pos (tm_pos m))"
    by (simp only: operand_step_def ops_def m_def Let_def)
  have p: "pos \<le> tm_pos m" "tm_pos m \<le> length inp"
    using parsly_ok_pos [OF ok pos, of ops] by (simp_all add: m_def)
  show ?thesis
  proof (cases "tm_code m")
    case (MTok t)
    note tk = parsly_ok_tok [OF ok pos, of ops t, folded m_def, OF MTok]
    have lt: "pos < tm_pos m" using tk(2,3) by simp
    from E [OF lt p(2)] have un: "returns_at pos inp (E [] inp (tm_pos m))"
      using p(1) by (rule returns_at_mono)
    have par: "C b \<noteq> None" if "inner_text (match_text inp m) = Inr b" for b
    proof (rule C)
      have "length b + 2 = tm_pos m - tm_from m"
        using inner_text_length [OF that] match_text_length [OF ok pos, of ops] by (simp add: m_def)
      with tk(2) p(2) show "length b + 2 \<le> length inp - pos" by simp
    qed
    have "returns_at pos inp (token_operand E C t (match_text inp m) inp pos (tm_pos m))"
      using un par p pos
      by (cases t) (auto simp: token_operand_def returns_at_def split: sum.splits option.splits)
    then show ?thesis by (simp add: step MTok)
  qed (simp_all add: step p)
qed

lemma qualify_tail_returns:
  assumes ok: "parsly_ok ps" and p: "p \<le> length inp"
    and Q: "\<And>t q. p < q \<Longrightarrow> q \<le> length inp \<Longrightarrow> returns_at q inp (Q decl t inp q)"
  shows "returns_at p inp (qualify_tail ps Q decl term inp x p)"
proof -
  define m where "m = ps_match ps [TParen, TBinary, TUnary, TLogical] inp p"
  have m: "p \<le> tm_pos m" "tm_pos m \<le> length inp"
    using parsly_ok_pos [OF ok p] by (simp_all add: m_def)
  show ?thesis
  proof (cases "tm_code m \<in> {MTok TUnary, MTok TLogical, MTok TBinary}")
    case True
    then obtain t where t: "tm_code m = MTok t" by auto
    have lt: "p < tm_pos m"
      using parsly_ok_tok(2,3) [OF ok p t [unfolded m_def]] by (simp add: m_def)
    have "returns_at p inp (Q decl (if has_suffix (match_text inp m) ''/'' then ''/'' else term) inp (tm_pos m))"
      using Q [OF lt m(2)] m(1) by (rule returns_at_mono)
    with True show ?thesis
      by (auto simp: qualify_tail_def m_def [symmetric] Let_def returns_at_def split: sum.splits)
  next
    case False
    with m show ?thesis by (auto simp: qualify_tail_def m_def [symmetric] Let_def)
  qed
qed

lemma qualify_step_returns:
  assumes ok: "parsly_ok ps" and pos: "pos \<le> length inp"
    and E: "\<And>toks q. pos \<le> q \<Longrightarrow> q \<le> length inp \<Longrightarrow> returns_at q inp (E toks inp q)"
    and Q: "\<And>t q. pos < q \<Longrightarrow> q \<le> length inp \<Longrightarrow> returns_at q inp (Q decl t inp q)"
  shows "returns_at pos inp (qualify_step ps E Q decl term inp pos)"
proof -
  define m0 where "m0 = ps_match ps [TQuestion, TColon] inp pos"
  define pos0 where "pos0 = (if decl then tm_pos m0 else pos)"
  define toks where "toks = (if term = [] then [] else if decl then [TTermInc] else [TTermExc])"
  have p0: "pos \<le> pos0" "pos0 \<le> length inp"
    using parsly_ok_pos [OF ok pos] pos by (simp_all add: pos0_def m0_def)
  obtain r p where e: "E toks inp pos0 = Some (r, p)" "pos0 \<le> p" "p \<le> length inp"
    using E [OF p0, of toks] by (auto simp: returns_at_def)
  have tail: "returns_at pos inp (qualify_tail ps Q decl term inp x p)" for x
  proof (rule returns_at_mono)
    show "returns_at p inp (qualify_tail ps Q decl term inp x p)"
      by (rule qualify_tail_returns [OF ok e(3)]) (use Q p0 e(2) in auto)
  qed (use p0 e(2) in simp)
  show ?thesis
    unfolding qualify_step_def m0_def [symmetric] pos0_def [symmetric] toks_def [symmetric] Let_def e(1)
    using tail pos p0 e by (cases r) auto
qed

lemma parser_returns:
  assumes ok: "parsly_ok ps"
  shows
    "(\<forall>toks inp pos. pos \<le> length inp \<longrightarrow> 3 * (length inp - pos) + 1 \<le> n \<longrightarrow>
        returns_at pos inp (expect_operand ps n toks inp pos)) \<and>
     (\<forall>decl term inp pos. pos \<le> length inp \<longrightarrow> 3 * (length inp - pos) + 2 \<le> n \<longrightarrow>
        returns_at pos inp (parse_qualify ps n decl term inp pos)) \<and>
     (\<forall>inp. 3 * length inp + 3 \<le> n \<longrightarrow> parse_criteria_fuel ps n inp \<noteq> None)"
    (is "?E n \<and> ?Q n \<and> ?C n")
proof (induction n)
  case 0
  show ?case by simp
next
  case (Suc n)
  then have IH: "?E n" "?Q n" "?C n" by blast+
  have "?E (Suc n)"
    using IH(1,3) by (auto intro!: operand_step_returns [OF ok])
  moreover have "?Q (Suc n)"
    using IH(1,2) by (auto intro!: qualify_step_returns [OF ok])
  moreover have "?C (Suc n)"
  proof (intro allI impI)
    fix inp :: string
    assume "3 * length inp + 3 \<le> Suc n"
    with IH(2) have "returns_at 0 inp (parse_qualify ps n False [] inp 0)" by simp
    then show "parse_criteria_fuel ps (Suc n) inp \<noteq> None"
      by (auto simp: returns_at_def criteria_step_def split: sum.splits prod.splits)
  qed
  ultimately show ?case by blast
qed

lemma parse_criteria_returns:
  "parsly_ok ps \<Longrightarrow> parse_criteria_fuel ps (parse_fuel inp) inp \<noteq> None"
  using parser_returns [of ps "parse_fuel inp"] by (simp add: parse_fuel_def)

lemma parse_qualify_returns:
  "parsly_ok ps \<Longrightarrow> returns_at 0 inp (parse_qualify ps (parse_fuel inp) decl term inp 0)"
  using parser_returns [of ps "parse_fuel inp"] by (simp add: parse_fuel_def)

lemma expect_operand_returns:
  "parsly_ok ps \<Longrightarrow> pos \<le> length inp \<Longrightarrow>
     returns_at pos inp (expect_operand ps (parse_fuel inp) toks inp pos)"
  using parser_returns [of ps "parse_fuel inp"] by (simp add: parse_fuel_def)

section \<open>The shape of a chain of comparisons\<close>

text \<open>
  \<open>chain_binary x rest\<close> is what \<open>parseQualify\<close> builds for the operands and operators
  \<open>x op1 y1 op2 y2 ...\<close> (\<open>chain_step\<close> below is its recursion).
\<close>

fun chain_binary :: "node \<Rightarrow> (string \<times> node) list \<Rightarrow> node option \<times> string \<times> node option" where
  "chain_binary x [] = (Some x, [], None)"
| "chain_binary x ((op, y) # rest) = attach_right (Some x) op (chain_binary y rest)"

definition logical :: "string \<Rightarrow> bool" where
  "logical op \<longleftrightarrow> op = ''&&'' \<or> op = ''||''"

fun is_binary :: "node \<Rightarrow> bool" where
  "is_binary (Binary _ _ _) = True"
| "is_binary _ = False"

text \<open>A chain of comparisons \<open>a1 c1 b1 l1 a2 c2 b2 ...\<close> and its intended tree.\<close>

fun flat_comparisons :: "(node \<times> string \<times> node) \<Rightarrow> (string \<times> node \<times> string \<times> node) list
    \<Rightarrow> (string \<times> node) list" where
  "flat_comparisons (a, c, b) [] = [(c, b)]"
| "flat_comparisons (a, c, b) ((l, a', c', b') # rest) =
     (c, b) # (l, a') # flat_comparisons (a', c', b') rest"

fun right_nested :: "(node \<times> string \<times> node) \<Rightarrow> (string \<times> node \<times> string \<times> node) list
    \<Rightarrow> node option \<times> string \<times> node option" where
  "right_nested (a, c, b) [] = (Some a, c, Some b)"
| "right_nested (a, c, b) ((l, a', c', b') # rest) =
     (Some (Binary (Some a) c (Some b)), l,
      case right_nested (a', c', b') rest of (x, op, y) \<Rightarrow> Some (Binary x op y))"

fun comparisons_ok :: "(node \<times> string \<times> node) \<Rightarrow> (string \<times> node \<times> string \<times> node) list \<Rightarrow> bool" where
  "comparisons_ok (a, c, b) [] = (\<not> is_binary a \<and> \<not> is_binary b \<and> \<not> logical c \<and> c \<noteq> [])"
| "comparisons_ok (a, c, b) ((l, a', c', b') # rest) =
     (\<not> is_binary a \<and> \<not> is_binary b \<and> \<not> logical c \<and> c \<noteq> [] \<and> logical l \<and>
      comparisons_ok (a', c', b') rest)"

lemma normalize_atom: "\<not> is_binary b \<Longrightarrow> normalize_binary x op (Some b) = (x, op, Some b)"
  by (cases b) (simp_all add: normalize_binary.simps)

lemma normalize_logical: "logical op \<Longrightarrow> normalize_binary x op y = (x, op, y)"
  by (simp add: normalize_binary.simps [of x op y] logical_def)

lemma logical_nonempty: "logical op \<Longrightarrow> op \<noteq> []"
  by (auto simp: logical_def)

lemma normalize_right_nested:
  "comparisons_ok cmp rest \<Longrightarrow> right_nested cmp rest = (x, op, y) \<Longrightarrow>
     normalize_binary x op y = (x, op, y)"
  by (induction cmp rest arbitrary: x op y rule: right_nested.induct)
    (auto simp: normalize_atom normalize_logical)

lemma right_nested_first: "right_nested cmp rest = (x, op, y) \<Longrightarrow> x \<noteq> None \<and> y \<noteq> None"
  by (induction cmp rest arbitrary: x op y rule: right_nested.induct) (auto split: prod.splits)

lemma right_nested_op: "comparisons_ok cmp rest \<Longrightarrow> right_nested cmp rest = (x, op, y) \<Longrightarrow> op \<noteq> []"
  by (induction cmp rest arbitrary: x op y rule: right_nested.induct) (auto simp: logical_nonempty)

lemma chain_is_right_nested:
  "comparisons_ok (a, c, b) rest \<Longrightarrow>
     chain_binary a (flat_comparisons (a, c, b) rest) = right_nested (a, c, b) rest"
proof (induction "(a, c, b)" rest arbitrary: a c b rule: right_nested.induct)
  case (1 a c b)
  then show ?case by (simp add: attach_right_def normalize_atom)
next
  case (2 a c b l a' c' b' rest)
  then have ok: "comparisons_ok (a', c', b') rest" and l: "logical l" and b: "\<not> is_binary b"
    and c: "\<not> logical c" by auto
  obtain x op y where r: "right_nested (a', c', b') rest = (x, op, y)" by (metis prod_cases3)
  from "2.hyps" [OF ok] r
  have IH: "chain_binary a' (flat_comparisons (a', c', b') rest) = (x, op, y)" by simp
  from right_nested_first [OF r] right_nested_op [OF ok r]
  have inner: "attach_right (Some b) l (x, op, y) = (Some b, l, Some (Binary x op y))"
    by (auto simp: attach_right_def Let_def normalize_logical [OF l])
  have "attach_right (Some a) c (Some b, l, Some (Binary x op y)) =
      (Some (Binary (Some a) c (Some b)), l, Some (Binary x op y))"
    using c normalize_right_nested [OF ok r]
    by (simp add: attach_right_def normalize_binary.simps [of "Some a"] logical_def)
  then show ?case by (simp add: IH inner r)
qed

text \<open>
  \<open>lex_chain ps n term inp pos\<close> reads the operands and operators of a chain from position
  \<open>pos\<close> on, without building a tree: the first operand, the operators each with its right
  operand, and the final cursor position; \<open>n\<close> is the fuel of the walk.
\<close>

fun lex_chain ::
  "parsly \<Rightarrow> nat \<Rightarrow> string \<Rightarrow> string \<Rightarrow> nat \<Rightarrow> (node \<times> (string \<times> node) list \<times> nat) option" where
  "lex_chain ps 0 term inp pos = None"
| "lex_chain ps (Suc n) term inp pos =
     (case expect_operand ps n (if term = [] then [] else [TTermExc]) inp pos of
        Some (Inr (Some x), p) \<Rightarrow>
          (let m = ps_match ps [TParen, TBinary, TUnary, TLogical] inp p;
               op = match_text inp m
           in if tm_code m \<notin> {MTok TUnary, MTok TLogical, MTok TBinary} then Some (x, [], tm_pos m)
              else case lex_chain ps n (if has_suffix op ''/'' then ''/'' else term) inp (tm_pos m) of
                     None \<Rightarrow> None
                   | Some (y, rest, p') \<Rightarrow> Some (x, (op, y) # rest, p'))
      | _ \<Rightarrow> None)"

lemma qualify_step_operand:
  "E (if term = [] then [] else [TTermExc]) inp pos = Some (Inr x, p) \<Longrightarrow>
     qualify_step ps E Q False term inp pos = qualify_tail ps Q False term inp x p"
  by (cases "term = []") (simp_all add: qualify_step_def Let_def)

lemma parse_qualify_chain:
  "lex_chain ps n term inp pos = Some (x, rest, p) \<Longrightarrow>
     parse_qualify ps n False term inp pos = Some (Inr (chain_binary x rest), p)"
proof (induction n arbitrary: "term" pos x rest p)
  case 0
  then show ?case by simp
next
  case (Suc n)
  from Suc.prems obtain x' q where
    e: "expect_operand ps n (if term = [] then [] else [TTermExc]) inp pos = Some (Inr (Some x'), q)"
    by (auto split: option.splits prod.splits sum.splits)
  define m where "m = ps_match ps [TParen, TBinary, TUnary, TLogical] inp q"
  have tail: "parse_qualify ps (Suc n) False term inp pos =
      qualify_tail ps (parse_qualify ps n) False term inp (Some x') q"
    by (simp add: qualify_step_operand [of "expect_operand ps n", OF e])
  show ?case
  proof (cases "tm_code m \<in> {MTok TUnary, MTok TLogical, MTok TBinary}")
    case False
    with Suc.prems e have "x = x'" "rest = []" "p = tm_pos m"
      by (auto simp: Let_def m_def)
    with False tail show ?thesis by (auto simp: qualify_tail_def Let_def m_def)
  next
    case True
    with Suc.prems e obtain y rest' where
      rec: "lex_chain ps n (if has_suffix (match_text inp m) ''/'' then ''/'' else term) inp (tm_pos m) =
        Some (y, rest', p)" and x: "x = x'" "rest = (match_text inp m, y) # rest'"
      by (auto simp: Let_def m_def split: option.splits)
    from Suc.IH [OF rec] True x tail show ?thesis by (simp add: qualify_tail_def Let_def m_def)
  qed
qed

lemma parse_chain_of_comparisons:
  assumes "lex_chain ps n [] inp 0 = Some (a, flat_comparisons (a, c, b) rest, p)"
    and "comparisons_ok (a, c, b) rest"
    and "right_nested (a, c, b) rest = (x, op, y)"
  shows "parse_criteria_fuel ps (Suc n) inp = Some (Inr (Binary x op y))"
proof -
  have "parse_qualify ps n False [] inp 0 = Some (Inr (x, op, y), p)"
    using parse_qualify_chain [OF assms(1)] chain_is_right_nested [OF assms(2)] assms(3) by simp
  with right_nested_op [OF assms(2,3)] show ?thesis by (simp add: criteria_step_def)
qed

end
