(* ===== verification/Endly_Error.thy ===== *)
theory Endly_Error
  imports Go_Strings
begin

text \<open>
  error.go: endly's \<open>*Error\<close>, which carries the path of service actions that an error came
  through. The pointer that \<open>NewError\<close> mutates in place is returned as the new value.
\<close>

fun error_text :: "go_error \<Rightarrow> string" where
  "error_text (PlainErr s) = s"
| "error_text (Panicked s) = s"
| "error_text (PathErr path e) = error_text e @ '' at '' @ join ''/'' path @ '' ''"

fun unshift :: "string list \<Rightarrow> go_error \<Rightarrow> go_error" where
  "unshift frags (PathErr path e) = PathErr (join ''.'' frags # path) e"
| "unshift frags e = e"

fun is_path_error :: "go_error \<Rightarrow> bool" where
  "is_path_error (PathErr _ _) = True"
| "is_path_error _ = False"

definition new_error :: "string \<Rightarrow> string \<Rightarrow> go_error \<Rightarrow> go_error" where
  "new_error service action err =
     (if is_path_error err then unshift [service, action] err
      else PathErr [service @ ''.'' @ action] err)"

fun root_cause :: "go_error \<Rightarrow> go_error" where
  "root_cause (PathErr path e) = e"
| "root_cause e = e"

fun error_path :: "go_error \<Rightarrow> string list" where
  "error_path (PathErr path e) = path"
| "error_path e = []"

text \<open>An error never carries another path inside its path.\<close>

fun flat_error :: "go_error \<Rightarrow> bool" where
  "flat_error (PathErr path e) = (path \<noteq> [] \<and> \<not> is_path_error e)"
| "flat_error e = True"

lemma join_pair: "join ''.'' [a, b] = a @ ''.'' @ b"
  by simp

lemma new_error_flat: "flat_error e \<Longrightarrow> flat_error (new_error s a e)"
  by (cases e) (simp_all add: new_error_def)

lemma new_error_path: "error_path (new_error s a e) = (s @ ''.'' @ a) # error_path e"
  by (cases e) (simp_all add: new_error_def)

lemma new_error_root: "root_cause (new_error s a e) = root_cause e"
  by (cases e) (simp_all add: new_error_def)

lemma new_error_same: "is_path_error e \<Longrightarrow> is_path_error (new_error s a e)"
  by (cases e) (simp_all add: new_error_def)

text \<open>The way of an error out of nested service calls, innermost first.\<close>

fun wrap_calls :: "(string \<times> string) list \<Rightarrow> go_error \<Rightarrow> go_error" where
  "wrap_calls [] e = e"
| "wrap_calls ((s, a) # calls) e = wrap_calls calls (new_error s a e)"

lemma wrap_calls_path:
  "error_path (wrap_calls calls e) = rev (map (\<lambda>(s, a). s @ ''.'' @ a) calls) @ error_path e"
  by (induction calls arbitrary: e) (auto simp: new_error_path)

lemma wrap_calls_root: "root_cause (wrap_calls calls e) = root_cause e"
  by (induction calls arbitrary: e) (auto simp: new_error_root)

lemma wrap_calls_flat: "flat_error e \<Longrightarrow> flat_error (wrap_calls calls e)"
  by (induction calls arbitrary: e) (auto simp: new_error_flat)

lemma flat_error_text:
  assumes "flat_error e" and "error_path e = path" and "path \<noteq> []"
  shows "error_text e = error_text (root_cause e) @ '' at '' @ join ''/'' path @ '' ''"
  using assms by (cases e) auto



end
