(* ===== verification/Criteria_Compiler.thy ===== *)
theory Criteria_Compiler
  imports Criteria_Parser Endly_Error
begin

text \<open>
  model/criteria/compiler and model/criteria/evaluator.go: a node is compiled to a closure
  over the state (\<open>eval.Compute\<close>) that returns a value, a flag that says whether there is
  one, and an error. \<open>new_fn\<close> is the type \<open>New\<close>: the outcome of calling the constructor,
  \<open>None\<close> for a nil function.
\<close>

type_synonym compute = "heap \<Rightarrow> nat \<Rightarrow> go_error + (value \<times> bool)"
type_synonym new_fn = "(go_error + compute) option"

section \<open>Operands\<close>

datatype operand = OLiteral string | OSelector string | ONil | OCompute "compute option"

definition operand_of_new :: "new_fn \<Rightarrow> operand" where
  "operand_of_new nw = OCompute (case nw of Some (Inr c) \<Rightarrow> Some c | _ \<Rightarrow> None)"

definition selector_value :: "toolbox \<Rightarrow> string \<Rightarrow> compute" where
  "selector_value tb x h st =
     (case get_value tb h st (drop 1 x) of
        (ret, ok) \<Rightarrow>
          (if ok then Inr (ret, ok)
           else case last_index_of x ''('' of
             None \<Rightarrow> Inr (ret, ok)
           | Some i \<Rightarrow>
               (if tb_has tb h st (take (i - 1) (drop 1 x)) then Inr (expand tb h st (VStr x), True)
                else if tb_get_map tb h st ''_udf'' \<noteq> [] then Inr (expand tb h st (VStr x), True)
                else Inr (ret, ok))))"

fun operand_value :: "toolbox \<Rightarrow> operand \<Rightarrow> compute" where
  "operand_value tb (OLiteral v) h st = Inr (VStr v, True)"
| "operand_value tb (OSelector x) h st = selector_value tb x h st"
| "operand_value tb ONil h st = Inr (VNil, False)"
| "operand_value tb (OCompute (Some c)) h st = c h st"
| "operand_value tb (OCompute None) h st = Inl (PlainErr ''unsupported operand'')"

section \<open>Binary operators\<close>

record binary_expr =
  bin_x :: operand
  bin_y :: operand
  bin_trim :: bool

definition both ::
  "toolbox \<Rightarrow> binary_expr \<Rightarrow> heap \<Rightarrow> nat \<Rightarrow> (value \<Rightarrow> bool \<Rightarrow> value \<Rightarrow> bool \<Rightarrow> go_error + (value \<times> bool))
     \<Rightarrow> go_error + (value \<times> bool)" where
  "both tb b h st f =
     ebind (operand_value tb (bin_x b) h st) (\<lambda>(x, hx).
       ebind (operand_value tb (bin_y b) h st) (\<lambda>(y, hy). f x hx y hy))"

definition coerce_like :: "toolbox \<Rightarrow> value \<Rightarrow> value \<Rightarrow> value" where
  "coerce_like tb x y =
     (case x of
        VStr _ \<Rightarrow> VStr (as_string tb y)
      | VInt _ \<Rightarrow> VInt (as_int tb y)
      | VFloat _ \<Rightarrow> VFloat (as_float tb y)
      | VBool _ \<Rightarrow> VBool (as_bool tb y)
      | _ \<Rightarrow> y)"

definition op_equal :: "toolbox \<Rightarrow> binary_expr \<Rightarrow> compute" where
  "op_equal tb b h st = both tb b h st (\<lambda>x hx y hy.
     if \<not> hx \<and> \<not> hy then Inr (VBool False, False)
     else if hx \<noteq> hy then Inr (VBool False, True)
     else ebind (go_eq x (coerce_like tb x y)) (\<lambda>r. Inr (VBool r, True)))"

definition op_not_equal :: "toolbox \<Rightarrow> binary_expr \<Rightarrow> compute" where
  "op_not_equal tb b h st =
     ebind (op_equal tb b h st) (\<lambda>(ret, has).
       if has then
         (case ret of VBool e \<Rightarrow> Inr (VBool (\<not> e), has)
          | _ \<Rightarrow> Inl (PlainErr ''expected boolean''))
       else Inr (VBool False, has))"

definition op_less :: "toolbox \<Rightarrow> binary_expr \<Rightarrow> compute" where
  "op_less tb b h st = both tb b h st (\<lambda>x hx y hy.
     if \<not> hx \<and> \<not> hy then Inr (VBool False, False)
     else Inr (VBool (fl_less (as_float tb x) (as_float tb y)), True))"

definition op_less_equal :: "toolbox \<Rightarrow> binary_expr \<Rightarrow> compute" where
  "op_less_equal tb b h st = both tb b h st (\<lambda>x hx y hy.
     if \<not> hx \<and> \<not> hy then Inr (VBool False, False)
     else Inr (VBool (fl_leq (as_float tb x) (as_float tb y)), True))"

definition op_greater_equal :: "toolbox \<Rightarrow> binary_expr \<Rightarrow> compute" where
  "op_greater_equal tb b h st = both tb b h st (\<lambda>x hx y hy.
     if \<not> hx \<and> \<not> hy then Inr (VBool False, False)
     else Inr (VBool (fl_leq (as_float tb y) (as_float tb x)), True))"

definition op_greater :: "toolbox \<Rightarrow> binary_expr \<Rightarrow> compute" where
  "op_greater tb b h st = both tb b h st (\<lambda>x hx y hy.
     if \<not> hx \<and> \<not> hy then Inr (VNil, False)
     else Inr (VBool (fl_less (as_float tb y) (as_float tb x)), True))"

definition op_contains :: "toolbox \<Rightarrow> binary_expr \<Rightarrow> compute" where
  "op_contains tb b h st = both tb b h st (\<lambda>x hx y hy.
     if \<not> hx \<and> \<not> hy then Inr (VBool True, False)
     else if y = VStr ''$'' \<and> \<not> hx then Inr (VBool True, True)
     else let yt = as_string tb y;
              yt' = (if bin_trim b then trim_right yt CHR ''/'' else yt)
          in Inr (VBool (contains (as_string tb x) yt'), True))"

definition op_not_contains :: "toolbox \<Rightarrow> binary_expr \<Rightarrow> compute" where
  "op_not_contains tb b h st = both tb b h st (\<lambda>x hx y hy.
     if \<not> hx \<and> \<not> hy then Inr (VBool False, False)
     else Inr (VBool (\<not> contains (as_string tb x) (as_string tb y)), True))"

definition op_and :: "toolbox \<Rightarrow> binary_expr \<Rightarrow> compute" where
  "op_and tb b h st = both tb b h st (\<lambda>x hx y hy.
     if \<not> hx \<and> \<not> hy then Inr (VBool False, False)
     else if \<not> as_bool tb x then Inr (VBool False, True)
     else Inr (VBool (as_bool tb x \<and> as_bool tb y), True))"

definition op_or :: "toolbox \<Rightarrow> binary_expr \<Rightarrow> compute" where
  "op_or tb b h st =
     ebind (operand_value tb (bin_x b) h st) (\<lambda>(x, hx).
       if as_bool tb x then Inr (VBool True, True)
       else ebind (operand_value tb (bin_y b) h st) (\<lambda>(y, hy).
         if \<not> hx \<and> \<not> hy then Inr (VBool False, False)
         else Inr (VBool (as_bool tb x \<or> as_bool tb y), True)))"

definition known_operators :: "string list" where
  "known_operators =
     [''!'', ''='', ''=='', '':/'', '':!/'', '':~/'', '':'', '':!'', ''<>'', ''!='', ''<'', ''>'',
      ''<='', ''>='', ''contains'', ''contains!'', ''&&'', ''||'']"

definition unsupported_operator :: "string \<Rightarrow> go_error" where
  "unsupported_operator op = PlainErr (''unsupported operator: '' @ op)"

definition new_binary :: "toolbox \<Rightarrow> string \<Rightarrow> operand \<Rightarrow> operand \<Rightarrow> go_error + compute" where
  "new_binary tb op x y =
     (if op \<notin> set known_operators then Inl (unsupported_operator op)
      else
        let e = \<lparr>bin_x = x, bin_y = y, bin_trim = contains op '':/''\<rparr> in
        if op \<in> {'':'', ''='', ''==''} then Inr (op_equal tb e)
        else if op \<in> {''!'', ''<>'', '':!'', ''!=''} then Inr (op_not_equal tb e)
        else if op = ''<'' then Inr (op_less tb e)
        else if op = ''>'' then Inr (op_greater tb e)
        else if op = ''<='' then Inr (op_less_equal tb e)
        else if op = ''>='' then Inr (op_greater_equal tb e)
        else if op \<in> {''contains'', '':/''} then Inr (op_contains tb e)
        else if op \<in> {''contains!'', '':!/''} then Inr (op_not_contains tb e)
        else if op = ''&&'' then Inr (op_and tb e)
        else if op = ''||'' then Inr (op_or tb e)
        else Inl (unsupported_operator op))"

section \<open>Unary operators\<close>

definition truth :: "toolbox \<Rightarrow> value \<Rightarrow> bool" where
  "truth tb v =
     (case v of
        VStr s \<Rightarrow> trim_space s \<notin> {''false'', ''0'', []}
      | VBool b \<Rightarrow> b
      | VInt i \<Rightarrow> i \<noteq> 0
      | VFloat f \<Rightarrow> \<not> fl_eq f (FFin 0)
      | VNil \<Rightarrow> False
      | _ \<Rightarrow> True)"

definition unary_not :: "toolbox \<Rightarrow> operand \<Rightarrow> compute" where
  "unary_not tb x h st =
     ebind (operand_value tb x h st) (\<lambda>(v, ok). Inr (VBool (\<not> as_bool tb v), ok))"

definition unary_truth :: "toolbox \<Rightarrow> operand \<Rightarrow> compute" where
  "unary_truth tb x h st =
     ebind (operand_value tb x h st) (\<lambda>(v, ok).
       if \<not> ok then Inr (VBool False, True) else Inr (VBool (truth tb v), True))"

definition unary_defined :: "toolbox \<Rightarrow> operand \<Rightarrow> compute" where
  "unary_defined tb x h st =
     ebind (operand_value tb x h st) (\<lambda>(v, ok). Inr (VBool ok, True))"

definition new_unary :: "toolbox \<Rightarrow> string \<Rightarrow> operand \<Rightarrow> go_error + compute" where
  "new_unary tb op x =
     (if op \<in> {''!'', ''not''} then Inr (unary_not tb x)
      else if op = [] then Inr (unary_truth tb x)
      else if op = ''defined'' then Inr (unary_defined tb x)
      else Inl (PlainErr (''unsupported unary operator: '' @ op)))"

section \<open>Compilation\<close>

fun compile_node :: "toolbox \<Rightarrow> node option \<Rightarrow> go_error + new_fn"
  and new_operand :: "toolbox \<Rightarrow> node option \<Rightarrow> go_error + operand" where
  "compile_node tb None = Inr None"
| "compile_node tb (Some (Binary x op y)) =
     ebind (new_operand tb x) (\<lambda>ox. ebind (new_operand tb y) (\<lambda>oy.
       Inr (Some (new_binary tb op ox oy))))"
| "compile_node tb (Some (Unary x op)) =
     ebind (new_operand tb x) (\<lambda>ox. Inr (Some (new_unary tb op ox)))"
| "compile_node tb (Some (Group x)) = compile_node tb x"
| "compile_node tb (Some (Literal v t q)) = Inl (PlainErr ''unsupported node type: *ast.Literal'')"
| "compile_node tb (Some (Selector x)) = Inl (PlainErr ''unsupported node type: *ast.Selector'')"
| "new_operand tb None = Inr ONil"
| "new_operand tb (Some (Literal v t q)) = Inr (OLiteral v)"
| "new_operand tb (Some (Selector x)) = Inr (OSelector x)"
| "new_operand tb (Some (Binary x op y)) =
     ebind (compile_node tb (Some (Binary x op y))) (\<lambda>nw. Inr (operand_of_new nw))"
| "new_operand tb (Some (Unary x op)) =
     ebind (compile_node tb (Some (Unary x op))) (\<lambda>nw. Inr (operand_of_new nw))"
| "new_operand tb (Some (Group x)) =
     ebind (compile_node tb (Some (Group x))) (\<lambda>nw. Inr (operand_of_new nw))"

definition compile_expr :: "toolbox \<Rightarrow> parsly \<Rightarrow> string \<Rightarrow> go_error + new_fn" where
  "compile_expr tb ps expr = ebind (parse_criteria ps expr) (\<lambda>n. compile_node tb (Some n))"

section \<open>Evaluation\<close>

record eval_event =
  ev_type :: string
  ev_default :: bool
  ev_evaluation :: bool
  ev_criteria :: string
  ev_has :: bool
  ev_error :: string

definition new_eval_event ::
  "string \<Rightarrow> bool \<Rightarrow> bool \<Rightarrow> string \<Rightarrow> bool \<Rightarrow> go_error option \<Rightarrow> eval_event" where
  "new_eval_event ty def ev crit has err =
     \<lparr>ev_type = ty, ev_default = def, ev_evaluation = ev, ev_criteria = crit, ev_has = has,
      ev_error = (case err of None \<Rightarrow> [] | Some e \<Rightarrow> error_text e)\<rparr>"

text \<open>
  \<open>Evaluate\<close>: an empty expression is the default; otherwise the cached closure or a freshly
  compiled one runs. The closure is not written back to the cache. The event is the one
  published when there is a context. With an error Go also returns the default, which no
  caller but \<open>canApply\<close> looks at.
\<close>

definition run_compute ::
  "compute \<Rightarrow> heap \<Rightarrow> nat \<Rightarrow> string \<Rightarrow> string \<Rightarrow> bool \<Rightarrow> (go_error + bool) \<times> eval_event option" where
  "run_compute c h st expr ty def =
     (case c h st of
        Inl e \<Rightarrow>
          (if is_panic e then (Inl e, None)
           else (Inl e, Some (new_eval_event ty def def expr True (Some e))))
      | Inr (v, has) \<Rightarrow>
          (let ret = (case v of VBool b \<Rightarrow> b | _ \<Rightarrow> def)
           in (Inr (if has then ret else def), Some (new_eval_event ty def ret expr True None))))"

definition evaluate ::
  "toolbox \<Rightarrow> parsly \<Rightarrow> heap \<Rightarrow> nat \<Rightarrow> string \<Rightarrow> compute option \<Rightarrow> string \<Rightarrow> bool
     \<Rightarrow> (go_error + bool) \<times> eval_event option" where
  "evaluate tb ps h st expr cached ty def =
     (if expr = [] then (Inr def, None)
      else case cached of
        Some c \<Rightarrow> run_compute c h st expr ty def
      | None \<Rightarrow>
          (case compile_expr tb ps expr of
             Inl e \<Rightarrow> (Inl e, None)
           | Inr None \<Rightarrow> (Inl (Panicked ''nil pointer dereference''), None)
           | Inr (Some (Inl e)) \<Rightarrow> (Inl e, None)
           | Inr (Some (Inr c)) \<Rightarrow> run_compute c h st expr ty def))"

section \<open>Reference semantics\<close>

text \<open>
  The meaning of a criteria without the closures: an unsupported operator below the root is
  an error when its operand is read.
\<close>

definition binary_meaning :: "toolbox \<Rightarrow> string \<Rightarrow> operand \<Rightarrow> operand \<Rightarrow> compute" where
  "binary_meaning tb op x y =
     (case new_binary tb op x y of Inr c \<Rightarrow> c | Inl e \<Rightarrow> (\<lambda>h st. Inl (PlainErr ''unsupported operand'')))"

definition unary_meaning :: "toolbox \<Rightarrow> string \<Rightarrow> operand \<Rightarrow> compute" where
  "unary_meaning tb op x =
     (case new_unary tb op x of Inr c \<Rightarrow> c | Inl e \<Rightarrow> (\<lambda>h st. Inl (PlainErr ''unsupported operand'')))"

fun meaning :: "toolbox \<Rightarrow> node option \<Rightarrow> compute" where
  "meaning tb None = (\<lambda>h st. Inr (VNil, False))"
| "meaning tb (Some (Literal v t q)) = (\<lambda>h st. Inr (VStr v, True))"
| "meaning tb (Some (Selector x)) = selector_value tb x"
| "meaning tb (Some (Unary x op)) = unary_meaning tb op (OCompute (Some (meaning tb x)))"
| "meaning tb (Some (Binary x op y)) =
     binary_meaning tb op (OCompute (Some (meaning tb x))) (OCompute (Some (meaning tb y)))"
| "meaning tb (Some (Group x)) = meaning tb x"

text \<open>Nodes the parser builds: a group holds an operator node.\<close>

fun operator_node :: "node \<Rightarrow> bool" where
  "operator_node (Unary _ _) = True"
| "operator_node (Binary _ _ _) = True"
| "operator_node (Group (Some n)) = operator_node n"
| "operator_node _ = False"

fun well_grouped :: "node option \<Rightarrow> bool" where
  "well_grouped None = True"
| "well_grouped (Some (Literal _ _ _)) = True"
| "well_grouped (Some (Selector _)) = True"
| "well_grouped (Some (Unary x _)) = well_grouped x"
| "well_grouped (Some (Binary x _ y)) = (well_grouped x \<and> well_grouped y)"
| "well_grouped (Some (Group x)) =
     (case x of None \<Rightarrow> False | Some n \<Rightarrow> operator_node n \<and> well_grouped (Some n))"

definition same_operand :: "toolbox \<Rightarrow> operand \<Rightarrow> operand \<Rightarrow> bool" where
  "same_operand tb o1 o2 \<longleftrightarrow> operand_value tb o1 = operand_value tb o2"

lemma both_cong:
  "operand_value tb (bin_x a) = operand_value tb (bin_x b) \<Longrightarrow>
   operand_value tb (bin_y a) = operand_value tb (bin_y b) \<Longrightarrow> both tb a = both tb b"
  by (simp add: both_def fun_eq_iff)

lemmas op_defs = op_equal_def op_less_def op_less_equal_def op_greater_def op_greater_equal_def
  op_not_contains_def op_and_def op_or_def op_contains_def op_not_equal_def

lemma new_binary_cong:
  assumes "operand_value tb x = operand_value tb x'" "operand_value tb y = operand_value tb y'"
  shows "new_binary tb op x y = new_binary tb op x' y'"
proof -
  let ?e = "\<lambda>t. \<lparr>bin_x = x, bin_y = y, bin_trim = t\<rparr>"
  let ?e' = "\<lambda>t. \<lparr>bin_x = x', bin_y = y', bin_trim = t\<rparr>"
  have b: "both tb (?e t) = both tb (?e' t)" for t
    by (rule both_cong) (simp_all add: assms)
  have "op_equal tb (?e t) = op_equal tb (?e' t)" for t
    by (simp add: fun_eq_iff op_equal_def b)
  moreover have "op_not_equal tb (?e t) = op_not_equal tb (?e' t)" for t
    by (simp add: fun_eq_iff op_not_equal_def op_equal_def b)
  moreover have "op_less tb (?e t) = op_less tb (?e' t)" for t
    by (simp add: fun_eq_iff op_less_def b)
  moreover have "op_greater tb (?e t) = op_greater tb (?e' t)" for t
    by (simp add: fun_eq_iff op_greater_def b)
  moreover have "op_less_equal tb (?e t) = op_less_equal tb (?e' t)" for t
    by (simp add: fun_eq_iff op_less_equal_def b)
  moreover have "op_greater_equal tb (?e t) = op_greater_equal tb (?e' t)" for t
    by (simp add: fun_eq_iff op_greater_equal_def b)
  moreover have "op_contains tb (?e t) = op_contains tb (?e' t)" for t
    by (simp add: fun_eq_iff op_contains_def b cong: if_cong)
  moreover have "op_not_contains tb (?e t) = op_not_contains tb (?e' t)" for t
    by (simp add: fun_eq_iff op_not_contains_def b)
  moreover have "op_and tb (?e t) = op_and tb (?e' t)" for t
    by (simp add: fun_eq_iff op_and_def b)
  moreover have "op_or tb (?e t) = op_or tb (?e' t)" for t
    by (simp add: fun_eq_iff op_or_def assms cong: if_cong)
  ultimately show ?thesis by (simp add: new_binary_def Let_def)
qed

lemma new_unary_cong:
  "operand_value tb x = operand_value tb x' \<Longrightarrow> new_unary tb op x = new_unary tb op x'"
  by (simp add: new_unary_def unary_not_def unary_truth_def unary_defined_def fun_eq_iff)

lemma new_operand_of_compile:
  "operator_node n \<Longrightarrow>
     new_operand tb (Some n) = ebind (compile_node tb (Some n)) (\<lambda>nw. Inr (operand_of_new nw))"
  by (cases n) auto

lemma operator_node_compiles:
  "operator_node n \<Longrightarrow> compile_node tb (Some n) = Inr nw \<Longrightarrow> nw \<noteq> None"
  by (induction n arbitrary: nw rule: operator_node.induct) (auto simp: ebind_Inr_iff)

definition new_meaning :: "go_error + compute \<Rightarrow> compute" where
  "new_meaning r =
     (case r of Inr c \<Rightarrow> c | Inl e \<Rightarrow> (\<lambda>h st. Inl (PlainErr ''unsupported operand'')))"

lemma operand_of_new_meaning: "operand_value tb (operand_of_new (Some r)) = new_meaning r"
  by (cases r) (auto simp: operand_of_new_def new_meaning_def fun_eq_iff)

lemma operator_meaning:
  "unary_meaning tb op x = new_meaning (new_unary tb op x)"
  "binary_meaning tb op x y = new_meaning (new_binary tb op x y)"
  by (simp_all add: unary_meaning_def binary_meaning_def new_meaning_def)

lemma compiled_meaning:
  "well_grouped n \<Longrightarrow>
     (\<exists>o'. new_operand tb n = Inr o' \<and> operand_value tb o' = meaning tb n) \<and>
     (\<forall>m. n = Some m \<longrightarrow> operator_node m \<longrightarrow>
       (\<exists>r. compile_node tb n = Inr (Some r) \<and> meaning tb n = new_meaning r))"
proof (induction n rule: well_grouped.induct)
  case (4 x op)
  then obtain o' where o': "new_operand tb x = Inr o'" "operand_value tb o' = meaning tb x" by auto
  have "new_unary tb op (OCompute (Some (meaning tb x))) = new_unary tb op o'"
    by (rule new_unary_cong) (simp add: o' fun_eq_iff)
  with o' show ?case by (simp add: operator_meaning operand_of_new_meaning)
next
  case (5 x op y)
  then obtain ox oy where o': "new_operand tb x = Inr ox" "operand_value tb ox = meaning tb x"
    "new_operand tb y = Inr oy" "operand_value tb oy = meaning tb y" by auto
  have "new_binary tb op (OCompute (Some (meaning tb x))) (OCompute (Some (meaning tb y))) =
      new_binary tb op ox oy"
    by (rule new_binary_cong) (simp_all add: o' fun_eq_iff)
  with o' show ?case by (simp add: operator_meaning operand_of_new_meaning)
next
  case (6 x)
  then obtain n where n: "x = Some n" "operator_node n" "well_grouped (Some n)"
    by (cases x) auto
  with "6.IH" obtain r where "compile_node tb (Some n) = Inr (Some r)"
    "meaning tb (Some n) = new_meaning r" by auto
  with n show ?case by (simp add: operand_of_new_meaning)
qed (auto simp: fun_eq_iff)

lemma compile_node_meaning:
  assumes "well_grouped (Some n)" and "operator_node n"
    and "compile_node tb (Some n) = Inr (Some (Inr c))"
  shows "c = meaning tb (Some n)"
  using compiled_meaning [OF assms(1), of tb] assms(2,3) by (auto simp: new_meaning_def)

lemma compile_node_total:
  assumes "well_grouped (Some n)" and "operator_node n"
  shows "\<exists>r. compile_node tb (Some n) = Inr (Some r)"
  using compiled_meaning [OF assms(1), of tb] assms(2) by auto

end
