(* ===== verification/Instances.thy ===== *)
theory Instances
  imports Criteria_Ast
begin

text \<open>
  Concrete instances of the two third-party interfaces, for the witnesses only: \<open>tb0\<close>, a
  toolbox whose maps obey \<open>map_laws\<close>, and \<open>ps0\<close>, a small lexer that obeys \<open>parsly_ok\<close>.
  Nothing of the model depends on them.
\<close>

section \<open>A toolbox\<close>

fun read_nat :: "string \<Rightarrow> nat \<Rightarrow> nat" where
  "read_nat [] n = n"
| "read_nat (c # cs) n = (if is_digit c then read_nat cs (10 * n + (of_char c - 48)) else n)"

fun text0 :: "value \<Rightarrow> string" where
  "text0 (VStr s) = s"
| "text0 (VInt i) = show_int i"
| "text0 (VBool b) = (if b then ''true'' else ''false'')"
| "text0 _ = []"

fun int0 :: "value \<Rightarrow> int" where
  "int0 (VInt i) = i"
| "int0 (VStr s) = int (read_nat s 0)"
| "int0 _ = 0"

definition expand0 :: "heap \<Rightarrow> nat \<Rightarrow> value \<Rightarrow> value" where
  "expand0 h a v =
     (case v of
        VStr s \<Rightarrow> (case s of
            [] \<Rightarrow> v
          | c # k \<Rightarrow> if c = CHR ''$'' then (case mget (cell h a) k of Some w \<Rightarrow> w | None \<Rightarrow> v) else v)
      | _ \<Rightarrow> v)"

definition tb0 :: toolbox where
  "tb0 = \<lparr>as_string = text0,
     as_bool = (\<lambda>v. case v of VBool b \<Rightarrow> b | VStr s \<Rightarrow> s = ''true'' | VInt i \<Rightarrow> i \<noteq> 0 | _ \<Rightarrow> False),
     as_int = int0,
     as_float = (\<lambda>v. case v of VFloat f \<Rightarrow> f | _ \<Rightarrow> FFin (of_int (int0 v))),
     as_map = (\<lambda>v. case v of VMap m \<Rightarrow> m | _ \<Rightarrow> []),
     tb_put = (\<lambda>a k v h. write_cell a (mput k v (cell h a)) h),
     tb_get = (\<lambda>h a k. case mget (cell h a) k of None \<Rightarrow> VNil | Some v \<Rightarrow> v),
     tb_has = (\<lambda>h a k. mhas (cell h a) k),
     tb_delete = (\<lambda>a k h. write_cell a (mdel k (cell h a)) h),
     tb_apply = (\<lambda>a m h. write_cell a (mput_all m (cell h a)) h),
     tb_get_map = (\<lambda>h a k. case mget (cell h a) k of Some (VMap m) \<Rightarrow> m | Some (VRef b) \<Rightarrow> cell h b | _ \<Rightarrow> []),
     get_value = (\<lambda>h a k. case mget (cell h a) k of None \<Rightarrow> (VNil, False) | Some v \<Rightarrow> (v, True)),
     set_value = (\<lambda>a k v h. write_cell a (mput k v (cell h a)) h),
     expand = expand0,
     expand_text = (\<lambda>h a s. text0 (expand0 h a (VStr s)))\<rparr>"

lemma tb0_laws: "map_laws tb0"
  by (simp add: map_laws_def tb0_def)

section \<open>A lexer\<close>

fun space0 :: "string \<Rightarrow> nat" where
  "space0 [] = 0"
| "space0 (c # s) = (if ascii_space c then Suc (space0 s) else 0)"

fun digits0 :: "string \<Rightarrow> nat" where
  "digits0 [] = 0"
| "digits0 (c # s) = (if is_digit c then Suc (digits0 s) else 0)"

fun first_of :: "string list \<Rightarrow> string \<Rightarrow> nat" where
  "first_of [] s = 0"
| "first_of (w # ws) s = (if w \<noteq> [] \<and> prefix w s then length w else first_of ws s)"

fun block0 :: "string \<Rightarrow> nat \<Rightarrow> nat \<Rightarrow> nat" where
  "block0 [] d m = 0"
| "block0 (c # s) d m =
     (if c = CHR ''('' then block0 s (Suc d) (Suc m)
      else if c = CHR '')'' then (if d = 1 then Suc m else block0 s (d - 1) (Suc m))
      else block0 s d (Suc m))"

fun quote0 :: "string \<Rightarrow> nat \<Rightarrow> nat" where
  "quote0 [] m = 0"
| "quote0 (c # s) m = (if of_char c = (39::nat) then Suc m else quote0 s (Suc m))"

definition lex_lengths :: "parsly \<Rightarrow> tok \<Rightarrow> string \<Rightarrow> nat" where
  "lex_lengths ps t s =
     (case t of
        TParen \<Rightarrow> (if prefix ''('' s then block0 s 0 0 else 0)
      | TLogical \<Rightarrow> first_of [''&&'', ''||''] s
      | TUnary \<Rightarrow> first_of [''!'', ''not'', ''defined''] s
      | TBinary \<Rightarrow> first_of [''!='', '':!/'', '':/'', '':!'', '':'', ''>='', ''<='', ''=='', ''='', ''>'',
          ''<'', ''contains!'', ''contains''] s
      | TBool \<Rightarrow> first_of [''true'', ''false''] s
      | TNumeric \<Rightarrow> digits0 s
      | TSelector \<Rightarrow> selector_match ps s
      | TString \<Rightarrow> fragment_match ps s
      | TQuestion \<Rightarrow> first_of [''?''] s
      | TColon \<Rightarrow> first_of ['':''] s
      | TTermInc \<Rightarrow> terminator_match CHR ''/'' True s
      | TTermExc \<Rightarrow> terminator_match CHR ''/'' False s
      | TSingle \<Rightarrow> (if s \<noteq> [] \<and> of_char (hd s) = (39::nat) then quote0 (tl s) 1 else 0)
      | TDouble \<Rightarrow> 0)"

text \<open>The first candidate that matches at least one byte wins.\<close>

definition tok_ok :: "tok \<Rightarrow> string \<Rightarrow> nat \<Rightarrow> bool" where
  "tok_ok t s k \<longleftrightarrow> (if t \<in> {TParen, TSingle, TDouble} then 2 \<le> k else 1 \<le> k) \<and> k \<le> length s"

fun match_any0 :: "parsly \<Rightarrow> tok list \<Rightarrow> string \<Rightarrow> (tok \<times> nat) option" where
  "match_any0 ps [] s = None"
| "match_any0 ps (t # ts) s =
     (if tok_ok t s (lex_lengths ps t s) then Some (t, lex_lengths ps t s) else match_any0 ps ts s)"

definition letters0 :: parsly where
  "letters0 = \<lparr>ps_letter = is_letter, ps_space = ascii_space,
     ps_match = (\<lambda>_ _ _. \<lparr>tm_code = MEof, tm_from = 0, tm_pos = 0\<rparr>), ps_error = (\<lambda>_ _ _. [])\<rparr>"

definition match0 :: "tok list \<Rightarrow> string \<Rightarrow> nat \<Rightarrow> tok_match" where
  "match0 toks inp pos =
     (let s = drop pos inp; w = space0 s; r = drop w s; q = pos + w
      in if r = [] then \<lparr>tm_code = MEof, tm_from = q, tm_pos = q\<rparr>
         else case match_any0 letters0 toks r of
                None \<Rightarrow> \<lparr>tm_code = MInvalid, tm_from = q, tm_pos = q\<rparr>
              | Some (t, k) \<Rightarrow> \<lparr>tm_code = MTok t, tm_from = q, tm_pos = q + k\<rparr>)"

definition ps0 :: parsly where
  "ps0 = \<lparr>ps_letter = is_letter, ps_space = ascii_space, ps_match = match0,
     ps_error = (\<lambda>_ _ _. ''syntax error'')\<rparr>"

lemma space0_le: "space0 s \<le> length s"
  by (induction s) auto

lemma match_any0_ok:
  "match_any0 ps toks s = Some (t, k) \<Longrightarrow> t \<in> set toks \<and> tok_ok t s k"
  by (induction toks) (auto split: if_splits)

lemma ps0_ok: "parsly_ok ps0"
proof -
  have "pos \<le> tm_pos m \<and> tm_pos m \<le> length inp \<and>
      (\<forall>t. tm_code m = MTok t \<longrightarrow>
         t \<in> set toks \<and> pos \<le> tm_from m \<and> tm_from m < tm_pos m \<and>
         (t \<in> {TParen, TSingle, TDouble} \<longrightarrow> tm_from m + 2 \<le> tm_pos m))"
    if pos: "pos \<le> length inp" and m: "m = match0 toks inp pos" for toks inp pos m
  proof -
    define w where "w = space0 (drop pos inp)"
    define r where "r = drop w (drop pos inp)"
    have w: "w \<le> length inp - pos" using space0_le [of "drop pos inp"] by (simp add: w_def)
    have meq: "m = (if r = [] then \<lparr>tm_code = MEof, tm_from = pos + w, tm_pos = pos + w\<rparr>
         else case match_any0 letters0 toks r of
                None \<Rightarrow> \<lparr>tm_code = MInvalid, tm_from = pos + w, tm_pos = pos + w\<rparr>
              | Some (t, k) \<Rightarrow> \<lparr>tm_code = MTok t, tm_from = pos + w, tm_pos = pos + w + k\<rparr>)"
      by (simp only: m match0_def Let_def w_def r_def)
    show ?thesis
    proof (cases "r = [] \<or> match_any0 letters0 toks r = None")
      case True
      then show ?thesis using w pos by (auto simp: meq)
    next
      case False
      then obtain t k where tk: "match_any0 letters0 toks r = Some (t, k)" by auto
      with match_any0_ok have "t \<in> set toks" "tok_ok t r k" by blast+
      with tk False w pos show ?thesis by (auto simp: meq tok_ok_def r_def split: if_splits)
    qed
  qed
  then show ?thesis by (simp add: parsly_ok_def ps0_def Let_def)
qed

end
