(* ===== verification/Criteria_Props.thy ===== *)
theory Criteria_Props
  imports Criteria_Compiler Instances
begin

text \<open>
  What the criteria language promises: the parser always returns, a parsed criteria always
  compiles to a closure with the meaning of its tree, the shape of mixed chains of
  comparisons and logical operators, and the laws of the operators.
\<close>

section \<open>The trees the parser builds\<close>

definition good_tree :: "node option \<times> string \<times> node option \<Rightarrow> bool" where
  "good_tree q = (case q of (x, op, y) \<Rightarrow> well_grouped x \<and> well_grouped y)"

lemma normalize_binary_good:
  "well_grouped x \<Longrightarrow> well_grouped y \<Longrightarrow> good_tree (normalize_binary x op y)"
proof (induction x op y rule: normalize_binary.induct)
  case (1 x op y)
  show ?case
  proof (cases "op = ''&&'' \<or> op = ''||'' \<or> y = None")
    case True
    with "1.prems" show ?thesis by (auto simp: normalize_binary.simps [of x op y] good_tree_def)
  next
    case False
    then obtain n where n: "y = Some n" by auto
    show ?thesis
    proof (cases n)
      case (Binary yx yop yy)
      have inner: "well_grouped (case yy of
             Some (Binary a o' b) \<Rightarrow>
               (case normalize_binary a o' b of (a', o'', b') \<Rightarrow> Some (Binary a' o'' b'))
           | _ \<Rightarrow> yy)"
        using "1.IH" "1.prems" False n Binary
        by (auto simp: good_tree_def split: option.splits node.splits prod.splits)
      have "normalize_binary x op y = (Some (Binary x op yx), yop,
           case yy of
             Some (Binary a o' b) \<Rightarrow>
               (case normalize_binary a o' b of (a', o'', b') \<Rightarrow> Some (Binary a' o'' b'))
           | _ \<Rightarrow> yy)"
        using False n Binary by (subst normalize_binary.simps) simp
      with inner "1.prems" n Binary show ?thesis by (simp add: good_tree_def)
    qed (use "1.prems" n in \<open>simp_all add: normalize_atom good_tree_def\<close>)
  qed
qed

lemma attach_right_good:
  "well_grouped x \<Longrightarrow> good_tree q \<Longrightarrow> good_tree (attach_right x op q)"
  by (cases q) (auto simp: attach_right_def Let_def good_tree_def [of "(_, _, _)"]
      intro!: normalize_binary_good)

lemma token_operand_good:
  assumes "token_operand E C t txt inp pos q = Some (Inr x, p)"
    and E: "\<And>t i q x p. E t i q = Some (Inr x, p) \<Longrightarrow> well_grouped x"
    and C: "\<And>b n. C b = Some (Inr n) \<Longrightarrow> operator_node n \<and> well_grouped (Some n)"
  shows "well_grouped x"
  using assms(1) E C
  by (cases t) (auto simp: token_operand_def ebind_Inr_iff split: option.splits sum.splits)

lemma operand_step_good:
  assumes "operand_step ps E C toks inp pos = Some (Inr x, p)"
    and E: "\<And>t i q x p. E t i q = Some (Inr x, p) \<Longrightarrow> well_grouped x"
    and C: "\<And>b n. C b = Some (Inr n) \<Longrightarrow> operator_node n \<and> well_grouped (Some n)"
  shows "well_grouped x"
proof -
  define ops where "ops = (if toks = [] then default_operands else toks)"
  define m where "m = ps_match ps ops inp pos"
  have "operand_step ps E C toks inp pos =
    (case tm_code m of
           MEof \<Rightarrow> Some (Inr None, tm_pos m)
         | MInvalid \<Rightarrow> Some (Inl (PlainErr (ps_error ps ops inp (tm_pos m))), tm_pos m)
         | MTok t \<Rightarrow> token_operand E C t (match_text inp m) inp pos (tm_pos m))"
    by (simp only: operand_step_def ops_def m_def Let_def)
  with assms(1) token_operand_good [OF _ E C] show ?thesis
    by (auto split: mcode.splits)
qed

lemma qualify_step_good:
  assumes "qualify_step ps E Q decl term inp pos = Some (Inr q, p)"
    and "\<And>t i q x p. E t i q = Some (Inr x, p) \<Longrightarrow> well_grouped x"
    and "\<And>t i r q p. Q decl t i r = Some (Inr q, p) \<Longrightarrow> good_tree q"
  shows "good_tree q"
proof -
  have tail: "good_tree q" if "qualify_tail ps Q decl term inp x r = Some (Inr q, p)"
    and "well_grouped x" for x r
    using that
    by (auto simp: qualify_tail_def Let_def good_tree_def [of "(_, _, _)"] split: if_splits option.splits sum.splits
        intro!: attach_right_good dest!: assms(3))
  have "q = (None, [], None) \<or>
      (\<exists>t i x r. E t inp i = Some (Inr x, r) \<and> qualify_tail ps Q decl term inp x r = Some (Inr q, p))"
    using assms(1) unfolding qualify_step_def Let_def
    by (auto split: if_splits option.splits sum.splits)
  then show ?thesis using tail assms(2) by (auto simp: good_tree_def [of "(_, _, _)"])
qed

lemma criteria_step_good:
  assumes "criteria_step Q inp = Some (Inr n)"
    and "\<And>t i r q p. Q False t i r = Some (Inr q, p) \<Longrightarrow> good_tree q"
  shows "operator_node n \<and> well_grouped (Some n)"
proof -
  from assms(1) obtain x op y p where q: "Q False [] inp 0 = Some (Inr (x, op, y), p)"
    and n: "n = (if op = [] \<and> y = None \<and> x \<noteq> None then
               (case x of Some (Unary u o') \<Rightarrow> Unary u o' | _ \<Rightarrow> Unary x [])
             else Binary x op y)"
    by (auto simp: criteria_step_def split: option.splits sum.splits prod.splits)
  from assms(2) [OF q] have "well_grouped x" "well_grouped y" by (simp_all add: good_tree_def)
  with n show ?thesis by (auto split: option.splits node.splits)
qed

lemma parser_good:
  "(\<forall>toks inp pos x p. expect_operand ps n toks inp pos = Some (Inr x, p) \<longrightarrow> well_grouped x) \<and>
   (\<forall>decl term inp pos q p. parse_qualify ps n decl term inp pos = Some (Inr q, p) \<longrightarrow> good_tree q) \<and>
   (\<forall>inp m. parse_criteria_fuel ps n inp = Some (Inr m) \<longrightarrow> operator_node m \<and> well_grouped (Some m))"
proof (induction n)
  case 0
  show ?case by simp
next
  case (Suc n)
  then have E: "\<And>t i q x p. expect_operand ps n t i q = Some (Inr x, p) \<Longrightarrow> well_grouped x"
    and Q: "\<And>d t i r q p. parse_qualify ps n d t i r = Some (Inr q, p) \<Longrightarrow> good_tree q"
    and C: "\<And>b m. parse_criteria_fuel ps n b = Some (Inr m) \<Longrightarrow> operator_node m \<and> well_grouped (Some m)"
    by blast+
  show ?case
    unfolding expect_operand_simps parse_qualify_simps parse_criteria_fuel_simps
  proof (intro conjI allI impI)
    show "well_grouped x"
      if "operand_step ps (expect_operand ps n) (parse_criteria_fuel ps n) toks inp pos = Some (Inr x, p)"
      for toks inp pos x p by (rule operand_step_good [OF that E C])
    show "good_tree q"
      if "qualify_step ps (expect_operand ps n) (parse_qualify ps n) decl term inp pos = Some (Inr q, p)"
      for decl "term" inp pos q p by (rule qualify_step_good [OF that E Q])
    show "operator_node m" "well_grouped (Some m)"
      if "criteria_step (parse_qualify ps n) inp = Some (Inr m)" for inp m
      using criteria_step_good [OF that Q] by simp_all
  qed
qed

lemma parse_criteria_good:
  assumes "parse_criteria ps inp = Inr n"
  shows "operator_node n" "well_grouped (Some n)"
  using assms parser_good [of ps "parse_fuel inp"]
  by (auto simp: parse_criteria_def split: option.splits)

section \<open>Properties\<close>



text \<open>
  C38: whatever text was parsed, its tree compiles (no unsupported node, no nil function),
  and the closure computes the meaning of the tree. An operator that is not supported is
  an error when it is at the root, and an error of reading the operand below it.
\<close>

theorem parsed_criteria_compiles:
  assumes "parse_criteria ps inp = Inr n"
  shows "\<exists>r. compile_expr tb ps inp = Inr (Some r) \<and>
             (\<forall>c. r = Inr c \<longrightarrow> c = meaning tb (Some n)) \<and>
             (\<forall>e. r = Inl e \<longrightarrow> meaning tb (Some n) = (\<lambda>h st. Inl (PlainErr ''unsupported operand'')))"
proof -
  note good = parse_criteria_good [OF assms]
  obtain r where "compile_node tb (Some n) = Inr (Some r)" "meaning tb (Some n) = new_meaning r"
    using compiled_meaning [OF good(2), of tb] good(1) by blast
  then show ?thesis using assms by (auto simp: compile_expr_def new_meaning_def)
qed

theorem parsed_criteria_compiles_witness:
  "\<exists>r. compile_expr tb0 ps0 ''defined $a'' = Inr (Some r) \<and>
       (\<forall>c. r = Inr c \<longrightarrow> c = meaning tb0 (Some (Unary (Some (Selector ''$a'')) ''defined''))) \<and>
       (\<forall>e. r = Inl e \<longrightarrow> meaning tb0 (Some (Unary (Some (Selector ''$a'')) ''defined'')) =
          (\<lambda>h st. Inl (PlainErr ''unsupported operand'')))"
proof -
  have "parse_criteria ps0 ''defined $a'' = Inr (Unary (Some (Selector ''$a'')) ''defined'')"
    by code_simp
  then show ?thesis by (rule parsed_criteria_compiles)
qed

text \<open>
  There is no precedence between \<open>&&\<close> and \<open>||\<close>: a chain of comparisons joined by
  logical operators is parsed as one right-nested tree, whichever operators join them, so
  \<open>a || b && c\<close> is \<open>a || (b && c)\<close> and \<open>a && b || c\<close> is \<open>a && (b || c)\<close>.
\<close>

theorem chain_of_comparisons_is_right_nested:
  assumes "lex_chain ps n [] inp 0 = Some (a, flat_comparisons (a, c, b) rest, p)"
    and "comparisons_ok (a, c, b) rest"
    and "right_nested (a, c, b) rest = (x, op, y)"
    and "Suc n = parse_fuel inp"
  shows "parse_criteria ps inp = Inr (Binary x op y)"
  using parse_chain_of_comparisons [OF assms(1-3)] assms(4) by (simp add: parse_criteria_def)

theorem chain_of_comparisons_is_right_nested_witness:
  "parse_criteria ps0 ''a=b && c=d || e=f'' =
     Inr (Binary (Some (Binary (Some (Literal ''a'' ''string'' [])) ''='' (Some (Literal ''b'' ''string'' []))))
       ''&&''
       (Some (Binary (Some (Binary (Some (Literal ''c'' ''string'' [])) ''='' (Some (Literal ''d'' ''string'' []))))
         ''||''
         (Some (Binary (Some (Literal ''e'' ''string'' [])) ''='' (Some (Literal ''f'' ''string'' [])))))))"
proof -
  let ?l = "\<lambda>s. Literal s ''string'' []"
  let ?rest = "[(''&&'', ?l ''c'', ''='', ?l ''d''), (''||'', ?l ''e'', ''='', ?l ''f'')]"
  have lex: "lex_chain ps0 53 [] ''a=b && c=d || e=f'' 0 =
      Some (?l ''a'', flat_comparisons (?l ''a'', ''='', ?l ''b'') ?rest, 17)"
    by code_simp
  show ?thesis
    by (rule chain_of_comparisons_is_right_nested [OF lex])
      (simp_all add: logical_def parse_fuel_def)
qed

section \<open>Operators\<close>

text \<open>The values of the two operands, when both can be read.\<close>

definition operands ::
  "toolbox \<Rightarrow> operand \<Rightarrow> operand \<Rightarrow> heap \<Rightarrow> nat \<Rightarrow> value \<Rightarrow> bool \<Rightarrow> value \<Rightarrow> bool \<Rightarrow> bool" where
  "operands tb x y h st vx hx vy hy \<longleftrightarrow>
     operand_value tb x h st = Inr (vx, hx) \<and> operand_value tb y h st = Inr (vy, hy)"

definition eval_operator ::
  "toolbox \<Rightarrow> string \<Rightarrow> operand \<Rightarrow> operand \<Rightarrow> heap \<Rightarrow> nat \<Rightarrow> go_error + (value \<times> bool)" where
  "eval_operator tb op x y h st =
     (case new_binary tb op x y of Inl e \<Rightarrow> Inl e | Inr c \<Rightarrow> c h st)"

definition complement_of :: "go_error + (value \<times> bool) \<Rightarrow> go_error + (value \<times> bool) \<Rightarrow> bool" where
  "complement_of r q \<longleftrightarrow>
     (case r of
        Inr (VBool b, True) \<Rightarrow> q = Inr (VBool (\<not> b), True)
      | Inl e \<Rightarrow> q = Inl e
      | _ \<Rightarrow> False)"

lemma known_operator_simps [simp]:
  "''='' \<in> set known_operators" "''!='' \<in> set known_operators" "''<'' \<in> set known_operators"
  "''>='' \<in> set known_operators" "''>'' \<in> set known_operators" "''<='' \<in> set known_operators"
  "''contains'' \<in> set known_operators" "''contains!'' \<in> set known_operators"
  "'':/'' \<in> set known_operators" "'':!/'' \<in> set known_operators"
  "''&&'' \<in> set known_operators" "''||'' \<in> set known_operators"
  by (simp_all add: known_operators_def)

lemma trim_flags [simp]:
  "contains ''='' '':/'' = False" "contains ''!='' '':/'' = False" "contains ''contains'' '':/'' = False"
  "contains ''contains!'' '':/'' = False" "contains '':/'' '':/'' = True" "contains '':!/'' '':/'' = False"
  by code_simp+

text \<open>
  Whenever at least one operand has a value, \<open>!=\<close> is the complement of \<open>=\<close>, \<open>>=\<close> of
  \<open><\<close> and \<open>>\<close> of \<open><=\<close> (no operand being NaN), and \<open>contains!\<close> of \<open>contains\<close> when the left
  operand has a value: exactly one of the two criteria holds.
\<close>

theorem operators_have_complements:
  assumes "operands tb x y h st vx hx vy hy" and "hx \<or> hy"
  shows "complement_of (eval_operator tb ''='' x y h st) (eval_operator tb ''!='' x y h st) \<and>
    (as_float tb vx \<noteq> FNaN \<and> as_float tb vy \<noteq> FNaN \<longrightarrow>
      complement_of (eval_operator tb ''<'' x y h st) (eval_operator tb ''>='' x y h st) \<and>
      complement_of (eval_operator tb ''<='' x y h st) (eval_operator tb ''>'' x y h st)) \<and>
    (hx \<longrightarrow> complement_of (eval_operator tb ''contains'' x y h st)
      (eval_operator tb ''contains!'' x y h st))"
proof (intro conjI impI)
  note o = assms(1) [unfolded operands_def]
  show "complement_of (eval_operator tb ''='' x y h st) (eval_operator tb ''!='' x y h st)"
    using o assms(2)
    by (cases "go_eq vx (coerce_like tb vx vy)")
      (auto simp: eval_operator_def new_binary_def Let_def op_equal_def op_not_equal_def both_def
        complement_of_def)
  show "complement_of (eval_operator tb ''<'' x y h st) (eval_operator tb ''>='' x y h st)"
    if that: "as_float tb vx \<noteq> FNaN \<and> as_float tb vy \<noteq> FNaN"
    using o assms(2) fl_not_leq_iff [OF that [THEN conjunct2] that [THEN conjunct1]]
    by (auto simp: eval_operator_def new_binary_def Let_def op_less_def op_greater_equal_def both_def
        complement_of_def)
  show "complement_of (eval_operator tb ''<='' x y h st) (eval_operator tb ''>'' x y h st)"
    if that: "as_float tb vx \<noteq> FNaN \<and> as_float tb vy \<noteq> FNaN"
    using o assms(2) fl_not_leq_iff [OF that [THEN conjunct1] that [THEN conjunct2]]
    by (auto simp: eval_operator_def new_binary_def Let_def op_less_equal_def op_greater_def both_def
        complement_of_def)
  show "complement_of (eval_operator tb ''contains'' x y h st)
      (eval_operator tb ''contains!'' x y h st)" if hx
    using o that
    by (auto simp: eval_operator_def new_binary_def Let_def op_contains_def op_not_contains_def both_def
        complement_of_def)
qed

definition heap0 :: heap where
  "heap0 = \<lparr>cells = (\<lambda>_. []), fresh = 1\<rparr>"

theorem operators_have_complements_witness:
  "complement_of (eval_operator tb0 ''<'' (OLiteral ''3'') (OLiteral ''7'') heap0 0)
     (eval_operator tb0 ''>='' (OLiteral ''3'') (OLiteral ''7'') heap0 0)"
  using operators_have_complements
    [of tb0 "OLiteral ''3''" "OLiteral ''7''" heap0 0 "VStr ''3''" True "VStr ''7''" True]
  by (simp add: operands_def tb0_def)

text \<open>
  The two operators with a trailing slash are not complements: \<open>:/\<close> drops the slashes at
  the end of its right operand before it searches, \<open>:!/\<close> does not. Whenever the left text
  has the trimmed right operand but not the untrimmed one, both criteria hold.
\<close>

theorem trimmed_match_not_complemented:
  assumes "operands tb x y h st vx True vy hy"
    and "contains (as_string tb vx) (trim_right (as_string tb vy) CHR ''/'')"
    and "\<not> contains (as_string tb vx) (as_string tb vy)"
  shows "eval_operator tb '':/'' x y h st = Inr (VBool True, True) \<and>
         eval_operator tb '':!/'' x y h st = Inr (VBool True, True)"
  using assms
  by (auto simp: operands_def eval_operator_def new_binary_def Let_def op_contains_def
      op_not_contains_def both_def)

theorem trimmed_match_not_complemented_witness:
  "eval_operator tb0 '':/'' (OLiteral ''a/b'') (OLiteral ''b/'') heap0 0 = Inr (VBool True, True) \<and>
   eval_operator tb0 '':!/'' (OLiteral ''a/b'') (OLiteral ''b/'') heap0 0 = Inr (VBool True, True)"
  by (rule trimmed_match_not_complemented [of tb0 _ _ _ _ "VStr ''a/b''" "VStr ''b/''" True])
    (simp_all add: operands_def tb0_def contains_def trim_right_def prefix_def)

text \<open>
  \<open>||\<close> does not read its right operand when the left one is true, so an error on the
  right is not seen; \<open>&&\<close> always reads both, so an error on the right is reported even when
  the left operand is false.
\<close>

theorem logical_operators_evaluation_order:
  assumes "operand_value tb x h st = Inr (vx, hx)"
  shows "(as_bool tb vx \<longrightarrow> eval_operator tb ''||'' x y h st = Inr (VBool True, True)) \<and>
    (\<forall>e. operand_value tb y h st = Inl e \<longrightarrow> eval_operator tb ''&&'' x y h st = Inl e) \<and>
    (\<forall>vy hy. operand_value tb y h st = Inr (vy, hy) \<and> (hx \<or> hy) \<longrightarrow>
      eval_operator tb ''&&'' x y h st = Inr (VBool (as_bool tb vx \<and> as_bool tb vy), True) \<and>
      eval_operator tb ''||'' x y h st = Inr (VBool (as_bool tb vx \<or> as_bool tb vy), True))"
  using assms
  by (auto simp: eval_operator_def new_binary_def Let_def op_and_def op_or_def both_def)

theorem logical_operators_evaluation_order_witness:
  "eval_operator tb0 ''||'' (OLiteral ''true'') (OCompute None) heap0 0 = Inr (VBool True, True) \<and>
   eval_operator tb0 ''&&'' (OLiteral ''no'') (OCompute None) heap0 0 =
     Inl (PlainErr ''unsupported operand'')"
  using logical_operators_evaluation_order
      [of tb0 "OLiteral ''true''" heap0 0 "VStr ''true''" True "OCompute None"]
    logical_operators_evaluation_order
      [of tb0 "OLiteral ''no''" heap0 0 "VStr ''no''" True "OCompute None"]
  by (simp add: tb0_def)

text \<open>
  \<open>Evaluate\<close> yields the default for an empty criteria, for a result that has no value
  and for a result that is not boolean; an evaluation error is returned, and its event
  carries the error's text; the closure that was compiled is never cached, so every call
  with an empty cache compiles again.
\<close>

theorem evaluate_defaults:
  assumes "parse_criteria ps inp = Inr n" and "inp \<noteq> []"
    and "compile_node tb (Some n) = Inr (Some (Inr c))"
  shows "evaluate tb ps h st [] cached ty def = (Inr def, None) \<and>
    (\<forall>v has. c h st = Inr (v, has) \<longrightarrow>
      fst (evaluate tb ps h st inp None ty def) =
        Inr (if has then (case v of VBool b \<Rightarrow> b | _ \<Rightarrow> def) else def)) \<and>
    (\<forall>e. c h st = Inl e \<and> \<not> is_panic e \<longrightarrow>
      fst (evaluate tb ps h st inp None ty def) = Inl e \<and>
      map_option ev_error (snd (evaluate tb ps h st inp None ty def)) = Some (error_text e))"
  using assms
  by (auto simp: evaluate_def compile_expr_def run_compute_def new_eval_event_def Let_def
      split: "value.splits")

theorem evaluate_defaults_witness:
  "fst (evaluate tb0 ps0 heap0 0 ''3<7'' None ''Skip'' False) = Inr True"
proof -
  let ?n = "Binary (Some (Literal ''3'' ''numeric'' [])) ''<'' (Some (Literal ''7'' ''numeric'' []))"
  let ?c = "op_less tb0 \<lparr>bin_x = OLiteral ''3'', bin_y = OLiteral ''7'', bin_trim = False\<rparr>"
  have p: "parse_criteria ps0 ''3<7'' = Inr ?n" by code_simp
  have c: "compile_node tb0 (Some ?n) = Inr (Some (Inr ?c))"
    by (simp add: new_binary_def Let_def contains_def prefix_def)
  have "?c heap0 0 = Inr (VBool True, True)"
    by (simp add: op_less_def both_def tb0_def is_digit_def)
  with evaluate_defaults [OF p _ c, of heap0 0 None "''Skip''" False] show ?thesis by auto
qed

end
