(* ===== verification/Util.thy ===== *)
theory Util
  imports Endly_Error Instances
begin

text \<open>
  internal/util: loading of resources and their arguments, map helpers, ignore lists,
  payloads and the inspection of command output. \<open>storage\<close> is the interface of the
  packages that do the work (viant/afs, viant/toolbox, vtclean, encoding/base64).
\<close>

record storage =
  download :: "string \<Rightarrow> go_error + string"
  exists_at :: "string \<Rightarrow> bool"
  decode_any :: "string \<Rightarrow> go_error + value"
  decode_map :: "string \<Rightarrow> go_error + smap"
  decode_text :: "string \<Rightarrow> string \<Rightarrow> go_error + value"
  url_path_join :: "string \<Rightarrow> string \<Rightarrow> string"
  kv_pairs :: "value \<Rightarrow> go_error + value"
  encodable_map :: "heap \<Rightarrow> nat \<Rightarrow> smap"
  indent_json :: "smap \<Rightarrow> string"
  register_udf :: "smap \<Rightarrow> smap"
  process_map :: "value \<Rightarrow> go_error + (value \<times> value) list"
  struct_map :: "value \<Rightarrow> smap"
  is_json :: "string \<Rightarrow> bool"
  json_slice :: "string \<Rightarrow> go_error + value"
  json_map :: "string \<Rightarrow> go_error + smap"
  json_value :: "string \<Rightarrow> go_error + value"
  is_ascii :: "string \<Rightarrow> bool"
  base64_encode :: "string \<Rightarrow> string"
  base64_decode :: "string \<Rightarrow> go_error + string"
  vt_clean :: "string \<Rightarrow> bool \<Rightarrow> string"

section \<open>Values\<close>

definition is_slice_value :: "value \<Rightarrow> bool" where
  "is_slice_value v = (case v of VSlice _ \<Rightarrow> True | _ \<Rightarrow> False)"

definition is_map_value :: "value \<Rightarrow> bool" where
  "is_map_value v = (case v of VMap _ \<Rightarrow> True | VRef _ \<Rightarrow> True | _ \<Rightarrow> False)"

definition is_struct_value :: "value \<Rightarrow> bool" where
  "is_struct_value v = (case v of VStruct _ _ \<Rightarrow> True | _ \<Rightarrow> False)"

text \<open>\<open>strings.Trim\<close> with a set of ASCII characters.\<close>

definition trim_set :: "string \<Rightarrow> string \<Rightarrow> string" where
  "trim_set cs s = rev (dropWhile (\<lambda>c. c \<in> set cs) (rev (dropWhile (\<lambda>c. c \<in> set cs) s)))"

section \<open>Maps\<close>

definition normalize_pair :: "storage \<Rightarrow> bool \<Rightarrow> value \<Rightarrow> value" where
  "normalize_pair io deep v =
     (if deep then (case kv_pairs io v of Inr n \<Rightarrow> n | Inl _ \<Rightarrow> v) else v)"

definition normalize_map :: "toolbox \<Rightarrow> storage \<Rightarrow> value \<Rightarrow> bool \<Rightarrow> go_error + smap" where
  "normalize_map tb io kvs deep =
     (if kvs = VNil then Inr []
      else ebind (process_map io kvs) (\<lambda>pairs.
        Inr (fold (\<lambda>(k, v). mput (as_string tb k) (normalize_pair io deep v)) pairs [])))"

fun append_map :: "(string \<times> 'v) list \<Rightarrow> bool \<Rightarrow> (string \<times> 'v) list \<Rightarrow> (string \<times> 'v) list" where
  "append_map [] override dest = dest"
| "append_map ((k, v) # src) override dest =
     append_map src override (if mhas dest k \<and> \<not> override then dest else mput k v dest)"

text \<open>
  \<open>MergeMap\<close> follows nested \<open>data.Map\<close> values of both maps. The nesting of the source
  bounds the recursion; a cyclic one would not return (\<open>None\<close>).
\<close>

fun merge_map :: "nat \<Rightarrow> nat \<Rightarrow> smap \<Rightarrow> heap \<Rightarrow> heap option" where
  "merge_map n dest [] h = Some h"
| "merge_map n dest ((k, v) # src) h =
     (case (mget (cell h dest) k, v) of
        (Some (VRef d), VRef s) \<Rightarrow>
          (case n of 0 \<Rightarrow> None
           | Suc m \<Rightarrow> Option.bind (merge_map m d (cell h s) h) (merge_map n dest src))
      | _ \<Rightarrow> merge_map n dest src (write_cell dest (mput k v (cell h dest)) h))"

definition lower_case_mapping :: "(string \<times> 'v) list \<Rightarrow> (string \<times> string) list" where
  "lower_case_mapping m = fold (\<lambda>(k, v). mput (to_lower k) k) m []"

lemma mget_append_map:
  "distinct (map fst src) \<Longrightarrow> mget (append_map src override dest) k =
     (if override then (case mget src k of Some v \<Rightarrow> Some v | None \<Rightarrow> mget dest k)
      else (case mget dest k of Some v \<Rightarrow> Some v | None \<Rightarrow> mget src k))"
proof (induction src override dest rule: append_map.induct)
  case (1 override dest)
  then show ?case by (auto split: option.splits)
next
  case (2 a v src override dest)
  have a: "mget src a = None" using "2.prems" by (simp add: mget_def map_of_eq_None_iff)
  show ?case
    using 2 a by (auto simp: mget_Cons mhas_iff split: option.splits)
qed

text \<open>
  \<open>Append\<close> takes every entry of the source when it overrides, and otherwise only the
  keys the destination does not have; no other key changes.
\<close>

theorem append_map_lookup:
  assumes "distinct (map fst src)"
  shows "mget (append_map src override dest) k =
     (if override then (case mget src k of Some v \<Rightarrow> Some v | None \<Rightarrow> mget dest k)
      else (case mget dest k of Some v \<Rightarrow> Some v | None \<Rightarrow> mget src k))"
  by (rule mget_append_map) (rule assms)

theorem append_map_lookup_witness:
  "mget (append_map [(''a'', 1), (''b'', 2)] False [(''a'', 0::nat)]) ''a'' = Some 0"
  using append_map_lookup [of "[(''a'', 1), (''b'', 2::nat)]" False "[(''a'', 0)]" "''a''"]
  by (simp add: mget_def)

definition as_data_map :: "storage \<Rightarrow> value \<Rightarrow> value" where
  "as_data_map io v =
     (if v = VNil then VMap []
      else if is_struct_value v then VMap (struct_map io v)
      else if is_map_value v then v else VMap [])"

text \<open>The text and the structure of an action's output.\<close>

definition as_extractable :: "toolbox \<Rightarrow> storage \<Rightarrow> value \<Rightarrow> string \<times> value" where
  "as_extractable tb io v =
     (let (text, structured) =
        (case v of
           VStr s \<Rightarrow> (s, VNil)
         | VSlice vs \<Rightarrow>
             (case vs of
                [] \<Rightarrow> ([], VNil)
              | VStr s # _ \<Rightarrow> (s, VNil)
              | x # _ \<Rightarrow> ([], as_data_map io x))
         | _ \<Rightarrow> ([], as_data_map io v))
      in if text \<noteq> [] \<and> is_json io text then
           (if has_prefix (trim_set [CHR '' '', char_of (13::nat), char_of (10::nat)] text) ''['' then
              (text, VMap (case json_slice io text of Inr s \<Rightarrow> [(''value'', s)] | Inl _ \<Rightarrow> []))
            else (text, case json_map io text of Inr m \<Rightarrow> VMap m | Inl _ \<Rightarrow> structured))
         else (text, structured))"

section \<open>Resource errors\<close>

text \<open>\<open>*NotSuchResourceError\<close> is told apart from all other errors by its type.\<close>

datatype res_error = NotSuch string string | OtherErr go_error

definition not_such_text :: "string \<Rightarrow> string \<Rightarrow> string" where
  "not_such_text message resource = (if message \<noteq> [] then message else ''no such resource'' @ resource)"

definition classify_error :: "string \<Rightarrow> go_error \<Rightarrow> res_error" where
  "classify_error text e =
     (if contains text ''no such file or directory''
      then NotSuch [] (replace_first text ''no such file or directory'' [])
      else OtherErr e)"

fun is_not_such :: "res_error option \<Rightarrow> bool" where
  "is_not_such (Some (NotSuch _ _)) = True"
| "is_not_such _ = False"

section \<open>Loading\<close>

definition get_uris :: "string \<Rightarrow> string list" where
  "get_uris uri = filter (\<lambda>u. u \<noteq> []) (split_on ''|'' (map (\<lambda>c. if c = CHR '' '' then CHR ''|'' else c) uri))"

definition extensions :: "string list" where
  "extensions = [''.json'', ''.yaml'', ''.yml'', ''.txt'', []]"

definition resource_uri :: "storage \<Rightarrow> string \<Rightarrow> string \<Rightarrow> string" where
  "resource_uri io base uri =
     (if base \<noteq> [] \<and> \<not> contains uri '':/'' \<and> \<not> has_prefix uri ''/''
      then url_path_join io base uri else uri)"

definition expected_at :: "string \<Rightarrow> go_error" where
  "expected_at uri = PlainErr (''expected @ prefix but had: '' @ uri)"

text \<open>
  \<open>LoadResource\<close> tries the extensions in turn. For a text target the download error is
  declared inside the branch, so that the outer error stays nil: the loop ends without an
  error, and the target keeps the text it had.
\<close>

fun load_text_from :: "storage \<Rightarrow> string \<Rightarrow> string list \<Rightarrow> string \<Rightarrow> string \<times> string" where
  "load_text_from io uri [] old = (uri, old)"
| "load_text_from io uri (ext # exts) old =
     (case download io (uri @ ext) of
        Inr content \<Rightarrow> (uri @ ext, content)
      | Inl _ \<Rightarrow> load_text_from io uri exts old)"

definition load_text :: "storage \<Rightarrow> string \<Rightarrow> string \<Rightarrow> string \<Rightarrow> res_error + (string \<times> string)" where
  "load_text io base uri old =
     (if \<not> has_prefix uri ''@'' then Inl (OtherErr (expected_at uri))
      else Inr (load_text_from io (resource_uri io base (drop 1 uri)) extensions old))"

fun load_decoded_from ::
  "(string \<Rightarrow> go_error + 'a) \<Rightarrow> string \<Rightarrow> string list
     \<Rightarrow> res_error option \<Rightarrow> res_error option \<Rightarrow> res_error + (string \<times> 'a)" where
  "load_decoded_from dec uri [] err load_err =
     Inl (case load_err of Some e \<Rightarrow> e
          | None \<Rightarrow> (case err of Some e \<Rightarrow> e | None \<Rightarrow> OtherErr (PlainErr [])))"
| "load_decoded_from dec uri (ext # exts) err load_err =
     (case dec (uri @ ext) of
        Inr x \<Rightarrow> Inr (uri @ ext, x)
      | Inl e \<Rightarrow>
          (let e' = classify_error (error_text e) e
           in load_decoded_from dec uri exts (Some e')
                (if is_not_such (Some e') then load_err else Some e')))"

definition load_decoded ::
  "storage \<Rightarrow> (string \<Rightarrow> go_error + 'a) \<Rightarrow> string \<Rightarrow> string
     \<Rightarrow> res_error + (string \<times> 'a)" where
  "load_decoded io dec base uri =
     (if \<not> has_prefix uri ''@'' then Inl (OtherErr (expected_at uri))
      else load_decoded_from dec (resource_uri io base (drop 1 uri)) extensions None None)"

text \<open>
  \<open>LoadResourceFromBaseURLs\<close>: the first base that has the resource; only a missing resource
  moves on to the next base. Without a base it returns a nil resource and no error.
\<close>

definition candidates :: "storage \<Rightarrow> string list \<Rightarrow> string \<Rightarrow> string list" where
  "candidates io bases uri =
     rev (remdups (rev (concat (map (\<lambda>b. map (\<lambda>ext. url_path_join io b (drop 1 uri @ ext)) extensions) bases))))"

fun first_base ::
  "(string \<Rightarrow> res_error + 'a) \<Rightarrow> string list \<Rightarrow> res_error option \<Rightarrow> res_error + 'a option" where
  "first_base load [] err = (case err of None \<Rightarrow> Inr None | Some e \<Rightarrow> Inl e)"
| "first_base load (b # bs) err =
     (case load b of
        Inr x \<Rightarrow> Inr (Some x)
      | Inl e \<Rightarrow> if is_not_such (Some e) then first_base load bs (Some e) else Inl e)"

definition load_from_bases ::
  "storage \<Rightarrow> (string \<Rightarrow> res_error + 'a) \<Rightarrow> string list \<Rightarrow> string \<Rightarrow> res_error + 'a option" where
  "load_from_bases io load bases uri =
     (case first_base load bases None of
        Inl (NotSuch m r) \<Rightarrow>
          Inl (NotSuch (''failed to locate one of the following: '' @
                 join [CHR '','', char_of (10::nat), char_of (9::nat)] (candidates io bases uri)) [])
      | r \<Rightarrow> r)"

text \<open>
  Loading a text resource never reports that it is missing: whatever the storage
  answers, an \<open>@\<close> resource is reported as loaded from the first base URL, with the old
  content when no candidate could be downloaded.
\<close>

theorem missing_text_is_not_reported:
  assumes "has_prefix uri ''@''"
  shows "(\<exists>url content. load_from_bases io (\<lambda>b. load_text io b uri old) (base # bases) uri =
            Inr (Some (url, content))) \<and>
         ((\<forall>ext\<in>set extensions. \<not> is_ok (download io (resource_uri io base (drop 1 uri) @ ext))) \<longrightarrow>
            load_from_bases io (\<lambda>b. load_text io b uri old) (base # bases) uri =
              Inr (Some (resource_uri io base (drop 1 uri), old)))"
proof -
  have "\<forall>ext\<in>set exts. \<not> is_ok (download io (u @ ext)) \<Longrightarrow> load_text_from io u exts old = (u, old)"
    for u exts by (induction exts) (auto split: sum.splits)
  then show ?thesis
    using assms by (cases "load_text_from io (resource_uri io base (drop 1 uri)) extensions old")
      (auto simp: load_from_bases_def load_text_def)
qed

text \<open>A storage without any file.\<close>

definition no_files :: storage where
  "no_files = \<lparr>download = (\<lambda>u. Inl (PlainErr ''no such file or directory'')), exists_at = (\<lambda>u. False),
     decode_any = (\<lambda>u. Inl (PlainErr ''no such file or directory'')),
     decode_map = (\<lambda>u. Inl (PlainErr ''no such file or directory'')),
     decode_text = (\<lambda>u s. Inr (VStr s)), url_path_join = (\<lambda>b u. b @ ''/'' @ u),
     kv_pairs = (\<lambda>v. Inl (PlainErr ''unable to normalize'')),
     encodable_map = cells, indent_json = (\<lambda>m. join '','' (map fst m)),
     register_udf = (\<lambda>m. m),
     process_map = (\<lambda>v. case v of VMap m \<Rightarrow> Inr (map (\<lambda>(k, w). (VStr k, w)) m)
        | _ \<Rightarrow> Inl (PlainErr ''unsupported type'')),
     struct_map = (\<lambda>v. case v of VStruct _ m \<Rightarrow> m | _ \<Rightarrow> []),
     is_json = (\<lambda>s. False), json_slice = (\<lambda>s. Inl (PlainErr ''invalid JSON'')),
     json_map = (\<lambda>s. Inl (PlainErr ''invalid JSON'')), json_value = (\<lambda>s. Inl (PlainErr ''invalid JSON'')),
     is_ascii = (\<lambda>s. True), base64_encode = (\<lambda>s. s), base64_decode = (\<lambda>s. Inr s), vt_clean = (\<lambda>s b. s)\<rparr>"

theorem missing_text_is_not_reported_witness:
  "load_from_bases no_files (\<lambda>b. load_text no_files b ''@var'' ''old'') [''mem:''] ''@var'' =
     Inr (Some (''mem:/var'', ''old''))"
proof -
  have "has_prefix ''@var'' ''@''" "resource_uri no_files ''mem:'' (drop 1 ''@var'') = ''mem:/var''"
    by code_simp+
  then show ?thesis
    using missing_text_is_not_reported [of "''@var''" no_files "''old''" "''mem:''" "[]"]
    by (simp add: no_files_def)
qed

definition res_error_text :: "res_error \<Rightarrow> string" where
  "res_error_text e = (case e of NotSuch m r \<Rightarrow> not_such_text m r | OtherErr g \<Rightarrow> error_text g)"

section \<open>Arguments of a resource\<close>

text \<open>\<open>strings.Index\<close> with its \<open>-1\<close>, and slicing, which panics out of bounds.\<close>

definition index_int :: "string \<Rightarrow> string \<Rightarrow> int" where
  "index_int s sub = (case index_of s sub of None \<Rightarrow> - 1 | Some i \<Rightarrow> int i)"

definition last_index_int :: "string \<Rightarrow> string \<Rightarrow> int" where
  "last_index_int s sub = (case last_index_of s sub of None \<Rightarrow> - 1 | Some i \<Rightarrow> int i)"

definition go_slice :: "string \<Rightarrow> int \<Rightarrow> int \<Rightarrow> go_error + string" where
  "go_slice s i j =
     (if 0 \<le> i \<and> i \<le> j \<and> j \<le> int (length s) then Inr (take (nat (j - i)) (drop (nat i) s))
      else Inl (Panicked ''slice bounds out of range''))"

definition trim_argument :: "string \<Rightarrow> go_error + string" where
  "trim_argument t =
     (if index_int t ''{'' < index_int t ''['' then
        go_slice t (index_int t ''{'' + 1) (last_index_int t ''}'' - 1)
      else if last_index_int t '']'' < int (length t) \<and> 0 < index_int t ''['' \<and>
          index_int t ''['' < last_index_int t '']'' then
        go_slice t (index_int t ''['' + 1) (last_index_int t '']'' - 1)
      else Inr t)"

text \<open>
  The text of an argument that is a list without any brace makes the loading panic,
  and the text of an object without any bracket keeps its braces.
\<close>

theorem list_argument_panics:
  assumes "CHR ''{'' \<notin> set t"
  shows "if CHR ''['' \<in> set t \<and> CHR ''}'' \<notin> set t
         then trim_argument t = Inl (Panicked ''slice bounds out of range'')
         else CHR ''['' \<notin> set t \<longrightarrow> trim_argument (''{'' @ t) = Inr (''{'' @ t)"
proof -
  have none: "c \<notin> set s \<Longrightarrow> index_int s [c] = - 1 \<and> last_index_int s [c] = - 1" for c s
    by (simp add: index_int_def last_index_int_def index_of_char_None [THEN iffD2]
        last_index_char_None [THEN iffD2])
  have some: "CHR ''['' \<in> set t \<Longrightarrow> 0 \<le> index_int t ''[''"
    by (auto simp: index_int_def index_of_char_None split: option.split)
  have brace: "0 \<le> index_int (''{'' @ t) ''{''" by (simp add: index_int_def)
  show ?thesis
    using none [OF assms] none [of "CHR ''}''" t] none [of "CHR ''[''" "''{'' @ t"] some brace
    by (auto simp: trim_argument_def go_slice_def)
qed

theorem list_argument_panics_witness:
  "trim_argument ''[1, 2]'' = Inl (Panicked ''slice bounds out of range'')"
  using list_argument_panics [of "''[1, 2]''"] by simp

definition expand_with :: "toolbox \<Rightarrow> heap \<Rightarrow> smap \<Rightarrow> value \<Rightarrow> value" where
  "expand_with tb h m v = (let (a, h') = alloc m h in expand tb h' a v)"

definition expand_text_with :: "toolbox \<Rightarrow> heap \<Rightarrow> smap \<Rightarrow> string \<Rightarrow> string" where
  "expand_text_with tb h m s = (let (a, h') = alloc m h in expand_text tb h' a s)"

definition decode_content :: "storage \<Rightarrow> string \<Rightarrow> string \<Rightarrow> go_error + value" where
  "decode_content io url content =
     (case decode_text io url content of
        Inl e \<Rightarrow> Inl (PlainErr (''failed to decode '' @ url @ '', '' @ error_text e))
      | Inr v \<Rightarrow> kv_pairs io v)"

definition lift_res :: "go_error + 'a \<Rightarrow> res_error + 'a" where
  "lift_res r = (case r of Inl e \<Rightarrow> Inl (OtherErr e) | Inr x \<Rightarrow> Inr x)"

type_synonym loader = "string list \<Rightarrow> string \<Rightarrow> res_error + value"

fun argument_data ::
  "toolbox \<Rightarrow> heap \<Rightarrow> loader \<Rightarrow> string list \<Rightarrow> string list \<Rightarrow> nat \<Rightarrow> value \<Rightarrow> res_error + value" where
  "argument_data tb h load bases [] i v = Inr v"
| "argument_data tb h load bases (u # us) i v =
     ebind (load bases u) (\<lambda>arg.
       argument_data tb h load bases us (Suc i)
         (expand_with tb h [(''argData'' @ show_int (int i), arg)] v))"

fun argument_literals ::
  "storage \<Rightarrow> string list \<Rightarrow> string list \<Rightarrow> nat \<Rightarrow> smap \<Rightarrow> res_error + smap" where
  "argument_literals io bases [] i m = Inr m"
| "argument_literals io bases (u # us) i m =
     ebind (load_from_bases io (\<lambda>b. load_text io b u []) bases u) (\<lambda>r.
       let text = (case r of None \<Rightarrow> [] | Some (url, content) \<Rightarrow> content)
       in ebind (lift_res (trim_argument (trim_space text))) (\<lambda>trimmed.
         argument_literals io bases us (Suc i)
           (mput (''args'' @ show_int (int i)) (VStr trimmed)
             (mput (''arg'' @ show_int (int i)) (VStr text) m))))"

text \<open>\<open>expandMapWithArgumentsIfMatched\<close>; a nil result is \<open>None\<close>.\<close>

definition expand_arguments ::
  "toolbox \<Rightarrow> storage \<Rightarrow> heap \<Rightarrow> loader \<Rightarrow> string list \<Rightarrow> string list \<Rightarrow> string option \<Rightarrow> string
     \<Rightarrow> res_error + value option" where
  "expand_arguments tb io h load bases uris main content =
     (if length uris < 2 then Inr None
      else if \<not> (contains content ''$arg'' \<or> contains content ''${arg'') then Inr None
      else case main of
        None \<Rightarrow> Inl (OtherErr (Panicked ''nil pointer dereference''))
      | Some url \<Rightarrow>
          if contains content ''argData'' then
            ebind (lift_res (decode_content io url content)) (\<lambda>v.
              ebind (argument_data tb h load bases (tl uris) 0 v) (\<lambda>r. Inr (Some r)))
          else
            ebind (argument_literals io bases (tl uris) 0 []) (\<lambda>m.
              ebind (lift_res (decode_content io url (expand_text_with tb h m content))) (\<lambda>r.
                Inr (Some r))))"

fun expand_maps ::
  "toolbox \<Rightarrow> storage \<Rightarrow> heap \<Rightarrow> string list \<Rightarrow> string list \<Rightarrow> value \<Rightarrow> res_error + value" where
  "expand_maps tb io h bases [] v = Inr v"
| "expand_maps tb io h bases (u # us) v =
     ebind (load_from_bases io (\<lambda>b. load_decoded io (decode_map io) b u) bases u) (\<lambda>r.
       expand_maps tb io h bases us
         (expand_with tb h (case r of None \<Rightarrow> [] | Some (url, m) \<Rightarrow> m) v))"

text \<open>
  \<open>LoadData\<close>. It calls itself only for a single argument, which has no arguments of its
  own, so that two rounds are the whole recursion (\<open>load_data_unfold\<close>).
\<close>

definition load_data_step :: "toolbox \<Rightarrow> storage \<Rightarrow> heap \<Rightarrow> loader \<Rightarrow> loader" where
  "load_data_step tb io h load bases uri =
     (let uris = get_uris (trim_space uri)
      in if uris = [] then Inl (OtherErr (Panicked ''index out of range''))
         else ebind (load_from_bases io (\<lambda>b. load_text io b (hd uris) []) bases (hd uris)) (\<lambda>raw.
           let (main, content) =
             (case raw of None \<Rightarrow> (None, []) | Some (url, content) \<Rightarrow> (Some url, content))
           in ebind (expand_arguments tb io h load bases uris main content) (\<lambda>matched.
             case matched of
               Some v \<Rightarrow> Inr v
             | None \<Rightarrow>
                 ebind (load_from_bases io (\<lambda>b. load_decoded io (decode_any io) b (hd uris)) bases (hd uris))
                   (\<lambda>r. expand_maps tb io h bases (tl uris)
                          (case r of None \<Rightarrow> VNil | Some (url, v) \<Rightarrow> v)))))"

definition load_data :: "toolbox \<Rightarrow> storage \<Rightarrow> heap \<Rightarrow> loader" where
  "load_data tb io h =
     load_data_step tb io h (load_data_step tb io h (\<lambda>bases uri. Inl (OtherErr (Panicked ''unreachable''))))"

lemma get_uris_parts: "u \<in> set (get_uris s) \<Longrightarrow> u \<noteq> [] \<and> CHR ''|'' \<notin> set u \<and> CHR '' '' \<notin> set u"
proof -
  let ?f = "\<lambda>c. if c = CHR '' '' then CHR ''|'' else c"
  assume "u \<in> set (get_uris s)"
  then have u: "u \<noteq> []" "u \<in> set (split_on ''|'' (map ?f s))" by (auto simp: get_uris_def)
  have "set (join sep xs) \<supseteq> set x" if "x \<in> set xs" for sep x xs
    using that by (induction sep xs rule: join.induct) auto
  from this [OF u(2), of "''|''"] have "set u \<subseteq> set (map ?f s)" by (simp add: join_split_on)
  then show ?thesis using u split_on_char_parts [OF u(2)] by auto
qed

lemma get_uris_single: "CHR ''|'' \<notin> set u \<Longrightarrow> CHR '' '' \<notin> set u \<Longrightarrow> length (get_uris u) < 2"
proof -
  assume "CHR ''|'' \<notin> set u" "CHR '' '' \<notin> set u"
  then have "map (\<lambda>c. if c = CHR '' '' then CHR ''|'' else c) u = u" "CHR ''|'' \<notin> set u"
    by (auto intro: map_idI)
  then show ?thesis by (simp add: get_uris_def split_on_no_sep)
qed

lemma trim_space_subset: "set (trim_space s) \<subseteq> set s"
proof -
  have "set (trim_left_space s) \<subseteq> set s" for s
  proof (induction s rule: trim_left_space.induct)
    case (1 s)
    then show ?case using set_drop_subset [of "space_len s" s]
      by (auto simp: trim_left_space.simps [of s])
  qed
  moreover have "set (trim_right_space s) \<subseteq> set s" for s
  proof (induction s rule: trim_right_space.induct)
    case (1 s)
    then show ?case using set_take_subset [of "length s - rspace_len s" s]
      by (auto simp: trim_right_space.simps [of s])
  qed
  ultimately show ?thesis unfolding trim_space_def by blast
qed

lemma argument_data_cong:
  "(\<And>u. u \<in> set us \<Longrightarrow> load bases u = load' bases u) \<Longrightarrow>
     argument_data tb h load bases us i v = argument_data tb h load' bases us i v"
proof (induction us arbitrary: i v)
  case Nil
  then show ?case by simp
next
  case (Cons u us)
  then show ?case by (cases "load bases u") auto
qed

lemma expand_arguments_cong:
  assumes "\<And>u. 2 \<le> length uris \<Longrightarrow> u \<in> set (tl uris) \<Longrightarrow> load bases u = load' bases u"
  shows "expand_arguments tb io h load bases uris main content =
         expand_arguments tb io h load' bases uris main content"
proof (cases "length uris < 2")
  case True
  then show ?thesis by (simp add: expand_arguments_def)
next
  case False
  with assms have "argument_data tb h load bases (tl uris) i v = argument_data tb h load' bases (tl uris) i v"
    for i v by (intro argument_data_cong) auto
  then show ?thesis by (simp add: expand_arguments_def cong: if_cong option.case_cong)
qed

lemma load_data_step_cong:
  assumes "\<And>u. 2 \<le> length (get_uris (trim_space uri)) \<Longrightarrow> u \<in> set (tl (get_uris (trim_space uri))) \<Longrightarrow>
             load bases u = load' bases u"
  shows "load_data_step tb io h load bases uri = load_data_step tb io h load' bases uri"
proof -
  have "expand_arguments tb io h load bases (get_uris (trim_space uri)) main content =
        expand_arguments tb io h load' bases (get_uris (trim_space uri)) main content" for main content
    by (rule expand_arguments_cong) (rule assms)
  then show ?thesis by (simp only: load_data_step_def Let_def)
qed

lemma load_data_step_single:
  assumes "CHR ''|'' \<notin> set u" "CHR '' '' \<notin> set u"
  shows "load_data_step tb io h load bases u = load_data_step tb io h load' bases u"
proof (rule load_data_step_cong)
  have "length (get_uris (trim_space u)) < 2"
    using assms trim_space_subset [of u] by (intro get_uris_single) auto
  then show "2 \<le> length (get_uris (trim_space u)) \<Longrightarrow> load bases v = load' bases v" for v by simp
qed

text \<open>
  \<open>LoadData\<close> satisfies its own recursion equation: calling itself for the arguments, at
  any depth, gives what the two rounds of the definition give, so it always returns.
\<close>

theorem load_data_unfold: "load_data tb io h bases uri = load_data_step tb io h (load_data tb io h) bases uri"
proof -
  let ?f = "\<lambda>bases uri. Inl (OtherErr (Panicked ''unreachable'')) :: res_error + value"
  have eq: "load_data_step tb io h ?f bases u = load_data tb io h bases u"
    if "u \<in> set (tl (get_uris s))" for u s bases
  proof -
    have "CHR ''|'' \<notin> set u" "CHR '' '' \<notin> set u"
      using that get_uris_parts [of u s] list.set_sel(2) [of "get_uris s" u] by (cases "get_uris s"; auto)+
    then show ?thesis unfolding load_data_def by (rule load_data_step_single)
  qed
  have "load_data_step tb io h (load_data_step tb io h ?f) bases uri =
      load_data_step tb io h (load_data tb io h) bases uri"
    by (rule load_data_step_cong) (rule eq)
  then show ?thesis by (simp add: load_data_def)
qed

text \<open>\<open>LoadMap\<close>.\<close>

fun expand_map_arguments ::
  "toolbox \<Rightarrow> storage \<Rightarrow> heap \<Rightarrow> string list \<Rightarrow> string list \<Rightarrow> string option \<Rightarrow> smap
     \<Rightarrow> res_error + (string option \<times> smap)" where
  "expand_map_arguments tb io h bases [] resource m = Inr (resource, m)"
| "expand_map_arguments tb io h bases (u # us) resource m =
     ebind (load_from_bases io (\<lambda>b. load_decoded io (decode_map io) b u) bases u) (\<lambda>r.
       case r of
         None \<Rightarrow> expand_map_arguments tb io h bases us None
                   (as_map tb (expand_with tb h (register_udf io []) (VMap m)))
       | Some (url, a) \<Rightarrow> expand_map_arguments tb io h bases us (Some url)
                   (as_map tb (expand_with tb h (register_udf io a) (VMap m))))"

definition load_map :: "toolbox \<Rightarrow> storage \<Rightarrow> heap \<Rightarrow> string list \<Rightarrow> string \<Rightarrow> res_error + smap" where
  "load_map tb io h bases uri =
     (let uris = get_uris (trim_space uri)
      in if uris = [] then Inl (OtherErr (Panicked ''index out of range''))
         else ebind (load_from_bases io (\<lambda>b. load_text io b (hd uris) []) bases (hd uris)) (\<lambda>raw.
           let (main, content) =
             (case raw of None \<Rightarrow> (None, []) | Some (url, content) \<Rightarrow> (Some url, content))
           in ebind (expand_arguments tb io h (load_data tb io h) bases uris main content) (\<lambda>matched.
             let m = (case matched of Some v \<Rightarrow> as_map tb v | None \<Rightarrow> [])
             in ebind (if m \<noteq> [] then Inr (main, m)
                       else ebind (load_from_bases io (\<lambda>b. load_decoded io (decode_map io) b (hd uris)) bases (hd uris))
                         (\<lambda>r. Inr (case r of None \<Rightarrow> (None, []) | Some (url, a) \<Rightarrow> (Some url, a)))) (\<lambda>(res, m).
               let m' = (if 1 < length uris
                         then (case normalize_map tb io (VMap m) True of Inr n \<Rightarrow> n | Inl _ \<Rightarrow> m) else m)
               in ebind (expand_map_arguments tb io h bases (tl uris) res m') (\<lambda>(res, m'').
                 if mhas m'' ''AssetURL'' then Inr m''
                 else case res of
                   None \<Rightarrow> Inl (OtherErr (Panicked ''nil pointer dereference''))
                 | Some url \<Rightarrow> Inr (mput ''AssetURL'' (VStr url) m''))))))"

end
