(* ===== verification/Util_Text.thy ===== *)
theory Util_Text
  imports Util
begin

text \<open>
  internal/util (ignore.go, stdoututil.go, payload.go, arg.go, type.go, sync.go) and
  model/location/resource.go: text helpers of the services and the location of resources.
\<close>

section \<open>Ignore lists\<close>

definition ignore_item :: "string \<Rightarrow> string list" where
  "ignore_item line =
     (if has_prefix line ''#'' then []
      else let item = trim_space line in if item = [] then [] else [trim_space item])"

definition get_ignore_list :: "storage \<Rightarrow> string \<Rightarrow> string list" where
  "get_ignore_list io url =
     (if \<not> exists_at io url then []
      else case download io url of
        Inl _ \<Rightarrow> []
      | Inr content \<Rightarrow> concat (map ignore_item (split_on [char_of (10::nat)] content)))"

definition base_name :: "string \<Rightarrow> string" where
  "base_name loc = (case last_index_of loc ''/'' of None \<Rightarrow> loc | Some i \<Rightarrow> drop (Suc i) loc)"

definition cut_at :: "string \<Rightarrow> string \<Rightarrow> string \<times> string" where
  "cut_at s sub = (case index_of s sub of None \<Rightarrow> (s, []) | Some i \<Rightarrow> (take i s, drop (i + length sub) s))"

definition ignore_match :: "string \<Rightarrow> string \<Rightarrow> bool" where
  "ignore_match loc expr =
     (let name = base_name loc
      in if name = expr then True
         else if has_prefix expr ''/'' then has_prefix loc (drop 1 expr) \<and> drop 1 expr \<noteq> loc
         else if has_suffix expr ''/**'' then has_prefix loc (take (length expr - 3) expr)
         else if has_suffix expr ''/'' then has_prefix loc (take (length expr - 1) expr)
         else if has_prefix expr ''**/'' then has_suffix loc (drop 3 expr)
         else if has_suffix expr ''*'' then has_prefix name (fst (cut_at expr ''*''))
         else if has_prefix expr ''*'' then has_suffix name (drop 1 expr)
         else if contains expr ''*'' then
           has_prefix name (fst (cut_at expr ''*'')) \<and> has_suffix name (snd (cut_at expr ''*''))
         else False)"

fun should_ignore :: "string \<Rightarrow> string list \<Rightarrow> bool" where
  "should_ignore loc [] = False"
| "should_ignore loc (expr # exprs) = (if ignore_match loc expr then True else should_ignore loc exprs)"

lemma should_ignore_iff: "should_ignore loc exprs \<longleftrightarrow> (\<exists>expr\<in>set exprs. ignore_match loc expr)"
  by (induction exprs) auto

section \<open>Command output\<close>

definition output_text :: "string list \<Rightarrow> string" where
  "output_text stdout = to_lower (join [char_of (10::nat)] stdout)"

definition is_permitted :: "string list \<Rightarrow> bool" where
  "is_permitted stdout =
     (if stdout = [] then False
      else \<not> (contains (output_text stdout) ''denied'' \<or> contains (output_text stdout) ''not permitted''))"

definition no_such_file :: "string list \<Rightarrow> bool" where
  "no_such_file stdout =
     (if stdout = [] then False else contains (output_text stdout) ''no such file or directory'')"

definition command_not_found :: "string list \<Rightarrow> bool" where
  "command_not_found stdout =
     (if stdout = [] then False
      else contains (output_text stdout) ''command not found'' \<or>
           contains (output_text stdout) ''not installed'' \<or>
           contains (output_text stdout) (''can'' @ [char_of (39::nat)] @ ''t open''))"

text \<open>\<open>ExtractColumns\<close> on valid UTF-8: the columns collected so far are kept reversed.\<close>

function columns_from :: "string \<Rightarrow> bool \<Rightarrow> string list \<Rightarrow> string list" where
  "columns_from s expect cols =
     (case s of
        [] \<Rightarrow> rev cols
      | c # cs \<Rightarrow>
          if space_len s \<noteq> 0 then columns_from (drop (space_len s) s) True cols
          else if expect then columns_from cs False ([c] # cols)
          else columns_from cs False ((hd cols @ [c]) # tl cols))"
  by pat_completeness auto
termination
  by (relation "measure (\<lambda>(s, _). length s)") auto

declare columns_from.simps [simp del]

definition extract_columns :: "storage \<Rightarrow> string \<Rightarrow> string list \<times> bool" where
  "extract_columns io line =
     (if line = [] then ([], False)
      else (map (\<lambda>c. vt_clean io c False) (columns_from line True []), True))"

definition extract_column :: "storage \<Rightarrow> string \<Rightarrow> int \<Rightarrow> go_error + (string \<times> bool)" where
  "extract_column io line i =
     (case extract_columns io line of
        (cols, has) \<Rightarrow>
          if \<not> has then Inr ([], has)
          else if i < int (length cols) then
            (if i < 0 then Inl (Panicked ''index out of range'') else Inr (cols ! nat i, True))
          else Inr ([], False))"

definition escape_stdout :: "storage \<Rightarrow> string \<Rightarrow> string" where
  "escape_stdout io s = vt_clean io s True"

definition escaped_contains :: "storage \<Rightarrow> string \<Rightarrow> string \<Rightarrow> bool" where
  "escaped_contains io s m \<longleftrightarrow> contains s m \<or> contains (escape_stdout io s) m"

lemma columns_from_Nil: "columns_from [] e cols = rev cols"
  by (subst columns_from.simps) simp

lemma columns_from_plain:
  assumes "plain_text w"
  shows "columns_from (w @ s) False (x # cols) = columns_from s False ((x @ w) # cols)"
  using assms
proof (induction w arbitrary: x)
  case Nil
  then show ?case by simp
next
  case (Cons c w)
  then have "space_len (c # w @ s) = 0" by (simp add: plain_text_def space_len_plain)
  with Cons show ?case by (subst columns_from.simps) (simp add: plain_text_def)
qed

lemma columns_from_word:
  assumes "plain_text (c # w)"
  shows "columns_from (c # w @ s) True cols = columns_from s False ((c # w) # cols)"
proof -
  have "space_len (c # w @ s) = 0" using assms by (simp add: plain_text_def space_len_plain)
  then show ?thesis using columns_from_plain [of w s "[c]" cols] assms
    by (subst columns_from.simps) (simp add: plain_text_def)
qed

lemma columns_from_space: "columns_from (CHR '' '' # s) e cols = columns_from s True cols"
  by (subst columns_from.simps) (simp add: space_len_def ascii_space_def)

lemma columns_from_join:
  assumes "\<forall>w\<in>set ws. w \<noteq> [] \<and> plain_text w"
  shows "columns_from (join '' '' ws) True cols = rev cols @ ws"
  using assms
proof (induction "'' ''" ws arbitrary: cols rule: join.induct)
  case 1
  then show ?case by (simp add: columns_from_Nil)
next
  case (2 x)
  then obtain c w where "x = c # w" by (cases x) auto
  with 2 columns_from_word [of c w "[]" cols] show ?case by (simp add: columns_from_Nil)
next
  case (3 x y ws)
  then obtain c w where x: "x = c # w" by (cases x) auto
  have "columns_from (join '' '' (x # y # ws)) True cols =
      columns_from (CHR '' '' # join '' '' (y # ws)) False (x # cols)"
    using columns_from_word [of c w "CHR '' '' # join '' '' (y # ws)" cols] 3 by (simp add: x)
  also have "\<dots> = rev (x # cols) @ y # ws"
    unfolding columns_from_space using "3.prems" by (intro "3.hyps") auto
  finally show ?case by simp
qed

text \<open>
  The columns of a line are its words: a line of printable words separated by blanks is
  read back word by word, after cleaning, and column \<open>i\<close> is the cleaned word \<open>i\<close>.
\<close>

theorem columns_roundtrip:
  assumes "ws \<noteq> []" and "\<forall>w\<in>set ws. w \<noteq> [] \<and> plain_text w"
  shows "extract_columns io (join '' '' ws) = (map (\<lambda>w. vt_clean io w False) ws, True) \<and>
         (\<forall>i < length ws. extract_column io (join '' '' ws) (int i) = Inr (vt_clean io (ws ! i) False, True))"
proof -
  have "join '' '' ws \<noteq> []" using assms by (cases "('' '', ws)" rule: join.cases) auto
  then have "extract_columns io (join '' '' ws) = (map (\<lambda>w. vt_clean io w False) ws, True)"
    using columns_from_join [OF assms(2), of "[]"] by (simp add: extract_columns_def)
  then show ?thesis by (simp add: extract_column_def)
qed

theorem columns_roundtrip_witness:
  "extract_columns no_files ''root 12 ps'' = ([''root'', ''12'', ''ps''], True)"
  using columns_roundtrip [of "[''root'', ''12'', ''ps'']" no_files]
  by (simp add: plain_text_def no_files_def)

section \<open>Payloads\<close>

definition from_payload :: "storage \<Rightarrow> string \<Rightarrow> go_error + string" where
  "from_payload io payload =
     (if has_prefix payload ''text:'' then Inr (drop 5 payload)
      else if has_prefix payload ''base64:'' then
        (if drop 7 payload = [] then Inr [] else base64_decode io (drop 7 payload))
      else Inr payload)"

definition as_payload :: "storage \<Rightarrow> string \<Rightarrow> string" where
  "as_payload io data = (if is_ascii io data then data else ''base64:'' @ base64_encode io data)"

text \<open>
  A payload decodes to the bytes it was made of, unless they are ASCII text that itself
  starts with one of the markers: such text loses its \<open>text:\<close>.
\<close>

theorem payload_roundtrip:
  assumes "\<And>d. base64_decode io (base64_encode io d) = Inr d"
    and "\<And>d. base64_encode io d = [] \<longleftrightarrow> d = []"
  shows "(\<not> is_ascii io d \<or> \<not> has_prefix d ''text:'' \<and> \<not> has_prefix d ''base64:'' \<longrightarrow>
            from_payload io (as_payload io d) = Inr d) \<and>
         (is_ascii io (''text:'' @ d) \<longrightarrow> from_payload io (as_payload io (''text:'' @ d)) = Inr d)"
  using assms by (auto simp: from_payload_def as_payload_def has_prefix_def)

theorem payload_roundtrip_witness:
  "from_payload (no_files\<lparr>is_ascii := \<lambda>s. False\<rparr>) (as_payload (no_files\<lparr>is_ascii := \<lambda>s. False\<rparr>) ''text:a'')
     = Inr ''text:a''"
  using payload_roundtrip [of "no_files\<lparr>is_ascii := \<lambda>s. False\<rparr>" "''text:a''"]
  by (simp add: no_files_def)

section \<open>Command line arguments\<close>

definition normalize_argument ::
  "toolbox \<Rightarrow> storage \<Rightarrow> heap \<Rightarrow> string list \<Rightarrow> string \<Rightarrow> go_error + value" where
  "normalize_argument tb io h bases v =
     (let v' = trim_set [CHR '' '', char_of (34::nat), char_of (39::nat)] v
      in if \<not> (has_prefix v' ''#'' \<or> has_prefix v' ''@'') then Inr (VStr v')
         else case load_data tb io h bases v' of
           Inl (OtherErr (Panicked s)) \<Rightarrow> Inl (Panicked s)
         | Inl e \<Rightarrow> Inl (PlainErr (''failed to load: '' @ v' @ '', '' @ res_error_text e))
         | Inr loaded \<Rightarrow>
             if loaded \<noteq> VNil \<and> (is_slice_value loaded \<or> is_map_value loaded)
             then (case kv_pairs io loaded of Inr n \<Rightarrow> Inr n | Inl _ \<Rightarrow> Inr loaded)
             else Inr loaded)"

fun collect_arguments ::
  "(string \<Rightarrow> go_error + value) \<Rightarrow> string list \<Rightarrow> bool \<Rightarrow> go_error + value list" where
  "collect_arguments nrm [] skip = Inr []"
| "collect_arguments nrm (a # xs) skip =
     (if skip then collect_arguments nrm xs False
      else if has_prefix a ''-'' then collect_arguments nrm xs (\<not> contains a ''='')
      else (case split2 ''='' a of
        [k, v] \<Rightarrow> ebind (nrm v) (\<lambda>n. ebind (collect_arguments nrm xs False) (\<lambda>r. Inr (VStr k # n # r)))
      | _ \<Rightarrow> ebind (nrm a) (\<lambda>n. ebind (collect_arguments nrm xs False) (\<lambda>r. Inr (n # r)))))"

fun set_arguments :: "toolbox \<Rightarrow> value list \<Rightarrow> nat \<Rightarrow> heap \<Rightarrow> heap" where
  "set_arguments tb (k # v # xs) m h = set_arguments tb xs m (set_value tb m (as_string tb k) v h)"
| "set_arguments tb xs m h = h"

text \<open>\<open>args\<close> is \<open>os.Args\<close>; the map of the arguments is freshly allocated.\<close>

definition get_arguments ::
  "toolbox \<Rightarrow> storage \<Rightarrow> heap \<Rightarrow> string list \<Rightarrow> string list \<Rightarrow> go_error + (nat \<times> heap)" where
  "get_arguments tb io h bases args =
     (let (m, h') = alloc [] h;
          offset = (if 1 < length args \<and>
              (contains (args ! 1) '':'' \<or> contains (args ! 1) ''.'' \<and> 2 < length args) then 2 else 1)
      in ebind (collect_arguments (normalize_argument tb io h bases) (drop offset args) False)
           (\<lambda>arguments. Inr (m, set_arguments tb arguments m h')))"

section \<open>Small helpers\<close>

definition simple_type_name :: "string \<Rightarrow> string" where
  "simple_type_name s = (case index_of s ''.'' of None \<Rightarrow> s | Some i \<Rightarrow> drop (Suc i) s)"

text \<open>\<open>SetNonEmpty\<close> and \<open>SetNonZero\<close>: the new value of the second pointer.\<close>

definition set_non_empty :: "string \<Rightarrow> string \<Rightarrow> string" where
  "set_non_empty p1 p2 = (if p1 \<noteq> [] then p2 else p1)"

definition set_non_zero :: "int \<Rightarrow> int \<Rightarrow> int" where
  "set_non_zero p1 p2 = (if p1 \<noteq> 0 then p2 else p1)"

section \<open>Locations\<close>

text \<open>\<open>urls\<close> is the package viant/afs/url.\<close>

record urls =
  url_scheme :: "string \<Rightarrow> string"
  url_host :: "string \<Rightarrow> string"
  url_path :: "string \<Rightarrow> string"
  url_split :: "string \<Rightarrow> string \<times> string"
  url_join :: "string \<Rightarrow> string \<Rightarrow> string"
  url_normalize :: "string \<Rightarrow> string"

record resource =
  r_url :: string
  r_credentials :: string
  r_custom_key :: "string option"
  r_key :: string

definition new_resource :: "string \<Rightarrow> (resource \<Rightarrow> resource) list \<Rightarrow> resource" where
  "new_resource url opts =
     fold (\<lambda>opt r. opt r) opts \<lparr>r_url = url, r_credentials = [], r_custom_key = None, r_key = []\<rparr>"

definition with_credentials :: "string \<Rightarrow> resource \<Rightarrow> resource" where
  "with_credentials cred r = r\<lparr>r_credentials := cred\<rparr>"

definition res_scheme :: "urls \<Rightarrow> resource \<Rightarrow> string" where
  "res_scheme u r = url_scheme u (r_url r)"

definition res_host :: "urls \<Rightarrow> resource \<Rightarrow> string" where
  "res_host u r = url_host u (r_url r)"

definition res_path :: "urls \<Rightarrow> resource \<Rightarrow> string" where
  "res_path u r = url_path u (r_url r)"

definition res_hostname :: "urls \<Rightarrow> resource \<Rightarrow> string" where
  "res_hostname u r =
     (case last_index_of (res_host u r) '':'' of None \<Rightarrow> res_host u r | Some i \<Rightarrow> take i (res_host u r))"

definition res_port :: "urls \<Rightarrow> resource \<Rightarrow> string" where
  "res_port u r =
     (case index_of (res_hostname u r) '':'' of
        Some i \<Rightarrow> drop (Suc i) (res_hostname u r)
      | None \<Rightarrow>
          if res_scheme u r \<in> {''ssh'', ''scp''} then ''22''
          else if res_scheme u r = ''http'' then ''8080'' else [])"

definition credential_url :: "urls \<Rightarrow> resource \<Rightarrow> string \<Rightarrow> string \<Rightarrow> string" where
  "credential_url u r username password =
     res_scheme u r @ ''://'' @
     (if username \<noteq> [] then username @ (if password \<noteq> [] then '':'' @ password else []) @ ''@'' else []) @
     res_host u r @ ''/'' @ res_path u r"

definition res_rename :: "urls \<Rightarrow> string \<Rightarrow> resource \<Rightarrow> resource" where
  "res_rename u name r =
     (let current = snd (url_split u (r_url r));
          current' = (if current = [] \<and> has_suffix (r_url r) ''/''
                      then snd (url_split u (take (length (r_url r) - 1) (r_url r))) @ ''/'' else current)
      in case last_index_of (r_url r) current' of
           None \<Rightarrow> r
         | Some i \<Rightarrow> r\<lparr>r_url := take i (r_url r) @ name\<rparr>)"

definition res_join :: "urls \<Rightarrow> string \<Rightarrow> resource \<Rightarrow> resource" where
  "res_join u uri r = r\<lparr>r_url := url_join u (r_url r) uri\<rparr>"

text \<open>Which decoder reads a resource: the text of the file, by the extension of its path.\<close>

datatype decoder = YamlDecoder | JsonDecoder

definition decoder_factory :: "urls \<Rightarrow> resource \<Rightarrow> decoder" where
  "decoder_factory u r =
     (if path_ext (res_path u r) \<in> {''.yaml'', ''.yml''} then YamlDecoder else JsonDecoder)"

text \<open>
  An explicit port is lost: for a host \<open>name:port\<close> the port of the resource is the
  default of the scheme, whatever the port is.
\<close>

theorem explicit_port_is_lost:
  assumes "url_host u (r_url r) = name @ '':'' @ port" and "CHR '':'' \<notin> set name" "CHR '':'' \<notin> set port"
  shows "res_hostname u r = name \<and>
         res_port u r = (if res_scheme u r \<in> {''ssh'', ''scp''} then ''22''
                         else if res_scheme u r = ''http'' then ''8080'' else [])"
proof -
  have "res_hostname u r = name"
    using last_index_char_append [OF assms(3), of name] assms(1)
    by (simp add: res_hostname_def res_host_def)
  then show ?thesis using assms(2) by (simp add: res_port_def index_of_char_None [THEN iffD2])
qed

theorem explicit_port_is_lost_witness:
  "res_port \<lparr>url_scheme = (\<lambda>s. ''http''), url_host = (\<lambda>s. ''localhost:9090''), url_path = (\<lambda>s. ''/''),
       url_split = (\<lambda>s. (s, [])), url_join = (\<lambda>a b. a @ b), url_normalize = (\<lambda>s. s)\<rparr>
     (new_resource ''http://localhost:9090/'' []) = ''8080''"
  using explicit_port_is_lost [of "\<lparr>url_scheme = (\<lambda>s. ''http''), url_host = (\<lambda>s. ''localhost:9090''),
       url_path = (\<lambda>s. ''/''), url_split = (\<lambda>s. (s, [])), url_join = (\<lambda>a b. a @ b), url_normalize = (\<lambda>s. s)\<rparr>"
      "new_resource ''http://localhost:9090/'' []" "''localhost''" "''9090''"]
  by (simp add: res_scheme_def)

end
