(* ===== verification/Variables.thy ===== *)
theory Variables
  imports Util Criteria_Compiler
begin

text \<open>
  model/variable.go and model/variables.go: variables, their declaration as
  \<open>[!]name = [when ?] value [: else]\<close>, and their application from an input map to an
  output map of the store. An operation that may have written before it fails returns the
  store and the error.
\<close>

record variable =
  v_name :: string
  v_value :: "value"
  v_from :: string
  v_when :: string
  v_else :: "value"
  v_required :: bool
  v_empty_if_unexpanded :: bool
  v_replace :: "(string \<times> string) list"

definition empty_variable :: variable where
  "empty_variable = \<lparr>v_name = [], v_value = VNil, v_from = [], v_when = [], v_else = VNil,
     v_required = False, v_empty_if_unexpanded = False, v_replace = []\<rparr>"

definition new_variable ::
  "string \<Rightarrow> string \<Rightarrow> string \<Rightarrow> bool \<Rightarrow> value \<Rightarrow> value \<Rightarrow> (string \<times> string) list \<Rightarrow> bool \<Rightarrow> variable" where
  "new_variable name from when required val els repl empty_if_unexpanded =
     empty_variable\<lparr>v_name := name, v_from := from, v_when := when, v_required := required,
       v_value := val, v_else := els\<rparr>"

section \<open>Declarations\<close>

definition extract_from_key :: "string \<Rightarrow> variable \<Rightarrow> variable" where
  "extract_from_key key v =
     (let required = has_prefix key ''!'';
          key' = (if required then drop 1 key else key)
      in v\<lparr>v_name := trim_space key', v_required := required, v_empty_if_unexpanded := required\<rparr>)"

definition normalize_variable_value :: "storage \<Rightarrow> string \<Rightarrow> value" where
  "normalize_variable_value io s =
     (let t = trim_space s
      in if t = ''nil'' then VNil
         else if has_prefix t [char_of (39::nat)] then VStr (trim_char t (char_of (39::nat)))
         else if is_json io t then (case json_value io t of Inr v \<Rightarrow> v | Inl _ \<Rightarrow> VStr t)
         else VStr t)"

text \<open>The error of \<open>ParseDeclaration\<close> is dropped; what it returned is used. A panic is not.\<close>

definition extract_from_value :: "parsly \<Rightarrow> storage \<Rightarrow> string \<Rightarrow> variable \<Rightarrow> go_error + variable" where
  "extract_from_value ps io s v =
     (case parse_declare ps s of
        ((when, expr, els), err) \<Rightarrow>
          (case err of
             Some (Panicked m) \<Rightarrow> Inl (Panicked m)
           | _ \<Rightarrow>
               if when = [] then Inr (v\<lparr>v_value := normalize_variable_value io s\<rparr>)
               else Inr (v\<lparr>v_when := when, v_else := VStr els, v_value := normalize_variable_value io expr\<rparr>)))"

definition as_variable :: "parsly \<Rightarrow> storage \<Rightarrow> string \<Rightarrow> go_error + variable" where
  "as_variable ps io e =
     (let s = trim_space e
      in case split2 ''='' s of
           [k, v] \<Rightarrow> extract_from_value ps io v (extract_from_key k empty_variable)
         | _ \<Rightarrow> Inl (PlainErr (''expected variable declaration but had: '' @ s)))"

definition new_variable_from_pair :: "parsly \<Rightarrow> storage \<Rightarrow> string \<Rightarrow> value \<Rightarrow> go_error + variable" where
  "new_variable_from_pair ps io key v =
     (let var = extract_from_key key empty_variable
      in case v of
           VStr s \<Rightarrow> extract_from_value ps io s var
         | _ \<Rightarrow> Inr (var\<lparr>v_value := (case kv_pairs io v of Inr n \<Rightarrow> n | Inl _ \<Rightarrow> v)\<rparr>))"

section \<open>Loading\<close>

definition is_variables_map :: "toolbox \<Rightarrow> storage \<Rightarrow> value \<Rightarrow> bool" where
  "is_variables_map tb io v = is_ok (normalize_map tb io v False)"

text \<open>\<open>conv\<close> is \<open>toolbox.DefaultConverter.AssignConverted\<close> into the \<open>Variable\<close> struct.\<close>

definition variables_from_map ::
  "toolbox \<Rightarrow> parsly \<Rightarrow> storage \<Rightarrow> value \<Rightarrow> go_error + variable list" where
  "variables_from_map tb ps io v =
     ebind (process_map io v) (\<lambda>pairs.
       emap (\<lambda>(k, w). new_variable_from_pair ps io (as_string tb k) w) pairs)"

definition variable_from_item ::
  "toolbox \<Rightarrow> parsly \<Rightarrow> storage \<Rightarrow> (smap \<Rightarrow> go_error + variable) \<Rightarrow> value \<Rightarrow> go_error + variable list" where
  "variable_from_item tb ps io conv v =
     (case v of
        VStr s \<Rightarrow> if s = [] then Inr [] else ebind (as_variable ps io s) (\<lambda>x. Inr [x])
      | _ \<Rightarrow>
          if is_slice_value v \<or> is_map_value v then
            ebind (normalize_map tb io v True) (\<lambda>m.
              ebind (conv m) (\<lambda>x.
                case m of
                  [(k, w)] \<Rightarrow>
                    if v_name x = [] then
                      (case new_variable_from_pair ps io k w of
                         Inl (Panicked e) \<Rightarrow> Inl (Panicked e)
                       | Inl e \<Rightarrow> Inl (PlainErr ''unsupported variable definition'')
                       | Inr y \<Rightarrow> Inr [y])
                    else Inr [x]
                | _ \<Rightarrow> Inr [x]))
          else Inl (PlainErr ''unsupported type''))"

definition variables_from_slice ::
  "toolbox \<Rightarrow> parsly \<Rightarrow> storage \<Rightarrow> (smap \<Rightarrow> go_error + variable) \<Rightarrow> value list \<Rightarrow> go_error + variable list" where
  "variables_from_slice tb ps io conv vs = ebind (emap (variable_from_item tb ps io conv) vs) (\<lambda>xs. Inr (concat xs))"

text \<open>A source that is already a list of variables is returned as it is.\<close>

datatype variables_source = VarsGiven "variable list" | VarsValue "value"

definition get_variables ::
  "toolbox \<Rightarrow> parsly \<Rightarrow> storage \<Rightarrow> (smap \<Rightarrow> go_error + variable) \<Rightarrow> (value \<Rightarrow> go_error + variable list)
     \<Rightarrow> heap \<Rightarrow> string list \<Rightarrow> variables_source \<Rightarrow> res_error + variable list" where
  "get_variables tb ps io conv conv_all h bases source =
     (case source of
        VarsGiven vs \<Rightarrow> Inr vs
      | VarsValue v \<Rightarrow>
          (case v of
             VNil \<Rightarrow> Inr []
           | VStr s \<Rightarrow>
               (let uri = trim_space s
                in if uri = [] then Inr []
                   else ebind (load_data tb io h bases uri) (\<lambda>loaded. lift_res (conv_all loaded)))
           | _ \<Rightarrow>
               if \<not> is_slice_value v then Inl (OtherErr (PlainErr ''invalid varaibles type''))
               else if is_variables_map tb io v then lift_res (variables_from_map tb ps io v)
               else (case v of
                  VSlice vs \<Rightarrow> lift_res (variables_from_slice tb ps io conv vs)
                | _ \<Rightarrow> Inr [])))"

section \<open>Application\<close>

definition input_name :: "variable \<Rightarrow> string" where
  "input_name v =
     (let from = (if v_from v = [] \<and> v_value v = VNil then v_name v else v_from v)
      in if from = [] \<and> v_when v \<noteq> [] then v_name v else from)"

definition value_from_input :: "toolbox \<Rightarrow> variable \<Rightarrow> nat \<Rightarrow> heap \<Rightarrow> value" where
  "value_from_input tb v in_map h =
     (let from = input_name v
      in if from = [] then VNil
         else if contains from ''$'' then fst (get_value tb h in_map (expand_text tb h in_map from))
         else fst (get_value tb h in_map from))"

definition format_state_info :: "storage \<Rightarrow> heap \<Rightarrow> nat \<Rightarrow> string" where
  "format_state_info io h state = indent_json io (filter (\<lambda>(k, v). v \<noteq> VStr ''func()'') (encodable_map io h state))"

definition owner_url :: "toolbox \<Rightarrow> heap \<Rightarrow> nat \<Rightarrow> string" where
  "owner_url tb h m = (if tb_has tb h m ''ownerURL'' then as_string tb (tb_get tb h m ''ownerURL'') else [])"

definition validate_variable :: "toolbox \<Rightarrow> storage \<Rightarrow> variable \<Rightarrow> value \<Rightarrow> nat \<Rightarrow> heap \<Rightarrow> go_error option" where
  "validate_variable tb io v val in_map h =
     (if \<not> v_required v then None
      else if val = VNil \<or> as_string tb val = [] then
        Some (PlainErr (''variable '' @ v_name v @ '' is required by '' @ owner_url tb h in_map @
          '', but was empty, state dump: '' @ format_state_info io h in_map))
      else if v_empty_if_unexpanded v \<and> v_value v = VStr (as_string tb val) \<and> has_prefix (as_string tb val) ''$'' then
        Some (PlainErr (''variable '' @ v_name v @ '' is required by '' @ owner_url tb h in_map @
          '', but '' @ as_string tb (v_value v) @ '' was not expanded, state dump: '' @ format_state_info io h in_map))
      else None)"

text \<open>
  The state of the condition is a new map with the entries \<open>in\<close> and \<open>out\<close>, which refer to
  the two maps, and all entries of the input, which may hide them. An error of the
  evaluation counts as false; only a panic gets through.
\<close>

definition can_apply :: "toolbox \<Rightarrow> parsly \<Rightarrow> variable \<Rightarrow> nat \<Rightarrow> nat \<Rightarrow> heap \<Rightarrow> go_error + bool" where
  "can_apply tb ps v in_map out_map h =
     (let (state, h') = alloc (mput_all (cell h in_map) [(''in'', VRef in_map), (''out'', VRef out_map)]) h
      in case fst (evaluate tb ps h' state (v_when v) None [] False) of
           Inl (Panicked e) \<Rightarrow> Inl (Panicked e)
         | Inl e \<Rightarrow> Inr False
         | Inr b \<Rightarrow> Inr b)"

definition expanded :: "toolbox \<Rightarrow> value \<Rightarrow> nat \<Rightarrow> heap \<Rightarrow> value" where
  "expanded tb v in_map h = (if v \<noteq> VNil then expand tb h in_map v else v)"

definition set_named :: "toolbox \<Rightarrow> variable \<Rightarrow> value \<Rightarrow> nat \<Rightarrow> heap \<Rightarrow> heap" where
  "set_named tb v val out_map h = (if v_name v \<noteq> [] then set_value tb out_map (v_name v) val h else h)"

definition apply_variable ::
  "toolbox \<Rightarrow> parsly \<Rightarrow> storage \<Rightarrow> variable \<Rightarrow> nat \<Rightarrow> nat \<Rightarrow> heap \<Rightarrow> heap \<times> go_error option" where
  "apply_variable tb ps io v in_map out_map h =
     (case (if v_when v \<noteq> [] then can_apply tb ps v in_map out_map h else Inr True) of
        Inl e \<Rightarrow> (h, Some e)
      | Inr False \<Rightarrow>
          (let val = expanded tb (v_else v) in_map h;
               h' = set_named tb v val out_map h
           in (h', validate_variable tb io v val in_map h'))
      | Inr True \<Rightarrow>
          (let input = value_from_input tb v in_map h;
               val = (if input = VNil \<or> v_required v \<and> as_string tb input = []
                      then expanded tb (v_value v) in_map h else input)
           in case validate_variable tb io v val in_map h of
                Some e \<Rightarrow> (h, Some e)
              | None \<Rightarrow> (set_named tb v val out_map h, None)))"

text \<open>\<open>Variables.Apply\<close>: nil variables are skipped; a nil input is a new map.\<close>

fun apply_each ::
  "toolbox \<Rightarrow> parsly \<Rightarrow> storage \<Rightarrow> variable option list \<Rightarrow> nat \<Rightarrow> nat \<Rightarrow> heap \<Rightarrow> heap \<times> go_error option" where
  "apply_each tb ps io [] i out_map h = (h, None)"
| "apply_each tb ps io (None # vs) i out_map h = apply_each tb ps io vs i out_map h"
| "apply_each tb ps io (Some v # vs) i out_map h =
     (case apply_variable tb ps io v i out_map h of
        (h', Some e) \<Rightarrow> (h', Some e)
      | (h', None) \<Rightarrow> apply_each tb ps io vs i out_map h')"

definition apply_variables ::
  "toolbox \<Rightarrow> parsly \<Rightarrow> storage \<Rightarrow> variable option list \<Rightarrow> nat option \<Rightarrow> nat option \<Rightarrow> heap
     \<Rightarrow> heap \<times> go_error option" where
  "apply_variables tb ps io vs in_map out_map h =
     (case out_map of
        None \<Rightarrow> (h, Some (PlainErr ''out state was empty''))
      | Some out_ref \<Rightarrow>
          (case in_map of
             Some i \<Rightarrow> apply_each tb ps io vs i out_ref h
           | None \<Rightarrow> (let (i, h') = alloc [] h in apply_each tb ps io vs i out_ref h')))"

definition variables_text :: "toolbox \<Rightarrow> variable option list \<Rightarrow> string" where
  "variables_text tb vs =
     concat (map (\<lambda>v. case v of None \<Rightarrow> []
       | Some x \<Rightarrow> ''{Name:'' @ v_name x @ '' From:'' @ v_from x @ '' Value:'' @ as_string tb (v_value x) @ ''},'') vs)"

section \<open>Lemmas\<close>

text \<open>\<open>SetValue\<close> and \<open>GetValue\<close> on a name without a path: the entry of the map itself.\<close>

definition plain_name :: "string \<Rightarrow> bool" where
  "plain_name k \<longleftrightarrow> k \<noteq> [] \<and> (\<forall>c\<in>set k. is_letter c \<or> is_digit c)"

definition path_laws :: "toolbox \<Rightarrow> bool" where
  "path_laws tb \<longleftrightarrow>
     (\<forall>a k v h b. plain_name k \<longrightarrow>
        cell (set_value tb a k v h) b = (if b = a then mput k v (cell h a) else cell h b)) \<and>
     (\<forall>a k h. plain_name k \<longrightarrow>
        get_value tb h a k = (case mget (cell h a) k of None \<Rightarrow> (VNil, False) | Some v \<Rightarrow> (v, True)))"

lemma path_laws_set [map_law]:
  "path_laws tb \<Longrightarrow> plain_name k \<Longrightarrow>
     cell (set_value tb a k v h) b = (if b = a then mput k v (cell h a) else cell h b)"
  by (simp add: path_laws_def)

lemma path_laws_get [map_law]:
  "path_laws tb \<Longrightarrow> plain_name k \<Longrightarrow>
     get_value tb h a k = (case mget (cell h a) k of None \<Rightarrow> (VNil, False) | Some v \<Rightarrow> (v, True))"
  by (simp add: path_laws_def)

lemma tb0_path_laws: "path_laws tb0"
  by (simp add: path_laws_def tb0_def)

lemma validate_variable_ok:
  "validate_variable tb io v val i h = None \<Longrightarrow> v_required v \<Longrightarrow> val \<noteq> VNil \<and> as_string tb val \<noteq> []"
  by (auto simp: validate_variable_def split: if_splits)

lemma apply_variable_ok:
  assumes "apply_variable tb ps io v i out h = (h', None)"
  obtains val where "h' = set_named tb v val out h"
    and "v_required v \<Longrightarrow> val \<noteq> VNil \<and> as_string tb val \<noteq> []"
  using assms
  by (auto simp: apply_variable_def Let_def dest: validate_variable_ok
      split: if_splits sum.splits bool.splits option.splits)

lemma apply_variable_frame:
  assumes "apply_variable tb ps io v i out h = (h', e)" "path_laws tb" "v_name v = [] \<or> plain_name (v_name v)"
  shows "(\<forall>b. b \<noteq> out \<longrightarrow> cell h' b = cell h b) \<and>
         (\<forall>k. k \<noteq> v_name v \<longrightarrow> mget (cell h' out) k = mget (cell h out) k)"
proof -
  have "\<forall>b. b \<noteq> out \<longrightarrow> cell (set_named tb v val out h) b = cell h b"
    "\<forall>k. k \<noteq> v_name v \<longrightarrow> mget (cell (set_named tb v val out h) out) k = mget (cell h out) k" for val
    using assms(2,3) by (auto simp: set_named_def map_law)
  moreover obtain val where "h' = h \<or> h' = set_named tb v val out h"
    using assms(1) by (auto simp: apply_variable_def Let_def
      split: if_splits sum.splits bool.splits option.splits)
  ultimately show ?thesis by auto
qed

lemma apply_each_append:
  "apply_each tb ps io (vs @ ws) i out h =
     (case apply_each tb ps io vs i out h of
        (h', Some e) \<Rightarrow> (h', Some e)
      | (h', None) \<Rightarrow> apply_each tb ps io ws i out h')"
  by (induction tb ps io vs i out h rule: apply_each.induct) (auto split: prod.splits option.splits)

definition named_variables :: "variable option list \<Rightarrow> string list" where
  "named_variables vs = map v_name (filter (\<lambda>v. v_name v \<noteq> []) (map the (filter (\<lambda>v. v \<noteq> None) vs)))"

lemma named_variables_simps [simp]:
  "named_variables [] = []"
  "named_variables (None # vs) = named_variables vs"
  "named_variables (Some v # vs) = (if v_name v = [] then [] else [v_name v]) @ named_variables vs"
  by (simp_all add: named_variables_def)

lemma apply_each_frame:
  assumes "path_laws tb" "\<forall>k\<in>set (named_variables vs). plain_name k" "apply_each tb ps io vs i out h = (h', e)"
  shows "(\<forall>b. b \<noteq> out \<longrightarrow> cell h' b = cell h b) \<and>
         (\<forall>k. k \<notin> set (named_variables vs) \<longrightarrow> k \<noteq> [] \<longrightarrow> mget (cell h' out) k = mget (cell h out) k)"
  using assms
proof (induction tb ps io vs i out h rule: apply_each.induct)
  case (3 tb ps io v vs i out h)
  obtain h1 e1 where h1: "apply_variable tb ps io v i out h = (h1, e1)" by fastforce
  have "v_name v = [] \<or> plain_name (v_name v)" using "3.prems" by auto
  note f = apply_variable_frame [OF h1 "3.prems"(1) this]
  show ?case
  proof (cases e1)
    case None
    with h1 "3.prems" "3.IH" [OF h1 [symmetric]] f show ?thesis by auto
  next
    case (Some x)
    with h1 "3.prems" f show ?thesis by auto
  qed
qed auto



end
