(* ===== verification/Selectors.thy ===== *)
theory Selectors
  imports Instances
begin

text \<open>
  model/selector.go, model/os.go and model/path.go: the selectors of workflows, actions and
  tasks, the operating system check, and the system path.
\<close>

section \<open>Workflow selector\<close>

text \<open>\<open>URL[:tasks]\<close>; \<open>split\<close> returns the URL, the workflow name and the tasks.\<close>

definition task_position :: "string \<Rightarrow> nat option" where
  "task_position sel =
     (case last_index_of sel ''://'' of
        None \<Rightarrow> last_index_of sel '':''
      | Some proto \<Rightarrow>
          map_option (\<lambda>position. proto + 3 + position) (last_index_of (drop (proto + 3) sel) '':''))"

definition workflow_split :: "string \<Rightarrow> string \<times> string \<times> string" where
  "workflow_split sel =
     (let (url, tasks) =
        (case task_position sel of
           None \<Rightarrow> (sel, ''*'')
         | Some i \<Rightarrow> (take i sel, drop (i + 1) sel));
        ext = path_ext url
      in if ext = [] then (url @ ''.csv'', snd (path_split url), tasks)
         else (url, snd (path_split (take (length url - length ext) url)), tasks))"

definition workflow_url :: "string \<Rightarrow> string" where
  "workflow_url sel = (case workflow_split sel of (url, name, tasks) \<Rightarrow> url)"

definition workflow_name :: "string \<Rightarrow> string" where
  "workflow_name sel = (case workflow_split sel of (url, name, tasks) \<Rightarrow> name)"

definition workflow_tasks :: "string \<Rightarrow> string" where
  "workflow_tasks sel = (case workflow_split sel of (url, name, tasks) \<Rightarrow> tasks)"

definition workflow_is_relative :: "string \<Rightarrow> bool" where
  "workflow_is_relative sel =
     (let url = workflow_url sel in \<not> (contains url ''://'' \<or> has_prefix url ''/''))"

lemma index_of_None_prefix: "index_of s sub = None \<Longrightarrow> \<not> prefix sub (drop i s)"
proof (induction s arbitrary: i)
  case Nil
  then show ?case by (auto split: if_splits)
next
  case (Cons c s)
  show ?case
  proof (cases i)
    case 0
    with Cons.prems show ?thesis by (auto split: if_splits)
  next
    case (Suc j)
    with Cons show ?thesis by (auto split: if_splits)
  qed
qed

lemma last_index_of_append:
  assumes "last_index_of (drop 1 (sub @ s)) sub = None" and "sub \<noteq> []"
  shows "last_index_of (p @ sub @ s) sub = Some (length p)"
proof (induction p)
  case Nil
  from assms(2) obtain a sub' where sub: "sub = a # sub'" by (cases sub) auto
  with assms(1) have "last_index_of (sub' @ s) sub = None" by simp
  then show ?case by (simp add: sub)
next
  case (Cons a p)
  then show ?case by simp
qed

text \<open>Where no further colon follows, the position of the protocol is unique.\<close>

lemma no_colon_no_proto: "CHR '':'' \<notin> set s \<Longrightarrow> last_index_of s ''://'' = None"
proof -
  assume a: "CHR '':'' \<notin> set s"
  have "index_of s ''://'' = None"
    using a by (induction s) (auto simp: prefix_def)
  then show ?thesis by (simp add: last_index_None_iff)
qed

lemma proto_position:
  assumes "CHR '':'' \<notin> set rest"
  shows "last_index_of (scheme @ ''://'' @ rest) ''://'' = Some (length scheme)"
  by (rule last_index_of_append) (use no_colon_no_proto [of "''//'' @ rest"] assms in simp_all)

lemma proto_position_task:
  assumes "CHR '':'' \<notin> set rest" "CHR '':'' \<notin> set tasks" "\<not> prefix ''//'' tasks"
  shows "last_index_of (scheme @ ''://'' @ rest @ '':'' @ tasks) ''://'' = Some (length scheme)"
proof -
  have "last_index_of (CHR '':'' # tasks) ''://'' = None"
    using no_colon_no_proto [OF assms(2)] assms(3) by (simp add: prefix_def)
  then have "last_index_of (p @ CHR '':'' # tasks) ''://'' = None" if "CHR '':'' \<notin> set p" for p
    using that by (induction p) (auto simp: prefix_def)
  from this [of "''//'' @ rest"] assms(1)
  have "last_index_of (drop 1 (''://'' @ rest @ '':'' @ tasks)) ''://'' = None" by simp
  from last_index_of_append [OF this] show ?thesis by simp
qed

text \<open>A URL has a file name with an extension.\<close>

definition url_name :: "string \<Rightarrow> string" where
  "url_name url = snd (path_split (take (length url - length (path_ext url)) url))"

lemma workflow_split_parts:
  assumes "task_position sel = Some i" "path_ext (take i sel) \<noteq> []"
  shows "workflow_split sel = (take i sel, url_name (take i sel), drop (i + 1) sel)"
  using assms by (simp add: workflow_split_def url_name_def Let_def)

lemma workflow_selector_split:
  assumes "CHR '':'' \<notin> set path" and "path_ext (scheme @ ''://'' @ path) \<noteq> []"
    and "CHR '':'' \<notin> set tasks" and "\<not> prefix ''//'' tasks"
  shows "workflow_split (scheme @ ''://'' @ path @ '':'' @ tasks) =
           (scheme @ ''://'' @ path, url_name (scheme @ ''://'' @ path), tasks)"
proof -
  let ?sel = "scheme @ ''://'' @ path @ '':'' @ tasks"
  have "last_index_of (drop (length scheme + 3) ?sel) '':'' = Some (length path)"
    using last_index_char_append [OF assms(3), of path] by simp
  with proto_position_task [OF assms(1,3,4), of scheme]
  have pos: "task_position ?sel = Some (length scheme + 3 + length path)"
    by (simp add: task_position_def)
  have "take (length scheme + 3 + length path) ?sel = scheme @ ''://'' @ path"
    "drop (length scheme + 3 + length path + 1) ?sel = tasks"
    by (simp_all add: eval_nat_numeral)
  with workflow_split_parts [OF pos] assms(2) show ?thesis by simp
qed

lemma workflow_selector_split_all:
  assumes "CHR '':'' \<notin> set path" and "path_ext (scheme @ ''://'' @ path) \<noteq> []"
  shows "workflow_split (scheme @ ''://'' @ path) =
           (scheme @ ''://'' @ path, url_name (scheme @ ''://'' @ path), ''*'')"
proof -
  have "task_position (scheme @ ''://'' @ path) = None"
    using proto_position [OF assms(1), of scheme] assms(1)
    by (simp add: task_position_def last_index_char_None)
  with assms(2) show ?thesis by (simp add: workflow_split_def url_name_def Let_def)
qed

text \<open>
  A selector is read back as it was written: for a URL with an extension, a scheme and
  no other colon, \<open>scheme://path:tasks\<close> splits into the URL and the tasks, and without a
  task part all tasks are selected.
\<close>

theorem workflow_selector_roundtrip:
  assumes "CHR '':'' \<notin> set path" and "path_ext (scheme @ ''://'' @ path) \<noteq> []"
    and "CHR '':'' \<notin> set tasks" and "\<not> prefix ''//'' tasks"
  shows "workflow_split (scheme @ ''://'' @ path @ '':'' @ tasks) =
           (scheme @ ''://'' @ path, url_name (scheme @ ''://'' @ path), tasks) \<and>
         workflow_split (scheme @ ''://'' @ path) =
           (scheme @ ''://'' @ path, url_name (scheme @ ''://'' @ path), ''*'')"
  using workflow_selector_split [OF assms] workflow_selector_split_all [OF assms(1,2)] by blast

theorem workflow_selector_roundtrip_witness:
  "workflow_split ''mem://repo/app/deploy.yaml:build,test'' =
     (''mem://repo/app/deploy.yaml'', ''deploy'', ''build,test'')"
proof -
  have ext: "path_ext ''mem://repo/app/deploy.yaml'' = ''.yaml''" by code_simp
  have "url_name ''mem://repo/app/deploy.yaml'' = ''deploy''" by code_simp
  then show ?thesis
    using workflow_selector_roundtrip [of "''repo/app/deploy.yaml''" "''mem''" "''build,test''"] ext
    by simp
qed

text \<open>
  The port of a URL is taken for the tasks: a selector \<open>scheme://host:port/path\<close> with no
  task part is cut at the port.
\<close>

theorem workflow_selector_port_is_task:
  assumes "CHR '':'' \<notin> set host" and "CHR '':'' \<notin> set rest" and "\<not> prefix ''//'' rest"
  shows "workflow_tasks (scheme @ ''://'' @ host @ '':'' @ rest) = rest"
proof -
  let ?sel = "scheme @ ''://'' @ host @ '':'' @ rest"
  have "last_index_of (drop (length scheme + 3) ?sel) '':'' = Some (length host)"
    using last_index_char_append [OF assms(2), of host] by simp
  with proto_position_task [OF assms(1,2,3), of scheme]
  have pos: "task_position ?sel = Some (length scheme + 3 + length host)"
    by (simp add: task_position_def)
  have "drop (length scheme + 3 + length host + 1) ?sel = rest"
    by (simp add: eval_nat_numeral)
  with pos show ?thesis
    by (simp add: workflow_tasks_def workflow_split_def Let_def)
qed

theorem workflow_selector_port_is_task_witness:
  "workflow_tasks ''http://localhost:8080/app.yaml'' = ''8080/app.yaml''"
  using workflow_selector_port_is_task [of "''localhost''" "''8080/app.yaml''" "''http''"]
  by (simp add: prefix_def)

section \<open>Action selector\<close>

text \<open>\<open>service.action\<close> or \<open>service:action\<close>; the workflow service may be left out.\<close>

definition action_pair :: "string \<Rightarrow> string \<times> string" where
  "action_pair sel =
     (case (case index_of sel ''.'' of None \<Rightarrow> index_of sel '':'' | Some i \<Rightarrow> Some i) of
        None \<Rightarrow> (''workflow'', sel)
      | Some i \<Rightarrow> (take i sel, drop (i + 1) sel))"

definition action_service :: "string \<Rightarrow> string" where
  "action_service sel = fst (action_pair sel)"

definition action_action :: "string \<Rightarrow> string" where
  "action_action sel = snd (action_pair sel)"

text \<open>
  An action selector names its service and action: a name with neither a dot nor a colon
  is an action of the workflow service, and \<open>service:action\<close> and \<open>service.action\<close> are the
  same for every service name without either.
\<close>

theorem action_selector_roundtrip:
  assumes "CHR ''.'' \<notin> set service" and "CHR '':'' \<notin> set service"
    and "CHR ''.'' \<notin> set action" and "CHR '':'' \<notin> set action"
  shows "action_pair (service @ '':'' @ action) = (service, action) \<and>
         action_pair (service @ ''.'' @ action) = (service, action) \<and>
         action_pair action = (''workflow'', action)"
proof -
  have "index_of (service @ '':'' @ action) ''.'' = None"
    using assms by (simp add: index_of_char_None)
  moreover have "index_of (service @ '':'' @ action) '':'' = Some (length service)"
    using index_of_char_append [OF assms(2)] by simp
  moreover have "index_of (service @ ''.'' @ action) ''.'' = Some (length service)"
    using index_of_char_append [OF assms(1)] by simp
  ultimately show ?thesis
    using assms by (simp add: action_pair_def index_of_char_None [THEN iffD2])
qed

theorem action_selector_roundtrip_witness:
  "action_pair ''exec:run'' = (''exec'', ''run'') \<and> action_pair ''exec.run'' = (''exec'', ''run'') \<and>
   action_pair ''run'' = (''workflow'', ''run'')"
  using action_selector_roundtrip [of "''exec''" "''run''"] by simp

section \<open>Tasks selector\<close>

definition run_all :: "string \<Rightarrow> bool" where
  "run_all t \<longleftrightarrow> t = [] \<or> t = ''*'' \<or> t = ''$tasks''"

definition selected_tasks :: "string \<Rightarrow> string list" where
  "selected_tasks t = (if run_all t then [] else map trim_space (split_on '','' t))"

lemma selected_tasks_join:
  assumes "names \<noteq> []" "\<forall>n\<in>set names. CHR '','' \<notin> set n \<and> plain_text n"
    and "\<not> run_all (join '','' names)"
  shows "selected_tasks (join '','' names) = names"
proof -
  have "split_on '','' (join '','' names) = names"
    using assms(1,2) by (intro split_on_join) auto
  moreover have "map trim_space names = names"
    using assms(2) by (simp add: map_idI trim_space_plain)
  ultimately show ?thesis using assms(3) by (simp add: selected_tasks_def)
qed

section \<open>Operating system versions\<close>

text \<open>Go's \<open>int\<close> has 64 bits and wraps around.\<close>

definition wrap64 :: "int \<Rightarrow> int" where
  "wrap64 x = (x + 2 ^ 63) mod 2 ^ 64 - 2 ^ 63"

lemma wrap64_id: "- (2 ^ 63) \<le> x \<Longrightarrow> x < 2 ^ 63 \<Longrightarrow> wrap64 x = x"
  by (simp add: wrap64_def)

lemma wrap64_range: "- (2 ^ 63) \<le> wrap64 x \<and> wrap64 x < 2 ^ 63"
  by (simp add: wrap64_def)

record os_target =
  ot_system :: string
  ot_architecture :: string
  ot_name :: string
  ot_min_version :: string
  ot_max_version :: string

record os_info =
  os_name :: string
  os_system :: string
  os_architecture :: string
  os_version :: string

text \<open>
  \<open>int(math.Pow(10, 2 * (count - i)))\<close>: a fraction is cut to 0. From \<open>10 ^ 20\<close> on the
  conversion is out of range, and gives the least \<open>int\<close> on amd64.
\<close>

definition version_factor :: "int \<Rightarrow> int" where
  "version_factor k = (if k < 0 then 0 else if k < 10 then 100 ^ nat k else - (2 ^ 63))"

fun normalize_fragments :: "toolbox \<Rightarrow> string list \<Rightarrow> int \<Rightarrow> int \<Rightarrow> int" where
  "normalize_fragments tb [] k r = r"
| "normalize_fragments tb (f # fs) k r =
     normalize_fragments tb fs (k - 1) (wrap64 (r + wrap64 (as_int tb (VStr f) * version_factor k)))"

definition normalize_version :: "toolbox \<Rightarrow> string \<Rightarrow> nat \<Rightarrow> int" where
  "normalize_version tb version count = normalize_fragments tb (split_on ''.'' version) (int count) 0"

definition os_matches :: "toolbox \<Rightarrow> os_info \<Rightarrow> os_target option \<Rightarrow> bool" where
  "os_matches tb s target =
     (case target of
        None \<Rightarrow> True
      | Some t \<Rightarrow>
          if ot_name t \<noteq> [] \<and> ot_name t \<noteq> os_name s then False
          else if ot_system t \<noteq> [] \<and> ot_system t \<noteq> os_system s then False
          else if ot_architecture t \<noteq> [] \<and> ot_architecture t \<noteq> os_architecture s then False
          else if ot_min_version t = [] \<and> ot_max_version t = [] then True
          else
            let count = count_of (os_version s) ''.'';
                actual = normalize_version tb (os_version s) count
            in if ot_min_version t \<noteq> [] \<and> actual < normalize_version tb (ot_min_version t) count
               then False
               else normalize_version tb (ot_max_version t) count \<le> actual)"

text \<open>The weighted sum of the fragments, most significant first.\<close>

fun version_number :: "int list \<Rightarrow> int" where
  "version_number [] = 0"
| "version_number (v # vs) = v * 100 ^ length vs + version_number vs"

definition small_fragments :: "toolbox \<Rightarrow> string list \<Rightarrow> bool" where
  "small_fragments tb fs \<longleftrightarrow> (\<forall>f\<in>set fs. 0 \<le> as_int tb (VStr f) \<and> as_int tb (VStr f) < 100)"

lemma version_number_bound:
  "\<forall>v\<in>set vs. 0 \<le> v \<and> v < 100 \<Longrightarrow> 0 \<le> version_number vs \<and> version_number vs < 100 ^ length vs"
proof (induction vs)
  case Nil
  then show ?case by simp
next
  case (Cons v vs)
  then have IH: "0 \<le> version_number vs" "version_number vs < 100 ^ length vs"
    and v: "0 \<le> v" "v \<le> 99" by auto
  have "v * 100 ^ length vs \<le> 99 * 100 ^ length vs" using v by (intro mult_right_mono) auto
  moreover have "0 \<le> v * 100 ^ length vs" using v by simp
  ultimately have "0 \<le> v * 100 ^ length vs + version_number vs"
    "v * 100 ^ length vs + version_number vs < 100 * 100 ^ length vs" using IH by linarith+
  then show ?case by simp
qed

lemma normalize_fragments_number:
  assumes "small_fragments tb fs" and "length fs \<le> 9" and "0 \<le> r" and "r + 100 ^ length fs \<le> 2 ^ 63"
  shows "normalize_fragments tb fs (int (length fs) - 1) r =
           r + version_number (map (\<lambda>f. as_int tb (VStr f)) fs)"
  using assms
proof (induction fs arbitrary: r)
  case Nil
  then show ?case by simp
next
  case (Cons f fs)
  let ?v = "as_int tb (VStr f)"
  have v: "0 \<le> ?v" "?v \<le> 99" and small: "small_fragments tb fs"
    using Cons.prems(1) by (auto simp: small_fragments_def)
  have fac: "version_factor (int (length fs)) = 100 ^ length fs"
    using Cons.prems(2) by (simp add: version_factor_def)
  have le: "?v * 100 ^ length fs \<le> 99 * 100 ^ length fs"
    using v by (intro mult_right_mono) auto
  have nn: "0 \<le> ?v * 100 ^ length fs" using v by simp
  have pos: "(0::int) < 100 ^ length fs" by simp
  have bound: "r + ?v * 100 ^ length fs + 100 ^ length fs \<le> 2 ^ 63"
    using le Cons.prems(4) unfolding length_Cons power_Suc by linarith
  have "wrap64 (?v * 100 ^ length fs) = ?v * 100 ^ length fs"
    by (rule wrap64_id) (use nn bound pos Cons.prems(3) in linarith)+
  moreover have "wrap64 (r + ?v * 100 ^ length fs) = r + ?v * 100 ^ length fs"
    by (rule wrap64_id) (use nn bound pos Cons.prems(3) in linarith)+
  ultimately show ?case
    using Cons.IH [OF small _ _ bound] Cons.prems nn by (simp add: fac)
qed

lemma normalize_version_number:
  assumes "small_fragments tb (split_on ''.'' v)" "length (split_on ''.'' v) = Suc count" "count < 9"
  shows "normalize_version tb v count = version_number (map (\<lambda>f. as_int tb (VStr f)) (split_on ''.'' v))"
proof -
  have "(100::int) ^ Suc count \<le> 100 ^ 9" using assms(3) by (intro power_increasing) auto
  then have "0 + (100::int) ^ length (split_on ''.'' v) \<le> 2 ^ 63" using assms(2) by simp
  with normalize_fragments_number [OF assms(1), of 0] assms(2,3)
  show ?thesis by (simp add: normalize_version_def)
qed

lemma version_number_less:
  assumes "length vs = length ws"
    and "\<forall>v\<in>set vs. 0 \<le> v \<and> v < 100" "\<forall>w\<in>set ws. 0 \<le> w \<and> w < 100"
  shows "version_number vs < version_number ws \<longleftrightarrow> (vs, ws) \<in> lexord {(a, b). a < b}"
  using assms
proof (induction vs ws rule: list_induct2)
  case Nil
  then show ?case by simp
next
  case (Cons v vs w ws)
  let ?n = "100 ^ length ws :: int"
  have b: "0 \<le> version_number vs" "version_number vs < ?n" "0 \<le> version_number ws" "version_number ws < ?n"
    using version_number_bound [of vs] version_number_bound [of ws] Cons by auto
  consider "v < w" | "v = w" | "w < v" by linarith
  then show ?case
  proof cases
    case 1
    then have "(v + 1) * ?n \<le> w * ?n" by (intro mult_right_mono) auto
    with b Cons.hyps 1 show ?thesis by (simp add: algebra_simps)
  next
    case 2
    with Cons show ?thesis by simp
  next
    case 3
    then have "(w + 1) * ?n \<le> v * ?n" by (intro mult_right_mono) auto
    with b Cons.hyps 3 show ?thesis by (simp add: algebra_simps)
  qed
qed

text \<open>
  For versions of equally many fragments below 100, the minimum check accepts exactly
  the versions that are not lexicographically smaller, so \<open>10.9\<close> is older than \<open>10.10\<close>.
\<close>

theorem minimum_version_is_lexicographic:
  fixes tb s t
  defines "nums \<equiv> \<lambda>v. map (\<lambda>f. as_int tb (VStr f)) (split_on ''.'' v)"
  assumes "small_fragments tb (split_on ''.'' (os_version s))"
    and "small_fragments tb (split_on ''.'' (ot_min_version t))"
    and "length (split_on ''.'' (ot_min_version t)) = length (split_on ''.'' (os_version s))"
    and "length (split_on ''.'' (os_version s)) < 9"
    and "ot_name t = []" "ot_system t = []" "ot_architecture t = []" "ot_max_version t = []"
    and "ot_min_version t \<noteq> []" and "as_int tb (VStr []) = 0"
  shows "os_matches tb s (Some t) \<longleftrightarrow>
           (nums (os_version s), nums (ot_min_version t)) \<notin> lexord {(a, b). a < b}"
proof -
  let ?count = "count_of (os_version s) ''.''"
  have len: "length (split_on ''.'' (os_version s)) = Suc ?count"
    using split_on_nonempty [of "''.''" "os_version s"] by (simp add: count_of_def)
  have count: "?count < 9" using assms(5) len by simp
  have actual: "normalize_version tb (os_version s) ?count = version_number (nums (os_version s))"
    unfolding nums_def by (rule normalize_version_number [OF assms(2) len count])
  have min: "normalize_version tb (ot_min_version t) ?count = version_number (nums (ot_min_version t))"
    unfolding nums_def by (rule normalize_version_number [OF assms(3) _ count]) (use assms(4) len in simp)
  have max: "normalize_version tb [] ?count = 0"
    using assms(11) by (simp add: normalize_version_def split_on_no_sep wrap64_def)
  have small: "\<forall>v\<in>set (nums (os_version s)). 0 \<le> v \<and> v < 100"
    "\<forall>v\<in>set (nums (ot_min_version t)). 0 \<le> v \<and> v < 100"
    using assms(2,3) by (auto simp: nums_def small_fragments_def)
  have "version_number (nums (os_version s)) < version_number (nums (ot_min_version t)) \<longleftrightarrow>
      (nums (os_version s), nums (ot_min_version t)) \<in> lexord {(a, b). a < b}"
    by (rule version_number_less [OF _ small]) (simp add: nums_def assms(4))
  moreover have "0 \<le> version_number (nums (os_version s))"
    using version_number_bound [OF small(1)] by simp
  ultimately show ?thesis using assms(6-10) by (auto simp: os_matches_def Let_def actual min max)
qed

theorem minimum_version_is_lexicographic_witness:
  "os_matches tb0 \<lparr>os_name = ''ubuntu'', os_system = ''linux'', os_architecture = ''amd64'', os_version = ''10.9''\<rparr>
     (Some \<lparr>ot_system = [], ot_architecture = [], ot_name = [], ot_min_version = ''10.10'', ot_max_version = []\<rparr>) = False"
proof -
  let ?s = "\<lparr>os_name = ''ubuntu'', os_system = ''linux'', os_architecture = ''amd64'', os_version = ''10.9''\<rparr>"
  let ?t = "\<lparr>ot_system = [], ot_architecture = [], ot_name = [], ot_min_version = ''10.10'', ot_max_version = []\<rparr>"
  have split: "split_on ''.'' ''10.9'' = [''10'', ''9'']" "split_on ''.'' ''10.10'' = [''10'', ''10'']"
    by code_simp+
  have int: "as_int tb0 (VStr ''10'') = 10" "as_int tb0 (VStr ''9'') = 9" "as_int tb0 (VStr []) = 0"
    by code_simp+
  show ?thesis
    using minimum_version_is_lexicographic [of tb0 ?s ?t]
    by (simp add: split int small_fragments_def)
qed

text \<open>
  The maximum check is inverted: with only a maximal version given, a system matches
  exactly when its version is at least the maximum.
\<close>

theorem maximum_version_is_inverted:
  assumes "ot_name t = []" "ot_system t = []" "ot_architecture t = []"
    and "ot_min_version t = []" and "ot_max_version t \<noteq> []"
  shows "os_matches tb s (Some t) \<longleftrightarrow>
     normalize_version tb (ot_max_version t) (count_of (os_version s) ''.'')
       \<le> normalize_version tb (os_version s) (count_of (os_version s) ''.'')"
  using assms by (simp add: os_matches_def Let_def)

theorem maximum_version_is_inverted_witness:
  "\<not> os_matches tb0 \<lparr>os_name = ''ubuntu'', os_system = ''linux'', os_architecture = ''amd64'', os_version = ''10.9''\<rparr>
     (Some \<lparr>ot_system = [], ot_architecture = [], ot_name = [], ot_min_version = [], ot_max_version = ''11.0''\<rparr>)"
proof -
  have "normalize_version tb0 ''11.0'' (count_of ''10.9'' ''.'') = 1100"
    "normalize_version tb0 ''10.9'' (count_of ''10.9'' ''.'') = 1009"
    by code_simp+
  then show ?thesis
    using maximum_version_is_inverted
      [of "\<lparr>ot_system = [], ot_architecture = [], ot_name = [], ot_min_version = [], ot_max_version = ''11.0''\<rparr>"
        tb0 "\<lparr>os_name = ''ubuntu'', os_system = ''linux'', os_architecture = ''amd64'', os_version = ''10.9''\<rparr>"]
    by simp
qed

section \<open>System path\<close>

record sys_path =
  pa_index :: "(string \<times> bool) list"
  pa_items :: "string list"

definition new_path :: "string list \<Rightarrow> sys_path" where
  "new_path items = \<lparr>pa_index = [], pa_items = items\<rparr>"

fun path_unshift :: "string list \<Rightarrow> sys_path \<Rightarrow> sys_path" where
  "path_unshift [] p = p"
| "path_unshift (x # xs) p =
     (if contains x [char_of (10::nat)] then path_unshift xs p
      else if mhas (pa_index p) x then path_unshift xs p
      else path_unshift xs (p\<lparr>pa_items := x # pa_items p, pa_index := mput x True (pa_index p)\<rparr>))"

definition env_value :: "sys_path \<Rightarrow> string" where
  "env_value p = join '':'' (pa_items p)"

text \<open>The index holds exactly the items put in front of the initial ones, once each.\<close>

definition path_inv :: "string list \<Rightarrow> sys_path \<Rightarrow> bool" where
  "path_inv items p \<longleftrightarrow>
     (\<exists>added. pa_items p = added @ items \<and> distinct added \<and> set added = fst ` set (pa_index p) \<and>
        (\<forall>x\<in>set added. \<not> contains x [char_of (10::nat)]))"

lemma new_path_inv: "path_inv items (new_path items)"
  by (simp add: path_inv_def new_path_def)

lemma path_unshift_step_inv:
  assumes "path_inv items p" "\<not> contains x [char_of (10::nat)]" "\<not> mhas (pa_index p) x"
  shows "path_inv items (p\<lparr>pa_items := x # pa_items p, pa_index := mput x True (pa_index p)\<rparr>)"
proof -
  from assms(1) obtain added where a: "pa_items p = added @ items" "distinct added"
    "set added = fst ` set (pa_index p)" "\<forall>x\<in>set added. \<not> contains x [char_of (10::nat)]"
    by (auto simp: path_inv_def)
  from assms(3) a(3) have "x \<notin> set added" by (simp add: mhas_def)
  with a assms(2) show ?thesis
    unfolding path_inv_def by (intro exI [of _ "x # added"]) (simp add: mput_keys)
qed

lemma path_unshift_inv: "path_inv items p \<Longrightarrow> path_inv items (path_unshift xs p)"
  by (induction xs p rule: path_unshift.induct) (simp_all add: path_unshift_step_inv)

lemma path_unshift_index: "mhas (pa_index p) x \<Longrightarrow> mhas (pa_index (path_unshift xs p)) x"
  by (induction xs p rule: path_unshift.induct) (simp_all add: mhas_mput)

lemma path_unshift_has:
  "x \<in> set xs \<Longrightarrow> \<not> contains x [char_of (10::nat)] \<Longrightarrow> mhas (pa_index (path_unshift xs p)) x"
proof (induction xs p rule: path_unshift.induct)
  case (1 p)
  then show ?case by simp
next
  case (2 y xs p)
  show ?case
  proof (cases "x = y")
    case True
    with "2.prems" show ?thesis by (simp add: path_unshift_index mhas_mput)
  next
    case False
    with 2 show ?thesis by simp
  qed
qed

text \<open>
  Unshifting paths puts each one that has no line break in front once and never twice,
  whatever was unshifted before, and keeps the initial items behind them in their order.
\<close>

theorem unshifted_paths_are_unique:
  "\<exists>added. pa_items (path_unshift ys (path_unshift xs (new_path items))) = added @ items \<and>
     distinct added \<and>
     set added = {x \<in> set xs \<union> set ys. \<not> contains x [char_of (10::nat)]}"
proof -
  let ?p = "path_unshift ys (path_unshift xs (new_path items))"
  have "path_inv items ?p" by (intro path_unshift_inv new_path_inv)
  then obtain added where a: "pa_items ?p = added @ items" "distinct added"
    "set added = fst ` set (pa_index ?p)" "\<forall>x\<in>set added. \<not> contains x [char_of (10::nat)]"
    by (auto simp: path_inv_def)
  have sub: "fst ` set (pa_index (path_unshift zs p)) \<subseteq> set zs \<union> fst ` set (pa_index p)" for zs p
    by (induction zs p rule: path_unshift.induct) (auto simp: mput_keys)
  have "set added \<subseteq> set xs \<union> set ys"
    using a(3) sub [of ys "path_unshift xs (new_path items)"] sub [of xs "new_path items"]
    by (auto simp: new_path_def)
  moreover have "x \<in> set added" if "x \<in> set xs \<union> set ys" "\<not> contains x [char_of (10::nat)]" for x
    using that path_unshift_has [of x ys] path_unshift_index [of _ x ys] path_unshift_has [of x xs]
    unfolding a(3) mhas_def by blast
  ultimately show ?thesis using a by (intro exI [of _ added]) auto
qed

end
