(* ===== verification/Nodes.thy ===== *)
theory Nodes
  imports Variables Selectors
begin

text \<open>
  model/abstract.go, action.go, request.go, repeater.go (its data), task.go, tasks.go and
  workflow.go: the nodes of a workflow. An action is read from a file with pointers that may
  be nil (\<open>raw_action\<close>); \<open>Init\<close> fills them (\<open>action\<close>). A task tree is therefore a datatype
  over its actions.
\<close>

section \<open>Actions\<close>

record abstract_node =
  n_name :: string
  n_description :: string
  n_init :: "variable option list"
  n_post :: "variable option list"
  n_when :: string
  n_sleep :: int
  n_logging :: "bool option"

record meta_tag =
  mt_tag :: string
  mt_index :: string
  mt_id :: string
  mt_description :: string
  mt_comments :: string

record service_request =
  sr_service :: string
  sr_action :: string
  sr_request :: "value"

record extraction =
  x_regexpr :: string
  x_key :: string
  x_reset :: bool
  x_required :: bool

record repeater =
  rp_extract :: "extraction list"
  rp_variables :: "variable option list"
  rp_repeat :: int
  rp_think :: int
  rp_exit :: string

record action =
  a_node :: abstract_node
  a_request :: service_request
  a_meta :: meta_tag
  a_repeater :: repeater
  a_async :: bool
  a_skip :: string

record raw_action =
  ra_node :: "abstract_node option"
  ra_request :: "service_request option"
  ra_meta :: "meta_tag option"
  ra_repeater :: "repeater option"
  ra_async :: bool
  ra_skip :: string

definition empty_node :: abstract_node where
  "empty_node = \<lparr>n_name = [], n_description = [], n_init = [], n_post = [], n_when = [], n_sleep = 0,
     n_logging = None\<rparr>"

definition empty_meta :: meta_tag where
  "empty_meta = \<lparr>mt_tag = [], mt_index = [], mt_id = [], mt_description = [], mt_comments = []\<rparr>"

definition empty_request :: service_request where
  "empty_request = \<lparr>sr_service = [], sr_action = [], sr_request = VNil\<rparr>"

definition empty_repeater :: repeater where
  "empty_repeater = \<lparr>rp_extract = [], rp_variables = [], rp_repeat = 0, rp_think = 0, rp_exit = []\<rparr>"

definition new_extract :: "string \<Rightarrow> string \<Rightarrow> bool \<Rightarrow> bool \<Rightarrow> extraction" where
  "new_extract key regexpr reset required =
     \<lparr>x_regexpr = regexpr, x_key = key, x_reset = reset, x_required = required\<rparr>"

definition new_repeater :: repeater where
  "new_repeater = empty_repeater\<lparr>rp_repeat := 1\<rparr>"

definition init_repeater :: "repeater option \<Rightarrow> repeater" where
  "init_repeater r =
     (let r' = (case r of None \<Rightarrow> new_repeater | Some x \<Rightarrow> x)
      in if rp_repeat r' = 0 then r'\<lparr>rp_repeat := 1\<rparr> else r')"

definition init_request :: "service_request option \<Rightarrow> service_request" where
  "init_request r =
     (let r1 = (case r of None \<Rightarrow> empty_request | Some x \<Rightarrow> x);
          r2 = (if sr_service r1 = [] then r1\<lparr>sr_service := ''workflow''\<rparr> else r1)
      in if sr_request r2 = VNil then r2\<lparr>sr_request := VMap []\<rparr> else r2)"

definition validate_request :: "service_request \<Rightarrow> go_error option" where
  "validate_request r =
     (if sr_service r = [] then Some (PlainErr ''service  was empty'')
      else if sr_action r = [] then Some (PlainErr ''action was empty'')
      else if sr_request r = VNil then
        Some (PlainErr (''request was nil for '' @ sr_service r @ ''.'' @ sr_action r))
      else None)"

definition request_action :: "service_request \<Rightarrow> action" where
  "request_action r = \<lparr>a_node = empty_node, a_request = r, a_meta = empty_meta,
     a_repeater = init_repeater (Some empty_repeater), a_async = False, a_skip = []\<rparr>"

definition init_sleep_time :: "action \<Rightarrow> action" where
  "init_sleep_time a =
     (if 0 < rp_think (a_repeater a)
      then a\<lparr>a_node := (a_node a)\<lparr>n_sleep := rp_think (a_repeater a)\<rparr>,
             a_repeater := (a_repeater a)\<lparr>rp_think := 0\<rparr>\<rparr>
      else a)"

definition filled_request :: "service_request option \<Rightarrow> service_request" where
  "filled_request r =
     (let req = (case r of None \<Rightarrow> empty_request | Some x \<Rightarrow> x)
      in init_request (Some (if sr_action req \<noteq> [] \<and> sr_service req = []
           then req\<lparr>sr_service := action_service (sr_action req),
                    sr_action := action_action (sr_action req)\<rparr>
           else req)))"

definition filled_action :: "raw_action \<Rightarrow> action" where
  "filled_action r =
     \<lparr>a_node = (case ra_node r of None \<Rightarrow> empty_node | Some x \<Rightarrow> x),
      a_request = filled_request (ra_request r),
      a_meta = (case ra_meta r of None \<Rightarrow> empty_meta | Some x \<Rightarrow> x),
      a_repeater = init_repeater (Some (case ra_repeater r of None \<Rightarrow> empty_repeater | Some x \<Rightarrow> x)),
      a_async = ra_async r, a_skip = ra_skip r\<rparr>"

definition init_action :: "raw_action \<Rightarrow> go_error + action" where
  "init_action r =
     (case validate_request (a_request (filled_action r)) of
        Some e \<Rightarrow> Inl e
      | None \<Rightarrow> Inr (init_sleep_time (filled_action r)))"

definition raw_of :: "action \<Rightarrow> raw_action" where
  "raw_of a = \<lparr>ra_node = Some (a_node a), ra_request = Some (a_request a), ra_meta = Some (a_meta a),
     ra_repeater = Some (a_repeater a), ra_async = a_async a, ra_skip = a_skip a\<rparr>"

text \<open>\<open>Clone\<close> copies the four parts, which a value of the model does by itself.\<close>

definition clone_action :: "action \<Rightarrow> action" where
  "clone_action a = \<lparr>a_node = a_node a, a_request = a_request a, a_meta = a_meta a,
     a_repeater = a_repeater a, a_async = a_async a, a_skip = a_skip a\<rparr>"

definition action_id :: "action \<Rightarrow> string" where
  "action_id a =
     (if n_name (a_node a) = [] then n_name (a_node a)
      else sr_service (a_request a) @ ''_'' @ sr_action (a_request a))"

definition ready_action :: "action \<Rightarrow> bool" where
  "ready_action a \<longleftrightarrow>
     validate_request (a_request a) = None \<and> rp_repeat (a_repeater a) \<noteq> 0 \<and> rp_think (a_repeater a) \<le> 0"

lemma init_request_fields:
  "sr_service (init_request r) \<noteq> []" "sr_request (init_request r) \<noteq> VNil"
  "sr_action (init_request (Some x)) = sr_action x"
  by (simp_all add: init_request_def Let_def)

lemma init_request_filled:
  "sr_service x \<noteq> [] \<Longrightarrow> sr_request x \<noteq> VNil \<Longrightarrow> init_request (Some x) = x"
  by (simp add: init_request_def)

lemma init_repeater_filled: "rp_repeat x \<noteq> 0 \<Longrightarrow> init_repeater (Some x) = x"
  by (simp add: init_repeater_def)

lemma init_repeater_fields:
  "rp_repeat (init_repeater r) \<noteq> 0" "rp_think (init_repeater (Some x)) = rp_think x"
  by (simp_all add: init_repeater_def Let_def new_repeater_def)

lemma validate_init_request:
  "validate_request (init_request r) =
     (if sr_action (init_request r) = [] then Some (PlainErr ''action was empty'') else None)"
  by (simp add: validate_request_def init_request_fields)

lemma ready_init_sleep:
  "validate_request (a_request a) = None \<Longrightarrow> rp_repeat (a_repeater a) \<noteq> 0 \<Longrightarrow> ready_action (init_sleep_time a)"
  by (simp add: ready_action_def init_sleep_time_def)

lemma init_action_again: "ready_action a \<Longrightarrow> init_action (raw_of a) = Inr a"
proof -
  assume a: "ready_action a"
  then have "sr_service (a_request a) \<noteq> []" "sr_request (a_request a) \<noteq> VNil" "sr_action (a_request a) \<noteq> []"
    by (auto simp: ready_action_def validate_request_def split: if_splits)
  with a show ?thesis
    by (simp add: init_action_def filled_action_def filled_request_def raw_of_def init_request_filled
        init_repeater_filled init_sleep_time_def ready_action_def)
qed

lemma init_action_ok:
  assumes "init_action r = Inr a"
  shows "ready_action a \<and> a_async a = ra_async r"
proof -
  have v: "validate_request (a_request (filled_action r)) = None" "a = init_sleep_time (filled_action r)"
    using assms by (auto simp: init_action_def split: option.splits)
  have "rp_repeat (a_repeater (filled_action r)) \<noteq> 0"
    by (simp add: filled_action_def init_repeater_fields)
  with v show ?thesis by (simp add: ready_init_sleep) (simp add: init_sleep_time_def filled_action_def)
qed

lemma filled_request_error:
  "validate_request (filled_request q) =
     (if sr_action (filled_request q) = [] then Some (PlainErr ''action was empty'') else None)"
  by (simp add: filled_request_def Let_def validate_init_request)

lemma init_action_error:
  "init_action r = Inl e \<Longrightarrow> e = PlainErr ''action was empty'' \<and> sr_action (filled_request (ra_request r)) = []"
  by (auto simp: init_action_def filled_action_def filled_request_error split: if_splits)

text \<open>
  An initialised action is ready to run - it has a service, an action, a request, a
  repeat count and no think time left in its repeater -, an action without any action name
  is refused, and initialising it again changes nothing.
\<close>

theorem init_action_ready:
  "case init_action r of
      Inr a \<Rightarrow> ready_action a \<and> init_action (raw_of a) = Inr a \<and> a_async a = ra_async r
    | Inl e \<Rightarrow> e = PlainErr ''action was empty'' \<and>
        (ra_request r = None \<or> (\<exists>q. ra_request r = Some q \<and>
           (sr_action q = [] \<or> sr_service q = [] \<and> action_action (sr_action q) = [])))"
proof (cases "init_action r")
  case (Inl e)
  moreover have "ra_request r = None \<or> (\<exists>q. ra_request r = Some q \<and>
      (sr_action q = [] \<or> sr_service q = [] \<and> action_action (sr_action q) = []))"
    using init_action_error [OF Inl]
    by (cases "ra_request r") (auto simp: filled_request_def Let_def init_request_fields split: if_splits)
  ultimately show ?thesis using init_action_error [OF Inl] by simp
next
  case (Inr a)
  then show ?thesis using init_action_ok [OF Inr] init_action_again by simp
qed

section \<open>Tasks\<close>

record task_info =
  ti_node :: abstract_node
  ti_meta :: "meta_tag option"
  ti_fail :: bool
  ti_multi :: bool
  ti_data :: "(string \<times> string) list"
  ti_range :: string
  ti_subpath :: string

datatype 'a task = MkTask (t_info: task_info) (t_actions: "'a list") (t_node: "'a tasks option")
  and 'a tasks = MkTasks (tn_tasks: "'a task list") (tn_on_error: string) (tn_deferred: string)

definition t_name :: "'a task \<Rightarrow> string" where
  "t_name t = n_name (ti_node (t_info t))"

definition t_logging :: "'a task \<Rightarrow> bool option" where
  "t_logging t = n_logging (ti_node (t_info t))"

definition new_task :: "string \<Rightarrow> bool \<Rightarrow> 'a task" where
  "new_task name multi =
     MkTask \<lparr>ti_node = empty_node\<lparr>n_name := name\<rparr>, ti_meta = None, ti_fail = False, ti_multi = multi,
       ti_data = [], ti_range = [], ti_subpath = []\<rparr> [] (Some (MkTasks [] [] []))"

text \<open>\<open>Select\<close>: a nested node is searched with its own error and deferred task.\<close>

definition allowed_names :: "string list \<Rightarrow> string \<Rightarrow> string \<Rightarrow> string list" where
  "allowed_names names on_error deferred =
     names @ (if deferred \<noteq> [] then [deferred] else []) @ (if on_error \<noteq> [] then [on_error] else [])"

fun select_list :: "string list \<Rightarrow> string list \<Rightarrow> 'a task list \<Rightarrow> 'a task list" where
  "select_list names allowed [] = []"
| "select_list names allowed (MkTask info acts None # ts) =
     (if n_name (ti_node info) \<in> set allowed then [MkTask info acts None] else []) @
     select_list names allowed ts"
| "select_list names allowed (MkTask info acts (Some (MkTasks [] e d)) # ts) =
     (if n_name (ti_node info) \<in> set allowed then [MkTask info acts (Some (MkTasks [] e d))] else []) @
     select_list names allowed ts"
| "select_list names allowed (MkTask info acts (Some (MkTasks (u # us) e d)) # ts) =
     (if n_name (ti_node info) \<in> set allowed then u # us
      else select_list names (allowed_names names e d) (u # us)) @
     select_list names allowed ts"

definition select_tasks :: "string \<Rightarrow> 'a tasks \<Rightarrow> 'a tasks" where
  "select_tasks selector node =
     (if run_all selector then node
      else MkTasks
        (select_list (selected_tasks selector)
          (allowed_names (selected_tasks selector) (tn_on_error node) (tn_deferred node)) (tn_tasks node))
        (tn_on_error node) (tn_deferred node))"

text \<open>\<open>Task\<close>: the search goes depth first, a task before its own tasks.\<close>

fun find_in :: "string \<Rightarrow> 'a task list \<Rightarrow> 'a task option" where
  "find_in name [] = None"
| "find_in name (MkTask info acts None # ts) =
     (if n_name (ti_node info) = name then Some (MkTask info acts None) else find_in name ts)"
| "find_in name (MkTask info acts (Some (MkTasks us e d)) # ts) =
     (if n_name (ti_node info) = name then Some (MkTask info acts (Some (MkTasks us e d)))
      else case find_in (trim_space name) us of
        Some t \<Rightarrow> Some t
      | None \<Rightarrow> find_in name ts)"

definition find_task :: "string \<Rightarrow> 'a tasks \<Rightarrow> go_error + 'a task" where
  "find_task name node =
     (case find_in (trim_space name) (tn_tasks node) of
        Some t \<Rightarrow> Inr t
      | None \<Rightarrow> Inl (PlainErr (''failed to LookupValueNode task: '' @ name)))"

definition has_task :: "string \<Rightarrow> 'a tasks \<Rightarrow> bool" where
  "has_task name node = (if tn_tasks node = [] then False else is_ok (find_task name node))"

text \<open>\<open>Clone\<close> of a task copies the actions; a nil node of sub tasks is dereferenced.\<close>

definition clone_task :: "action task \<Rightarrow> go_error + action task" where
  "clone_task t =
     (case t_node t of
        None \<Rightarrow> Inl (Panicked ''nil pointer dereference'')
      | Some node \<Rightarrow> Inr (MkTask (t_info t) (map clone_action (t_actions t)) (Some node)))"

definition has_tag_id :: "action task \<Rightarrow> string list option \<Rightarrow> bool" where
  "has_tag_id t ids =
     (case ids of None \<Rightarrow> False | Some s \<Rightarrow> (\<exists>a\<in>set (t_actions t). mt_id (a_meta a) \<in> set s))"

definition async_actions :: "action task \<Rightarrow> action list" where
  "async_actions t =
     concat (map (\<lambda>c.
       if \<not> a_async c then []
       else if 1 < rp_repeat (a_repeater c) then
         (let a = (case init_action (raw_of (clone_action c)) of Inr b \<Rightarrow> b | Inl _ \<Rightarrow> clone_action c)
          in replicate (nat (rp_repeat (a_repeater c)))
               (a\<lparr>a_repeater := (a_repeater a)\<lparr>rp_repeat := 1\<rparr>\<rparr>))
       else [c]) (t_actions t))"

section \<open>Initialisation\<close>

definition set_logging :: "bool option \<Rightarrow> 'a task \<Rightarrow> 'a task" where
  "set_logging lg t =
     (if lg \<noteq> None \<and> t_logging t = None
      then (case t of MkTask info acts sub \<Rightarrow>
              MkTask (info\<lparr>ti_node := (ti_node info)\<lparr>n_logging := lg\<rparr>\<rparr>) acts sub)
      else t)"

definition set_action_logging :: "bool option \<Rightarrow> raw_action \<Rightarrow> go_error + raw_action" where
  "set_action_logging lg r =
     (case lg of
        None \<Rightarrow> Inr r
      | Some b \<Rightarrow>
          (case ra_node r of
             None \<Rightarrow> Inl (Panicked ''nil pointer dereference'')
           | Some node \<Rightarrow>
               if n_logging node = None then Inr (r\<lparr>ra_node := Some (node\<lparr>n_logging := Some b\<rparr>)\<rparr>)
               else Inr r))"

definition init_actions :: "bool option \<Rightarrow> raw_action list \<Rightarrow> go_error + action list" where
  "init_actions lg acts = emap (\<lambda>r. ebind (set_action_logging lg r) init_action) acts"

text \<open>
  The task's own logging is what \<open>set_logging\<close> has left: its own setting, or the one of its
  parent. The recursion hands the parent's setting down.
\<close>

definition inherit :: "bool option \<Rightarrow> bool option \<Rightarrow> bool option" where
  "inherit own parent = (if parent \<noteq> None \<and> own = None then parent else own)"

definition with_logging :: "bool option \<Rightarrow> task_info \<Rightarrow> task_info" where
  "with_logging lg info =
     info\<lparr>ti_node := (ti_node info)\<lparr>n_logging := inherit (n_logging (ti_node info)) lg\<rparr>\<rparr>"

fun init_task_list :: "bool option \<Rightarrow> raw_action task list \<Rightarrow> go_error + action task list" where
  "init_task_list lg [] = Inr []"
| "init_task_list lg (MkTask info acts None # ts) =
     ebind (init_actions (inherit (n_logging (ti_node info)) lg) acts) (\<lambda>bs.
       ebind (init_task_list lg ts) (\<lambda>us. Inr (MkTask (with_logging lg info) bs None # us)))"
| "init_task_list lg (MkTask info acts (Some (MkTasks ws e d)) # ts) =
     ebind (init_actions (inherit (n_logging (ti_node info)) lg) acts) (\<lambda>bs.
       ebind (init_task_list (inherit (n_logging (ti_node info)) lg) ws) (\<lambda>vs.
         ebind (init_task_list lg ts) (\<lambda>us.
           Inr (MkTask (with_logging lg info) bs (Some (MkTasks vs e d)) # us))))"

record 'a workflow =
  w_source :: "string option"
  w_data :: smap
  w_node :: abstract_node
  w_tasks :: "'a tasks"

definition init_workflow :: "raw_action workflow \<Rightarrow> go_error + action workflow" where
  "init_workflow w =
     ebind (init_task_list (n_logging (w_node w)) (tn_tasks (w_tasks w))) (\<lambda>ts.
       Inr \<lparr>w_source = w_source w, w_data = w_data w, w_node = w_node w,
            w_tasks = MkTasks ts (tn_on_error (w_tasks w)) (tn_deferred (w_tasks w))\<rparr>)"

definition validate_workflow :: "'a workflow \<Rightarrow> go_error option" where
  "validate_workflow w =
     (let node = w_tasks w
      in if tn_tasks node = [] then Some (PlainErr ''tasks were empty'')
         else case (if tn_deferred node \<noteq> [] then find_task (tn_deferred node) node else Inr (hd (tn_tasks node))) of
           Inl e \<Rightarrow> Some e
         | Inr _ \<Rightarrow>
             (case (if tn_on_error node \<noteq> [] then find_task (tn_on_error node) node
                    else Inr (hd (tn_tasks node))) of
                Inl e \<Rightarrow> Some e
              | Inr _ \<Rightarrow> None))"

section \<open>The tree of tasks\<close>

text \<open>All tasks, a task before its own tasks.\<close>

fun preorder :: "'a task list \<Rightarrow> 'a task list" where
  "preorder [] = []"
| "preorder (MkTask info acts None # ts) = MkTask info acts None # preorder ts"
| "preorder (MkTask info acts (Some (MkTasks us e d)) # ts) =
     MkTask info acts (Some (MkTasks us e d)) # preorder us @ preorder ts"

definition leaf :: "'a task \<Rightarrow> bool" where
  "leaf t = (case t_node t of None \<Rightarrow> True | Some node \<Rightarrow> tn_tasks node = [])"

lemma preorder_self: "t \<in> set ts \<Longrightarrow> t \<in> set (preorder ts)"
  by (induction ts rule: preorder.induct) auto

lemma preorder_append: "preorder (ts @ us) = preorder ts @ preorder us"
  by (induction ts rule: preorder.induct) auto

lemma preorder_leaves: "\<forall>t\<in>set ts. leaf t \<Longrightarrow> preorder ts = ts"
  by (induction ts rule: preorder.induct) (auto simp: leaf_def)

lemma find_append:
  "find P (xs @ ys) = (case find P xs of Some x \<Rightarrow> Some x | None \<Rightarrow> find P ys)"
  by (induction xs) auto

lemma find_in_preorder:
  "trim_space name = name \<Longrightarrow> find_in name ts = find (\<lambda>t. t_name t = name) (preorder ts)"
  by (induction name ts rule: find_in.induct)
    (auto simp: t_name_def find_append split: option.splits)

text \<open>
  Looking a task up by name finds the first task of that (trimmed) name when the tree is
  written down with every task before its own tasks, however deep it is nested, and fails
  exactly when there is none.
\<close>

theorem find_task_is_preorder_search:
  "find_task name node =
     (case find (\<lambda>t. t_name t = trim_space name) (preorder (tn_tasks node)) of
        Some t \<Rightarrow> Inr t
      | None \<Rightarrow> Inl (PlainErr (''failed to LookupValueNode task: '' @ name)))"
  by (simp add: find_task_def find_in_preorder)

lemma select_list_sub: "set (select_list names allowed ts) \<subseteq> set (preorder ts)"
proof (induction names allowed ts rule: select_list.induct)
  case (4 names allowed info acts u us e d ts)
  have "set (u # us) \<subseteq> set (preorder (u # us))" using preorder_self by blast
  with 4 have "set (select_list names allowed (MkTask info acts (Some (MkTasks (u # us) e d)) # ts)) \<subseteq>
      set (preorder (u # us)) \<union> set (preorder ts)"
    unfolding select_list.simps(4) set_append by (cases "n_name (ti_node info) \<in> set allowed") auto
  then show ?case unfolding preorder.simps(3) set_append list.set(2) by blast
qed auto

lemma select_list_leaves:
  "\<forall>t\<in>set ts. leaf t \<Longrightarrow> select_list names allowed ts = filter (\<lambda>t. t_name t \<in> set allowed) ts"
  by (induction names allowed ts rule: select_list.induct) (auto simp: leaf_def t_name_def)

lemma select_list_finds:
  "set names \<subseteq> set allowed \<Longrightarrow> t \<in> set (preorder ts) \<Longrightarrow> leaf t \<Longrightarrow> t_name t \<in> set names \<Longrightarrow>
     t \<in> set (preorder (select_list names allowed ts))"
proof (induction names allowed ts rule: select_list.induct)
  case (4 names allowed info acts u us e d ts)
  have sub: "set names \<subseteq> set (allowed_names names e d)" by (auto simp: allowed_names_def)
  have "t \<noteq> MkTask info acts (Some (MkTasks (u # us) e d))" using "4.prems"(3) by (auto simp: leaf_def)
  with "4.prems"(2) consider "t \<in> set (preorder (u # us))" | "t \<in> set (preorder ts)" by auto
  then show ?case
    using "4.IH"(1) [OF _ sub] "4.IH"(2) "4.prems" preorder_append by cases (auto simp: preorder_append)
qed (auto simp: preorder_append leaf_def t_name_def)

text \<open>
  A selection runs tasks of the workflow only; every selected task without sub tasks is
  run, by itself or as part of a selected group; and of a flat workflow it keeps, in their
  order, exactly the selected tasks, the error task and the deferred task.
\<close>

theorem selection_of_tasks:
  assumes "\<not> run_all selector"
  shows "set (tn_tasks (select_tasks selector node)) \<subseteq> set (preorder (tn_tasks node)) \<and>
         (\<forall>t\<in>set (preorder (tn_tasks node)). leaf t \<and> t_name t \<in> set (selected_tasks selector) \<longrightarrow>
            t \<in> set (preorder (tn_tasks (select_tasks selector node)))) \<and>
         ((\<forall>t\<in>set (tn_tasks node). leaf t) \<longrightarrow>
            tn_tasks (select_tasks selector node) =
              filter (\<lambda>t. t_name t \<in> set (selected_tasks selector) \<or>
                 t_name t \<noteq> [] \<and> (t_name t = tn_on_error node \<or> t_name t = tn_deferred node)) (tn_tasks node))"
proof -
  let ?al = "allowed_names (selected_tasks selector) (tn_on_error node) (tn_deferred node)"
  have al: "set (selected_tasks selector) \<subseteq> set ?al" by (auto simp: allowed_names_def)
  have eq: "x \<in> set ?al \<longleftrightarrow> x \<in> set (selected_tasks selector) \<or> x \<noteq> [] \<and> (x = tn_on_error node \<or> x = tn_deferred node)"
    for x by (auto simp: allowed_names_def)
  have sel: "tn_tasks (select_tasks selector node) = select_list (selected_tasks selector) ?al (tn_tasks node)"
    using assms by (simp add: select_tasks_def)
  have flat: "filter (\<lambda>t. t_name t \<in> set ?al) ts =
      filter (\<lambda>t. t_name t \<in> set (selected_tasks selector) \<or>
                 t_name t \<noteq> [] \<and> (t_name t = tn_on_error node \<or> t_name t = tn_deferred node)) ts" for ts
    by (rule filter_cong) (simp_all only: eq)
  show ?thesis
    unfolding sel flat [symmetric]
    using select_list_sub select_list_finds [OF al] select_list_leaves by (intro conjI ballI impI) blast+
qed

theorem selection_of_tasks_witness:
  "map t_name (tn_tasks (select_tasks ''test''
     (MkTasks [new_task ''build'' False, new_task ''test'' False, new_task ''clean'' False :: nat task] [] ''clean'')))
   = [''test'', ''clean'']"
proof -
  have "\<not> run_all ''test''" "selected_tasks ''test'' = [''test'']" by code_simp+
  moreover have "leaf (new_task n b :: nat task)" "t_name (new_task n b :: nat task) = n" for n b
    by (simp_all add: leaf_def new_task_def t_name_def empty_node_def)
  ultimately show ?thesis
    using selection_of_tasks [of "''test''" "MkTasks [new_task ''build'' False, new_task ''test'' False,
        new_task ''clean'' False :: nat task] [] ''clean''"] by simp
qed

lemma init_actions_ready: "init_actions lg rs = Inr acts \<Longrightarrow> \<forall>a\<in>set acts. ready_action a"
proof (induction rs arbitrary: acts)
  case (Cons r rs)
  then show ?case by (auto simp: init_actions_def ebind_Inr_iff dest: init_action_ok)
qed (simp add: init_actions_def)

lemma init_sleep_logging: "n_logging (a_node (init_sleep_time a)) = n_logging (a_node a)"
  by (simp add: init_sleep_time_def)

lemma init_actions_logging:
  "init_actions (Some b) rs = Inr acts \<Longrightarrow> \<forall>a\<in>set acts. n_logging (a_node a) \<noteq> None"
proof (induction rs arbitrary: acts)
  case (Cons r rs)
  have "n_logging (a_node x) \<noteq> None"
    if l1: "set_action_logging (Some b) r = Inr r'" and l2: "init_action r' = Inr x" for r' x
  proof -
    obtain node where "ra_node r' = Some node" "n_logging node \<noteq> None"
      using l1 by (cases "ra_node r") (auto simp: set_action_logging_def split: if_splits)
    moreover have "x = init_sleep_time (filled_action r')"
      using l2 by (auto simp: init_action_def split: option.splits)
    ultimately show ?thesis by (simp add: init_sleep_logging) (simp add: filled_action_def)
  qed
  with Cons show ?case by (auto simp: init_actions_def ebind_Inr_iff)
qed (simp add: init_actions_def)

lemma init_task_list_names: "init_task_list lg ts = Inr us \<Longrightarrow> map t_name (preorder us) = map t_name (preorder ts)"
  by (induction lg ts arbitrary: us rule: init_task_list.induct)
    (auto simp: ebind_Inr_iff t_name_def with_logging_def)

lemma init_task_list_ready:
  "init_task_list lg ts = Inr us \<Longrightarrow> t \<in> set (preorder us) \<Longrightarrow> \<forall>a\<in>set (t_actions t). ready_action a"
proof (induction lg ts arbitrary: us t rule: init_task_list.induct)
  case (1 lg)
  then show ?case by simp
next
  case (2 lg info acts ts)
  then obtain bs vs where i: "init_actions (inherit (n_logging (ti_node info)) lg) acts = Inr bs"
    "init_task_list lg ts = Inr vs" "us = MkTask (with_logging lg info) bs None # vs"
    by (auto simp: ebind_Inr_iff)
  with "2.IH" [OF i(2)] "2.prems"(2) init_actions_ready [OF i(1)] show ?case by auto
next
  case (3 lg info acts ws e d ts)
  then obtain bs vs us' where i: "init_actions (inherit (n_logging (ti_node info)) lg) acts = Inr bs"
    "init_task_list (inherit (n_logging (ti_node info)) lg) ws = Inr vs" "init_task_list lg ts = Inr us'"
    "us = MkTask (with_logging lg info) bs (Some (MkTasks vs e d)) # us'"
    by (auto simp: ebind_Inr_iff)
  with "3.IH"(1) [OF i(2)] "3.IH"(2) [OF i(3)] "3.prems"(2) init_actions_ready [OF i(1)] show ?case by auto
qed

lemma inherit_Some: "lg \<noteq> None \<Longrightarrow> \<exists>b. inherit own lg = Some b"
  by (cases own) (auto simp: inherit_def)

lemma init_task_list_logging:
  "init_task_list lg ts = Inr us \<Longrightarrow> lg \<noteq> None \<Longrightarrow> t \<in> set (preorder us) \<Longrightarrow>
     t_logging t \<noteq> None \<and> (\<forall>a\<in>set (t_actions t). n_logging (a_node a) \<noteq> None)"
proof (induction lg ts arbitrary: us t rule: init_task_list.induct)
  case (1 lg)
  then show ?case by simp
next
  case (2 lg info acts ts)
  obtain b where b: "inherit (n_logging (ti_node info)) lg = Some b" using inherit_Some "2.prems"(2) by blast
  from "2.prems"(1) b obtain bs us' where i: "init_actions (Some b) acts = Inr bs"
    "init_task_list lg ts = Inr us'" "us = MkTask (with_logging lg info) bs None # us'"
    by (auto simp: ebind_Inr_iff)
  with b "2.IH" [OF i(2) "2.prems"(2)] "2.prems"(3) init_actions_logging [OF i(1)] show ?case
    by (auto simp: t_logging_def with_logging_def)
next
  case (3 lg info acts ws e d ts)
  obtain b where b: "inherit (n_logging (ti_node info)) lg = Some b" using inherit_Some "3.prems"(2) by blast
  from "3.prems"(1) b obtain bs vs us' where i: "init_actions (Some b) acts = Inr bs"
    "init_task_list (Some b) ws = Inr vs" "init_task_list lg ts = Inr us'"
    "us = MkTask (with_logging lg info) bs (Some (MkTasks vs e d)) # us'"
    by (auto simp: ebind_Inr_iff)
  from i(2) b have "init_task_list (inherit (n_logging (ti_node info)) lg) ws = Inr vs" by simp
  from "3.IH"(1) [OF this] "3.IH"(2) [OF i(3) "3.prems"(2)] i b "3.prems"(3) init_actions_logging [OF i(1)]
  show ?case by (auto simp: t_logging_def with_logging_def)
qed

text \<open>
  C39: initialising a workflow makes every action of the tree ready and keeps the tasks and
  their names; and when the workflow sets its logging, every task and every action below it
  has a logging setting of its own afterwards.
\<close>

theorem init_workflow_ready:
  assumes "init_workflow w = Inr w'"
  shows "map t_name (preorder (tn_tasks (w_tasks w'))) = map t_name (preorder (tn_tasks (w_tasks w))) \<and>
         (\<forall>t\<in>set (preorder (tn_tasks (w_tasks w'))).
            (\<forall>a\<in>set (t_actions t). ready_action a) \<and>
            (n_logging (w_node w) \<noteq> None \<longrightarrow>
               t_logging t \<noteq> None \<and> (\<forall>a\<in>set (t_actions t). n_logging (a_node a) \<noteq> None)))"
proof -
  obtain ts where ts: "init_task_list (n_logging (w_node w)) (tn_tasks (w_tasks w)) = Inr ts"
    "tn_tasks (w_tasks w') = ts"
    using assms by (auto simp: init_workflow_def ebind_Inr_iff)
  with init_task_list_names [OF ts(1)] init_task_list_ready [OF ts(1)] init_task_list_logging [OF ts(1)]
  show ?thesis by auto
qed

definition sample_raw :: raw_action where
  "sample_raw = \<lparr>ra_node = Some empty_node, ra_request = Some (empty_request\<lparr>sr_action := ''exec:run''\<rparr>),
     ra_meta = None, ra_repeater = None, ra_async = False, ra_skip = []\<rparr>"

definition sample_workflow :: "raw_action workflow" where
  "sample_workflow = \<lparr>w_source = Some ''mem:/app.yaml'', w_data = [],
     w_node = empty_node\<lparr>n_name := ''app'', n_logging := Some False\<rparr>,
     w_tasks = MkTasks [MkTask (t_info (new_task ''build'' False :: nat task)) [sample_raw] None] [] []\<rparr>"

theorem init_workflow_ready_witness:
  "\<exists>w'. init_workflow sample_workflow = Inr w' \<and>
     (\<forall>t\<in>set (preorder (tn_tasks (w_tasks w'))). t_logging t \<noteq> None)"
proof -
  have "is_ok (init_workflow sample_workflow)" by code_simp
  then obtain w' where w': "init_workflow sample_workflow = Inr w'" by (auto simp: is_ok_def split: sum.splits)
  have "n_logging (w_node sample_workflow) \<noteq> None" by (simp add: sample_workflow_def)
  with init_workflow_ready [OF w'] w' show ?thesis by blast
qed

end
