(* ===== verification/Processes.thy ===== *)
theory Processes
  imports Nodes Util_Text
begin

text \<open>
  model/activities.go, activity.go and process.go: the stack of activities of a process, the
  process of a running workflow, and the stack of running processes. Both stacks provide the
  interface \<open>lifo\<close>, in which their common behaviour is proved once.
\<close>

section \<open>The interface of a stack\<close>

locale lifo =
  fixes push :: "'a \<Rightarrow> 's \<Rightarrow> 's"
    and pop :: "'s \<Rightarrow> 'a option \<times> 's"
    and items :: "'s \<Rightarrow> 'a list"
  assumes push_items: "items (push x s) = items s @ [x]"
    and pop_empty: "items s = [] \<Longrightarrow> fst (pop s) = None \<and> items (snd (pop s)) = []"
    and pop_items: "items s = xs @ [x] \<Longrightarrow> fst (pop s) = Some x \<and> items (snd (pop s)) = xs"
begin

lemma pop_push: "fst (pop (push x s)) = Some x" "items (snd (pop (push x s))) = items s"
  using pop_items [of "push x s" "items s" x] by (simp_all add: push_items)

lemma fold_push_items: "items (fold push xs s) = items s @ xs"
  by (induction xs arbitrary: s) (simp_all add: push_items)

text \<open>Popping as often as something was pushed returns it in reverse and leaves the rest.\<close>

primrec pop_n :: "nat \<Rightarrow> 's \<Rightarrow> 'a option list \<times> 's" where
  "pop_n 0 s = ([], s)"
| "pop_n (Suc n) s = (case pop s of (x, t) \<Rightarrow> (case pop_n n t of (xs, u) \<Rightarrow> (x # xs, u)))"

lemma pop_n_items:
  "items s = ys @ xs \<Longrightarrow>
     fst (pop_n (length xs) s) = map Some (rev xs) \<and> items (snd (pop_n (length xs) s)) = ys"
proof (induction xs arbitrary: s rule: rev_induct)
  case Nil
  then show ?case by simp
next
  case (snoc x xs)
  obtain p t where t: "pop s = (p, t)" by fastforce
  have "p = Some x" "items t = ys @ xs" using pop_items [of s "ys @ xs" x] snoc.prems t by simp_all
  with snoc.IH [of t] t show ?case by (auto split: prod.splits)
qed

lemma pop_all: "pop_n (length xs) (fold push xs s) = (map Some (rev xs), snd (pop_n (length xs) (fold push xs s)))
   \<and> items (snd (pop_n (length xs) (fold push xs s))) = items s"
  using pop_n_items [of "fold push xs s" "items s" xs] fold_push_items [of xs s]
  by (cases "pop_n (length xs) (fold push xs s)") auto

end

section \<open>Activities\<close>

text \<open>\<open>as_current\<close> is the exported field \<open>Activity\<close>.\<close>

record 'a activities =
  as_items :: "'a list"
  as_current :: "'a option"

definition new_activities :: "'a activities" where
  "new_activities = \<lparr>as_items = [], as_current = None\<rparr>"

definition activities_len :: "'a activities \<Rightarrow> nat" where
  "activities_len s = length (as_items s)"

definition activities_push :: "'a \<Rightarrow> 'a activities \<Rightarrow> 'a activities" where
  "activities_push x s = \<lparr>as_items = as_items s @ [x], as_current = Some x\<rparr>"

definition activities_pop :: "'a activities \<Rightarrow> 'a option \<times> 'a activities" where
  "activities_pop s =
     (let result = (if as_items s = [] then None else Some (last (as_items s)));
          rest = butlast (as_items s)
      in (result, \<lparr>as_items = rest, as_current = (if rest = [] then as_current s else Some (last rest))\<rparr>))"

definition activities_get :: "'a activities \<Rightarrow> int \<Rightarrow> go_error + 'a" where
  "activities_get s i =
     (if 0 \<le> i \<and> i < int (length (as_items s)) then Inr (as_items s ! nat i)
      else Inl (Panicked ''index out of range''))"

text \<open>\<open>Last\<close> makes and keeps a new activity, \<open>main\<close>, when there is no current one.\<close>

definition activities_last :: "'a \<Rightarrow> 'a activities \<Rightarrow> 'a \<times> 'a activities" where
  "activities_last main s =
     (case as_current s of
        Some x \<Rightarrow> (x, s)
      | None \<Rightarrow> (main, s\<lparr>as_current := Some main\<rparr>))"

definition activities_first :: "'a activities \<Rightarrow> 'a option" where
  "activities_first s = (if 0 < activities_len s then Some (hd (as_items s)) else as_current s)"

text \<open>\<open>Range\<close>: the activities the handler is called with, until it returns false.\<close>

fun range_until :: "('a \<Rightarrow> bool) \<Rightarrow> 'a list \<Rightarrow> 'a list" where
  "range_until f [] = []"
| "range_until f (x # xs) = x # (if f x then range_until f xs else [])"

definition activities_range :: "('a \<Rightarrow> bool) \<Rightarrow> bool \<Rightarrow> 'a activities \<Rightarrow> 'a list" where
  "activities_range f rv s = range_until f (if rv then rev (as_items s) else as_items s)"

interpretation activity_stack: lifo activities_push activities_pop as_items
  by unfold_locales (simp_all add: activities_push_def activities_pop_def Let_def)

text \<open>
  Activities come back in the reverse of the order they were pushed and leave the stack
  as it was; but popping the only activity leaves it as the current one, so that \<open>Last\<close>
  goes on returning an activity that has ended.
\<close>

theorem activities_are_lifo:
  "fst (activity_stack.pop_n (length xs) (fold activities_push xs s)) = map Some (rev xs) \<and>
   as_items (snd (activity_stack.pop_n (length xs) (fold activities_push xs s))) = as_items s \<and>
   fst (activities_last main (snd (activities_pop (activities_push x new_activities)))) = x"
  using activity_stack.pop_all [of xs s]
  by (auto simp: activities_last_def activities_pop_def activities_push_def new_activities_def)
    (metis fst_conv)

section \<open>Activity and process\<close>

record service_response =
  sp_status :: string
  sp_error :: string
  sp_err :: "go_error option"

text \<open>
  \<open>ay_response\<close> is the address of the map of the response; \<open>ay_result\<close> is the variable
  \<open>response\<close> of \<open>runAction\<close>, which the handler of the activity assigns.
\<close>

record activity =
  ay_meta :: meta_tag
  ay_caller :: string
  ay_service :: string
  ay_action :: string
  ay_description :: string
  ay_request :: "value"
  ay_response :: nat
  ay_result :: "nat option"
  ay_service_response :: service_response
  ay_logging :: "bool option"

definition format_tag :: "activity \<Rightarrow> string" where
  "format_tag a =
     (if mt_index (ay_meta a) \<noteq> [] then ''['' @ mt_tag (ay_meta a) @ mt_index (ay_meta a) @ '']''
      else ''['' @ mt_tag (ay_meta a) @ '']'')"

text \<open>
  \<open>NewActivity\<close>: \<open>context.Expand\<close> is \<open>ctx_text\<close>, the state is a map of the store; the map
  of the response is new. The start time is left out.
\<close>

definition new_activity ::
  "toolbox \<Rightarrow> (string \<Rightarrow> string) \<Rightarrow> action \<Rightarrow> nat \<Rightarrow> heap \<Rightarrow> activity \<times> heap" where
  "new_activity tb ctx_text act state h =
     (let req = a_request act; m = a_meta act;
          description = ctx_text (n_description (a_node act));
          request = (case sr_request req of VStr s \<Rightarrow> expand tb h state (VStr s) | v \<Rightarrow> v);
          (r, h') = alloc [] h
      in (\<lparr>ay_meta = m\<lparr>mt_comments := (if mt_comments m \<noteq> [] then expand_text tb h state (mt_comments m)
                                        else mt_comments m)\<rparr>,
           ay_caller = [],
           ay_service = expand_text tb h state (sr_service req),
           ay_action = expand_text tb h state (sr_action req),
           ay_description = (if description \<noteq> [] then expand_text tb h state description else description),
           ay_request = (if request = VNil then VMap [] else request),
           ay_response = r, ay_result = None,
           ay_service_response = \<lparr>sp_status = [], sp_error = [], sp_err = None\<rparr>,
           ay_logging = n_logging (a_node act)\<rparr>, h'))"

record exec_error =
  ee_error :: string
  ee_caller :: string
  ee_task :: string
  ee_request :: "value"
  ee_response :: "value"

definition no_error :: exec_error where
  "no_error = \<lparr>ee_error = [], ee_caller = [], ee_task = [], ee_request = VNil, ee_response = VNil\<rparr>"

record process =
  pr_source :: "string option"
  pr_owner :: string
  pr_tag_ids :: "string list"
  pr_has_tag_id :: bool
  pr_workflow :: "action workflow option"
  pr_task :: "action task option"
  pr_activities :: "nat activities"
  pr_state :: "nat option"
  pr_terminated :: bool
  pr_scheduled :: "action task option"
  pr_error :: exec_error

text \<open>\<open>url_split\<close> is \<open>toolbox.URLSplit\<close>; tag ids are a set, kept without duplicates.\<close>

definition new_process ::
  "urls \<Rightarrow> string option \<Rightarrow> action workflow option \<Rightarrow> process option \<Rightarrow> process" where
  "new_process u source workflow upstream =
     \<lparr>pr_source = source,
      pr_owner = (case source of None \<Rightarrow> [] | Some url \<Rightarrow> snd (url_split u url)),
      pr_tag_ids = (case upstream of None \<Rightarrow> [] | Some p \<Rightarrow> pr_tag_ids p),
      pr_has_tag_id = False, pr_workflow = workflow, pr_task = None,
      pr_activities = new_activities, pr_state = None, pr_terminated = False,
      pr_scheduled = None, pr_error = no_error\<rparr>"

definition add_tag_ids :: "string list \<Rightarrow> process \<Rightarrow> process" where
  "add_tag_ids ids p = p\<lparr>pr_tag_ids := fold List.insert ids (pr_tag_ids p)\<rparr>"

definition terminate :: "process \<Rightarrow> process" where
  "terminate p = p\<lparr>pr_terminated := True\<rparr>"

definition can_run :: "process \<Rightarrow> bool" where
  "can_run p \<longleftrightarrow> \<not> (pr_terminated p \<or> pr_scheduled p \<noteq> None)"

text \<open>\<open>SetTask\<close> with a nil task dereferences it when there are tag ids.\<close>

definition set_task :: "action task option \<Rightarrow> process \<Rightarrow> go_error + process" where
  "set_task t p =
     (let p' = p\<lparr>pr_task := t, pr_has_tag_id := False\<rparr>
      in if pr_tag_ids p = [] then Inr p'
         else case t of
           None \<Rightarrow> Inl (Panicked ''nil pointer dereference'')
         | Some task \<Rightarrow> Inr (p'\<lparr>pr_has_tag_id := has_tag_id task (Some (pr_tag_ids p))\<rparr>))"

definition process_caller :: "process \<Rightarrow> activity \<Rightarrow> activity" where
  "process_caller p a =
     (case pr_workflow p of None \<Rightarrow> a | Some w \<Rightarrow> a\<lparr>ay_caller := n_name (w_node w)\<rparr>)"

definition error_map :: "exec_error \<Rightarrow> smap" where
  "error_map e = [(''Error'', VStr (ee_error e)), (''Caller'', VStr (ee_caller e)),
     (''TaskName'', VStr (ee_task e)), (''Request'', ee_request e), (''Response'', ee_response e)]"

section \<open>Processes\<close>

text \<open>The stack holds the processes by their identity; \<open>has_workflow\<close> tells which run one.\<close>

definition processes_push :: "nat \<Rightarrow> nat list \<Rightarrow> nat list" where
  "processes_push p s = s @ [p]"

definition processes_pop :: "nat list \<Rightarrow> nat option \<times> nat list" where
  "processes_pop s = (if s = [] then (None, s) else (Some (last s), butlast s))"

definition processes_last :: "nat list \<Rightarrow> nat option" where
  "processes_last s = (if s = [] then None else Some (last s))"

definition processes_first :: "nat list \<Rightarrow> nat option" where
  "processes_first s = (if s = [] then None else Some (hd s))"

definition processes_recent :: "int \<Rightarrow> nat list \<Rightarrow> nat list" where
  "processes_recent count s = take (if count \<le> 0 then 1 else nat count) (rev s)"

definition processes_last_workflow :: "(nat \<Rightarrow> bool) \<Rightarrow> nat list \<Rightarrow> nat option" where
  "processes_last_workflow has_workflow s = find has_workflow (rev s)"

definition processes_first_workflow :: "(nat \<Rightarrow> bool) \<Rightarrow> nat list \<Rightarrow> nat option" where
  "processes_first_workflow has_workflow s = find has_workflow s"

interpretation process_stack: lifo processes_push processes_pop "\<lambda>s. s"
  by unfold_locales (simp_all add: processes_push_def processes_pop_def)

lemma processes_push_pop: "processes_pop (processes_push p s) = (Some p, s)"
  using process_stack.pop_push [of p s] by (cases "processes_pop (processes_push p s)") simp

end
