(* ===== verification/Contracts.thy ===== *)
theory Contracts
  imports Processes
begin

text \<open>
  service/workflow/contract.go: the requests of the workflow service, their initialisation
  and validation. \<open>as_workflow\<close> is \<open>Inlined.AsWorkflow\<close> of a request with a pipeline.
\<close>

record run_request =
  rq_enable_logging :: bool
  rq_log_directory :: string
  rq_log_subdir :: string
  rq_async :: bool
  rq_params :: smap
  rq_publish_parameters :: bool
  rq_shared_state :: bool
  rq_url :: string
  rq_name :: string
  rq_state_key :: string
  rq_asset_url :: string
  rq_tag_ids :: string
  rq_tasks :: string
  rq_pipeline :: bool
  rq_workflow :: "action workflow option"

definition empty_run_request :: run_request where
  "empty_run_request = \<lparr>rq_enable_logging = False, rq_log_directory = [], rq_log_subdir = [],
     rq_async = False, rq_params = [], rq_publish_parameters = False, rq_shared_state = False,
     rq_url = [], rq_name = [], rq_state_key = [], rq_asset_url = [], rq_tag_ids = [], rq_tasks = [],
     rq_pipeline = False, rq_workflow = None\<rparr>"

type_synonym as_workflow = "run_request \<Rightarrow> string \<Rightarrow> string \<Rightarrow> go_error + raw_action workflow"

definition init_inline :: "urls \<Rightarrow> as_workflow \<Rightarrow> run_request \<Rightarrow> go_error + run_request" where
  "init_inline u build r =
     (if rq_asset_url r = [] then Inl (PlainErr ''asset URL is required for inline workflow'')
      else
        let asset = url_normalize u (rq_asset_url r);
            base = fst (url_split u asset);
            name = rq_name r
        in ebind (build r name base) (\<lambda>w.
             ebind (init_workflow (w\<lparr>w_source := Some asset\<rparr>)) (\<lambda>w'.
               Inr (r\<lparr>rq_asset_url := asset, rq_workflow := Some w',
                      rq_state_key := (if rq_state_key r = [] then rq_name r else rq_state_key r)\<rparr>))))"

definition init_named :: "run_request \<Rightarrow> run_request" where
  "init_named r =
     (let url = (if rq_url r = [] then rq_name r else rq_url r);
          url' = (if url \<noteq> [] then workflow_url url else url);
          name = (if rq_name r = [] then workflow_name url'
                  else case last_index_of (rq_name r) ''/'' of
                    None \<Rightarrow> rq_name r
                  | Some i \<Rightarrow> drop (Suc i) (rq_name r))
      in r\<lparr>rq_url := url', rq_name := name,
           rq_state_key := (if rq_state_key r = [] then name else rq_state_key r)\<rparr>)"

text \<open>\<open>Init\<close>: every error is reported with the asset URL.\<close>

definition asset_error :: "run_request \<Rightarrow> go_error \<Rightarrow> go_error" where
  "asset_error r e =
     (if is_panic e then e else PlainErr (error_text e @ '' ('' @ rq_asset_url r @ '')''))"

definition init_run_request ::
  "toolbox \<Rightarrow> storage \<Rightarrow> urls \<Rightarrow> as_workflow \<Rightarrow> run_request \<Rightarrow> go_error + run_request" where
  "init_run_request tb io u build r =
     (case ebind (normalize_map tb io (VMap (rq_params r)) True) (\<lambda>params.
        let r' = r\<lparr>rq_params := params,
              rq_tasks := (if rq_tasks r = [] \<or> rq_tasks r = ''$tasks'' then ''*'' else rq_tasks r)\<rparr>
        in if rq_pipeline r' then init_inline u build r' else Inr (init_named r')) of
        Inl e \<Rightarrow> Inl (asset_error r e)
      | Inr r' \<Rightarrow> Inr r')"

definition validate_run_request :: "run_request \<Rightarrow> go_error option" where
  "validate_run_request r =
     (case rq_workflow r of
        Some w \<Rightarrow> validate_workflow w
      | None \<Rightarrow>
          if rq_name r = [] then Some (PlainErr ''name was empty'')
          else if rq_url r = [] then Some (PlainErr ''url was empty'') else None)"

definition new_run_request :: "string \<Rightarrow> smap \<Rightarrow> bool \<Rightarrow> run_request" where
  "new_run_request sel params publish =
     empty_run_request\<lparr>rq_params := params, rq_publish_parameters := publish,
       rq_url := workflow_url sel, rq_name := workflow_name sel, rq_tasks := workflow_tasks sel\<rparr>"

record switch_case =
  sc_request :: "service_request option"
  sc_task :: string
  sc_value :: "value"

record switch_request =
  sw_source_key :: string
  sw_cases :: "switch_case list"
  sw_default :: "switch_case option"

definition switch_match :: "toolbox \<Rightarrow> switch_request \<Rightarrow> value \<Rightarrow> switch_case option" where
  "switch_match tb r source =
     (case find (\<lambda>c. as_string tb (sc_value c) = as_string tb source) (sw_cases r) of
        Some c \<Rightarrow> Some c
      | None \<Rightarrow> sw_default r)"

definition validate_switch :: "switch_request \<Rightarrow> go_error option" where
  "validate_switch r =
     (if sw_source_key r = [] then Some (PlainErr ''sourceKey was empty'')
      else if sw_cases r = [] then Some (PlainErr ''cases were empty'')
      else if \<exists>c\<in>set (sw_cases r). sc_value c = VNil then Some (PlainErr ''cases.value was empty'')
      else None)"

lemma init_run_request_named:
  assumes "rq_pipeline r = False" "rq_state_key r = []" "rq_workflow r = None"
    and "workflow_url (rq_url r) = rq_url r" "rq_url r \<noteq> []"
    and "rq_name r \<noteq> []" "CHR ''/'' \<notin> set (rq_name r)"
    and "rq_tasks r \<noteq> []" "rq_tasks r \<noteq> ''$tasks''"
    and "normalize_map tb io (VMap (rq_params r)) True = Inr params"
  shows "\<exists>s. init_run_request tb io u build r = Inr s \<and> rq_url s = rq_url r \<and> rq_name s = rq_name r \<and>
     rq_tasks s = rq_tasks r \<and> rq_params s = params \<and> rq_state_key s = rq_name s \<and> validate_run_request s = None"
  using assms
  by (simp add: init_run_request_def init_named_def Let_def validate_run_request_def
      last_index_char_None [THEN iffD2])

text \<open>
  A selector given to \<open>NewRunRequest\<close> survives the initialisation of the request: the
  URL, the name and the tasks of \<open>scheme://path:tasks\<close> are those the request runs, the state
  is kept under the name of the workflow, and the request is valid when it has a name.
\<close>

theorem run_request_keeps_selector:
  assumes "CHR '':'' \<notin> set path" "path_ext (scheme @ ''://'' @ path) \<noteq> []"
    and "CHR '':'' \<notin> set tasks" "\<not> prefix ''//'' tasks" "tasks \<noteq> []" "tasks \<noteq> ''$tasks''"
    and "url_name (scheme @ ''://'' @ path) \<noteq> []"
    and "CHR ''/'' \<notin> set (url_name (scheme @ ''://'' @ path))"
    and "normalize_map tb io (VMap params) True = Inr params'"
  shows "\<exists>r. init_run_request tb io u build
       (new_run_request (scheme @ ''://'' @ path @ '':'' @ tasks) params publish) = Inr r \<and>
     rq_url r = scheme @ ''://'' @ path \<and> rq_name r = url_name (scheme @ ''://'' @ path) \<and>
     rq_tasks r = tasks \<and> rq_params r = params' \<and> rq_state_key r = rq_name r \<and>
     validate_run_request r = None"
proof -
  define url where "url = scheme @ ''://'' @ path"
  define r where "r = new_run_request (url @ '':'' @ tasks) params publish"
  have eq: "scheme @ ''://'' @ path @ '':'' @ tasks = url @ '':'' @ tasks" by (simp add: url_def)
  have split: "workflow_split (url @ '':'' @ tasks) = (url, url_name url, tasks)"
    using workflow_selector_split [OF assms(1-4)] by (simp add: url_def)
  have f: "rq_url r = url" "rq_name r = url_name url" "rq_tasks r = tasks"
    "rq_params r = params" "rq_pipeline r = False" "rq_state_key r = []" "rq_workflow r = None"
    by (simp_all add: r_def new_run_request_def empty_run_request_def workflow_url_def
        workflow_name_def workflow_tasks_def split [simplified])
  have url: "workflow_url url = url" "url \<noteq> []"
    using workflow_selector_split_all [OF assms(1,2)] by (simp_all add: workflow_url_def url_def)
  show ?thesis
    using init_run_request_named [of r tb io params' u build] f url assms(5-9)
    unfolding eq url_def [symmetric] r_def [symmetric] by auto
qed

theorem run_request_keeps_selector_witness:
  "\<exists>r. init_run_request tb0 no_files
       \<lparr>url_scheme = (\<lambda>s. s), url_host = (\<lambda>s. s), url_path = (\<lambda>s. s), url_split = (\<lambda>s. (s, [])),
        url_join = (\<lambda>a b. a @ b), url_normalize = (\<lambda>s. s)\<rparr> (\<lambda>r n b. Inl (PlainErr []))
       (new_run_request ''mem://repo/deploy.yaml:test'' [] False) = Inr r \<and> rq_tasks r = ''test''"
proof -
  have ext: "path_ext ''mem://repo/deploy.yaml'' = ''.yaml''" by code_simp
  have name: "url_name ''mem://repo/deploy.yaml'' = ''deploy''" by code_simp
  have "normalize_map tb0 no_files (VMap []) True = Inr []"
    by (simp add: normalize_map_def no_files_def)
  then show ?thesis
    using run_request_keeps_selector [of "''repo/deploy.yaml''" "''mem''" "''test''" tb0 no_files "[]" "[]"
        "\<lparr>url_scheme = (\<lambda>s. s), url_host = (\<lambda>s. s), url_path = (\<lambda>s. s), url_split = (\<lambda>s. (s, [])),
        url_join = (\<lambda>a b. a @ b), url_normalize = (\<lambda>s. s)\<rparr>" "\<lambda>r n b. Inl (PlainErr [])" False] ext name
    by auto
qed

end
