(* ===== verification/Contexts.thy ===== *)
theory Contexts
  imports Contracts
begin

text \<open>
  context.go and model/msg/event.go: the events, the state of a running session (\<open>world\<close>)
  and the operations of a context. Every pointer of the code that is shared and written
  through is an address of the world: contexts, listeners, lists of deferred functions,
  processes, activities, wait groups, and the maps of the store.

  A computation takes a world and returns a value and the new world, unless it panics
  (which nothing recovers, so that the process ends) or the fuel of the model runs out.
\<close>

section \<open>Events\<close>

datatype event =
    EvEval eval_event
  | EvModified smap smap
  | EvTaskStart string string string string "meta_tag option"
  | EvTaskEnd string string string string string string
  | EvAsyncStart string nat string
  | EvAsyncDone string nat string
  | EvWorkflowStart string string string string string string string
  | EvWorkflowEnd string string string string string string string
  | EvLoaded string
  | EvInit string smap
  | EvEnd string
  | EvActivity nat
  | EvActivityEnd nat
  | EvAsync action
  | EvExtract string "value" nat
  | EvSleep int
  | EvError string
  | EvReset
  | EvStdin string string
  | EvStdout string string
  | EvRequest string string
  | EvResponse "value"

text \<open>
  A published event; \<open>pb_init\<close> is the start event it ends. The task events carry the
  workflow, the owner, the task and the session (the path is the task alone, the index 0).
\<close>

record published =
  pb_event :: event
  pb_loggable :: bool
  pb_init :: "event option"

definition new_event :: "event \<Rightarrow> published" where
  "new_event v = \<lparr>pb_event = v, pb_loggable = False, pb_init = None\<rparr>"

definition new_event_with_init :: "event \<Rightarrow> published \<Rightarrow> published" where
  "new_event_with_init v start = \<lparr>pb_event = v, pb_loggable = False, pb_init = Some (pb_event start)\<rparr>"

definition set_loggable :: "bool \<Rightarrow> published \<Rightarrow> published" where
  "set_loggable b e = e\<lparr>pb_loggable := b\<rparr>"

text \<open>\<open>Type\<close> and \<open>Package\<close> of an event, from the Go type name of its value.\<close>

definition event_package :: "string \<Rightarrow> string" where
  "event_package type_name = replace_first (hd (split_on ''.'' type_name)) ''*'' []"

definition event_type :: "string \<Rightarrow> string" where
  "event_type type_name =
     (let fragments = split_on ''.'' (replace_all type_name ''*'' []);
          fragments' = (if 2 < length fragments then drop (length fragments - 2) fragments else fragments)
      in join ''_'' fragments')"

section \<open>The world\<close>

record ctx =
  cx_session :: string
  cx_cli :: bool
  cx_has_logger :: bool
  cx_unsafe :: "string list"
  cx_values :: "string list"
  cx_listener :: "nat option"
  cx_loggers :: "string list"
  cx_source :: "string option"
  cx_state :: "nat option"
  cx_logging :: "bool option"
  cx_defer :: "nat option"
  cx_cloned :: "nat list"
  cx_closed :: bool

text \<open>
  \<open>cx_values\<close> are the keys of the embedded \<open>toolbox.Context\<close> (the values of other services);
  the list of deferred functions, which the code keeps there too, is \<open>cx_defer\<close>.
  A wait group (\<open>group\<close>) holds the goroutines that have not run yet (context, log of its
  events and action) and the error of the group that was seen. \<open>wd_schedule\<close> decides which of the started goroutines run at once (see \<open>Engine\<close>).
\<close>

record group =
  gr_waiting :: "(nat \<times> nat \<times> action) list"
  gr_error :: "go_error option"

record world =
  wd_heap :: heap
  wd_logs :: "nat \<Rightarrow> published list"
  wd_nlog :: nat
  wd_ctxs :: "nat \<Rightarrow> ctx"
  wd_nctx :: nat
  wd_defers :: "nat \<Rightarrow> string list"
  wd_ndefer :: nat
  wd_ran :: "string list"
  wd_procs :: "nat \<Rightarrow> process"
  wd_nproc :: nat
  wd_stack :: "nat list"
  wd_acts :: "nat \<Rightarrow> activity"
  wd_nact :: nat
  wd_groups :: "nat \<Rightarrow> group"
  wd_ngroup :: nat
  wd_background :: "(nat \<times> run_request) list"
  wd_registry :: "(string \<times> action workflow) list"
  wd_env :: "(string \<times> string) list"
  wd_schedule :: "bool list"
  wd_printed :: "string list"

datatype stop = OutOfFuel | Crash string

type_synonym 'a m = "world \<Rightarrow> stop + ('a \<times> world)"

definition mret :: "'a \<Rightarrow> 'a m" where
  "mret x w = Inr (x, w)"

definition mbind :: "'a m \<Rightarrow> ('a \<Rightarrow> 'b m) \<Rightarrow> 'b m" where
  "mbind m f w = (case m w of Inl s \<Rightarrow> Inl s | Inr (x, w') \<Rightarrow> f x w')"

definition mseq :: "'a m \<Rightarrow> 'b m \<Rightarrow> 'b m" where
  "mseq m n = mbind m (\<lambda>_. n)"

definition mget_world :: "world m" where
  "mget_world w = Inr (w, w)"

definition mupdate :: "(world \<Rightarrow> world) \<Rightarrow> unit m" where
  "mupdate f w = Inr ((), f w)"

definition mcrash :: "string \<Rightarrow> 'a m" where
  "mcrash s w = Inl (Crash s)"

definition mout :: "'a m" where
  "mout w = Inl OutOfFuel"

text \<open>A result that may be a panic: the panic stops, another error stays a value.\<close>

definition mlift :: "go_error + 'a \<Rightarrow> (go_error + 'a) m" where
  "mlift r = (case r of Inl (Panicked s) \<Rightarrow> mcrash s | _ \<Rightarrow> mret r)"

definition mcheck :: "go_error option \<Rightarrow> go_error option m" where
  "mcheck e = (case e of Some (Panicked s) \<Rightarrow> mcrash s | _ \<Rightarrow> mret e)"

text \<open>An operation on the store.\<close>

definition on_heap :: "(heap \<Rightarrow> heap) \<Rightarrow> unit m" where
  "on_heap f = mupdate (\<lambda>w. w\<lparr>wd_heap := f (wd_heap w)\<rparr>)"

definition new_map :: "smap \<Rightarrow> nat m" where
  "new_map m w = (let (a, h) = alloc m (wd_heap w) in Inr (a, w\<lparr>wd_heap := h\<rparr>))"

definition on_ctx :: "nat \<Rightarrow> (ctx \<Rightarrow> ctx) \<Rightarrow> unit m" where
  "on_ctx c f = mupdate (\<lambda>w. w\<lparr>wd_ctxs := (wd_ctxs w)(c := f (wd_ctxs w c))\<rparr>)"

definition on_proc :: "nat \<Rightarrow> (process \<Rightarrow> process) \<Rightarrow> unit m" where
  "on_proc p f = mupdate (\<lambda>w. w\<lparr>wd_procs := (wd_procs w)(p := f (wd_procs w p))\<rparr>)"

definition on_act :: "nat \<Rightarrow> (activity \<Rightarrow> activity) \<Rightarrow> unit m" where
  "on_act a f = mupdate (\<lambda>w. w\<lparr>wd_acts := (wd_acts w)(a := f (wd_acts w a))\<rparr>)"

section \<open>Publishing\<close>

definition is_logging_enabled :: "ctx \<Rightarrow> bool" where
  "is_logging_enabled c = (case cx_logging c of None \<Rightarrow> True | Some b \<Rightarrow> b)"

definition set_logging_flag :: "nat \<Rightarrow> bool \<Rightarrow> unit m" where
  "set_logging_flag c b = on_ctx c (\<lambda>x. x\<lparr>cx_logging := Some b\<rparr>)"

definition append_log :: "nat \<Rightarrow> published \<Rightarrow> world \<Rightarrow> world" where
  "append_log l e w = w\<lparr>wd_logs := (wd_logs w)(l := wd_logs w l @ [e])\<rparr>"

text \<open>\<open>deliver\<close> calls the listener of a context; without one the event is dropped.\<close>

definition deliver :: "nat \<Rightarrow> published \<Rightarrow> published m" where
  "deliver c e w =
     (case cx_listener (wd_ctxs w c) of
        None \<Rightarrow> Inr (e, w)
      | Some l \<Rightarrow> Inr (e, append_log l e w))"

definition publish_event :: "nat \<Rightarrow> published \<Rightarrow> published m" where
  "publish_event c e w = deliver c (set_loggable (is_logging_enabled (wd_ctxs w c)) e) w"

definition publish :: "nat \<Rightarrow> event \<Rightarrow> published m" where
  "publish c v = publish_event c (new_event v)"

definition publish_with_start :: "nat \<Rightarrow> event \<Rightarrow> published \<Rightarrow> published m" where
  "publish_with_start c v start = deliver c (set_loggable True (new_event_with_init v start))"

section \<open>State\<close>

text \<open>
  \<open>NewDefaultState\<close> allocates a map with the predefined entries \<open>defaults\<close> (the time stamp
  and the user defined functions); \<open>State\<close> makes it when there is none yet.
\<close>

definition ctx_state :: "smap \<Rightarrow> nat \<Rightarrow> nat m" where
  "ctx_state defaults c w =
     (case cx_state (wd_ctxs w c) of
        Some a \<Rightarrow> Inr (a, w)
      | None \<Rightarrow> mbind (new_map defaults) (\<lambda>a. mseq (on_ctx c (\<lambda>x. x\<lparr>cx_state := Some a\<rparr>)) (mret a)) w)"

definition set_state :: "nat \<Rightarrow> nat \<Rightarrow> unit m" where
  "set_state c a = on_ctx c (\<lambda>x. x\<lparr>cx_state := Some a\<rparr>)"

definition ctx_expand :: "toolbox \<Rightarrow> smap \<Rightarrow> nat \<Rightarrow> string \<Rightarrow> string m" where
  "ctx_expand tb defaults c text = mbind (ctx_state defaults c) (\<lambda>a w. Inr (expand_text tb (wd_heap w) a text, w))"

definition expand_resource ::
  "toolbox \<Rightarrow> urls \<Rightarrow> storage \<Rightarrow> smap \<Rightarrow> nat \<Rightarrow> string list \<Rightarrow> resource option \<Rightarrow> (go_error + resource) m" where
  "expand_resource tb u io defaults c parents r =
     (case r of
        None \<Rightarrow> mret (Inl (PlainErr ''resource  was empty''))
      | Some res \<Rightarrow>
          if r_url res = [] then mret (Inl (PlainErr ''url was empty''))
          else
            let url = (if contains (r_url res) ''://'' then r_url res
                       else fold (\<lambda>parent cur. if exists_at io (url_join u parent cur)
                              then url_join u parent cur else cur) parents (r_url res))
            in mbind (ctx_expand tb defaults c url) (\<lambda>url'.
                 mbind (ctx_expand tb defaults c (r_credentials res)) (\<lambda>cred.
                   mret (Inr ((new_resource url' [with_credentials cred])\<lparr>r_custom_key := r_custom_key res\<rparr>)))))"

text \<open>
  \<open>PublishAndRestore\<close> sets the values and returns the backup; \<open>restore_values\<close> is the
  function it returns, which puts back the keys that had a value and leaves the others.
\<close>

fun publish_values :: "toolbox \<Rightarrow> nat \<Rightarrow> smap \<Rightarrow> smap \<Rightarrow> heap \<Rightarrow> smap \<times> heap" where
  "publish_values tb state [] backup h = (backup, h)"
| "publish_values tb state ((k, v) # kvs) backup h =
     (case get_value tb h state k of
        (old, has) \<Rightarrow>
          publish_values tb state kvs (if has then mput k old backup else backup)
            (set_value tb state k v h))"

fun restore_values :: "toolbox \<Rightarrow> nat \<Rightarrow> smap \<Rightarrow> heap \<Rightarrow> heap" where
  "restore_values tb state [] h = h"
| "restore_values tb state ((k, v) # kvs) h = restore_values tb state kvs (set_value tb state k v h)"

section \<open>Cloning and closing\<close>

definition empty_ctx :: ctx where
  "empty_ctx = \<lparr>cx_session = [], cx_cli = False, cx_has_logger = False, cx_unsafe = [], cx_values = [],
     cx_listener = None, cx_loggers = [], cx_source = None, cx_state = None, cx_logging = None,
     cx_defer = None, cx_cloned = [], cx_closed = False\<rparr>"

definition add_ctx :: "ctx \<Rightarrow> nat m" where
  "add_ctx x w = Inr (wd_nctx w, w\<lparr>wd_ctxs := (wd_ctxs w)(wd_nctx w := x), wd_nctx := Suc (wd_nctx w)\<rparr>)"

definition clone_ctx :: "toolbox \<Rightarrow> smap \<Rightarrow> nat \<Rightarrow> nat m" where
  "clone_ctx tb defaults c w =
     (let x = wd_ctxs w c
      in mbind (new_map defaults) (\<lambda>a.
           mseq (case cx_state x of None \<Rightarrow> mret () | Some s \<Rightarrow> mbind mget_world (\<lambda>v. on_heap (tb_apply tb a (cell (wd_heap v) s))))
             (mbind (add_ctx (empty_ctx\<lparr>cx_session := cx_session x, cx_listener := cx_listener x,
                  cx_loggers := cx_loggers x, cx_cli := cx_cli x, cx_unsafe := cx_unsafe x,
                  cx_values := cx_values x, cx_defer := cx_defer x, cx_state := Some a\<rparr>)) (\<lambda>d.
                mseq (on_ctx c (\<lambda>y. y\<lparr>cx_cloned := cx_cloned y @ [d]\<rparr>)) (mret d)))) w)"

text \<open>\<open>Deffer\<close>: the list is made on the first call and shared by the clones made later.\<close>

definition deffer :: "nat \<Rightarrow> string list \<Rightarrow> string list m" where
  "deffer c fs w =
     (case cx_defer (wd_ctxs w c) of
        Some d \<Rightarrow> Inr (wd_defers w d @ fs, w\<lparr>wd_defers := (wd_defers w)(d := wd_defers w d @ fs)\<rparr>)
      | None \<Rightarrow>
          (let d = wd_ndefer w
           in Inr (fs, w\<lparr>wd_defers := (wd_defers w)(d := fs), wd_ndefer := Suc d,
                wd_ctxs := (wd_ctxs w)(c := (wd_ctxs w c)\<lparr>cx_defer := Some d\<rparr>)\<rparr>)))"

text \<open>\<open>Close\<close> follows the clones, which are younger than their context; \<open>n\<close> bounds the depth.\<close>

fun close_ctx :: "nat \<Rightarrow> nat \<Rightarrow> unit m" where
  "close_ctx 0 c w = Inl OutOfFuel"
| "close_ctx (Suc n) c w =
     mseq (on_ctx c (\<lambda>x. x\<lparr>cx_closed := True\<rparr>))
       (mseq (foldr (\<lambda>d. mseq (close_ctx n d)) (cx_cloned (wd_ctxs w c)) (mret ()))
         (mbind (deffer c []) (\<lambda>fs. mupdate (\<lambda>v. v\<lparr>wd_ran := wd_ran v @ fs\<rparr>)))) w"

definition is_closed :: "ctx \<Rightarrow> bool" where
  "is_closed c \<longleftrightarrow> cx_closed c"

text \<open>\<open>MakeAsyncSafe\<close>: the context gets a listener of its own, which collects the events.\<close>

definition make_async_safe :: "nat \<Rightarrow> nat m" where
  "make_async_safe c w =
     (let l = wd_nlog w
      in Inr (l, w\<lparr>wd_nlog := Suc l, wd_logs := (wd_logs w)(l := []),
           wd_ctxs := (wd_ctxs w)(c := (wd_ctxs w c)\<lparr>
             cx_values := filter (\<lambda>k. k \<notin> set (cx_unsafe (wd_ctxs w c))) (cx_values (wd_ctxs w c)),
             cx_listener := Some l\<rparr>)\<rparr>))"

fun publish_all :: "nat \<Rightarrow> published list \<Rightarrow> unit m" where
  "publish_all c [] = mret ()"
| "publish_all c (e # es) = mbind (publish_event c e) (\<lambda>_. publish_all c es)"

section \<open>Processes of a context\<close>

text \<open>service/workflow/helper.go: the stack is shared by all contexts of the session.\<close>

definition push_process :: "nat \<Rightarrow> nat \<Rightarrow> unit m" where
  "push_process c p w =
     (let w1 = (case pr_source (wd_procs w p) of
            None \<Rightarrow> w
          | Some url \<Rightarrow> w\<lparr>wd_ctxs := (wd_ctxs w)(c := (wd_ctxs w c)\<lparr>cx_source := Some url\<rparr>)\<rparr>)
      in Inr ((), w1\<lparr>wd_stack := processes_push p (wd_stack w1)\<rparr>))"

definition pop_process :: "nat \<Rightarrow> nat option m" where
  "pop_process c w =
     (case processes_pop (wd_stack w) of
        (r, s) \<Rightarrow>
          (let w1 = w\<lparr>wd_stack := s\<rparr>
           in Inr (r, case r of
                None \<Rightarrow> w1
              | Some p \<Rightarrow>
                  (case pr_source (wd_procs w p) of
                     None \<Rightarrow> w1
                   | Some url \<Rightarrow> w1\<lparr>wd_ctxs := (wd_ctxs w1)(c := (wd_ctxs w1 c)\<lparr>cx_source := Some url\<rparr>)\<rparr>))))"

definition last_process :: "nat option m" where
  "last_process w = Inr (processes_last (wd_stack w), w)"

definition last_workflow :: "nat option m" where
  "last_workflow w = Inr (processes_last_workflow (\<lambda>p. pr_workflow (wd_procs w p) \<noteq> None) (wd_stack w), w)"

section \<open>Sleeping\<close>

text \<open>
  \<open>AbstractService.Sleep\<close>. A sleep of a minute or more is cut into seconds, with one event
  per second: at the start, and after each further second until the time has passed.
\<close>

fun publish_times :: "nat \<Rightarrow> nat \<Rightarrow> event \<Rightarrow> unit m" where
  "publish_times 0 c v = mret ()"
| "publish_times (Suc n) c v = mbind (publish c v) (\<lambda>_. publish_times n c v)"

definition service_sleep :: "nat \<Rightarrow> int \<Rightarrow> unit m" where
  "service_sleep c ms w =
     (if ms = 0 then Inr ((), w)
      else
        let events = (if is_logging_enabled (wd_ctxs w c) then 1 else 0)
        in if ms < 60000 then publish_times events c (EvSleep ms) w
           else publish_times (events * (nat ((ms + 999) div 1000) + 1)) c (EvSleep 1000) w)"

section \<open>Lemmas\<close>

lemma mbind_mret [simp]: "mbind (mret x) f = f x"
  by (simp add: mbind_def mret_def fun_eq_iff)

lemma mbind_assoc: "mbind (mbind m f) g = mbind m (\<lambda>x. mbind (f x) g)"
  by (auto simp: mbind_def fun_eq_iff split: sum.splits)

lemma mbind_Inr:
  "mbind m f w = Inr (y, w2) \<longleftrightarrow> (\<exists>x w1. m w = Inr (x, w1) \<and> f x w1 = Inr (y, w2))"
  by (auto simp: mbind_def split: sum.splits)

lemma mbind_Inl:
  "mbind m f w = Inl s \<longleftrightarrow> m w = Inl s \<or> (\<exists>x w1. m w = Inr (x, w1) \<and> f x w1 = Inl s)"
  by (auto simp: mbind_def split: sum.splits)

lemma mseq_Inr: "mseq m n w = Inr (y, w2) \<longleftrightarrow> (\<exists>x w1. m w = Inr (x, w1) \<and> n w1 = Inr (y, w2))"
  by (simp add: mseq_def mbind_Inr)

lemma mret_Inr [simp]: "mret x w = Inr (y, w2) \<longleftrightarrow> y = x \<and> w2 = w"
  by (auto simp: mret_def)

lemma mupdate_Inr [simp]: "mupdate f w = Inr (y, w2) \<longleftrightarrow> w2 = f w"
  by (auto simp: mupdate_def)

lemmas ctx_defs = clone_ctx_def deffer_def on_ctx_def add_ctx_def new_map_def mseq_def mbind_def mupdate_def
  mret_def alloc_def on_heap_def mget_world_def

text \<open>
  Deferred functions run again for every clone: a function registered before a context
  is cloned runs once when the clone is closed with its parent and once more for the parent
  itself.
\<close>

theorem deferred_functions_run_again:
  assumes "cx_defer (wd_ctxs w c) = None" "cx_cloned (wd_ctxs w c) = []" "c < wd_nctx w"
  shows "\<exists>w1 d w2 w3. deffer c [f] w = Inr ([f], w1) \<and> clone_ctx tb defaults c w1 = Inr (d, w2) \<and>
     close_ctx 2 c w2 = Inr ((), w3) \<and> wd_ran w3 = wd_ran w @ [f, f]"
  using assms
  by (auto simp: ctx_defs Let_def empty_ctx_def eval_nat_numeral split: option.split)

text \<open>\<open>NewContext\<close> of the manager, in a session without any other context.\<close>

definition new_context :: "string \<Rightarrow> nat option \<Rightarrow> nat m" where
  "new_context session listener = add_ctx (empty_ctx\<lparr>cx_session := session, cx_listener := listener\<rparr>)"

definition empty_world :: world where
  "empty_world = \<lparr>wd_heap = \<lparr>cells = (\<lambda>a. []), fresh = 0\<rparr>, wd_logs = (\<lambda>l. []), wd_nlog = 1,
     wd_ctxs = (\<lambda>c. empty_ctx), wd_nctx = 0, wd_defers = (\<lambda>d. []), wd_ndefer = 0, wd_ran = [],
     wd_procs = (\<lambda>p. new_process \<lparr>url_scheme = (\<lambda>s. s), url_host = (\<lambda>s. s), url_path = (\<lambda>s. s),
        url_split = (\<lambda>s. (s, [])), url_join = (\<lambda>a b. a @ b), url_normalize = (\<lambda>s. s)\<rparr> None None None),
     wd_nproc = 0, wd_stack = [],
     wd_acts = (\<lambda>a. \<lparr>ay_meta = empty_meta, ay_caller = [], ay_service = [], ay_action = [], ay_description = [],
        ay_request = VNil, ay_response = 0, ay_result = None,
        ay_service_response = \<lparr>sp_status = [], sp_error = [], sp_err = None\<rparr>, ay_logging = None\<rparr>),
     wd_nact = 0, wd_groups = (\<lambda>g. \<lparr>gr_waiting = [], gr_error = None\<rparr>), wd_ngroup = 0, wd_background = [], wd_registry = [], wd_env = [],
     wd_schedule = [], wd_printed = []\<rparr>"

definition session_world :: world where
  "session_world = empty_world\<lparr>wd_ctxs := (\<lambda>c. empty_ctx\<lparr>cx_session := ''s'', cx_listener := Some 0\<rparr>), wd_nctx := 1\<rparr>"

theorem deferred_functions_run_again_witness:
  "\<exists>w1 d w2 w3. deffer 0 [''logout''] session_world = Inr ([''logout''], w1) \<and>
     clone_ctx tb0 [] 0 w1 = Inr (d, w2) \<and> close_ctx 2 0 w2 = Inr ((), w3) \<and>
     wd_ran w3 = [''logout'', ''logout'']"
  using deferred_functions_run_again [of session_world 0 "''logout''" tb0 "[]"]
  by (simp add: session_world_def empty_world_def empty_ctx_def)

end
