(* ===== verification/Engine.thy ===== *)
theory Engine
  imports Contexts
begin

text \<open>
  service/workflow/service.go, with the extraction and repetition of model/extracts.go and
  model/repeater.go: the engine that runs workflows, tasks and actions.

  Recursion. An action calls a service, which may run a workflow, which runs tasks and again
  actions; a \<open>goto\<close> schedules another round of tasks. The two entry points of this recursion,
  \<open>endly.Run\<close> and \<open>runTasks\<close>, are taken as arguments (\<open>callees\<close>) and tied by \<open>engine\<close>, whose
  fuel is the depth of nesting.

  Goroutines. An asynchronous action runs as a whole, either when it is started or when its
  group is waited for, as the schedule of the world says.
\<close>

record engine_env =
  en_tb :: toolbox
  en_ps :: parsly
  en_io :: storage
  en_urls :: urls
  en_defaults :: smap
  en_build :: as_workflow
  en_response_map :: "heap \<Rightarrow> value \<Rightarrow> smap"
  en_delete_empty :: "smap \<Rightarrow> smap"
  en_json :: "heap \<Rightarrow> value \<Rightarrow> string"
  en_path :: "string \<Rightarrow> string"
  en_regexp :: "string \<Rightarrow> go_error + (string \<Rightarrow> string list option)"
  en_errorf :: "string \<Rightarrow> string"
  en_join :: "string \<Rightarrow> string \<Rightarrow> string"

datatype request =
    RqRun run_request
  | RqRegister "raw_action workflow"
  | RqSwitch switch_request
  | RqGoto string
  | RqExit
  | RqFail string
  | RqNop
  | RqPrint string string
  | RqSetEnv "(string \<times> string) list"
  | RqOther string string "value"

text \<open>A response: the data of a workflow run (nil for one that goes on in background), or a value.\<close>

datatype response = RsRun "nat option" | RsVal "value"

text \<open>
  The other services: \<open>en_request\<close> looks up the service and the route and converts the raw
  request (\<open>NewRequest\<close>); \<open>en_handler\<close> is the handler of a route outside the workflow service.
\<close>

record full_env = engine_env +
  en_request :: "heap \<Rightarrow> string \<Rightarrow> string \<Rightarrow> value \<Rightarrow> go_error + request"
  en_handler :: "string \<Rightarrow> string \<Rightarrow> value \<Rightarrow> nat \<Rightarrow> heap \<Rightarrow> (go_error + value) \<times> heap"

record callees =
  c_run :: "nat \<Rightarrow> request \<Rightarrow> (go_error + response) m"
  c_tasks :: "nat \<Rightarrow> nat \<Rightarrow> action tasks \<Rightarrow> go_error option m"

section \<open>Access to the state\<close>

definition get_state :: "full_env \<Rightarrow> nat \<Rightarrow> nat m" where
  "get_state e c = ctx_state (en_defaults e) c"

definition put_state :: "full_env \<Rightarrow> nat \<Rightarrow> string \<Rightarrow> value \<Rightarrow> unit m" where
  "put_state e a k v = on_heap (tb_put (en_tb e) a k v)"

definition eval_criteria ::
  "full_env \<Rightarrow> nat \<Rightarrow> nat \<Rightarrow> string \<Rightarrow> string \<Rightarrow> bool \<Rightarrow> (go_error + bool) m" where
  "eval_criteria e c state expr ty def =
     mbind mget_world (\<lambda>w.
       case evaluate (en_tb e) (en_ps e) (wd_heap w) state expr None ty def of
         (r, ev) \<Rightarrow>
           mbind (mlift r) (\<lambda>r.
             case ev of
               None \<Rightarrow> mret r
             | Some v \<Rightarrow> mseq (publish c (EvEval v)) (mret r)))"

definition apply_vars :: "full_env \<Rightarrow> variable option list \<Rightarrow> nat option \<Rightarrow> nat option \<Rightarrow> go_error option m" where
  "apply_vars e vs i out_ref =
     mbind mget_world (\<lambda>w.
       case apply_variables (en_tb e) (en_ps e) (en_io e) vs i out_ref (wd_heap w) of
         (h, err) \<Rightarrow> mseq (on_heap (\<lambda>_. h)) (mcheck err))"

text \<open>\<open>NewModifiedStateEvent\<close> dereferences every variable, a nil one too.\<close>

definition modified_event :: "full_env \<Rightarrow> variable list \<Rightarrow> nat \<Rightarrow> nat \<Rightarrow> heap \<Rightarrow> event" where
  "modified_event e vs i out_ref h =
     EvModified
       (map (\<lambda>v. (en_path e (v_from v), fst (get_value (en_tb e) h i (en_path e (v_from v))))) vs)
       (map (\<lambda>v. (en_path e (v_name v), fst (get_value (en_tb e) h out_ref (en_path e (v_name v))))) vs)"

definition variable_event :: "full_env \<Rightarrow> nat \<Rightarrow> variable option list \<Rightarrow> nat \<Rightarrow> nat \<Rightarrow> unit m" where
  "variable_event e c vs i out_ref =
     (if vs = [] then mret ()
      else if None \<in> set vs then mcrash ''nil pointer dereference''
      else mbind mget_world (\<lambda>w.
        mseq (publish c (modified_event e (map the vs) i out_ref (wd_heap w))) (mret ())))"

section \<open>Extraction\<close>

text \<open>
  The state entry of a matched expression: the maps on the way are created, and the value is
  put under the whole key.
\<close>

fun put_path :: "toolbox \<Rightarrow> string \<Rightarrow> value \<Rightarrow> string list \<Rightarrow> nat \<Rightarrow> heap \<Rightarrow> heap option" where
  "put_path tb key v [] a h = Some h"
| "put_path tb key v [f] a h = Some (tb_put tb a key v h)"
| "put_path tb key v (f # g # fs) a h =
     (let h1 = (if tb_has tb h a f then h else (let (b, h') = alloc [] h in tb_put tb a f (VRef b) h'))
      in case tb_get tb h1 a f of
           VRef b \<Rightarrow> put_path tb key v (g # fs) b h1
         | VMap m \<Rightarrow> (let (b, h2) = alloc m h1 in put_path tb key v (g # fs) b (tb_put tb a f (VRef b) h2))
         | _ \<Rightarrow> None)"

definition match_expression ::
  "full_env \<Rightarrow> nat \<Rightarrow> (string \<Rightarrow> string list option) \<Rightarrow> string \<Rightarrow> extraction \<Rightarrow> nat \<Rightarrow> bool m" where
  "match_expression e c rx line x extracted =
     (case rx line of
        None \<Rightarrow> mret False
      | Some matched \<Rightarrow>
          let v = VStr (matched ! (if 1 < length matched then 1 else 0))
          in mseq
               (if x_key x = [] then mret ()
                else mbind (get_state e c) (\<lambda>state. mbind mget_world (\<lambda>w.
                  case put_path (en_tb e) (x_key x) v (split_on ''.'' (x_key x)) state (wd_heap w) of
                    None \<Rightarrow> mcrash ''assignment to entry in nil map''
                  | Some h \<Rightarrow> on_heap (\<lambda>_. h))))
               (mseq (on_heap (\<lambda>h. write_cell extracted (mput (x_key x) v (cell h extracted)) h)) (mret True)))"

fun extract_each ::
  "full_env \<Rightarrow> nat \<Rightarrow> extraction list \<Rightarrow> string \<Rightarrow> string \<Rightarrow> nat \<Rightarrow> go_error option m" where
  "extract_each e c [] line cleaned extracted = mret None"
| "extract_each e c (x # xs) line cleaned extracted =
     (case en_regexp e (x_regexpr x) of
        Inl err \<Rightarrow> mret (Some (PlainErr (''failed to extract data - invlid regexpr: '' @ x_regexpr x @
                    '',  '' @ error_text err)))
      | Inr rx \<Rightarrow>
          mbind (match_expression e c rx line x extracted) (\<lambda>m1.
          mbind (if m1 then mret False else match_expression e c rx cleaned x extracted) (\<lambda>m2.
            if m2 then extract_each e c xs line cleaned extracted
            else
              mbind (if line = [] then mret False
                     else mbind (match_expression e c rx line x extracted) (\<lambda>m3.
                       if m3 then mret True else match_expression e c rx cleaned x extracted)) (\<lambda>matched.
              mbind mget_world (\<lambda>w.
                if x_required x \<and> \<not> matched \<and> \<not> mhas (cell (wd_heap w) extracted) (x_key x)
                then mret (Some (PlainErr (''failed to extract required data - no match found for regexpr: ''
                        @ x_regexpr x @ '',  '' @ line)))
                else extract_each e c xs line cleaned extracted)))))"

text \<open>\<open>Extracts.Extract\<close> of one input.\<close>

definition extract_data :: "full_env \<Rightarrow> nat \<Rightarrow> extraction list \<Rightarrow> nat \<Rightarrow> string \<Rightarrow> go_error option m" where
  "extract_data e c xs extracted line =
     (if xs = [] then mret None
      else mseq (on_heap (\<lambda>h. write_cell extracted
             (fold (\<lambda>x m. if x_reset x then mdel (x_key x) m else m) xs (cell h extracted)) h))
           (extract_each e c xs line (vt_clean (en_io e) line False) extracted))"

definition reset_extracts :: "extraction list \<Rightarrow> nat \<Rightarrow> heap \<Rightarrow> heap" where
  "reset_extracts xs state h =
     write_cell state (fold (\<lambda>x m. if x_reset x then mdel (x_key x) m else m) xs (cell h state)) h"

section \<open>Repetition\<close>

definition exit_criteria :: "full_env \<Rightarrow> string \<Rightarrow> nat \<Rightarrow> repeater \<Rightarrow> nat \<Rightarrow> (go_error + bool) m" where
  "exit_criteria e caller c rep extracted =
     mbind (get_state e c) (\<lambda>state.
     mbind mget_world (\<lambda>w.
     mbind (new_map (mput_all (cell (wd_heap w) extracted) (cell (wd_heap w) state))) (\<lambda>a.
     mbind (eval_criteria e c a (rp_exit rep) caller False) (\<lambda>r.
       mret (case r of
          Inl err \<Rightarrow> Inl (PlainErr (''failed to check '' @ caller @ '' exit criteia: '' @ error_text err))
        | Inr b \<Rightarrow> Inr b)))))"

text \<open>\<open>AsExtractable\<close> gives text and structure; a structure that is no map of the store is put there.\<close>

definition store_map :: "value \<Rightarrow> (nat option) m" where
  "store_map v =
     (case v of
        VRef r \<Rightarrow> mret (Some r)
      | VMap m \<Rightarrow> if m = [] then mret None else mbind (new_map m) (\<lambda>r. mret (Some r))
      | _ \<Rightarrow> mret None)"

definition merge_data :: "full_env \<Rightarrow> nat \<Rightarrow> nat \<Rightarrow> heap \<Rightarrow> heap" where
  "merge_data e structured extracted h =
     (case mget (cell h structured) ''Data'' of
        Some (VRef d) \<Rightarrow> write_cell extracted (append_map (cell h d) False (cell h extracted)) h
      | _ \<Rightarrow> h)"

text \<open>
  \<open>Eval\<close>. The error of the variables is overwritten by the one of the extraction. The first
  result tells whether to go on.
\<close>

definition repeater_eval ::
  "full_env \<Rightarrow> nat \<Rightarrow> string \<Rightarrow> repeater \<Rightarrow> value \<Rightarrow> nat \<Rightarrow> (bool \<times> go_error option) m" where
  "repeater_eval e c caller rep out_value extracted =
     (if is_slice_value out_value then mret (True, None)
      else
        case as_extractable (en_tb e) (en_io e) out_value of
          (text, structured) \<Rightarrow>
            mbind (store_map structured) (\<lambda>sref.
            mbind mget_world (\<lambda>w.
              let nonempty = (case sref of None \<Rightarrow> False | Some r \<Rightarrow> cell (wd_heap w) r \<noteq> [])
              in mseq (if nonempty
                       then mseq (on_heap (merge_data e (the sref) extracted))
                              (if rp_variables rep = [] then mret None
                               else apply_vars e (rp_variables rep) sref (Some extracted))
                       else apply_vars e (rp_variables rep) (Some extracted) (Some extracted))
              (mbind mget_world (\<lambda>w.
                let output = (if nonempty \<and> text = [] then en_json e (wd_heap w) structured else text)
                in mbind (extract_data e c (rp_extract rep) extracted output) (\<lambda>err.
                  case err of
                    Some x \<Rightarrow> mret (False, Some x)
                  | None \<Rightarrow>
                      mseq (if output = [] then mret ()
                            else on_heap (\<lambda>h. write_cell extracted
                                   (mput ''output'' (VStr output) (cell h extracted)) h))
                      (if rp_exit rep = [] then mret (True, None)
                       else mseq (publish c (EvExtract output structured extracted))
                         (mbind (exit_criteria e (caller @ ''ExitEvaluation'') c rep extracted) (\<lambda>r.
                            mret (case r of
                               Inl x \<Rightarrow> (False, Some x)
                             | Inr b \<Rightarrow> (\<not> b, None)))))))))))"

text \<open>
  \<open>Run\<close> of the repeater: the handler returns the output, whose interface is never nil.
\<close>

fun repeat_times ::
  "full_env \<Rightarrow> nat \<Rightarrow> nat \<Rightarrow> string \<Rightarrow> repeater \<Rightarrow> (go_error + value) m \<Rightarrow> nat \<Rightarrow> go_error option m" where
  "repeat_times e 0 c caller rep handler extracted = mret None"
| "repeat_times e (Suc n) c caller rep handler extracted =
     mbind handler (\<lambda>r.
       case r of
         Inl err \<Rightarrow> mret (Some err)
       | Inr out_value \<Rightarrow>
           mbind (repeater_eval e c caller rep out_value extracted) (\<lambda>(go_on, err).
             if err \<noteq> None \<or> \<not> go_on then mret err
             else mseq (service_sleep c (rp_think rep))
                    (repeat_times e n c caller rep handler extracted)))"

definition repeater_run ::
  "full_env \<Rightarrow> nat \<Rightarrow> string \<Rightarrow> repeater \<Rightarrow> (go_error + value) m \<Rightarrow> nat \<Rightarrow> go_error option m" where
  "repeater_run e c caller rep handler extracted =
     repeat_times e (nat (rp_repeat rep)) c caller rep handler extracted"

section \<open>Nodes\<close>

type_synonym node_result = "nat option \<times> nat option \<times> go_error option"

text \<open>The logging flag of the context is the node's own while the node runs.\<close>

definition with_node_logging :: "nat \<Rightarrow> bool option \<Rightarrow> 'a m \<Rightarrow> 'a m" where
  "with_node_logging c lg m =
     mbind mget_world (\<lambda>w.
       mseq (on_ctx c (\<lambda>x. x\<lparr>cx_logging := lg\<rparr>))
         (mbind m (\<lambda>x. mseq (on_ctx c (\<lambda>y. y\<lparr>cx_logging := cx_logging (wd_ctxs w c)\<rparr>)) (mret x))))"

definition node_post :: "full_env \<Rightarrow> nat \<Rightarrow> nat \<Rightarrow> abstract_node \<Rightarrow> node_result \<Rightarrow> go_error option m" where
  "node_post e c state node r =
     (case r of
        (_, _, Some err) \<Rightarrow> mret (Some err)
      | (i, out_ref, None) \<Rightarrow>
          mbind mget_world (\<lambda>w.
            let i' = (case i of None \<Rightarrow> state | Some a \<Rightarrow> if cell (wd_heap w) a = [] then state else a)
            in mbind (apply_vars e (n_post node) (Some i') out_ref) (\<lambda>err.
               mseq (variable_event e c (n_post node) i' (case out_ref of None \<Rightarrow> state | Some a \<Rightarrow> a))
                 (if err \<noteq> None then mret err
                  else mseq (service_sleep c (n_sleep node)) (mret None)))))"

definition run_node ::
  "full_env \<Rightarrow> nat \<Rightarrow> string \<Rightarrow> nat \<Rightarrow> abstract_node \<Rightarrow> node_result m \<Rightarrow> go_error option m" where
  "run_node e c kind p node handler =
     mbind mget_world (\<lambda>w.
       if \<not> can_run (wd_procs w p) then mret None
       else with_node_logging c (n_logging node)
         (mbind (get_state e c) (\<lambda>state.
          mbind (eval_criteria e c state (n_when node) (kind @ ''.When'') True) (\<lambda>r.
            case r of
              Inl err \<Rightarrow> mret (Some err)
            | Inr yes \<Rightarrow>
                if \<not> yes then mret None
                else
                  mbind (apply_vars e (n_init node) (Some state) (Some state)) (\<lambda>err.
                  mseq (variable_event e c (n_init node) state state)
                    (if err \<noteq> None then mret err
                     else mbind handler (node_post e c state node)))))))"

section \<open>Actions\<close>

definition is_run_action :: "action \<Rightarrow> bool" where
  "is_run_action a \<longleftrightarrow> sr_action (a_request a) = ''run'' \<and> sr_service (a_request a) = ''workflow''"

definition state_value :: "nat option \<Rightarrow> value" where
  "state_value a = (case a of None \<Rightarrow> VMap [] | Some r \<Rightarrow> VRef r)"

definition without_self :: "full_env \<Rightarrow> nat \<Rightarrow> action \<Rightarrow> nat \<Rightarrow> 'a m \<Rightarrow> 'a m" where
  "without_self e p act state m =
     (if \<not> is_run_action act then m
      else mseq (on_heap (tb_delete (en_tb e) state ''self''))
        (mbind m (\<lambda>x.
           mbind mget_world (\<lambda>w.
             mseq (put_state e state ''self'' (state_value (pr_state (wd_procs w p)))) (mret x)))))"

definition make_activity :: "full_env \<Rightarrow> action \<Rightarrow> nat \<Rightarrow> nat m" where
  "make_activity e act state =
     mbind mget_world (\<lambda>w.
       case new_activity (en_tb e) (expand_text (en_tb e) (wd_heap w) state) act state (wd_heap w) of
         (a, h) \<Rightarrow>
           mseq (mupdate (\<lambda>w. w\<lparr>wd_heap := h, wd_acts := (wd_acts w)(wd_nact w := a), wd_nact := Suc (wd_nact w)\<rparr>))
             (mret (wd_nact w)))"

definition panic_enabled :: "full_env \<Rightarrow> world \<Rightarrow> bool" where
  "panic_enabled e w =
     as_bool (en_tb e) (VStr (case mget (wd_env w) ''ENDLY_PANIC'' of None \<Rightarrow> [] | Some s \<Rightarrow> s))"

text \<open>\<open>AsRequest\<close>; a panic of the conversion is recovered unless \<open>ENDLY_PANIC\<close> is set.\<close>

definition as_request :: "full_env \<Rightarrow> nat \<Rightarrow> string \<Rightarrow> string \<Rightarrow> value \<Rightarrow> (go_error + request) m" where
  "as_request e c service act source =
     mbind (get_state e c) (\<lambda>state.
     mbind mget_world (\<lambda>w.
       let expanded = expand (en_tb e) (wd_heap w) state source
       in case en_request e (wd_heap w) service act expanded of
            Inr q \<Rightarrow> mret (Inr q)
          | Inl err \<Rightarrow>
              if is_panic err \<and> panic_enabled e w then mcrash (error_text err)
              else
                let label = ''unable to create '' @ service @ '':'' @ act;
                    cause = (if is_panic err
                             then label @ '' request: '' @ error_text err @ '', '' @ en_json e (wd_heap w) expanded
                             else error_text err)
                in mret (Inl (PlainErr (label @ '' request '' @ cause)))))"

definition request_source :: "full_env \<Rightarrow> activity \<Rightarrow> value" where
  "request_source e a =
     (case ay_request a of VRef r \<Rightarrow> VRef r | v \<Rightarrow> VMap (as_map (en_tb e) v))"

text \<open>The response of the service becomes the response of the activity.\<close>

definition set_response :: "full_env \<Rightarrow> nat \<Rightarrow> response \<Rightarrow> (nat option) m" where
  "set_response e a r =
     mbind mget_world (\<lambda>w.
       let m = ay_response (wd_acts w a);
           entries = (case r of
              RsRun d \<Rightarrow> [(''Data'', state_value d)]
            | RsVal v \<Rightarrow> en_response_map e (wd_heap w) v);
           result = (case r of RsRun d \<Rightarrow> d | RsVal v \<Rightarrow> Some m)
       in mseq (on_heap (\<lambda>h. write_cell m (mput_all entries (cell h m)) h))
            (mseq (on_act a (\<lambda>x. x\<lparr>ay_result := result,
                 ay_service_response := \<lparr>sp_status = ''ok'', sp_error = [], sp_err = None\<rparr>\<rparr>))
               (mret result)))"

definition push_activity :: "nat \<Rightarrow> nat \<Rightarrow> unit m" where
  "push_activity p a =
     mbind mget_world (\<lambda>w.
       mseq (on_act a (process_caller (wd_procs w p)))
         (on_proc p (\<lambda>x. x\<lparr>pr_activities := activities_push a (pr_activities x)\<rparr>)))"

definition pop_activity :: "nat \<Rightarrow> unit m" where
  "pop_activity p = on_proc p (\<lambda>x. x\<lparr>pr_activities := snd (activities_pop (pr_activities x))\<rparr>)"

definition with_activity :: "nat \<Rightarrow> nat \<Rightarrow> nat \<Rightarrow> 'a m \<Rightarrow> 'a m" where
  "with_activity c p a m =
     mseq (push_activity p a)
       (mbind (publish c (EvActivity a)) (\<lambda>start.
          mbind m (\<lambda>x.
            mseq (pop_activity p)
              (mseq (publish_with_start c (EvActivityEnd a) start) (mret x)))))"

definition action_body :: "full_env \<Rightarrow> callees \<Rightarrow> nat \<Rightarrow> action \<Rightarrow> nat \<Rightarrow> nat \<Rightarrow> nat \<Rightarrow> node_result m" where
  "action_body e F c act p a state =
     with_activity c p a
       (mbind mget_world (\<lambda>w.
        let x = wd_acts w a
        in mbind (without_self e p act state
                   (as_request e c (ay_service x) (ay_action x) (request_source e x))) (\<lambda>q.
          case q of
            Inl err \<Rightarrow> mret (None, None, Some err)
          | Inr req \<Rightarrow>
              mbind (c_run F c req) (\<lambda>r.
                case r of
                  Inl err \<Rightarrow> mret (None, None, Some err)
                | Inr resp \<Rightarrow> mbind (set_response e a resp) (\<lambda>result. mret (result, Some state, None))))))"

definition result_key :: "action \<Rightarrow> string" where
  "result_key act = (if n_name (a_node act) = [] then sr_action (a_request act) else n_name (a_node act))"

definition run_action ::
  "full_env \<Rightarrow> callees \<Rightarrow> nat \<Rightarrow> action \<Rightarrow> nat \<Rightarrow> (nat option \<times> go_error option) m" where
  "run_action e F c act p =
     mbind (get_state e c) (\<lambda>state.
     mbind (without_self e p act state (make_activity e act state)) (\<lambda>a.
     mbind mget_world (\<lambda>w.
     mseq (case pr_state (wd_procs w p) of
             None \<Rightarrow> mcrash ''assignment to entry in nil map''
           | Some ps \<Rightarrow> put_state e ps ''index'' (VStr (mt_index (a_meta act))))
     (mbind (run_node e c ''action'' p (a_node act) (action_body e F c act p a state)) (\<lambda>err.
      mbind mget_world (\<lambda>w.
      let response = ay_result (wd_acts w a)
      in case err of
           Some x \<Rightarrow> mret (response, Some (PlainErr (mt_id (a_meta act) @ '': '' @ error_text x)))
         | None \<Rightarrow>
             (case response of
                None \<Rightarrow> mret (None, None)
              | Some r \<Rightarrow>
                  if cell (wd_heap w) r = [] then mret (Some r, None)
                  else
                    let key = result_key act;
                        vs = [empty_variable\<lparr>v_name := key, v_value := VRef r\<rparr>]
                    in mseq (put_state e state key (VRef r))
                         (mseq (apply_vars e (map Some vs) (Some state) (Some state))
                            (mbind mget_world (\<lambda>w.
                               mseq (publish c (modified_event e vs state state (wd_heap w)))
                                 (mret (Some r, None))))))))))))"

text \<open>The handler of the repeater: the response also becomes an entry of the task's result.\<close>

definition action_handler ::
  "full_env \<Rightarrow> callees \<Rightarrow> nat \<Rightarrow> action \<Rightarrow> nat \<Rightarrow> nat \<Rightarrow> (go_error + value) m" where
  "action_handler e F c act p result =
     mbind (run_action e F c act p) (\<lambda>(response, err).
       case err of
         Some x \<Rightarrow> mret (Inl x)
       | None \<Rightarrow>
           (case response of
              None \<Rightarrow> mret (Inr (VMap []))
            | Some r \<Rightarrow>
                mbind mget_world (\<lambda>w.
                  mseq (if cell (wd_heap w) r = [] then mret ()
                        else on_heap (\<lambda>h. write_cell result (mput (action_id act) (VRef r) (cell h result)) h))
                    (mret (Inr (VRef r))))))"

definition repeat_action :: "full_env \<Rightarrow> callees \<Rightarrow> nat \<Rightarrow> action \<Rightarrow> nat \<Rightarrow> nat \<Rightarrow> go_error option m" where
  "repeat_action e F c act p result =
     mbind (new_map []) (\<lambda>extracted.
       repeater_run e c ''action'' (a_repeater act) (action_handler e F c act p result) extracted)"

section \<open>Asynchronous actions\<close>

text \<open>
  A goroutine has a clone of the context, with a listener that collects its events
  (\<open>MakeAsyncSafe\<close>, which the goroutine calls first, is done with the clone: nothing is
  published in between). The events are published to the parent when it ends; the result
  map of the action is its own.
\<close>

definition fork_ctx :: "full_env \<Rightarrow> nat \<Rightarrow> (nat \<times> nat) m" where
  "fork_ctx e c =
     mbind (clone_ctx (en_tb e) (en_defaults e) c) (\<lambda>d. mbind (make_async_safe d) (\<lambda>l. mret (d, l)))"

definition republish :: "nat \<Rightarrow> nat \<Rightarrow> unit m" where
  "republish parent l = mbind mget_world (\<lambda>w. publish_all parent (wd_logs w l))"

definition run_async_action ::
  "full_env \<Rightarrow> callees \<Rightarrow> nat \<Rightarrow> nat \<Rightarrow> nat \<times> nat \<times> action \<Rightarrow> go_error option m" where
  "run_async_action e F parent p g =
     (case g of (c, l, act) \<Rightarrow>
        mbind (new_map []) (\<lambda>result.
        mbind (repeat_action e F c act p result) (\<lambda>err.
        mseq (republish parent l) (mret err))))"

definition take_schedule :: "bool m" where
  "take_schedule w =
     (case wd_schedule w of
        [] \<Rightarrow> Inr (False, w)
      | b # bs \<Rightarrow> Inr (b, w\<lparr>wd_schedule := bs\<rparr>))"

definition new_group :: "nat m" where
  "new_group w = Inr (wd_ngroup w, w\<lparr>wd_groups := (wd_groups w)(wd_ngroup w := \<lparr>gr_waiting = [], gr_error = None\<rparr>),
     wd_ngroup := Suc (wd_ngroup w)\<rparr>)"

definition on_group :: "nat \<Rightarrow> (group \<Rightarrow> group) \<Rightarrow> unit m" where
  "on_group g f = mupdate (\<lambda>w. w\<lparr>wd_groups := (wd_groups w)(g := f (wd_groups w g))\<rparr>)"

fun spawn_actions ::
  "full_env \<Rightarrow> callees \<Rightarrow> nat \<Rightarrow> nat \<Rightarrow> nat \<Rightarrow> action list \<Rightarrow> go_error option \<Rightarrow> go_error option m" where
  "spawn_actions e F c p g [] group_err = mret group_err"
| "spawn_actions e F c p g (act # acts) group_err =
     mseq (publish c (EvAsync act))
       (mbind (fork_ctx e c) (\<lambda>(d, l).
        mbind take_schedule (\<lambda>at_once.
          if at_once then
            mbind (run_async_action e F c p (d, l, act)) (\<lambda>err.
              spawn_actions e F c p g acts (if err = None then group_err else err))
          else
            mseq (on_group g (\<lambda>x. x\<lparr>gr_waiting := gr_waiting x @ [(d, l, act)]\<rparr>))
              (spawn_actions e F c p g acts group_err))))"

text \<open>
  \<open>runAsyncActions\<close> looks at the error of the group right after starting the goroutines: an
  error that comes later is lost.
\<close>

definition run_async_actions ::
  "full_env \<Rightarrow> callees \<Rightarrow> nat \<Rightarrow> nat \<Rightarrow> nat \<Rightarrow> action list \<Rightarrow> unit m" where
  "run_async_actions e F c p g acts =
     mbind (spawn_actions e F c p g acts None) (\<lambda>err.
       if err = None then mret () else on_group g (\<lambda>x. x\<lparr>gr_error := err\<rparr>))"

fun run_waiting :: "full_env \<Rightarrow> callees \<Rightarrow> nat \<Rightarrow> nat \<Rightarrow> (nat \<times> nat \<times> action) list \<Rightarrow> unit m" where
  "run_waiting e F parent p [] = mret ()"
| "run_waiting e F parent p (g # gs) =
     mseq (run_async_action e F parent p g) (run_waiting e F parent p gs)"

definition wait_group :: "full_env \<Rightarrow> callees \<Rightarrow> nat \<Rightarrow> nat \<Rightarrow> nat \<Rightarrow> unit m" where
  "wait_group e F c p g =
     mbind mget_world (\<lambda>w.
       mseq (on_group g (\<lambda>x. x\<lparr>gr_waiting := []\<rparr>))
         (run_waiting e F c p (gr_waiting (wd_groups w g))))"

section \<open>Tasks\<close>

definition source_url :: "process \<Rightarrow> string" where
  "source_url p =
     (case pr_source p of
        Some url \<Rightarrow> url
      | None \<Rightarrow> (case pr_workflow p of
          None \<Rightarrow> []
        | Some w \<Rightarrow> (case w_source w of None \<Rightarrow> [] | Some url \<Rightarrow> url)))"

definition template_tag :: "action task \<Rightarrow> meta_tag option" where
  "template_tag t =
     (case ti_meta (t_info t) of
        Some m \<Rightarrow> Some m
      | None \<Rightarrow> map_option a_meta (find (\<lambda>a. \<not> a_async a) (t_actions t)))"

definition skipped_by_tag :: "process \<Rightarrow> action \<Rightarrow> bool" where
  "skipped_by_tag p a \<longleftrightarrow> pr_has_tag_id p \<and> mt_id (a_meta a) \<notin> set (pr_tag_ids p)"

text \<open>A met skip criteria passes over the following actions of the same tag.\<close>

function run_actions :: "full_env \<Rightarrow> callees \<Rightarrow> nat \<Rightarrow> nat \<Rightarrow> nat \<Rightarrow> action list \<Rightarrow> go_error option m" where
  "run_actions e F c p result [] = mret None"
| "run_actions e F c p result (a # rest) =
     mbind mget_world (\<lambda>w.
       if a_async a \<or> skipped_by_tag (wd_procs w p) a then run_actions e F c p result rest
       else
         mbind (get_state e c) (\<lambda>state.
         mbind (eval_criteria e c state (a_skip a) ''Skip'' False) (\<lambda>r.
           case r of
             Inl err \<Rightarrow> mret (Some err)
           | Inr True \<Rightarrow>
               run_actions e F c p result (dropWhile (\<lambda>b. mt_id (a_meta b) = mt_id (a_meta a)) rest)
           | Inr False \<Rightarrow>
               mbind (repeat_action e F c a p result) (\<lambda>err.
                 if err \<noteq> None then mret err else run_actions e F c p result rest))))"
  by pat_completeness auto
termination
  by (relation "measure (\<lambda>(e, F, c, p, result, acts). length acts)")
    (auto simp: le_imp_less_Suc length_dropWhile_le)

definition task_body ::
  "full_env \<Rightarrow> callees \<Rightarrow> nat \<Rightarrow> nat \<Rightarrow> action task \<Rightarrow> nat \<Rightarrow> nat \<Rightarrow> nat \<Rightarrow> node_result m" where
  "task_body e F c p t state result g =
     mbind (case t_node t of
              None \<Rightarrow> mret None
            | Some node \<Rightarrow> if tn_tasks node = [] then mret None
                           else mbind (c_tasks F c p node) (\<lambda>err. mret (Some err))) (\<lambda>nested.
       if nested \<noteq> None \<and> (nested \<noteq> Some None \<or> t_actions t = [])
       then mret (Some state, Some result, the nested)
       else
         mbind mget_world (\<lambda>w.
         mseq (if async_actions t = [] then mret ()
               else mseq (publish c (EvAsyncStart (t_name t) (length (async_actions t)) (cx_session (wd_ctxs w c))))
                      (run_async_actions e F c p g (async_actions t)))
           (mbind (run_actions e F c p result (t_actions t)) (\<lambda>err.
              mret (if err = None then (Some state, Some result, None) else (None, None, err))))))"

definition status_of :: "go_error option \<Rightarrow> string" where
  "status_of err = (if err = None then ''ok'' else ''error'')"

definition error_message :: "go_error option \<Rightarrow> string" where
  "error_message err = (case err of None \<Rightarrow> [] | Some x \<Rightarrow> error_text x)"

text \<open>A task between its start and its end event.\<close>

definition with_task_events ::
  "nat \<Rightarrow> string \<Rightarrow> string \<Rightarrow> string \<Rightarrow> meta_tag option \<Rightarrow> ('a \<times> go_error option) m \<Rightarrow> ('a \<times> go_error option) m" where
  "with_task_events c workflow owner name tag m =
     mbind mget_world (\<lambda>w.
     let session = cx_session (wd_ctxs w c)
     in mseq (publish c (EvTaskStart workflow owner name session tag))
       (mbind m (\<lambda>(x, err).
          mseq (publish c (EvTaskEnd workflow owner name session (status_of err) (error_message err)))
            (mret (x, err)))))"

text \<open>What a task does between its events, with the group of its asynchronous actions.\<close>

definition task_steps ::
  "full_env \<Rightarrow> callees \<Rightarrow> nat \<Rightarrow> nat \<Rightarrow> action task \<Rightarrow> nat \<Rightarrow> nat \<Rightarrow> (nat \<times> go_error option) m" where
  "task_steps e F c p t state result =
     mbind new_group (\<lambda>g.
     mbind (run_node e c ''task'' p (ti_node (t_info t)) (task_body e F c p t state result g)) (\<lambda>err.
     mbind (if async_actions t = [] then mret err
            else mbind mget_world (\<lambda>w.
              mseq (publish c (EvStdout ''async'' ''waiting for actions ...''))
              (mseq (wait_group e F c p g)
              (mseq (publish c (EvAsyncDone (t_name t) (length (async_actions t)) (cx_session (wd_ctxs w c))))
                (mbind mget_world (\<lambda>w.
                   mret (if err = None then gr_error (wd_groups w g) else err))))))) (\<lambda>err.
     mbind mget_world (\<lambda>w.
     mseq (on_heap (tb_apply (en_tb e) state (cell (wd_heap w) result)))
       (mret (result, err))))))"

definition run_task ::
  "full_env \<Rightarrow> callees \<Rightarrow> nat \<Rightarrow> nat \<Rightarrow> action task \<Rightarrow> (nat \<times> go_error option) m" where
  "run_task e F c p t =
     mbind mget_world (\<lambda>w.
     case set_task (Some t) (wd_procs w p) of
       Inl err \<Rightarrow> mcrash (error_text err)
     | Inr pr \<Rightarrow>
         mseq (on_proc p (\<lambda>_. pr))
         (mbind (new_map []) (\<lambda>result.
          mbind (get_state e c) (\<lambda>state.
          case pr_workflow pr of
            None \<Rightarrow> mcrash ''nil pointer dereference''
          | Some flow \<Rightarrow>
              with_task_events c (n_name (w_node flow)) (source_url pr) (t_name t) (template_tag t)
                (task_steps e F c p t state result)))))"

definition run_deferred_task :: "full_env \<Rightarrow> callees \<Rightarrow> nat \<Rightarrow> nat \<Rightarrow> action tasks \<Rightarrow> go_error option m" where
  "run_deferred_task e F c p node =
     (if tn_deferred node = [] then mret None
      else case find_task (tn_deferred node) node of
        Inl _ \<Rightarrow> mcrash ''nil pointer dereference''
      | Inr t \<Rightarrow> mbind (run_task e F c p t) (\<lambda>(result, err). mret err))"

definition failed_error :: "process \<Rightarrow> (nat \<Rightarrow> activity) \<Rightarrow> go_error \<Rightarrow> exec_error" where
  "failed_error p acts err =
     (let ee = (pr_error p)\<lparr>ee_error := error_text err\<rparr>
      in case as_current (pr_activities p) of
           None \<Rightarrow> ee
         | Some a \<Rightarrow> ee\<lparr>ee_request := ay_request (acts a), ee_response := VRef (ay_response (acts a)),
             ee_task := (case pr_task p of None \<Rightarrow> [] | Some t \<Rightarrow> t_name t)\<rparr>)"

text \<open>
  \<open>runOnErrorTask\<close>. The error of a missing error task shows the (nil) error of the JSON
  conversion, not the one that was to be handled.
\<close>

definition run_on_error_task ::
  "full_env \<Rightarrow> callees \<Rightarrow> nat \<Rightarrow> nat \<Rightarrow> action tasks \<Rightarrow> go_error \<Rightarrow> go_error option m" where
  "run_on_error_task e F c p node err =
     (if tn_on_error node = [] then mret (Some err)
      else
        mbind mget_world (\<lambda>w.
        let ee = failed_error (wd_procs w p) (wd_acts w) err
        in mseq (on_proc p (\<lambda>x. x\<lparr>pr_error := ee\<rparr>))
           (mbind (get_state e c) (\<lambda>state.
            mseq (put_state e state ''error'' (VMap (error_map ee)))
            (mbind mget_world (\<lambda>w.
             mseq (put_state e state ''errorJSON''
                     (VStr (en_json e (wd_heap w) (VMap (en_delete_empty e (error_map ee))))))
             (case find_task (tn_on_error node) node of
                Inl x \<Rightarrow> mret (Some (PlainErr (''failed to catch: <nil>, '' @ error_text x)))
              | Inr t \<Rightarrow>
                  mseq (if ti_fail (t_info t) then mret () else mseq (publish c EvReset) (mret ()))
                    (mbind (run_task e F c p t) (\<lambda>(result, err). mret err)))))))))"

fun tasks_loop ::
  "full_env \<Rightarrow> callees \<Rightarrow> nat \<Rightarrow> nat \<Rightarrow> action tasks \<Rightarrow> action task list \<Rightarrow> go_error option m" where
  "tasks_loop e F c p node [] = mret None"
| "tasks_loop e F c p node (t # ts) =
     (if t_name t = tn_on_error node \<or> t_name t = tn_deferred node then tasks_loop e F c p node ts
      else mbind mget_world (\<lambda>w.
        if pr_terminated (wd_procs w p) then mret None
        else mbind (run_task e F c p t) (\<lambda>(result, err).
          case err of
            None \<Rightarrow> tasks_loop e F c p node ts
          | Some x \<Rightarrow>
              mbind (run_on_error_task e F c p node x) (\<lambda>err.
                if err = None then tasks_loop e F c p node ts else mret err))))"

text \<open>The task that a \<open>goto\<close> has scheduled runs after the loop.\<close>

definition run_scheduled :: "callees \<Rightarrow> nat \<Rightarrow> nat \<Rightarrow> go_error option m" where
  "run_scheduled F c p =
     mbind mget_world (\<lambda>w.
       case pr_scheduled (wd_procs w p) of
         None \<Rightarrow> mret None
       | Some t \<Rightarrow>
           mseq (on_proc p (\<lambda>x. x\<lparr>pr_scheduled := None\<rparr>)) (c_tasks F c p (MkTasks [t] [] [])))"

definition run_tasks :: "full_env \<Rightarrow> callees \<Rightarrow> nat \<Rightarrow> nat \<Rightarrow> action tasks \<Rightarrow> go_error option m" where
  "run_tasks e F c p node =
     mbind (tasks_loop e F c p node (tn_tasks node)) (\<lambda>err.
     mbind (if err \<noteq> None then mret err else run_scheduled F c p) (\<lambda>err.
     mbind (run_deferred_task e F c p node) (\<lambda>e2.
       mret (if err = None then e2 else err))))"

section \<open>Workflows\<close>

definition enable_logging :: "full_env \<Rightarrow> nat \<Rightarrow> run_request \<Rightarrow> unit m" where
  "enable_logging e c r =
     mbind mget_world (\<lambda>w.
       let x = wd_ctxs w c
       in if rq_enable_logging r \<and> \<not> cx_has_logger x then
            on_ctx c (\<lambda>x. x\<lparr>cx_loggers :=
              en_join e (rq_log_directory r) (if rq_log_subdir r \<noteq> [] then rq_log_subdir r else cx_session x)
              # cx_loggers x\<rparr>)
          else mret ())"

definition registered_workflow :: "string \<Rightarrow> (string \<times> action workflow) list \<Rightarrow> go_error + action workflow" where
  "registered_workflow name reg =
     (case mget reg name of
        Some x \<Rightarrow> Inr x
      | None \<Rightarrow> Inl (PlainErr (''failed to lookup workflow: '' @ name)))"

definition has_workflow :: "string \<Rightarrow> (string \<times> action workflow) list \<Rightarrow> bool" where
  "has_workflow name reg = mhas reg name"

definition register_workflow ::
  "action workflow \<Rightarrow> (string \<times> action workflow) list \<Rightarrow> go_error + (string \<times> action workflow) list" where
  "register_workflow x reg =
     (case validate_workflow x of
        Some err \<Rightarrow> Inl err
      | None \<Rightarrow> Inr (mput (n_name (w_node x)) x reg))"

definition get_workflow :: "full_env \<Rightarrow> nat \<Rightarrow> run_request \<Rightarrow> (go_error + action workflow) m" where
  "get_workflow e c r =
     (case rq_workflow r of
        Some x \<Rightarrow> mseq (publish c (EvLoaded (n_name (w_node x)))) (mret (Inr x))
      | None \<Rightarrow>
          mbind mget_world (\<lambda>w.
            case registered_workflow (rq_name r) (wd_registry w) of
              Inl err \<Rightarrow> mret (Inl err)
            | Inr x \<Rightarrow> mseq (publish c (EvLoaded (n_name (w_node x)))) (mret (Inr x))))"

fun expand_params :: "toolbox \<Rightarrow> heap \<Rightarrow> nat \<Rightarrow> smap \<Rightarrow> smap" where
  "expand_params tb h state [] = []"
| "expand_params tb h state ((k, v) # kvs) = mput k (expand tb h state v) (expand_params tb h state kvs)"

fun put_all_state :: "full_env \<Rightarrow> nat \<Rightarrow> smap \<Rightarrow> unit m" where
  "put_all_state e state [] = mret ()"
| "put_all_state e state ((k, v) # kvs) = mseq (put_state e state k v) (put_all_state e state kvs)"

definition publish_parameters :: "full_env \<Rightarrow> nat \<Rightarrow> run_request \<Rightarrow> nat m" where
  "publish_parameters e c r =
     mbind (get_state e c) (\<lambda>state.
     mbind mget_world (\<lambda>w.
     let params = expand_params (en_tb e) (wd_heap w) state (rq_params r)
     in mbind (new_map params) (\<lambda>a.
        mseq (if rq_publish_parameters r then put_all_state e state params else mret ())
          (mseq (put_state e state ''params'' (VRef a)) (mret a)))))"

text \<open>
  The selected tasks must exist. When one does not, and the tasks are those of the workflow
  upstream, all tasks run.
\<close>

fun check_tasks :: "action tasks \<Rightarrow> bool \<Rightarrow> string list \<Rightarrow> string \<Rightarrow> (string, string) sum" where
  "check_tasks node inherited [] selector = Inr selector"
| "check_tasks node inherited (t # ts) selector =
     (if has_task t node then check_tasks node inherited ts selector
      else if inherited then check_tasks node inherited ts ''*''
      else Inl t)"

definition parent_names :: "(nat \<Rightarrow> process) \<Rightarrow> nat option \<Rightarrow> string \<times> string" where
  "parent_names procs q =
     (case q of
        None \<Rightarrow> ([], [])
      | Some p \<Rightarrow>
          (case pr_workflow (procs p) of
             None \<Rightarrow> ([], [])
           | Some x \<Rightarrow> (n_name (w_node x), source_url (procs p))))"

definition add_process :: "process \<Rightarrow> nat m" where
  "add_process x w = Inr (wd_nproc w, w\<lparr>wd_procs := (wd_procs w)(wd_nproc w := x), wd_nproc := Suc (wd_nproc w)\<rparr>)"

definition with_process :: "nat \<Rightarrow> nat \<Rightarrow> 'a m \<Rightarrow> 'a m" where
  "with_process c p m = mseq (push_process c p) (mbind m (\<lambda>x. mseq (pop_process c) (mret x)))"

definition with_workflow_events ::
  "nat \<Rightarrow> string \<Rightarrow> string \<Rightarrow> string \<times> string \<Rightarrow> string \<Rightarrow> string \<Rightarrow> go_error option m \<Rightarrow> go_error option m" where
  "with_workflow_events c name owner parent tasks tags m =
     mbind mget_world (\<lambda>w.
     let session = cx_session (wd_ctxs w c)
     in mbind (publish c (EvWorkflowStart name owner (fst parent) (snd parent) session tasks tags)) (\<lambda>start.
        mbind m (\<lambda>err.
          mseq (publish_with_start c
                 (EvWorkflowEnd name owner (fst parent) (snd parent) session (status_of err) (error_message err)) start)
            (mret err))))"

text \<open>The tasks of a workflow, once its process, its state and its context are set up.\<close>

definition workflow_tasks_body ::
  "full_env \<Rightarrow> callees \<Rightarrow> nat \<Rightarrow> nat \<Rightarrow> action workflow \<Rightarrow> run_request \<Rightarrow> nat \<Rightarrow> nat \<Rightarrow> nat
     \<Rightarrow> value \<times> bool \<Rightarrow> go_error option m" where
  "workflow_tasks_body e F c p x r upstream state data upstream_tasks =
     (let inherited = snd upstream_tasks \<and> rq_tasks r = as_string (en_tb e) (fst upstream_tasks);
          checked = (if run_all (rq_tasks r) then Inr (rq_tasks r)
                     else check_tasks (w_tasks x) inherited (selected_tasks (rq_tasks r)) (rq_tasks r))
      in case checked of
           Inl t \<Rightarrow> mret (Some (PlainErr (''failed to lookup task: '' @ n_name (w_node x) @ '' . '' @ t)))
         | Inr selector \<Rightarrow>
             mbind (run_node e c ''workflow'' p (w_node x)
                (mbind (run_tasks e F c p (select_tasks selector (w_tasks x))) (\<lambda>err.
                   mret (Some state, Some data, err)))) (\<lambda>err.
             mbind mget_world (\<lambda>w.
             mseq (put_all_state e upstream (cell (wd_heap w) data)) (mret err))))"

definition workflow_state_body ::
  "full_env \<Rightarrow> callees \<Rightarrow> nat \<Rightarrow> nat \<Rightarrow> action workflow \<Rightarrow> run_request \<Rightarrow> nat \<Rightarrow> nat \<Rightarrow> nat
     \<Rightarrow> nat \<Rightarrow> go_error option m" where
  "workflow_state_body e F c p x r upstream state data pstate =
     mbind (publish_parameters e c r) (\<lambda>params.
     mseq (put_state e pstate ''params'' (VRef params))
     (mseq (if w_data x = [] then mret ()
            else mseq (put_state e state ''data'' (VMap (w_data x))) (put_state e pstate ''data'' (VMap (w_data x))))
     (mbind mget_world (\<lambda>w.
      let upstream_tasks = get_value (en_tb e) (wd_heap w) state ''tasks''
      in case w_source x of
           None \<Rightarrow> mcrash ''nil pointer dereference''
         | Some source \<Rightarrow>
             (case publish_values (en_tb e) state
                [(''ownerURL'', VStr source), (''tasks'', VStr (rq_tasks r))] [] (wd_heap w) of
                (backup, h) \<Rightarrow>
                  mseq (on_heap (\<lambda>_. h))
                  (mseq (publish c (EvInit (rq_tasks r) (encodable_map (en_io e) h state)))
                  (mbind (workflow_tasks_body e F c p x r upstream state data upstream_tasks) (\<lambda>err.
                   mseq (on_heap (restore_values (en_tb e) state backup)) (mret err)))))))))"

text \<open>The state entries \<open>self\<close> and the state key, which are put back when the workflow ends.\<close>

definition workflow_body ::
  "full_env \<Rightarrow> callees \<Rightarrow> nat \<Rightarrow> nat \<Rightarrow> action workflow \<Rightarrow> run_request \<Rightarrow> nat \<Rightarrow> go_error option m" where
  "workflow_body e F up p x r data =
     mbind (new_map []) (\<lambda>pstate.
     mseq (on_proc p (\<lambda>y. y\<lparr>pr_state := Some pstate\<rparr>))
     (mbind (get_state e up) (\<lambda>upstream.
      mseq (if rq_state_key r = [] then mret () else put_state e upstream (rq_state_key r) (VRef pstate))
      (mbind (if rq_shared_state r then mret up else clone_ctx (en_tb e) (en_defaults e) up) (\<lambda>c.
       mbind (get_state e c) (\<lambda>state.
       mseq (if rq_shared_state r then mret () else on_heap (tb_delete (en_tb e) state ''self''))
       (mbind mget_world (\<lambda>w.
        let orig_self = tb_get (en_tb e) (wd_heap w) upstream ''self''
        in mseq (put_state e state ''self'' (VRef pstate))
           (mbind (workflow_state_body e F c p x r upstream state data pstate) (\<lambda>err.
            mseq (if orig_self = VNil then mret () else put_state e state ''self'' orig_self)
            (mseq (if rq_state_key r = [] then mret ()
                   else on_heap (tb_delete (en_tb e) upstream (rq_state_key r)))
              (mret err))))))))))))"

definition run_workflow :: "full_env \<Rightarrow> callees \<Rightarrow> nat \<Rightarrow> run_request \<Rightarrow> (go_error + response) m" where
  "run_workflow e F c r =
     mbind (new_map []) (\<lambda>data.
     mseq (enable_logging e c r)
     (mbind (get_workflow e c r) (\<lambda>found.
      case found of
        Inl err \<Rightarrow> mret (Inl err)
      | Inr x \<Rightarrow>
          mbind last_workflow (\<lambda>parent.
          mbind mget_world (\<lambda>w.
          mbind (with_workflow_events c (n_name (w_node x)) (case w_source x of None \<Rightarrow> [] | Some u \<Rightarrow> u)
                   (parent_names (wd_procs w) parent) (rq_tasks r) (rq_tag_ids r)
                   (mbind last_process (\<lambda>upstream.
                    mbind mget_world (\<lambda>w.
                    mbind (add_process (add_tag_ids (split_on '','' (rq_tag_ids r))
                             (new_process (en_urls e) (w_source x) (Some x) (map_option (wd_procs w) upstream)))) (\<lambda>p.
                    with_process c p (workflow_body e F c p x r data)))))) (\<lambda>err.
          mret (case err of None \<Rightarrow> Inr (RsRun (Some data)) | Some y \<Rightarrow> Inl y)))))))"

section \<open>Handlers of the workflow service\<close>

definition handle_run :: "full_env \<Rightarrow> callees \<Rightarrow> nat \<Rightarrow> run_request \<Rightarrow> (go_error + response) m" where
  "handle_run e F c r =
     (if rq_async r then
        mseq (mupdate (\<lambda>w. w\<lparr>wd_background := wd_background w @ [(c, r)]\<rparr>)) (mret (Inr (RsRun None)))
      else
        mbind mget_world (\<lambda>w.
        mbind (run_workflow e F c r) (\<lambda>res.
        mseq (publish c (EvEnd (cx_session (wd_ctxs w c)))) (mret res))))"

definition handle_register :: "action workflow \<Rightarrow> (go_error + response) m" where
  "handle_register x =
     mbind mget_world (\<lambda>w.
       case register_workflow x (wd_registry w) of
         Inl err \<Rightarrow> mret (Inl err)
       | Inr reg \<Rightarrow> mseq (mupdate (\<lambda>w. w\<lparr>wd_registry := reg\<rparr>)) (mret (Inr (RsVal
           (VStruct ''RegisterResponse'' [(''Source'', case w_source x of None \<Rightarrow> VNil | Some u \<Rightarrow> VStr u)])))))"

definition handle_exit :: "(go_error + response) m" where
  "handle_exit =
     mbind last_process (\<lambda>q.
       mseq (case q of None \<Rightarrow> mret () | Some p \<Rightarrow> on_proc p terminate)
         (mret (Inr (RsVal (VStruct ''ExitResponse'' [])))))"

definition handle_goto :: "string \<Rightarrow> (go_error + response) m" where
  "handle_goto name =
     mbind last_process (\<lambda>q.
       case q of
         None \<Rightarrow> mret (Inl (PlainErr ''no active workflow''))
       | Some p \<Rightarrow>
           mbind mget_world (\<lambda>w.
             case pr_workflow (wd_procs w p) of
               None \<Rightarrow> mcrash ''nil pointer dereference''
             | Some x \<Rightarrow>
                 (case find_task name (w_tasks x) of
                    Inl err \<Rightarrow> mret (Inl err)
                  | Inr t \<Rightarrow> mseq (on_proc p (\<lambda>y. y\<lparr>pr_scheduled := Some t\<rparr>)) (mret (Inr (RsVal VNil))))))"

definition service_activity :: "(nat option) m" where
  "service_activity =
     mbind last_process (\<lambda>q. mbind mget_world (\<lambda>w.
       mret (case q of None \<Rightarrow> None | Some p \<Rightarrow> as_current (pr_activities (wd_procs w p)))))"

definition service_action :: "service_request \<Rightarrow> action m" where
  "service_action q =
     mbind service_activity (\<lambda>cur. mbind mget_world (\<lambda>w.
       let act = request_action q
       in mret (case cur of
            None \<Rightarrow> act
          | Some i \<Rightarrow>
              (let a = wd_acts w i
               in act\<lparr>a_meta := ay_meta a,
                      a_node := (a_node act)\<lparr>n_name := ay_action a,
                        n_description := (if n_description (a_node act) = [] then ay_description a
                                          else n_description (a_node act))\<rparr>\<rparr>))))"

definition switch_source :: "full_env \<Rightarrow> nat \<Rightarrow> string \<Rightarrow> value m" where
  "switch_source e c key =
     mbind (ctx_expand (en_tb e) (en_defaults e) c key) (\<lambda>k.
     mbind (get_state e c) (\<lambda>state.
     mbind mget_world (\<lambda>w. mret (tb_get (en_tb e) (wd_heap w) state k))))"

definition handle_switch :: "full_env \<Rightarrow> callees \<Rightarrow> nat \<Rightarrow> switch_request \<Rightarrow> (go_error + response) m" where
  "handle_switch e F c r =
     mbind last_workflow (\<lambda>q.
       case q of
         None \<Rightarrow> mret (Inl (PlainErr ''no active workflow''))
       | Some p \<Rightarrow>
           mbind (switch_source e c (sw_source_key r)) (\<lambda>source.
             case switch_match (en_tb e) r source of
               None \<Rightarrow> mret (Inr (RsVal VNil))
             | Some m \<Rightarrow>
                 if sc_task m \<noteq> [] then
                   mbind mget_world (\<lambda>w.
                     case pr_workflow (wd_procs w p) of
                       None \<Rightarrow> mcrash ''nil pointer dereference''
                     | Some x \<Rightarrow>
                         (case find_task (sc_task m) (w_tasks x) of
                            Inl err \<Rightarrow> mret (Inl err)
                          | Inr t \<Rightarrow>
                              mbind (run_task e F c p t) (\<lambda>(result, err).
                                mret (case err of None \<Rightarrow> Inr (RsVal (VRef result)) | Some y \<Rightarrow> Inl y))))
                 else
                   (case sc_request m of
                      None \<Rightarrow> mcrash ''nil pointer dereference''
                    | Some q \<Rightarrow>
                        mbind (service_action q) (\<lambda>act.
                        mbind (run_action e F c act p) (\<lambda>(result, err).
                          mret (case err of None \<Rightarrow> Inr (RsVal (state_value result)) | Some y \<Rightarrow> Inl y))))))"

definition handle_fail :: "full_env \<Rightarrow> string \<Rightarrow> (go_error + response) m" where
  "handle_fail e msg =
     mret (Inl (PlainErr (if contains msg [CHR ''%''] then en_errorf e msg else msg)))"

definition handle_print :: "nat \<Rightarrow> string \<Rightarrow> string \<Rightarrow> (go_error + response) m" where
  "handle_print c msg err =
     mbind mget_world (\<lambda>w.
       mseq (if cx_cli (wd_ctxs w c) then mret ()
             else mupdate (\<lambda>w. w\<lparr>wd_printed := wd_printed w @
               (if msg \<noteq> [] then [msg] else []) @ (if err \<noteq> [] then [err] else [])\<rparr>))
         (mret (Inr (RsVal (VStruct ''struct {}'' [])))))"

text \<open>
  \<open>setEnv\<close> reports, for every entry \<open>KEY=value\<close> of the environment, the variable of that
  whole name, which does not exist. A name that is empty or has a \<open>=\<close> cannot be set; the ones
  before it are.
\<close>

fun set_env_each :: "(string \<times> string) list \<Rightarrow> (string \<times> string) list \<Rightarrow> (string \<times> string) list \<times> go_error option" where
  "set_env_each [] env = (env, None)"
| "set_env_each ((k, v) # kvs) env =
     (if k = [] \<or> contains k ''='' then (env, Some (PlainErr ''setenv: invalid argument''))
      else set_env_each kvs (mput k v env))"

definition env_response :: "(string \<times> string) list \<Rightarrow> smap" where
  "env_response env = map (\<lambda>(k, v). (k @ ''='' @ v, VStr [])) env"

definition handle_set_env :: "(string \<times> string) list \<Rightarrow> (go_error + response) m" where
  "handle_set_env kvs =
     mbind mget_world (\<lambda>w.
       case set_env_each kvs (wd_env w) of
         (env, err) \<Rightarrow>
           mseq (mupdate (\<lambda>w. w\<lparr>wd_env := env\<rparr>))
             (mret (case err of
                None \<Rightarrow> Inr (RsVal (VStruct ''SetEnvResponse'' [(''Env'', VMap (env_response (wd_env w)))]))
              | Some x \<Rightarrow> Inl x)))"

definition handle_other ::
  "full_env \<Rightarrow> nat \<Rightarrow> string \<Rightarrow> string \<Rightarrow> value \<Rightarrow> (go_error + response) m" where
  "handle_other e c service act req =
     mbind (get_state e c) (\<lambda>state.
     mbind mget_world (\<lambda>w.
       case en_handler e service act req state (wd_heap w) of
         (r, h) \<Rightarrow>
           mseq (on_heap (\<lambda>_. h))
             (mbind (mlift r) (\<lambda>r. mret (case r of Inl err \<Rightarrow> Inl err | Inr v \<Rightarrow> Inr (RsVal v))))))"

section \<open>Services\<close>

definition response_value :: "response \<Rightarrow> value" where
  "response_value r =
     (case r of RsRun d \<Rightarrow> VStruct ''RunResponse'' [(''Data'', state_value d)] | RsVal v \<Rightarrow> v)"

text \<open>
  \<open>AbstractService.Run\<close>: start event, initialisation and validation of the request, handler,
  end event. Errors get the path; the innermost one is published.
\<close>

definition init_failed :: "string \<Rightarrow> go_error \<Rightarrow> go_error" where
  "init_failed ty err =
     (if is_panic err then err else PlainErr (''init '' @ ty @ '' failed: '' @ error_text err))"

definition validation_failed :: "string \<Rightarrow> go_error \<Rightarrow> go_error" where
  "validation_failed ty err =
     (if is_panic err then err else PlainErr (''validation '' @ ty @ '' failed: '' @ error_text err))"

definition checked_request :: "string \<Rightarrow> go_error + 'q \<Rightarrow> ('q \<Rightarrow> go_error option) \<Rightarrow> go_error + 'q" where
  "checked_request ty init validate =
     (case init of
        Inl err \<Rightarrow> Inl (init_failed ty err)
      | Inr q \<Rightarrow> (case validate q of None \<Rightarrow> Inr q | Some err \<Rightarrow> Inl (validation_failed ty err)))"

definition with_service_events :: "nat \<Rightarrow> string \<Rightarrow> string \<Rightarrow> (go_error + response) m \<Rightarrow> (go_error + response) m" where
  "with_service_events c sid act m =
     mbind (publish c (EvRequest sid act)) (\<lambda>start.
     mbind m (\<lambda>r.
       mseq (publish_with_start c (EvResponse (case r of Inl _ \<Rightarrow> VNil | Inr x \<Rightarrow> response_value x)) start)
         (mret r)))"

definition service_run ::
  "nat \<Rightarrow> string \<Rightarrow> string \<Rightarrow> go_error + 'q \<Rightarrow> ('q \<Rightarrow> (go_error + response) m) \<Rightarrow> (go_error + response) m" where
  "service_run c sid act prepared handler =
     with_service_events c sid act
       (mbind (mlift prepared) (\<lambda>prepared.
         case prepared of
           Inl err \<Rightarrow> mret (Inl (new_error sid act err))
         | Inr q \<Rightarrow>
             mbind (handler q) (\<lambda>r.
               case r of
                 Inr x \<Rightarrow> mret (Inr x)
               | Inl err \<Rightarrow>
                   mseq (if is_path_error err then mret ()
                         else mseq (publish c (EvError (error_text (new_error sid act err)))) (mret ()))
                     (mret (Inl (new_error sid act err))))))"

text \<open>\<open>endly.Run\<close>: the service of the request and the route of its type.\<close>

definition dispatch :: "full_env \<Rightarrow> callees \<Rightarrow> nat \<Rightarrow> request \<Rightarrow> (go_error + response) m" where
  "dispatch e F c req =
     (case req of
        RqRun r \<Rightarrow> service_run c ''workflow'' ''run''
          (checked_request ''*workflow.RunRequest'' (init_run_request (en_tb e) (en_io e) (en_urls e) (en_build e) r) validate_run_request)
          (handle_run e F c)
      | RqRegister x \<Rightarrow> service_run c ''workflow'' ''register''
          (checked_request ''*workflow.RegisterRequest'' (init_workflow x) validate_workflow) handle_register
      | RqSwitch r \<Rightarrow> service_run c ''workflow'' ''switch''
          (checked_request ''*workflow.SwitchRequest'' (Inr r) validate_switch) (handle_switch e F c)
      | RqGoto t \<Rightarrow> service_run c ''workflow'' ''goto'' (Inr t) handle_goto
      | RqExit \<Rightarrow> service_run c ''workflow'' ''exit'' (Inr ()) (\<lambda>_. handle_exit)
      | RqFail msg \<Rightarrow> service_run c ''workflow'' ''fail'' (Inr msg) (handle_fail e)
      | RqNop \<Rightarrow> service_run c ''workflow'' ''nop'' (Inr ()) (\<lambda>_. mret (Inr (RsVal (VStruct ''NopRequest'' []))))
      | RqPrint msg err \<Rightarrow> service_run c ''workflow'' ''print'' (Inr ()) (\<lambda>_. handle_print c msg err)
      | RqSetEnv kvs \<Rightarrow> service_run c ''workflow'' ''setEnv'' (Inr kvs) handle_set_env
      | RqOther service act v \<Rightarrow> service_run c service act (Inr v) (handle_other e c service act))"

section \<open>The engine\<close>

definition no_callees :: callees where
  "no_callees = \<lparr>c_run = (\<lambda>c req. mout), c_tasks = (\<lambda>c p node. mout)\<rparr>"

primrec engine :: "full_env \<Rightarrow> nat \<Rightarrow> callees" where
  "engine e 0 = no_callees"
| "engine e (Suc n) = \<lparr>c_run = dispatch e (engine e n), c_tasks = run_tasks e (engine e n)\<rparr>"

definition endly_run :: "full_env \<Rightarrow> nat \<Rightarrow> nat \<Rightarrow> request \<Rightarrow> (go_error + response) m" where
  "endly_run e n c req = c_run (engine e n) c req"

text \<open>The goroutines of asynchronous runs, once the session waits for them.\<close>

fun run_background :: "full_env \<Rightarrow> nat \<Rightarrow> (nat \<times> run_request) list \<Rightarrow> unit m" where
  "run_background e n [] = mret ()"
| "run_background e n ((c, r) # rest) =
     mbind mget_world (\<lambda>w.
     mbind (run_workflow e (engine e n) c r) (\<lambda>res.
     mseq (case res of Inl err \<Rightarrow> mseq (publish c (EvError (error_text err))) (mret ()) | Inr _ \<Rightarrow> mret ())
       (mseq (publish c (EvEnd (cx_session (wd_ctxs w c)))) (run_background e n rest))))"

definition session_wait :: "full_env \<Rightarrow> nat \<Rightarrow> unit m" where
  "session_wait e n =
     mbind mget_world (\<lambda>w. mseq (mupdate (\<lambda>w. w\<lparr>wd_background := []\<rparr>)) (run_background e n (wd_background w)))"

end
