(* ===== verification/Engine_Invariants.thy ===== *)
theory Engine_Invariants
  imports Engine
begin

text \<open>
  What the engine keeps, whatever it runs. The locale \<open>world_relation\<close> is the interface: a
  relation between the world before and after, which every elementary step keeps and which
  is restored by every bracketing of the engine (events, logging flag, process, activity).
  It is proved once, by the structure of the engine, that such a relation holds between
  the worlds before and after every operation; the interpretations are at the end.
\<close>

section \<open>Views\<close>

fun plain :: "event \<Rightarrow> bool" where
  "plain (EvTaskStart _ _ _ _ _) = False"
| "plain (EvTaskEnd _ _ _ _ _ _) = False"
| "plain (EvWorkflowStart _ _ _ _ _ _ _) = False"
| "plain (EvWorkflowEnd _ _ _ _ _ _ _) = False"
| "plain (EvActivity _) = False"
| "plain (EvActivityEnd _) = False"
| "plain (EvRequest _ _) = False"
| "plain (EvResponse _) = False"
| "plain _ = True"

inductive matching :: "event \<Rightarrow> event \<Rightarrow> bool" where
  match_task: "matching (EvTaskStart a b n s tag) (EvTaskEnd a b n s st err)"
| match_workflow: "matching (EvWorkflowStart n a b c s ts tags) (EvWorkflowEnd n a b c s st err)"
| match_activity: "matching (EvActivity a) (EvActivityEnd a)"
| match_service: "matching (EvRequest sid act) (EvResponse v)"

inductive_cases matching_taskE: "matching (EvTaskStart a b n s tag) y"
inductive_simps matching_activity_simps: "matching (EvActivity a) y"

text \<open>The logs of the goroutines that wait in a group, and in any group.\<close>

definition group_logs :: "world \<Rightarrow> nat \<Rightarrow> nat set" where
  "group_logs w g = (\<lambda>(d, l, a). l) ` set (gr_waiting (wd_groups w g))"

definition waiting_logs :: "world \<Rightarrow> nat set" where
  "waiting_logs w = (\<Union>g. group_logs w g)"

definition groups_sub :: "world \<Rightarrow> world \<Rightarrow> bool" where
  "groups_sub w' w \<longleftrightarrow> (\<forall>g. set (gr_waiting (wd_groups w' g)) \<subseteq> set (gr_waiting (wd_groups w g)))"

text \<open>Contexts and logs are only added, and a context keeps its listener.\<close>

definition steady :: "world \<Rightarrow> world \<Rightarrow> bool" where
  "steady w w' \<longleftrightarrow> wd_nctx w \<le> wd_nctx w' \<and> wd_nlog w \<le> wd_nlog w' \<and>
     (\<forall>c<wd_nctx w. cx_listener (wd_ctxs w' c) = cx_listener (wd_ctxs w c))"

text \<open>Nothing that the relations look at has changed.\<close>

definition same_view :: "world \<Rightarrow> world \<Rightarrow> bool" where
  "same_view w w' \<longleftrightarrow> steady w w' \<and> wd_stack w' = wd_stack w \<and> wd_nproc w \<le> wd_nproc w' \<and>
     (\<forall>l<wd_nlog w. wd_logs w' l = wd_logs w l) \<and>
     (\<forall>c<wd_nctx w. cx_logging (wd_ctxs w' c) = cx_logging (wd_ctxs w c)) \<and>
     (\<forall>p<wd_nproc w. pr_activities (wd_procs w' p) = pr_activities (wd_procs w p) \<and>
        (pr_terminated (wd_procs w p) \<longrightarrow> pr_terminated (wd_procs w' p)))"

definition silent :: "'a m \<Rightarrow> bool" where
  "silent m \<longleftrightarrow> (\<forall>w x w'. m w = Inr (x, w') \<longrightarrow> same_view w w' \<and> groups_sub w' w)"

lemma steady_refl [simp]: "steady w w"
  by (simp add: steady_def)

lemma steady_trans: "steady w1 w2 \<Longrightarrow> steady w2 w3 \<Longrightarrow> steady w1 w3"
  by (auto simp: steady_def)

lemma same_view_refl [simp]: "same_view w w"
  by (simp add: same_view_def)

lemma same_view_trans: "same_view w1 w2 \<Longrightarrow> same_view w2 w3 \<Longrightarrow> same_view w1 w3"
  by (auto simp: same_view_def steady_def)

named_theorems silent_intros \<open>operations that change nothing a relation looks at\<close>

lemma groups_sub_refl [simp]: "groups_sub w w"
  by (simp add: groups_sub_def)

lemma groups_sub_trans: "groups_sub w3 w2 \<Longrightarrow> groups_sub w2 w1 \<Longrightarrow> groups_sub w3 w1"
  unfolding groups_sub_def by blast

lemma silent_mret [silent_intros]: "silent (mret x)"
  and silent_get [silent_intros]: "silent mget_world"
  and silent_crash [silent_intros]: "silent (mcrash s)"
  by (simp_all add: silent_def mget_world_def mcrash_def)

lemma silent_bind [silent_intros]: "silent m \<Longrightarrow> (\<And>x. silent (f x)) \<Longrightarrow> silent (mbind m f)"
  unfolding silent_def mbind_Inr by (metis same_view_trans groups_sub_trans)

lemma silent_seq [silent_intros]: "silent m \<Longrightarrow> silent n \<Longrightarrow> silent (mseq m n)"
  by (simp add: mseq_def silent_bind)

lemma silent_update: "(\<And>w. same_view w (f w) \<and> groups_sub (f w) w) \<Longrightarrow> silent (mupdate f)"
  by (simp add: silent_def)

lemma silent_heap [silent_intros]: "silent (on_heap f)"
  unfolding on_heap_def by (rule silent_update) (simp add: same_view_def steady_def groups_sub_def)

lemma silent_new_map [silent_intros]: "silent (new_map m)"
  by (auto simp: silent_def new_map_def alloc_def same_view_def steady_def groups_sub_def)

lemma silent_on_ctx [silent_intros]:
  "(\<And>x. cx_logging (f x) = cx_logging x \<and> cx_listener (f x) = cx_listener x) \<Longrightarrow> silent (on_ctx c f)"
  unfolding on_ctx_def by (rule silent_update) (simp add: same_view_def steady_def groups_sub_def)

lemma silent_on_proc [silent_intros]:
  "(\<And>x. pr_activities (f x) = pr_activities x \<and> (pr_terminated x \<longrightarrow> pr_terminated (f x))) \<Longrightarrow> silent (on_proc p f)"
  unfolding on_proc_def by (rule silent_update) (simp add: same_view_def steady_def groups_sub_def)

lemma silent_on_act [silent_intros]: "silent (on_act a f)"
  unfolding on_act_def by (rule silent_update) (simp add: same_view_def steady_def groups_sub_def)

lemma silent_lift [silent_intros]: "silent (mlift r)" "silent (mcheck x)"
  by (auto simp: mlift_def mcheck_def silent_mret silent_crash split: sum.splits option.splits go_error.splits)

lemma silent_ctx_state [silent_intros]: "silent (ctx_state d c)"
proof -
  have "silent (mbind (new_map d) (\<lambda>a. mseq (on_ctx c (\<lambda>x. x\<lparr>cx_state := Some a\<rparr>)) (mret a)))"
    by (intro silent_intros) simp
  then show ?thesis by (auto simp: silent_def ctx_state_def split: option.splits)
qed

lemma silent_state [silent_intros]:
  "silent (get_state e c)" "silent (put_state e a k v)" "silent (apply_vars e vs i out_ref)"
  by (auto simp: get_state_def put_state_def apply_vars_def intro!: silent_intros split: prod.splits)

lemma silent_misc [silent_intros]:
  "silent take_schedule" "silent new_group" "silent last_process" "silent last_workflow"
  "silent (mupdate (\<lambda>w. w\<lparr>wd_background := f1 w\<rparr>))" "silent (mupdate (\<lambda>w. w\<lparr>wd_registry := f2 w\<rparr>))"
  "silent (mupdate (\<lambda>w. w\<lparr>wd_printed := f3 w\<rparr>))" "silent (mupdate (\<lambda>w. w\<lparr>wd_env := f4 w\<rparr>))"
  "silent (add_process x)"
  "silent (mupdate (\<lambda>w. w\<lparr>wd_heap := f5 w, wd_acts := f6 w, wd_nact := f7 w\<rparr>))"
  by (auto simp: silent_def take_schedule_def new_group_def last_process_def last_workflow_def add_process_def
      same_view_def steady_def groups_sub_def split: list.splits if_splits)

section \<open>Relations between worlds\<close>

definition push_act :: "nat \<Rightarrow> nat \<Rightarrow> world \<Rightarrow> world" where
  "push_act p a w = w\<lparr>wd_procs := (wd_procs w)(p := (wd_procs w p)\<lparr>pr_activities :=
     activities_push a (pr_activities (wd_procs w p))\<rparr>)\<rparr>"

definition pop_act :: "nat \<Rightarrow> world \<Rightarrow> world" where
  "pop_act p w = w\<lparr>wd_procs := (wd_procs w)(p := (wd_procs w p)\<lparr>pr_activities :=
     snd (activities_pop (pr_activities (wd_procs w p)))\<rparr>)\<rparr>"

definition log_flag :: "nat \<Rightarrow> bool option \<Rightarrow> world \<Rightarrow> world" where
  "log_flag c lg w = w\<lparr>wd_ctxs := (wd_ctxs w)(c := (wd_ctxs w c)\<lparr>cx_logging := lg\<rparr>)\<rparr>"

text \<open>
  \<open>G w l\<close> says that the events of log \<open>l\<close> may be published once more; it depends on the log
  only.
\<close>

locale world_relation =
  fixes R :: "world \<Rightarrow> world \<Rightarrow> bool"
    and G :: "world \<Rightarrow> nat \<Rightarrow> bool"
  assumes R_trans: "R w1 w2 \<Longrightarrow> R w2 w3 \<Longrightarrow> R w1 w3"
    and R_same: "same_view w w' \<Longrightarrow> R w w'"
    and G_new: "wd_logs w l = [] \<Longrightarrow> G w l"
    and G_logs: "wd_logs w' l = wd_logs w l \<Longrightarrow> G w l \<Longrightarrow> G w' l"
    and G_step: "R w w' \<Longrightarrow> l < wd_nlog w \<Longrightarrow> G w l \<Longrightarrow> G w' l"
    and R_plain: "plain (pb_event x) \<Longrightarrow> R w (append_log l x w)"
    and R_republish: "G w l \<Longrightarrow> map pb_event xs = map pb_event (wd_logs w l) \<Longrightarrow>
          R w (fold (append_log k) xs w)"
    and R_events: "matching (pb_event x) (pb_event y) \<Longrightarrow> R (append_log l x w) w' \<Longrightarrow> R w (append_log l y w')"
    and R_logging: "R (log_flag c lg w) w' \<Longrightarrow> R w (log_flag c (cx_logging (wd_ctxs w c)) w')"
    and R_process: "R (w\<lparr>wd_stack := processes_push p (wd_stack w)\<rparr>) w' \<Longrightarrow>
          R w (w'\<lparr>wd_stack := snd (processes_pop (wd_stack w'))\<rparr>)"
    and R_activity: "R (push_act p a w) w' \<Longrightarrow> R w (pop_act p w')"
    and R_activity_events: "pb_event x = EvActivity b \<Longrightarrow> pb_event y = EvActivityEnd b \<Longrightarrow>
          R (append_log l x (push_act p a w)) w' \<Longrightarrow> R w (append_log l y (pop_act p w'))"
begin

text \<open>The goroutines that wait have a context of their own, whose listener is their log.\<close>

definition valid :: "world \<Rightarrow> bool" where
  "valid w \<longleftrightarrow>
     (\<forall>g d l a. (d, l, a) \<in> set (gr_waiting (wd_groups w g)) \<longrightarrow>
        d < wd_nctx w \<and> l < wd_nlog w \<and> G w l \<and> cx_listener (wd_ctxs w d) = Some l) \<and>
     (\<forall>g g'. g \<noteq> g' \<longrightarrow> group_logs w g \<inter> group_logs w g' = {})"

definition has_all :: "nat set \<Rightarrow> world \<Rightarrow> bool" where
  "has_all C w \<longleftrightarrow> valid w \<and>
     (\<forall>c\<in>C. c < wd_nctx w \<and>
        (\<forall>k. cx_listener (wd_ctxs w c) = Some k \<longrightarrow> k < wd_nlog w \<and> k \<notin> waiting_logs w))"

definition progress :: "world \<Rightarrow> world \<Rightarrow> bool" where
  "progress w w' \<longleftrightarrow> valid w' \<and> steady w w' \<and> R w w' \<and> waiting_logs w' \<subseteq> waiting_logs w \<union> {wd_nlog w..}"

definition keeps :: "nat set \<Rightarrow> 'a m \<Rightarrow> bool" where
  "keeps C m \<longleftrightarrow> (\<forall>w x w'. has_all C w \<longrightarrow> m w = Inr (x, w') \<longrightarrow> progress w w')"

lemma R_refl: "R w w"
  by (rule R_same) simp

lemma waiting_logs_sub: "groups_sub w' w \<Longrightarrow> group_logs w' g \<subseteq> group_logs w g \<and> waiting_logs w' \<subseteq> waiting_logs w"
  unfolding groups_sub_def waiting_logs_def group_logs_def by blast

lemma valid_less: "valid w \<Longrightarrow> l \<in> waiting_logs w \<Longrightarrow> l < wd_nlog w \<and> G w l"
  unfolding valid_def waiting_logs_def group_logs_def by auto

lemma valid_step:
  assumes "valid w" "steady w w'" "groups_sub w' w"
    and "\<And>l. l \<in> waiting_logs w \<Longrightarrow> G w l \<Longrightarrow> G w' l"
  shows "valid w'"
proof -
  have "d < wd_nctx w' \<and> l < wd_nlog w' \<and> G w' l \<and> cx_listener (wd_ctxs w' d) = Some l"
    if "(d, l, a) \<in> set (gr_waiting (wd_groups w' g))" for g d l a
  proof -
    have in_w: "(d, l, a) \<in> set (gr_waiting (wd_groups w g))" using assms(3) that by (auto simp: groups_sub_def)
    then have "l \<in> waiting_logs w" by (force simp: waiting_logs_def group_logs_def)
    moreover have "d < wd_nctx w \<and> l < wd_nlog w \<and> G w l \<and> cx_listener (wd_ctxs w d) = Some l"
      using assms(1) in_w unfolding valid_def by blast
    ultimately show ?thesis using assms(2,4) by (auto simp: steady_def)
  qed
  moreover have "group_logs w' g \<inter> group_logs w' g' = {}" if "g \<noteq> g'" for g g'
    using assms(1) that waiting_logs_sub [OF assms(3)] unfolding valid_def by blast
  ultimately show ?thesis unfolding valid_def by blast
qed

lemma has_all_step: "has_all C w \<Longrightarrow> progress w w' \<Longrightarrow> has_all C w'"
  unfolding has_all_def progress_def steady_def by (auto simp: subset_iff) (metis atLeast_iff leD less_le_trans)+

lemma progress_trans: "progress w1 w2 \<Longrightarrow> progress w2 w3 \<Longrightarrow> progress w1 w3"
  unfolding progress_def using steady_trans R_trans by (fastforce simp: steady_def)

lemma progress_refl: "valid w \<Longrightarrow> progress w w"
  by (simp add: progress_def R_refl)

lemma keepsD: "keeps C m \<Longrightarrow> has_all C w \<Longrightarrow> m w = Inr (x, w') \<Longrightarrow> progress w w' \<and> has_all C w'"
  unfolding keeps_def using has_all_step by blast

lemma progress_same: "valid w \<Longrightarrow> same_view w w' \<Longrightarrow> groups_sub w' w \<Longrightarrow> progress w w'"
  unfolding progress_def
  using valid_step [of w w'] waiting_logs_sub [of w' w] R_same [of w w'] G_step [of w w'] valid_less [of w]
  by (auto simp: same_view_def)

lemma keeps_silent: "silent m \<Longrightarrow> keeps C m"
  unfolding keeps_def silent_def has_all_def using progress_same by blast

lemma keeps_bind:
  assumes m: "keeps C m" and f: "\<And>x. keeps C (f x)"
  shows "keeps C (mbind m f)"
  unfolding keeps_def
proof (intro allI impI)
  fix w y w2
  assume h: "has_all C w" and "mbind m f w = Inr (y, w2)"
  then obtain x w1 where 1: "m w = Inr (x, w1)" "f x w1 = Inr (y, w2)" by (auto simp: mbind_Inr)
  from keepsD [OF m h 1(1)] have a: "progress w w1" "has_all C w1" by auto
  from keepsD [OF f a(2) 1(2)] a(1) show "progress w w2" using progress_trans by blast
qed

lemma keeps_seq: "keeps C m \<Longrightarrow> keeps C n \<Longrightarrow> keeps C (mseq m n)"
  by (simp add: mseq_def keeps_bind)

lemma keeps_mono: "keeps C m \<Longrightarrow> C \<subseteq> C' \<Longrightarrow> keeps C' m"
  unfolding keeps_def has_all_def by blast

lemma keeps_out: "keeps C mout"
  by (simp add: keeps_def mout_def)

text \<open>A step that opens or closes a bracket.\<close>

definition shift :: "world \<Rightarrow> world \<Rightarrow> bool" where
  "shift w w' \<longleftrightarrow> steady w w' \<and> wd_nlog w' = wd_nlog w \<and> wd_groups w' = wd_groups w \<and>
     (\<forall>l\<in>waiting_logs w. wd_logs w' l = wd_logs w l)"

lemma shift_logs: "shift w w' \<Longrightarrow> waiting_logs w' = waiting_logs w \<and> groups_sub w' w"
  by (simp add: shift_def waiting_logs_def group_logs_def groups_sub_def)

lemma shift_valid: "valid w \<Longrightarrow> shift w w' \<Longrightarrow> valid w'"
proof -
  assume v: "valid w" and s: "shift w w'"
  have "steady w w'" "groups_sub w' w" using s shift_logs [OF s] by (simp_all add: shift_def)
  moreover have "G w' l" if "l \<in> waiting_logs w" "G w l" for l
    using that s by (intro G_logs [of w' l w]) (simp_all add: shift_def)
  ultimately show "valid w'" using valid_step [OF v] by blast
qed

lemma shift_has_all: "has_all C w \<Longrightarrow> shift w w' \<Longrightarrow> has_all C w'"
  using shift_valid shift_logs [of w w'] unfolding has_all_def by (auto simp: shift_def steady_def)

lemma bracket:
  assumes "shift w w1" "progress w1 w2" "shift w2 w3" "R w w3"
  shows "progress w w3"
proof -
  have "valid w3" using assms(2,3) shift_valid [of w2 w3] by (simp add: progress_def)
  moreover have "steady w w3"
    using assms(1-3) steady_trans unfolding progress_def shift_def by blast
  moreover have "waiting_logs w3 \<subseteq> waiting_logs w \<union> {wd_nlog w..}"
    using assms(2) shift_logs [OF assms(1)] shift_logs [OF assms(3)] assms(1)
    by (simp add: progress_def shift_def)
  ultimately show ?thesis using assms(4) by (simp add: progress_def)
qed

text \<open>Publishing.\<close>

lemma deliver_cases:
  assumes "deliver c x w = Inr (y, w')"
  shows "y = x \<and> (case cx_listener (wd_ctxs w c) of None \<Rightarrow> w' = w | Some l \<Rightarrow> w' = append_log l x w)"
  using assms by (auto simp: deliver_def split: option.splits)

lemma append_log_simps [simp]:
  "wd_ctxs (append_log l x w) = wd_ctxs w" "wd_nctx (append_log l x w) = wd_nctx w"
  "wd_nlog (append_log l x w) = wd_nlog w" "wd_groups (append_log l x w) = wd_groups w"
  "wd_logs (append_log l x w) k = (if k = l then wd_logs w l @ [x] else wd_logs w k)"
  by (simp_all add: append_log_def)

lemma append_log_same [simp]:
  "waiting_logs (append_log l x w) = waiting_logs w" "steady w (append_log l x w)"
  "groups_sub (append_log l x w) w"
  by (simp_all add: waiting_logs_def group_logs_def steady_def groups_sub_def)

lemma shift_append: "l \<notin> waiting_logs w \<Longrightarrow> shift w (append_log l x w)"
  by (auto simp: shift_def)

lemma progress_append: "valid w \<Longrightarrow> plain (pb_event x) \<Longrightarrow> progress w (append_log l x w)"
  unfolding progress_def
  using valid_step [of w "append_log l x w"] R_plain [of x w l] G_step [of w "append_log l x w"] valid_less [of w]
  by auto

lemma keeps_publish_event: "plain (pb_event x) \<Longrightarrow> keeps C (publish_event c x)"
  unfolding keeps_def
proof (intro allI impI)
  fix w y w'
  assume x: "plain (pb_event x)" and h: "has_all C w" and "publish_event c x w = Inr (y, w')"
  then have d: "deliver c (set_loggable (is_logging_enabled (wd_ctxs w c)) x) w = Inr (y, w')"
    by (simp add: publish_event_def)
  have "valid w" using h by (simp add: has_all_def)
  with x deliver_cases [OF d] show "progress w w'"
    by (auto simp: set_loggable_def progress_refl intro: progress_append split: option.splits)
qed

lemma keeps_publish: "plain v \<Longrightarrow> keeps C (publish c v)"
  unfolding publish_def by (rule keeps_publish_event) (simp add: new_event_def)

lemma publish_all_cases:
  "publish_all c es w = Inr (u, w') \<Longrightarrow>
     \<exists>xs. map pb_event xs = map pb_event es \<and>
       (case cx_listener (wd_ctxs w c) of None \<Rightarrow> w' = w | Some k \<Rightarrow> w' = fold (append_log k) xs w)"
proof (induction es arbitrary: w)
  case Nil
  then show ?case by (auto split: option.split)
next
  case (Cons e es)
  then obtain y w1 where 1: "publish_event c e w = Inr (y, w1)" "publish_all c es w1 = Inr (u, w')"
    by (auto simp: mbind_Inr)
  let ?e = "set_loggable (is_logging_enabled (wd_ctxs w c)) e"
  have d: "case cx_listener (wd_ctxs w c) of None \<Rightarrow> w1 = w | Some l \<Rightarrow> w1 = append_log l ?e w"
    using deliver_cases [of c ?e w y w1] 1(1) by (simp add: publish_event_def)
  from Cons.IH [OF 1(2)] obtain xs where xs: "map pb_event xs = map pb_event es"
    "case cx_listener (wd_ctxs w1 c) of None \<Rightarrow> w' = w1 | Some k \<Rightarrow> w' = fold (append_log k) xs w1" by blast
  show ?case
    using d xs by (intro exI [of _ "?e # xs"]) (auto simp: set_loggable_def split: option.splits)
qed

lemma fold_append_simps:
  "wd_ctxs (fold (append_log k) xs w) = wd_ctxs w" "wd_nctx (fold (append_log k) xs w) = wd_nctx w"
  "wd_nlog (fold (append_log k) xs w) = wd_nlog w" "wd_groups (fold (append_log k) xs w) = wd_groups w"
  by (induction xs arbitrary: w) auto

lemma progress_republish:
  assumes "valid w" "G w l" "republish c l w = Inr (u, w')"
  shows "progress w w'"
proof -
  have "publish_all c (wd_logs w l) w = Inr (u, w')"
    using assms(3) by (simp add: republish_def mbind_def mget_world_def)
  from publish_all_cases [OF this] obtain xs where xs: "map pb_event xs = map pb_event (wd_logs w l)"
    "case cx_listener (wd_ctxs w c) of None \<Rightarrow> w' = w | Some k \<Rightarrow> w' = fold (append_log k) xs w" by blast
  show ?thesis
  proof (cases "cx_listener (wd_ctxs w c)")
    case None
    with xs assms(1) show ?thesis by (simp add: progress_refl)
  next
    case (Some k)
    with xs have w': "w' = fold (append_log k) xs w" by simp
    have R: "R w w'" unfolding w' by (rule R_republish [OF assms(2) xs(1)])
    have s: "steady w w'" "groups_sub w' w"
      by (simp_all add: w' steady_def groups_sub_def fold_append_simps)
    moreover have "valid w'" by (rule valid_step [OF assms(1) s]) (use G_step [OF R] valid_less [OF assms(1)] in blast)
    ultimately show ?thesis using R waiting_logs_sub [OF s(2)] by (auto simp: progress_def)
  qed
qed

end

end
