(* ===== verification/Engine_Relation.thy ===== *)
theory Engine_Relation
  imports Engine_Invariants
begin

text \<open>
  The operations of the engine keep every \<open>world_relation\<close>: the brackets first, then the
  operations in the order of the code, then the engine for every fuel.
\<close>

definition emitted :: "nat \<Rightarrow> event \<Rightarrow> world \<Rightarrow> world \<Rightarrow> bool" where
  "emitted c v w w' \<longleftrightarrow> (\<exists>x. pb_event x = v \<and>
     (case cx_listener (wd_ctxs w c) of None \<Rightarrow> w' = w | Some l \<Rightarrow> w' = append_log l x w))"

lemma publish_emitted:
  "publish c v w = Inr (y, w') \<Longrightarrow> emitted c v w w'"
  unfolding emitted_def
  by (rule exI [of _ "set_loggable (is_logging_enabled (wd_ctxs w c)) (new_event v)"])
    (auto simp: publish_def publish_event_def deliver_def set_loggable_def new_event_def split: option.splits)

lemma publish_with_start_emitted:
  "publish_with_start c v st w = Inr (y, w') \<Longrightarrow> emitted c v w w'"
  unfolding emitted_def
  by (rule exI [of _ "set_loggable True (new_event_with_init v st)"])
    (auto simp: publish_with_start_def deliver_def set_loggable_def new_event_with_init_def split: option.splits)

lemma push_activity_eq:
  "push_activity p a w =
     Inr ((), push_act p a (w\<lparr>wd_acts := (wd_acts w)(a := process_caller (wd_procs w p) (wd_acts w a))\<rparr>))"
  by (simp add: push_activity_def mget_world_def mbind_def mseq_def on_act_def on_proc_def mupdate_def push_act_def)

lemma pop_activity_eq: "pop_activity p w = Inr ((), pop_act p w)"
  by (simp add: pop_activity_def on_proc_def mupdate_def pop_act_def)

context world_relation
begin

lemma keeps_node_logging:
  assumes "keeps C m"
  shows "keeps C (with_node_logging c lg m)"
  unfolding keeps_def
proof (intro allI impI)
  fix w x w3
  assume h: "has_all C w" and run: "with_node_logging c lg m w = Inr (x, w3)"
  obtain w2 where m: "m (log_flag c lg w) = Inr (x, w2)"
    and w3: "w3 = log_flag c (cx_logging (wd_ctxs w c)) w2"
    using run by (auto simp: with_node_logging_def mget_world_def mbind_Inr mseq_Inr on_ctx_def log_flag_def)
  have shift: "shift v (log_flag c b v)" for v b
    by (simp add: shift_def steady_def log_flag_def)
  have "progress (log_flag c lg w) w2" using keepsD [OF assms shift_has_all [OF h shift] m] by blast
  moreover have "R w w3"
    unfolding w3 by (rule R_logging [where c = c and lg = lg]) (use calculation in \<open>simp add: progress_def\<close>)
  ultimately show "progress w w3" using bracket [OF shift _ shift] w3 by blast
qed

lemma keeps_process:
  assumes "keeps C m"
  shows "keeps C (with_process c p m)"
  unfolding keeps_def
proof (intro allI impI)
  fix w x w5
  assume h: "has_all C w" and run: "with_process c p m w = Inr (x, w5)"
  define w1 where "w1 = (case pr_source (wd_procs w p) of
            None \<Rightarrow> w
          | Some url \<Rightarrow> w\<lparr>wd_ctxs := (wd_ctxs w)(c := (wd_ctxs w c)\<lparr>cx_source := Some url\<rparr>)\<rparr>)"
  define w2 where "w2 = w1\<lparr>wd_stack := processes_push p (wd_stack w1)\<rparr>"
  obtain w3 where m: "m w2 = Inr (x, w3)" and pop: "\<exists>r. pop_process c w3 = Inr (r, w5)"
    using run by (auto simp: with_process_def mseq_Inr mbind_Inr push_process_def Let_def w1_def w2_def)
  define w4 where "w4 = w3\<lparr>wd_stack := snd (processes_pop (wd_stack w3))\<rparr>"
  have 1: "same_view w w1 \<and> groups_sub w1 w"
    by (auto simp: w1_def same_view_def steady_def groups_sub_def split: option.split)
  have 2: "shift w1 w2" "shift w3 w4"
    by (simp_all add: w2_def w4_def shift_def steady_def)
  have 3: "same_view w4 w5 \<and> groups_sub w5 w4"
    using pop by (auto simp: pop_process_def Let_def w4_def same_view_def steady_def groups_sub_def
        split: prod.splits option.splits)
  have v: "valid w" using h by (simp add: has_all_def)
  have a: "progress w w1" using 1 progress_same [OF v] by blast
  have b: "progress w2 w3"
    using keepsD [OF assms shift_has_all [OF has_all_step [OF h a] 2(1)] m] by blast
  have "R w1 w4" unfolding w4_def by (rule R_process [where p = p and w = w1]) (use b in \<open>simp add: w2_def progress_def\<close>)
  from bracket [OF 2(1) b 2(2) this] have c: "progress w1 w4" .
  have "progress w4 w5" by (rule progress_same) (use 3 c in \<open>auto simp: progress_def\<close>)
  with a c show "progress w w5" using progress_trans by blast
qed

text \<open>A start event and its end event around an operation.\<close>

lemma listener_kept:
  "has_all C w \<Longrightarrow> c \<in> C \<Longrightarrow> steady w w' \<Longrightarrow> cx_listener (wd_ctxs w' c) = cx_listener (wd_ctxs w c)"
  by (simp add: has_all_def steady_def)

lemma emitted_shift: "has_all C w \<Longrightarrow> c \<in> C \<Longrightarrow> emitted c v w w' \<Longrightarrow> shift w w'"
  by (auto simp: emitted_def has_all_def shift_append split: option.splits) (simp add: shift_def)

lemma keeps_events:
  assumes c: "c \<in> C" and m: "keeps C m" and mt: "\<And>x. matching s (t x)"
    and cl: "\<And>x st w y w'. close x st w = Inr (y, w') \<Longrightarrow> emitted c (t x) w w'"
  shows "keeps C (mbind (publish c s) (\<lambda>st. mbind m (\<lambda>x. mseq (close x st) (mret x))))"
  unfolding keeps_def
proof (intro allI impI)
  fix w x w3
  assume h: "has_all C w" and run: "mbind (publish c s) (\<lambda>st. mbind m (\<lambda>x. mseq (close x st) (mret x))) w = Inr (x, w3)"
  from run obtain st w1 w2 y where 1: "publish c s w = Inr (st, w1)" and 2: "m w1 = Inr (x, w2)"
    and 3: "close x st w2 = Inr (y, w3)" by (auto simp: mbind_Inr mseq_Inr)
  have e1: "emitted c s w w1" using publish_emitted [OF 1] .
  have e2: "emitted c (t x) w2 w3" using cl [OF 3] .
  have s1: "shift w w1" using emitted_shift [OF h c e1] .
  have h1: "has_all C w1" using shift_has_all [OF h s1] .
  have p: "progress w1 w2" and h2: "has_all C w2" using keepsD [OF m h1 2] by auto
  have s2: "shift w2 w3" using emitted_shift [OF h2 c e2] .
  have "steady w w1" "steady w1 w2" using s1 p by (simp_all add: shift_def progress_def)
  then have "steady w w2" by (rule steady_trans)
  then have l: "cx_listener (wd_ctxs w2 c) = cx_listener (wd_ctxs w c)" using listener_kept [OF h c] by blast
  have "R w w3"
  proof (cases "cx_listener (wd_ctxs w c)")
    case None
    with e1 e2 l p show ?thesis by (auto simp: emitted_def progress_def)
  next
    case (Some k)
    with e1 e2 l obtain a b where ab: "pb_event a = s" "w1 = append_log k a w" "pb_event b = t x" "w3 = append_log k b w2"
      by (auto simp: emitted_def)
    with mt [of x] p show ?thesis unfolding ab(4) by (intro R_events [of a b]) (auto simp: progress_def)
  qed
  with bracket [OF s1 p s2] show "progress w w3" .
qed

lemma keeps_get: "(\<And>w. keeps C (f w)) \<Longrightarrow> keeps C (mbind mget_world f)"
  by (rule keeps_bind [OF keeps_silent [OF silent_get]])

lemma keeps_task_events:
  assumes c: "c \<in> C" and m: "keeps C m"
  shows "keeps C (with_task_events c flow owner name tag m)"
proof -
  have "keeps C (mbind (publish c (EvTaskStart flow owner name s tag))
      (\<lambda>st. mbind m (\<lambda>r. mseq (publish c (EvTaskEnd flow owner name s (status_of (snd r)) (error_message (snd r)))) (mret r))))"
    for s
    by (rule keeps_events [where t = "\<lambda>r. EvTaskEnd flow owner name s (status_of (snd r)) (error_message (snd r))"])
      (use c m publish_emitted in \<open>auto intro: match_task\<close>)
  then show ?thesis
    unfolding with_task_events_def Let_def mseq_def [of "publish c (EvTaskStart _ _ _ _ _)"]
    by (intro keeps_get) (simp add: case_prod_beta')
qed

lemma keeps_workflow_events:
  assumes "c \<in> C" "keeps C m"
  shows "keeps C (with_workflow_events c name owner parent tasks tags m)"
  unfolding with_workflow_events_def Let_def
proof (rule keeps_get)
  fix w
  let ?s = "cx_session (wd_ctxs w c)"
  show "keeps C (mbind (publish c (EvWorkflowStart name owner (fst parent) (snd parent) ?s tasks tags))
      (\<lambda>start. mbind m (\<lambda>err. mseq (publish_with_start c
         (EvWorkflowEnd name owner (fst parent) (snd parent) ?s (status_of err) (error_message err)) start) (mret err))))"
    by (rule keeps_events [where t = "\<lambda>err. EvWorkflowEnd name owner (fst parent) (snd parent) ?s (status_of err) (error_message err)"])
      (use assms publish_with_start_emitted in \<open>auto intro: match_workflow\<close>)
qed

lemma keeps_service_events:
  assumes "c \<in> C" "keeps C m"
  shows "keeps C (with_service_events c sid act m)"
  unfolding with_service_events_def
  by (rule keeps_events [where t = "\<lambda>r. EvResponse (case r of Inl _ \<Rightarrow> VNil | Inr x \<Rightarrow> response_value x)"])
    (use assms publish_with_start_emitted in \<open>auto intro: match_service\<close>)

lemma keeps_activity:
  assumes c: "c \<in> C" and m: "keeps C m"
  shows "keeps C (with_activity c p a m)"
  unfolding keeps_def
proof (intro allI impI)
  fix w x w6
  assume h: "has_all C w" and run: "with_activity c p a m w = Inr (x, w6)"
  define w1 where "w1 = w\<lparr>wd_acts := (wd_acts w)(a := process_caller (wd_procs w p) (wd_acts w a))\<rparr>"
  define w2 where "w2 = push_act p a w1"
  obtain st w3 w4 y where 3: "publish c (EvActivity a) w2 = Inr (st, w3)" and 4: "m w3 = Inr (x, w4)"
    and 5: "publish_with_start c (EvActivityEnd a) st (pop_act p w4) = Inr (y, w6)"
  proof -
    have "with_activity c p a m w = mbind (publish c (EvActivity a)) (\<lambda>start. mbind m (\<lambda>x.
        mseq (pop_activity p) (mseq (publish_with_start c (EvActivityEnd a) start) (mret x)))) w2"
      by (simp add: with_activity_def mseq_def [of "push_activity p a"] mbind_def [of "push_activity p a"]
          push_activity_eq w1_def w2_def)
    with run show ?thesis using that by (auto simp: mbind_Inr mseq_Inr pop_activity_eq)
  qed
  define w5 where "w5 = pop_act p w4"
  have v: "valid w" using h by (simp add: has_all_def)
  have a1: "progress w w1"
    by (rule progress_same [OF v]) (simp_all add: w1_def same_view_def steady_def groups_sub_def)
  have h1: "has_all C w1" using has_all_step [OF h a1] .
  have s12: "shift w1 w2" by (simp add: w2_def push_act_def shift_def steady_def)
  have h2: "has_all C w2" using shift_has_all [OF h1 s12] .
  have e1: "emitted c (EvActivity a) w2 w3" using publish_emitted [OF 3] .
  have s23: "shift w2 w3" using emitted_shift [OF h2 c e1] .
  have h3: "has_all C w3" using shift_has_all [OF h2 s23] .
  have p: "progress w3 w4" and h4: "has_all C w4" using keepsD [OF m h3 4] by auto
  have s45: "shift w4 w5" by (simp add: w5_def pop_act_def shift_def steady_def)
  have h5: "has_all C w5" using shift_has_all [OF h4 s45] .
  have e2: "emitted c (EvActivityEnd a) w5 w6" using publish_with_start_emitted 5 unfolding w5_def .
  have s56: "shift w5 w6" using emitted_shift [OF h5 c e2] .
  have shift_trans: "shift u v \<Longrightarrow> shift v z \<Longrightarrow> shift u z" for u v z
    using shift_logs [of u v] steady_trans [of u v z] by (simp add: shift_def)
  have steps: "steady w1 w2" "steady w2 w3" "steady w3 w4" "steady w4 w5"
    using s12 s23 p s45 by (simp_all add: shift_def progress_def)
  have "steady w1 w5" by (rule steady_trans [OF steady_trans [OF steady_trans [OF steps(1,2)] steps(3)] steps(4)])
  then have l: "cx_listener (wd_ctxs w5 c) = cx_listener (wd_ctxs w2 c)"
    using listener_kept [OF h1 c, of w5] listener_kept [OF h1 c steps(1)] by simp
  have "R w1 w6"
  proof (cases "cx_listener (wd_ctxs w2 c)")
    case None
    then have "w3 = w2" "w6 = w5" using e1 e2 l by (auto simp: emitted_def)
    then show ?thesis using p R_activity [where p = p and a = a and w = w1 and w' = w4] by (simp add: w2_def w5_def progress_def)
  next
    case (Some k)
    then obtain xa ya where "pb_event xa = EvActivity a" "w3 = append_log k xa w2"
      "pb_event ya = EvActivityEnd a" "w6 = append_log k ya w5" using e1 e2 l by (auto simp: emitted_def)
    then show ?thesis using p R_activity_events [where x = xa and b = a and y = ya and l = k and p = p and a = a and w = w1 and w' = w4] by (simp add: w2_def w5_def progress_def)
  qed
  with bracket [OF shift_trans [OF s12 s23] p shift_trans [OF s45 s56]] have "progress w1 w6" .
  with a1 show "progress w w6" using progress_trans by blast
qed

end

end
