(* ===== verification/Engine_Keeps.thy ===== *)
theory Engine_Keeps
  imports Engine_Relation
begin

text \<open>
  Every operation of the engine keeps every \<open>world_relation\<close>, in the order of the code, and
  so does the engine for every fuel.
\<close>

named_theorems keeps_intros \<open>structural rules for operations that keep a relation\<close>

lemma plain_modified [simp]: "plain (modified_event e vs i o' h)"
  by (simp add: modified_event_def)

context world_relation
begin

lemmas keeps_structure [keeps_intros] = keeps_bind keeps_seq keeps_out
  keeps_silent [OF silent_mret] keeps_silent [OF silent_get] keeps_silent [OF silent_crash]
  keeps_silent [OF silent_heap] keeps_silent [OF silent_new_map] keeps_silent [OF silent_on_act]
  keeps_silent [OF silent_lift(1)] keeps_silent [OF silent_lift(2)]
  keeps_silent [OF silent_state(1)] keeps_silent [OF silent_state(2)] keeps_silent [OF silent_state(3)]

lemmas keeps_misc [keeps_intros] = silent_misc [THEN keeps_silent]

lemma keeps_cases [keeps_intros]:
  "(b \<Longrightarrow> keeps C m) \<Longrightarrow> (\<not> b \<Longrightarrow> keeps C n) \<Longrightarrow> keeps C (if b then m else n)"
  "(r = None \<Longrightarrow> keeps C m) \<Longrightarrow> (\<And>x. r = Some x \<Longrightarrow> keeps C (f x)) \<Longrightarrow>
     keeps C (case r of None \<Rightarrow> m | Some x \<Rightarrow> f x)"
  "(\<And>x. s = Inl x \<Longrightarrow> keeps C (g x)) \<Longrightarrow> (\<And>y. s = Inr y \<Longrightarrow> keeps C (h y)) \<Longrightarrow>
     keeps C (case s of Inl x \<Rightarrow> g x | Inr y \<Rightarrow> h y)"
  "(\<And>x y. keeps C (k x y)) \<Longrightarrow> keeps C (case p of (x, y) \<Rightarrow> k x y)"
  "keeps C m \<Longrightarrow> keeps C n \<Longrightarrow> keeps C (case b of True \<Rightarrow> m | False \<Rightarrow> n)"
  by (simp_all split: option.split sum.split prod.split bool.split)

lemma keeps_publish_plain [keeps_intros]: "plain v \<Longrightarrow> keeps C (publish c v)"
  by (rule keeps_publish)

lemma keeps_on_proc [keeps_intros]:
  "(\<And>x. pr_activities (f x) = pr_activities x \<and> (pr_terminated x \<longrightarrow> pr_terminated (f x))) \<Longrightarrow> keeps C (on_proc p f)"
  by (rule keeps_silent) (rule silent_on_proc)

lemma keeps_on_ctx [keeps_intros]:
  "(\<And>x. cx_logging (f x) = cx_logging x \<and> cx_listener (f x) = cx_listener x) \<Longrightarrow> keeps C (on_ctx c f)"
  by (rule keeps_silent) (rule silent_on_ctx)

section \<open>Criteria, extraction, repetition\<close>

lemma keeps_eval [keeps_intros]: "keeps C (eval_criteria e c st expr ty d)"
  unfolding eval_criteria_def by (intro keeps_intros) simp

lemma keeps_variable_event [keeps_intros]: "keeps C (variable_event e c vs i o')"
  unfolding variable_event_def by (intro keeps_intros) simp

lemma keeps_match [keeps_intros]: "keeps C (match_expression e c rx line x a)"
  unfolding match_expression_def Let_def by (intro keeps_intros)

lemma keeps_extract_each [keeps_intros]: "keeps C (extract_each e c xs line cleaned a)"
proof (induction xs)
  case Nil
  show ?case by (simp, intro keeps_intros)
next
  case (Cons x xs)
  show ?case by (simp only: extract_each.simps) (intro keeps_intros Cons)
qed

lemma keeps_extract [keeps_intros]: "keeps C (extract_data e c xs a line)"
  unfolding extract_data_def by (intro keeps_intros)

lemma keeps_exit [keeps_intros]: "keeps C (exit_criteria e caller c rep a)"
  unfolding exit_criteria_def by (intro keeps_intros)

lemma keeps_store_map [keeps_intros]: "keeps C (store_map v)"
  unfolding store_map_def by (cases v) (auto intro!: keeps_intros)

lemma keeps_repeater_eval [keeps_intros]: "keeps C (repeater_eval e c caller rep v a)"
  unfolding repeater_eval_def Let_def by (intro keeps_intros) simp

lemma keeps_sleep [keeps_intros]: "keeps C (service_sleep c t)"
proof -
  have "keeps C (publish_times k c (EvSleep n))" for k n
    by (induction k) (simp_all, (intro keeps_intros; simp)+)
  then have "has_all C w \<Longrightarrow> publish_times k c (EvSleep n) w = Inr (x, w') \<Longrightarrow> progress w w'" for k n w x w'
    unfolding keeps_def by blast
  then show ?thesis
    unfolding keeps_def service_sleep_def Let_def using progress_refl
    by (auto simp: has_all_def split: if_splits)
qed

lemma keeps_repeat_times: "keeps C h \<Longrightarrow> keeps C (repeat_times e n c caller rep h a)"
proof (induction n)
  case 0
  show ?case by (simp, intro keeps_intros)
next
  case (Suc n)
  show ?case by (simp only: repeat_times.simps) (intro keeps_intros Suc)
qed

lemma keeps_repeater [keeps_intros]: "keeps C h \<Longrightarrow> keeps C (repeater_run e c caller rep h a)"
  unfolding repeater_run_def by (rule keeps_repeat_times)

section \<open>Nodes and actions\<close>

definition good_callees :: "callees \<Rightarrow> bool" where
  "good_callees F \<longleftrightarrow> (\<forall>c req. keeps {c} (c_run F c req)) \<and> (\<forall>c p node. keeps {c} (c_tasks F c p node))"

lemma keeps_callee:
  assumes "good_callees F"
  shows "keeps {c} (c_run F c req)" "keeps {c} (c_tasks F c p node)"
  using assms by (simp_all add: good_callees_def)

lemma keeps_node_post [keeps_intros]: "keeps C (node_post e c st node r)"
  unfolding node_post_def Let_def by (intro keeps_intros)

lemma keeps_run_node: "keeps C h \<Longrightarrow> keeps C (run_node e c kind p node h)"
  unfolding run_node_def by (intro keeps_intros keeps_node_logging)

lemma keeps_without_self: "keeps C m \<Longrightarrow> keeps C (without_self e p act st m)"
  unfolding without_self_def by (intro keeps_intros)

lemma keeps_make_activity [keeps_intros]: "keeps C (make_activity e act st)"
  unfolding make_activity_def by (intro keeps_intros)

lemma keeps_as_request [keeps_intros]: "keeps C (as_request e c service act source)"
  unfolding as_request_def Let_def by (intro keeps_intros)

lemma keeps_set_response [keeps_intros]: "keeps C (set_response e a r)"
  unfolding set_response_def Let_def by (intro keeps_intros)

lemma keeps_action_body: "good_callees F \<Longrightarrow> keeps {c} (action_body e F c act p a st)"
  unfolding action_body_def Let_def
  by (intro keeps_intros keeps_activity keeps_without_self keeps_callee) simp_all

lemma keeps_run_action: "good_callees F \<Longrightarrow> keeps {c} (run_action e F c act p)"
  unfolding run_action_def Let_def
  by (intro keeps_intros keeps_without_self keeps_run_node keeps_action_body) simp_all

lemma keeps_action_handler: "good_callees F \<Longrightarrow> keeps {c} (action_handler e F c act p res)"
  unfolding action_handler_def by (intro keeps_intros keeps_run_action)

lemma keeps_repeat_action: "good_callees F \<Longrightarrow> keeps {c} (repeat_action e F c act p res)"
  unfolding repeat_action_def by (intro keeps_intros keeps_action_handler)

end

end
