(* ===== verification/Engine_Async.thy ===== *)
theory Engine_Async
  imports Engine_Keeps
begin

text \<open>
  Asynchronous actions keep every \<open>world_relation\<close>: a goroutine has a context and a log of
  its own, which no other operation writes while it waits.
\<close>

text \<open>What a clone is, and what a fork is.\<close>

lemma clone_facts:
  assumes "clone_ctx tb defs c w = Inr (d, w1)" "c < wd_nctx w"
  shows "d = wd_nctx w \<and> same_view w w1 \<and> wd_groups w1 = wd_groups w \<and> wd_nctx w1 = Suc (wd_nctx w) \<and>
    wd_nlog w1 = wd_nlog w \<and> wd_logs w1 = wd_logs w \<and>
    cx_listener (wd_ctxs w1 d) = cx_listener (wd_ctxs w c)"
  using assms
  by (auto simp: clone_ctx_def Let_def new_map_def alloc_def mbind_Inr mseq_Inr add_ctx_def on_ctx_def
      on_heap_def mget_world_def empty_ctx_def same_view_def steady_def split: option.splits)

lemma fork_facts:
  assumes "fork_ctx e c w = Inr ((d, l), w1)" "c < wd_nctx w"
  shows "d = wd_nctx w \<and> l = wd_nlog w \<and> same_view w w1 \<and> wd_groups w1 = wd_groups w \<and>
    wd_nctx w1 = Suc (wd_nctx w) \<and> wd_nlog w1 = Suc (wd_nlog w) \<and> wd_logs w1 l = [] \<and>
    cx_listener (wd_ctxs w1 d) = Some l"
proof -
  obtain w0 where 0: "clone_ctx (en_tb e) (en_defaults e) c w = Inr (d, w0)" "make_async_safe d w0 = Inr (l, w1)"
    using assms(1) by (auto simp: fork_ctx_def mbind_Inr)
  from clone_facts [OF 0(1) assms(2)] 0(2) show ?thesis
    by (auto simp: make_async_safe_def Let_def same_view_def steady_def)
qed

context world_relation
begin

lemma keeps_clone:
  assumes c: "c \<in> C" and f: "\<And>d. keeps {d} (f d)"
  shows "keeps C (mbind (clone_ctx tb defs c) f)"
  unfolding keeps_def
proof (intro allI impI)
  fix w x w2
  assume h: "has_all C w" and "mbind (clone_ctx tb defs c) f w = Inr (x, w2)"
  then obtain d w1 where 1: "clone_ctx tb defs c w = Inr (d, w1)" "f d w1 = Inr (x, w2)" by (auto simp: mbind_Inr)
  have "c < wd_nctx w" using h c by (simp add: has_all_def)
  note facts = clone_facts [OF 1(1) this]
  have v: "valid w" using h by (simp add: has_all_def)
  have g: "groups_sub w1 w" using facts by (simp add: groups_sub_def)
  have p: "progress w w1" using progress_same [OF v] facts g by blast
  have "waiting_logs w1 = waiting_logs w" using facts by (simp add: waiting_logs_def group_logs_def)
  then have "has_all {d} w1" using p h c facts by (auto simp: has_all_def progress_def)
  then have "progress w1 w2" using f 1(2) by (simp add: keeps_def)
  with p show "progress w w2" by (rule progress_trans)
qed

text \<open>A goroutine that can be started: its context, its log, and what they are to the parent.\<close>

definition ready :: "world \<Rightarrow> nat \<times> nat \<times> action \<Rightarrow> bool" where
  "ready w j = (case j of (d, l, act) \<Rightarrow>
     d < wd_nctx w \<and> l < wd_nlog w \<and> G w l \<and> cx_listener (wd_ctxs w d) = Some l \<and> l \<notin> waiting_logs w)"

lemma ready_step: "ready w j \<Longrightarrow> progress w w' \<Longrightarrow> ready w' j"
  unfolding ready_def progress_def steady_def using G_step [of w w'] by (auto split: prod.splits)

lemma run_goroutine:
  assumes F: "good_callees F" and c: "c \<in> C" and h: "has_all C w" and j: "ready w j"
    and run: "run_async_action e F c p j w = Inr (x, w3)"
  shows "progress w w3"
proof -
  obtain d l act where jd: "j = (d, l, act)" by (cases j)
  obtain res w1 err w2 where 1: "new_map [] w = Inr (res, w1)" and 2: "repeat_action e F d act p res w1 = Inr (err, w2)"
    and 3: "republish c l w2 = Inr ((), w3)"
    using run by (auto simp: run_async_action_def jd mbind_Inr mseq_Inr)
  have v: "valid w" using h by (simp add: has_all_def)
  have "same_view w w1 \<and> groups_sub w1 w" using silent_new_map [of "[]"] 1 unfolding silent_def by blast
  then have p1: "progress w w1" using progress_same [OF v] by blast
  have j1: "ready w1 j" using ready_step [OF j p1] .
  have v1: "valid w1" using p1 by (simp add: progress_def)
  have "has_all {d} w1" using j1 v1 by (auto simp: ready_def jd has_all_def)
  then have p2: "progress w1 w2" using keeps_repeat_action [OF F] 2 unfolding keeps_def by blast
  have "G w2 l" using ready_step [OF j1 p2] by (simp add: ready_def jd)
  moreover have "valid w2" using p2 by (simp add: progress_def)
  ultimately have "progress w2 w3" using progress_republish 3 by blast
  with p1 p2 show ?thesis using progress_trans by blast
qed

lemma late_goroutine:
  assumes v: "valid w0" and p: "progress w0 w2"
    and f: "d = wd_nctx w0" "l = wd_nlog w0" "same_view w0 w2" "wd_groups w2 = wd_groups w0"
      "wd_nctx w2 = Suc (wd_nctx w0)" "wd_nlog w2 = Suc (wd_nlog w0)" "wd_logs w2 l = []"
      "cx_listener (wd_ctxs w2 d) = Some l"
    and w3: "w3 = w2\<lparr>wd_groups := (wd_groups w2)(g := (wd_groups w2 g)\<lparr>gr_waiting := gr_waiting (wd_groups w2 g) @ [(d, l, act)]\<rparr>)\<rparr>"
  shows "progress w0 w3"
proof -
  have sv: "same_view w0 w3" using f(3) by (simp add: w3 same_view_def steady_def)
  have R: "R w0 w3" by (rule R_same [OF sv])
  have gl: "group_logs w3 k = group_logs w0 k \<union> (if k = g then {l} else {})" for k
    using f(4) by (auto simp: w3 group_logs_def)
  have fresh: "l \<notin> group_logs w0 k" for k
    using valid_less [OF v, of l] f(2) by (auto simp: waiting_logs_def)
  have entry: "d' < wd_nctx w3 \<and> l' < wd_nlog w3 \<and> G w3 l' \<and> cx_listener (wd_ctxs w3 d') = Some l'"
    if "(d', l', a') \<in> set (gr_waiting (wd_groups w3 k))" for k d' l' a'
  proof (cases "(d', l', a') \<in> set (gr_waiting (wd_groups w0 k))")
    case True
    then have old: "d' < wd_nctx w0 \<and> l' < wd_nlog w0 \<and> G w0 l' \<and> cx_listener (wd_ctxs w0 d') = Some l'"
      using v unfolding valid_def by blast
    then have "G w3 l'" using G_step [OF R] by blast
    with old sv f(5,6) show ?thesis by (auto simp: w3 same_view_def steady_def)
  next
    case False
    with that f(4) have "d' = d" "l' = l" by (auto simp: w3 split: if_splits)
    with f G_new [of w3 l] show ?thesis by (simp add: w3)
  qed
  have "group_logs w3 k \<inter> group_logs w3 k' = {}" if "k \<noteq> k'" for k k'
    using v that fresh unfolding valid_def gl by auto
  then have "valid w3" using entry unfolding valid_def by blast
  moreover have "waiting_logs w3 \<subseteq> waiting_logs w0 \<union> {wd_nlog w0..}"
    unfolding waiting_logs_def gl using f(2) by (auto split: if_splits)
  ultimately show ?thesis using sv R by (simp add: progress_def same_view_def)
qed

lemma keeps_spawn:
  assumes F: "good_callees F" and c: "c \<in> C"
  shows "keeps C (spawn_actions e F c p g acts ge)"
  unfolding keeps_def
proof (induction acts arbitrary: ge)
  case Nil
  then show ?case by (auto simp: has_all_def mret_def progress_refl)
next
  case (Cons act acts)
  show ?case
  proof (intro allI impI)
    fix w x w'
    assume h: "has_all C w" and run: "spawn_actions e F c p g (act # acts) ge w = Inr (x, w')"
    obtain y w0 d l w1 b w2 where 0: "publish c (EvAsync act) w = Inr (y, w0)" and 1: "fork_ctx e c w0 = Inr ((d, l), w1)"
      and 2: "take_schedule w1 = Inr (b, w2)"
      and 3: "(if b then mbind (run_async_action e F c p (d, l, act)) (\<lambda>err.
              spawn_actions e F c p g acts (if err = None then ge else err))
          else mseq (on_group g (\<lambda>x. x\<lparr>gr_waiting := gr_waiting x @ [(d, l, act)]\<rparr>))
              (spawn_actions e F c p g acts ge)) w2 = Inr (x, w')"
      using run by (auto simp: mbind_Inr mseq_Inr)
    have "progress w w0 \<and> has_all C w0" using keepsD [OF keeps_publish [of "EvAsync act"] h 0] by simp
    then have p0: "progress w w0" and h0: "has_all C w0" by auto
    have cn: "c < wd_nctx w0" and v0: "valid w0" using h0 c by (auto simp: has_all_def)
    note f = fork_facts [OF 1 cn]
    have "same_view w1 w2 \<and> groups_sub w2 w1 \<and> wd_groups w2 = wd_groups w1 \<and> wd_nctx w2 = wd_nctx w1 \<and>
        wd_nlog w2 = wd_nlog w1 \<and> wd_logs w2 = wd_logs w1 \<and> wd_ctxs w2 = wd_ctxs w1"
      using 2 by (auto simp: take_schedule_def same_view_def steady_def groups_sub_def split: list.splits)
    with f have f2: "d = wd_nctx w0" "l = wd_nlog w0" "same_view w0 w2" "wd_groups w2 = wd_groups w0"
      "wd_nctx w2 = Suc (wd_nctx w0)" "wd_nlog w2 = Suc (wd_nlog w0)" "wd_logs w2 l = []"
      "cx_listener (wd_ctxs w2 d) = Some l"
      using same_view_trans [of w0 w1 w2] by auto
    have p2: "progress w0 w2" by (rule progress_same [OF v0 f2(3)]) (simp add: groups_sub_def f2(4))
    have h2: "has_all C w2" using has_all_step [OF h0 p2] .
    have "waiting_logs w2 = waiting_logs w0" by (simp add: waiting_logs_def group_logs_def f2(4))
    then have fresh: "l \<notin> waiting_logs w2" using valid_less [OF v0, of l] f2(2) by auto
    have j: "ready w2 (d, l, act)" using f2 fresh G_new by (simp add: ready_def)
    show "progress w w'"
    proof (cases b)
      case True
      then obtain err w3 where 4: "run_async_action e F c p (d, l, act) w2 = Inr (err, w3)"
        "spawn_actions e F c p g acts (if err = None then ge else err) w3 = Inr (x, w')"
        using 3 by (auto simp: mbind_Inr)
      have p3: "progress w2 w3" using run_goroutine [OF F c h2 j 4(1)] .
      have "progress w3 w'" using Cons.IH 4(2) has_all_step [OF h2 p3] by blast
      with p0 p2 p3 show ?thesis using progress_trans by blast
    next
      case False
      define w3 where "w3 = w2\<lparr>wd_groups := (wd_groups w2)(g := (wd_groups w2 g)\<lparr>gr_waiting := gr_waiting (wd_groups w2 g) @ [(d, l, act)]\<rparr>)\<rparr>"
      have 4: "spawn_actions e F c p g acts ge w3 = Inr (x, w')"
        using 3 False by (auto simp: mseq_Inr on_group_def w3_def)
      have p3: "progress w0 w3" using late_goroutine [OF v0 p2 f2 w3_def] .
      have "progress w3 w'" using Cons.IH 4 has_all_step [OF h0 p3] by blast
      with p0 p3 show ?thesis using progress_trans by blast
    qed
  qed
qed

lemma keeps_run_async:
  assumes "good_callees F" "c \<in> C"
  shows "keeps C (run_async_actions e F c p g acts)"
proof -
  have "keeps C (on_group g (\<lambda>x. x\<lparr>gr_error := err\<rparr>))" for err
    by (rule keeps_silent) (auto simp: on_group_def silent_def same_view_def steady_def groups_sub_def)
  then show ?thesis
    unfolding run_async_actions_def by (intro keeps_intros keeps_spawn [OF assms])
qed

lemma run_waiting_progress:
  assumes F: "good_callees F" and c: "c \<in> C"
  shows "has_all C w \<Longrightarrow> \<forall>j\<in>set js. ready w j \<Longrightarrow> run_waiting e F c p js w = Inr (x, w') \<Longrightarrow> progress w w'"
proof (induction js arbitrary: w)
  case Nil
  then show ?case by (auto simp: has_all_def progress_refl)
next
  case (Cons j js)
  obtain y w1 where 1: "run_async_action e F c p j w = Inr (y, w1)" "run_waiting e F c p js w1 = Inr (x, w')"
    using Cons.prems(3) by (auto simp: mseq_Inr)
  have p: "progress w w1" using run_goroutine [OF F c Cons.prems(1) _ 1(1)] Cons.prems(2) by simp
  moreover have "progress w1 w'"
    by (rule Cons.IH [OF has_all_step [OF Cons.prems(1) p] _ 1(2)]) (use Cons.prems(2) ready_step p in auto)
  ultimately show ?case by (rule progress_trans)
qed

text \<open>When a group is emptied, its goroutines are ready: no other group has their logs.\<close>

lemma keeps_wait_group:
  assumes F: "good_callees F" and c: "c \<in> C"
  shows "keeps C (wait_group e F c p g)"
  unfolding keeps_def
proof (intro allI impI)
  fix w x w'
  assume h: "has_all C w" and run: "wait_group e F c p g w = Inr (x, w')"
  define w1 where "w1 = w\<lparr>wd_groups := (wd_groups w)(g := (wd_groups w g)\<lparr>gr_waiting := []\<rparr>)\<rparr>"
  have 1: "run_waiting e F c p (gr_waiting (wd_groups w g)) w1 = Inr (x, w')"
    using run by (auto simp: wait_group_def mget_world_def mbind_Inr mseq_Inr on_group_def w1_def)
  have v: "valid w" using h by (simp add: has_all_def)
  have p: "progress w w1"
    by (rule progress_same [OF v]) (auto simp: w1_def same_view_def steady_def groups_sub_def)
  have gl: "group_logs w1 k = (if k = g then {} else group_logs w k)" for k by (simp add: w1_def group_logs_def)
  have "ready w1 j" if j: "j \<in> set (gr_waiting (wd_groups w g))" for j
  proof -
    obtain d l act where jd: "j = (d, l, act)" by (cases j)
    with j have l: "l \<in> group_logs w g" by (force simp: group_logs_def)
    have old: "d < wd_nctx w \<and> l < wd_nlog w \<and> G w l \<and> cx_listener (wd_ctxs w d) = Some l"
      using v j unfolding jd valid_def by blast
    have "group_logs w g \<inter> group_logs w k = {}" if "k \<noteq> g" for k using v that unfolding valid_def by blast
    then have "l \<notin> waiting_logs w1" using l unfolding waiting_logs_def gl by auto
    moreover have "G w1 l" using old G_logs [of w1 l w] by (simp add: w1_def)
    ultimately show ?thesis using old by (simp add: ready_def jd w1_def)
  qed
  then have "progress w1 w'" using run_waiting_progress [OF F c has_all_step [OF h p] _ 1] by blast
  with p show "progress w w'" by (rule progress_trans)
qed

end

end
