(* ===== verification/Engine_Kept.thy ===== *)
theory Engine_Kept
  imports Engine_Async
begin

text \<open>
  Tasks, workflows, handlers and services keep every \<open>world_relation\<close>, and so does the
  engine, by induction on the depth of nesting.
\<close>

lemma set_task_activities: "set_task t x = Inr y \<Longrightarrow> pr_activities y = pr_activities x \<and> pr_terminated y = pr_terminated x"
  by (auto simp: set_task_def Let_def split: if_splits option.splits)

context world_relation
begin

section \<open>Tasks\<close>

lemma keeps_run_actions: "good_callees F \<Longrightarrow> keeps {c} (run_actions e F c p res acts)"
proof (induction acts rule: length_induct)
  case (1 acts)
  have IH: "length bs < length acts \<Longrightarrow> keeps {c} (run_actions e F c p res bs)" for bs
    using 1 by blast
  show ?case
  proof (cases acts)
    case Nil
    then show ?thesis by (simp, intro keeps_intros)
  next
    case (Cons a rest)
    have rest: "keeps {c} (run_actions e F c p res rest)"
      "keeps {c} (run_actions e F c p res (dropWhile (\<lambda>b. mt_id (a_meta b) = mt_id (a_meta a)) rest))"
      by (intro IH; simp add: Cons le_imp_less_Suc length_dropWhile_le)+
    show ?thesis
      unfolding Cons run_actions.simps by (intro keeps_intros keeps_repeat_action rest "1.prems")
  qed
qed

lemma keeps_task_body: "good_callees F \<Longrightarrow> keeps {c} (task_body e F c p t st res g)"
  unfolding task_body_def
  by (intro keeps_intros keeps_callee keeps_run_async keeps_run_actions) simp_all

lemma keeps_set_task:
  assumes "\<And>pr. keeps C (K pr)"
  shows "keeps C (mbind mget_world (\<lambda>w. case set_task t (wd_procs w p) of
       Inl err \<Rightarrow> mcrash (error_text err) | Inr pr \<Rightarrow> mseq (on_proc p (\<lambda>_. pr)) (K pr)))"
  unfolding keeps_def
proof (intro allI impI)
  fix w x w'
  assume h: "has_all C w"
    and run: "mbind mget_world (\<lambda>w. case set_task t (wd_procs w p) of
       Inl err \<Rightarrow> mcrash (error_text err) | Inr pr \<Rightarrow> mseq (on_proc p (\<lambda>_. pr)) (K pr)) w = Inr (x, w')"
  then obtain pr where pr: "set_task t (wd_procs w p) = Inr pr"
    and k: "K pr (w\<lparr>wd_procs := (wd_procs w)(p := pr)\<rparr>) = Inr (x, w')"
    by (auto simp: mget_world_def mbind_Inr mseq_Inr mcrash_def on_proc_def split: sum.splits)
  have "progress w (w\<lparr>wd_procs := (wd_procs w)(p := pr)\<rparr>)"
    by (rule progress_same) (use h set_task_activities [OF pr] in
        \<open>auto simp: has_all_def same_view_def steady_def groups_sub_def\<close>)
  moreover from has_all_step [OF h this] k assms have "progress (w\<lparr>wd_procs := (wd_procs w)(p := pr)\<rparr>) w'"
    unfolding keeps_def by blast
  ultimately show "progress w w'" by (rule progress_trans)
qed

lemma keeps_task_steps: "good_callees F \<Longrightarrow> keeps {c} (task_steps e F c p t st res)"
  unfolding task_steps_def
  by (intro keeps_intros keeps_run_node keeps_task_body keeps_wait_group) simp_all

lemma keeps_run_task: "good_callees F \<Longrightarrow> keeps {c} (run_task e F c p t)"
  unfolding run_task_def
  by (intro keeps_set_task keeps_intros keeps_task_events keeps_task_steps) simp_all

lemma keeps_deferred: "good_callees F \<Longrightarrow> keeps {c} (run_deferred_task e F c p node)"
  unfolding run_deferred_task_def by (intro keeps_intros keeps_run_task)

lemma keeps_on_error: "good_callees F \<Longrightarrow> keeps {c} (run_on_error_task e F c p node err)"
  unfolding run_on_error_task_def Let_def by (intro keeps_intros keeps_run_task) simp_all

lemma keeps_tasks_loop: "good_callees F \<Longrightarrow> keeps {c} (tasks_loop e F c p node ts)"
proof (induction ts)
  case Nil
  show ?case by (simp, intro keeps_intros)
next
  case (Cons t ts)
  show ?case
    unfolding tasks_loop.simps by (intro keeps_intros keeps_run_task keeps_on_error Cons)
qed

lemma keeps_scheduled: "good_callees F \<Longrightarrow> keeps {c} (run_scheduled F c p)"
  unfolding run_scheduled_def by (intro keeps_intros keeps_callee) simp_all

lemma keeps_run_tasks: "good_callees F \<Longrightarrow> keeps {c} (run_tasks e F c p node)"
  unfolding run_tasks_def by (intro keeps_intros keeps_tasks_loop keeps_scheduled keeps_deferred)

section \<open>Workflows\<close>

lemma keeps_put_all [keeps_intros]: "keeps C (put_all_state e st m)"
  by (induction m rule: put_all_state.induct) (simp_all, (intro keeps_intros; simp)+)

lemma keeps_enable_logging [keeps_intros]: "keeps C (enable_logging e c r)"
  unfolding enable_logging_def Let_def by (intro keeps_intros) simp

lemma keeps_get_workflow [keeps_intros]: "keeps C (get_workflow e c r)"
  unfolding get_workflow_def by (intro keeps_intros) simp_all

lemma keeps_publish_parameters [keeps_intros]: "keeps C (publish_parameters e c r)"
  unfolding publish_parameters_def Let_def by (intro keeps_intros)

lemma keeps_workflow_tasks: "good_callees F \<Longrightarrow> keeps {c} (workflow_tasks_body e F c p x r up st dt ut)"
  unfolding workflow_tasks_body_def Let_def by (intro keeps_intros keeps_run_node keeps_run_tasks)

lemma keeps_workflow_state: "good_callees F \<Longrightarrow> keeps {c} (workflow_state_body e F c p x r up st dt ps)"
  unfolding workflow_state_body_def Let_def by (intro keeps_intros keeps_workflow_tasks) simp_all

lemma keeps_in_context:
  assumes "\<And>d. keeps {d} (f d)"
  shows "keeps {c} (mbind (if b then mret c else clone_ctx tb defs c) f)"
  using assms keeps_clone [of c "{c}" f] by simp

lemma keeps_workflow_body: "good_callees F \<Longrightarrow> keeps {c} (workflow_body e F c p x r dt)"
  unfolding workflow_body_def Let_def
  by (intro keeps_in_context keeps_workflow_state keeps_intros) simp_all

lemma keeps_run_workflow: "good_callees F \<Longrightarrow> keeps {c} (run_workflow e F c r)"
  unfolding run_workflow_def
  by (intro keeps_intros keeps_workflow_events keeps_process keeps_workflow_body) simp_all

section \<open>Handlers and services\<close>

lemma keeps_handle_run: "good_callees F \<Longrightarrow> keeps {c} (handle_run e F c r)"
  unfolding handle_run_def by (intro keeps_intros keeps_run_workflow) simp_all

lemma keeps_handle_register: "keeps C (handle_register x)"
  unfolding handle_register_def by (intro keeps_intros)

lemma keeps_handle_exit: "keeps C handle_exit"
  unfolding handle_exit_def by (intro keeps_intros) (simp add: terminate_def)

lemma keeps_handle_goto: "keeps C (handle_goto t)"
  unfolding handle_goto_def by (intro keeps_intros) simp

lemma keeps_service_action [keeps_intros]: "keeps C (service_action q)"
  unfolding service_action_def service_activity_def Let_def by (intro keeps_intros)

lemma keeps_switch_source [keeps_intros]: "keeps C (switch_source e c key)"
proof -
  have "keeps C (ctx_expand tb d c s)" for tb d s
    by (rule keeps_silent) (unfold ctx_expand_def, intro silent_bind silent_ctx_state, simp add: silent_def)
  then show ?thesis unfolding switch_source_def by (intro keeps_intros)
qed

lemma keeps_handle_switch: "good_callees F \<Longrightarrow> keeps {c} (handle_switch e F c r)"
  unfolding handle_switch_def by (intro keeps_intros keeps_run_task keeps_run_action)

lemma keeps_handle_print: "keeps C (handle_print c msg err)"
  unfolding handle_print_def by (intro keeps_intros)

lemma keeps_handle_set_env: "keeps C (handle_set_env kvs)"
  unfolding handle_set_env_def by (intro keeps_intros)

lemma keeps_handle_other: "keeps C (handle_other e c service act v)"
  unfolding handle_other_def by (intro keeps_intros)

lemma keeps_service_run:
  assumes "\<And>q. keeps {c} (h q)"
  shows "keeps {c} (service_run c sid act prepared h)"
  unfolding service_run_def
  by (intro keeps_service_events keeps_intros assms) simp_all

lemma keeps_dispatch: "good_callees F \<Longrightarrow> keeps {c} (dispatch e F c req)"
  unfolding dispatch_def
  by (cases req)
    (simp_all add: keeps_service_run keeps_handle_run keeps_handle_register keeps_handle_exit keeps_handle_goto
      keeps_handle_switch keeps_handle_print keeps_handle_set_env keeps_handle_other handle_fail_def
      keeps_silent [OF silent_mret])

section \<open>The engine\<close>

lemma keeps_engine: "good_callees (engine e n)"
  by (induction n) (simp_all add: good_callees_def no_callees_def keeps_out keeps_dispatch keeps_run_tasks)

lemma keeps_endly_run: "keeps {c} (endly_run e n c req)"
  unfolding endly_run_def using keeps_engine by (rule keeps_callee)

text \<open>What a client of the engine sees: a session whose waiting goroutines are in order.\<close>

lemma run_related:
  assumes "endly_run e n c req w = Inr (r, w')" "valid w" "c < wd_nctx w"
    and "\<And>k. cx_listener (wd_ctxs w c) = Some k \<Longrightarrow> k < wd_nlog w \<and> k \<notin> waiting_logs w"
  shows "R w w'"
proof -
  have "has_all {c} w" using assms(2-4) by (simp add: has_all_def)
  then show ?thesis using keeps_endly_run assms(1) unfolding keeps_def progress_def by blast
qed

lemma idle_valid: "(\<And>g. gr_waiting (wd_groups w g) = []) \<Longrightarrow> valid w \<and> waiting_logs w = {}"
  by (simp add: valid_def waiting_logs_def group_logs_def)

end

end
