(* ===== verification/Samples.thy ===== *)
theory Samples
  imports Engine
begin

text \<open>
  A small environment and a few workflows, for the witnesses only: the services answer a
  fixed map, \<open>fail\<close> fails, and the actions of the workflow service are the real ones.
\<close>

definition urls0 :: urls where
  "urls0 = \<lparr>url_scheme = (\<lambda>s. s), url_host = (\<lambda>s. s), url_path = (\<lambda>s. s), url_split = (\<lambda>s. (s, [])),
     url_join = (\<lambda>a b. a @ b), url_normalize = (\<lambda>s. s)\<rparr>"

definition request0 :: "heap \<Rightarrow> string \<Rightarrow> string \<Rightarrow> value \<Rightarrow> go_error + request" where
  "request0 h service act v =
     (if service = ''workflow'' then
        (if act = ''exit'' then Inr RqExit
         else if act = ''fail'' then Inr (RqFail ''failed'')
         else if act = ''nop'' then Inr RqNop
         else Inl (PlainErr ''unknown action''))
      else Inr (RqOther service act v))"

definition handler0 :: "string \<Rightarrow> string \<Rightarrow> value \<Rightarrow> nat \<Rightarrow> heap \<Rightarrow> (go_error + value) \<times> heap" where
  "handler0 service act v state h =
     (if act = ''fail'' then (Inl (PlainErr ''broken''), h) else (Inr (VMap [(''done'', VBool True)]), h))"

definition env0 :: full_env where
  "env0 = \<lparr>en_tb = tb0, en_ps = ps0, en_io = no_files, en_urls = urls0, en_defaults = [],
     en_build = (\<lambda>r n b. Inl (PlainErr ''no pipeline'')),
     en_response_map = (\<lambda>h v. case v of VMap m \<Rightarrow> m | VStruct t m \<Rightarrow> m | VRef a \<Rightarrow> cell h a | _ \<Rightarrow> []),
     en_delete_empty = (\<lambda>m. m), en_json = (\<lambda>h v. ''{}''), en_path = (\<lambda>s. s),
     en_regexp = (\<lambda>s. Inl (PlainErr ''invalid'')), en_errorf = (\<lambda>s. s), en_join = (\<lambda>a b. a @ ''/'' @ b),
     en_request = request0, en_handler = handler0\<rparr>"

definition action0 :: "string \<Rightarrow> string \<Rightarrow> string \<Rightarrow> bool \<Rightarrow> action" where
  "action0 service act tag_id async =
     \<lparr>a_node = empty_node, a_request = \<lparr>sr_service = service, sr_action = act, sr_request = VMap []\<rparr>,
      a_meta = empty_meta\<lparr>mt_id := tag_id\<rparr>, a_repeater = new_repeater, a_async = async, a_skip = []\<rparr>"

definition task0 :: "string \<Rightarrow> action list \<Rightarrow> action task" where
  "task0 name acts =
     MkTask \<lparr>ti_node = empty_node\<lparr>n_name := name\<rparr>, ti_meta = None, ti_fail = False, ti_multi = False,
       ti_data = [], ti_range = [], ti_subpath = []\<rparr> acts None"

definition flow0 :: "action task list \<Rightarrow> string \<Rightarrow> string \<Rightarrow> action workflow" where
  "flow0 ts on_error deferred =
     \<lparr>w_source = Some ''mem:/app.yaml'', w_data = [], w_node = empty_node\<lparr>n_name := ''app''\<rparr>,
      w_tasks = MkTasks ts on_error deferred\<rparr>"

definition run0 :: "action workflow \<Rightarrow> request" where
  "run0 x = RqRun (empty_run_request\<lparr>rq_name := ''app'', rq_url := ''mem:/app.yaml'', rq_workflow := Some x\<rparr>)"

text \<open>The names of the tasks and workflows that were started and ended, in order.\<close>

fun trace_of :: "event list \<Rightarrow> string list" where
  "trace_of [] = []"
| "trace_of (v # vs) =
     (case v of
        EvTaskStart a b name c d \<Rightarrow> [''+'' @ name]
      | EvTaskEnd a b name c st err \<Rightarrow> [''-'' @ name @ '' '' @ st]
      | EvWorkflowStart name a b c d ee f \<Rightarrow> [''+'' @ name]
      | EvWorkflowEnd name a b c d st err \<Rightarrow> [''-'' @ name @ '' '' @ st]
      | EvError s \<Rightarrow> [''! '' @ s]
      | EvActivity a \<Rightarrow> [''(''] | EvActivityEnd a \<Rightarrow> ['')''] | _ \<Rightarrow> []) @ trace_of vs"

definition trace :: "(go_error + response) m \<Rightarrow> string list" where
  "trace m = (case m session_world of
      Inl OutOfFuel \<Rightarrow> [''fuel'']
    | Inl (Crash s) \<Rightarrow> [''crash'', s]
    | Inr (r, w) \<Rightarrow> trace_of (map pb_event (wd_logs w 0)))"

text \<open>A session in which a workflow runs, and a switch that runs one of its tasks.\<close>

definition running0 :: world where
  "running0 = session_world\<lparr>
     wd_procs := (\<lambda>p. (new_process urls0 None (Some (flow0 [task0 ''t'' []] [] [])) None)\<lparr>pr_state := Some 7\<rparr>),
     wd_nproc := 1, wd_stack := [0]\<rparr>"

definition switch0 :: request where
  "switch0 = RqSwitch \<lparr>sw_source_key = ''k'', sw_cases = [],
     sw_default = Some \<lparr>sc_request = None, sc_task = ''t'', sc_value = VNil\<rparr>\<rparr>"

lemma switch0_returns: "\<exists>r w'. endly_run env0 1 0 switch0 running0 = Inr (r, w')"
proof -
  have "is_ok (endly_run env0 1 0 switch0 running0)" by code_simp
  then show ?thesis by (auto simp: is_ok_def split: sum.splits)
qed

lemma deferred0_returns:
  "\<exists>r w'. run_tasks env0 (engine env0 0) 0 0 (MkTasks [task0 ''t'' []] [] ''t'') running0 = Inr (r, w')"
proof -
  have "is_ok (run_tasks env0 (engine env0 0) 0 0 (MkTasks [task0 ''t'' []] [] ''t'') running0)" by code_simp
  then show ?thesis by (auto simp: is_ok_def split: sum.splits)
qed

lemma running0_fields:
  "wd_nctx running0 = 1" "wd_nlog running0 = 1" "cx_listener (wd_ctxs running0 c) = Some 0"
  "gr_waiting (wd_groups running0 g) = []" "wd_logs running0 l = []" "wd_stack running0 = [0]"
  by (simp_all add: running0_def session_world_def empty_world_def empty_ctx_def)

end
