(* ===== verification/Engine_Safety.thy ===== *)
theory Engine_Safety
  imports Engine_Kept Samples
begin

text \<open>
  What every run of the engine leaves as it was: the stack of processes, the logging flags of
  the contexts, the stacks of activities; and what it adds: events in matching pairs.
\<close>

section \<open>The relations\<close>

definition same_stack :: "world \<Rightarrow> world \<Rightarrow> bool" where
  "same_stack w w' \<longleftrightarrow> wd_stack w' = wd_stack w"

definition same_flags :: "world \<Rightarrow> world \<Rightarrow> bool" where
  "same_flags w w' \<longleftrightarrow> wd_nctx w \<le> wd_nctx w' \<and>
     (\<forall>c<wd_nctx w. cx_logging (wd_ctxs w' c) = cx_logging (wd_ctxs w c))"

definition same_activities :: "world \<Rightarrow> world \<Rightarrow> bool" where
  "same_activities w w' \<longleftrightarrow> wd_nproc w \<le> wd_nproc w' \<and>
     (\<forall>p<wd_nproc w. as_items (pr_activities (wd_procs w' p)) = as_items (pr_activities (wd_procs w p)))"

text \<open>Words of events in which every start has its end, properly nested.\<close>

inductive balanced :: "event list \<Rightarrow> bool" where
  balanced_Nil: "balanced []"
| balanced_plain: "plain v \<Longrightarrow> balanced [v]"
| balanced_pair: "matching s t \<Longrightarrow> balanced es \<Longrightarrow> balanced (s # es @ [t])"
| balanced_append: "balanced es \<Longrightarrow> balanced fs \<Longrightarrow> balanced (es @ fs)"

definition log_events :: "world \<Rightarrow> nat \<Rightarrow> event list" where
  "log_events w l = map pb_event (wd_logs w l)"

definition balanced_logs :: "world \<Rightarrow> world \<Rightarrow> bool" where
  "balanced_logs w w' \<longleftrightarrow> wd_nlog w \<le> wd_nlog w' \<and>
     (\<forall>l<wd_nlog w. \<exists>es. log_events w' l = log_events w l @ es \<and> balanced es)"

lemma log_events_append:
  "log_events (append_log l x w) k = log_events w k @ (if k = l then [pb_event x] else [])"
  by (simp add: log_events_def append_log_def)

lemma log_events_fold:
  "log_events (fold (append_log l) xs w) k = log_events w k @ (if k = l then map pb_event xs else [])"
  by (induction xs arbitrary: w) (simp_all add: log_events_append)

lemma fold_append_log_frame:
  "wd_stack (fold (append_log l) xs w) = wd_stack w" "wd_ctxs (fold (append_log l) xs w) = wd_ctxs w"
  "wd_nctx (fold (append_log l) xs w) = wd_nctx w" "wd_procs (fold (append_log l) xs w) = wd_procs w"
  "wd_nproc (fold (append_log l) xs w) = wd_nproc w" "wd_nlog (fold (append_log l) xs w) = wd_nlog w"
  by (induction xs arbitrary: w) (simp_all add: append_log_def)

section \<open>The interpretations\<close>

interpretation stack_rel: world_relation same_stack "\<lambda>w l. True"
  by unfold_locales
    (auto simp: same_stack_def same_view_def append_log_def fold_append_log_frame log_flag_def push_act_def
      pop_act_def processes_push_pop)

interpretation flag_rel: world_relation same_flags "\<lambda>w l. True"
  by unfold_locales
    (auto simp: same_flags_def same_view_def steady_def append_log_def fold_append_log_frame log_flag_def
      push_act_def pop_act_def split: if_splits)

interpretation activity_rel: world_relation same_activities "\<lambda>w l. True"
  by unfold_locales
    (auto simp: same_activities_def same_view_def append_log_def fold_append_log_frame log_flag_def push_act_def
      pop_act_def activities_push_def activities_pop_def Let_def split: if_splits)

lemma balanced_logs_R_events:
  assumes xy: "matching (pb_event x) (pb_event y)" and h: "balanced_logs (append_log l x w) w'"
  shows "balanced_logs w (append_log l y w')"
  unfolding balanced_logs_def
proof (intro conjI allI impI)
  show "wd_nlog w \<le> wd_nlog (append_log l y w')" using h by (simp add: balanced_logs_def append_log_def)
  fix k assume "k < wd_nlog w"
  then obtain es where es: "log_events w' k = log_events (append_log l x w) k @ es" "balanced es"
    using h by (auto simp: balanced_logs_def append_log_def)
  show "\<exists>es. log_events (append_log l y w') k = log_events w k @ es \<and> balanced es"
  proof (cases "k = l")
    case True
    with es show ?thesis
      by (intro exI [of _ "pb_event x # es @ [pb_event y]"]) (simp add: log_events_append balanced_pair [OF xy])
  next
    case False
    with es show ?thesis by (intro exI [of _ es]) (simp add: log_events_append)
  qed
qed

lemma balanced_logs_append: "balanced es \<Longrightarrow> balanced_logs w w' \<Longrightarrow>
    log_events w'' = (\<lambda>k. log_events w' k @ (if k = l then es else [])) \<Longrightarrow> wd_nlog w'' = wd_nlog w' \<Longrightarrow>
    balanced_logs w w''"
  by (fastforce simp: balanced_logs_def intro: balanced_append)

lemma balanced_logs_frame:
  "balanced_logs w1 w2 \<Longrightarrow> wd_logs w1 = wd_logs w \<Longrightarrow> wd_nlog w1 = wd_nlog w \<Longrightarrow>
     wd_logs w' = wd_logs w2 \<Longrightarrow> wd_nlog w' = wd_nlog w2 \<Longrightarrow> balanced_logs w w'"
  by (simp add: balanced_logs_def log_events_def)

lemma balanced_logs_refl: "balanced_logs w w"
  by (auto simp: balanced_logs_def intro: balanced_Nil)

lemma balanced_logs_trans:
  assumes "balanced_logs w1 w2" "balanced_logs w2 w3"
  shows "balanced_logs w1 w3"
  unfolding balanced_logs_def
proof (intro conjI allI impI)
  show "wd_nlog w1 \<le> wd_nlog w3" using assms by (simp add: balanced_logs_def)
  fix l assume "l < wd_nlog w1"
  then obtain es fs where "log_events w2 l = log_events w1 l @ es" "balanced es"
    "log_events w3 l = log_events w2 l @ fs" "balanced fs"
    using assms unfolding balanced_logs_def by (meson less_le_trans)
  then show "\<exists>es. log_events w3 l = log_events w1 l @ es \<and> balanced es"
    by (intro exI [of _ "es @ fs"]) (simp add: balanced_append)
qed

interpretation log_rel: world_relation balanced_logs "\<lambda>w l. balanced (log_events w l)"
proof (unfold_locales, goal_cases)
  case (1 w1 w2 w3) then show ?case by (rule balanced_logs_trans)
next
  case (2 w w') then show ?case
    by (auto simp: same_view_def steady_def balanced_logs_def log_events_def intro!: exI [of _ "[]"] balanced_Nil)
next
  case (3 w l) then show ?case by (simp add: log_events_def balanced_Nil)
next
  case (4 w' l w) then show ?case by (simp add: log_events_def)
next
  case (5 w w' l) then show ?case unfolding balanced_logs_def by (metis balanced_append)
next
  case (6 x w l) show ?case
    by (rule balanced_logs_append [OF balanced_plain [OF 6] balanced_logs_refl, of _ _ l])
      (rule ext, rule log_events_append, simp add: append_log_def)
next
  case (7 w l xs k) show ?case
    by (rule balanced_logs_append [of "map pb_event xs", OF _ balanced_logs_refl, of _ _ k])
      (use 7 in \<open>simp add: log_events_def\<close>, rule ext, rule log_events_fold, rule fold_append_log_frame)
next
  case (8 x y l w w') then show ?case by (rule balanced_logs_R_events)
next
  case (9 c lg w w') then show ?case by (rule balanced_logs_frame) (simp_all add: log_flag_def)
next
  case (10 p w w') then show ?case by (rule balanced_logs_frame) simp_all
next
  case (11 p a w w') then show ?case by (rule balanced_logs_frame) (simp_all add: push_act_def pop_act_def)
next
  case (12 x b y l p a w w')
  then have "balanced_logs (push_act p a w) (append_log l y w')"
    by (intro balanced_logs_R_events [of x]) (simp_all add: matching_activity_simps)
  then show ?case
    by (rule balanced_logs_frame) (simp_all add: push_act_def pop_act_def append_log_def)
qed

section \<open>Brackets\<close>

text \<open>
  The same as a machine. An event opens or closes a bracket, or neither; \<open>open_events\<close> keeps
  the stack of the open ones and fails at an event that closes another one.
\<close>

datatype bracket =
    TaskBracket string string string string
  | WorkflowBracket string string string string string
  | ActivityBracket nat
  | RequestBracket

definition opens :: "event \<Rightarrow> bracket option" where
  "opens v = (case v of
      EvTaskStart flow owner name session _ \<Rightarrow> Some (TaskBracket flow owner name session)
    | EvWorkflowStart name owner parent powner session _ _ \<Rightarrow> Some (WorkflowBracket name owner parent powner session)
    | EvActivity a \<Rightarrow> Some (ActivityBracket a)
    | EvRequest _ _ \<Rightarrow> Some RequestBracket
    | _ \<Rightarrow> None)"

definition closes :: "event \<Rightarrow> bracket option" where
  "closes v = (case v of
      EvTaskEnd flow owner name session _ _ \<Rightarrow> Some (TaskBracket flow owner name session)
    | EvWorkflowEnd name owner parent powner session _ _ \<Rightarrow> Some (WorkflowBracket name owner parent powner session)
    | EvActivityEnd a \<Rightarrow> Some (ActivityBracket a)
    | EvResponse _ \<Rightarrow> Some RequestBracket
    | _ \<Rightarrow> None)"

fun open_events :: "bracket list \<Rightarrow> event list \<Rightarrow> bracket list option" where
  "open_events st [] = Some st"
| "open_events st (v # vs) =
     (case opens v of
        Some b \<Rightarrow> open_events (b # st) vs
      | None \<Rightarrow>
          (case closes v of
             None \<Rightarrow> open_events st vs
           | Some b \<Rightarrow> if st \<noteq> [] \<and> hd st = b then open_events (tl st) vs else None))"

lemma matching_brackets: "matching s t \<Longrightarrow> \<exists>b. opens s = Some b \<and> opens t = None \<and> closes t = Some b"
  by (cases rule: matching.cases) (auto simp: opens_def closes_def)

lemma plain_brackets: "plain v \<Longrightarrow> opens v = None \<and> closes v = None"
  by (cases v) (simp_all add: opens_def closes_def)

lemma open_events_balanced: "balanced es \<Longrightarrow> open_events st (es @ fs) = open_events st fs"
proof (induction es arbitrary: st fs rule: balanced.induct)
  case (balanced_pair s t es)
  with matching_brackets [of s t] show ?case by auto
qed (simp_all add: plain_brackets)

section \<open>Properties\<close>

definition no_goroutine_waits :: "world \<Rightarrow> bool" where
  "no_goroutine_waits w \<longleftrightarrow> (\<forall>g. gr_waiting (wd_groups w g) = [])"

definition listens :: "world \<Rightarrow> nat \<Rightarrow> bool" where
  "listens w c \<longleftrightarrow> c < wd_nctx w \<and> (\<forall>l. cx_listener (wd_ctxs w c) = Some l \<longrightarrow> l < wd_nlog w)"

text \<open>
  C1: whatever a service run does - workflows within workflows, failing or exited ones,
  asynchronous actions in any schedule -, when it returns the stack of processes is what it
  was, every context has the logging flag it had, and every process has the stack of
  activities it had.
\<close>

theorem engine_restores:
  assumes "endly_run e n c req w = Inr (r, w')" "no_goroutine_waits w" "listens w c"
  shows "wd_stack w' = wd_stack w \<and>
         (\<forall>d<wd_nctx w. cx_logging (wd_ctxs w' d) = cx_logging (wd_ctxs w d)) \<and>
         (\<forall>p<wd_nproc w. as_items (pr_activities (wd_procs w' p)) = as_items (pr_activities (wd_procs w p)))"
proof -
  have idle: "gr_waiting (wd_groups w g) = []" for g using assms(2) by (simp add: no_goroutine_waits_def)
  have c: "c < wd_nctx w" "cx_listener (wd_ctxs w c) = Some k \<Longrightarrow> k < wd_nlog w" for k
    using assms(3) by (simp_all add: listens_def)
  have "same_stack w w'"
    using stack_rel.run_related [OF assms(1)] stack_rel.idle_valid [of w] idle c by blast
  moreover have "same_flags w w'"
    using flag_rel.run_related [OF assms(1)] flag_rel.idle_valid [of w] idle c by blast
  moreover have "same_activities w w'"
    using activity_rel.run_related [OF assms(1)] activity_rel.idle_valid [of w] idle c by blast
  ultimately show ?thesis by (simp add: same_stack_def same_flags_def same_activities_def)
qed

lemma running0_idle: "no_goroutine_waits running0" "listens running0 0"
  by (simp_all add: no_goroutine_waits_def listens_def running0_fields)

theorem engine_restores_witness:
  "\<exists>r w'. endly_run env0 1 0 switch0 running0 = Inr (r, w') \<and> wd_stack w' = [0]"
  using switch0_returns engine_restores [of env0 1 0 switch0 running0] running0_idle
  by (fastforce simp: running0_fields)




section \<open>Deferred tasks\<close>

lemma log_rel_extends:
  "log_rel.progress w w' \<Longrightarrow> l < wd_nlog w \<Longrightarrow> \<exists>es. log_events w' l = log_events w l @ es"
  by (auto simp: log_rel.progress_def balanced_logs_def)

lemma task_events_start:
  assumes run: "with_task_events c flow owner name tag m w = Inr (r, w')" and m: "log_rel.keeps {c} m"
    and h: "log_rel.has_all {c} w" and l: "cx_listener (wd_ctxs w c) = Some l"
  shows "\<exists>session es. log_events w' l = log_events w l @ EvTaskStart flow owner name session tag # es"
proof -
  let ?v = "EvTaskStart flow owner name (cx_session (wd_ctxs w c)) tag"
  obtain y w1 x w2 z where 1: "publish c ?v w = Inr (y, w1)" and 2: "m w1 = Inr (x, w2)"
    and 3: "publish c (EvTaskEnd flow owner name (cx_session (wd_ctxs w c)) (status_of (snd x)) (error_message (snd x))) w2
      = Inr (z, w')"
    using run by (auto simp: with_task_events_def mget_world_def mbind_Inr mseq_Inr Let_def split: prod.splits)
  have e: "emitted c ?v w w1" by (rule publish_emitted [OF 1])
  then have w1: "log_events w1 l = log_events w l @ [?v]" "wd_nlog w1 = wd_nlog w"
    using l by (auto simp: emitted_def log_events_def append_log_def)
  have h1: "log_rel.has_all {c} w1" by (rule log_rel.shift_has_all [OF h log_rel.emitted_shift [OF h _ e]]) simp
  have "l < wd_nlog w" using h l by (simp add: log_rel.has_all_def)
  with log_rel.keepsD [OF m h1 2] w1 obtain es where es: "log_events w2 l = log_events w1 l @ es"
    using log_rel_extends by metis
  have "\<exists>fs. log_events w' l = log_events w2 l @ fs"
    using publish_emitted [OF 3] by (auto simp: emitted_def log_events_append split: option.splits intro: exI [of _ "[]"])
  with es w1 show ?thesis by auto
qed

lemma run_task_starts:
  assumes run: "run_task e F c p t w = Inr (r, w')" and F: "log_rel.good_callees F"
    and h: "log_rel.has_all {c} w" and l: "cx_listener (wd_ctxs w c) = Some l"
  shows "\<exists>es flow owner session fs.
     log_events w' l = log_events w l @ es @ EvTaskStart flow owner (t_name t) session (template_tag t) # fs"
proof -
  obtain pr where pr: "set_task (Some t) (wd_procs w p) = Inr pr"
    using run by (auto simp: run_task_def mget_world_def mbind_Inr mcrash_def split: sum.splits)
  define w1 where "w1 = w\<lparr>wd_procs := (wd_procs w)(p := pr)\<rparr>"
  have "\<exists>res w2 st w3 (flow :: action workflow). new_map [] w1 = Inr (res, w2) \<and> get_state e c w2 = Inr (st, w3) \<and>
      with_task_events c (n_name (w_node flow)) (source_url pr) (t_name t) (template_tag t)
        (task_steps e F c p t st res) w3 = Inr (r, w')"
    using run pr unfolding w1_def
    by (clarsimp simp: run_task_def mget_world_def mbind_Inr mseq_Inr mcrash_def on_proc_def split: option.splits) blast
  then obtain res w2 st w3 and flow :: "action workflow" where 2: "new_map [] w1 = Inr (res, w2)" "get_state e c w2 = Inr (st, w3)"
    and 3: "with_task_events c (n_name (w_node flow)) (source_url pr) (t_name t) (template_tag t)
      (task_steps e F c p t st res) w3 = Inr (r, w')" by blast
  have "same_view w w1 \<and> groups_sub w1 w"
    using set_task_activities [OF pr] by (auto simp: w1_def same_view_def steady_def groups_sub_def)
  moreover have "same_view w1 w2 \<and> groups_sub w2 w1" "same_view w2 w3 \<and> groups_sub w3 w2"
    using 2 silent_new_map silent_state(1) unfolding silent_def by blast+
  ultimately have v: "same_view w w3" "groups_sub w3 w"
    using same_view_trans groups_sub_trans by blast+
  have "log_rel.valid w" using h by (simp add: log_rel.has_all_def)
  then have p: "log_rel.progress w w3" using log_rel.progress_same v by blast
  have h3: "log_rel.has_all {c} w3" using log_rel.has_all_step [OF h p] .
  have ll: "l < wd_nlog w" "c < wd_nctx w" using h l by (simp_all add: log_rel.has_all_def)
  have "cx_listener (wd_ctxs w3 c) = Some l" using v(1) l ll by (simp add: same_view_def steady_def)
  from task_events_start [OF 3 log_rel.keeps_task_steps [OF F] h3 this] obtain session fs
    where "log_events w' l = log_events w3 l @ EvTaskStart (n_name (w_node flow)) (source_url pr) (t_name t) session (template_tag t) # fs"
    by blast
  moreover have "log_events w3 l = log_events w l" using v(1) ll by (simp add: same_view_def log_events_def)
  ultimately show ?thesis by (metis append_Nil)
qed

text \<open>
  C3: the deferred task of a list of tasks is started whenever the list returns: after an
  error that nobody handled, after a handled one, after an exit, and when all went well.
\<close>

theorem deferred_task_is_always_started:
  assumes run: "run_tasks e (engine e n) c p node w = Inr (err, w')"
    and d: "tn_deferred node \<noteq> []" "find_task (tn_deferred node) node = Inr t"
    and idle: "no_goroutine_waits w" "listens w c" and l: "cx_listener (wd_ctxs w c) = Some l"
  shows "\<exists>es flow owner session fs.
     log_events w' l = log_events w l @ es @ EvTaskStart flow owner (t_name t) session (template_tag t) # fs"
proof -
  have F: "log_rel.good_callees (engine e n)" by (rule log_rel.keeps_engine)
  have h: "log_rel.has_all {c} w"
    using log_rel.idle_valid [of w] idle l by (simp add: log_rel.has_all_def no_goroutine_waits_def listens_def)
  obtain x1 w1 x2 w2 r where 1: "tasks_loop e (engine e n) c p node (tn_tasks node) w = Inr (x1, w1)"
    and 2: "(if x1 \<noteq> None then mret x1 else run_scheduled (engine e n) c p) w1 = Inr (x2, w2)"
    and 3: "run_task e (engine e n) c p t w2 = Inr (r, w')"
    using run d by (fastforce simp: run_tasks_def run_deferred_task_def mbind_Inr split: prod.splits)
  have p1: "log_rel.progress w w1" and h1: "log_rel.has_all {c} w1"
    using log_rel.keepsD [OF log_rel.keeps_tasks_loop [OF F] h 1] by auto
  have "log_rel.keeps {c} (if x1 \<noteq> None then mret x1 else run_scheduled (engine e n) c p)"
    by (auto intro: log_rel.keeps_scheduled [OF F] log_rel.keeps_silent silent_mret)
  from log_rel.keepsD [OF this h1 2] have p2: "log_rel.progress w1 w2" and h2: "log_rel.has_all {c} w2" by auto
  have p: "log_rel.progress w w2" using log_rel.progress_trans [OF p1 p2] .
  have ll: "l < wd_nlog w" "c < wd_nctx w" using idle l by (simp_all add: listens_def)
  have "cx_listener (wd_ctxs w2 c) = Some l" using p l ll by (simp add: log_rel.progress_def steady_def)
  obtain es0 where es0: "log_events w2 l = log_events w l @ es0" using log_rel_extends [OF p ll(1)] by blast
  obtain es flow owner session fs where
    "log_events w' l = log_events w2 l @ es @ EvTaskStart flow owner (t_name t) session (template_tag t) # fs"
    using run_task_starts [OF 3 F h2 \<open>cx_listener (wd_ctxs w2 c) = Some l\<close>] by blast
  with es0 have "log_events w' l = log_events w l @ (es0 @ es) @ EvTaskStart flow owner (t_name t) session (template_tag t) # fs"
    by simp
  then show ?thesis by blast
qed

theorem deferred_task_is_always_started_witness:
  "\<exists>err w' es flow owner session fs.
     run_tasks env0 (engine env0 0) 0 0 (MkTasks [task0 ''t'' []] [] ''t'') running0 = Inr (err, w') \<and>
     log_events w' 0 = es @ EvTaskStart flow owner ''t'' session None # fs"
proof -
  have t: "find_task ''t'' (MkTasks [task0 ''t'' []] [] ''t'') = Inr (task0 ''t'' [])" by code_simp
  have m: "template_tag (task0 ''t'' []) = None" "t_name (task0 ''t'' []) = ''t''" by code_simp+
  obtain r w' where run:
    "run_tasks env0 (engine env0 0) 0 0 (MkTasks [task0 ''t'' []] [] ''t'') running0 = Inr (r, w')"
    using deferred0_returns by blast
  from deferred_task_is_always_started [OF run _ _ running0_idle, of "task0 ''t'' []" 0] t run m show ?thesis
    by (auto simp: running0_fields log_events_def)
qed

end
