(* ===== verification/Engine_Order.thy ===== *)
theory Engine_Order
  imports Engine_Safety "HOL-Library.Sublist"
begin

text \<open>
  The order of the tasks, the effect of an exit, and the errors of asynchronous actions.
\<close>

section \<open>Termination of a process is for ever\<close>

definition same_or_terminated :: "world \<Rightarrow> world \<Rightarrow> bool" where
  "same_or_terminated w w' \<longleftrightarrow> wd_nproc w \<le> wd_nproc w' \<and>
     (\<forall>p<wd_nproc w. pr_terminated (wd_procs w p) \<longrightarrow> pr_terminated (wd_procs w' p))"

interpretation term_rel: world_relation same_or_terminated "\<lambda>w l. True"
  by unfold_locales
    (auto simp: same_or_terminated_def same_view_def append_log_def fold_append_log_frame log_flag_def push_act_def
      pop_act_def split: if_splits)

section \<open>The tasks run in their order\<close>

definition started_tasks :: "event list \<Rightarrow> string list" where
  "started_tasks es = concat (map (\<lambda>v. case v of EvTaskStart _ _ name _ _ \<Rightarrow> [name] | _ \<Rightarrow> []) es)"

lemma started_tasks_simps [simp]:
  "started_tasks (es @ fs) = started_tasks es @ started_tasks fs"
  "started_tasks (EvTaskStart flow owner name s tag # es) = name # started_tasks es"
  by (simp_all add: started_tasks_def)

definition ordinary :: "action tasks \<Rightarrow> action task \<Rightarrow> bool" where
  "ordinary node t \<longleftrightarrow> t_name t \<noteq> tn_on_error node \<and> t_name t \<noteq> tn_deferred node"

lemma term_rel_kept: "term_rel.progress w w' \<Longrightarrow> p < wd_nproc w \<Longrightarrow>
    pr_terminated (wd_procs w p) \<Longrightarrow> pr_terminated (wd_procs w' p)"
  by (simp add: term_rel.progress_def same_or_terminated_def)

lemma term_rel_nproc: "term_rel.progress w w' \<Longrightarrow> wd_nproc w \<le> wd_nproc w'"
  by (simp add: term_rel.progress_def same_or_terminated_def)

text \<open>The world is in order for both relations.\<close>

definition in_order :: "nat \<Rightarrow> nat \<Rightarrow> nat \<Rightarrow> world \<Rightarrow> bool" where
  "in_order c l p w \<longleftrightarrow> log_rel.has_all {c} w \<and> term_rel.has_all {c} w \<and>
     cx_listener (wd_ctxs w c) = Some l \<and> p < wd_nproc w"

lemma in_order_step:
  assumes "in_order c l p w" "log_rel.keeps {c} m" "term_rel.keeps {c} m" "m w = Inr (x, w')"
  shows "in_order c l p w' \<and> log_rel.progress w w' \<and> term_rel.progress w w'"
proof -
  have 1: "log_rel.progress w w' \<and> log_rel.has_all {c} w'" "term_rel.progress w w' \<and> term_rel.has_all {c} w'"
    using log_rel.keepsD [OF assms(2) _ assms(4)] term_rel.keepsD [OF assms(3) _ assms(4)] assms(1)
    by (auto simp: in_order_def)
  have "cx_listener (wd_ctxs w' c) = Some l"
    using 1 assms(1) by (simp add: in_order_def log_rel.progress_def log_rel.has_all_def steady_def)
  with 1 term_rel_nproc [of w w'] assms(1) show ?thesis by (auto simp: in_order_def)
qed

lemma in_order_log: "in_order c l p w \<Longrightarrow> log_rel.progress w w' \<Longrightarrow> \<exists>es. log_events w' l = log_events w l @ es"
  by (rule log_rel_extends) (auto simp: in_order_def log_rel.has_all_def)

lemma tasks_loop_order:
  assumes F: "log_rel.good_callees F" "term_rel.good_callees F"
  shows "tasks_loop e F c p node ts w = Inr (None, w') \<Longrightarrow> in_order c l p w \<Longrightarrow>
     \<not> pr_terminated (wd_procs w' p) \<Longrightarrow>
     \<exists>es. log_events w' l = log_events w l @ es \<and>
       subseq (map t_name (filter (ordinary node) ts)) (started_tasks es)"
proof (induction ts arbitrary: w)
  case Nil
  then show ?case by auto
next
  case (Cons t ts)
  note keeps = log_rel.keeps_tasks_loop [OF F(1)] term_rel.keeps_tasks_loop [OF F(2)]
    log_rel.keeps_run_task [OF F(1)] term_rel.keeps_run_task [OF F(2)]
    log_rel.keeps_on_error [OF F(1)] term_rel.keeps_on_error [OF F(2)]
  show ?case
  proof (cases "ordinary node t")
    case False
    with Cons show ?thesis by (auto simp: ordinary_def)
  next
    case True
    have "\<not> pr_terminated (wd_procs w p)"
    proof
      assume t: "pr_terminated (wd_procs w p)"
      have p: "p < wd_nproc w" using Cons.prems(2) by (simp add: in_order_def)
      have "term_rel.progress w w'"
        using in_order_step [OF Cons.prems(2) keeps(1,2) Cons.prems(1)] by blast
      with t p Cons.prems(3) show False using term_rel_kept by blast
    qed
    with Cons.prems(1) True obtain res err w1 where 1: "run_task e F c p t w = Inr ((res, err), w1)"
      and 2: "(case err of None \<Rightarrow> tasks_loop e F c p node ts
          | Some x \<Rightarrow> mbind (run_on_error_task e F c p node x) (\<lambda>err.
              if err = None then tasks_loop e F c p node ts else mret err)) w1 = Inr (None, w')"
      by (auto simp: ordinary_def mget_world_def mbind_Inr split: prod.splits)
    from in_order_step [OF Cons.prems(2) keeps(3,4) 1] have o1: "in_order c l p w1" by blast
    obtain es flow owner session fs where start:
      "log_events w1 l = log_events w l @ es @ EvTaskStart flow owner (t_name t) session (template_tag t) # fs"
      using run_task_starts [OF 1 F(1), of l] Cons.prems(2) by (auto simp: in_order_def)
    obtain w2 where 3: "tasks_loop e F c p node ts w2 = Inr (None, w')" and o2: "in_order c l p w2"
      and "\<exists>gs. log_events w2 l = log_events w1 l @ gs"
    proof (cases err)
      case None
      with 2 o1 that show ?thesis by auto
    next
      case (Some x)
      with 2 obtain w2 where "run_on_error_task e F c p node x w1 = Inr (None, w2)"
        "tasks_loop e F c p node ts w2 = Inr (None, w')" by (auto simp: mbind_Inr split: if_splits)
      with in_order_step [OF o1 keeps(5,6)] in_order_log [OF o1] that show ?thesis by metis
    qed
    then obtain gs where gs: "log_events w2 l = log_events w1 l @ gs" by blast
    from Cons.IH [OF 3 o2 Cons.prems(3)] obtain hs where hs: "log_events w' l = log_events w2 l @ hs"
      "subseq (map t_name (filter (ordinary node) ts)) (started_tasks hs)" by blast
    let ?es = "es @ EvTaskStart flow owner (t_name t) session (template_tag t) # fs @ gs @ hs"
    have "log_events w' l = log_events w l @ ?es" using start gs hs(1) by simp
    moreover have "subseq (map t_name (filter (ordinary node) (t # ts))) (started_tasks ?es)"
      using hs(2) True by (simp add: list_emb_append2 subseq_Cons2 list_emb_append2)
    ultimately show ?thesis by blast
  qed
qed

lemma idle_in_order:
  assumes "no_goroutine_waits w" "listens w c" "cx_listener (wd_ctxs w c) = Some l" "p < wd_nproc w"
  shows "in_order c l p w"
  using assms log_rel.idle_valid [of w] term_rel.idle_valid [of w]
  by (simp add: in_order_def log_rel.has_all_def term_rel.has_all_def no_goroutine_waits_def listens_def)

text \<open>
  C4: when a list of tasks returns without an error and its process was not exited, all its
  tasks but the error task and the deferred task were started, in the order of the list.
\<close>

theorem tasks_run_in_order:
  assumes run: "run_tasks e (engine e n) c p node w = Inr (None, w')" and live: "\<not> pr_terminated (wd_procs w' p)"
    and idle: "no_goroutine_waits w" "listens w c" "cx_listener (wd_ctxs w c) = Some l" "p < wd_nproc w"
  shows "\<exists>es. log_events w' l = log_events w l @ es \<and>
     subseq (map t_name (filter (ordinary node) (tn_tasks node))) (started_tasks es)"
proof -
  let ?F = "engine e n"
  have o: "in_order c l p w" by (rule idle_in_order [OF idle])
  obtain w1 w2 where 1: "tasks_loop e ?F c p node (tn_tasks node) w = Inr (None, w1)"
    and 2: "run_scheduled ?F c p w1 = Inr (None, w2)" and 3: "run_deferred_task e ?F c p node w2 = Inr (None, w')"
    using run by (auto simp: run_tasks_def mbind_Inr split: if_splits)
  have o1: "in_order c l p w1"
    using in_order_step [OF o log_rel.keeps_tasks_loop term_rel.keeps_tasks_loop 1] log_rel.keeps_engine
      term_rel.keeps_engine by blast
  have 12: "in_order c l p w2 \<and> log_rel.progress w1 w2 \<and> term_rel.progress w1 w2"
    using in_order_step [OF o1 log_rel.keeps_scheduled term_rel.keeps_scheduled 2] log_rel.keeps_engine
      term_rel.keeps_engine by blast
  have 23: "log_rel.progress w2 w' \<and> term_rel.progress w2 w'"
    using in_order_step [OF _ log_rel.keeps_deferred term_rel.keeps_deferred 3] 12 log_rel.keeps_engine
      term_rel.keeps_engine by blast
  have "term_rel.progress w1 w'" using 12 23 term_rel.progress_trans by blast
  then have "\<not> pr_terminated (wd_procs w1 p)" using o1 live term_rel_kept by (auto simp: in_order_def)
  then obtain es where es: "log_events w1 l = log_events w l @ es"
    "subseq (map t_name (filter (ordinary node) (tn_tasks node))) (started_tasks es)"
    using tasks_loop_order [OF log_rel.keeps_engine term_rel.keeps_engine 1 o] by blast
  have "log_rel.progress w1 w'" using 12 23 log_rel.progress_trans by blast
  then obtain fs where "log_events w' l = log_events w1 l @ fs" using in_order_log [OF o1] by blast
  with es show ?thesis by (intro exI [of _ "es @ fs"]) (simp add: list_emb_prefix)
qed

theorem tasks_run_in_order_witness:
  "\<exists>w' es. run_tasks env0 (engine env0 0) 0 0 (MkTasks [task0 ''a'' []] [] []) running0 = Inr (None, w') \<and>
     log_events w' 0 = es \<and> subseq [''a''] (started_tasks es)"
proof -
  let ?node = "MkTasks [task0 ''a'' []] [] []"
  have "case run_tasks env0 (engine env0 0) 0 0 ?node running0 of
      Inr (None, w') \<Rightarrow> \<not> pr_terminated (wd_procs w' 0) | _ \<Rightarrow> False" by code_simp
  then obtain w' where run: "run_tasks env0 (engine env0 0) 0 0 ?node running0 = Inr (None, w')"
    and "\<not> pr_terminated (wd_procs w' 0)" by (auto split: sum.splits option.splits prod.splits)
  moreover have "map t_name (filter (ordinary ?node) (tn_tasks ?node)) = [''a'']" "0 < wd_nproc running0"
    by (simp_all add: ordinary_def t_name_def task0_def running0_def)
  ultimately show ?thesis
    using tasks_run_in_order [of env0 0 0 0 ?node running0 w' 0] running0_idle
    by (auto simp: running0_fields log_events_def)
qed

section \<open>An exited process\<close>

text \<open>Between its events a task sees the processes that were there when it started.\<close>

lemma publish_procs: "publish c v w = Inr (y, w') \<Longrightarrow> wd_procs w' = wd_procs w"
  using publish_emitted [of c v w y w'] by (auto simp: emitted_def append_log_def split: option.splits)

lemma with_task_events_cong:
  assumes "\<And>v. wd_procs v = wd_procs w \<Longrightarrow> m v = m' v"
  shows "with_task_events c flow owner name tag m w = with_task_events c flow owner name tag m' w"
proof -
  have "publish c v w = Inr (y, w1) \<Longrightarrow> m w1 = m' w1" for v y w1 using assms publish_procs by blast
  then show ?thesis
    by (auto simp: with_task_events_def mget_world_def mbind_def mseq_def Let_def split: sum.splits)
qed

lemma terminated_node: "pr_terminated (wd_procs w p) \<Longrightarrow> run_node e c kind p node h w = Inr (None, w)"
  by (simp add: run_node_def mget_world_def mbind_def can_run_def mret_def)

lemma terminated_task_steps:
  assumes "pr_terminated (wd_procs w p)" "async_actions t = []"
  shows "task_steps e F c p t st res w = task_steps e F' c p t st res w"
  using assms
  by (simp add: task_steps_def new_group_def mbind_def [of new_group] mbind_def [of "run_node _ _ _ _ _ _"]
      terminated_node)

lemma terminated_task:
  assumes "pr_terminated (wd_procs w p)" "async_actions t = []"
  shows "run_task e F c p t w = run_task e F' c p t w"
proof (cases "set_task (Some t) (wd_procs w p)")
  case (Inl err)
  then show ?thesis by (simp add: run_task_def mget_world_def mbind_def)
next
  case (Inr pr)
  have pr: "pr_terminated pr" using set_task_activities [OF Inr] assms(1) by simp
  have "get_state e c v = Inr (st, v') \<Longrightarrow> wd_procs v' = wd_procs v" for v st v'
    by (auto simp: get_state_def ctx_state_def new_map_def alloc_def mbind_Inr mseq_Inr on_ctx_def split: option.splits)
  then have kept: "pr_terminated (wd_procs v' p)"
    if "new_map [] (w\<lparr>wd_procs := (wd_procs w)(p := pr)\<rparr>) = Inr (res, v)" "get_state e c v = Inr (st, v')" for res v st v'
    using that pr by (auto simp: new_map_def alloc_def)
  have "with_task_events c flow owner name tag (task_steps e F c p t st res) v' =
      with_task_events c flow owner name tag (task_steps e F' c p t st res) v'"
    if "new_map [] (w\<lparr>wd_procs := (wd_procs w)(p := pr)\<rparr>) = Inr (res, v)" "get_state e c v = Inr (st, v')"
    for res v st v' flow owner name tag
    by (rule with_task_events_cong, rule terminated_task_steps) (use kept [OF that] assms(2) in simp_all)
  with Inr show ?thesis
    by (auto simp: run_task_def mget_world_def mbind_def mseq_def on_proc_def mupdate_def split: sum.splits option.splits)
qed



section \<open>Asynchronous actions\<close>

lemma publish_frame:
  "publish c v w = Inr (y, w') \<Longrightarrow> wd_groups w' = wd_groups w \<and> wd_schedule w' = wd_schedule w"
  using publish_emitted [of c v w y w'] by (auto simp: emitted_def append_log_def split: option.splits)

lemma fork_frame:
  "fork_ctx e c w = Inr (dl, w') \<Longrightarrow> wd_groups w' = wd_groups w \<and> wd_schedule w' = wd_schedule w"
  by (auto simp: fork_ctx_def clone_ctx_def make_async_safe_def Let_def new_map_def alloc_def mbind_Inr mseq_Inr
      add_ctx_def on_ctx_def on_heap_def mget_world_def split: option.splits)

lemma spawn_late:
  "spawn_actions e F c p g acts ge w = Inr (r, w') \<Longrightarrow> wd_schedule w = [] \<Longrightarrow>
     r = ge \<and> gr_error (wd_groups w' g) = gr_error (wd_groups w g) \<and>
     map (\<lambda>(d, l, a). a) (gr_waiting (wd_groups w' g)) = map (\<lambda>(d, l, a). a) (gr_waiting (wd_groups w g)) @ acts"
proof (induction acts arbitrary: w)
  case Nil
  then show ?case by auto
next
  case (Cons act acts)
  obtain y w0 d l w1 where 0: "publish c (EvAsync act) w = Inr (y, w0)" and 1: "fork_ctx e c w0 = Inr ((d, l), w1)"
    and 2: "spawn_actions e F c p g acts ge (w1\<lparr>wd_groups := (wd_groups w1)(g := (wd_groups w1 g)\<lparr>gr_waiting :=
      gr_waiting (wd_groups w1 g) @ [(d, l, act)]\<rparr>)\<rparr>) = Inr (r, w')"
    and "wd_groups w1 = wd_groups w" "wd_schedule w1 = []"
  proof -
    from Cons.prems obtain y w0 d l w1 b w2 where 0: "publish c (EvAsync act) w = Inr (y, w0)"
      and 1: "fork_ctx e c w0 = Inr ((d, l), w1)" and t: "take_schedule w1 = Inr (b, w2)"
      and 2: "(if b then mbind (run_async_action e F c p (d, l, act)) (\<lambda>err.
              spawn_actions e F c p g acts (if err = None then ge else err))
          else mseq (on_group g (\<lambda>x. x\<lparr>gr_waiting := gr_waiting x @ [(d, l, act)]\<rparr>))
              (spawn_actions e F c p g acts ge)) w2 = Inr (r, w')"
      by (auto simp: mbind_Inr mseq_Inr)
    have w1: "wd_groups w1 = wd_groups w" "wd_schedule w1 = []"
      using publish_frame [OF 0] fork_frame [OF 1] Cons.prems(2) by auto
    then have "b = False" "w2 = w1" using t by (simp_all add: take_schedule_def)
    with 2 that [OF 0 1 _ w1] show ?thesis by (auto simp: mseq_Inr on_group_def)
  qed
  with Cons.IH [OF 2] show ?case by simp
qed



end
