(* ===== verification/Engine_Fuel.thy ===== *)
theory Engine_Fuel
  imports Engine_Order
begin

text \<open>
  The fuel of the engine is the depth of nesting it may reach. A run that returns, or
  crashes, without using it up does the same with any more fuel, and requests that run
  nothing need none.
\<close>

section \<open>The order of the results\<close>

text \<open>\<open>below m m'\<close>: \<open>m'\<close> does what \<open>m\<close> does wherever \<open>m\<close> does not run out of fuel.\<close>

definition below :: "'a m \<Rightarrow> 'a m \<Rightarrow> bool" where
  "below m m' \<longleftrightarrow> (\<forall>w. m w = Inl OutOfFuel \<or> m' w = m w)"

definition below_callees :: "callees \<Rightarrow> callees \<Rightarrow> bool" where
  "below_callees F F' \<longleftrightarrow>
     (\<forall>c req. below (c_run F c req) (c_run F' c req)) \<and>
     (\<forall>c p node. below (c_tasks F c p node) (c_tasks F' c p node))"

named_theorems below_intros \<open>structural rules of the order\<close>

lemma below_refl: "below m m"
  by (simp add: below_def)

lemma below_bind [below_intros]:
  assumes m: "below m m'" and f: "\<And>x. below (f x) (f' x)"
  shows "below (mbind m f) (mbind m' f')"
  unfolding below_def
proof
  fix w
  show "mbind m f w = Inl OutOfFuel \<or> mbind m' f' w = mbind m f w"
  proof (cases "m w")
    case (Inl s)
    have "m w = Inl OutOfFuel \<or> m' w = m w" using m by (simp add: below_def)
    with Inl show ?thesis by (auto simp: mbind_def)
  next
    case (Inr r)
    moreover have "m w = Inl OutOfFuel \<or> m' w = m w" using m by (simp add: below_def)
    then have "m' w = Inr r" using Inr by simp
    ultimately show ?thesis using f by (auto simp: below_def mbind_def split: prod.split)
  qed
qed

lemma below_seq [below_intros]: "below m m' \<Longrightarrow> below n n' \<Longrightarrow> below (mseq m n) (mseq m' n')"
  by (simp add: mseq_def below_bind)

lemma below_cases [below_intros]:
  "(b \<Longrightarrow> below m m') \<Longrightarrow> (\<not> b \<Longrightarrow> below n n') \<Longrightarrow> below (if b then m else n) (if b then m' else n')"
  "(x = None \<Longrightarrow> below m m') \<Longrightarrow> (\<And>y. x = Some y \<Longrightarrow> below (f y) (f' y)) \<Longrightarrow>
     below (case x of None \<Rightarrow> m | Some y \<Rightarrow> f y) (case x of None \<Rightarrow> m' | Some y \<Rightarrow> f' y)"
  "(\<And>y. s = Inl y \<Longrightarrow> below (g y) (g' y)) \<Longrightarrow> (\<And>z. s = Inr z \<Longrightarrow> below (h z) (h' z)) \<Longrightarrow>
     below (case s of Inl y \<Rightarrow> g y | Inr z \<Rightarrow> h z) (case s of Inl y \<Rightarrow> g' y | Inr z \<Rightarrow> h' z)"
  "(\<And>y z. below (k y z) (k' y z)) \<Longrightarrow> below (case q of (y, z) \<Rightarrow> k y z) (case q of (y, z) \<Rightarrow> k' y z)"
  "below m m' \<Longrightarrow> below n n' \<Longrightarrow> below (case b of True \<Rightarrow> m | False \<Rightarrow> n) (case b of True \<Rightarrow> m' | False \<Rightarrow> n')"
  by (simp_all split: option.split sum.split prod.split bool.split)

lemma below_callee:
  "below_callees F F' \<Longrightarrow> below (c_run F c req) (c_run F' c req)"
  "below_callees F F' \<Longrightarrow> below (c_tasks F c p node) (c_tasks F' c p node)"
  by (simp_all add: below_callees_def)

section \<open>The operations are monotone in what they call\<close>

lemma below_node_logging [below_intros]: "below m m' \<Longrightarrow> below (with_node_logging c lg m) (with_node_logging c lg m')"
  unfolding with_node_logging_def by (intro below_intros below_refl)

lemma below_run_node [below_intros]: "below h h' \<Longrightarrow> below (run_node e c k p node h) (run_node e c k p node h')"
  unfolding run_node_def by (intro below_intros below_refl)

lemma below_activity [below_intros]: "below m m' \<Longrightarrow> below (with_activity c p a m) (with_activity c p a m')"
  unfolding with_activity_def by (intro below_intros below_refl)

lemma below_task_events [below_intros]:
  "below m m' \<Longrightarrow> below (with_task_events c flow owner name tag m) (with_task_events c flow owner name tag m')"
  unfolding with_task_events_def Let_def by (intro below_intros below_refl)

lemma below_workflow_events [below_intros]:
  "below m m' \<Longrightarrow> below (with_workflow_events c name owner q ts tags m) (with_workflow_events c name owner q ts tags m')"
  unfolding with_workflow_events_def Let_def by (intro below_intros below_refl)

lemma below_service_events [below_intros]:
  "below m m' \<Longrightarrow> below (with_service_events c sid act m) (with_service_events c sid act m')"
  unfolding with_service_events_def by (intro below_intros below_refl)

lemma below_process [below_intros]: "below m m' \<Longrightarrow> below (with_process c p m) (with_process c p m')"
  unfolding with_process_def by (intro below_intros below_refl)

lemma below_repeater [below_intros]:
  assumes "below h h'"
  shows "below (repeater_run e c caller rep h a) (repeater_run e c caller rep h' a)"
proof -
  have "below (repeat_times e n c caller rep h a) (repeat_times e n c caller rep h' a)" for n
  proof (induction n)
    case 0
    show ?case by (simp add: below_refl)
  next
    case (Suc n)
    show ?case unfolding repeat_times.simps by (intro below_intros below_refl assms Suc)
  qed
  then show ?thesis by (simp add: repeater_run_def)
qed

lemma below_run_action [below_intros]:
  "below_callees F F' \<Longrightarrow> below (run_action e F c act p) (run_action e F' c act p)"
  unfolding run_action_def action_body_def Let_def by (intro below_intros below_callee below_refl)

lemma below_repeat_action [below_intros]:
  "below_callees F F' \<Longrightarrow> below (repeat_action e F c act p res) (repeat_action e F' c act p res)"
  unfolding repeat_action_def action_handler_def by (intro below_intros below_refl)

lemma below_async_action [below_intros]:
  "below_callees F F' \<Longrightarrow> below (run_async_action e F c p j) (run_async_action e F' c p j)"
  unfolding run_async_action_def by (intro below_intros below_refl)

lemma below_spawn [below_intros]:
  "below_callees F F' \<Longrightarrow> below (spawn_actions e F c p g acts ge) (spawn_actions e F' c p g acts ge)"
proof (induction acts arbitrary: ge)
  case Nil
  show ?case by (simp add: below_refl)
next
  case (Cons act acts)
  show ?case unfolding spawn_actions.simps by (intro below_intros below_refl Cons)
qed

lemma below_run_async [below_intros]:
  "below_callees F F' \<Longrightarrow> below (run_async_actions e F c p g acts) (run_async_actions e F' c p g acts)"
  unfolding run_async_actions_def by (intro below_intros below_refl)

lemma below_wait [below_intros]: "below_callees F F' \<Longrightarrow> below (wait_group e F c p g) (wait_group e F' c p g)"
proof -
  assume F: "below_callees F F'"
  have "below (run_waiting e F c p js) (run_waiting e F' c p js)" for js
  proof (induction js)
    case Nil
    show ?case by (simp add: below_refl)
  next
    case (Cons j js)
    show ?case unfolding run_waiting.simps by (intro below_intros Cons F)
  qed
  then show ?thesis unfolding wait_group_def by (intro below_intros below_refl)
qed

lemma below_run_actions [below_intros]:
  "below_callees F F' \<Longrightarrow> below (run_actions e F c p res acts) (run_actions e F' c p res acts)"
proof (induction acts rule: length_induct)
  case (1 acts)
  have IH: "length bs < length acts \<Longrightarrow> below (run_actions e F c p res bs) (run_actions e F' c p res bs)" for bs
    using 1 by blast
  show ?case
  proof (cases acts)
    case Nil
    then show ?thesis by (simp add: below_refl)
  next
    case (Cons a rest)
    have rest: "below (run_actions e F c p res rest) (run_actions e F' c p res rest)"
      "below (run_actions e F c p res (dropWhile (\<lambda>b. mt_id (a_meta b) = mt_id (a_meta a)) rest))
         (run_actions e F' c p res (dropWhile (\<lambda>b. mt_id (a_meta b) = mt_id (a_meta a)) rest))"
      by (intro IH; simp add: Cons le_imp_less_Suc length_dropWhile_le)+
    show ?thesis unfolding Cons run_actions.simps by (intro below_intros below_refl rest "1.prems")
  qed
qed

lemma below_run_task [below_intros]: "below_callees F F' \<Longrightarrow> below (run_task e F c p t) (run_task e F' c p t)"
  unfolding run_task_def task_steps_def task_body_def by (intro below_intros below_callee below_refl)

lemma below_tasks_loop [below_intros]:
  "below_callees F F' \<Longrightarrow> below (tasks_loop e F c p node ts) (tasks_loop e F' c p node ts)"
proof (induction ts)
  case Nil
  show ?case by (simp add: below_refl)
next
  case (Cons t ts)
  show ?case
    unfolding tasks_loop.simps run_on_error_task_def Let_def by (intro below_intros below_refl Cons)
qed

lemma below_run_tasks [below_intros]: "below_callees F F' \<Longrightarrow> below (run_tasks e F c p node) (run_tasks e F' c p node)"
  unfolding run_tasks_def run_scheduled_def run_deferred_task_def by (intro below_intros below_callee below_refl)

lemma below_run_workflow [below_intros]: "below_callees F F' \<Longrightarrow> below (run_workflow e F c r) (run_workflow e F' c r)"
  unfolding run_workflow_def workflow_body_def workflow_state_body_def workflow_tasks_body_def Let_def
  by (intro below_intros below_refl)

lemma below_service_run [below_intros]:
  "(\<And>q. below (h q) (h' q)) \<Longrightarrow> below (service_run c sid act r h) (service_run c sid act r h')"
  unfolding service_run_def by (intro below_intros below_refl)

lemma below_handle_run [below_intros]: "below_callees F F' \<Longrightarrow> below (handle_run e F c r) (handle_run e F' c r)"
  unfolding handle_run_def by (intro below_intros below_refl)

lemma below_handle_switch [below_intros]:
  "below_callees F F' \<Longrightarrow> below (handle_switch e F c r) (handle_switch e F' c r)"
  unfolding handle_switch_def by (intro below_intros below_refl)

lemma below_dispatch: "below_callees F F' \<Longrightarrow> below (dispatch e F c req) (dispatch e F' c req)"
  by (cases req) (simp_all add: dispatch_def below_refl below_service_run below_handle_run below_handle_switch)

lemma below_engine: "below_callees (engine e n) (engine e (n + k))"
proof (induction n)
  case 0
  show ?case by (simp add: below_callees_def below_def no_callees_def mout_def)
next
  case (Suc n)
  then show ?case by (simp add: below_callees_def below_dispatch below_run_tasks)
qed



end
