(* ===== verification/Tags.thy ===== *)
theory Tags
  imports Util_Text Nodes
begin

text \<open>
  model/tag.go, tag_iterator.go and model/graph/instances.go: the tag of a template, the
  iterator behind \<open>{min..max}\<close>, and the directories that match a template's sub path.
\<close>

section \<open>The iterator\<close>

record tag_iterator =
  it_template :: string
  it_min :: int
  it_max :: int
  it_index :: int

definition it_has :: "tag_iterator \<Rightarrow> bool" where
  "it_has it \<longleftrightarrow> it_index it \<le> it_max it"

definition it_next :: "tag_iterator \<Rightarrow> tag_iterator \<times> bool" where
  "it_next it = (let it' = it\<lparr>it_index := wrap64 (it_index it + 1)\<rparr> in (it', it_has it'))"

text \<open>
  \<open>fmt.Sprintf\<close> with a format \<open>%0Nd\<close>: the number is padded with zeros to \<open>N\<close> characters, the
  sign among them. A second \<open>0\<close> is the flag again, so \<open>%00d\<close> pads nothing.
\<close>

definition zero_pad :: "nat \<Rightarrow> int \<Rightarrow> string" where
  "zero_pad w i =
     (if i < 0 then CHR ''-'' # replicate (w - 1 - length (nat_digits (nat (- i)))) (CHR ''0'') @ nat_digits (nat (- i))
      else replicate (w - length (nat_digits (nat i))) (CHR ''0'') @ nat_digits (nat i))"

fun decimal :: "string \<Rightarrow> nat \<Rightarrow> nat" where
  "decimal [] n = n"
| "decimal (c # cs) n = (if is_digit c then decimal cs (10 * n + (of_char c - 48)) else n)"

definition sprintf_padded :: "string \<Rightarrow> int \<Rightarrow> string" where
  "sprintf_padded template i = zero_pad (decimal (drop 2 template) 0) i"

definition it_text :: "tag_iterator \<Rightarrow> string" where
  "it_text it = sprintf_padded (it_template it) (it_index it)"

text \<open>The rest of the key and the iterator; the slice panics when the brace closes first.\<close>

definition decode_iterator :: "toolbox \<Rightarrow> string \<Rightarrow> go_error + (string \<times> tag_iterator option)" where
  "decode_iterator tb key =
     (case index_of key ''{'' of
        None \<Rightarrow> Inr (key, None)
      | Some i \<Rightarrow> (case index_of key ''}'' of
            None \<Rightarrow> Inr (key, None)
          | Some j \<Rightarrow> ebind (go_slice key (int i + 1) (int j)) (\<lambda>constraint.
              (case map trim_space (split_on ''..'' constraint) of
                 [lo, hi] \<Rightarrow>
                   Inr (take i key,
                     Some \<lparr>it_template = ''%0'' @ as_string tb (VInt (int (length hi))) @ ''d'',
                           it_min = as_int tb (VStr lo), it_max = as_int tb (VStr hi),
                           it_index = as_int tb (VStr lo)\<rparr>)
               | _ \<Rightarrow> Inr (key, None)))))"

section \<open>Tags\<close>

record tag =
  tg_owner_url :: string
  tg_owner :: string
  tg_name :: string
  tg_group :: string
  tg_array :: bool
  tg_iterator :: "tag_iterator option"
  tg_line :: int
  tg_subpath :: string
  tg_path_match :: string
  tg_prefix :: string

definition has_active_iterator :: "tag option \<Rightarrow> bool" where
  "has_active_iterator t =
     (case t of None \<Rightarrow> False
      | Some x \<Rightarrow> (case tg_iterator x of None \<Rightarrow> False | Some it \<Rightarrow> it_has it))"

definition expand_path_if_needed :: "urls \<Rightarrow> tag \<Rightarrow> string \<Rightarrow> string \<times> string" where
  "expand_path_if_needed us t subpath =
     (if \<not> has_suffix subpath ''*'' then (subpath, []) else url_split us (tg_owner_url t))"

definition active_index :: "tag \<Rightarrow> string option" where
  "active_index t =
     (if has_active_iterator (Some t) then map_option it_text (tg_iterator t) else None)"

definition tag_map :: "toolbox \<Rightarrow> tag \<Rightarrow> smap" where
  "tag_map tb t =
     [(''pathMatch'', VStr (tg_path_match t)), (''subPath'', VStr (tg_subpath t))] @
     (case active_index t of
        None \<Rightarrow> []
      | Some i \<Rightarrow> [(''index'', VStr i), (''idx'', VInt (as_int tb (VStr i)))])"

definition tag_expand :: "toolbox \<Rightarrow> heap \<Rightarrow> tag \<Rightarrow> string \<Rightarrow> string" where
  "tag_expand tb h t s = expand_text_with tb h (tag_map tb t) s"

text \<open>
  A \<open>range\<close> loop over a string visits its runes; an invalid byte is U+FFFD of width one.
\<close>

definition cont_byte :: "nat \<Rightarrow> bool" where
  "cont_byte b \<longleftrightarrow> 128 \<le> b \<and> b \<le> 191"

fun rune_at :: "nat list \<Rightarrow> nat \<times> nat" where
  "rune_at (a # b # c # d # bs) =
     (if a < 128 then (a, 1)
      else if 194 \<le> a \<and> a \<le> 223 \<and> cont_byte b then ((a - 192) * 64 + (b - 128), 2)
      else if 224 \<le> a \<and> a \<le> 239 \<and> cont_byte b \<and> cont_byte c \<and> (a = 224 \<longrightarrow> 160 \<le> b) \<and> (a = 237 \<longrightarrow> b \<le> 159)
        then ((a - 224) * 4096 + (b - 128) * 64 + (c - 128), 3)
      else if 240 \<le> a \<and> a \<le> 244 \<and> cont_byte b \<and> cont_byte c \<and> cont_byte d \<and>
              (a = 240 \<longrightarrow> 144 \<le> b) \<and> (a = 244 \<longrightarrow> b \<le> 143)
        then ((a - 240) * 262144 + (b - 128) * 4096 + (c - 128) * 64 + (d - 128), 4)
      else (65533, 1))"
| "rune_at [a, b, c] =
     (if a < 128 then (a, 1)
      else if 194 \<le> a \<and> a \<le> 223 \<and> cont_byte b then ((a - 192) * 64 + (b - 128), 2)
      else if 224 \<le> a \<and> a \<le> 239 \<and> cont_byte b \<and> cont_byte c \<and> (a = 224 \<longrightarrow> 160 \<le> b) \<and> (a = 237 \<longrightarrow> b \<le> 159)
        then ((a - 224) * 4096 + (b - 128) * 64 + (c - 128), 3)
      else (65533, 1))"
| "rune_at [a, b] =
     (if a < 128 then (a, 1)
      else if 194 \<le> a \<and> a \<le> 223 \<and> cont_byte b then ((a - 192) * 64 + (b - 128), 2)
      else (65533, 1))"
| "rune_at [a] = (if a < 128 then (a, 1) else (65533, 1))"
| "rune_at [] = (65533, 1)"

lemma rune_at_width: "0 < snd (rune_at bs)"
  by (cases bs rule: rune_at.cases) auto

function runes :: "nat list \<Rightarrow> nat list" where
  "runes [] = []"
| "runes (b # bs) = fst (rune_at (b # bs)) # runes (drop (snd (rune_at (b # bs))) (b # bs))"
  by pat_completeness auto
termination
proof (relation "measure length")
  fix b bs
  show "(drop (snd (rune_at (b # bs))) (b # bs), b # bs) \<in> measure length"
    using rune_at_width [of "b # bs"] by simp
qed simp

text \<open>
  Letters and digits beyond ASCII are those of the Unicode tables, a parameter. The rune is
  cut to a byte when it is kept.
\<close>

definition tag_rune :: "(nat \<Rightarrow> bool) \<Rightarrow> nat \<Rightarrow> char option" where
  "tag_rune unicode r =
     (if r = 32 then Some (CHR ''_'')
      else if (if r < 128 then is_letter (char_of r) \<or> is_digit (char_of r) else unicode r) \<or> r = 95
      then Some (char_of (r mod 256)) else None)"

definition clean_tag :: "(nat \<Rightarrow> bool) \<Rightarrow> string \<Rightarrow> string" where
  "clean_tag unicode s = List.map_filter (tag_rune unicode) (runes (map of_char s))"

definition tag_id :: "toolbox \<Rightarrow> (nat \<Rightarrow> bool) \<Rightarrow> heap \<Rightarrow> tag \<Rightarrow> string" where
  "tag_id tb unicode h t =
     (let index = (case active_index t of None \<Rightarrow> [] | Some i \<Rightarrow> i);
          index' = (if tg_subpath t \<noteq> [] \<and> contains (tg_subpath t) index then [] else index);
          sub = (if contains (tg_name t) ''$'' \<and> contains (tg_subpath t) (tag_expand tb h t (tg_name t))
                 then [] else tg_subpath t);
          postfix = index' @ sub;
          postfix' = (if postfix \<noteq> [] \<and> tg_prefix t \<noteq> [] then '' '' @ postfix else postfix)
      in (if tg_group t \<noteq> [] then tg_group t @ ''_'' else []) @
         clean_tag unicode (tag_expand tb h t (tg_prefix t @ postfix')))"

definition new_tag :: "toolbox \<Rightarrow> string \<Rightarrow> string \<Rightarrow> string \<Rightarrow> int \<Rightarrow> go_error + tag" where
  "new_tag tb owner source key line =
     ebind (decode_iterator tb key) (\<lambda>(key', it).
       let array = 2 < length key' \<and> has_prefix key' ''[]'';
           name = (if array then drop 2 key' else key);
           name' = (case last_index_of name ''{'' of None \<Rightarrow> name | Some i \<Rightarrow> take i name)
       in Inr \<lparr>tg_owner_url = source, tg_owner = owner, tg_name = name', tg_group = [], tg_array = array,
            tg_iterator = it, tg_line = line, tg_subpath = [], tg_path_match = [],
            tg_prefix = (if owner \<noteq> [] then owner @ ''_'' else []) @ name'\<rparr>)"

section \<open>Instances of a sub path\<close>

text \<open>An entry of a directory (afs \<open>storage.Object\<close>), and a match of the sub path in its name.\<close>

record object =
  ob_url :: string
  ob_name :: string
  ob_dir :: bool

record tag_instance =
  gi_object :: object
  gi_tag :: string
  gi_match :: string
  gi_index :: int

record instances =
  is_list :: "tag_instance list"
  is_by_index :: "(int \<times> nat) list"
  is_min :: int
  is_max :: int

definition max_int :: int where
  "max_int = 2 ^ 63 - 1"

definition no_instances :: instances where
  "no_instances = \<lparr>is_list = [], is_by_index = [], is_min = max_int, is_max = 0\<rparr>"

definition instances_lookup :: "instances \<Rightarrow> int \<Rightarrow> tag_instance option" where
  "instances_lookup s i = map_option (\<lambda>pos. is_list s ! pos) (mget (is_by_index s) i)"

definition instances_range :: "instances \<Rightarrow> go_error + string" where
  "instances_range s =
     (case instances_lookup s (is_max s) of
        None \<Rightarrow> Inl (Panicked ''nil pointer dereference'')
      | Some m \<Rightarrow> Inr (show_int (is_min s) @ ''..'' @ gi_match m))"

definition match_expr :: "string \<Rightarrow> string" where
  "match_expr m =
     replace_first (replace_first m ''${index}'' (''('' @ [char_of (92::nat)] @ ''d+)'')) ''*'' ''.+''"

definition new_instance :: "toolbox \<Rightarrow> object \<Rightarrow> string \<Rightarrow> tag_instance" where
  "new_instance tb ob m =
     \<lparr>gi_object = ob, gi_tag = trim_char (replace_first (ob_name ob) m []) (CHR ''_''), gi_match = m,
      gi_index = as_int tb (VStr (trim_left m (CHR ''0'')))\<rparr>"

definition add_instance :: "tag_instance \<Rightarrow> instances \<Rightarrow> instances" where
  "add_instance x s =
     \<lparr>is_list = is_list s @ [x], is_by_index = mput (gi_index x) (length (is_list s)) (is_by_index s),
      is_min = (if gi_index x < is_min s \<or> is_min s = 0 then gi_index x else is_min s),
      is_max = (if is_max s < gi_index x then gi_index x else is_max s)\<rparr>"

text \<open>The instance of an entry: \<open>FindAllStringSubmatch\<close> gives the groups of the first match.\<close>

definition object_instance ::
  "toolbox \<Rightarrow> (string \<Rightarrow> string \<Rightarrow> bool) \<Rightarrow> (string \<Rightarrow> string list option) \<Rightarrow> string \<Rightarrow> object
     \<Rightarrow> tag_instance option" where
  "object_instance tb url_equals find_groups holder ob =
     (if url_equals (ob_url ob) holder then None
      else case find_groups (ob_name ob) of
        Some (whole # m # groups) \<Rightarrow> Some (new_instance tb ob m)
      | _ \<Rightarrow> None)"

definition new_instances ::
  "toolbox \<Rightarrow> (string \<Rightarrow> string \<Rightarrow> bool) \<Rightarrow> (string \<Rightarrow> go_error + (string \<Rightarrow> string list option)) \<Rightarrow> string \<Rightarrow> string
     \<Rightarrow> object list \<Rightarrow> go_error + instances" where
  "new_instances tb url_equals regexp holder m objects =
     (case regexp (match_expr m) of
        Inl e \<Rightarrow> Inl (Panicked (error_text e))
      | Inr find_groups \<Rightarrow>
          Inr (fold add_instance
                 (List.map_filter (object_instance tb url_equals find_groups holder) objects) no_instances))"

section \<open>What the iterator visits\<close>

text \<open>The documented conversions of decimal numbers.\<close>

definition decimal_text :: "string \<Rightarrow> bool" where
  "decimal_text s \<longleftrightarrow> s \<noteq> [] \<and> (\<forall>c\<in>set s. is_digit c)"

definition number_laws :: "toolbox \<Rightarrow> bool" where
  "number_laws tb \<longleftrightarrow>
     (\<forall>n. as_string tb (VInt (int n)) = nat_digits n) \<and>
     (\<forall>s. decimal_text s \<longrightarrow> int (decimal s 0) \<le> max_int \<longrightarrow> as_int tb (VStr s) = int (decimal s 0))"

lemma decimal_append: "\<forall>c\<in>set s. is_digit c \<Longrightarrow> decimal (s @ t) n = decimal t (decimal s n)"
  by (induction s arbitrary: n) auto

lemma decimal_stop: "\<not> is_digit c \<Longrightarrow> decimal (c # t) n = n"
  by simp

lemma digit_value: "n < 10 \<Longrightarrow> is_digit (char_of (48 + n)) \<and> (of_char (char_of (48 + n) :: char) :: nat) = 48 + n"
  for n :: nat
  by (simp add: is_digit_def)

lemma decimal_nat_digits: "decimal (nat_digits n) 0 = n"
proof (induction n rule: nat_digits.induct)
  case (1 n)
  show ?case
  proof (cases "n < 10")
    case True
    then show ?thesis using digit_value [of n] by (subst nat_digits.simps) simp
  next
    case False
    have "n mod 10 < 10" by simp
    note d = digit_value [OF this]
    have "decimal (nat_digits n) 0 = decimal [char_of (48 + n mod 10)] (decimal (nat_digits (n div 10)) 0)"
      using False by (subst nat_digits.simps) (simp add: decimal_append nat_digits_digit)
    also have "\<dots> = n" using 1 [OF False] d by simp
    finally show ?thesis .
  qed
qed

lemma nat_digits_text: "decimal_text (nat_digits n)"
  by (simp add: decimal_text_def nat_digits_nonempty nat_digits_digit)

lemma decimal_zeros: "decimal (replicate k (CHR ''0'') @ s) 0 = decimal s 0"
  by (induction k) (simp_all add: is_digit_def)

lemma zero_pad_text: "decimal_text (zero_pad w (int n)) \<and> decimal (zero_pad w (int n)) 0 = n"
proof -
  have "is_digit (CHR ''0'')" by (simp add: is_digit_def)
  then show ?thesis
    by (auto simp: zero_pad_def decimal_text_def decimal_zeros decimal_nat_digits nat_digits_nonempty
        nat_digits_digit)
qed

lemma padded_template: "sprintf_padded (''%0'' @ nat_digits w @ ''d'') i = zero_pad w i"
proof -
  have "\<not> is_digit (CHR ''d'')" by (simp add: is_digit_def)
  then have "decimal (nat_digits w @ ''d'') 0 = w"
    by (simp add: decimal_append nat_digits_digit decimal_nat_digits)
  then show ?thesis by (simp add: sprintf_padded_def)
qed

lemma decimal_text_plain: "decimal_text s \<Longrightarrow> plain_text s"
  by (auto simp: decimal_text_def plain_text_def is_digit_def ascii_space_def)

lemma decimal_text_no: "decimal_text s \<Longrightarrow> \<not> is_digit c \<Longrightarrow> c \<notin> set s"
  by (auto simp: decimal_text_def)

lemma split_dots:
  assumes "CHR ''.'' \<notin> set a" "CHR ''.'' \<notin> set b"
  shows "split_on ''..'' (a @ ''..'' @ b) = [a, b]"
proof -
  have b: "index_of b ''..'' = None"
    using assms(2) by (induction b) (auto simp: prefix_def)
  have a: "index_of (a @ ''..'' @ b) ''..'' = Some (length a)"
    using assms(1) by (induction a) (auto simp: prefix_def)
  then show ?thesis using b by (subst split_on.simps) (simp add: split_on.simps [of _ b])
qed

definition range_key :: "string \<Rightarrow> string \<Rightarrow> string \<Rightarrow> string" where
  "range_key name lo hi = name @ ''{'' @ lo @ ''..'' @ hi @ ''}''"

definition range_iterator :: "string \<Rightarrow> string \<Rightarrow> tag_iterator" where
  "range_iterator lo hi = \<lparr>it_template = ''%0'' @ nat_digits (length hi) @ ''d'', it_min = int (decimal lo 0),
     it_max = int (decimal hi 0), it_index = int (decimal lo 0)\<rparr>"

definition it_advance :: "tag_iterator \<Rightarrow> tag_iterator" where
  "it_advance it = fst (it_next it)"

lemma go_slice_middle: "go_slice (a @ b @ c) (int (length a)) (int (length a + length b)) = Inr b"
  by (simp add: go_slice_def)

lemma decode_range:
  assumes "number_laws tb" "decimal_text lo" "decimal_text hi"
    and bounds: "int (decimal lo 0) \<le> max_int" "int (decimal hi 0) \<le> max_int"
    and name: "CHR ''{'' \<notin> set name" "CHR ''}'' \<notin> set name"
  shows "decode_iterator tb (range_key name lo hi) = Inr (name, Some (range_iterator lo hi))"
proof -
  let ?key = "range_key name lo hi" and ?c = "lo @ ''..'' @ hi"
  have nd: "c \<notin> set lo" "c \<notin> set hi" if "\<not> is_digit c" for c
    using decimal_text_no assms(2,3) that by blast+
  have "\<not> is_digit (CHR ''}'')" "\<not> is_digit (CHR ''.'')" by (simp_all add: is_digit_def)
  note nd = nd [OF this(1)] nd [OF this(2)]
  have i: "index_of ?key ''{'' = Some (length name)"
    using index_of_char_append [OF name(1)] by (simp add: range_key_def)
  have "index_of ((name @ CHR ''{'' # ?c) @ CHR ''}'' # []) ''}'' = Some (length (name @ CHR ''{'' # ?c))"
    using name(2) nd by (intro index_of_char_append) auto
  then have j: "index_of ?key ''}'' = Some (length name + 1 + length ?c)" by (simp add: range_key_def)
  have "go_slice ((name @ ''{'') @ ?c @ ''}'') (int (length (name @ ''{'')))
      (int (length (name @ ''{'') + length ?c)) = Inr ?c"
    by (rule go_slice_middle)
  moreover have "(name @ ''{'') @ ?c @ ''}'' = ?key" by (simp add: range_key_def)
  ultimately have sl: "go_slice ?key (int (length name) + 1) (int (length name + 1 + length ?c)) = Inr ?c"
    by (simp add: add.commute)
  have sp: "map trim_space (split_on ''..'' ?c) = [lo, hi]"
    using split_dots [of lo hi] nd assms(2,3) by (simp add: trim_space_plain decimal_text_plain)
  have tk: "take (length name) ?key = name" by (simp add: range_key_def)
  have nums: "as_int tb (VStr lo) = int (decimal lo 0)" "as_int tb (VStr hi) = int (decimal hi 0)"
    "as_string tb (VInt (int (length hi))) = nat_digits (length hi)"
    using assms(1-3) bounds by (auto simp: number_laws_def)
  show ?thesis
    unfolding decode_iterator_def i j option.case sl ebind_simps sp list.case tk nums
    by (simp add: range_iterator_def)
qed

lemma it_advance_once: "it_advance (x\<lparr>it_index := i\<rparr>) = x\<lparr>it_index := wrap64 (i + 1)\<rparr>"
  by (simp add: it_advance_def it_next_def Let_def)

lemma it_advance_index:
  assumes "it_max it < max_int" "- (2 ^ 63) \<le> it_index it" "it_index it + int n \<le> it_max it + 1"
  shows "(it_advance ^^ n) it = it\<lparr>it_index := it_index it + int n\<rparr>"
  using assms(3)
proof (induction n)
  case (Suc n)
  then have "(it_advance ^^ n) it = it\<lparr>it_index := it_index it + int n\<rparr>" by simp
  moreover have "wrap64 (it_index it + int n + 1) = it_index it + int n + 1"
    using Suc.prems assms(1,2) by (intro wrap64_id) (simp_all add: max_int_def)
  ultimately show ?case by (simp add: it_advance_once algebra_simps)
qed simp

lemma it_text_padded: "it_text (range_iterator lo hi\<lparr>it_index := i\<rparr>) = zero_pad (length hi) i"
  using padded_template [of "length hi" i] by (simp add: it_text_def range_iterator_def)

text \<open>
  The tag of a key \<open>name{lo..hi}\<close> iterates over the numbers from \<open>lo\<close> to \<open>hi\<close>, each exactly
  once and in order, every index written with at least as many digits as \<open>hi\<close>, and then it is
  exhausted.
\<close>

theorem range_tag_iterates:
  assumes "number_laws tb" "decimal_text lo" "decimal_text hi"
    and "decimal lo 0 \<le> decimal hi 0" "int (decimal hi 0) < max_int"
    and "CHR ''{'' \<notin> set name" "CHR ''}'' \<notin> set name"
  shows "\<exists>t it. new_tag tb owner source (range_key name lo hi) line = Inr t \<and> tg_iterator t = Some it \<and>
           (\<forall>n \<le> decimal hi 0 - decimal lo 0.
              it_has ((it_advance ^^ n) it) \<and>
              it_text ((it_advance ^^ n) it) = zero_pad (length hi) (int (decimal lo 0 + n))) \<and>
           \<not> it_has ((it_advance ^^ Suc (decimal hi 0 - decimal lo 0)) it)"
proof -
  let ?it = "range_iterator lo hi"
  have d: "decode_iterator tb (range_key name lo hi) = Inr (name, Some ?it)"
    using assms by (intro decode_range) (auto simp: max_int_def)
  then obtain t where t: "new_tag tb owner source (range_key name lo hi) line = Inr t" "tg_iterator t = Some ?it"
    by (simp add: new_tag_def Let_def)
  have adv: "(it_advance ^^ n) ?it = ?it\<lparr>it_index := int (decimal lo 0 + n)\<rparr>"
    if "n \<le> Suc (decimal hi 0 - decimal lo 0)" for n
    using it_advance_index [of ?it n] that assms(4,5) by (simp add: range_iterator_def)
  have has: "it_has (?it\<lparr>it_index := i\<rparr>) \<longleftrightarrow> i \<le> int (decimal hi 0)" for i
    by (simp add: it_has_def range_iterator_def)
  have "it_has ((it_advance ^^ n) ?it) \<and>
      it_text ((it_advance ^^ n) ?it) = zero_pad (length hi) (int (decimal lo 0 + n))"
    if "n \<le> decimal hi 0 - decimal lo 0" for n
    using adv [of n] that assms(4) has it_text_padded by simp
  moreover have "\<not> it_has ((it_advance ^^ Suc (decimal hi 0 - decimal lo 0)) ?it)"
    using adv [of "Suc (decimal hi 0 - decimal lo 0)"] assms(4) has by simp
  ultimately show ?thesis using t by blast
qed

lemma tb0_decimal: "read_nat s n = decimal s n"
  by (induction s arbitrary: n) simp_all

lemma tb0_number_laws: "number_laws tb0"
  by (simp add: number_laws_def tb0_def tb0_decimal show_int_def)

theorem range_tag_iterates_witness:
  "\<exists>t it. new_tag tb0 [] [] (range_key ''test'' ''2'' ''010'') 0 = Inr t \<and> tg_iterator t = Some it \<and>
     it_text ((it_advance ^^ 3) it) = ''005'' \<and> \<not> it_has ((it_advance ^^ 9) it)"
proof -
  have c: "decimal_text ''2''" "decimal_text ''010''" "decimal ''2'' 0 = 2" "decimal ''010'' 0 = 10"
    "zero_pad (length ''010'') (int (2 + 3)) = ''005''"
    by code_simp+
  show ?thesis
    using range_tag_iterates [of tb0 "''2''" "''010''" "''test''" "[]" "[]" 0] c tb0_number_laws
    by (fastforce simp: max_int_def)
qed

section \<open>What the instances hold\<close>

definition instances_of :: "tag_instance list \<Rightarrow> instances" where
  "instances_of xs = fold add_instance xs no_instances"

lemma instances_of_snoc: "instances_of (xs @ [x]) = add_instance x (instances_of xs)"
  by (simp add: instances_of_def)

lemma instances_of_Nil: "instances_of [] = no_instances"
  by (simp add: instances_of_def)

lemma instances_of_list: "is_list (instances_of xs) = xs"
  by (induction xs rule: rev_induct) (simp_all add: instances_of_snoc instances_of_Nil add_instance_def no_instances_def)

lemma instances_of_lookup: "instances_lookup (instances_of xs) i = find (\<lambda>x. gi_index x = i) (rev xs)"
proof -
  have "case mget (is_by_index (instances_of xs)) i of
          None \<Rightarrow> find (\<lambda>x. gi_index x = i) (rev xs) = None
        | Some pos \<Rightarrow> pos < length xs \<and> find (\<lambda>x. gi_index x = i) (rev xs) = Some (xs ! pos)"
  proof (induction xs rule: rev_induct)
    case Nil
    then show ?case by (simp add: instances_of_Nil no_instances_def)
  next
    case (snoc x xs)
    have step: "is_by_index (add_instance x (instances_of xs)) =
        mput (gi_index x) (length xs) (is_by_index (instances_of xs))"
      by (simp add: add_instance_def instances_of_list)
    show ?case
      using snoc by (cases "mget (is_by_index (instances_of xs)) i")
        (auto simp: instances_of_snoc step nth_append)
  qed
  then show ?thesis
    by (auto simp: instances_lookup_def instances_of_list split: option.splits)
qed

lemma instances_of_max:
  assumes "\<forall>x\<in>set xs. 0 < gi_index x"
  shows "(\<forall>x\<in>set xs. gi_index x \<le> is_max (instances_of xs)) \<and>
         (is_max (instances_of xs) = 0 \<and> xs = [] \<or> (\<exists>x\<in>set xs. gi_index x = is_max (instances_of xs)))"
  using assms
proof (induction xs rule: rev_induct)
  case Nil
  then show ?case by (simp add: instances_of_Nil no_instances_def)
next
  case (snoc x xs)
  have "is_max (add_instance x (instances_of xs)) =
      (if is_max (instances_of xs) < gi_index x then gi_index x else is_max (instances_of xs))"
    by (simp add: add_instance_def)
  with snoc show ?case by (auto simp: instances_of_snoc)
qed

lemma instances_of_min_step:
  "is_min (add_instance x s) = (if gi_index x < is_min s \<or> is_min s = 0 then gi_index x else is_min s)"
  by (simp add: add_instance_def)

lemma instances_of_min:
  assumes "\<forall>x\<in>set xs. 0 < gi_index x"
  shows "0 < is_min (instances_of xs) \<and> (\<forall>x\<in>set xs. is_min (instances_of xs) \<le> gi_index x)"
  using assms
proof (induction xs rule: rev_induct)
  case Nil
  then show ?case by (simp add: instances_of_Nil no_instances_def max_int_def)
next
  case (snoc x xs)
  then show ?case by (auto simp: instances_of_snoc instances_of_min_step)
qed

lemma find_found: "find P xs = Some x \<Longrightarrow> P x \<and> x \<in> set xs"
  by (induction xs) (auto split: if_splits)

lemma new_instances_of:
  "new_instances tb eq re holder m objects = Inr s \<Longrightarrow> \<exists>xs. s = instances_of xs"
  by (auto simp: new_instances_def instances_of_def split: sum.splits)

text \<open>
  The range of the directories found for a template, when they are numbered from one: it
  runs from the smallest number to the largest one, written as in the name of its directory;
  every number that was found lies in it and is looked up to a directory of that number, the
  last one of the listing.
\<close>

theorem default_range_covers_instances:
  assumes "new_instances tb eq re holder m objects = Inr s" "is_list s \<noteq> []"
    and "\<forall>x\<in>set (is_list s). 0 < gi_index x"
  shows "\<exists>y\<in>set (is_list s). gi_index y = is_max s \<and>
           instances_range s = Inr (show_int (is_min s) @ ''..'' @ gi_match y) \<and>
           (\<forall>x\<in>set (is_list s). is_min s \<le> gi_index x \<and> gi_index x \<le> is_max s \<and>
              (\<exists>z\<in>set (is_list s). instances_lookup s (gi_index x) = Some z \<and> gi_index z = gi_index x))"
proof -
  obtain xs where s: "s = instances_of xs" using new_instances_of [OF assms(1)] by blast
  have xs: "xs \<noteq> []" "\<forall>x\<in>set xs. 0 < gi_index x" using assms(2,3) by (simp_all add: s instances_of_list)
  have find: "\<exists>z\<in>set xs. instances_lookup s (gi_index x) = Some z \<and> gi_index z = gi_index x" if "x \<in> set xs" for x
  proof -
    have "find (\<lambda>z. gi_index z = gi_index x) (rev xs) \<noteq> None" using that by (auto simp: find_None_iff)
    then obtain z where "find (\<lambda>z. gi_index z = gi_index x) (rev xs) = Some z" by blast
    with find_found [OF this] show ?thesis by (simp add: s instances_of_lookup)
  qed
  obtain w where w: "w \<in> set xs" "gi_index w = is_max s"
    using instances_of_max [OF xs(2)] xs(1) s by auto
  then obtain y where "y \<in> set xs" "instances_lookup s (is_max s) = Some y" "gi_index y = is_max s"
    using find by force
  then show ?thesis
    using find instances_of_max [OF xs(2)] instances_of_min [OF xs(2)]
    by (auto simp: s instances_of_list instances_range_def intro!: bexI [of _ y])
qed

text \<open>
  A directory numbered zero is dropped from the default range as soon as a positive number
  follows it: the range starts above zero, although the directory was found.
\<close>

theorem default_range_skips_zero:
  assumes "new_instances tb eq re holder m objects = Inr s"
    and "is_list s = z # x # xs" "gi_index z = 0" "\<forall>y\<in>set (x # xs). 0 < gi_index y"
  shows "0 < is_min s \<and> instances_lookup s 0 = Some z"
proof -
  obtain ys where s: "s = instances_of ys" using new_instances_of [OF assms(1)] by blast
  with assms(2) have ys: "ys = [z, x] @ xs" by (simp add: instances_of_list)
  have "0 < is_min (instances_of ([z, x] @ vs))" if "\<forall>y\<in>set (x # vs). 0 < gi_index y" for vs
    using that
  proof (induction vs rule: rev_induct)
    case Nil
    then show ?case
      using assms(3) by (simp add: instances_of_def instances_of_min_step no_instances_def max_int_def)
  next
    case (snoc v vs)
    have "instances_of ([z, x] @ vs @ [v]) = add_instance v (instances_of ([z, x] @ vs))"
      using instances_of_snoc [of "[z, x] @ vs" v] by simp
    with snoc show ?case by (simp add: instances_of_min_step)
  qed
  moreover have "find (\<lambda>y. gi_index y = 0) (rev ys) = Some z"
  proof -
    have "find (\<lambda>y. gi_index y = 0) (rev xs) = None" "gi_index x \<noteq> 0"
      using assms(4) by (auto simp: find_None_iff)
    then show ?thesis using assms(3) by (simp add: ys find_append)
  qed
  ultimately show ?thesis using assms(4) by (simp add: s instances_of_lookup ys)
qed

definition groups0 :: "string \<Rightarrow> string list option" where
  "groups0 name = (if name = [] \<or> \<not> is_digit (hd name) then None else Some [name, takeWhile is_digit name])"

definition folder :: "string \<Rightarrow> object" where
  "folder name = \<lparr>ob_url = ''mem:/app/'' @ name, ob_name = name, ob_dir = True\<rparr>"

lemma instances0:
  "new_instances tb0 (=) (\<lambda>s. Inr groups0) ''mem:/app'' ''${index}_*'' objects =
     Inr (instances_of (List.map_filter (object_instance tb0 (=) groups0 ''mem:/app'') objects))"
  by (simp add: new_instances_def instances_of_def)

theorem default_range_covers_instances_witness:
  "\<exists>s. new_instances tb0 (=) (\<lambda>s. Inr groups0) ''mem:/app'' ''${index}_*'' [folder ''01_a'', folder ''03_b''] = Inr s \<and>
     instances_range s = Inr ''1..03''"
proof -
  let ?xs = "List.map_filter (object_instance tb0 (=) groups0 ''mem:/app'') [folder ''01_a'', folder ''03_b'']"
  have "?xs \<noteq> []" "\<forall>x\<in>set ?xs. 0 < gi_index x" "instances_range (instances_of ?xs) = Inr ''1..03''"
    by code_simp+
  with default_range_covers_instances [OF instances0 [of "[folder ''01_a'', folder ''03_b'']"]]
  show ?thesis using instances0 instances_of_list by fastforce
qed

theorem default_range_skips_zero_witness:
  "\<exists>s. new_instances tb0 (=) (\<lambda>s. Inr groups0) ''mem:/app'' ''${index}_*'' [folder ''00_a'', folder ''01_b''] = Inr s \<and>
     0 < is_min s"
proof -
  let ?obs = "[folder ''00_a'', folder ''01_b'']"
  let ?f = "object_instance tb0 (=) groups0 ''mem:/app''"
  have "List.map_filter ?f ?obs = [the (?f (?obs ! 0)), the (?f (?obs ! 1))]"
    "gi_index (the (?f (?obs ! 0))) = 0" "0 < gi_index (the (?f (?obs ! 1)))"
    by code_simp+
  with default_range_skips_zero [OF instances0 [of ?obs]] instances0 [of ?obs]
  show ?thesis by (simp add: instances_of_list)
qed

end
