(* ===== verification/Templates.thy ===== *)
theory Templates
  imports Tags Contexts "HOL-Library.List_Lexorder"
begin

text \<open>
  model/template.go without the expansion loop, and \<open>ListResource\<close> of internal/util/data.go:
  the state of one instance of a template, the data that it loads into the workflow, and the
  flattening of the tasks that were built for it. The operations of model/inlined.go thread
  the store and the current tag path (\<open>bst\<close>); an operation returns nothing when it runs out
  of fuel, and otherwise an error or a result together with the new state.
\<close>

section \<open>Building steps\<close>

record bst =
  b_heap :: heap
  b_tag_path :: string

type_synonym 'a bm = "bst \<Rightarrow> ((go_error + 'a) \<times> bst) option"

definition bret :: "'a \<Rightarrow> 'a bm" where
  "bret x = (\<lambda>s. Some (Inr x, s))"

definition bfail :: "go_error \<Rightarrow> 'a bm" where
  "bfail e = (\<lambda>s. Some (Inl e, s))"

definition bout :: "'a bm" where
  "bout = (\<lambda>s. None)"

definition bbind :: "'a bm \<Rightarrow> ('a \<Rightarrow> 'b bm) \<Rightarrow> 'b bm" where
  "bbind m f = (\<lambda>s. case m s of
       None \<Rightarrow> None
     | Some (Inl e, s') \<Rightarrow> Some (Inl e, s')
     | Some (Inr x, s') \<Rightarrow> f x s')"

definition bget :: "bst bm" where
  "bget = (\<lambda>s. Some (Inr s, s))"

definition bheap :: "(heap \<Rightarrow> heap) \<Rightarrow> unit bm" where
  "bheap f = (\<lambda>s. Some (Inr (), s\<lparr>b_heap := f (b_heap s)\<rparr>))"

definition bnew :: "smap \<Rightarrow> nat bm" where
  "bnew m = (\<lambda>s. let (a, h) = alloc m (b_heap s) in Some (Inr a, s\<lparr>b_heap := h\<rparr>))"

definition bset_tag_path :: "string \<Rightarrow> unit bm" where
  "bset_tag_path p = (\<lambda>s. Some (Inr (), s\<lparr>b_tag_path := p\<rparr>))"

definition blift :: "go_error + 'a \<Rightarrow> 'a bm" where
  "blift r = (case r of Inl e \<Rightarrow> bfail e | Inr x \<Rightarrow> bret x)"

definition res_to_error :: "res_error \<Rightarrow> go_error" where
  "res_to_error e = (case e of NotSuch m r \<Rightarrow> PlainErr (not_such_text m r) | OtherErr g \<Rightarrow> g)"

definition blift_res :: "res_error + 'a \<Rightarrow> 'a bm" where
  "blift_res r = (case r of Inl e \<Rightarrow> bfail (res_to_error e) | Inr x \<Rightarrow> bret x)"

fun bfold :: "('a \<Rightarrow> 's \<Rightarrow> 's bm) \<Rightarrow> 'a list \<Rightarrow> 's \<Rightarrow> 's bm" where
  "bfold f [] x = bret x"
| "bfold f (a # as) x = bbind (f a x) (bfold f as)"

lemma bbind_simps [simp]:
  "bbind (bret x) f = f x" "bbind (bfail e) f = bfail e" "bbind bout f = bout"
  by (simp_all add: bbind_def bret_def bfail_def bout_def fun_eq_iff)

lemma bbind_assoc: "bbind (bbind m f) g = bbind m (\<lambda>x. bbind (f x) g)"
  by (auto simp: bbind_def fun_eq_iff split: option.splits sum.splits)

section \<open>The environment\<close>

text \<open>
  afs and the storage service, the regular expressions, and the conversions of
  \<open>toolbox.DefaultConverter\<close> into the types of the model are parameters.
\<close>

record transient_template =
  tt_subpath :: string
  tt_tag :: string
  tt_range :: string
  tt_description :: string
  tt_data :: "(string \<times> string) list"
  tt_template :: "value list"

record inline_env =
  ie_tb :: toolbox
  ie_ps :: parsly
  ie_io :: storage
  ie_urls :: urls
  ie_toolbox_split :: "string \<Rightarrow> string \<times> string"
  ie_unicode :: "nat \<Rightarrow> bool"
  ie_url_equals :: "string \<Rightarrow> string \<Rightarrow> bool"
  ie_regexp :: "string \<Rightarrow> go_error + (string \<Rightarrow> string list option)"
  ie_object :: "string \<Rightarrow> go_error + object"
  ie_list :: "string \<Rightarrow> go_error + object list"
  ie_service :: "string \<Rightarrow> go_error option"
  ie_storage_list :: "string \<Rightarrow> go_error + object list"
  ie_to_template :: "value \<Rightarrow> go_error + transient_template"
  ie_to_action :: "smap \<Rightarrow> go_error + raw_action"
  ie_to_task :: "value \<Rightarrow> task_info"
  ie_to_node :: "smap \<Rightarrow> go_error + abstract_node option"
  ie_to_variable :: "smap \<Rightarrow> go_error + variable"
  ie_to_variables :: "value \<Rightarrow> go_error + variable list"
  ie_from_variables :: "variable list \<Rightarrow> go_error + value"

section \<open>Listing resources\<close>

text \<open>\<open>MatchString\<close> is a match of the expression anywhere in the URL.\<close>

definition resource_expr :: "string \<Rightarrow> string" where
  "resource_expr m =
     (let text = replace_all m ''*'' ''.+'' @ (if path_ext m = [] then ''.+'' else [])
      in if has_prefix text ''.+'' then text else ''.+'' @ text)"

definition list_base :: "inline_env \<Rightarrow> string \<Rightarrow> string \<Rightarrow> string \<times> string" where
  "list_base e uri base =
     (let (parent, m) = path_split uri
      in if parent \<noteq> [] then (url_path_join (ie_io e) base parent, m) else (base, uri))"

fun list_resource_from :: "inline_env \<Rightarrow> string \<Rightarrow> string list \<Rightarrow> go_error + string list" where
  "list_resource_from e uri [] = Inr []"
| "list_resource_from e uri (base # bases) =
     (let (base', m) = list_base e uri base
      in case ie_regexp e (resource_expr m) of
           Inl err \<Rightarrow> Inl (Panicked (error_text err))
         | Inr find_groups \<Rightarrow>
             (case ie_service e base' of
                Some err \<Rightarrow> Inl err
              | None \<Rightarrow>
                  (case ie_storage_list e base' of
                     Inl err \<Rightarrow> list_resource_from e uri bases
                   | Inr objects \<Rightarrow>
                       (let found = map ob_url (filter (\<lambda>ob. \<not> ob_dir ob \<and> find_groups (ob_url ob) \<noteq> None) objects)
                        in if found \<noteq> [] then Inr (sort found) else list_resource_from e uri bases))))"

definition list_resource :: "inline_env \<Rightarrow> string list \<Rightarrow> string \<Rightarrow> go_error + string list" where
  "list_resource e bases uri =
     list_resource_from e (if has_prefix uri ''@'' then drop 1 uri else uri) bases"

section \<open>Data of the workflow\<close>

text \<open>A \<open>*data.Collection\<close>: a list that is pushed to through its pointer.\<close>

definition collection :: "value list \<Rightarrow> value" where
  "collection xs = VStruct ''data.Collection'' [([], VSlice xs)]"

definition collection_items :: "value \<Rightarrow> value list option" where
  "collection_items v =
     (case v of
        VStruct name [(f, VSlice xs)] \<Rightarrow> if name = ''data.Collection'' then Some xs else None
      | _ \<Rightarrow> None)"

definition slice_items :: "value \<Rightarrow> value list" where
  "slice_items v = (case v of VSlice xs \<Rightarrow> xs | _ \<Rightarrow> [v])"

text \<open>The value at the key is kept only when it is a collection already.\<close>

definition push_at :: "toolbox \<Rightarrow> nat \<Rightarrow> string \<Rightarrow> value \<Rightarrow> heap \<Rightarrow> heap" where
  "push_at tb a k v h =
     (let (old, ok) = get_value tb h a k;
          items = (if ok then (case collection_items old of Some xs \<Rightarrow> xs | None \<Rightarrow> []) else [])
      in set_value tb a k (collection (items @ slice_items v)) h)"

definition without_brackets :: "string \<Rightarrow> string" where
  "without_brackets k = replace_all k ''[]'' []"

definition add_loaded_data :: "toolbox \<Rightarrow> nat \<Rightarrow> nat \<Rightarrow> string \<Rightarrow> value \<Rightarrow> heap \<Rightarrow> heap" where
  "add_loaded_data tb state data k loaded h =
     (let v = expand tb h state loaded
      in if 0 < count_of k ''[]'' then push_at tb data (without_brackets k) v h
         else set_value tb data k v h)"

definition add_loaded_map_data :: "toolbox \<Rightarrow> nat \<Rightarrow> nat \<Rightarrow> string \<Rightarrow> smap \<Rightarrow> heap \<Rightarrow> heap" where
  "add_loaded_map_data tb state data k loaded h =
     fold (\<lambda>(key, v) h. push_at tb data (without_brackets k @ ''.'' @ key) (expand tb h state v) h) loaded h"

definition asset_key :: "string \<Rightarrow> string" where
  "asset_key name = (case last_index_of name ''.'' of None \<Rightarrow> name | Some i \<Rightarrow> take i name)"

definition load_keyed_assets :: "inline_env \<Rightarrow> object \<Rightarrow> res_error + smap" where
  "load_keyed_assets e ob =
     (case ie_list e (ob_url ob) of
        Inl err \<Rightarrow> Inl (OtherErr err)
      | Inr items \<Rightarrow>
          efold (\<lambda>item assets.
            if ob_dir item then Inr assets
            else (let (base, uri) = url_split (ie_urls e) (ob_url item)
                  in ebind (load_decoded (ie_io e) (decode_any (ie_io e)) base (''@'' @ uri)) (\<lambda>(url, v).
                       Inr (mput (asset_key (ob_name item)) v assets)))) items [])"

definition load_listed ::
  "inline_env \<Rightarrow> nat \<Rightarrow> nat \<Rightarrow> string \<Rightarrow> string \<Rightarrow> unit \<Rightarrow> unit bm" where
  "load_listed e state data k url u =
     (let (base, uri) = ie_toolbox_split e url
      in bbind bget (\<lambda>s.
           bbind (blift_res (load_data (ie_tb e) (ie_io e) (b_heap s) [base] (''@'' @ uri))) (\<lambda>v.
             bheap (add_loaded_data (ie_tb e) state data k v))))"

text \<open>A resource that is missing is skipped.\<close>

definition load_file ::
  "inline_env \<Rightarrow> string list \<Rightarrow> nat \<Rightarrow> nat \<Rightarrow> string \<Rightarrow> string \<Rightarrow> unit bm" where
  "load_file e bases state data k loc =
     bbind bget (\<lambda>s.
       case load_data (ie_tb e) (ie_io e) (b_heap s) bases loc of
         Inl err \<Rightarrow> if is_not_such (Some err) then bret () else bfail (res_to_error err)
       | Inr v \<Rightarrow> bheap (add_loaded_data (ie_tb e) state data k v))"

definition load_located ::
  "inline_env \<Rightarrow> string list \<Rightarrow> nat \<Rightarrow> nat \<Rightarrow> string \<Rightarrow> string \<Rightarrow> unit bm" where
  "load_located e bases state data k loc =
     (case ie_object e (url_join (ie_urls e) (hd bases) (replace_first loc ''@'' [])) of
        Inr ob \<Rightarrow>
          if ob_dir ob then
            bbind (blift_res (load_keyed_assets e ob)) (\<lambda>m. bheap (add_loaded_map_data (ie_tb e) state data k m))
          else load_file e bases state data k loc
      | Inl _ \<Rightarrow> load_file e bases state data k loc)"

definition load_entry ::
  "inline_env \<Rightarrow> string list \<Rightarrow> nat \<Rightarrow> nat \<Rightarrow> string \<times> string \<Rightarrow> unit \<Rightarrow> unit bm" where
  "load_entry e bases state data = (\<lambda>(k0, loc) u.
     bbind bget (\<lambda>s.
       let k = expand_text (ie_tb e) (b_heap s) state k0
       in bbind (if CHR ''*'' \<in> set loc then blift (list_resource e bases loc) else bret []) (\<lambda>urls.
            if urls \<noteq> [] then bfold (load_listed e state data k) urls ()
            else load_located e bases state data k loc)))"

definition load_workflow_data ::
  "inline_env \<Rightarrow> string \<Rightarrow> string \<Rightarrow> (string \<times> string) list \<Rightarrow> nat \<Rightarrow> nat \<Rightarrow> unit bm" where
  "load_workflow_data e base tag_path entries data state =
     bfold (load_entry e [tag_path, url_path_join (ie_io e) base ''default'', base] state data) entries ()"

section \<open>The state of an instance\<close>

text \<open>\<open>path.Clean\<close> and \<open>path.Join\<close>.\<close>

fun clean_parts :: "bool \<Rightarrow> string list \<Rightarrow> string list \<Rightarrow> string list" where
  "clean_parts rooted acc [] = rev acc"
| "clean_parts rooted acc (x # xs) =
     (if x = [] \<or> x = ''.'' then clean_parts rooted acc xs
      else if x = ''..'' then
        (case acc of
           [] \<Rightarrow> clean_parts rooted (if rooted then [] else [x]) xs
         | y # ys \<Rightarrow> clean_parts rooted (if y = ''..'' then x # acc else ys) xs)
      else clean_parts rooted (x # acc) xs)"

definition path_clean :: "string \<Rightarrow> string" where
  "path_clean p =
     (let rooted = has_prefix p ''/'';
          body = join ''/'' (clean_parts rooted [] (split_on ''/'' p))
      in if rooted then ''/'' @ body else if body = [] then ''.'' else body)"

definition path_join :: "string list \<Rightarrow> string" where
  "path_join xs =
     (let parts = filter (\<lambda>x. x \<noteq> []) xs
      in if parts = [] then [] else path_clean (join ''/'' parts))"

definition instance_tag :: "string \<Rightarrow> tag_instance \<Rightarrow> tag \<Rightarrow> tag" where
  "instance_tag subpath x t =
     t\<lparr>tg_subpath := (if CHR ''/'' \<in> set subpath
          then path_join [fst (path_split subpath), ob_name (gi_object x)] else ob_name (gi_object x)),
       tg_path_match := gi_tag x\<rparr>"

text \<open>The tag and the state of the index, or nothing when no directory has that index.\<close>

definition build_tag_state ::
  "inline_env \<Rightarrow> string \<Rightarrow> heap \<Rightarrow> string \<Rightarrow> string \<Rightarrow> tag \<Rightarrow> instances \<Rightarrow> (tag \<times> smap \<times> string) option" where
  "build_tag_state e base h subpath index t s =
     (case (if subpath = [] then Some (t, [])
            else map_option (\<lambda>x. (instance_tag subpath x t, [(''tag'', VStr (gi_tag x))]))
                   (instances_lookup s (as_int (ie_tb e) (VStr index)))) of
        None \<Rightarrow> None
      | Some (t', extra) \<Rightarrow>
          (let url = url_path_join (ie_io e) base (tg_subpath t');
               path = res_path (ie_urls e) (new_resource url [])
           in Some (t',
                [(''index'', VStr index)] @ extra @
                [(''subpath'', VStr (tg_subpath t')),
                 (''tagId'', VStr (tag_id (ie_tb e) (ie_unicode e) h t')),
                 (''subPath'', VStr (tg_subpath t')), (''pathMatch'', VStr (tg_path_match t')),
                 (''URL'', VStr url), (''path'', VStr path)], path)))"

definition build_tag :: "inline_env \<Rightarrow> string \<Rightarrow> string \<Rightarrow> string \<Rightarrow> string \<Rightarrow> go_error + tag" where
  "build_tag e base name key rng =
     new_tag (ie_tb e) name (url_path_join (ie_io e) base (name @ ''.yaml'')) (key @ ''{'' @ rng @ ''}'') 0"

section \<open>Flattening\<close>

text \<open>
  \<open>flattenAction\<close>: the actions of a task, then those of its tasks. The tag keeps the group it
  was given last. The tasks get a tag of their own when they have none; the caller drops them.
\<close>

definition tag_index :: "tag \<Rightarrow> string" where
  "tag_index t = (case tg_iterator t of None \<Rightarrow> [] | Some it \<Rightarrow> it_text it)"

definition tag_meta :: "inline_env \<Rightarrow> heap \<Rightarrow> tag \<Rightarrow> string \<Rightarrow> meta_tag" where
  "tag_meta e h t description =
     \<lparr>mt_tag = tag_expand (ie_tb e) h t (tg_name t), mt_index = tag_index t,
      mt_id = tag_id (ie_tb e) (ie_unicode e) h t, mt_description = description, mt_comments = []\<rparr>"

definition tag_action :: "inline_env \<Rightarrow> heap \<Rightarrow> tag \<Rightarrow> raw_action \<Rightarrow> raw_action" where
  "tag_action e h t a =
     a\<lparr>ra_meta := map_option (\<lambda>m. m\<lparr>mt_id := tag_id (ie_tb e) (ie_unicode e) h t, mt_index := tag_index t,
           mt_tag := tag_expand (ie_tb e) h t (tg_name t)\<rparr>) (ra_meta a)\<rparr>"

definition describe :: "string \<Rightarrow> raw_action \<Rightarrow> raw_action" where
  "describe description a = a\<lparr>ra_meta := map_option (\<lambda>m. m\<lparr>mt_description := description\<rparr>) (ra_meta a)\<rparr>"

definition tag_actions :: "inline_env \<Rightarrow> heap \<Rightarrow> tag \<Rightarrow> string \<Rightarrow> raw_action list \<Rightarrow> raw_action list" where
  "tag_actions e h t description acts =
     (case map (tag_action e h t) acts of [] \<Rightarrow> [] | a # as \<Rightarrow> describe description a # as)"

definition set_task_meta :: "meta_tag \<Rightarrow> task_info \<Rightarrow> task_info" where
  "set_task_meta m info = (if ti_meta info = None then info\<lparr>ti_meta := Some m\<rparr> else info)"

fun flatten_tasks ::
  "inline_env \<Rightarrow> heap \<Rightarrow> string \<Rightarrow> string \<Rightarrow> tag \<Rightarrow> raw_action task list
     \<Rightarrow> raw_action list \<times> raw_action task list \<times> tag" where
  "flatten_tasks e h description parent t [] = ([], [], t)"
| "flatten_tasks e h description parent t (MkTask info acts None # ts) =
     (let t1 = t\<lparr>tg_group := parent\<rparr>;
          acts' = tag_actions e h t1 description acts;
          (rest, ts', t2) = flatten_tasks e h description parent t1 ts
      in (acts' @ rest, MkTask (set_task_meta (tag_meta e h t1 description) info) acts' None # ts', t2))"
| "flatten_tasks e h description parent t (MkTask info acts (Some (MkTasks us oe d)) # ts) =
     (let t1 = t\<lparr>tg_group := parent\<rparr>;
          acts' = tag_actions e h t1 description acts;
          (subs, us', t2) = flatten_tasks e h description (n_name (ti_node info)) t1 us;
          (rest, ts', t3) = flatten_tasks e h description parent t2 ts
      in (acts' @ subs @ rest,
          MkTask (set_task_meta (tag_meta e h t1 description) info) acts' (Some (MkTasks us' oe d)) # ts', t3))"

text \<open>The root keeps the group of the tag.\<close>

definition flatten_action ::
  "inline_env \<Rightarrow> heap \<Rightarrow> raw_action task \<Rightarrow> tag \<Rightarrow> string \<Rightarrow> raw_action list \<times> raw_action task \<times> tag" where
  "flatten_action e h task t description =
     (let info = set_task_meta (tag_meta e h t description) (t_info task);
          acts = tag_actions e h t description (t_actions task)
      in case t_node task of
           None \<Rightarrow> (acts, MkTask info acts None, t)
         | Some node \<Rightarrow>
             (let (subs, us, t') = flatten_tasks e h description (t_name task) t (tn_tasks node)
              in (acts @ subs, MkTask info acts (Some (MkTasks us (tn_on_error node) (tn_deferred node))), t')))"

end
