(* ===== verification/Inlined.thy ===== *)
theory Inlined
  imports Templates
begin

text \<open>
  model/inlined.go and \<open>Expand\<close> of model/template.go: building a workflow from the ordered map
  of an inline workflow. The builder calls itself for the nested nodes and, through a
  template, for the nodes of every instance; \<open>build_nodes\<close> has fuel for this nesting, and the
  expansion loop fuel for its rounds.
\<close>

record inlined =
  in_base :: string
  in_name :: string
  in_init :: "value"
  in_post :: "value"
  in_logging :: "bool option"
  in_defaults :: smap
  in_data :: "nat option"
  in_pipeline :: "(string \<times> value) list"
  in_state :: "nat option"
  in_workflow :: "raw_action workflow option"

section \<open>Attributes\<close>

definition action_keys :: "string list" where
  "action_keys = [''action'', ''workflow'', ''skip'', ''when'', ''post'', ''init'', ''comments'', ''description'', ''fail'']"

definition explicit_key :: "string \<Rightarrow> string \<Rightarrow> smap \<Rightarrow> smap" where
  "explicit_key mark key m =
     (case mget m key of
        None \<Rightarrow> m
      | Some v \<Rightarrow> if mhas m (mark @ key) then m else mput (mark @ key) v (mdel key m))"

definition update_reserved :: "smap \<Rightarrow> smap" where
  "update_reserved m = explicit_key ''@'' ''tag'' (fold (explicit_key '':'') action_keys m)"

definition not_normalized :: "string list" where
  "not_normalized = [''workflow:run'', ''seleniun:run'', ''validator:assert'']"

definition is_normalizable :: "toolbox \<Rightarrow> smap \<Rightarrow> bool" where
  "is_normalizable tb attrs =
     (if attrs = [] then True
      else if mhas attrs ''workflow'' then False
      else (let action = (case mget attrs ''action'' of
                  None \<Rightarrow> [] | Some v \<Rightarrow> replace_first (as_string tb v) ''.'' '':'');
                service = (case mget attrs ''service'' of None \<Rightarrow> ''workflow'' | Some v \<Rightarrow> as_string tb v)
            in (if count_of action '':'' = 0 then service @ '':'' @ action else action) \<notin> set not_normalized))"

definition expand_state :: "toolbox \<Rightarrow> heap \<Rightarrow> nat option \<Rightarrow> value \<Rightarrow> value" where
  "expand_state tb h st v = (case st of None \<Rightarrow> expand_with tb h [] v | Some a \<Rightarrow> expand tb h a v)"

definition state_value :: "nat option \<Rightarrow> value" where
  "state_value st = (case st of None \<Rightarrow> VMap [] | Some a \<Rightarrow> VRef a)"

text \<open>The request that an attribute \<open>request\<close> names: the request map, and the two maps without it.\<close>

definition named_request ::
  "inline_env \<Rightarrow> inlined \<Rightarrow> bst \<Rightarrow> nat option \<Rightarrow> value \<Rightarrow> smap \<Rightarrow> smap \<Rightarrow> go_error + (smap \<times> smap \<times> smap)" where
  "named_request e p s st req attrs request =
     (let tb = ie_tb e; io = ie_io e; text = as_string tb req
      in if has_prefix text ''@'' then
           (case load_map tb io (b_heap s)
                   [b_tag_path s, url_path_join io (in_base p) ''default'', in_base p] text of
              Inl err \<Rightarrow> Inl (res_to_error err)
            | Inr m \<Rightarrow>
                Inr (as_map tb (if st \<noteq> None \<and> is_normalizable tb attrs
                                then expand_state tb (b_heap s) st (VMap m)
                                else expand_with tb (b_heap s) [(''parent'', state_value st)] (VMap m)),
                     mdel ''request'' attrs, mdel ''request'' request))
         else ebind (normalize_map tb io req True) (\<lambda>m. Inr (m, mdel ''request'' attrs, request)))"

definition normalize_defaults :: "toolbox \<Rightarrow> storage \<Rightarrow> smap \<Rightarrow> smap" where
  "normalize_defaults tb io m =
     (case mget m ''defaults'' of
        None \<Rightarrow> m
      | Some v \<Rightarrow> (case normalize_map tb io v False of Inl _ \<Rightarrow> m | Inr d \<Rightarrow> mput ''defaults'' (VMap d) m))"

definition expand_node :: "toolbox \<Rightarrow> heap \<Rightarrow> nat option \<Rightarrow> smap \<Rightarrow> string \<Rightarrow> smap \<Rightarrow> smap" where
  "expand_node tb h st data key attrs =
     (case mget attrs key of
        None \<Rightarrow> attrs
      | Some v \<Rightarrow> mput key (expand_state tb h st (expand_with tb h data v)) attrs)"

definition load_request ::
  "inline_env \<Rightarrow> inlined \<Rightarrow> bst \<Rightarrow> nat option \<Rightarrow> smap \<Rightarrow> smap \<Rightarrow> go_error + (smap \<times> smap)" where
  "load_request e p s st attrs request =
     (let tb = ie_tb e; io = ie_io e; h = b_heap s
      in ebind (case mget attrs ''request'' of
                  None \<Rightarrow> Inr (request, attrs, request, [])
                | Some req \<Rightarrow> ebind (named_request e p s st req attrs request) (\<lambda>(m, attrs', request').
                    Inr (m, attrs', request', append_map attrs' True []))) (\<lambda>(m, attrs', request', data).
           let m1 = (if data \<noteq> [] then as_map tb (expand_with tb h data (VMap m)) else m)
           in ebind (if is_normalizable tb attrs then normalize_map tb io (VMap m1) True else Inr m1) (\<lambda>m2.
                Inr (fold (expand_node tb h st data) [''when'', ''init'', ''post'', ''skip'', ''exit'', ''fail''] attrs',
                     append_map (normalize_defaults tb io m2) True request'))))"

text \<open>A key with the prefix \<open>:\<close> goes to the action, with \<open>@\<close> to the request, without to both.\<close>

definition split_attribute :: "string \<times> value \<Rightarrow> smap \<times> smap \<Rightarrow> smap \<times> smap" where
  "split_attribute = (\<lambda>(k, v) (attrs, request).
     if has_prefix k '':'' then (mput (to_lower (drop 1 k)) v attrs, request)
     else if has_prefix k ''@'' then (attrs, mput (to_lower (drop 1 k)) v request)
     else (mput k v attrs, mput k v request))"

definition as_variables :: "inline_env \<Rightarrow> inlined \<Rightarrow> bst \<Rightarrow> value \<Rightarrow> go_error + value" where
  "as_variables e p s source =
     (if source = VNil then Inr VNil
      else case get_variables (ie_tb e) (ie_ps e) (ie_io e) (ie_to_variable e) (ie_to_variables e)
                  (b_heap s) [b_tag_path s, in_base p] (VarsValue source) of
             Inl err \<Rightarrow> Inl (res_to_error err)
           | Inr vs \<Rightarrow> ie_from_variables e vs)"

definition load_node_variables ::
  "inline_env \<Rightarrow> inlined \<Rightarrow> bst \<Rightarrow> nat option \<Rightarrow> string \<Rightarrow> smap \<Rightarrow> go_error + smap" where
  "load_node_variables e p s st key attrs =
     (case mget attrs key of
        None \<Rightarrow> Inr attrs
      | Some v \<Rightarrow> ebind (as_variables e p s v) (\<lambda>vs.
          Inr (mput key (expand_state (ie_tb e) (b_heap s) st vs) attrs)))"

definition group_attributes ::
  "inline_env \<Rightarrow> inlined \<Rightarrow> bst \<Rightarrow> nat option \<Rightarrow> value \<Rightarrow> go_error + (smap \<times> smap)" where
  "group_attributes e p s st source =
     (let m = update_reserved (case normalize_map (ie_tb e) (ie_io e) source False of Inl _ \<Rightarrow> [] | Inr m \<Rightarrow> m);
          (attrs, request) = fold split_attribute m ([], [])
      in ebind (load_request e p s st attrs request) (\<lambda>(attrs', request').
           let attrs'' = (case mget attrs' ''logging'' of
                 None \<Rightarrow> attrs' | Some v \<Rightarrow> mput ''logging'' (VBool (as_bool (ie_tb e) v)) attrs')
           in ebind (efold (load_node_variables e p s st) [''init'', ''post''] attrs'') (\<lambda>attrs3.
                Inr (attrs3, request'))))"

section \<open>Nodes\<close>

definition empty_info :: "task_info" where
  "empty_info = t_info (new_task [] False :: raw_action task)"

definition build_task :: "inline_env \<Rightarrow> string \<Rightarrow> value \<Rightarrow> raw_action task" where
  "build_task e name source =
     (let info = (if is_slice_value source \<and> is_map_value source then ie_to_task e source else empty_info)
      in MkTask (info\<lparr>ti_node := empty_node\<lparr>n_name := name\<rparr>\<rparr>) [] (Some (MkTasks [] [] [])))"

definition is_action_node :: "smap \<Rightarrow> bool" where
  "is_action_node attrs \<longleftrightarrow> attrs \<noteq> [] \<and> (mhas attrs ''action'' \<or> mhas attrs ''workflow'')"

definition get_template_node :: "inline_env \<Rightarrow> value \<Rightarrow> transient_template option" where
  "get_template_node e source =
     (if source = VNil \<or> \<not> (is_slice_value source \<or> is_map_value source) then None
      else case ie_to_template e source of
        Inl _ \<Rightarrow> None
      | Inr t \<Rightarrow> if tt_template t = [] \<or> tt_subpath t = [] then None else Some t)"

definition named_tag :: "string \<Rightarrow> string \<Rightarrow> raw_action \<Rightarrow> raw_action" where
  "named_tag name tid a =
     a\<lparr>ra_node := map_option (\<lambda>x. if n_name x = [] then x\<lparr>n_name := name\<rparr> else x) (ra_node a),
       ra_meta := map_option (\<lambda>m.
         let m1 = (if mt_tag m = [] then m\<lparr>mt_tag := name\<rparr> else m);
             m2 = (if mt_id m1 = [] then m1\<lparr>mt_id := tid\<rparr> else m1)
         in if mt_id m2 = [] then m2\<lparr>mt_id := name\<rparr> else m2) (ra_meta a)\<rparr>"

definition action_attributes :: "inline_env \<Rightarrow> smap \<Rightarrow> smap \<Rightarrow> smap" where
  "action_attributes e attrs request =
     (let tb = ie_tb e
      in case mget attrs ''action'' of
           Some action \<Rightarrow>
             (let selector = as_string tb action;
                  m = (case normalize_map tb (ie_io e) (VMap request) False of Inl _ \<Rightarrow> [] | Inr m \<Rightarrow> m)
              in mput ''action'' (VStr (action_action selector))
                   (mput ''service'' (VStr (action_service selector)) (mput ''request'' (VMap m) attrs)))
         | None \<Rightarrow>
             (let selector = as_string tb (case mget attrs ''workflow'' of None \<Rightarrow> VNil | Some v \<Rightarrow> v)
              in mput ''request'' (VMap [(''params'', VMap request), (''tasks'', VStr (workflow_tasks selector)),
                     (''URL'', VStr (workflow_url selector))])
                   (mput ''action'' (VStr ''run'') attrs)))"

definition build_action :: "inline_env \<Rightarrow> inlined \<Rightarrow> string \<Rightarrow> smap \<Rightarrow> smap \<Rightarrow> string \<Rightarrow> go_error + raw_action" where
  "build_action e p name attrs request tid =
     ebind (ie_to_action e (action_attributes e attrs (append_map (in_defaults p) False request))) (\<lambda>r.
       Inr (named_tag name tid (raw_of (case init_action r of Inr a \<Rightarrow> a | Inl _ \<Rightarrow> filled_action r))))"

definition has_nested_nodes :: "value \<Rightarrow> bool" where
  "has_nested_nodes v \<longleftrightarrow> is_map_value v \<or> is_struct_value v \<or> is_slice_value v"

fun some_node :: "(value \<Rightarrow> bool option) \<Rightarrow> (value \<times> value) list \<Rightarrow> bool option" where
  "some_node F [] = Some False"
| "some_node F ((k, v) # kvs) =
     (if v = VNil \<or> \<not> has_nested_nodes v then some_node F kvs
      else case F v of
        None \<Rightarrow> None
      | Some True \<Rightarrow> Some True
      | Some False \<Rightarrow> some_node F kvs)"

primrec has_action_node :: "inline_env \<Rightarrow> nat \<Rightarrow> value \<Rightarrow> bool option" where
  "has_action_node e 0 = (\<lambda>source. None)"
| "has_action_node e (Suc n) = (\<lambda>source.
     if source = VNil then Some False
     else (let attrs = (case normalize_map (ie_tb e) (ie_io e) source False of Inl _ \<Rightarrow> [] | Inr m \<Rightarrow> m)
           in if is_action_node attrs then Some True
              else some_node (has_action_node e n)
                     (case process_map (ie_io e) (VMap attrs) of Inl _ \<Rightarrow> [] | Inr kvs \<Rightarrow> kvs)))"

definition add_sub_task :: "raw_action task \<Rightarrow> raw_action task \<Rightarrow> go_error + raw_action task" where
  "add_sub_task t parent =
     (case parent of
        MkTask info acts None \<Rightarrow> Inl (Panicked ''nil pointer dereference'')
      | MkTask info acts (Some (MkTasks ts oe d)) \<Rightarrow> Inr (MkTask info acts (Some (MkTasks (ts @ [t]) oe d))))"

definition on_info :: "(task_info \<Rightarrow> task_info) \<Rightarrow> raw_action task \<Rightarrow> raw_action task" where
  "on_info f t = MkTask (f (t_info t)) (t_actions t) (t_node t)"

definition add_task_actions :: "raw_action list \<Rightarrow> raw_action task \<Rightarrow> raw_action task" where
  "add_task_actions acts t = MkTask (t_info t) (t_actions t @ acts) (t_node t)"

definition multi_action_keys :: "string list" where
  "multi_action_keys = [''multiaction'', ''async'']"

definition flag_multi :: "toolbox \<Rightarrow> string \<Rightarrow> value \<Rightarrow> raw_action task \<Rightarrow> raw_action task" where
  "flag_multi tb key v t =
     (if key \<in> set multi_action_keys \<and> (\<exists>b. v = VBool b)
      then on_info (\<lambda>i. i\<lparr>ti_multi := as_bool tb v\<rparr>) t else t)"

text \<open>An action becomes a task of its own, or an action of a parent with several actions.\<close>

definition place_action ::
  "inline_env \<Rightarrow> string \<Rightarrow> smap \<Rightarrow> raw_action \<Rightarrow> raw_action task \<Rightarrow> go_error + raw_action task" where
  "place_action e name attrs a parent =
     (let own = (if ti_multi (t_info parent) then parent else build_task e name (VMap []));
          description = (case ra_node a of None \<Rightarrow> [] | Some x \<Rightarrow> n_description x);
          t1 = (if description \<noteq> [] \<and> n_description (ti_node (t_info own)) = []
                then on_info (\<lambda>i. i\<lparr>ti_node := (ti_node i)\<lparr>n_description := description\<rparr>\<rparr>) own else own);
          t2 = add_task_actions [a] t1;
          t3 = (case mget attrs ''fail'' of
                  None \<Rightarrow> t2 | Some v \<Rightarrow> on_info (\<lambda>i. i\<lparr>ti_fail := as_bool (ie_tb e) v\<rparr>) t2)
      in if ti_multi (t_info parent) then Inr t3 else add_sub_task t3 parent)"

definition node_keys :: "string list" where
  "node_keys = [''logging'', ''when'', ''description'', ''fail'']"

type_synonym builder =
  "string \<Rightarrow> value \<Rightarrow> raw_action task \<Rightarrow> string \<Rightarrow> nat option \<Rightarrow> raw_action task bm"

text \<open>The entries of a node; an error of a nested node ends the loop and is kept.\<close>

fun build_entries ::
  "inline_env \<Rightarrow> builder \<Rightarrow> bool \<Rightarrow> string \<Rightarrow> nat option \<Rightarrow> (value \<times> value) list \<Rightarrow> raw_action task \<times> smap
     \<Rightarrow> (raw_action task \<times> smap \<times> go_error option) bm" where
  "build_entries e F template tid st [] (task, nodes) = bret (task, nodes, None)"
| "build_entries e F template tid st ((key, v) # kvs) (task, nodes) =
     (let name = as_string (ie_tb e) key; text = to_lower name
      in if template \<and> text = ''template'' then build_entries e F template tid st kvs (task, nodes)
         else (let nodes1 = (if text \<in> set node_keys then mput text v nodes else nodes);
                   task1 = flag_multi (ie_tb e) text v task
               in if \<not> is_slice_value v then build_entries e F template tid st kvs (task1, nodes1)
                  else (\<lambda>s. case F name v task1 (tid @ ''_'' @ t_name task1) st s of
                          None \<Rightarrow> None
                        | Some (Inl err, s') \<Rightarrow> Some (Inr (task1, nodes1, Some err), s')
                        | Some (Inr task2, s') \<Rightarrow>
                            build_entries e F template tid st kvs (task2, mput text v nodes1) s')))"

definition copy_node :: "abstract_node \<Rightarrow> raw_action task \<Rightarrow> raw_action task" where
  "copy_node x = on_info (\<lambda>i. i\<lparr>ti_node := (ti_node i)\<lparr>n_init := n_init x, n_post := n_post x, n_when := n_when x,
      n_logging := n_logging x, n_description := n_description x\<rparr>\<rparr>)"

definition apply_node_attributes ::
  "inline_env \<Rightarrow> inlined \<Rightarrow> nat option \<Rightarrow> bool \<Rightarrow> smap \<Rightarrow> raw_action task \<Rightarrow> raw_action task bm" where
  "apply_node_attributes e p st template nodes task =
     (if mhas nodes ''action'' \<or> template then bret task
      else bbind bget (\<lambda>s.
        case group_attributes e p s st (VMap nodes) of
          Inl err \<Rightarrow> if is_panic err then bfail err else bret task
        | Inr (attrs, request) \<Rightarrow>
            if attrs = [] then bret task
            else (case ie_to_node e attrs of
                Inr (Some x) \<Rightarrow> bret (copy_node x task)
              | _ \<Rightarrow> bret task)))"

section \<open>Templates\<close>

text \<open>The directories that match the sub path, and the range of the iterator.\<close>

definition template_instances ::
  "inline_env \<Rightarrow> inlined \<Rightarrow> transient_template \<Rightarrow> go_error + (instances \<times> string)" where
  "template_instances e p t =
     (if tt_subpath t = [] then Inr (no_instances, tt_range t)
      else (let (parent, name) = url_split (ie_urls e) (url_join (ie_urls e) (in_base p) (tt_subpath t))
            in ebind (ie_list e parent) (\<lambda>objects.
                 case ie_object e parent of
                   Inl _ \<Rightarrow> Inl (Panicked ''nil pointer dereference'')
                 | Inr holder \<Rightarrow>
                     ebind (new_instances (ie_tb e) (ie_url_equals e) (ie_regexp e) (ob_url holder) name objects) (\<lambda>s.
                       ebind (if tt_range t = [] then instances_range s else Inr (tt_range t)) (\<lambda>r.
                         Inr (s, r))))))"

definition load_template_data ::
  "inline_env \<Rightarrow> inlined \<Rightarrow> transient_template \<Rightarrow> string \<Rightarrow> nat \<Rightarrow> unit bm" where
  "load_template_data e p t path state =
     (if tt_data t = [] then bret ()
      else case in_data p of
        None \<Rightarrow> bfail (Panicked ''assignment to entry in nil map'')
      | Some data \<Rightarrow> (\<lambda>s. case load_workflow_data e (in_base p) path (tt_data t) data state s of
            Some (Inl err, s') \<Rightarrow>
              Some (Inl (if is_panic err then err else PlainErr (''failed to load data: '' @ error_text err)), s')
          | r \<Rightarrow> r))"

text \<open>
  One round of the loop for an instance: its state, its data, its nodes below a temporary
  task, and the actions that come out of it.
\<close>

definition instance_actions ::
  "inline_env \<Rightarrow> builder \<Rightarrow> inlined \<Rightarrow> transient_template \<Rightarrow> string \<Rightarrow> string \<Rightarrow> tag \<Rightarrow> smap \<Rightarrow> string
     \<Rightarrow> (raw_action list \<times> tag) bm" where
  "instance_actions e F p t key name x state path =
     bbind (bnew state) (\<lambda>a.
     bbind (bset_tag_path path) (\<lambda>_.
     bbind (load_template_data e p t path a) (\<lambda>_.
     bbind (bfold (\<lambda>(k, v) task. F (as_string (ie_tb e) k) v task key (Some a))
              (case process_map (ie_io e) (VSlice (tt_template t)) of Inl _ \<Rightarrow> [] | Inr kvs \<Rightarrow> kvs)
              (new_task name True)) (\<lambda>task.
     bbind bget (\<lambda>s.
       let description = (if tt_description t = [] then []
             else case load_text (ie_io e) path (tt_description t) [] of Inl _ \<Rightarrow> [] | Inr (url, d) \<Rightarrow> d);
           (acts, task', x') = flatten_action e (b_heap s) task x description
       in bret (acts, x'))))))"

text \<open>
  The loop. Without a matching directory it goes on with the same index, since only the end of
  a round advances the iterator. The iterator of the tag is the one that is advanced.
\<close>

primrec expand_loop ::
  "inline_env \<Rightarrow> builder \<Rightarrow> inlined \<Rightarrow> transient_template \<Rightarrow> string \<Rightarrow> instances \<Rightarrow> string \<Rightarrow> nat
     \<Rightarrow> tag \<Rightarrow> raw_action list \<Rightarrow> raw_action list bm" where
  "expand_loop e F p t key insts name 0 = (\<lambda>x acts. bout)"
| "expand_loop e F p t key insts name (Suc n) = (\<lambda>x acts.
     if \<not> has_active_iterator (Some x) then bret acts
     else (let x1 = x\<lparr>tg_group := name\<rparr>
           in bbind bget (\<lambda>s.
             case build_tag_state e (in_base p) (b_heap s) (tt_subpath t) (tag_index x1) x1 insts of
               None \<Rightarrow> expand_loop e F p t key insts name n x1 acts
             | Some (x2, state, path) \<Rightarrow>
                 bbind (instance_actions e F p t key name x2 state path) (\<lambda>(more, x3).
                   case tg_iterator x3 of
                     None \<Rightarrow> bret (acts @ more)
                   | Some it \<Rightarrow>
                       if snd (it_next it)
                       then expand_loop e F p t key insts name n (x3\<lparr>tg_iterator := Some (fst (it_next it))\<rparr>)
                              (acts @ more)
                       else bret (acts @ more)))))"

definition expand_template ::
  "inline_env \<Rightarrow> builder \<Rightarrow> nat \<Rightarrow> inlined \<Rightarrow> transient_template \<Rightarrow> raw_action task \<Rightarrow> raw_action task bm" where
  "expand_template e F n p t task =
     (let key = (if tt_tag t = [] then ''$pathMatch'' else tt_tag t)
      in bbind (blift (template_instances e p t)) (\<lambda>(insts, rng).
         bbind (blift (build_tag e (in_base p) (in_name p) key rng)) (\<lambda>x.
         bbind (expand_loop e F p t key insts (t_name task) n x []) (\<lambda>acts.
         bbind (bset_tag_path []) (\<lambda>_.
           bret (add_task_actions acts (on_info (\<lambda>i. i\<lparr>ti_multi := True\<rparr>) task)))))))"

section \<open>Nodes of the workflow\<close>

definition template_task ::
  "inline_env \<Rightarrow> builder \<Rightarrow> nat \<Rightarrow> inlined \<Rightarrow> string \<Rightarrow> value \<Rightarrow> raw_action task option bm" where
  "template_task e F n p name source =
     (case get_template_node e source of
        None \<Rightarrow> bret None
      | Some t \<Rightarrow> bbind (expand_template e F n p t (build_task e name source)) (\<lambda>task. bret (Some task)))"

definition add_option :: "raw_action task option \<Rightarrow> raw_action task \<Rightarrow> go_error + raw_action task" where
  "add_option t parent = (case t of None \<Rightarrow> Inr parent | Some x \<Rightarrow> add_sub_task x parent)"

definition action_node ::
  "inline_env \<Rightarrow> inlined \<Rightarrow> string \<Rightarrow> smap \<Rightarrow> smap \<Rightarrow> string \<Rightarrow> raw_action task \<Rightarrow> go_error + raw_action task" where
  "action_node e p name attrs request tid parent =
     (let request' = (if is_normalizable (ie_tb e) attrs
           then (case normalize_map (ie_tb e) (ie_io e) (VMap request) True of Inl _ \<Rightarrow> request | Inr m \<Rightarrow> m)
           else request)
      in ebind (build_action e p name attrs request' tid) (\<lambda>a. place_action e name attrs a parent))"

definition group_node ::
  "inline_env \<Rightarrow> builder \<Rightarrow> inlined \<Rightarrow> value \<Rightarrow> string \<Rightarrow> nat option \<Rightarrow> bool \<Rightarrow> raw_action task
     \<Rightarrow> raw_action task bm" where
  "group_node e F p source tid st template task =
     bbind (blift (process_map (ie_io e) source)) (\<lambda>kvs.
     bbind (build_entries e F template tid st kvs (task, [])) (\<lambda>(task1, nodes, err).
     bbind (apply_node_attributes e p st template nodes task1) (\<lambda>task2.
       case err of None \<Rightarrow> bret task2 | Some e' \<Rightarrow> bfail e')))"

definition build_step :: "inline_env \<Rightarrow> inlined \<Rightarrow> builder \<Rightarrow> nat \<Rightarrow> builder" where
  "build_step e p F n = (\<lambda>name source0 parent tid st.
     bbind bget (\<lambda>s.
     let source = (case st of None \<Rightarrow> source0 | Some a \<Rightarrow> expand (ie_tb e) (b_heap s) a source0)
     in bbind (blift (group_attributes e p s st source)) (\<lambda>(attrs, request).
        bbind (template_task e F n p name source) (\<lambda>t.
        if is_action_node attrs then
          bbind (blift (add_option t parent)) (\<lambda>parent1.
            blift (action_node e p name attrs request tid parent1))
        else case has_action_node e n (VMap attrs) of
          None \<Rightarrow> bout
        | Some False \<Rightarrow> blift (add_option t parent)
        | Some True \<Rightarrow>
            bbind (group_node e F p source tid st (t \<noteq> None)
                     (case t of None \<Rightarrow> build_task e name source | Some x \<Rightarrow> x)) (\<lambda>task.
              blift (add_sub_task task parent))))))"

primrec build_nodes :: "inline_env \<Rightarrow> inlined \<Rightarrow> nat \<Rightarrow> builder" where
  "build_nodes e p 0 = (\<lambda>name source parent tid st. bout)"
| "build_nodes e p (Suc n) = build_step e p (build_nodes e p n) n"

text \<open>Every node that has a task \<open>catch\<close> or \<open>defer\<close> names it.\<close>

fun normalize_list :: "'a task list \<Rightarrow> string \<times> string \<Rightarrow> go_error + ('a task list \<times> string \<times> string)" where
  "normalize_list [] od = Inr ([], od)"
| "normalize_list (MkTask info acts None # ts) od = Inl (Panicked ''nil pointer dereference'')"
| "normalize_list (MkTask info acts (Some (MkTasks us oe d)) # ts) od =
     (let name = n_name (ti_node info);
          od' = (if name = ''catch'' then name else fst od, if name = ''defer'' then name else snd od)
      in ebind (normalize_list us (oe, d)) (\<lambda>(us', oe', d').
           ebind (normalize_list ts od') (\<lambda>(ts', od'').
             Inr (MkTask info acts (Some (MkTasks us' oe' d')) # ts', od''))))"

definition normalize_tasks :: "'a tasks \<Rightarrow> go_error + 'a tasks" where
  "normalize_tasks node =
     ebind (normalize_list (tn_tasks node) (tn_on_error node, tn_deferred node)) (\<lambda>(ts, oe, d). Inr (MkTasks ts oe d))"

definition pipeline_tasks :: "raw_action task \<Rightarrow> go_error + raw_action tasks" where
  "pipeline_tasks task =
     (case t_node task of
        Some (MkTasks (t # ts) oe d) \<Rightarrow> normalize_tasks (MkTasks (t # ts) oe d)
      | _ \<Rightarrow> Inr (MkTasks [task] [] []))"

definition node_variables ::
  "inline_env \<Rightarrow> inlined \<Rightarrow> bst \<Rightarrow> value \<Rightarrow> go_error + variable option list" where
  "node_variables e p s source =
     (if source = VNil then Inr []
      else case get_variables (ie_tb e) (ie_ps e) (ie_io e) (ie_to_variable e) (ie_to_variables e)
                  (b_heap s) [in_base p] (VarsValue source) of
             Inl err \<Rightarrow> Inl (res_to_error err)
           | Inr vs \<Rightarrow> Inr (map Some vs))"

text \<open>
  \<open>AsWorkflow\<close> gives the workflow and the inline workflow, which keeps it, its name, its base
  and its data map.
\<close>

definition build_workflow :: "inline_env \<Rightarrow> nat \<Rightarrow> inlined \<Rightarrow> nat \<Rightarrow> raw_action workflow bm" where
  "build_workflow e n p data =
     bbind bget (\<lambda>s.
     bbind (blift (node_variables e p s (in_init p))) (\<lambda>ini.
     bbind (blift (node_variables e p s (in_post p))) (\<lambda>post.
     bbind (bfold (\<lambda>(k, v) task. build_nodes e p n k v task (in_name p) (in_state p)) (in_pipeline p)
              (build_task e [] (VMap []))) (\<lambda>task.
     bbind (blift (pipeline_tasks task)) (\<lambda>tasks.
     bbind bget (\<lambda>s'.
       bret \<lparr>w_source = Some (url_path_join (ie_io e) (in_base p) (in_name p @ ''.yaml'')),
             w_data = cell (b_heap s') data,
             w_node = empty_node\<lparr>n_name := in_name p, n_logging := in_logging p, n_init := ini, n_post := post\<rparr>,
             w_tasks = tasks\<rparr>))))))"

definition inlined_workflow ::
  "inline_env \<Rightarrow> nat \<Rightarrow> string \<Rightarrow> string \<Rightarrow> inlined \<Rightarrow> (raw_action workflow \<times> inlined) bm" where
  "inlined_workflow e n name base p =
     (case in_workflow p of
        Some w \<Rightarrow> bret (w, p)
      | None \<Rightarrow>
          bbind bget (\<lambda>s.
          bbind (case in_data p of
                   Some a \<Rightarrow> if cell (b_heap s) a = [] then bnew [] else bret a
                 | None \<Rightarrow> bnew []) (\<lambda>data.
          let q = p\<lparr>in_base := base, in_name := name, in_data := Some data\<rparr>
          in bbind (build_workflow e n q data) (\<lambda>w. bret (w, q\<lparr>in_workflow := Some w\<rparr>)))))"

end
