(* ===== verification/Inlined_Props.thy ===== *)
theory Inlined_Props
  imports Inlined
begin

text \<open>
  What the builder of inline workflows does: the expansion loop is a pass over the range of its
  iterator and never ends when a number has no directory; flattening keeps every action in
  order; every node of a normalised tree names its own error and deferred task.
\<close>

section \<open>The expansion loop\<close>

lemma bbind_cong: "(\<And>x s'. m s = Some (Inr x, s') \<Longrightarrow> f x s' = g x s') \<Longrightarrow> bbind m f s = bbind m g s"
  by (auto simp: bbind_def split: option.splits sum.splits)

lemma bget_bind [simp]: "bbind bget f s = f s s"
  by (simp add: bbind_def bget_def)

lemma active_iff: "tg_iterator x = Some it \<Longrightarrow> has_active_iterator (Some x) \<longleftrightarrow> it_has it"
  by (simp add: has_active_iterator_def)

text \<open>
  The expansion of a template never ends when it reaches a number without a matching
  directory: whatever the fuel, the loop does not return.
\<close>

theorem missing_instance_never_ends:
  assumes "tg_iterator x = Some it" "it_has it" "tt_subpath t \<noteq> []"
    and "instances_lookup insts (as_int (ie_tb e) (VStr (it_text it))) = None"
  shows "expand_loop e F p t key insts name n x acts s = None"
  using assms(1)
proof (induction n arbitrary: x)
  case 0
  then show ?case by (simp add: bout_def)
next
  case (Suc n)
  have "build_tag_state e (in_base p) (b_heap s) (tt_subpath t) (tag_index (x\<lparr>tg_group := name\<rparr>))
          (x\<lparr>tg_group := name\<rparr>) insts = None"
    using Suc.prems assms(3,4) by (simp add: build_tag_state_def tag_index_def)
  with Suc assms(2) show ?case by (simp add: active_iff Let_def)
qed

lemma flatten_tasks_iterator:
  "tg_iterator (snd (snd (flatten_tasks e h d parent t ts))) = tg_iterator t \<and>
   tg_name (snd (snd (flatten_tasks e h d parent t ts))) = tg_name t"
  by (induction e h d parent t ts rule: flatten_tasks.induct) (auto simp: Let_def split: prod.splits)

lemma flatten_action_iterator: "tg_iterator (snd (snd (flatten_action e h task t d))) = tg_iterator t"
proof (cases "t_node task")
  case (Some node)
  then show ?thesis
    using flatten_tasks_iterator [of e h d "t_name task" t "tn_tasks node"]
    by (cases "flatten_tasks e h d (t_name task) t (tn_tasks node)") (simp add: flatten_action_def Let_def)
qed (simp add: flatten_action_def Let_def)

lemma bbind_result: "bbind m f s = Some (Inr y, s') \<longleftrightarrow> (\<exists>x s1. m s = Some (Inr x, s1) \<and> f x s1 = Some (Inr y, s'))"
  by (auto simp: bbind_def split: option.splits sum.splits)

lemma bbind_lastE:
  "bbind m f s = Some (Inr y, s') \<Longrightarrow> (\<And>x s1. f x s1 = Some (Inr y, s') \<Longrightarrow> P) \<Longrightarrow> P"
  by (auto simp: bbind_result)

lemma flatten_action_iterator_eq:
  "flatten_action e h task t d = (acts, task', t') \<Longrightarrow> tg_iterator t' = tg_iterator t"
  using flatten_action_iterator [of e h task t d] by simp

lemma instance_actions_iterator:
  "instance_actions e F p t key name x state path s = Some (Inr (acts, x'), s') \<Longrightarrow> tg_iterator x' = tg_iterator x"
  unfolding instance_actions_def Let_def
  by (elim bbind_lastE) (auto simp: bret_def split: prod.splits dest: flatten_action_iterator_eq)

lemma build_tag_state_iterator:
  "build_tag_state e base h subpath index x insts = Some (x', state, path) \<Longrightarrow> tg_iterator x' = tg_iterator x"
  by (auto simp: build_tag_state_def instance_tag_def Let_def split: if_splits option.splits)

text \<open>The reference: one round for every number of a list.\<close>

fun expand_each ::
  "inline_env \<Rightarrow> builder \<Rightarrow> inlined \<Rightarrow> transient_template \<Rightarrow> string \<Rightarrow> instances \<Rightarrow> string \<Rightarrow> int list
     \<Rightarrow> tag \<Rightarrow> raw_action list \<Rightarrow> raw_action list bm" where
  "expand_each e F p t key insts name [] x acts = bret acts"
| "expand_each e F p t key insts name (i # is) x acts =
     (let x1 = x\<lparr>tg_group := name, tg_iterator := map_option (\<lambda>it. it\<lparr>it_index := i\<rparr>) (tg_iterator x)\<rparr>
      in bbind bget (\<lambda>s.
        case build_tag_state e (in_base p) (b_heap s) (tt_subpath t) (tag_index x1) x1 insts of
          None \<Rightarrow> bout
        | Some (x2, state, path) \<Rightarrow>
            bbind (instance_actions e F p t key name x2 state path) (\<lambda>(more, x3).
              expand_each e F p t key insts name is x3 (acts @ more))))"

lemma expand_loop_stop:
  assumes "tg_iterator x = Some it" "it_has it"
    "build_tag_state e (in_base p) (b_heap s) (tt_subpath t) (it_text it) (x\<lparr>tg_group := name\<rparr>) insts = None"
  shows "expand_loop e F p t key insts name n (x\<lparr>tg_group := name\<rparr>) acts s = None"
proof -
  from assms(3) have "tt_subpath t \<noteq> []" "instances_lookup insts (as_int (ie_tb e) (VStr (it_text it))) = None"
    by (auto simp: build_tag_state_def Let_def split: option.splits if_splits)
  then show ?thesis using missing_instance_never_ends [of "x\<lparr>tg_group := name\<rparr>" it t insts e] assms(1,2) by simp
qed

lemma expand_loop_each:
  assumes "tg_iterator x = Some it" "it_max it < max_int" "- (2 ^ 63) \<le> it_index it"
    and "nat (it_max it - it_index it + 1) < n"
  shows "expand_loop e F p t key insts name n x acts s =
         expand_each e F p t key insts name [it_index it..it_max it] x acts s"
  using assms
proof (induction n arbitrary: x it acts s)
  case 0
  then show ?case by simp
next
  case (Suc n)
  show ?case
  proof (cases "it_has it")
    case False
    then show ?thesis using Suc.prems by (simp add: active_iff it_has_def)
  next
    case True
    then have up: "[it_index it..it_max it] = it_index it # [it_index it + 1..it_max it]"
      by (simp add: it_has_def upto_rec1)
    let ?x1 = "x\<lparr>tg_group := name\<rparr>"
    have x1: "x\<lparr>tg_group := name, tg_iterator := Some it\<rparr> = ?x1"
      using Suc.prems(1) by (cases x) simp
    have ix: "tag_index ?x1 = it_text it" using Suc.prems(1) by (simp add: tag_index_def)
    show ?thesis
    proof (cases "build_tag_state e (in_base p) (b_heap s) (tt_subpath t) (it_text it) ?x1 insts")
      case None
      with expand_loop_stop [OF Suc.prems(1) True] show ?thesis
        using True Suc.prems(1) ix up None by (simp add: active_iff Let_def bout_def x1)
    next
      case (Some r)
      obtain x2 state path where r: "r = (x2, state, path)" by (cases r)
      have x2: "tg_iterator x2 = Some it"
        using build_tag_state_iterator [of e _ _ _ _ ?x1] Some r Suc.prems(1) by fastforce
      have rest: "(case tg_iterator x3 of
             None \<Rightarrow> bret (acts @ more)
           | Some it' \<Rightarrow>
               if snd (it_next it')
               then expand_loop e F p t key insts name n (x3\<lparr>tg_iterator := Some (fst (it_next it'))\<rparr>) (acts @ more)
               else bret (acts @ more)) s2 =
          expand_each e F p t key insts name [it_index it + 1..it_max it] x3 (acts @ more) s2"
        if "instance_actions e F p t key name x2 state path s = Some (Inr (more, x3), s2)" for more x3 s2
      proof -
        have x3: "tg_iterator x3 = Some it" using instance_actions_iterator [OF that] x2 by simp
        let ?it = "it\<lparr>it_index := it_index it + 1\<rparr>"
        have w: "wrap64 (it_index it + 1) = it_index it + 1"
          using Suc.prems(2,3) True by (intro wrap64_id) (simp_all add: max_int_def it_has_def)
        have "expand_loop e F p t key insts name n (x3\<lparr>tg_iterator := Some ?it\<rparr>) (acts @ more) s2 =
            expand_each e F p t key insts name [it_index it + 1..it_max it] (x3\<lparr>tg_iterator := Some ?it\<rparr>)
              (acts @ more) s2"
          using Suc.IH [of "x3\<lparr>tg_iterator := Some ?it\<rparr>" ?it] Suc.prems True by (simp add: it_has_def)
        moreover have "expand_each e F p t key insts name is (x3\<lparr>tg_iterator := Some ?it\<rparr>) as s2 =
            expand_each e F p t key insts name is x3 as s2" for "is" as
          using x3 by (cases "is") simp_all
        ultimately show ?thesis using x3 w by (simp add: it_next_def it_has_def Let_def)
      qed
      show ?thesis
        using True Suc.prems(1) ix up Some r
        by (simp add: active_iff Let_def x1) (intro bbind_cong, auto simp: rest)
    qed
  qed
qed

definition template_key :: "transient_template \<Rightarrow> string" where
  "template_key t = (if tt_tag t = [] then ''$pathMatch'' else tt_tag t)"

lemma build_tag_range:
  assumes "number_laws (ie_tb e)" "decimal_text lo" "decimal_text hi"
    and "int (decimal lo 0) \<le> max_int" "int (decimal hi 0) \<le> max_int"
    and "CHR ''{'' \<notin> set key" "CHR ''}'' \<notin> set key"
  obtains x where "build_tag e base name key (lo @ ''..'' @ hi) = Inr x" "tg_iterator x = Some (range_iterator lo hi)"
  using decode_range [OF assms] that by (simp add: build_tag_def new_tag_def range_key_def Let_def)

text \<open>
  C9: a template whose range is \<open>lo..hi\<close> is expanded by one pass over the numbers from \<open>lo\<close> to
  \<open>hi\<close>, in this order, each with the state of its own directory, and the actions are appended
  to the task: with fuel beyond the size of the range the loop is equal to this pass. A tag
  with braces of its own is outside of the claim.
\<close>

theorem template_expands_range:
  assumes "number_laws (ie_tb e)" "decimal_text lo" "decimal_text hi" "int (decimal lo 0) \<le> max_int"
    and "int (decimal hi 0) < max_int" "CHR ''{'' \<notin> set (template_key t)" "CHR ''}'' \<notin> set (template_key t)"
    and "template_instances e p t = Inr (insts, lo @ ''..'' @ hi)"
    and "Suc (decimal hi 0) - decimal lo 0 < n"
  shows "\<exists>x. build_tag e (in_base p) (in_name p) (template_key t) (lo @ ''..'' @ hi) = Inr x \<and>
           expand_template e F n p t task =
             bbind (expand_each e F p t (template_key t) insts (t_name task)
                      [int (decimal lo 0)..int (decimal hi 0)] x [])
               (\<lambda>acts. bbind (bset_tag_path []) (\<lambda>_.
                  bret (add_task_actions acts (on_info (\<lambda>i. i\<lparr>ti_multi := True\<rparr>) task))))"
proof -
  have "int (decimal hi 0) \<le> max_int" using assms(5) by simp
  then obtain x where x: "build_tag e (in_base p) (in_name p) (template_key t) (lo @ ''..'' @ hi) = Inr x"
      "tg_iterator x = Some (range_iterator lo hi)"
    using build_tag_range assms(1-4,6,7) by blast
  have "expand_loop e F p t (template_key t) insts (t_name task) n x [] s =
      expand_each e F p t (template_key t) insts (t_name task)
        [it_index (range_iterator lo hi)..it_max (range_iterator lo hi)] x [] s" for s
    using assms(5,9) by (intro expand_loop_each [OF x(2)]) (simp_all add: range_iterator_def)
  then have "expand_loop e F p t (template_key t) insts (t_name task) n x [] =
      expand_each e F p t (template_key t) insts (t_name task) [int (decimal lo 0)..int (decimal hi 0)] x []"
    by (simp add: fun_eq_iff range_iterator_def)
  with x(1) assms(8) show ?thesis
    by (intro exI [of _ x]) (simp add: expand_template_def template_key_def blift_def Let_def)
qed

section \<open>Flattening\<close>

definition without_tag :: "raw_action \<Rightarrow> raw_action" where
  "without_tag a = a\<lparr>ra_meta := None\<rparr>"

definition tagged_by :: "inline_env \<Rightarrow> heap \<Rightarrow> tag \<Rightarrow> raw_action \<Rightarrow> bool" where
  "tagged_by e h t a \<longleftrightarrow>
     (\<forall>m. ra_meta a = Some m \<longrightarrow> mt_index m = tag_index t \<and> mt_tag m = tag_expand (ie_tb e) h t (tg_name t))"

lemma tag_expand_group: "tag_expand tb h (t\<lparr>tg_group := g\<rparr>) s = tag_expand tb h t s"
  by (simp add: tag_expand_def tag_map_def active_index_def has_active_iterator_def)

lemma tag_actions_bare: "map without_tag (tag_actions e h t d acts) = map without_tag acts"
proof -
  have "map without_tag (map (tag_action e h t) as) = map without_tag as" for as
    by (simp add: without_tag_def tag_action_def)
  then show ?thesis
    by (cases acts) (simp_all add: tag_actions_def describe_def without_tag_def tag_action_def)
qed

lemma tag_actions_tagged:
  assumes "tag_index t = tag_index t0" "tg_name t = tg_name t0" "tag_map (ie_tb e) t = tag_map (ie_tb e) t0"
  shows "\<forall>a\<in>set (tag_actions e h t d acts). tagged_by e h t0 a"
  using assms by (cases acts)
    (auto simp: tag_actions_def describe_def tagged_by_def tag_action_def tag_expand_def split: option.splits)

definition same_marks :: "inline_env \<Rightarrow> tag \<Rightarrow> tag \<Rightarrow> bool" where
  "same_marks e t t0 \<longleftrightarrow>
     tag_index t = tag_index t0 \<and> tg_name t = tg_name t0 \<and> tag_map (ie_tb e) t = tag_map (ie_tb e) t0"

lemma same_marks_group: "same_marks e (t\<lparr>tg_group := g\<rparr>) t0 = same_marks e t t0"
  by (simp add: same_marks_def tag_index_def tag_map_def active_index_def has_active_iterator_def)

definition actions_of :: "'a task list \<Rightarrow> 'a list" where
  "actions_of ts = concat (map t_actions (preorder ts))"

lemma actions_of_simps [simp]:
  "actions_of [] = []"
  "actions_of (MkTask info acts None # ts) = acts @ actions_of ts"
  "actions_of (MkTask info acts (Some (MkTasks us oe d)) # ts) = acts @ actions_of us @ actions_of ts"
  by (simp_all add: actions_of_def)

lemma flatten_tasks_actions:
  assumes "flatten_tasks e h d parent t ts = (acts, ts', t')" "same_marks e t t0"
  shows "map without_tag acts = map without_tag (actions_of ts) \<and> (\<forall>a\<in>set acts. tagged_by e h t0 a) \<and>
         same_marks e t' t0"
  using assms
proof (induction e h d parent t ts arbitrary: acts ts' t' rule: flatten_tasks.induct)
  case (1 e h d parent t)
  then show ?case by simp
next
  case (2 e h d parent t info as ts)
  have t1: "same_marks e (t\<lparr>tg_group := parent\<rparr>) t0" using "2.prems"(2) by (simp add: same_marks_group)
  note tagged = tag_actions_tagged [of "t\<lparr>tg_group := parent\<rparr>" t0 e h d as]
  from "2.prems"(1) t1 tagged "2.IH" [OF refl refl] show ?case
    by (auto simp: Let_def tag_actions_bare same_marks_def split: prod.splits)
next
  case (3 e h d parent t info as us oe d' ts)
  have t1: "same_marks e (t\<lparr>tg_group := parent\<rparr>) t0" using "3.prems"(2) by (simp add: same_marks_group)
  note tagged = tag_actions_tagged [of "t\<lparr>tg_group := parent\<rparr>" t0 e h d as]
  from "3.prems"(1) obtain subs us' t2 rest ts'' where
    r: "flatten_tasks e h d (n_name (ti_node info)) (t\<lparr>tg_group := parent\<rparr>) us = (subs, us', t2)"
       "flatten_tasks e h d parent t2 ts = (rest, ts'', t')"
       "acts = tag_actions e h (t\<lparr>tg_group := parent\<rparr>) d as @ subs @ rest"
    by (auto simp: Let_def split: prod.splits)
  note sub = "3.IH"(1) [OF refl refl r(1) t1]
  with "3.IH"(2) [OF refl refl r(1) [symmetric] refl refl r(2)] tagged t1 r(3) show ?case
    by (auto simp: tag_actions_bare same_marks_def)
qed

text \<open>
  C10: flattening a tree of tasks keeps every action: the result holds the actions of the tree,
  those of a task before those of its tasks, with only their tags changed, and every action
  carries the index and the expanded name of the tag of this instance.
\<close>

theorem flattening_keeps_actions:
  "map without_tag (fst (flatten_action e h task t d)) = map without_tag (actions_of [task]) \<and>
   (\<forall>a\<in>set (fst (flatten_action e h task t d)). \<forall>m. ra_meta a = Some m \<longrightarrow>
      mt_index m = tag_index t \<and> mt_tag m = tag_expand (ie_tb e) h t (tg_name t))"
proof -
  have marks: "same_marks e t t" by (simp add: same_marks_def)
  have own: "\<forall>a\<in>set (tag_actions e h t d as). tagged_by e h t a" for as by (rule tag_actions_tagged) simp_all
  have "map without_tag (fst (flatten_action e h task t d)) = map without_tag (actions_of [task]) \<and>
      (\<forall>a\<in>set (fst (flatten_action e h task t d)). tagged_by e h t a)"
  proof (cases task)
    case (MkTask info acts node)
    show ?thesis
    proof (cases node)
      case None
      with MkTask own show ?thesis by (simp add: flatten_action_def Let_def tag_actions_bare)
    next
      case (Some x)
      obtain us oe d' where x: "x = MkTasks us oe d'" by (cases x)
      obtain subs us' t' where r: "flatten_tasks e h d (t_name task) t us = (subs, us', t')"
        by (cases "flatten_tasks e h d (t_name task) t us")
      from flatten_tasks_actions [OF r marks] MkTask Some x r own show ?thesis
        by (auto simp: flatten_action_def Let_def tag_actions_bare)
    qed
  qed
  then show ?thesis by (simp add: tagged_by_def)
qed

section \<open>Normalisation\<close>

text \<open>A node that names a task of its own list, or keeps the name it had.\<close>

definition names_handlers :: "'a tasks \<Rightarrow> bool" where
  "names_handlers node \<longleftrightarrow>
     tn_on_error node = (if ''catch'' \<in> t_name ` set (tn_tasks node) then ''catch'' else []) \<and>
     tn_deferred node = (if ''defer'' \<in> t_name ` set (tn_tasks node) then ''defer'' else [])"

definition bare_node :: "'a tasks \<Rightarrow> bool" where
  "bare_node node \<longleftrightarrow> tn_on_error node = [] \<and> tn_deferred node = []"

definition all_nodes :: "('a tasks \<Rightarrow> bool) \<Rightarrow> 'a task list \<Rightarrow> bool" where
  "all_nodes P ts \<longleftrightarrow> (\<forall>t\<in>set (preorder ts). \<forall>node. t_node t = Some node \<longrightarrow> P node)"

lemma all_nodes_simps [simp]:
  "all_nodes P []"
  "all_nodes P (MkTask info acts None # ts) = all_nodes P ts"
  "all_nodes P (MkTask info acts (Some (MkTasks us oe d)) # ts) =
     (P (MkTasks us oe d) \<and> all_nodes P us \<and> all_nodes P ts)"
  by (auto simp: all_nodes_def)

lemma normalize_list_names:
  "normalize_list ts od = Inr (ts', oe', d') \<Longrightarrow> all_nodes bare_node ts \<Longrightarrow>
     all_nodes names_handlers ts' \<and> map t_name ts' = map t_name ts \<and> actions_of ts' = actions_of ts \<and>
     oe' = (if ''catch'' \<in> t_name ` set ts then ''catch'' else fst od) \<and>
     d' = (if ''defer'' \<in> t_name ` set ts then ''defer'' else snd od)"
proof (induction ts od arbitrary: ts' oe' d' rule: normalize_list.induct)
  case (1 od)
  then show ?case by simp
next
  case (2 info acts ts od)
  then show ?case by simp
next
  case (3 info acts us oe d ts od)
  let ?name = "n_name (ti_node info)"
  let ?od = "(if ?name = ''catch'' then ?name else fst od, if ?name = ''defer'' then ?name else snd od)"
  obtain us' oe1 d1 ts1 od1 where r: "normalize_list us (oe, d) = Inr (us', oe1, d1)"
      "normalize_list ts ?od = Inr (ts1, od1)" "ts' = MkTask info acts (Some (MkTasks us' oe1 d1)) # ts1" "(oe', d') = od1"
    using "3.prems"(1) by (auto simp: Let_def ebind_Inr_iff split: prod.splits)
  have bare: "all_nodes bare_node us" "all_nodes bare_node ts" "oe = []" "d = []"
    using "3.prems"(2) by simp_all (simp_all add: bare_node_def)
  note u = "3.IH"(1) [OF refl refl r(1) bare(1)]
  have t: "normalize_list ts ?od = Inr (ts1, oe', d')" using r(2,4) by simp
  note v = "3.IH"(2) [OF refl refl t bare(2)]
  have "t_name ` set us' = t_name ` set us" using u by (metis list.set_map)
  then have "names_handlers (MkTasks us' oe1 d1)" using u bare(3,4) by (simp add: names_handlers_def)
  with u v r(3) show ?case by (auto simp: t_name_def)
qed

text \<open>
  C11: normalising the tasks of an inline workflow gives every node of the tree, at every depth,
  the task \<open>catch\<close> as its error task exactly when it has one, and \<open>defer\<close> likewise as its
  deferred task, and changes neither the names of the tasks nor the actions.
\<close>

theorem normalized_nodes_name_their_handlers:
  assumes "normalize_tasks node = Inr node'" "bare_node node" "all_nodes bare_node (tn_tasks node)"
  shows "names_handlers node' \<and> all_nodes names_handlers (tn_tasks node') \<and>
         map t_name (tn_tasks node') = map t_name (tn_tasks node) \<and>
         actions_of (tn_tasks node') = actions_of (tn_tasks node)"
proof -
  obtain ts oe d where r: "normalize_list (tn_tasks node) (tn_on_error node, tn_deferred node) = Inr (ts, oe, d)"
      "node' = MkTasks ts oe d"
    using assms(1) by (auto simp: normalize_tasks_def ebind_Inr_iff)
  note n = normalize_list_names [OF r(1) assms(3)]
  then have "t_name ` set ts = t_name ` set (tn_tasks node)" by (metis list.set_map)
  with n r(2) assms(2) show ?thesis by (simp add: names_handlers_def bare_node_def)
qed

definition nested0 :: "nat tasks" where
  "nested0 = MkTasks [MkTask (empty_info\<lparr>ti_node := empty_node\<lparr>n_name := ''build''\<rparr>\<rparr>) [1]
       (Some (MkTasks [new_task ''step'' False, new_task ''catch'' False] [] [])), new_task ''defer'' False] [] []"

theorem normalized_nodes_name_their_handlers_witness:
  "\<exists>node'. normalize_tasks nested0 = Inr node' \<and> tn_deferred node' = ''defer'' \<and>
     all_nodes names_handlers (tn_tasks node')"
proof -
  have ok: "is_ok (normalize_tasks nested0)" by code_simp
  then obtain node' where n: "normalize_tasks nested0 = Inr node'" by (auto simp: is_ok_def split: sum.splits)
  have "bare_node nested0" "all_nodes bare_node (tn_tasks nested0)" "t_name ` set (tn_tasks nested0) = {''build'', ''defer''}"
    by (simp_all add: nested0_def bare_node_def new_task_def empty_info_def t_name_def empty_node_def)
  moreover have "t_name ` set (tn_tasks node') = t_name ` set (tn_tasks nested0)"
    using normalized_nodes_name_their_handlers [OF n] calculation by (metis list.set_map)
  ultimately show ?thesis
    using normalized_nodes_name_their_handlers [OF n] n by (auto simp: names_handlers_def)
qed

section \<open>Examples\<close>

definition urls1 :: urls where
  "urls1 = \<lparr>url_scheme = (\<lambda>s. s), url_host = (\<lambda>s. s), url_path = (\<lambda>s. s), url_split = path_split,
     url_join = (\<lambda>a b. a @ ''/'' @ b), url_normalize = (\<lambda>s. s)\<rparr>"

definition inline1 :: inline_env where
  "inline1 = \<lparr>ie_tb = tb0, ie_ps = ps0, ie_io = no_files, ie_urls = urls1, ie_toolbox_split = path_split, ie_unicode = (\<lambda>r. False),
     ie_url_equals = (=), ie_regexp = (\<lambda>s. Inr groups0), ie_object = (\<lambda>u. Inr (folder u)),
     ie_list = (\<lambda>u. Inr [folder ''01_a'', folder ''02_b'']), ie_service = (\<lambda>u. None),
     ie_storage_list = (\<lambda>u. Inr []), ie_to_template = (\<lambda>v. Inl (PlainErr [])),
     ie_to_action = (\<lambda>m. Inl (PlainErr [])), ie_to_task = (\<lambda>v. empty_info), ie_to_node = (\<lambda>m. Inr None),
     ie_to_variable = (\<lambda>m. Inr empty_variable), ie_to_variables = (\<lambda>v. Inr []), ie_from_variables = (\<lambda>vs. Inr VNil)\<rparr>"

definition inlined1 :: inlined where
  "inlined1 = \<lparr>in_base = ''mem:'', in_name = ''app'', in_init = VNil, in_post = VNil, in_logging = None,
     in_defaults = [], in_data = None, in_pipeline = [], in_state = None, in_workflow = None\<rparr>"

definition template1 :: transient_template where
  "template1 = \<lparr>tt_subpath = ''cases/${index}_*'', tt_tag = ''test'', tt_range = [], tt_description = [], tt_data = [],
     tt_template = [VMap []]\<rparr>"

definition tag1 :: tag where
  "tag1 = \<lparr>tg_owner_url = [], tg_owner = [], tg_name = ''test'', tg_group = [], tg_array = False,
     tg_iterator = Some (range_iterator ''2'' ''3''), tg_line = 0, tg_subpath = [], tg_path_match = [], tg_prefix = ''test''\<rparr>"

definition insts1 :: instances where
  "insts1 = instances_of [new_instance tb0 (folder ''01_a'') ''01'', new_instance tb0 (folder ''03_c'') ''03'']"

theorem missing_instance_never_ends_witness:
  "\<forall>n F s. expand_loop inline1 F inlined1 template1 ''test'' insts1 ''run'' n tag1 [] s = None"
proof -
  let ?it = "range_iterator ''2'' ''3''"
  have "it_has ?it" "instances_lookup insts1 (as_int tb0 (VStr (it_text ?it))) = None" by code_simp+
  then show ?thesis
    by (intro allI missing_instance_never_ends [where it = ?it])
      (simp_all add: tag1_def template1_def inline1_def)
qed

lemma instances1:
  "template_instances inline1 inlined1 template1 =
     Inr (instances_of [new_instance tb0 (folder ''01_a'') ''01'', new_instance tb0 (folder ''02_b'') ''02''], ''1..02'')"
  by code_simp

theorem template_expands_range_witness:
  "\<forall>F task. \<exists>x. build_tag inline1 ''mem:'' ''app'' ''test'' ''1..02'' = Inr x \<and>
     expand_template inline1 F 4 inlined1 template1 task =
       bbind (expand_each inline1 F inlined1 template1 ''test''
            (instances_of [new_instance tb0 (folder ''01_a'') ''01'', new_instance tb0 (folder ''02_b'') ''02''])
            (t_name task) [1, 2] x [])
         (\<lambda>acts. bbind (bset_tag_path []) (\<lambda>_.
            bret (add_task_actions acts (on_info (\<lambda>i. i\<lparr>ti_multi := True\<rparr>) task))))"
proof (intro allI)
  fix F task
  have c: "decimal_text ''1''" "decimal_text ''02''" "decimal ''1'' 0 = 1" "decimal ''02'' 0 = 2"
    "template_key template1 = ''test''" "[1..2::int] = [1, 2]"
    by code_simp+
  have "ie_tb inline1 = tb0" "in_base inlined1 = ''mem:''" "in_name inlined1 = ''app''"
    by (simp_all add: inline1_def inlined1_def)
  with template_expands_range [of inline1 "''1''" "''02''" template1 inlined1
      "instances_of [new_instance tb0 (folder ''01_a'') ''01'', new_instance tb0 (folder ''02_b'') ''02'']" 4 F task]
    tb0_number_laws c instances1
  show "\<exists>x. build_tag inline1 ''mem:'' ''app'' ''test'' ''1..02'' = Inr x \<and>
     expand_template inline1 F 4 inlined1 template1 task =
       bbind (expand_each inline1 F inlined1 template1 ''test''
            (instances_of [new_instance tb0 (folder ''01_a'') ''01'', new_instance tb0 (folder ''02_b'') ''02''])
            (t_name task) [1, 2] x [])
         (\<lambda>acts. bbind (bset_tag_path []) (\<lambda>_.
            bret (add_task_actions acts (on_info (\<lambda>i. i\<lparr>ti_multi := True\<rparr>) task))))"
    by (simp add: max_int_def)
qed

definition raw1 :: "string \<Rightarrow> raw_action" where
  "raw1 name = \<lparr>ra_node = Some (empty_node\<lparr>n_name := name\<rparr>), ra_request = None, ra_meta = Some empty_meta,
     ra_repeater = None, ra_async = False, ra_skip = []\<rparr>"

definition tree1 :: "raw_action task" where
  "tree1 = MkTask empty_info [raw1 ''a'']
     (Some (MkTasks [MkTask empty_info [raw1 ''b''] None, MkTask empty_info [raw1 ''c''] None] [] []))"

theorem flattening_keeps_actions_witness:
  "map (map_option n_name \<circ> ra_node) (fst (flatten_action inline1 (wd_heap empty_world) tree1 tag1 [])) = [Some ''a'', Some ''b'', Some ''c'']"
proof -
  have "map (map_option n_name \<circ> ra_node) (fst (flatten_action inline1 (wd_heap empty_world) tree1 tag1 [])) =
      map (map_option n_name \<circ> ra_node) (map without_tag (fst (flatten_action inline1 (wd_heap empty_world) tree1 tag1 [])))"
    by (simp add: without_tag_def)
  also have "map without_tag (fst (flatten_action inline1 (wd_heap empty_world) tree1 tag1 [])) = map without_tag (actions_of [tree1])"
    using flattening_keeps_actions by blast
  also have "map (map_option n_name \<circ> ra_node) \<dots> = [Some ''a'', Some ''b'', Some ''c'']"
    by (simp add: tree1_def raw1_def without_tag_def empty_node_def)
  finally show ?thesis .
qed

end
