(* ===== verification/Run_Log.thy ===== *)
theory Run_Log
  imports Engine_Safety Templates
begin

text \<open>
  service/workflow/logger.go: the listener that writes every event of a run to a file of its
  own. The file lies in the directory of its group, the workflows and tasks that are open, and
  is numbered within the group. An event is written as a record; the file system itself is not
  modelled. \<open>type_of\<close> gives the name of the Go type of an event, \<open>acts\<close> the activity behind a
  pointer.
\<close>

section \<open>The state of the logger\<close>

record logger =
  lg_activities :: "activity activities"
  lg_directory :: string
  lg_workflows :: "string list"
  lg_tasks :: "string list"
  lg_tags :: "meta_tag option list"
  lg_group_seq :: "(string \<times> int) list"
  lg_group_count :: int
  lg_file_seq :: "(string \<times> int) list"
  lg_ended :: bool

definition new_logger :: "string \<Rightarrow> logger" where
  "new_logger directory =
     \<lparr>lg_activities = new_activities, lg_directory = directory, lg_workflows = [], lg_tasks = [], lg_tags = [],
      lg_group_seq = [], lg_group_count = 0, lg_file_seq = [], lg_ended = False\<rparr>"

definition normalize_segment :: "string \<Rightarrow> string" where
  "normalize_segment s = to_lower (replace_all (replace_all (replace_all s ''/'' ''_'') ''-'' ''_'') '' '' ''_'')"

definition trim_suffix :: "string \<Rightarrow> string \<Rightarrow> string" where
  "trim_suffix s suf = (if has_suffix s suf then take (length s - length suf) s else s)"

text \<open>The last segment of the directory of the owner, or the one above a directory \<open>cases\<close>.\<close>

definition last_segment :: "string \<Rightarrow> string" where
  "last_segment s = (case last_index_of s ''/'' of None \<Rightarrow> s | Some i \<Rightarrow> drop (Suc i) s)"

definition owner_segment :: "string \<Rightarrow> string" where
  "owner_segment parent =
     (case last_index_of parent ''/'' of
        None \<Rightarrow> parent
      | Some j \<Rightarrow>
          if to_lower (drop (Suc j) parent) = ''cases''
          then (let grand = take j parent
                in if CHR ''/'' \<in> set grand \<or> grand \<noteq> [] then last_segment grand else drop (Suc j) parent)
          else drop (Suc j) parent)"

definition workflow_segment :: "string \<Rightarrow> string \<Rightarrow> string" where
  "workflow_segment workflow owner =
     (let name = normalize_segment workflow
      in if name \<noteq> [] \<and> name \<noteq> ''run'' then name
         else if owner = [] then name
         else (let u = trim_suffix owner ''/'';
                   u' = (case index_of u ''://'' of None \<Rightarrow> u | Some i \<Rightarrow> drop (i + 3) u)
               in case last_index_of u' ''/'' of
                    None \<Rightarrow> name
                  | Some i \<Rightarrow>
                      (let seg = normalize_segment (owner_segment (take i u'))
                       in if seg \<noteq> [] then seg else name)))"

definition log_activity :: "activity \<Rightarrow> logger \<Rightarrow> logger" where
  "log_activity a l =
     (if lg_ended l \<and> 0 < activities_len (lg_activities l)
      then l\<lparr>lg_ended := False, lg_activities := activities_push a (snd (activities_pop (lg_activities l)))\<rparr>
      else l\<lparr>lg_activities := activities_push a (lg_activities l)\<rparr>)"

definition log_process :: "(nat \<Rightarrow> activity) \<Rightarrow> event \<Rightarrow> logger \<Rightarrow> logger" where
  "log_process acts v l =
     (case v of
        EvActivity a \<Rightarrow> log_activity (acts a) l
      | EvActivityEnd a \<Rightarrow> l\<lparr>lg_ended := True\<rparr>
      | EvWorkflowStart name owner parent parent_owner session tasks tags \<Rightarrow>
          l\<lparr>lg_workflows := lg_workflows l @ [workflow_segment name owner]\<rparr>
      | EvWorkflowEnd name owner parent parent_owner session status err \<Rightarrow> l\<lparr>lg_workflows := butlast (lg_workflows l)\<rparr>
      | EvTaskStart workflow owner name session tag \<Rightarrow>
          l\<lparr>lg_tasks := lg_tasks l @ [name], lg_tags := lg_tags l @ [tag]\<rparr>
      | EvTaskEnd workflow owner name session status err \<Rightarrow>
          l\<lparr>lg_tasks := butlast (lg_tasks l), lg_tags := butlast (lg_tags l)\<rparr>
      | _ \<Rightarrow> l)"

section \<open>Groups and file names\<close>

definition group_key :: "logger \<Rightarrow> string" where
  "group_key l = join ''/'' (lg_workflows l) @ ''|'' @ join ''/'' (lg_tasks l)"

fun task_parts :: "string list \<Rightarrow> meta_tag option list \<Rightarrow> string list" where
  "task_parts [] tags = []"
| "task_parts (t # ts) tags =
     (let n = normalize_segment t;
          rest = task_parts ts (tl tags)
      in if n = [] then rest
         else (case tags of
                 Some m # _ \<Rightarrow> if mt_tag m \<noteq> [] then n @ ''_'' @ normalize_segment (mt_tag m) else n
               | _ \<Rightarrow> n) # rest)"

definition group_path :: "logger \<Rightarrow> string" where
  "group_path l =
     (let parts = filter (\<lambda>n. n \<noteq> []) (map normalize_segment (lg_workflows l)) @ task_parts (lg_tasks l) (lg_tags l)
      in join ''_'' (if parts = [] then [''main''] else parts))"

definition sprintf4 :: "int \<Rightarrow> string" where
  "sprintf4 n = (let s = ''0000'' @ show_int n in drop (length s - 4) s)"

definition group_dir :: "logger \<Rightarrow> string \<times> logger" where
  "group_dir l =
     (let l' = (if mhas (lg_group_seq l) (group_key l) then l
                else l\<lparr>lg_group_count := lg_group_count l + 1,
                       lg_group_seq := mput (group_key l) (lg_group_count l + 1) (lg_group_seq l)\<rparr>);
          seq = (case mget (lg_group_seq l') (group_key l') of None \<Rightarrow> 0 | Some n \<Rightarrow> n)
      in (sprintf4 seq @ ''_'' @ group_path l', l'))"

definition file_count :: "logger \<Rightarrow> string \<Rightarrow> int" where
  "file_count l dir = (case mget (lg_file_seq l) dir of None \<Rightarrow> 0 | Some n \<Rightarrow> n)"

definition next_file_seq :: "string \<Rightarrow> logger \<Rightarrow> int \<times> logger" where
  "next_file_seq dir l =
     (file_count l dir + 1, l\<lparr>lg_file_seq := mput dir (file_count l dir + 1) (lg_file_seq l)\<rparr>)"

definition main_activity :: activity where
  "main_activity =
     \<lparr>ay_meta = empty_meta\<lparr>mt_tag := ''main''\<rparr>, ay_caller = [], ay_service = [], ay_action = [], ay_description = [],
      ay_request = VNil, ay_response = 0, ay_result = None,
      ay_service_response = \<lparr>sp_status = [], sp_error = [], sp_err = None\<rparr>, ay_logging = None\<rparr>"

text \<open>The service and the action, from the last activity or else from the type of the event.\<close>

definition event_service :: "string \<Rightarrow> bool \<Rightarrow> activity \<Rightarrow> string \<times> string" where
  "event_service type request a =
     (let service = normalize_segment (ay_service a);
          act = normalize_segment (ay_action a)
      in if service \<noteq> [] \<and> act \<noteq> [] then (service, act)
         else (let base = (if request \<and> has_suffix type ''Request'' then trim_suffix type ''Request''
                           else trim_suffix type ''Response'');
                   fragments = split_on ''_'' base
               in if 2 \<le> length fragments
                  then (normalize_segment (hd fragments), normalize_segment (join ''_'' (tl fragments)))
                  else (normalize_segment base, [])))"

definition leaf_text :: "string \<Rightarrow> bool \<Rightarrow> activity \<Rightarrow> string" where
  "leaf_text type ends a =
     (let low = to_lower type;
          request = has_suffix low ''request'';
          response = has_suffix low ''response'' \<or> ends
      in if request \<or> response
         then (let (service, act) = event_service type request a
               in service @ (if act \<noteq> [] then ''_'' @ act else []) @ ''_'' @
                  (if response then ''response'' else ''request'') @ ''.json'')
         else low @ ''.json'')"

definition needs_activity :: "string \<Rightarrow> bool \<Rightarrow> bool" where
  "needs_activity type ends \<longleftrightarrow>
     has_suffix (to_lower type) ''request'' \<or> has_suffix (to_lower type) ''response'' \<or> ends"

definition leaf_file_name :: "string \<Rightarrow> bool \<Rightarrow> string \<Rightarrow> logger \<Rightarrow> string \<times> logger" where
  "leaf_file_name type ends dir l =
     (let (seq, l1) = next_file_seq dir l;
          (a, as') = (if needs_activity type ends then activities_last main_activity (lg_activities l1)
                      else (main_activity, lg_activities l1))
      in (sprintf4 seq @ ''_'' @ leaf_text type ends a, l1\<lparr>lg_activities := as'\<rparr>))"

section \<open>Writing\<close>

record written =
  wr_dir :: string
  wr_leaf :: string
  wr_file :: string
  wr_type :: string
  wr_workflow :: string
  wr_task_path :: "string list"
  wr_tag :: string
  wr_template_tag :: "meta_tag option"
  wr_event :: event

definition should_write :: "event \<Rightarrow> bool" where
  "should_write v =
     (case v of
        EvTaskStart workflow owner name session tag \<Rightarrow> False
      | EvTaskEnd workflow owner name session status err \<Rightarrow> False
      | _ \<Rightarrow> True)"

definition on_event ::
  "(event \<Rightarrow> string) \<Rightarrow> (nat \<Rightarrow> activity) \<Rightarrow> published \<Rightarrow> logger \<Rightarrow> written option \<times> logger" where
  "on_event type_of acts e l =
     (let l1 = log_process acts (pb_event e) l
      in if \<not> should_write (pb_event e) then (None, l1)
         else (let (dir, l2) = group_dir l1;
                   type = event_type (type_of (pb_event e));
                   (name, l3) = leaf_file_name type (pb_init e \<noteq> None) dir l2;
                   tag = (if lg_tags l3 = [] then None else last (lg_tags l3))
               in (Some \<lparr>wr_dir = dir, wr_leaf = name, wr_file = path_join [lg_directory l3, dir, name],
                     wr_type = to_lower type,
                     wr_workflow = (if lg_workflows l3 = [] then [] else last (lg_workflows l3)),
                     wr_task_path = lg_tasks l3,
                     wr_tag = (case tag of None \<Rightarrow> [] | Some m \<Rightarrow> mt_tag m),
                     wr_template_tag = tag, wr_event = pb_event e\<rparr>, l3)))"

text \<open>All events of a log in turn: the files in the order they are written.\<close>

fun write_log ::
  "(event \<Rightarrow> string) \<Rightarrow> (nat \<Rightarrow> activity) \<Rightarrow> published list \<Rightarrow> logger \<Rightarrow> written list \<times> logger" where
  "write_log type_of acts [] l = ([], l)"
| "write_log type_of acts (e # es) l =
     (let (w, l1) = on_event type_of acts e l;
          (ws, l2) = write_log type_of acts es l1
      in ((case w of None \<Rightarrow> [] | Some x \<Rightarrow> [x]) @ ws, l2))"

end
