(* ===== verification/Run_Log_Props.thy ===== *)
theory Run_Log_Props
  imports Run_Log
begin

text \<open>
  What the log of a run looks like: its group is restored by every run, its file names are
  different as long as the four digits of the sequence last, and a response that comes after a
  nested activity carries the name of that activity.
\<close>

section \<open>The open workflows and tasks\<close>

definition log_stacks :: "logger \<Rightarrow> string list \<times> string list \<times> meta_tag option list" where
  "log_stacks l = (lg_workflows l, lg_tasks l, lg_tags l)"

lemma log_process_stacks:
  "log_stacks l = log_stacks l' \<Longrightarrow> log_stacks (log_process acts v l) = log_stacks (log_process acts' v l')"
  by (cases v) (simp_all add: log_stacks_def log_process_def log_activity_def)

lemma log_process_plain: "plain v \<Longrightarrow> log_stacks (log_process acts v l) = log_stacks l"
  by (cases v) (simp_all add: log_stacks_def log_process_def)

lemma fold_log_process_stacks:
  "log_stacks l = log_stacks l' \<Longrightarrow> log_stacks (fold (log_process acts) es l) = log_stacks (fold (log_process acts') es l')"
proof (induction es arbitrary: l l')
  case (Cons v es)
  show ?case using Cons.IH [OF log_process_stacks [OF Cons.prems, of acts v acts']] by simp
qed simp

lemma log_process_balanced: "balanced es \<Longrightarrow> log_stacks (fold (log_process acts) es l) = log_stacks l"
proof (induction es arbitrary: l rule: balanced.induct)
  case (balanced_pair s t es)
  have "log_stacks (log_process acts t (fold (log_process acts) es (log_process acts s l))) =
      log_stacks (log_process acts t (log_process acts s l))"
    by (intro log_process_stacks balanced_pair.IH)
  also have "\<dots> = log_stacks l"
    using balanced_pair.hyps(1)
    by (cases rule: matching.cases) (simp_all add: log_stacks_def log_process_def log_activity_def)
  finally show ?case by simp
qed (simp_all add: log_process_plain)

lemma group_dir_stacks: "log_stacks (snd (group_dir l)) = log_stacks l"
  by (simp add: group_dir_def log_stacks_def Let_def)

lemma leaf_file_name_stacks: "log_stacks (snd (leaf_file_name type ends dir l)) = log_stacks l"
  by (simp add: leaf_file_name_def next_file_seq_def log_stacks_def Let_def split: prod.splits)

lemma on_event_stacks: "log_stacks (snd (on_event type_of acts e l)) = log_stacks (log_process acts (pb_event e) l)"
proof -
  obtain dir l2 where g: "group_dir (log_process acts (pb_event e) l) = (dir, l2)" by fastforce
  obtain name l3 where f: "leaf_file_name (event_type (type_of (pb_event e))) (pb_init e \<noteq> None) dir l2 = (name, l3)"
    by fastforce
  have "log_stacks l3 = log_stacks (log_process acts (pb_event e) l)"
    using group_dir_stacks [of "log_process acts (pb_event e) l"] leaf_file_name_stacks [of _ _ dir l2] g f
    by (metis snd_conv)
  then show ?thesis by (simp add: on_event_def Let_def g f del: not_None_eq)
qed

lemma write_log_stacks:
  "log_stacks (snd (write_log type_of acts es l)) = log_stacks (fold (log_process acts) (map pb_event es) l)"
proof (induction es arbitrary: l)
  case (Cons e es)
  have "snd (write_log type_of acts (e # es) l) =
      snd (write_log type_of acts es (snd (on_event type_of acts e l)))"
    by (simp add: Let_def split: prod.splits)
  with Cons show ?case using fold_log_process_stacks [OF on_event_stacks] by simp
qed simp

text \<open>
  C12: whatever a service run does, the log it leaves has the open workflows, tasks and template
  tags that it had before the run, so that the next event goes to the directory of the group
  it belongs to.
\<close>

theorem run_keeps_log_group:
  assumes "endly_run e n c req w = Inr (r, w')" "no_goroutine_waits w" "listens w c" "k < wd_nlog w"
  shows "\<exists>new. log_events w' k = log_events w k @ map pb_event new \<and>
           (let l' = snd (write_log type_of acts new l)
            in lg_workflows l' = lg_workflows l \<and> lg_tasks l' = lg_tasks l \<and> lg_tags l' = lg_tags l \<and>
               group_key l' = group_key l \<and> group_path l' = group_path l)"
proof -
  have idle: "gr_waiting (wd_groups w g) = []" for g using assms(2) by (simp add: no_goroutine_waits_def)
  have c: "c < wd_nctx w" "cx_listener (wd_ctxs w c) = Some k \<Longrightarrow> k < wd_nlog w" for k
    using assms(3) by (simp_all add: listens_def)
  have "balanced_logs w w'"
    using log_rel.run_related [OF assms(1)] log_rel.idle_valid [of w] idle c by blast
  then obtain es where es: "log_events w' k = log_events w k @ es" "balanced es"
    using assms(4) by (auto simp: balanced_logs_def)
  let ?new = "drop (length (wd_logs w k)) (wd_logs w' k)"
  have new: "map pb_event ?new = es"
    using es(1) by (simp add: log_events_def drop_map [symmetric])
  then have "log_stacks (snd (write_log type_of acts ?new l)) = log_stacks l"
    using write_log_stacks [of type_of acts ?new l] log_process_balanced [OF es(2)] by simp
  then show ?thesis
    using es(1) new by (intro exI [of _ ?new]) (simp add: log_stacks_def group_key_def group_path_def Let_def)
qed

theorem run_keeps_log_group_witness:
  "\<exists>r w' new. endly_run env0 1 0 switch0 running0 = Inr (r, w') \<and> log_events w' 0 = map pb_event new \<and>
     group_path (snd (write_log (\<lambda>v. []) (\<lambda>a. main_activity) new (new_logger ''logs''))) = ''main''"
proof -
  have m: "group_path (new_logger ''logs'') = ''main''" by code_simp
  show ?thesis
    using switch0_returns m run_keeps_log_group [of env0 1 0 switch0 running0 _ _ 0 "\<lambda>v. []" "\<lambda>a. main_activity"
        "new_logger ''logs''"] running0_idle
    by (fastforce simp: running0_fields log_events_def Let_def)
qed

section \<open>The numbers of files\<close>

definition digit_at :: "nat \<Rightarrow> nat \<Rightarrow> char" where
  "digit_at n i = char_of (48 + n div 10 ^ i mod 10)"

definition four_digits :: "nat \<Rightarrow> string" where
  "four_digits n = [digit_at n 3, digit_at n 2, digit_at n 1, digit_at n 0]"

lemma nat_digits_step: "nat_digits n = (if n < 10 then [] else nat_digits (n div 10)) @ [char_of (48 + n mod 10)]"
  by (subst nat_digits.simps) simp

lemma four_digits_steps:
  "four_digits n = [char_of (48 + n div 10 div 10 div 10 mod 10), char_of (48 + n div 10 div 10 mod 10),
     char_of (48 + n div 10 mod 10), char_of (48 + n mod 10)]"
proof -
  have "n div 10 ^ 2 = n div 10 div 10" "n div 10 ^ 3 = n div 10 div 10 div 10"
    by (simp_all only: div_mult2_eq [symmetric]) simp_all
  then show ?thesis by (simp only: four_digits_def digit_at_def) simp
qed

lemma sprintf4_digits: "sprintf4 (int n) = four_digits n"
proof -
  define a b c where "a = n div 10" and "b = a div 10" and "c = b div 10"
  note abc = a_def [symmetric] b_def [symmetric] c_def [symmetric]
  have s: "nat_digits n = (if n < 10 then [] else nat_digits a) @ [char_of (48 + n mod 10)]"
    "nat_digits a = (if a < 10 then [] else nat_digits b) @ [char_of (48 + a mod 10)]"
    "nat_digits b = (if b < 10 then [] else nat_digits c) @ [char_of (48 + b mod 10)]"
    "nat_digits c = (if c < 10 then [] else nat_digits (c div 10)) @ [char_of (48 + c mod 10)]"
    unfolding a_def b_def c_def by (rule nat_digits_step)+
  have f: "four_digits n = [char_of (48 + c mod 10), char_of (48 + b mod 10), char_of (48 + a mod 10), char_of (48 + n mod 10)]"
    unfolding four_digits_steps abc ..
  have z: "CHR ''0'' = char_of (48::nat)" by code_simp
  have l: "n < 10 \<Longrightarrow> a = 0" "a < 10 \<Longrightarrow> b = 0" "b < 10 \<Longrightarrow> c = 0" by (simp_all add: a_def b_def c_def)
  have "nat (int n) = n" "\<not> int n < 0" by simp_all
  then have sp: "sprintf4 (int n) = drop (length (''0000'' @ nat_digits n) - 4) (''0000'' @ nat_digits n)"
    by (simp only: sprintf4_def show_int_def Let_def if_False)
  consider "n < 10" | "\<not> n < 10" "a < 10" | "\<not> n < 10" "\<not> a < 10" "b < 10" | "\<not> n < 10" "\<not> a < 10" "\<not> b < 10"
    by blast
  then show ?thesis
  proof cases
    case 1
    then show ?thesis using l by (simp add: sp s(1) f z)
  next
    case 2
    then show ?thesis using l by (simp add: sp s(1,2) f z)
  next
    case 3
    then show ?thesis using l by (simp add: sp s(1-3) f z)
  next
    case 4
    then have "nat_digits n = (if c < 10 then [] else nat_digits (c div 10)) @ four_digits n"
      unfolding f by (simp add: s)
    then show ?thesis by (simp add: sp f)
  qed
qed

lemma digit_of_mod: "i < 4 \<Longrightarrow> n mod 10000 div 10 ^ i mod 10 = n div 10 ^ i mod 10" for n i :: nat
proof -
  assume "i < 4"
  then have e: "10000 = 10 ^ i * (10 ^ (4 - i) :: nat)" "(10::nat) dvd 10 ^ (4 - i)"
    by (simp_all add: power_add [symmetric] dvd_power)
  have "n mod (b * k) div b = n div b mod k" if "0 < b" for b k :: nat
    using that by (simp add: mod_mult2_eq)
  then have "n mod 10000 div 10 ^ i = n div 10 ^ i mod 10 ^ (4 - i)" unfolding e(1) by simp
  then show ?thesis using mod_mod_cancel [OF e(2), of "n div 10 ^ i"] by (simp only:)
qed

lemma four_digits_value:
  "n mod 10000 = n mod 10 + 10 * (n div 10 mod 10 + 10 * (n div 10 div 10 mod 10 + 10 * (n div 10 div 10 div 10 mod 10)))"
  for n :: nat
proof -
  have "n mod (10 * 1000) = 10 * (n div 10 mod 1000) + n mod 10"
    "n div 10 mod (10 * 100) = 10 * (n div 10 div 10 mod 100) + n div 10 mod 10"
    "n div 10 div 10 mod (10 * 10) = 10 * (n div 10 div 10 div 10 mod 10) + n div 10 div 10 mod 10"
    by (rule mod_mult2_eq)+
  then show ?thesis by simp
qed

lemma digit_char_inj: "char_of (48 + m mod 10) = (char_of (48 + n mod 10) :: char) \<Longrightarrow> m mod 10 = n mod 10"
  for m n :: nat
proof -
  assume c: "char_of (48 + m mod 10) = (char_of (48 + n mod 10) :: char)"
  have "48 + m mod 10 = (of_char (char_of (48 + m mod 10) :: char) :: nat)" by (rule conjunct2 [OF digit_value, symmetric]) simp
  also have "\<dots> = 48 + n mod 10" unfolding c by (rule conjunct2 [OF digit_value]) simp
  finally show ?thesis by simp
qed

lemma sprintf4_eq_iff: "sprintf4 (int m) = sprintf4 (int n) \<longleftrightarrow> m mod 10000 = n mod 10000"
proof
  assume "sprintf4 (int m) = sprintf4 (int n)"
  then have "char_of (48 + m mod 10) = (char_of (48 + n mod 10) :: char)"
    "char_of (48 + m div 10 mod 10) = (char_of (48 + n div 10 mod 10) :: char)"
    "char_of (48 + m div 10 div 10 mod 10) = (char_of (48 + n div 10 div 10 mod 10) :: char)"
    "char_of (48 + m div 10 div 10 div 10 mod 10) = (char_of (48 + n div 10 div 10 div 10 mod 10) :: char)"
    by (simp_all only: sprintf4_digits four_digits_steps list.inject)
  note d = this [THEN digit_char_inj]
  show "m mod 10000 = n mod 10000"
    unfolding four_digits_value [of m] four_digits_value [of n] by (simp only: d)
next
  assume "m mod 10000 = n mod 10000"
  then have "digit_at m i = digit_at n i" if "i < 4" for i
    using digit_of_mod [OF that, of m] digit_of_mod [OF that, of n] by (simp add: digit_at_def)
  then show "sprintf4 (int m) = sprintf4 (int n)" by (simp add: sprintf4_digits four_digits_def)
qed

lemma sprintf4_length: "length (sprintf4 (int n)) = 4"
  by (simp add: sprintf4_digits four_digits_def)

text \<open>The files written so far: each has one of the numbers given in its directory.\<close>

definition numbered :: "logger \<Rightarrow> written list \<Rightarrow> nat \<Rightarrow> bool" where
  "numbered l ws n \<longleftrightarrow>
     (\<forall>dir. 0 \<le> file_count l dir \<and> file_count l dir \<le> int n) \<and>
     (\<forall>w\<in>set ws. \<exists>k. int k \<le> file_count l (wr_dir w) \<and> 0 < k \<and> take 4 (wr_leaf w) = sprintf4 (int k)) \<and>
     distinct (map (\<lambda>w. (wr_dir w, wr_leaf w)) ws)"

lemma file_count_next:
  "file_count (snd (next_file_seq dir l)) d = (if d = dir then file_count l dir + 1 else file_count l d)"
  by (simp add: next_file_seq_def file_count_def)

lemma log_process_file_seq: "lg_file_seq (log_process acts v l) = lg_file_seq l"
  by (cases v) (simp_all add: log_process_def log_activity_def)

lemma group_dir_file_seq: "lg_file_seq (snd (group_dir l)) = lg_file_seq l"
  by (simp add: group_dir_def Let_def)

lemma leaf_file_name_number:
  assumes "leaf_file_name type ends dir l = (name, l')"
  shows "(\<exists>rest. name = sprintf4 (file_count l dir + 1) @ rest) \<and>
         file_count l' d = (if d = dir then file_count l dir + 1 else file_count l d)"
  using assms file_count_next [of dir l d]
  by (auto simp: leaf_file_name_def next_file_seq_def file_count_def Let_def split: prod.splits)

lemma on_event_number:
  assumes "on_event type_of acts e l = (w, l')"
  shows "case w of
           None \<Rightarrow> lg_file_seq l' = lg_file_seq l
         | Some x \<Rightarrow> (\<exists>rest. wr_leaf x = sprintf4 (file_count l (wr_dir x) + 1) @ rest) \<and>
             (\<forall>d. file_count l' d = (if d = wr_dir x then file_count l d + 1 else file_count l d))"
proof (cases "should_write (pb_event e)")
  case True
  obtain dir l2 where g: "group_dir (log_process acts (pb_event e) l) = (dir, l2)" by fastforce
  obtain name l3 where f: "leaf_file_name (event_type (type_of (pb_event e))) (pb_init e \<noteq> None) dir l2 = (name, l3)"
    by fastforce
  have "lg_file_seq l2 = lg_file_seq l"
    using g group_dir_file_seq [of "log_process acts (pb_event e) l"] by (simp add: log_process_file_seq)
  then have same: "file_count l2 = file_count l" by (simp add: file_count_def fun_eq_iff)
  show ?thesis
    using assms True leaf_file_name_number [OF f] same
    by (auto simp: on_event_def Let_def g f simp del: not_None_eq)
qed (use assms in \<open>auto simp: on_event_def log_process_file_seq\<close>)

lemma numbered_step:
  assumes num: "numbered l ws n" and e: "on_event type_of acts e l = (w, l')" and n: "Suc n < 10000"
  shows "numbered l' (ws @ (case w of None \<Rightarrow> [] | Some x \<Rightarrow> [x])) (Suc n)"
proof (cases w)
  case None
  then have "file_count l' = file_count l" using on_event_number [OF e] by (simp add: file_count_def fun_eq_iff)
  moreover have "0 \<le> file_count l d \<and> file_count l d \<le> int (Suc n)" for d
    using num unfolding numbered_def by (metis le_SucI nat_le_iff nat_int)
  ultimately show ?thesis using num None unfolding numbered_def by (simp; blast)
next
  case (Some x)
  obtain rest where x: "wr_leaf x = sprintf4 (file_count l (wr_dir x) + 1) @ rest"
    and c: "\<And>d. file_count l' d = (if d = wr_dir x then file_count l d + 1 else file_count l d)"
    using on_event_number [OF e] Some by auto
  define k where "k = nat (file_count l (wr_dir x)) + 1"
  have bound: "0 \<le> file_count l d \<and> file_count l d \<le> int n" for d using num by (simp add: numbered_def)
  then have k: "int k = file_count l (wr_dir x) + 1" "k < 10000" using n by (auto simp: k_def) (metis Suc_lessD le_less_trans of_nat_Suc of_nat_le_iff nat_le_iff Suc_leI not_le)
  have tx: "take 4 (wr_leaf x) = sprintf4 (int k)" using x k(1) sprintf4_length [of k] by simp
  have fresh: "(wr_dir x, wr_leaf x) \<noteq> (wr_dir y, wr_leaf y)" if "y \<in> set ws" for y
  proof
    assume eq: "(wr_dir x, wr_leaf x) = (wr_dir y, wr_leaf y)"
    from num that obtain j where j: "int j \<le> file_count l (wr_dir y)" "0 < j" "take 4 (wr_leaf y) = sprintf4 (int j)"
      unfolding numbered_def by blast
    then have "sprintf4 (int j) = sprintf4 (int k)" using tx eq by simp
    moreover have "j < k" using j(1) k(1) eq by simp
    ultimately show False using k(2) by (simp add: sprintf4_eq_iff)
  qed
  have "\<exists>j. int j \<le> file_count l' (wr_dir y) \<and> 0 < j \<and> take 4 (wr_leaf y) = sprintf4 (int j)" if "y \<in> set ws" for y
  proof -
    obtain j where j: "int j \<le> file_count l (wr_dir y)" "0 < j" "take 4 (wr_leaf y) = sprintf4 (int j)"
      using num \<open>y \<in> set ws\<close> unfolding numbered_def by blast
    moreover have "file_count l (wr_dir y) \<le> file_count l' (wr_dir y)" using c by simp
    ultimately show ?thesis by (intro exI [of _ j]) simp
  qed
  moreover have "int k \<le> file_count l' (wr_dir x) \<and> 0 < k \<and> take 4 (wr_leaf x) = sprintf4 (int k)"
    using c k(1) tx by (simp add: k_def)
  moreover have "0 \<le> file_count l' d \<and> file_count l' d \<le> int (Suc n)" for d
    using bound [of d] bound [of "wr_dir x"] c [of d] by auto
  moreover have "distinct (map (\<lambda>w. (wr_dir w, wr_leaf w)) ws)" using num by (simp add: numbered_def)
  ultimately show ?thesis using fresh Some unfolding numbered_def by (simp; blast)
qed

lemma write_log_numbered:
  assumes "numbered l ws n" "n + length es < 10000" "write_log type_of acts es l = (ws', l')"
  shows "numbered l' (ws @ ws') (n + length es)"
  using assms
proof (induction es arbitrary: l ws n ws')
  case Nil
  then show ?case by simp
next
  case (Cons e es)
  obtain w l1 vs where step: "on_event type_of acts e l = (w, l1)" "write_log type_of acts es l1 = (vs, l')"
      "ws' = (case w of None \<Rightarrow> [] | Some x \<Rightarrow> [x]) @ vs"
    using Cons.prems(3) by (auto simp: Let_def split: prod.splits)
  have "numbered l1 (ws @ (case w of None \<Rightarrow> [] | Some x \<Rightarrow> [x])) (Suc n)"
    using numbered_step [OF Cons.prems(1) step(1)] Cons.prems(2) by simp
  from Cons.IH [OF this _ step(2)] Cons.prems(2) step(3) show ?case by simp
qed


definition type0 :: "event \<Rightarrow> string" where
  "type0 v = (case v of
      EvRequest s a \<Rightarrow> ''*exec.RunRequest''
    | EvResponse r \<Rightarrow> ''*exec.RunResponse''
    | EvTaskStart a b n s t \<Rightarrow> ''*model.TaskStartEvent''
    | EvActivity a \<Rightarrow> ''*model.Activity''
    | _ \<Rightarrow> ''*msg.Event'')"

definition acts0 :: "nat \<Rightarrow> activity" where
  "acts0 a = main_activity\<lparr>ay_service := (if a = 0 then ''exec'' else ''docker''), ay_action := (if a = 0 then ''run'' else ''build'')\<rparr>"

definition log0 :: "published list" where
  "log0 = map new_event [EvTaskStart [] [] ''build'' [] None, EvActivity 0, EvRequest ''exec'' ''run'']"


text \<open>
  The end of an activity does not bring back the one around it: after a nested activity
  \<open>b\<close> has ended, the response of the activity \<open>a\<close> that called it is written to a file with the
  service and the action of \<open>b\<close>.
\<close>

theorem outer_response_is_named_after_nested:
  assumes "normalize_segment (ay_service (acts b)) \<noteq> []" "normalize_segment (ay_action (acts b)) \<noteq> []"
    and "has_suffix (to_lower type) ''response''"
  shows "\<exists>n. fst (leaf_file_name type ends dir
             (fold (log_process acts) [EvActivity a, EvActivity b, EvActivityEnd b] l)) =
           sprintf4 n @ ''_'' @ normalize_segment (ay_service (acts b)) @ ''_'' @
           normalize_segment (ay_action (acts b)) @ ''_response.json''"
proof -
  let ?l = "fold (log_process acts) [EvActivity a, EvActivity b, EvActivityEnd b] l"
  have "as_current (lg_activities ?l) = Some (acts b)"
    by (simp add: log_process_def log_activity_def activities_push_def)
  then have "as_current (lg_activities (snd (next_file_seq dir ?l))) = Some (acts b)"
    by (simp add: next_file_seq_def)
  with assms show ?thesis
    by (simp add: leaf_file_name_def needs_activity_def activities_last_def leaf_text_def event_service_def
        next_file_seq_def Let_def split: prod.splits) blast
qed

theorem outer_response_is_named_after_nested_witness:
  "\<exists>n. fst (leaf_file_name ''exec_RunResponse'' True ''0001_main''
       (fold (log_process acts0) [EvActivity 0, EvActivity 1, EvActivityEnd 1] (new_logger ''logs''))) =
     sprintf4 n @ ''_docker_build_response.json''"
proof -
  have "normalize_segment (ay_service (acts0 1)) = ''docker''" "normalize_segment (ay_action (acts0 1)) = ''build''"
    "has_suffix (to_lower ''exec_RunResponse'') ''response''"
    by code_simp+
  with outer_response_is_named_after_nested [of acts0 1 "''exec_RunResponse''" True "''0001_main''" 0 "new_logger ''logs''"]
  show ?thesis by simp
qed

end
