(* ===== verification/Registry.thy ===== *)
theory Registry
  imports Engine
begin

text \<open>
  The registers of service.go and manager.go: the routes of a service, by action and by the
  type of the request, and the services of a manager, by their id and by the types of the
  requests of their routes; and the workflows of the workflow service. They share one contract,
  the locale \<open>register\<close>. The Go type of a request is its name; \<open>convertible\<close> is
  \<open>reflect.Type.ConvertibleTo\<close> on the types two pointers point to.
\<close>

section \<open>The contract of a register\<close>

lemma find_none: "\<forall>x\<in>set xs. \<not> P x \<Longrightarrow> find P xs = None"
  by (induction xs) auto

locale register =
  fixes put :: "'k \<Rightarrow> 'v \<Rightarrow> 's \<Rightarrow> 's"
    and get :: "'s \<Rightarrow> 'k \<Rightarrow> 'v option"
  assumes get_put: "get (put k v s) k' = (if k' = k then Some v else get s k')"
begin

lemma get_fold:
  "get (fold (\<lambda>(k, v). put k v) kvs s) k =
     (case find (\<lambda>kv. fst kv = k) (rev kvs) of Some kv \<Rightarrow> Some (snd kv) | None \<Rightarrow> get s k)"
proof (induction kvs rule: rev_induct)
  case Nil
  then show ?case by simp
next
  case (snoc kv kvs)
  then show ?case by (cases kv) (simp add: get_put)
qed

lemma get_last:
  "\<forall>kv\<in>set later. fst kv \<noteq> k \<Longrightarrow> get (fold (\<lambda>(k, v). put k v) (earlier @ (k, v) # later) s) k = Some v"
  by (subst get_fold) (simp add: find_append find_none)

lemma get_absent: "\<forall>kv\<in>set kvs. fst kv \<noteq> k \<Longrightarrow> get (fold (\<lambda>(k, v). put k v) kvs s) k = get s k"
  by (subst get_fold) (simp add: find_none)

end

section \<open>Routes of a service\<close>

record 'h route =
  rt_action :: string
  rt_request :: string
  rt_handler :: 'h

record 'h service =
  sv_id :: string
  sv_by_action :: "(string \<times> 'h route) list"
  sv_by_request :: "(string \<times> 'h route) list"
  sv_actions :: "string list"

definition new_service :: "string \<Rightarrow> 'h service" where
  "new_service name = \<lparr>sv_id = name, sv_by_action = [], sv_by_request = [], sv_actions = []\<rparr>"

definition put_action :: "string \<Rightarrow> 'h route \<Rightarrow> 'h service \<Rightarrow> 'h service" where
  "put_action a r s = s\<lparr>sv_by_action := mput a r (sv_by_action s)\<rparr>"

definition put_request :: "string \<Rightarrow> 'h route \<Rightarrow> 'h service \<Rightarrow> 'h service" where
  "put_request t r s = s\<lparr>sv_by_request := mput t r (sv_by_request s)\<rparr>"

definition register_route :: "'h route \<Rightarrow> 'h service \<Rightarrow> 'h service" where
  "register_route r s =
     (let s1 = put_request (rt_request r) r (put_action (rt_action r) r s)
      in s1\<lparr>sv_actions := sv_actions s1 @ [rt_action r]\<rparr>)"

definition register_routes :: "'h route list \<Rightarrow> 'h service \<Rightarrow> 'h service" where
  "register_routes rs s = fold register_route rs s"

definition service_route :: "'h service \<Rightarrow> string \<Rightarrow> go_error + 'h route" where
  "service_route s action =
     (case mget (sv_by_action s) action of
        Some r \<Rightarrow> Inr r
      | None \<Rightarrow> Inl (PlainErr (''unknown '' @ sv_id s @ ''.'' @ action @ '' service action'')))"

text \<open>
  A request of a type that is convertible to the type of a route is given a route of its own,
  whose handler converts it; the first convertible route of the iteration is taken. A type
  that is not a pointer to anything (\<open>pointer\<close> fails) has none.
\<close>

definition convertible_route ::
  "(string \<Rightarrow> bool) \<Rightarrow> (string \<Rightarrow> string \<Rightarrow> bool) \<Rightarrow> (string \<Rightarrow> 'h \<Rightarrow> 'h) \<Rightarrow> string \<Rightarrow> 'h service
     \<Rightarrow> ('h route \<times> 'h service) option" where
  "convertible_route pointer convertible convert t s =
     (case find (\<lambda>(k, r). pointer t \<and> convertible t k) (sv_by_request s) of
        None \<Rightarrow> None
      | Some (k, r) \<Rightarrow>
          (let r' = r\<lparr>rt_handler := convert k (rt_handler r)\<rparr> in Some (r', put_request t r' s)))"

text \<open>The route that \<open>Run\<close> takes.\<close>

definition request_route ::
  "(string \<Rightarrow> bool) \<Rightarrow> (string \<Rightarrow> string \<Rightarrow> bool) \<Rightarrow> (string \<Rightarrow> 'h \<Rightarrow> 'h) \<Rightarrow> string \<Rightarrow> 'h service
     \<Rightarrow> go_error + ('h route \<times> 'h service)" where
  "request_route pointer convertible convert t s =
     (case mget (sv_by_request s) t of
        Some r \<Rightarrow> Inr (r, s)
      | None \<Rightarrow>
          (case convertible_route pointer convertible convert t s of
             Some p \<Rightarrow> Inr p
           | None \<Rightarrow> Inl (new_error (sv_id s) t (PlainErr (''failed to lookup service route: '' @ t)))))"

section \<open>Services of a manager\<close>

record 'h manager =
  mg_by_id :: "(string \<times> 'h service) list"
  mg_by_request :: "(string \<times> 'h service) list"

definition empty_manager :: "'h manager" where
  "empty_manager = \<lparr>mg_by_id = [], mg_by_request = []\<rparr>"

definition put_service_id :: "string \<Rightarrow> 'h service \<Rightarrow> 'h manager \<Rightarrow> 'h manager" where
  "put_service_id i s m = m\<lparr>mg_by_id := mput i s (mg_by_id m)\<rparr>"

definition put_service_request :: "string \<Rightarrow> 'h service \<Rightarrow> 'h manager \<Rightarrow> 'h manager" where
  "put_service_request t s m = m\<lparr>mg_by_request := mput t s (mg_by_request m)\<rparr>"

definition action_requests :: "'h service \<Rightarrow> string list" where
  "action_requests s =
     concat (map (\<lambda>a. case service_route s a of Inl _ \<Rightarrow> [] | Inr r \<Rightarrow> [rt_request r]) (sv_actions s))"

definition manager_register :: "'h service \<Rightarrow> 'h manager \<Rightarrow> 'h manager" where
  "manager_register s m =
     fold (\<lambda>t. put_service_request t s) (action_requests s) (put_service_id (sv_id s) s m)"

text \<open>The input is the id of a service or a request, by its type; \<open>shown\<close> is its Go type.\<close>

datatype service_input = ServiceId string | ServiceRequest string | OtherInput string

definition lookup_failed :: "string \<Rightarrow> 'h manager \<Rightarrow> go_error" where
  "lookup_failed shown m =
     PlainErr (''failed to lookup service: '' @ [char_of (39::nat)] @ shown @ [char_of (39::nat)] @ '' in ['' @
       join '','' (map fst (mg_by_id m)) @ '']'')"

definition manager_service :: "'h manager \<Rightarrow> service_input \<Rightarrow> go_error + 'h service" where
  "manager_service m input =
     (case input of
        ServiceId i \<Rightarrow> (case mget (mg_by_id m) i of Some s \<Rightarrow> Inr s | None \<Rightarrow> Inl (lookup_failed ''string'' m))
      | ServiceRequest t \<Rightarrow>
          (case mget (mg_by_request m) t of Some s \<Rightarrow> Inr s | None \<Rightarrow> Inl (lookup_failed t m))
      | OtherInput t \<Rightarrow> Inl (lookup_failed t m))"

text \<open>\<open>New\<close>: the services of the providers after the service without operations.\<close>

definition new_manager :: "'h service \<Rightarrow> 'h service list \<Rightarrow> 'h manager" where
  "new_manager nop ss = fold manager_register (nop # ss) empty_manager"

section \<open>Helpers of a service\<close>

text \<open>\<open>GetHostname\<close>: the port of a location, or the one of SSH.\<close>

definition host_and_port :: "toolbox \<Rightarrow> urls \<Rightarrow> resource option \<Rightarrow> string \<times> int" where
  "host_and_port tb us target =
     (case target of
        None \<Rightarrow> ([], 0)
      | Some r \<Rightarrow>
          (let port = as_int tb (VStr (res_port us r))
           in (res_hostname us r, if port = 0 then 22 else port)))"

definition run_without_logging :: "full_env \<Rightarrow> nat \<Rightarrow> nat \<Rightarrow> request \<Rightarrow> (go_error + response) m" where
  "run_without_logging e n c req =
     mbind mget_world (\<lambda>w. let logging = cx_logging (wd_ctxs w c) in
       mseq (set_logging_flag c False)
         (mbind (endly_run e n c req) (\<lambda>r.
            mseq (on_ctx c (\<lambda>x. x\<lparr>cx_logging := logging\<rparr>)) (mret r))))"

section \<open>The registers\<close>

interpretation routes_by_action: register put_action "\<lambda>s. mget (sv_by_action s)"
  by unfold_locales (simp add: put_action_def)

interpretation routes_by_request: register put_request "\<lambda>s. mget (sv_by_request s)"
  by unfold_locales (simp add: put_request_def)

interpretation services_by_id: register put_service_id "\<lambda>m. mget (mg_by_id m)"
  by unfold_locales (simp add: put_service_id_def)

interpretation services_by_request: register put_service_request "\<lambda>m. mget (mg_by_request m)"
  by unfold_locales (simp add: put_service_request_def)

text \<open>A workflow that is not valid is refused and leaves the register as it was.\<close>

interpretation workflows_by_name: register mput mget
  by unfold_locales simp

lemma registered_after_register:
  "register_workflow x reg = Inr reg' \<Longrightarrow>
     registered_workflow name reg' = (if name = n_name (w_node x) then Inr x else registered_workflow name reg) \<and>
     has_workflow name reg' = (name = n_name (w_node x) \<or> has_workflow name reg)"
  by (auto simp: register_workflow_def registered_workflow_def has_workflow_def mhas_iff workflows_by_name.get_put
      split: option.splits if_splits)

section \<open>Dispatch\<close>

lemma register_routes_parts:
  "sv_id (register_routes rs s) = sv_id s"
  "sv_actions (register_routes rs s) = sv_actions s @ map rt_action rs"
  "sv_by_action (register_routes rs s) =
     sv_by_action (fold (\<lambda>(k, r). put_action k r) (map (\<lambda>r. (rt_action r, r)) rs) s)"
  "sv_by_request (register_routes rs s) =
     sv_by_request (fold (\<lambda>(k, r). put_request k r) (map (\<lambda>r. (rt_request r, r)) rs) s)"
proof -
  have step: "sv_id (register_route r s) = sv_id s" "sv_actions (register_route r s) = sv_actions s @ [rt_action r]"
    "sv_by_action (register_route r s) = mput (rt_action r) r (sv_by_action s)"
    "sv_by_request (register_route r s) = mput (rt_request r) r (sv_by_request s)" for r and s :: "'a service"
    by (simp_all add: register_route_def put_action_def put_request_def Let_def)
  have put: "sv_by_action (put_action k r s) = mput k r (sv_by_action s)"
    "sv_by_request (put_request k r s) = mput k r (sv_by_request s)" for k r and s :: "'a service"
    by (simp_all add: put_action_def put_request_def)
  show "sv_id (register_routes rs s) = sv_id s"
    "sv_actions (register_routes rs s) = sv_actions s @ map rt_action rs"
    by (induction rs arbitrary: s) (simp_all add: register_routes_def step)
  have "sv_by_action s = sv_by_action s' \<Longrightarrow> sv_by_action (fold register_route rs s) =
      sv_by_action (fold (\<lambda>(k, r). put_action k r) (map (\<lambda>r. (rt_action r, r)) rs) s')" for s'
    by (induction rs arbitrary: s s') (simp_all add: step put)
  then show "sv_by_action (register_routes rs s) =
      sv_by_action (fold (\<lambda>(k, r). put_action k r) (map (\<lambda>r. (rt_action r, r)) rs) s)"
    by (simp add: register_routes_def)
  have "sv_by_request s = sv_by_request s' \<Longrightarrow> sv_by_request (fold register_route rs s) =
      sv_by_request (fold (\<lambda>(k, r). put_request k r) (map (\<lambda>r. (rt_request r, r)) rs) s')" for s'
    by (induction rs arbitrary: s s') (simp_all add: step put)
  then show "sv_by_request (register_routes rs s) =
      sv_by_request (fold (\<lambda>(k, r). put_request k r) (map (\<lambda>r. (rt_request r, r)) rs) s)"
    by (simp add: register_routes_def)
qed

lemma manager_register_request:
  "mget (mg_by_request (manager_register s m)) t =
     (if t \<in> set (action_requests s) then Some s else mget (mg_by_request m) t)"
proof -
  have "mget (mg_by_request (fold (\<lambda>t. put_service_request t s) ts n)) t =
      (if t \<in> set ts then Some s else mget (mg_by_request n) t)" for ts n
    by (induction ts arbitrary: n) (simp_all add: services_by_request.get_put)
  then show ?thesis by (simp add: manager_register_def put_service_id_def)
qed

lemma manager_register_id:
  "mget (mg_by_id (manager_register s m)) i = (if i = sv_id s then Some s else mget (mg_by_id m) i)"
proof -
  have "mg_by_id (fold (\<lambda>t. put_service_request t s) ts n) = mg_by_id n" for ts n
    by (induction ts arbitrary: n) (simp_all add: put_service_request_def)
  then show ?thesis by (simp add: manager_register_def services_by_id.get_put)
qed

lemma registered_last:
  assumes "\<forall>s'\<in>set later. t \<notin> set (action_requests s') \<and> sv_id s' \<noteq> sv_id s" "t \<in> set (action_requests s)"
  shows "mget (mg_by_request (fold manager_register (earlier @ s # later) m)) t = Some s \<and>
         mget (mg_by_id (fold manager_register (earlier @ s # later) m)) (sv_id s) = Some s"
  using assms
proof (induction later rule: rev_induct)
  case Nil
  then show ?case by (simp add: manager_register_request manager_register_id)
next
  case (snoc s' later)
  then have "mget (mg_by_request (fold manager_register (earlier @ s # later) m)) t = Some s \<and>
      mget (mg_by_id (fold manager_register (earlier @ s # later) m)) (sv_id s) = Some s"
    by simp
  moreover have "fold manager_register (earlier @ s # later @ [s']) m =
      manager_register s' (fold manager_register (earlier @ s # later) m)"
    by simp
  moreover have "t \<notin> set (action_requests s')" "sv_id s \<noteq> sv_id s'" using snoc.prems by auto
  ultimately show ?case by (simp add: manager_register_request manager_register_id)
qed

lemma route_is_found:
  assumes s: "s = register_routes (rs1 @ r # rs2) (new_service name)"
    and r: "\<forall>r'\<in>set rs2. rt_action r' \<noteq> rt_action r \<and> rt_request r' \<noteq> rt_request r"
  shows "mget (sv_by_action s) (rt_action r) = Some r" "mget (sv_by_request s) (rt_request r) = Some r"
    "rt_request r \<in> set (action_requests s)"
proof -
  show a: "mget (sv_by_action s) (rt_action r) = Some r"
    using routes_by_action.get_last [of "map (\<lambda>r. (rt_action r, r)) rs2" "rt_action r"
        "map (\<lambda>r. (rt_action r, r)) rs1" r "new_service name"] r
    by (simp add: s register_routes_parts)
  show "mget (sv_by_request s) (rt_request r) = Some r"
    using routes_by_request.get_last [of "map (\<lambda>r. (rt_request r, r)) rs2" "rt_request r"
        "map (\<lambda>r. (rt_request r, r)) rs1" r "new_service name"] r
    by (simp add: s register_routes_parts)
  have "rt_action r \<in> set (sv_actions s)" by (simp add: s register_routes_parts)
  with a show "rt_request r \<in> set (action_requests s)"
    by (force simp: action_requests_def service_route_def)
qed

text \<open>
  C14: a request reaches the service and the route it was registered with: when no route of the
  service registered later has the same action or request type, and no service registered
  later takes the type or has the id, the manager gives this service for the request and for
  the id, and the service the route, by the type of the request and by its action.
\<close>

theorem registered_request_reaches_route:
  assumes "s = register_routes (rs1 @ r # rs2) (new_service name)"
    and "\<forall>r'\<in>set rs2. rt_action r' \<noteq> rt_action r \<and> rt_request r' \<noteq> rt_request r"
    and "\<forall>s'\<in>set later. rt_request r \<notin> set (action_requests s') \<and> sv_id s' \<noteq> name"
  shows "manager_service (new_manager nop (earlier @ s # later)) (ServiceRequest (rt_request r)) = Inr s \<and>
         manager_service (new_manager nop (earlier @ s # later)) (ServiceId name) = Inr s \<and>
         request_route pointer convertible convert (rt_request r) s = Inr (r, s) \<and>
         service_route s (rt_action r) = Inr r"
proof -
  have "sv_id s = name" by (simp add: assms(1) register_routes_parts new_service_def)
  then have "\<forall>s'\<in>set later. rt_request r \<notin> set (action_requests s') \<and> sv_id s' \<noteq> sv_id s" using assms(3) by simp
  note m = registered_last [OF this route_is_found(3) [OF assms(1,2)], of "nop # earlier" empty_manager]
  have "new_manager nop (earlier @ s # later) = fold manager_register ((nop # earlier) @ s # later) empty_manager"
    by (simp add: new_manager_def)
  then show ?thesis
    using m route_is_found(1,2) [OF assms(1,2)]
    unfolding manager_service_def request_route_def service_route_def \<open>sv_id s = name\<close> by simp
qed

definition exec_routes :: "nat route list" where
  "exec_routes = [\<lparr>rt_action = ''open'', rt_request = ''*exec.OpenSessionRequest'', rt_handler = 0\<rparr>,
     \<lparr>rt_action = ''run'', rt_request = ''*exec.RunRequest'', rt_handler = 1\<rparr>]"

definition nop_route :: "nat route" where
  "nop_route = \<lparr>rt_action = ''nop'', rt_request = ''*endly.NopRequest'', rt_handler = 2\<rparr>"

theorem registered_request_reaches_route_witness:
  "manager_service (new_manager (register_routes [nop_route] (new_service ''nop''))
       [register_routes exec_routes (new_service ''exec''), new_service ''docker'']) (ServiceRequest ''*exec.RunRequest'')
     = Inr (register_routes exec_routes (new_service ''exec''))"
  using registered_request_reaches_route [of "register_routes exec_routes (new_service ''exec'')" "[hd exec_routes]"
      "last exec_routes" "[]" "''exec''" "[new_service ''docker'']" "register_routes [nop_route] (new_service ''nop'')" "[]"]
  by (simp add: exec_routes_def action_requests_def new_service_def)

end
