(* ===== verification/Queues.thy ===== *)
theory Queues
  imports Go_Base
begin

text \<open>
  The interface of a queue, \<open>fifo\<close>: what is pushed comes out in the same order. The pending
  records of a log file and the mails of a user provide it.
\<close>

locale fifo =
  fixes push :: "'a \<Rightarrow> 's \<Rightarrow> 's"
    and shift :: "'s \<Rightarrow> 'a option \<times> 's"
    and items :: "'s \<Rightarrow> 'a list"
  assumes push_items: "items (push x s) = items s @ [x]"
    and shift_empty: "items s = [] \<Longrightarrow> fst (shift s) = None \<and> items (snd (shift s)) = []"
    and shift_items: "items s = x # xs \<Longrightarrow> fst (shift s) = Some x \<and> items (snd (shift s)) = xs"
begin

lemma fold_push_items: "items (fold push xs s) = items s @ xs"
  by (induction xs arbitrary: s) (simp_all add: push_items)

primrec shift_n :: "nat \<Rightarrow> 's \<Rightarrow> 'a option list \<times> 's" where
  "shift_n 0 s = ([], s)"
| "shift_n (Suc n) s = (case shift s of (x, t) \<Rightarrow> (case shift_n n t of (xs, u) \<Rightarrow> (x # xs, u)))"

lemma shift_n_items:
  "items s = xs @ ys \<Longrightarrow> fst (shift_n (length xs) s) = map Some xs \<and> items (snd (shift_n (length xs) s)) = ys"
proof (induction xs arbitrary: s)
  case (Cons x xs)
  obtain p t where t: "shift s = (p, t)" by fastforce
  with shift_items [of s x "xs @ ys"] Cons.prems have "p = Some x" "items t = xs @ ys" by simp_all
  with Cons.IH [of t] t show ?case by (auto split: prod.splits)
qed simp

lemma shift_n_empty: "items s = [] \<Longrightarrow> fst (shift_n n s) = replicate n None"
proof (induction n arbitrary: s)
  case (Suc n)
  obtain p t where t: "shift s = (p, t)" by fastforce
  with shift_empty [of s] Suc.prems have "p = None" "items t = []" by simp_all
  with Suc.IH [of t] t show ?case by (cases "shift_n n t") simp
qed simp

text \<open>What was pushed on an empty queue is what it gives, and nothing afterwards.\<close>

lemma shift_all:
  assumes "items s = []"
  shows "fst (shift_n (length xs) (fold push xs s)) = map Some xs \<and> items (snd (shift_n (length xs) (fold push xs s))) = []"
  using shift_n_items [of "fold push xs s" xs "[]"] fold_push_items [of xs s] assms by simp

end

end
