(* ===== verification/Log_Files.thy ===== *)
theory Log_Files
  imports Tags Queues
begin

text \<open>
  service/testing/log: the log files of the log validator. A file keeps the records that were
  read and not yet validated, an index of its records by a value in their text, and how far it
  was read. A record is a pointer in Go, compared by identity: \<open>lr_id\<close> numbers the records of a
  file in the order they are made. The printing of a type with \<open>Debug\<close> is left out.
  \<open>regexp\<close> is \<open>regexp.Compile\<close>: the groups of the first match.
\<close>

record log_type =
  lt_name :: string
  lt_format :: string
  lt_mask :: string
  lt_exclusion :: string
  lt_inclusion :: string
  lt_index :: string
  lt_udf :: string

record log_record =
  lr_id :: nat
  lr_url :: string
  lr_number :: int
  lr_line :: string

record processing_state =
  ps_line :: int
  ps_position :: nat

record log_file =
  lf_url :: string
  lf_content :: string
  lf_name :: string
  lf_type :: log_type
  lf_state :: processing_state
  lf_modified :: int
  lf_size :: nat
  lf_records :: "log_record list"
  lf_indexed :: "(string \<times> log_record) list"
  lf_fresh :: nat

type_synonym regexps = "string \<Rightarrow> go_error + (string \<Rightarrow> string list option)"

section \<open>Records\<close>

definition match_log_index :: "(string \<Rightarrow> string list option) \<Rightarrow> string \<Rightarrow> string" where
  "match_log_index expr input =
     (case expr input of Some (whole # g # groups) \<Rightarrow> g | _ \<Rightarrow> [])"

definition use_index :: "log_type \<Rightarrow> bool" where
  "use_index t \<longleftrightarrow> lt_index t \<noteq> []"

text \<open>The index of a text, empty when the type has none.\<close>

definition index_value :: "regexps \<Rightarrow> log_type \<Rightarrow> string \<Rightarrow> string" where
  "index_value regexp t text =
     (if use_index t then (case regexp (lt_index t) of Inl _ \<Rightarrow> [] | Inr expr \<Rightarrow> match_log_index expr text) else [])"

definition push_record :: "regexps \<Rightarrow> string \<Rightarrow> int \<Rightarrow> log_file \<Rightarrow> log_file" where
  "push_record regexp line number f =
     (let r = \<lparr>lr_id = lf_fresh f, lr_url = lf_url f, lr_number = number, lr_line = line\<rparr>;
          i = index_value regexp (lf_type f) line
      in f\<lparr>lf_records := lf_records f @ [r], lf_fresh := Suc (lf_fresh f),
           lf_indexed := (if i \<noteq> [] then mput i r (lf_indexed f) else lf_indexed f)\<rparr>)"

definition shift_record :: "log_file \<Rightarrow> log_record option \<times> log_file" where
  "shift_record f =
     (case lf_records f of [] \<Rightarrow> (None, f) | r # rs \<Rightarrow> (Some r, f\<lparr>lf_records := rs\<rparr>))"

text \<open>The pending records are a queue of lines with their numbers.\<close>

definition line_and_number :: "log_record \<Rightarrow> string \<times> int" where
  "line_and_number r = (lr_line r, lr_number r)"

definition shift_line :: "log_file \<Rightarrow> (string \<times> int) option \<times> log_file" where
  "shift_line f = apfst (map_option line_and_number) (shift_record f)"

interpretation log_lines: fifo
    "\<lambda>l. push_record regexp (fst l) (snd l)" shift_line "\<lambda>f. map line_and_number (lf_records f)"
  for regexp
  by unfold_locales
    (auto simp: push_record_def shift_line_def shift_record_def line_and_number_def Let_def split: list.splits)

text \<open>
  By the index: without an entry the first record is taken all the same, and reported as not
  found; with one the record is removed from the pending ones, if it is still there.
\<close>

definition shift_by_index :: "string \<Rightarrow> log_file \<Rightarrow> log_record option \<times> bool \<times> log_file" where
  "shift_by_index i f =
     (case lf_records f of
        [] \<Rightarrow> (None, False, f)
      | r # rs \<Rightarrow>
          (case mget (lf_indexed f) i of
             None \<Rightarrow> (Some r, False, f\<lparr>lf_records := rs\<rparr>)
           | Some x \<Rightarrow> (Some x, True, f\<lparr>lf_records := filter (\<lambda>y. lr_id y \<noteq> lr_id x) (lf_records f)\<rparr>)))"

definition has_pending :: "log_file \<Rightarrow> bool" where
  "has_pending f \<longleftrightarrow> lf_records f \<noteq> []"

definition update_state :: "nat \<Rightarrow> int \<Rightarrow> processing_state \<Rightarrow> processing_state" where
  "update_state n line s = \<lparr>ps_line = line, ps_position = ps_position s + n\<rparr>"

definition empty_state :: processing_state where
  "empty_state = \<lparr>ps_line = 0, ps_position = 0\<rparr>"

definition reset_file :: "nat \<Rightarrow> int \<Rightarrow> log_file \<Rightarrow> log_file" where
  "reset_file n modified f = f\<lparr>lf_size := n, lf_modified := modified, lf_state := empty_state\<rparr>"

section \<open>Reading\<close>

text \<open>The text of a rune; an invalid byte becomes U+FFFD.\<close>

definition rune_text :: "nat list \<Rightarrow> string" where
  "rune_text bs =
     (if rune_at bs = (65533, 1) then map char_of [239, 191, 189 :: nat]
      else map char_of (take (snd (rune_at bs)) bs))"

definition kept_line :: "log_type \<Rightarrow> string \<Rightarrow> bool" where
  "kept_line t line \<longleftrightarrow>
     \<not> (lt_exclusion t \<noteq> [] \<and> contains line (lt_exclusion t)) \<and>
     \<not> (lt_inclusion t \<noteq> [] \<and> \<not> contains line (lt_inclusion t)) \<and> line \<noteq> []"

text \<open>A line ends at \<open>\n\<close> or \<open>\r\<close>: it is trimmed, pushed when it is kept, and the state moves on.\<close>

definition end_line :: "regexps \<Rightarrow> string \<Rightarrow> nat \<Rightarrow> int \<Rightarrow> log_file \<Rightarrow> log_file" where
  "end_line regexp line processed number f =
     (let text = trim_set [CHR '' '', char_of (13::nat), char_of (9::nat)] line;
          f' = (if kept_line (lf_type f) text then push_record regexp text number f else f)
      in f'\<lparr>lf_state := update_state processed number (lf_state f')\<rparr>)"

function read_bytes :: "regexps \<Rightarrow> nat list \<Rightarrow> string \<Rightarrow> nat \<Rightarrow> int \<Rightarrow> log_file \<Rightarrow> log_file" where
  "read_bytes regexp [] line processed number f = f"
| "read_bytes regexp (b # bs) line processed number f =
     (let (r, w) = rune_at (b # bs); rest = drop w (b # bs)
      in if r = 10 \<or> r = 13
         then read_bytes regexp rest [] 0 (number + 1) (end_line regexp line (processed + w) (number + 1) f)
         else read_bytes regexp rest (line @ rune_text (b # bs)) (processed + w) number f)"
  by pat_completeness auto
termination
proof (relation "measure (\<lambda>(regexp, bs, rest). length bs)")
  have "Suc (length bs) - w < Suc (length bs)" if "(r, w) = rune_at (b # bs)" for b bs r w
    using rune_at_width [of "b # bs"] by (metis that snd_conv diff_less zero_less_Suc)
  then show "((regexp, rest, x), regexp, b # bs, y) \<in> measure (\<lambda>(regexp, bs, rest). length bs)"
    if "z = rune_at (b # bs)" "(r, w) = z" "rest = drop w (b # bs)" for regexp b bs r w z rest x y
    using that by simp
  then show "((regexp, rest, x), regexp, b # bs, y) \<in> measure (\<lambda>(regexp, bs, rest). length bs)"
    if "z = rune_at (b # bs)" "(r, w) = z" "rest = drop w (b # bs)" for regexp b bs r w z rest x y
    using that by simp
qed simp

definition read_records :: "regexps \<Rightarrow> string \<Rightarrow> log_file \<Rightarrow> log_file" where
  "read_records regexp content f =
     (if length content < ps_position (lf_state f) then f
      else read_bytes regexp (map of_char (drop (ps_position (lf_state f)) content)) [] 0 (ps_line (lf_state f)) f)"

end
