(* ===== verification/Log_Service.thy ===== *)
theory Log_Service
  imports Log_Files Contexts "HOL-Library.List_Lexorder"
begin

text \<open>
  service/testing/log/service.go, iterator.go and meta.go: reading the files of a log type,
  iterating over their pending records, and matching them with the expected ones. The storage,
  the transformation of a file and the comparison of two values (assertly) are parameters. The
  listener of a session changes the files while an assertion waits: every sleep takes the next
  change of a schedule.
\<close>

section \<open>Types and their files\<close>

record type_meta =
  tm_source :: string
  tm_type :: log_type
  tm_files :: "(string \<times> log_file) list"

definition new_type_meta :: "string \<Rightarrow> log_type \<Rightarrow> type_meta" where
  "new_type_meta source t = \<lparr>tm_source = source, tm_type = t, tm_files = []\<rparr>"

definition meta_key :: "string \<Rightarrow> string" where
  "meta_key name = ''meta_'' @ name"

text \<open>The order of the files: the last modified one first, and by URL downwards.\<close>

definition newer :: "log_file \<Rightarrow> log_file \<Rightarrow> bool" where
  "newer f g \<longleftrightarrow> (if lf_modified f = lf_modified g then lf_url g < lf_url f else lf_modified g < lf_modified f)"

fun insert_file :: "log_file \<Rightarrow> log_file list \<Rightarrow> log_file list" where
  "insert_file f [] = [f]"
| "insert_file f (g # gs) = (if newer g f then g # insert_file f gs else f # g # gs)"

definition sort_files :: "log_file list \<Rightarrow> log_file list" where
  "sort_files fs = fold insert_file fs []"

definition files_of :: "type_meta \<Rightarrow> string list" where
  "files_of m = map lf_name (sort_files (map snd (tm_files m)))"

definition file_of :: "type_meta \<Rightarrow> string \<Rightarrow> log_file option" where
  "file_of m name = mget (tm_files m) name"

definition put_file :: "log_file \<Rightarrow> type_meta \<Rightarrow> type_meta" where
  "put_file f m = m\<lparr>tm_files := mput (lf_name f) f (tm_files m)\<rparr>"

definition pending_in :: "type_meta \<Rightarrow> string \<Rightarrow> bool" where
  "pending_in m name = (case file_of m name of None \<Rightarrow> False | Some f \<Rightarrow> has_pending f)"

section \<open>The iterator\<close>

text \<open>The files are pointers; the iterator knows them by their names.\<close>

record log_iterator =
  li_files :: "string list"
  li_index :: nat

definition meta_iterator :: "type_meta \<Rightarrow> log_iterator" where
  "meta_iterator m = \<lparr>li_files = files_of m, li_index = 0\<rparr>"

fun first_pending :: "type_meta \<Rightarrow> string list \<Rightarrow> nat \<Rightarrow> nat option" where
  "first_pending m [] j = None"
| "first_pending m (x # xs) j = (if pending_in m x then Some j else first_pending m xs (Suc j))"

text \<open>Past the end the files are listed again, and the first pending one is taken.\<close>

function has_next :: "type_meta \<Rightarrow> log_iterator \<Rightarrow> bool \<times> log_iterator" where
  "has_next m it =
     (if length (li_files it) \<le> li_index it
      then (case first_pending m (files_of m) 0 of
              None \<Rightarrow> (False, it\<lparr>li_files := files_of m\<rparr>)
            | Some j \<Rightarrow> (True, it\<lparr>li_files := files_of m, li_index := j\<rparr>))
      else if pending_in m (li_files it ! li_index it) then (True, it)
      else has_next m (it\<lparr>li_index := Suc (li_index it)\<rparr>))"
  by pat_completeness auto
termination
  by (relation "measure (\<lambda>(m, it). length (li_files it) - li_index it)") auto

declare has_next.simps [simp del]

definition next_record :: "log_iterator \<Rightarrow> type_meta \<Rightarrow> go_error + (log_record option \<times> type_meta)" where
  "next_record it m =
     (if length (li_files it) \<le> li_index it then Inl (Panicked ''index out of range'')
      else case file_of m (li_files it ! li_index it) of
        None \<Rightarrow> Inl (Panicked ''nil pointer dereference'')
      | Some f \<Rightarrow> (let (r, f') = shift_record f in Inr (r, put_file f' m)))"

text \<open>The first file, from the current one on, that has the index; the last answer otherwise.\<close>

fun next_indexed :: "string \<Rightarrow> string list \<Rightarrow> log_record option \<Rightarrow> type_meta \<Rightarrow> log_record option \<times> type_meta" where
  "next_indexed i [] r m = (r, m)"
| "next_indexed i (x # xs) r m =
     (case file_of m x of
        None \<Rightarrow> next_indexed i xs r m
      | Some f \<Rightarrow>
          (let (r', found, f') = shift_by_index i f
           in if found then (r', put_file f' m) else next_indexed i xs r' (put_file f' m)))"

section \<open>Reading files\<close>

record log_object =
  lo_url :: string
  lo_size :: nat
  lo_modified :: int
  lo_dir :: bool

text \<open>
  The storage: \<open>ls_open\<close> gives the content of a file at the given attempt, \<open>ls_object\<close> the size
  it has after that; \<open>ls_udf\<close> is the transformation with a user defined function.
\<close>

record log_storage =
  ls_open :: "string \<Rightarrow> nat \<Rightarrow> go_error + string"
  ls_object :: "string \<Rightarrow> nat \<Rightarrow> go_error + nat"
  ls_list :: "go_error + log_object list"
  ls_name :: "string \<Rightarrow> string"
  ls_regexp :: regexps
  ls_udf :: "string \<Rightarrow> string \<Rightarrow> value"

text \<open>A snapshot is taken when the size did not change since the size that was known before.\<close>

fun read_snapshot :: "log_storage \<Rightarrow> string \<Rightarrow> nat \<Rightarrow> nat list \<Rightarrow> go_error + string option" where
  "read_snapshot fs url known [] = Inr None"
| "read_snapshot fs url known (i # is) =
     (case ls_open fs url i of
        Inl e \<Rightarrow> Inl e
      | Inr content \<Rightarrow>
          (case ls_object fs url i of
             Inl _ \<Rightarrow> read_snapshot fs url known is
           | Inr n \<Rightarrow> if n = known then Inr (Some content) else read_snapshot fs url n is))"

definition try_read_snapshot :: "log_storage \<Rightarrow> log_object \<Rightarrow> nat \<Rightarrow> go_error + string option" where
  "try_read_snapshot fs ob attempts = read_snapshot fs (lo_url ob) (lo_size ob) [0..<attempts]"

definition new_log_file :: "log_storage \<Rightarrow> log_object \<Rightarrow> log_type \<Rightarrow> log_file" where
  "new_log_file fs ob t =
     \<lparr>lf_url = lo_url ob, lf_content = [], lf_name = ls_name fs (lo_url ob), lf_type = t, lf_state = empty_state,
      lf_modified = lo_modified ob, lf_size = lo_size ob, lf_records = [], lf_indexed = [], lf_fresh = 0\<rparr>"

definition unix_time :: "int \<Rightarrow> int" where
  "unix_time t = t div 1000000000"

definition transformed :: "log_storage \<Rightarrow> string \<Rightarrow> string \<Rightarrow> go_error + string" where
  "transformed fs name content =
     (if name = [] then Inr content
      else case ls_udf fs name content of
        VStr s \<Rightarrow> Inr s
      | _ \<Rightarrow> Inl (PlainErr ''unsupported response type expeced string or []byte''))"

text \<open>The new content of a file: it shrank, or it grew and is not a continuation.\<close>

definition take_content :: "regexps \<Rightarrow> log_object \<Rightarrow> string \<Rightarrow> log_file \<Rightarrow> log_file" where
  "take_content regexp ob content f =
     (let f1 = (if length content < length (lf_content f)
                then (reset_file (lo_size ob) (lo_modified ob) f)
                else if lf_size f < lo_size ob \<and> \<not> has_prefix content (lf_content f)
                then reset_file (lo_size ob) (lo_modified ob) f else f);
          f2 = f1\<lparr>lf_content := content, lf_size := length content\<rparr>
      in if content = [] then f2 else read_records regexp content f2)"

text \<open>\<open>readLogFile\<close>: nothing at all when no stable snapshot was seen.\<close>

definition read_log_file ::
  "log_storage \<Rightarrow> log_object \<Rightarrow> log_type \<Rightarrow> type_meta \<Rightarrow> (go_error + type_meta option) \<times> type_meta" where
  "read_log_file fs ob t m =
     (let name = ls_name fs (lo_url ob);
          (f, known) = (case file_of m name of None \<Rightarrow> (new_log_file fs ob t, False) | Some f \<Rightarrow> (f, True));
          m1 = put_file f m
      in if known \<and> lf_size f = lo_size ob \<and> unix_time (lf_modified f) = unix_time (lo_modified ob)
         then (Inr (Some m1), m1)
         else case try_read_snapshot fs ob 3 of
           Inl e \<Rightarrow> (Inl e, m1)
         | Inr None \<Rightarrow> (Inr None, m1)
         | Inr (Some raw) \<Rightarrow>
             (case transformed fs (lt_udf (lf_type f)) raw of
                Inl e \<Rightarrow> (Inl e, m1)
              | Inr content \<Rightarrow>
                  (let m2 = put_file (take_content (ls_regexp fs) ob content f) m1 in (Inr (Some m2), m2))))"

section \<open>The state of the service\<close>

text \<open>A key may hold a nil pointer.\<close>

type_synonym log_metas = "(string \<times> type_meta option) list"

definition meta_of :: "string \<Rightarrow> log_type \<Rightarrow> log_metas \<Rightarrow> type_meta option" where
  "meta_of source t s =
     (case mget s (meta_key (lt_name t)) of None \<Rightarrow> Some (new_type_meta source t) | Some m \<Rightarrow> m)"

definition mask_expr :: "string \<Rightarrow> string" where
  "mask_expr text = ''^'' @ replace_all text ''*'' ''.+'' @ ''$''"

definition read_typed ::
  "log_storage \<Rightarrow> string \<Rightarrow> log_object \<Rightarrow> log_type \<Rightarrow> log_metas \<Rightarrow> log_metas
     \<Rightarrow> go_error option \<times> log_metas \<times> log_metas" where
  "read_typed fs source ob t found s =
     (case ls_regexp fs (mask_expr (lt_mask t)) of
        Inl e \<Rightarrow> (Some e, found, s)
      | Inr expr \<Rightarrow>
          if expr (ls_name fs (lo_url ob)) = None then (None, found, s)
          else (case meta_of source t s of
            None \<Rightarrow> (Some (Panicked ''nil pointer dereference''), found, s)
          | Some m \<Rightarrow>
              (let (r, m') = read_log_file fs ob t m;
                   s' = mput (meta_key (lt_name t)) (Some m') s
               in case r of Inl e \<Rightarrow> (Some e, found, s') | Inr x \<Rightarrow> (None, mput (lt_name t) x found, s'))))"

fun read_pairs ::
  "log_storage \<Rightarrow> string \<Rightarrow> (log_object \<times> log_type) list \<Rightarrow> log_metas \<Rightarrow> log_metas
     \<Rightarrow> go_error option \<times> log_metas \<times> log_metas" where
  "read_pairs fs source [] found s = (None, found, s)"
| "read_pairs fs source ((ob, t) # ps) found s =
     (let (err, found', s') = read_typed fs source ob t found s
      in if err \<noteq> None then (err, found', s') else read_pairs fs source ps found' s')"

definition read_log_files ::
  "log_storage \<Rightarrow> string \<Rightarrow> log_type list \<Rightarrow> log_metas \<Rightarrow> (go_error + log_metas) \<times> log_metas" where
  "read_log_files fs source types s =
     (case ls_list fs of
        Inl e \<Rightarrow> (Inl e, s)
      | Inr obs \<Rightarrow>
          (let pairs = concat (map (\<lambda>ob. map (Pair ob) types) (filter (\<lambda>ob. \<not> lo_dir ob) obs));
               (err, found, s') = read_pairs fs source pairs [] s
           in (case err of Some e \<Rightarrow> Inl e | None \<Rightarrow> Inr found, s')))"

text \<open>\<open>listen\<close>; afterwards a goroutine calls \<open>read_log_files\<close> again and again.\<close>

definition listen_types ::
  "log_storage \<Rightarrow> string \<Rightarrow> log_type list \<Rightarrow> log_metas \<Rightarrow> (go_error + log_metas) \<times> log_metas" where
  "listen_types fs source types s =
     (case find (\<lambda>t. mhas s (meta_key (lt_name t))) types of
        Some t \<Rightarrow> (Inl (PlainErr (''listener has been already register for '' @ lt_name t)), s)
      | None \<Rightarrow>
          (case read_log_files fs source types s of
             (Inl e, s') \<Rightarrow> (Inl e, s')
           | (Inr found, s') \<Rightarrow>
               (let (found', s'') = fold (\<lambda>t (found, s).
                      let m = (case mget found (lt_name t) of None \<Rightarrow> Some (new_type_meta source t) | Some x \<Rightarrow> x)
                      in (mput (lt_name t) m found, mput (meta_key (lt_name t)) m s)) types (found, s')
                in (Inr found', s''))))"

text \<open>\<open>reset\<close>: the pending records are dropped; the line is set to their number.\<close>

definition reset_pending :: "log_file \<Rightarrow> log_file" where
  "reset_pending f =
     f\<lparr>lf_state := \<lparr>ps_line = int (length (lf_records f)), ps_position = lf_size f\<rparr>, lf_records := []\<rparr>"

definition reset_type :: "string \<Rightarrow> string list \<times> log_metas \<Rightarrow> go_error + (string list \<times> log_metas)" where
  "reset_type name = (\<lambda>(names, s).
     case mget s (meta_key name) of
       None \<Rightarrow> Inr (names, s)
     | Some None \<Rightarrow> Inl (Panicked ''nil pointer dereference'')
     | Some (Some m) \<Rightarrow>
         Inr (names @ map (lf_name \<circ> snd) (tm_files m),
              mput (meta_key name) (Some (m\<lparr>tm_files := map (\<lambda>(k, f). (k, reset_pending f)) (tm_files m)\<rparr>)) s))"

definition reset_types :: "string list \<Rightarrow> log_metas \<Rightarrow> go_error + (string list \<times> log_metas)" where
  "reset_types names s = efold reset_type names ([], s)"

section \<open>Assertions\<close>

record typed_record =
  tr_tag_id :: string
  tr_type :: string
  tr_records :: "value list"

record log_assert_request =
  la_wait_time :: int
  la_retries :: int
  la_template :: string
  la_expect :: "typed_record list"

text \<open>\<open>Init\<close>: lists of pairs become maps (\<open>to_map\<close> is the conversion of toolbox) and the defaults are set.\<close>

definition as_mapped :: "(value \<Rightarrow> go_error + value) \<Rightarrow> value \<Rightarrow> value" where
  "as_mapped to_map v = (case v of VSlice _ \<Rightarrow> (case to_map v of Inr m \<Rightarrow> m | Inl _ \<Rightarrow> v) | _ \<Rightarrow> v)"

definition init_log_assert :: "(value \<Rightarrow> go_error + value) \<Rightarrow> log_assert_request \<Rightarrow> log_assert_request" where
  "init_log_assert to_map req =
     (if la_expect req = [] then req
      else req\<lparr>la_expect := map (\<lambda>t. t\<lparr>tr_records := map (as_mapped to_map) (tr_records t)\<rparr>) (la_expect req),
               la_template := (if la_template req = [] then ''$tagIndex: log $logType'' else la_template req),
               la_wait_time := (if la_wait_time req = 0 then 500 else la_wait_time req),
               la_retries := (if la_retries req = 0 then 3 else la_retries req)\<rparr>)"

fun untyped_at :: "nat \<Rightarrow> typed_record list \<Rightarrow> nat option" where
  "untyped_at i [] = None"
| "untyped_at i (t # ts) = (if tr_type t = [] then Some i else untyped_at (Suc i) ts)"

definition validate_log_assert :: "log_assert_request \<Rightarrow> go_error option" where
  "validate_log_assert req =
     (case untyped_at 0 (la_expect req) of
        None \<Rightarrow> None
      | Some i \<Rightarrow> Some (PlainErr (''Expect['' @ show_int (int i) @ ''].Type was empty'')))"

text \<open>
  A validation of one expected record: it is missing, or it was compared with the actual one at
  a place, with the outcome of the comparison.
\<close>

datatype 'v log_outcome = Unchecked | Missing "value" | Compared string "value" "value" 'v

record 'v log_validation =
  lv_tag_id :: string
  lv_description :: string
  lv_outcome :: "'v log_outcome"

record 'v assert_env =
  ae_tb :: toolbox
  ae_regexp :: regexps
  ae_json_text :: "value \<Rightarrow> string"
  ae_line_map :: "string \<Rightarrow> go_error + smap"
  ae_file_name :: "string \<Rightarrow> string"
  ae_compare :: "string \<Rightarrow> value \<Rightarrow> value \<Rightarrow> go_error + 'v"

type_synonym schedule = "(type_meta \<Rightarrow> type_meta) list"

definition slept :: "schedule \<Rightarrow> type_meta \<Rightarrow> type_meta \<times> schedule" where
  "slept sc m = (case sc of [] \<Rightarrow> (m, []) | f # fs \<Rightarrow> (f m, fs))"

fun wait_for_record ::
  "nat \<Rightarrow> log_iterator \<Rightarrow> type_meta \<Rightarrow> schedule \<Rightarrow> bool \<times> log_iterator \<times> type_meta \<times> schedule" where
  "wait_for_record 0 it m sc = (let (b, it') = has_next m it in (b, it', m, sc))"
| "wait_for_record (Suc n) it m sc =
     (let (b, it') = has_next m it
      in if b then (True, it', m, sc)
         else (let (m', sc') = slept sc m in wait_for_record n it' m' sc'))"

definition expected_text :: "'v assert_env \<Rightarrow> value \<Rightarrow> string" where
  "expected_text e v =
     (case v of
        VMap _ \<Rightarrow> ae_json_text e v | VRef _ \<Rightarrow> ae_json_text e v | VSlice _ \<Rightarrow> ae_json_text e v
      | VStruct _ _ \<Rightarrow> ae_json_text e v
      | _ \<Rightarrow> as_string (ae_tb e) v)"

definition match_log_record ::
  "'v assert_env \<Rightarrow> value \<Rightarrow> log_iterator \<Rightarrow> type_meta \<Rightarrow> go_error + (log_record option \<times> type_meta)" where
  "match_log_record e expected it m =
     (let i = index_value (ae_regexp e) (tm_type m) (expected_text e expected)
      in if i \<noteq> [] then Inr (next_indexed i (drop (li_index it) (li_files it)) None m) else next_record it m)"

definition actual_record :: "'v assert_env \<Rightarrow> value \<Rightarrow> log_record \<Rightarrow> go_error + value" where
  "actual_record e expected r =
     (case expected of
        VMap _ \<Rightarrow> ebind (ae_line_map e (lr_line r)) (\<lambda>m. Inr (VMap m))
      | VRef _ \<Rightarrow> ebind (ae_line_map e (lr_line r)) (\<lambda>m. Inr (VMap m))
      | _ \<Rightarrow> Inr (VStr (lr_line r)))"

text \<open>
  The records of one type in turn; \<open>Some\<close> result ends the whole assertion, with an error or
  without one.
\<close>

fun assert_records ::
  "'v assert_env \<Rightarrow> nat \<Rightarrow> string \<Rightarrow> string \<Rightarrow> value list \<Rightarrow> log_iterator \<Rightarrow> type_meta \<Rightarrow> schedule
     \<Rightarrow> 'v log_validation list \<times> type_meta \<times> schedule \<times> (go_error option) option" where
  "assert_records e retries tag description [] it m sc = ([], m, sc, None)"
| "assert_records e retries tag description (x # xs) it m sc =
     (let v = \<lparr>lv_tag_id = tag, lv_description = description, lv_outcome = Unchecked\<rparr>;
          (ready, it1, m1, sc1) = wait_for_record retries it m sc
      in if \<not> ready then ([v\<lparr>lv_outcome := Missing x\<rparr>], m1, sc1, Some None)
         else case match_log_record e x it1 m1 of
           Inl err \<Rightarrow> ([v], m1, sc1, Some (Some err))
         | Inr (None, m2) \<Rightarrow> ([v], m2, sc1, Some None)
         | Inr (Some r, m2) \<Rightarrow>
             (case actual_record e x r of
                Inl err \<Rightarrow> ([v], m2, sc1, Some (Some err))
              | Inr actual \<Rightarrow>
                  (let place = ae_file_name e (lr_url r) @ '':'' @ show_int (lr_number r)
                   in case ae_compare e place x actual of
                        Inl err \<Rightarrow> ([v], m2, sc1, Some (Some err))
                      | Inr c \<Rightarrow>
                          (let (vs, rest) = assert_records e retries tag description xs it1 m2 sc1
                           in (v\<lparr>lv_outcome := Compared place x actual c\<rparr> # vs, rest)))))"

fun assert_types ::
  "'v assert_env \<Rightarrow> log_assert_request \<Rightarrow> heap \<Rightarrow> typed_record list \<Rightarrow> log_metas \<Rightarrow> schedule
     \<Rightarrow> 'v log_validation list \<times> log_metas \<times> go_error option" where
  "assert_types e req h [] s sc = ([], s, None)"
| "assert_types e req h (t # ts) s sc =
     (case mget s (meta_key (tr_type t)) of
        None \<Rightarrow> ([], s, Some (PlainErr (''failed to assert, unknown type:'' @ tr_type t @
                  '', please call listen function with requested log type'')))
      | Some None \<Rightarrow> ([], s, Some (Panicked ''nil pointer dereference''))
      | Some (Some m) \<Rightarrow>
          (let description = expand_text_with (ae_tb e) h
                 [(''logType'', VStr (tr_type t)), (''tagID'', VStr (tr_tag_id t))] (la_template req);
               (vs, m', sc', stop) =
                 assert_records e (nat (la_retries req)) (tr_tag_id t) description (tr_records t) (meta_iterator m) m sc;
               s' = mput (meta_key (tr_type t)) (Some m') s
           in case stop of
                Some err \<Rightarrow> (vs, s', err)
              | None \<Rightarrow>
                  (let (ws, s'', err) = assert_types e req h ts s' sc' in (vs @ ws, s'', err))))"

definition assert_log ::
  "'v assert_env \<Rightarrow> log_assert_request \<Rightarrow> heap \<Rightarrow> log_metas \<Rightarrow> schedule
     \<Rightarrow> 'v log_validation list \<times> log_metas \<times> go_error option" where
  "assert_log e req h s sc = assert_types e req h (la_expect req) s sc"

end
