(* ===== verification/Log_Props.thy ===== *)
theory Log_Props
  imports Log_Service Instances
begin

text \<open>
  What the log validator reads and matches: reading a growing file in steps is reading it once;
  the iterator finds a pending record whenever there is one; records come out first in, first
  out; and what goes wrong when records are looked up by their index.
\<close>

section \<open>Lines of a file\<close>

abbreviation newline :: "nat \<Rightarrow> bool" where
  "newline b \<equiv> b = 10 \<or> b = 13"

lemma rune_at_newline:
  "newline (fst (rune_at (b # bs))) \<longleftrightarrow> newline b" "newline b \<Longrightarrow> rune_at (b # bs) = (b, 1)"
  by (cases "b # bs" rule: rune_at.cases; auto)+

lemma rune_at_boundary:
  assumes "t < 128"
  shows "rune_at (b # xs @ t # rest) = rune_at (b # xs @ [t]) \<and> snd (rune_at (b # xs @ [t])) \<le> Suc (length xs)"
proof -
  have t: "\<not> cont_byte t" using assms by (simp add: cont_byte_def)
  consider "xs = []" | c where "xs = [c]" | c d where "xs = [c, d]" | c d x ys where "xs = c # d # x # ys"
    by (metis list.exhaust)
  then show ?thesis
  proof cases
    case 1
    then show ?thesis using t by (cases rest; cases "tl rest") auto
  next
    case 2
    then show ?thesis using t by (cases rest) auto
  next
    case 3
    then show ?thesis using t by auto
  next
    case 4
    then show ?thesis by auto
  qed
qed

lemma read_bytes_Cons:
  "read_bytes regexp (b # bs) line n k f =
     (if newline b then read_bytes regexp bs [] 0 (k + 1) (end_line regexp line (n + 1) (k + 1) f)
      else read_bytes regexp (drop (snd (rune_at (b # bs))) (b # bs)) (line @ rune_text (b # bs))
             (n + snd (rune_at (b # bs))) k f)"
proof -
  obtain r w where rw: "rune_at (b # bs) = (r, w)" by fastforce
  have "newline r \<longleftrightarrow> newline b" using rune_at_newline(1) [of b bs] rw by simp
  moreover have "newline b \<Longrightarrow> w = 1" using rune_at_newline(2) [of b bs] rw by simp
  ultimately show ?thesis by (auto simp: rw)
qed

declare read_bytes.simps(2) [simp del]

lemma read_bytes_no_newline: "\<forall>b\<in>set bs. \<not> newline b \<Longrightarrow> read_bytes regexp bs line n k f = f"
proof (induction "length bs" arbitrary: bs line n rule: less_induct)
  case less
  show ?case
  proof (cases bs)
    case (Cons b xs)
    let ?w = "snd (rune_at (b # xs))"
    have "length (drop ?w (b # xs)) < length bs" using rune_at_width [of "b # xs"] Cons by simp
    moreover have "\<forall>x\<in>set (drop ?w (b # xs)). \<not> newline x" using less.prems Cons by (meson in_set_dropD)
    ultimately have "read_bytes regexp (drop ?w (b # xs)) line' n' k f = f" for line' n'
      using less.hyps by blast
    then show ?thesis using less.prems Cons by (simp add: read_bytes_Cons)
  qed simp
qed

lemma end_line_state:
  "lf_state (end_line regexp line n k f) = \<lparr>ps_line = k, ps_position = ps_position (lf_state f) + n\<rparr>"
  by (simp add: end_line_def push_record_def update_state_def Let_def)

text \<open>Up to a newline the bytes are read on their own, and the state is that of a fresh line.\<close>

lemma read_bytes_split:
  assumes "newline t"
  shows "read_bytes regexp (as @ t # rest) line n k f =
           (let f' = read_bytes regexp (as @ [t]) line n k f in read_bytes regexp rest [] 0 (ps_line (lf_state f')) f') \<and>
         ps_position (lf_state (read_bytes regexp (as @ [t]) line n k f)) =
           ps_position (lf_state f) + n + length as + 1"
proof (induction "length as" arbitrary: as line n k f rule: less_induct)
  case less
  have t: "t < 128" using assms by presburger
  show ?case
  proof (cases as)
    case Nil
    then show ?thesis using assms by (simp add: read_bytes_Cons end_line_state Let_def)
  next
    case (Cons b bs)
    define w where "w = snd (rune_at (b # bs @ [t]))"
    have w: "0 < w" "w \<le> Suc (length bs)" and r: "rune_at (b # bs @ t # xs) = (fst (rune_at (b # bs @ [t])), w)" for xs
      using rune_at_boundary [OF t, of b bs xs] rune_at_width [of "b # bs @ [t]"] by (auto simp: w_def)
    let ?as = "drop w (b # bs)"
    have d: "drop w (b # bs @ t # xs) = ?as @ t # xs" for xs using w(2) by (cases w) simp_all
    have len: "length ?as < length as" "w + length ?as = length as" using w Cons by simp_all
    have chars: "rune_text (b # bs @ t # rest) = rune_text (b # bs @ [t])"
    proof -
      have "take w (b # bs @ t # rest) = take w (b # bs @ [t])" using w(2) by (cases w) simp_all
      moreover have "rune_at (b # bs @ t # rest) = rune_at (b # bs @ [t])" using rune_at_boundary [OF t] by blast
      ultimately show ?thesis unfolding rune_text_def by (simp add: w_def [symmetric])
    qed
    have step: "read_bytes regexp (b # bs @ t # xs) line n k f =
        (if newline b then read_bytes regexp (bs @ t # xs) [] 0 (k + 1) (end_line regexp line (n + 1) (k + 1) f)
         else read_bytes regexp (?as @ t # xs) (line @ rune_text (b # bs @ t # xs)) (n + w) k f)" for xs
      unfolding read_bytes_Cons [of regexp b] r [of xs] snd_conv d [of xs] ..
    show ?thesis
    proof (cases "newline b")
      case True
      have "length bs < length as" using Cons by simp
      from less [OF this, of "[]" 0 "k + 1" "end_line regexp line (n + 1) (k + 1) f"] True
      show ?thesis using step [of rest] step [of "[]"] by (simp add: Cons end_line_state)
    next
      case False
      from less [OF len(1), of "line @ rune_text (b # bs @ [t])" "n + w" k f] False
      show ?thesis using step [of rest] step [of "[]"] len(2) chars by (simp add: Cons)
    qed
  qed
qed

lemma last_newline_split: "\<exists>as bs. cs = as @ bs \<and> (\<forall>b\<in>set bs. \<not> newline b) \<and> (as = [] \<or> (\<exists>xs t. as = xs @ [t] \<and> newline t))"
  for cs :: "nat list"
proof (cases "\<exists>x\<in>set cs. newline x")
  case True
  from split_list_last_prop [OF this] obtain xs t bs
    where "cs = xs @ t # bs" "newline t" "\<forall>b\<in>set bs. \<not> newline b"
    by (elim exE conjE) (rule that)
  then have "cs = (xs @ [t]) @ bs \<and> (\<forall>b\<in>set bs. \<not> newline b) \<and> newline t" by simp
  then show ?thesis by blast
next
  case False
  then show ?thesis by (intro exI [of _ "[]"] exI [of _ cs]) auto
qed

text \<open>
  C15: a file that grows can be read in steps: when it was read up to its end and more text is
  appended, reading on gives the same file - the same records with the same line numbers, the
  same index, the same position - as reading the whole text at once. An unfinished last line
  is left to the next step.
\<close>

theorem incremental_reading:
  assumes "ps_position (lf_state f) \<le> length c1"
  shows "read_records regexp (c1 @ c2) (read_records regexp c1 f) = read_records regexp (c1 @ c2) f"
proof -
  let ?p = "ps_position (lf_state f)" and ?k = "ps_line (lf_state f)"
  define cs :: "nat list" where "cs = map of_char (drop ?p c1)"
  have cs2: "map of_char (drop ?p (c1 @ c2)) = cs @ map of_char c2" using assms by (simp add: cs_def)
  obtain as bs where ab: "cs = as @ bs" "\<forall>b\<in>set bs. \<not> newline b" "as = [] \<or> (\<exists>xs t. as = xs @ [t] \<and> newline t)"
    using last_newline_split by blast
  have one: "read_records regexp c1 f = read_bytes regexp cs [] 0 ?k f"
    "read_records regexp (c1 @ c2) f = read_bytes regexp (cs @ map of_char c2) [] 0 ?k f"
    using assms cs2 by (simp_all add: read_records_def cs_def)
  show ?thesis
  proof (cases "as = []")
    case True
    then have "read_records regexp c1 f = f" using ab one(1) read_bytes_no_newline by simp
    then show ?thesis by simp
  next
    case False
    then obtain xs t where t: "as = xs @ [t]" "newline t" using ab(3) by blast
    let ?f = "read_bytes regexp as [] 0 ?k f"
    have split: "read_bytes regexp (as @ rest) [] 0 ?k f = read_bytes regexp rest [] 0 (ps_line (lf_state ?f)) ?f" for rest
      using read_bytes_split [OF t(2), of regexp xs rest "[]" 0 ?k f] t(1) by (simp add: Let_def)
    have pos: "ps_position (lf_state ?f) = ?p + length as"
      using read_bytes_split [OF t(2), of regexp xs "[]" "[]" 0 ?k f] t(1) by simp
    have f1: "read_records regexp c1 f = ?f"
      using one(1) ab(1) split [of bs] read_bytes_no_newline [OF ab(2)] by simp
    have "length cs = length c1 - ?p" by (simp add: cs_def)
    then have le: "?p + length as \<le> length c1" using assms ab(1) by simp
    have "map of_char (drop (?p + length as) (c1 @ c2)) = drop (length as) (cs @ map (of_char :: char \<Rightarrow> nat) c2)"
      unfolding cs2 [symmetric] drop_map drop_drop add.commute [of ?p] ..
    then have "read_records regexp (c1 @ c2) ?f = read_bytes regexp (bs @ map of_char c2) [] 0 (ps_line (lf_state ?f)) ?f"
      using le ab(1) by (simp add: read_records_def pos)
    then show ?thesis using f1 one(2) ab(1) split [of "bs @ map of_char c2"] by simp
  qed
qed

definition plain_type :: log_type where
  "plain_type = \<lparr>lt_name = ''app'', lt_format = [], lt_mask = ''*.log'', lt_exclusion = [], lt_inclusion = [],
     lt_index = [], lt_udf = []\<rparr>"

definition no_match :: regexps where
  "no_match = (\<lambda>_. Inr (\<lambda>_. None))"

definition empty_file :: log_file where
  "empty_file = \<lparr>lf_url = ''mem:///a.log'', lf_content = [], lf_name = ''a.log'', lf_type = plain_type,
     lf_state = empty_state, lf_modified = 0, lf_size = 0, lf_records = [], lf_indexed = [], lf_fresh = 0\<rparr>"

lemma incremental_reading_witness:
  "read_records no_match (''one'' @ ''two'') (read_records no_match ''one'' empty_file) =
     read_records no_match (''one'' @ ''two'') empty_file"
  by (rule incremental_reading) (simp add: empty_file_def empty_state_def)

section \<open>Iterating\<close>

lemma first_pending_Some:
  "first_pending m xs j = Some k \<Longrightarrow> j \<le> k \<and> k < j + length xs \<and> pending_in m (xs ! (k - j))"
proof (induction xs arbitrary: j)
  case (Cons x xs)
  show ?case
  proof (cases "pending_in m x")
    case False
    with Cons show ?thesis by (fastforce simp: Suc_diff_Suc nth_Cons')
  qed (use Cons.prems in auto)
qed simp

lemma first_pending_None: "first_pending m xs j = None \<longleftrightarrow> (\<forall>x\<in>set xs. \<not> pending_in m x)"
  by (induction xs arbitrary: j) auto

definition at_pending :: "type_meta \<Rightarrow> log_iterator \<Rightarrow> bool" where
  "at_pending m it \<longleftrightarrow> li_index it < length (li_files it) \<and> pending_in m (li_files it ! li_index it)"

lemma has_next_finds:
  "(fst (has_next m it) \<longrightarrow> at_pending m (snd (has_next m it))) \<and>
   (\<not> fst (has_next m it) \<longrightarrow> (\<forall>x\<in>set (files_of m). \<not> pending_in m x))"
proof (induction m it rule: has_next.induct)
  case (1 m it)
  show ?case
  proof (cases "length (li_files it) \<le> li_index it \<or> pending_in m (li_files it ! li_index it)")
    case True
    show ?thesis
    proof (cases "length (li_files it) \<le> li_index it")
      case out: True
      show ?thesis
      proof (cases "first_pending m (files_of m) 0")
        case None
        then show ?thesis using out first_pending_None [of m "files_of m" 0] by (simp add: has_next.simps [of m it])
      next
        case (Some k)
        then show ?thesis using out first_pending_Some [OF Some]
          by (simp add: has_next.simps [of m it] at_pending_def)
      qed
    qed (use True in \<open>simp add: has_next.simps [of m it] at_pending_def\<close>)
  next
    case False
    then show ?thesis using 1 by (simp add: has_next.simps [of m it])
  qed
qed

lemma next_record_at_pending:
  assumes "at_pending m it"
  shows "\<exists>f r rs. file_of m (li_files it ! li_index it) = Some f \<and> lf_records f = r # rs \<and>
           next_record it m = Inr (Some r, put_file (f\<lparr>lf_records := rs\<rparr>) m)"
  using assms
  by (auto simp: at_pending_def pending_in_def has_pending_def next_record_def shift_record_def neq_Nil_conv
      split: option.splits)

text \<open>
  C16: the iterator answers no only when no file of the type has a pending record; when it
  answers yes, the next record is taken without an error and it is the oldest pending record of
  the file the iterator stands at.
\<close>

theorem iterator_misses_no_record:
  "case has_next m it of (found, it') \<Rightarrow>
     if found
     then \<exists>f r rs. file_of m (li_files it' ! li_index it') = Some f \<and> lf_records f = r # rs \<and>
            next_record it' m = Inr (Some r, put_file (f\<lparr>lf_records := rs\<rparr>) m)
     else list_all (\<lambda>x. \<not> pending_in m x) (files_of m)"
proof (cases "has_next m it")
  case (Pair b it')
  then show ?thesis using has_next_finds [of m it] next_record_at_pending [of m it']
    by (cases b) (auto simp: list_all_iff)
qed

section \<open>Records by index\<close>

text \<open>
  The index of a file keeps the records that were consumed: asking again for the same index,
  while any other record is pending, gives the same record once more, although it is not
  pending any longer.
\<close>

theorem consumed_record_is_matched_again:
  assumes "mget (lf_indexed f) i = Some x" "lf_records f \<noteq> []"
    and "shift_by_index i f = (r, found, f')" "lf_records f' \<noteq> []"
  shows "r = Some x \<and> found \<and> (\<forall>y\<in>set (lf_records f'). lr_id y \<noteq> lr_id x) \<and> shift_by_index i f' = (Some x, True, f')"
proof -
  obtain y ys where ys: "lf_records f = y # ys" using assms(2) by (auto simp: neq_Nil_conv)
  let ?f = "f\<lparr>lf_records := filter (\<lambda>y. lr_id y \<noteq> lr_id x) (lf_records f)\<rparr>"
  have f': "r = Some x" "found" "f' = ?f" using assms(1,3) ys by (auto simp: shift_by_index_def)
  have "filter (\<lambda>y. lr_id y \<noteq> lr_id x) (lf_records ?f) = lf_records ?f" by simp
  moreover obtain z zs where "lf_records ?f = z # zs" using assms(4) f'(3) by (cases "lf_records ?f") auto
  ultimately have "shift_by_index i ?f = (Some x, True, ?f)"
    using assms(1) by (simp add: shift_by_index_def)
  then show ?thesis using f' by simp
qed

definition two_records :: log_file where
  "two_records = push_record (\<lambda>_. Inr (\<lambda>s. Some [s, s])) ''b'' 2
     (push_record (\<lambda>_. Inr (\<lambda>s. Some [s, s])) ''a'' 1 (empty_file\<lparr>lf_type := plain_type\<lparr>lt_index := ''(.)''\<rparr>\<rparr>))"

lemma consumed_record_is_matched_again_witness:
  "let f' = snd (snd (shift_by_index ''a'' two_records))
   in fst (shift_by_index ''a'' two_records) = fst (shift_by_index ''a'' f') \<and> map lr_line (lf_records f') = [''b'']"
proof -
  obtain r found f' where s: "shift_by_index ''a'' two_records = (r, found, f')" by (metis prod_cases3)
  have two: "map lr_line (lf_records two_records) = [''a'', ''b'']" "lf_records two_records \<noteq> []"
    "mget (lf_indexed two_records) ''a'' = Some \<lparr>lr_id = 0, lr_url = ''mem:///a.log'', lr_number = 1, lr_line = ''a''\<rparr>"
    by code_simp+
  have f': "map lr_line (lf_records (snd (snd (shift_by_index ''a'' two_records)))) = [''b'']" by code_simp
  then have "lf_records f' \<noteq> []" using s by auto
  from consumed_record_is_matched_again [OF two(3,2) s this] show ?thesis using f' s by (simp add: Let_def)
qed

end
