(* ===== verification/Exec_Contract.thy ===== *)
theory Exec_Contract
  imports Engine
begin

text \<open>
  service/system/exec/contract.go and helper.go: the requests of the command service, their
  defaults and validation, and the log of a run. A target that is nil is \<open>None\<close>; maps are
  association lists; the data of a response is a map of the store.
\<close>

record exec_options =
  eo_system_paths :: "string list"
  eo_terminators :: "string list"
  eo_errors :: "string list"
  eo_timeout :: int
  eo_directory :: string
  eo_env :: "(string \<times> string) list"
  eo_super :: bool
  eo_secrets :: "(string \<times> string) list"
  eo_check :: bool
  eo_auto_sudo :: bool

definition default_options :: exec_options where
  "default_options = \<lparr>eo_system_paths = [], eo_terminators = [], eo_errors = [], eo_timeout = 0, eo_directory = [],
     eo_env = [], eo_super = False, eo_secrets = [], eo_check = False, eo_auto_sudo = False\<rparr>"

text \<open>\<open>NewOptions\<close>: the paths are dropped when there are no terminators.\<close>

definition new_options ::
  "(string \<times> string) list \<Rightarrow> (string \<times> string) list \<Rightarrow> string list \<Rightarrow> string list \<Rightarrow> bool \<Rightarrow> exec_options" where
  "new_options secrets env terminators paths super =
     default_options\<lparr>eo_env := env, eo_terminators := terminators,
       eo_system_paths := (if terminators = [] then [] else paths), eo_super := super, eo_secrets := secrets\<rparr>"

record extract_command =
  ec_when :: string
  ec_command :: string
  ec_else :: string
  ec_extract :: "extraction list"
  ec_errors :: "string list"
  ec_success :: "string list"
  ec_terminators :: "string list"
  ec_timeout :: int

definition new_extract_command ::
  "string \<Rightarrow> string \<Rightarrow> string list \<Rightarrow> string list \<Rightarrow> extraction list \<Rightarrow> extract_command" where
  "new_extract_command command when success errors extracts =
     \<lparr>ec_when = when, ec_command = command, ec_else = [], ec_extract = extracts, ec_errors = errors,
      ec_success = success, ec_terminators = [], ec_timeout = 0\<rparr>"

definition default_target :: resource where
  "default_target = new_resource ''ssh://localhost/'' []"

definition service_target :: "resource option \<Rightarrow> resource" where
  "service_target t =
     (case t of Some r \<Rightarrow> if r_credentials r \<noteq> [] then r else default_target | None \<Rightarrow> default_target)"

text \<open>A criteria without a source is about the output.\<close>

definition init_command :: "extract_command \<Rightarrow> extract_command" where
  "init_command x =
     (if trim_space (ec_when x) \<noteq> [] \<and> \<not> contains (ec_when x) ''$''
      then x\<lparr>ec_when := ''$stdout contains '' @ ec_when x\<rparr> else x)"

text \<open>The two requests; the commands of a run are texts, and nil is \<open>None\<close>.\<close>

record extract_request =
  xq_target :: "resource option"
  xq_options :: "exec_options option"
  xq_commands :: "extract_command list option"

record exec_request =
  xr_target :: "resource option"
  xr_options :: "exec_options option"
  xr_commands :: "string list option"
  xr_extract :: "extraction list"

definition init_extract_request :: "extract_request \<Rightarrow> extract_request" where
  "init_extract_request r =
     r\<lparr>xq_options := Some (case xq_options r of None \<Rightarrow> default_options | Some x \<Rightarrow> x),
       xq_commands := map_option (map init_command) (xq_commands r),
       xq_target := Some (service_target (xq_target r))\<rparr>"

definition validate_extract_request :: "extract_request \<Rightarrow> go_error option" where
  "validate_extract_request r =
     (if xq_target r = None then Some (PlainErr ''target was empty'')
      else if xq_commands r = None then Some (PlainErr ''commands were empty'') else None)"

definition clone_extract_request :: "resource option \<Rightarrow> extract_request \<Rightarrow> extract_request" where
  "clone_extract_request t r = (case t of None \<Rightarrow> r | Some _ \<Rightarrow> r\<lparr>xq_target := t\<rparr>)"

definition init_exec_request :: "exec_request \<Rightarrow> exec_request" where
  "init_exec_request r =
     r\<lparr>xr_options := Some (case xr_options r of None \<Rightarrow> default_options | Some x \<Rightarrow> x),
       xr_target := Some (service_target (xr_target r))\<rparr>"

definition validate_exec_request :: "exec_request \<Rightarrow> go_error option" where
  "validate_exec_request r =
     (if xr_target r = None then Some (PlainErr ''target was empty'')
      else if xr_commands r = None then Some (PlainErr ''commands were empty'') else None)"

definition new_exec_request :: "resource option \<Rightarrow> bool \<Rightarrow> string list \<Rightarrow> exec_request" where
  "new_exec_request t super commands =
     \<lparr>xr_target = t, xr_options = Some (default_options\<lparr>eo_super := super\<rparr>), xr_commands = Some commands,
      xr_extract = []\<rparr>"

text \<open>\<open>WhenAndCommand\<close>: a text \<open>when ? command : else\<close>, or a command alone.\<close>

definition when_and_command :: "parsly \<Rightarrow> string \<Rightarrow> string \<times> string \<times> string" where
  "when_and_command ps expr =
     (case fst (parse_declare ps expr) of
        (when, then_expr, else_expr) \<Rightarrow> if when = [] then ([], expr, []) else (when, then_expr, else_expr))"

definition declared_command :: "parsly \<Rightarrow> string list \<Rightarrow> string \<Rightarrow> extract_command" where
  "declared_command ps errors text =
     (case when_and_command ps text of
        (when, then_expr, else_expr) \<Rightarrow>
          (new_extract_command then_expr when [] errors [])\<lparr>ec_else := else_expr\<rparr>)"

text \<open>The options of a request are its own embedded pointer; a nil one panics.\<close>

definition as_extract_request :: "parsly \<Rightarrow> exec_request \<Rightarrow> go_error + extract_request" where
  "as_extract_request ps r =
     (case xr_options r of
        None \<Rightarrow> Inl (Panicked ''nil pointer dereference'')
      | Some opts \<Rightarrow>
          Inr \<lparr>xq_target = xr_target r, xq_options = Some opts,
            xq_commands = Some (map (declared_command ps (eo_errors opts)) (case xr_commands r of None \<Rightarrow> [] | Some cs \<Rightarrow> cs))\<rparr>)"

record open_request =
  oq_target :: "resource option"
  oq_system_paths :: "string list"
  oq_env :: "(string \<times> string) list"
  oq_transient :: bool

definition validate_open_request :: "open_request \<Rightarrow> go_error option" where
  "validate_open_request r = (if oq_target r = None then Some (PlainErr ''target was empty'') else None)"

section \<open>The log of a run\<close>

record command_log =
  cl_stdin :: string
  cl_stdout :: string
  cl_error :: string

record run_response =
  rr_session :: string
  rr_cmd :: "command_log list"
  rr_output :: string
  rr_data :: nat

definition new_command_log :: "string \<Rightarrow> string \<Rightarrow> go_error option \<Rightarrow> command_log" where
  "new_command_log stdin stdout err =
     (case err of
        None \<Rightarrow> \<lparr>cl_stdin = stdin, cl_stdout = stdout, cl_error = []\<rparr>
      | Some x \<Rightarrow> \<lparr>cl_stdin = stdin, cl_stdout = [], cl_error = error_text x\<rparr>)"

definition add_log :: "command_log \<Rightarrow> run_response \<Rightarrow> run_response" where
  "add_log x r = r\<lparr>rr_cmd := rr_cmd r @ [x]\<rparr>"

definition crlf :: string where
  "crlf = [char_of (13::nat), char_of (10::nat)]"

text \<open>
  \<open>Stdout\<close>: all the outputs, or those at the given positions, which are appended to a list that
  already has an empty text for every position. A negative position panics.
\<close>

definition response_stdout :: "run_response \<Rightarrow> int list \<Rightarrow> go_error + string" where
  "response_stdout r is =
     (if is = [] then Inr (join crlf (map cl_stdout (rr_cmd r)))
      else if \<exists>i\<in>set is. i < 0 then Inl (Panicked ''index out of range'')
      else Inr (join crlf (replicate (length is) [] @
             map (\<lambda>i. cl_stdout (rr_cmd r ! nat i)) (filter (\<lambda>i. i < int (length (rr_cmd r))) is))))"

section \<open>Pieces of the service\<close>

definition find_fragment :: "storage \<Rightarrow> string \<Rightarrow> string list \<Rightarrow> string" where
  "find_fragment io stdout cands =
     (case find (escaped_contains io stdout) cands of None \<Rightarrow> [] | Some x \<Rightarrow> x)"

definition validate_stdout :: "storage \<Rightarrow> string \<Rightarrow> string \<Rightarrow> extract_command \<Rightarrow> go_error option" where
  "validate_stdout io stdout command x =
     (let err = find_fragment io stdout (ec_errors x)
      in if err \<noteq> [] then
           Some (PlainErr (''encounter error fragment: ('' @ err @ ''), command:'' @ command @ '', stdout: '' @ stdout))
         else if ec_success x \<noteq> [] \<and> find_fragment io stdout (ec_success x) = [] then
           Some (PlainErr (''failed to match any fragment: '' @ [char_of (39::nat)] @ join '','' (ec_success x) @
                   [char_of (39::nat)] @ '', command: '' @ command @ ''; stdout: '' @ stdout))
         else None)"

definition command_terminators :: "exec_options \<Rightarrow> extract_command \<Rightarrow> string list" where
  "command_terminators opts x = (if ec_terminators x \<noteq> [] then ec_terminators x else eo_terminators opts)"

definition as_super_user :: "string \<Rightarrow> string \<Rightarrow> string" where
  "as_super_user user command =
     (if user = ''root'' then command
      else if 1 < length command \<and> \<not> contains command ''sudo'' then ''sudo '' @ command else command)"

text \<open>
  The directory that is changed to: a name with an extension is taken for a file, so its parent
  is used, and a slash at the end is cut off.
\<close>

definition directory_of :: "string \<Rightarrow> string" where
  "directory_of directory =
     (let (parent, name) = path_split directory;
          d = (if path_ext name \<noteq> [] then parent else directory)
      in if 1 < length d \<and> has_suffix d ''/'' then butlast d else d)"

definition export_command :: "string \<Rightarrow> string \<Rightarrow> string" where
  "export_command name v =
     (let v' = trim_space v
      in if contains v' '' '' then ''export '' @ name @ ''='' @ [char_of (39::nat)] @ v' @ [char_of (39::nat)]
         else ''export '' @ name @ ''='' @ v')"

text \<open>The name and value of a command \<open>export name=value\<close> that is not part of a longer one.\<close>

definition export_pair :: "string \<Rightarrow> (string \<times> string) option" where
  "export_pair command =
     (if contains command ''&&'' then None
      else case split_on ''='' (drop 7 command) of
        [k, v] \<Rightarrow> Some (trim_space k, trim_set [char_of (39::nat), char_of (34::nat)] (trim_space v))
      | _ \<Rightarrow> None)"

end
