(* ===== verification/Effects.thy ===== *)
theory Effects
  imports Contexts
begin

text \<open>
  Computations over a state that may stop: the sequencing of the services that keep a state of
  their own beside the world, with the propagation of errors. \<open>xtry\<close> is the
  \<open>if err != nil { return err }\<close> of the code.
\<close>

type_synonym ('s, 'a) effect = "'s \<Rightarrow> stop + ('a \<times> 's)"

definition xret :: "'a \<Rightarrow> ('s, 'a) effect" where
  "xret x w = Inr (x, w)"

definition xbind :: "('s, 'a) effect \<Rightarrow> ('a \<Rightarrow> ('s, 'b) effect) \<Rightarrow> ('s, 'b) effect" where
  "xbind m f w = (case m w of Inl s \<Rightarrow> Inl s | Inr (x, w') \<Rightarrow> f x w')"

definition xseq :: "('s, 'a) effect \<Rightarrow> ('s, 'b) effect \<Rightarrow> ('s, 'b) effect" where
  "xseq m n = xbind m (\<lambda>_. n)"

definition xtry :: "('s, go_error + 'a) effect \<Rightarrow> ('a \<Rightarrow> ('s, go_error + 'b) effect) \<Rightarrow> ('s, go_error + 'b) effect" where
  "xtry m f = xbind m (\<lambda>r. case r of Inl e \<Rightarrow> xret (Inl e) | Inr x \<Rightarrow> f x)"

text \<open>A step that only reports an error.\<close>

definition xcheck :: "('s, go_error option) effect \<Rightarrow> ('s, go_error + unit) effect" where
  "xcheck m = xbind m (\<lambda>r. xret (case r of Some e \<Rightarrow> Inl e | None \<Rightarrow> Inr ()))"

definition xget :: "('s \<Rightarrow> 'a) \<Rightarrow> ('s, 'a) effect" where
  "xget f w = Inr (f w, w)"

definition xmod :: "('s \<Rightarrow> 's) \<Rightarrow> ('s, unit) effect" where
  "xmod f w = Inr ((), f w)"

definition xout :: "('s, 'a) effect" where
  "xout w = Inl OutOfFuel"

section \<open>Laws\<close>

named_theorems exec_defs

declare xret_def [exec_defs] xbind_def [exec_defs] xseq_def [exec_defs] xtry_def [exec_defs]
  xget_def [exec_defs] xmod_def [exec_defs]

lemma xbind_assoc: "xbind (xbind m f) g = xbind m (\<lambda>x. xbind (f x) g)"
  by (rule ext) (simp add: exec_defs split: sum.splits prod.splits)

lemma xbind_ret [simp]: "xbind (xret x) f = f x"
  by (rule ext) (simp add: exec_defs)

lemma xtry_assoc: "xtry (xtry m f) g = xtry m (\<lambda>x. xtry (f x) g)"
  by (rule ext) (simp add: exec_defs split: sum.splits prod.splits)

lemma xtry_ret [simp]: "xtry (xret (Inr x)) f = f x" "xtry (xret (Inl err)) f = xret (Inl err)"
  by (rule ext, simp add: exec_defs)+

lemma xbind_Inr: "xbind m f w = Inr r \<longleftrightarrow> (\<exists>x w'. m w = Inr (x, w') \<and> f x w' = Inr r)"
  by (auto simp: xbind_def split: sum.splits)

lemma xbind_Inl: "xbind m f w = Inl st \<longleftrightarrow> m w = Inl st \<or> (\<exists>x w'. m w = Inr (x, w') \<and> f x w' = Inl st)"
  by (auto simp: xbind_def split: sum.splits)

lemma xseq_Inr: "xseq m n w = Inr r \<longleftrightarrow> (\<exists>x w'. m w = Inr (x, w') \<and> n w' = Inr r)"
  by (simp add: xseq_def xbind_Inr)

lemma xtry_Inr:
  "xtry m f w = Inr (r, w') \<longleftrightarrow>
     (\<exists>err. m w = Inr (Inl err, w') \<and> r = Inl err) \<or> (\<exists>x w1. m w = Inr (Inr x, w1) \<and> f x w1 = Inr (r, w'))"
proof (cases "m w")
  case (Inr p)
  then show ?thesis by (cases p; cases "fst p") (auto simp: xtry_def xbind_def xret_def)
qed (simp add: xtry_def xbind_def)

lemma xret_Inr [simp]: "xret x w = Inr r \<longleftrightarrow> r = (x, w)"
  by (auto simp: xret_def)

lemma xbind_returns:
  assumes "m w \<noteq> Inl OutOfFuel" "\<And>x w'. m w = Inr (x, w') \<Longrightarrow> f x w' \<noteq> Inl OutOfFuel"
  shows "xbind m f w \<noteq> Inl OutOfFuel"
  using assms by (auto simp: xbind_def split: sum.splits)

section \<open>What a computation preserves\<close>

text \<open>A part of the state that is the same after every run that returns.\<close>

definition preserves :: "('s \<Rightarrow> 'b) \<Rightarrow> ('s, 'a) effect \<Rightarrow> bool" where
  "preserves f m \<longleftrightarrow> (\<forall>w x w'. m w = Inr (x, w') \<longrightarrow> f w' = f w)"

named_theorems preserve

lemma preservesD: "preserves f m \<Longrightarrow> m w = Inr (x, w') \<Longrightarrow> f w' = f w"
  by (auto simp: preserves_def)

lemma preserves_ret [preserve]: "preserves f (xret x)" "preserves f (xget g)" "preserves f xout"
  by (simp_all add: preserves_def xret_def xget_def xout_def)

lemma preserves_bind [preserve]:
  assumes "preserves f m" "\<And>x. preserves f (k x)"
  shows "preserves f (xbind m k)"
  using assms by (fastforce simp: preserves_def xbind_Inr)

lemma preserves_seq [preserve]: "preserves f m \<Longrightarrow> preserves f n \<Longrightarrow> preserves f (xseq m n)"
  by (simp add: xseq_def preserves_bind)

lemma preserves_try [preserve]:
  assumes "preserves f m" "\<And>x. preserves f (k x)"
  shows "preserves f (xtry m k)"
  unfolding xtry_def by (intro preserve assms) (simp add: assms preserve split: sum.splits)

lemma preserves_mod: "(\<And>w. f (g w) = f w) \<Longrightarrow> preserves f (xmod g)"
  by (simp add: preserves_def xmod_def)

lemma preserves_if [preserve]:
  "(b \<Longrightarrow> preserves f m) \<Longrightarrow> (\<not> b \<Longrightarrow> preserves f n) \<Longrightarrow> preserves f (if b then m else n)"
  by simp

lemma preserves_case [preserve]:
  "(\<And>x. preserves f (a x)) \<Longrightarrow> (\<And>y. preserves f (b y)) \<Longrightarrow> preserves f (case r of Inl x \<Rightarrow> a x | Inr y \<Rightarrow> b y)"
  "preserves f m \<Longrightarrow> (\<And>x. preserves f (k x)) \<Longrightarrow> preserves f (case v of None \<Rightarrow> m | Some x \<Rightarrow> k x)"
  "(\<And>x y. preserves f (g x y)) \<Longrightarrow> preserves f (case p of (x, y) \<Rightarrow> g x y)"
  by (auto split: sum.splits option.splits prod.splits)

section \<open>What a computation gives\<close>

definition gives :: "('a \<Rightarrow> bool) \<Rightarrow> ('s, 'a) effect \<Rightarrow> bool" where
  "gives P m \<longleftrightarrow> (\<forall>w x w'. m w = Inr (x, w') \<longrightarrow> P x)"

named_theorems gives

lemma givesD: "gives P m \<Longrightarrow> m w = Inr (x, w') \<Longrightarrow> P x"
  by (auto simp: gives_def)

lemma gives_ret [gives]: "P x \<Longrightarrow> gives P (xret x)" "gives P xout"
  by (simp_all add: gives_def xret_def xout_def)

lemma gives_bind_from: "gives Q m \<Longrightarrow> (\<And>x. Q x \<Longrightarrow> gives P (k x)) \<Longrightarrow> gives P (xbind m k)"
  by (fastforce simp: gives_def xbind_Inr)

lemma gives_bind [gives]: "(\<And>x. gives P (k x)) \<Longrightarrow> gives P (xbind m k)"
  by (rule gives_bind_from [of "\<lambda>_. True"]) (simp_all add: gives_def)

lemma gives_seq [gives]: "gives P n \<Longrightarrow> gives P (xseq m n)"
  by (simp add: xseq_def gives_bind)

lemma gives_try [gives]: "(\<And>err. P (Inl err)) \<Longrightarrow> (\<And>x. gives P (k x)) \<Longrightarrow> gives P (xtry m k)"
  unfolding xtry_def by (intro gives_bind) (simp add: gives_ret split: sum.splits)

lemma gives_if [gives]:
  "(b \<Longrightarrow> gives P m) \<Longrightarrow> (\<not> b \<Longrightarrow> gives P n) \<Longrightarrow> gives P (if b then m else n)"
  by simp

lemma gives_case [gives]:
  "(\<And>x. gives P (a x)) \<Longrightarrow> (\<And>y. gives P (b y)) \<Longrightarrow> gives P (case r of Inl x \<Rightarrow> a x | Inr y \<Rightarrow> b y)"
  "gives P m \<Longrightarrow> (\<And>x. gives P (k x)) \<Longrightarrow> gives P (case v of None \<Rightarrow> m | Some x \<Rightarrow> k x)"
  "(\<And>x y. gives P (g x y)) \<Longrightarrow> gives P (case p of (x, y) \<Rightarrow> g x y)"
  by (auto split: sum.splits option.splits prod.splits)

end
