(* ===== verification/Exec_Session.thy ===== *)
theory Exec_Session
  imports Exec_Contract Effects
begin

text \<open>
  service/system/exec/service.go: the command service. A session is a shell connection with what
  the service remembers of it: the user, whether the password of the super user was given, the
  environment it has exported and the directory it has changed to. The shells (viant/gosh), the
  secrets (viant/scy) and the cloning of a map are parameters.

  The goroutines of the service and its mutex are not modelled. The terminal sessions belong to
  one context, whose clones share them. A map of environment variables is applied in the order
  of its list.
\<close>

section \<open>Sessions\<close>

record shell_session =
  ss_id :: string
  ss_conn :: nat
  ss_user :: string
  ss_super :: bool
  ss_env :: "(string \<times> string) list"
  ss_dir :: string

definition new_session :: "string \<Rightarrow> nat \<Rightarrow> shell_session" where
  "new_session sid conn = \<lparr>ss_id = sid, ss_conn = conn, ss_user = [], ss_super = False, ss_env = [], ss_dir = []\<rparr>"

text \<open>What a connection is opened with: the local shell in a directory, or a host.\<close>

datatype connection =
    LocalShell "(string \<times> string) list" "string list" "string option"
  | RemoteShell string string "(string \<times> string) list" "string list" string

record shell_facts =
  sf_user :: string
  sf_arch :: string
  sf_system :: string
  sf_name :: string
  sf_hardware :: string
  sf_architecture :: string

text \<open>The output of a command: the text, the parts it came in, the exit code and an error.\<close>

record shell_output =
  so_text :: string
  so_parts :: "string list"
  so_code :: int
  so_error :: "go_error option"

record 'sh shells =
  sh_open :: "connection \<Rightarrow> 'sh \<Rightarrow> (go_error + nat) \<times> 'sh"
  sh_run :: "nat \<Rightarrow> string \<Rightarrow> string list \<Rightarrow> int \<Rightarrow> 'sh \<Rightarrow> shell_output \<times> 'sh"
  sh_facts :: "nat \<Rightarrow> 'sh \<Rightarrow> shell_facts"
  sh_close :: "nat \<Rightarrow> 'sh \<Rightarrow> 'sh"

record 'sh exec_env =
  xe_engine :: full_env
  xe_shells :: "'sh shells"
  xe_parents :: "string list"
  xe_user :: "string \<Rightarrow> string option"
  xe_config :: "string \<Rightarrow> go_error option"
  xe_secrets :: "string \<Rightarrow> (string \<times> string) list \<Rightarrow> go_error + string"
  xe_reveal :: bool
  xe_clone_map :: "nat \<Rightarrow> heap \<Rightarrow> nat \<times> heap"

record 'sh exec_world =
  xw_world :: world
  xw_table :: "(string \<times> nat) list"
  xw_sessions :: "nat \<Rightarrow> shell_session"
  xw_next :: nat
  xw_shell :: 'sh

type_synonym ('sh, 'a) xm = "('sh exec_world, 'a) effect"

definition xlift :: "'a m \<Rightarrow> ('sh, 'a) xm" where
  "xlift m w = (case m (xw_world w) of Inl s \<Rightarrow> Inl s | Inr (x, v) \<Rightarrow> Inr (x, w\<lparr>xw_world := v\<rparr>))"

definition on_session :: "nat \<Rightarrow> (shell_session \<Rightarrow> shell_session) \<Rightarrow> ('sh, unit) xm" where
  "on_session s f = xmod (\<lambda>w. w\<lparr>xw_sessions := (xw_sessions w)(s := f (xw_sessions w s))\<rparr>)"

definition the_session :: "nat \<Rightarrow> ('sh, shell_session) xm" where
  "the_session s = xget (\<lambda>w. xw_sessions w s)"

definition expand_in :: "'sh exec_env \<Rightarrow> nat \<Rightarrow> string \<Rightarrow> ('sh, string) xm" where
  "expand_in e c text = xlift (ctx_expand (en_tb (xe_engine e)) (en_defaults (xe_engine e)) c text)"

definition expand_target :: "'sh exec_env \<Rightarrow> nat \<Rightarrow> resource option \<Rightarrow> ('sh, go_error + resource) xm" where
  "expand_target e c t =
     xlift (expand_resource (en_tb (xe_engine e)) (en_urls (xe_engine e)) (en_io (xe_engine e))
       (en_defaults (xe_engine e)) c (xe_parents e) t)"

section \<open>Commands\<close>

definition shell_run ::
  "'sh exec_env \<Rightarrow> nat \<Rightarrow> string \<Rightarrow> string list \<Rightarrow> int \<Rightarrow> ('sh, shell_output) xm" where
  "shell_run e s command terminators timeout w =
     (let (r, sh) = sh_run (xe_shells e) (ss_conn (xw_sessions w s)) command terminators timeout (xw_shell w)
      in Inr (r, w\<lparr>xw_shell := sh\<rparr>))"

definition stdin_event :: "string \<Rightarrow> string \<Rightarrow> event" where
  "stdin_event sid command = EvStdin sid (trim_set [char_of (10::nat), char_of (13::nat)] command)"

definition run_template :: "'sh exec_env \<Rightarrow> nat \<Rightarrow> nat \<Rightarrow> string \<Rightarrow> ('sh, string \<times> go_error option) xm" where
  "run_template e c s command =
     xbind (the_session s) (\<lambda>x.
     xbind (xlift (publish c (stdin_event (ss_id x) command))) (\<lambda>start.
     xbind (shell_run e s command [] 1000) (\<lambda>r.
     xseq (xlift (publish_with_start c (EvStdout (ss_id x) (so_text r)) start))
       (xret (so_text r, so_error r)))))"

text \<open>A variable that has the value is not exported again; the remembered value is not trimmed.\<close>

definition set_env_variable :: "'sh exec_env \<Rightarrow> nat \<Rightarrow> nat \<Rightarrow> string \<Rightarrow> string \<Rightarrow> ('sh, go_error option) xm" where
  "set_env_variable e c s name v =
     xbind (expand_in e c v) (\<lambda>v'.
     xbind (the_session s) (\<lambda>x.
       if mget (ss_env x) name = Some v' then xret None
       else xseq (on_session s (\<lambda>x. x\<lparr>ss_env := mput name v' (ss_env x)\<rparr>))
              (xbind (run_template e c s (export_command name v')) (\<lambda>r. xret (snd r)))))"

fun set_env_variables :: "'sh exec_env \<Rightarrow> nat \<Rightarrow> nat \<Rightarrow> (string \<times> string) list \<Rightarrow> ('sh, go_error option) xm" where
  "set_env_variables e c s [] = xret None"
| "set_env_variables e c s ((k, v) # kvs) =
     xbind (set_env_variable e c s k v) (\<lambda>err. if err \<noteq> None then xret err else set_env_variables e c s kvs)"

definition change_directory :: "'sh exec_env \<Rightarrow> nat \<Rightarrow> nat \<Rightarrow> string \<Rightarrow> ('sh, string \<times> go_error option) xm" where
  "change_directory e c s directory =
     (if directory = [] then xret ([], None)
      else
        let d = directory_of directory
        in xbind (the_session s) (\<lambda>x.
             if ss_dir x = d then xret ([], None)
             else xbind (run_template e c s (''cd '' @ d)) (\<lambda>(result, err).
               if err \<noteq> None then xret ([], err)
               else xseq (if no_such_file [result] then xret () else on_session s (\<lambda>x. x\<lparr>ss_dir := d\<rparr>))
                      (xret (result, err)))))"

definition apply_options :: "'sh exec_env \<Rightarrow> nat \<Rightarrow> nat \<Rightarrow> exec_options \<Rightarrow> ('sh, go_error option) xm" where
  "apply_options e c s opts =
     xbind (if eo_system_paths opts = [] then xret None
            else xbind (shell_run e s ''echo $PATH'' [] 0) (\<lambda>r.
              if so_text r = [] then xret None
              else set_env_variable e c s ''PATH'' (join '':'' (eo_system_paths opts @ split_on '':'' (so_text r))))) (\<lambda>err.
       if err \<noteq> None then xret err
       else xbind (set_env_variables e c s (eo_env opts)) (\<lambda>err.
         if err \<noteq> None then xret err
         else if eo_directory opts = [] then xret None
         else xbind (expand_in e c (eo_directory opts)) (\<lambda>d.
                xbind (change_directory e c s d) (\<lambda>(out, err). xret err))))"

section \<open>Running a command\<close>

text \<open>The state of a run: the log, and the secrets of the request, which a password may set.\<close>

record run_state =
  rs_response :: run_response
  rs_secrets :: "(string \<times> string) list"

definition log_value :: "command_log \<Rightarrow> value" where
  "log_value x = VMap [(''stdin'', VStr (cl_stdin x)), (''stdout'', VStr (cl_stdout x))]"

definition execution_state :: "'sh exec_env \<Rightarrow> nat \<Rightarrow> run_response \<Rightarrow> ('sh, nat) xm" where
  "execution_state e c resp =
     (let put = \<lambda>a k v. xlift (on_heap (tb_put (en_tb (xe_engine e)) a k v))
      in xbind (xlift (get_state (xe_engine e) c)) (\<lambda>st.
         xbind (xlift (mbind mget_world (\<lambda>v. let (a, h) = xe_clone_map e st (wd_heap v) in mseq (on_heap (\<lambda>_. h)) (mret a)))) (\<lambda>a.
         xseq (put a ''cmd'' (VSlice (map log_value (rr_cmd resp))))
         (xseq (put a ''output'' (VStr (rr_output resp)))
         (xseq (put a ''stdout'' (VStr (if rr_cmd resp = [] then [] else cl_stdout (last (rr_cmd resp)))))
           (xret a))))))"

definition update_system :: "'sh exec_env \<Rightarrow> nat \<Rightarrow> nat \<Rightarrow> ('sh, unit) xm" where
  "update_system e c s =
     xbind (the_session s) (\<lambda>x.
     xbind (xget (\<lambda>w. sh_facts (xe_shells e) (ss_conn x) (xw_shell w))) (\<lambda>f.
     xseq (on_session s (\<lambda>x. x\<lparr>ss_user := sf_user f\<rparr>))
     (xbind (xlift (get_state (xe_engine e) c)) (\<lambda>st.
       xlift (on_heap (fold (\<lambda>(k, v). set_value (en_tb (xe_engine e)) st k (VStr v))
         [(''os.user'', sf_user f), (''os.arch'', sf_arch f), (''os.system'', sf_system f), (''os.name'', sf_name f),
          (''os.hardware'', sf_hardware f), (''os.architecture'', sf_architecture f)]))))))"

text \<open>The command, or the other one when the criteria does not hold.\<close>

definition chosen_command ::
  "'sh exec_env \<Rightarrow> nat \<Rightarrow> extract_command \<Rightarrow> run_response \<Rightarrow> ('sh, go_error + string) xm" where
  "chosen_command e c x resp =
     (if ec_when x = [] then xret (Inr (ec_command x))
      else xbind (execution_state e c resp) (\<lambda>st.
           xtry (xlift (eval_criteria (xe_engine e) c st (ec_when x) ''Cmd.When'' True)) (\<lambda>ok.
             xret (Inr (if ok then ec_command x else ec_else x)))))"

definition expanded_command ::
  "'sh exec_env \<Rightarrow> nat \<Rightarrow> string \<Rightarrow> run_response \<Rightarrow> ('sh, string) xm" where
  "expanded_command e c command resp =
     (if contains command ''$''
      then xbind (execution_state e c resp) (\<lambda>st.
             xget (\<lambda>w. expand_text (en_tb (xe_engine e)) (wd_heap (xw_world w)) st command))
      else xret command)"

text \<open>The parts of the output are published, unless a retry with sudo is going to follow.\<close>

definition listened :: "'sh exec_env \<Rightarrow> nat \<Rightarrow> string \<Rightarrow> bool \<Rightarrow> bool \<Rightarrow> string list \<Rightarrow> ('sh, unit) xm" where
  "listened e c sid retry auto_sudo parts =
     fold (\<lambda>part m. xseq m
         (if (\<not> retry \<and> auto_sudo \<and> \<not> is_permitted [part]) \<or> part = [] then xret ()
          else xseq (xlift (publish c (EvStdout sid part))) (xret ())))
       parts (xret ())"

definition run_listened ::
  "'sh exec_env \<Rightarrow> nat \<Rightarrow> nat \<Rightarrow> bool \<Rightarrow> bool \<Rightarrow> string \<Rightarrow> string list \<Rightarrow> int \<Rightarrow> ('sh, shell_output) xm" where
  "run_listened e c s retry auto_sudo command terminators timeout =
     xbind (shell_run e s command terminators timeout) (\<lambda>r.
     xbind (the_session s) (\<lambda>x.
     xseq (listened e c (ss_id x) retry auto_sudo (so_parts r)) (xret r)))"

definition retry_with_sudo ::
  "'sh exec_env \<Rightarrow> nat \<Rightarrow> nat \<Rightarrow> string \<Rightarrow> string list \<Rightarrow> int \<Rightarrow> ('sh, shell_output) xm" where
  "retry_with_sudo e c s command terminators timeout =
     xbind (the_session s) (\<lambda>x.
       run_listened e c s True True (as_super_user (ss_user x) command) (terminators @ [''Password'']) timeout)"

text \<open>The name of the secret that holds the password of the super user.\<close>

definition sudo_key :: string where
  "sudo_key = ''sudoer''"

definition password_asked :: "storage \<Rightarrow> string \<Rightarrow> bool \<Rightarrow> bool" where
  "password_asked io stdout given \<longleftrightarrow>
     escaped_contains io stdout ''Password'' \<and>
     (given \<longrightarrow> escaped_contains io stdout ''Sorry, try again.'')"

text \<open>
  \<open>authSuperUserIfNeeded\<close>: the password is sent as the command \<open>sudoer\<close>, which the secrets
  replace; \<open>again\<close> executes it.
\<close>

definition auth_super_user ::
  "'sh exec_env \<Rightarrow> (extract_command \<Rightarrow> run_state \<Rightarrow> ('sh, go_error + run_state) xm) \<Rightarrow> nat \<Rightarrow> resource
     \<Rightarrow> string \<Rightarrow> run_state \<Rightarrow> ('sh, go_error + run_state) xm" where
  "auth_super_user e again s target stdout rs =
     xbind (the_session s) (\<lambda>x.
       if \<not> password_asked (en_io (xe_engine e)) stdout (ss_super x) then xret (Inr rs)
       else xseq (on_session s (\<lambda>x. x\<lparr>ss_super := True\<rparr>))
              (again (new_extract_command sudo_key [] [] [''Password'', ''command not found''] [])
                (if rs_secrets rs = [] then rs\<lparr>rs_secrets := [(sudo_key, r_credentials target)]\<rparr> else rs)))"

definition on_response :: "(run_response \<Rightarrow> run_response) \<Rightarrow> run_state \<Rightarrow> run_state" where
  "on_response f rs = rs\<lparr>rs_response := f (rs_response rs)\<rparr>"

text \<open>\<open>Extracts.Extract\<close> of several inputs: the text as a whole first, and then line by line.\<close>

fun match_lines ::
  "full_env \<Rightarrow> nat \<Rightarrow> (string \<Rightarrow> string list option) \<Rightarrow> extraction \<Rightarrow> nat \<Rightarrow> string list \<Rightarrow> bool \<Rightarrow> bool m" where
  "match_lines e c rx x extracted [] matched = mret matched"
| "match_lines e c rx x extracted (line # ls) matched =
     (if line = [] then match_lines e c rx x extracted ls matched
      else mbind (match_expression e c rx line x extracted) (\<lambda>m1.
           mbind (if m1 then mret True
                  else match_expression e c rx (vt_clean (en_io e) line False) x extracted) (\<lambda>m2.
             match_lines e c rx x extracted ls (matched \<or> m2))))"

fun extract_all ::
  "full_env \<Rightarrow> nat \<Rightarrow> extraction list \<Rightarrow> string list \<Rightarrow> nat \<Rightarrow> go_error option m" where
  "extract_all e c [] inputs extracted = mret None"
| "extract_all e c (x # xs) inputs extracted =
     (let lf = [char_of (10::nat)]; all = join lf inputs;
          cleaned = join lf (map (\<lambda>l. vt_clean (en_io e) l False) inputs)
      in case en_regexp e (x_regexpr x) of
        Inl err \<Rightarrow> mret (Some (PlainErr (''failed to extract data - invlid regexpr: '' @ x_regexpr x @
                    '',  '' @ error_text err)))
      | Inr rx \<Rightarrow>
          mbind (match_expression e c rx all x extracted) (\<lambda>m1.
          mbind (if m1 then mret False else match_expression e c rx cleaned x extracted) (\<lambda>m2.
            if m2 then extract_all e c xs inputs extracted
            else mbind (match_lines e c rx x extracted inputs False) (\<lambda>matched.
              mbind mget_world (\<lambda>w.
                if x_required x \<and> \<not> matched \<and> \<not> mhas (cell (wd_heap w) extracted) (x_key x)
                then mret (Some (PlainErr (''failed to extract required data - no match found for regexpr: ''
                        @ x_regexpr x @ '',  '' @ all)))
                else extract_all e c xs inputs extracted)))))"

definition extract_lines :: "full_env \<Rightarrow> nat \<Rightarrow> extraction list \<Rightarrow> nat \<Rightarrow> string list \<Rightarrow> go_error option m" where
  "extract_lines e c xs extracted inputs =
     (if xs = [] \<or> inputs = [] then mret None
      else mseq (on_heap (\<lambda>h. write_cell extracted
             (fold (\<lambda>x m. if x_reset x then mdel (x_key x) m else m) xs (cell h extracted)) h))
           (extract_all e c xs inputs extracted))"

end
