(* ===== verification/Exec_Run.thy ===== *)
theory Exec_Run
  imports Exec_Session
begin

text \<open>
  service/system/exec/service.go, continued: executing a command, the requests, and opening and
  closing of sessions. A password prompt executes a further command; the fuel is the number of
  prompts that follow one another.
\<close>

section \<open>One command\<close>

definition with_newline :: "string \<Rightarrow> string" where
  "with_newline s =
     (if s \<noteq> [] \<and> \<not> has_suffix s [char_of (10::nat)] then s @ [char_of (10::nat)] else s)"

definition is_super_command :: "exec_options \<Rightarrow> string \<Rightarrow> bool" where
  "is_super_command opts command \<longleftrightarrow> contains command ''sudo '' \<or> eo_super opts"

text \<open>The first run, and the retry with sudo; the second result tells whether the retry was made.\<close>

definition run_command ::
  "'sh exec_env \<Rightarrow> nat \<Rightarrow> nat \<Rightarrow> exec_options \<Rightarrow> extract_command \<Rightarrow> string \<Rightarrow> string \<Rightarrow> string list
     \<Rightarrow> ('sh, shell_output \<times> bool) xm" where
  "run_command e c s opts x secured insecure terminators =
     xbind (run_listened e c s False (eo_auto_sudo opts) insecure terminators
              (if 0 < ec_timeout x then ec_timeout x else eo_timeout opts)) (\<lambda>r.
     xbind (the_session s) (\<lambda>ses.
       if eo_auto_sudo opts \<and> \<not> is_permitted [so_text r] \<and> ss_user ses \<noteq> ''root'' \<and> \<not> has_prefix secured ''sudo''
       then xbind (retry_with_sudo e c s insecure terminators (eo_timeout opts)) (\<lambda>r'. xret (r', True))
       else xret (r, False)))"

text \<open>What is done with the output; the error of a super user command is that of the password.\<close>

definition finish_command ::
  "'sh exec_env \<Rightarrow> nat \<Rightarrow> exec_options \<Rightarrow> extract_command \<Rightarrow> string \<Rightarrow> shell_output \<Rightarrow> go_error option
     \<Rightarrow> run_state \<Rightarrow> ('sh, go_error + run_state) xm" where
  "finish_command e c opts x secured r err rs =
     (let rs1 = on_response (\<lambda>p. p\<lparr>rr_output := rr_output p @ so_text r\<rparr>) rs
      in if eo_check opts \<and> so_code r \<noteq> 0
         then xret (Inl (PlainErr (''exit code: '' @ show_int (so_code r) @ '', command: '' @ secured)))
         else
           let rs2 = on_response (add_log (new_command_log secured (so_text r) err)) rs1
           in case err of
                Some e' \<Rightarrow> xret (Inl e')
              | None \<Rightarrow>
                  (case validate_stdout (en_io (xe_engine e)) (so_text r) secured x of
                     Some e' \<Rightarrow> xret (Inl e')
                   | None \<Rightarrow>
                       xbind (xlift (extract_lines (xe_engine e) c (ec_extract x) (rr_data (rs_response rs2))
                          (split_on [char_of (10::nat)] (cl_stdout (last (rr_cmd (rs_response rs2))))))) (\<lambda>err.
                         xret (case err of Some e' \<Rightarrow> Inl e' | None \<Rightarrow> Inr rs2))))"

definition execute_expanded ::
  "'sh exec_env \<Rightarrow> (extract_command \<Rightarrow> run_state \<Rightarrow> ('sh, go_error + run_state) xm) \<Rightarrow> nat \<Rightarrow> nat \<Rightarrow> resource
     \<Rightarrow> exec_options \<Rightarrow> extract_command \<Rightarrow> string \<Rightarrow> bool \<Rightarrow> run_state \<Rightarrow> ('sh, go_error + run_state) xm" where
  "execute_expanded e again c s target opts x command super rs =
     xbind (the_session s) (\<lambda>ses.
       let terminators = command_terminators opts x @ (if super \<and> \<not> ss_super ses then [''Password''] else []);
           secured = (if super then as_super_user (ss_user ses) command else command)
       in case xe_secrets e secured (rs_secrets rs) of
            Inl err \<Rightarrow> xret (Inl err)
          | Inr insecure \<Rightarrow>
              let shown = (if xe_reveal e then insecure else secured)
              in xseq (xlift (publish c (stdin_event (ss_id ses) shown)))
                (xbind (run_command e c s opts x shown insecure terminators) (\<lambda>(r, retried).
                   let rs1 = on_response (\<lambda>p. p\<lparr>rr_output := with_newline (rr_output p)\<rparr>) rs
                   in if super \<or> retried
                      then xtry (auth_super_user e again s target (so_text r) rs1) (\<lambda>rs2.
                             finish_command e c opts x shown r None rs2)
                      else finish_command e c opts x shown r (so_error r) rs1)))"

definition execute_step ::
  "'sh exec_env \<Rightarrow> (extract_command \<Rightarrow> run_state \<Rightarrow> ('sh, go_error + run_state) xm) \<Rightarrow> nat \<Rightarrow> nat \<Rightarrow> resource
     \<Rightarrow> exec_options \<Rightarrow> extract_command \<Rightarrow> run_state \<Rightarrow> ('sh, go_error + run_state) xm" where
  "execute_step e again c s target opts x rs =
     xseq (update_system e c s)
       (xtry (chosen_command e c x (rs_response rs)) (\<lambda>command.
          if trim_space command = [] then xret (Inr rs)
          else xbind (expand_in e c command) (\<lambda>secured.
            xbind (expanded_command e c secured (rs_response rs)) (\<lambda>text.
              execute_expanded e again c s target opts x (replace_all text ''${qMark}'' ''?'')
                (is_super_command opts secured) rs))))"

fun execute_command ::
  "'sh exec_env \<Rightarrow> nat \<Rightarrow> nat \<Rightarrow> nat \<Rightarrow> resource \<Rightarrow> exec_options \<Rightarrow> extract_command \<Rightarrow> run_state
     \<Rightarrow> ('sh, go_error + run_state) xm" where
  "execute_command e 0 c s target opts x rs = xout"
| "execute_command e (Suc n) c s target opts x rs =
     execute_step e (execute_command e n c s target opts) c s target opts x rs"

section \<open>Opening and closing\<close>

definition session_id :: "'sh exec_env \<Rightarrow> resource \<Rightarrow> string" where
  "session_id e t =
     (case xe_user e (r_credentials t) of None \<Rightarrow> [] | Some u \<Rightarrow> u) @ ''@'' @ res_hostname (en_urls (xe_engine e)) t"

definition with_port :: "string \<Rightarrow> string" where
  "with_port host = (if contains host '':'' then host else host @ '':22'')"

definition open_shell :: "'sh exec_env \<Rightarrow> connection \<Rightarrow> ('sh, go_error + nat) xm" where
  "open_shell e k w = (let (r, sh) = sh_open (xe_shells e) k (xw_shell w) in Inr (r, w\<lparr>xw_shell := sh\<rparr>))"

definition open_service :: "'sh exec_env \<Rightarrow> nat \<Rightarrow> open_request \<Rightarrow> ('sh, go_error + nat) xm" where
  "open_service e c req =
     (let u = en_urls (xe_engine e)
      in case oq_target req of
        None \<Rightarrow> xret (Inl (Panicked ''nil pointer dereference''))
      | Some t \<Rightarrow>
          if r_url t = [] then open_shell e (LocalShell (oq_env req) (oq_system_paths req) None)
          else xtry (expand_target e c (Some t)) (\<lambda>t'.
            if res_hostname u t' = ''localhost''
            then open_shell e (LocalShell (oq_env req) (oq_system_paths req) (Some (res_path u t')))
            else case xe_config e (r_credentials t') of
              Some err \<Rightarrow> xret (Inl err)
            | None \<Rightarrow>
                open_shell e (RemoteShell (with_port (res_host u t')) (r_credentials t') (oq_env req)
                  (oq_system_paths req) (res_path u t'))))"

definition register_session :: "'sh exec_env \<Rightarrow> nat \<Rightarrow> open_request \<Rightarrow> string \<Rightarrow> nat \<Rightarrow> ('sh, go_error + nat) xm" where
  "register_session e c req sid conn =
     xbind (xget xw_next) (\<lambda>s.
     xseq (xmod (\<lambda>w. w\<lparr>xw_sessions := (xw_sessions w)(s := new_session sid conn), xw_next := Suc s\<rparr>))
     (xseq (if oq_transient req then xret ()
            else xbind (xlift (deffer c [''close connection of '' @ sid, ''close session '' @ sid])) (\<lambda>_. xret ()))
     (xtry (xcheck (set_env_variables e c s (oq_env req))) (\<lambda>_.
        xseq (xmod (\<lambda>w. w\<lparr>xw_table := mput sid s (xw_table w)\<rparr>)) (xret (Inr s))))))"

definition open_session :: "'sh exec_env \<Rightarrow> nat \<Rightarrow> open_request \<Rightarrow> ('sh, go_error + nat) xm" where
  "open_session e c req =
     xtry (case oq_target req of
             Some t \<Rightarrow> if r_url t \<noteq> [] then expand_target e c (Some t) else xret (Inr t)
           | None \<Rightarrow> xret (Inl (Panicked ''nil pointer dereference''))) (\<lambda>t.
       let sid = session_id e t
       in xbind (xget xw_table) (\<lambda>table.
            case mget table sid of
              Some s \<Rightarrow> xtry (xcheck (set_env_variables e c s (oq_env req))) (\<lambda>_. xret (Inr s))
            | None \<Rightarrow> xtry (open_service e c req) (register_session e c req sid)))"

definition close_session :: "'sh exec_env \<Rightarrow> string \<Rightarrow> ('sh, string) xm" where
  "close_session e sid =
     xbind (xget xw_table) (\<lambda>table.
       case mget table sid of
         None \<Rightarrow> xret sid
       | Some s \<Rightarrow>
           xbind (the_session s) (\<lambda>x.
             xseq (xmod (\<lambda>w. w\<lparr>xw_shell := sh_close (xe_shells e) (ss_conn x) (xw_shell w), xw_table := mdel sid table\<rparr>))
               (xret sid)))"

section \<open>Requests\<close>

text \<open>
  The commands \<open>cd\<close> and \<open>export\<close> are carried out on the session, unless they are part of a
  longer command line, which makes the session forget what it knows. The error of an export is
  only logged.
\<close>

definition forget_directory :: "nat \<Rightarrow> string \<Rightarrow> ('sh, unit) xm" where
  "forget_directory s command =
     on_session s (\<lambda>x. if contains command ''rm '' \<and> contains command (ss_dir x) then x\<lparr>ss_dir := []\<rparr> else x)"

definition run_cd ::
  "'sh exec_env \<Rightarrow> nat \<Rightarrow> nat \<Rightarrow> extract_command \<Rightarrow> string \<Rightarrow> run_state \<Rightarrow> ('sh, go_error + run_state) xm" where
  "run_cd e c s x command rs =
     xbind (change_directory e c s (trim_space (drop 3 command))) (\<lambda>(stdout, err).
       let rs1 = on_response (add_log (new_command_log command stdout err)) rs;
           err1 = (if err = None then validate_stdout (en_io (xe_engine e)) stdout command x else err)
       in xret (case err1 of Some e' \<Rightarrow> Inl e' | None \<Rightarrow> Inr rs1))"

definition run_export ::
  "'sh exec_env \<Rightarrow> nat \<Rightarrow> nat \<Rightarrow> string \<Rightarrow> string \<times> string \<Rightarrow> run_state \<Rightarrow> ('sh, go_error + run_state) xm" where
  "run_export e c s command kv rs =
     xbind (set_env_variable e c s (fst kv) (snd kv)) (\<lambda>err.
       xret (Inr (on_response (add_log (new_command_log command [] err)) rs)))"

definition run_one ::
  "'sh exec_env \<Rightarrow> nat \<Rightarrow> nat \<Rightarrow> nat \<Rightarrow> resource \<Rightarrow> exec_options \<Rightarrow> extract_command \<Rightarrow> run_state
     \<Rightarrow> ('sh, go_error + run_state) xm" where
  "run_one e n c s target opts x rs =
     xbind (expand_in e c (ec_command x)) (\<lambda>command.
     xseq (forget_directory s command)
       (if has_prefix command ''cd '' \<and> \<not> contains command ''&&'' then run_cd e c s x command rs
        else xseq (if has_prefix command ''cd '' then on_session s (\<lambda>x. x\<lparr>ss_dir := []\<rparr>) else xret ())
          (if has_prefix command ''export '' then
             (case export_pair command of
                Some kv \<Rightarrow> run_export e c s command kv rs
              | None \<Rightarrow>
                  xseq (on_session s (\<lambda>x. x\<lparr>ss_env := []\<rparr>)) (execute_command e n c s target opts x rs))
           else execute_command e n c s target opts x rs)))"

fun run_all_commands ::
  "'sh exec_env \<Rightarrow> nat \<Rightarrow> nat \<Rightarrow> nat \<Rightarrow> resource \<Rightarrow> exec_options \<Rightarrow> extract_command list \<Rightarrow> run_state
     \<Rightarrow> ('sh, go_error + run_state) xm" where
  "run_all_commands e n c s target opts [] rs = xret (Inr rs)"
| "run_all_commands e n c s target opts (x # xs) rs =
     xtry (run_one e n c s target opts x rs) (run_all_commands e n c s target opts xs)"

text \<open>The target of the request itself, not the expanded one, gives the credentials of a password.\<close>

definition run_extract ::
  "'sh exec_env \<Rightarrow> nat \<Rightarrow> nat \<Rightarrow> extract_request \<Rightarrow> ('sh, go_error + run_response) xm" where
  "run_extract e n c req =
     (case (xq_target req, xq_options req) of
        (Some target, Some opts) \<Rightarrow>
          xtry (expand_target e c (Some target)) (\<lambda>t.
          xtry (open_session e c \<lparr>oq_target = Some t, oq_system_paths = [], oq_env = [], oq_transient = False\<rparr>) (\<lambda>s.
          xtry (xcheck (apply_options e c s opts)) (\<lambda>_.
          xbind (the_session s) (\<lambda>ses.
          xbind (xlift (new_map [])) (\<lambda>a.
          xtry (run_all_commands e n c s target opts (case xq_commands req of None \<Rightarrow> [] | Some xs \<Rightarrow> xs)
                  \<lparr>rs_response = \<lparr>rr_session = ss_id ses, rr_cmd = [], rr_output = [], rr_data = a\<rparr>,
                   rs_secrets = eo_secrets opts\<rparr>) (\<lambda>rs.
            xret (Inr (rs_response rs))))))))
      | (None, _) \<Rightarrow> xret (Inl (PlainErr ''resource  was empty''))
      | _ \<Rightarrow> xret (Inl (Panicked ''nil pointer dereference'')))"

text \<open>\<open>runCommands\<close>: the error of the extraction comes with the response.\<close>

definition run_commands ::
  "'sh exec_env \<Rightarrow> nat \<Rightarrow> nat \<Rightarrow> exec_request \<Rightarrow> ('sh, (go_error + run_response) \<times> go_error option) xm" where
  "run_commands e n c req =
     (case as_extract_request (en_ps (xe_engine e)) req of
        Inl err \<Rightarrow> xret (Inl err, Some err)
      | Inr x \<Rightarrow>
          xbind (run_extract e n c x) (\<lambda>r.
            case r of
              Inl err \<Rightarrow> xret (Inl err, Some err)
            | Inr resp \<Rightarrow>
                if xr_extract req = [] then xret (Inr resp, None)
                else xbind (xlift (extract_lines (xe_engine e) c (xr_extract req) (rr_data resp)
                       (split_on [char_of (10::nat)] (rr_output resp)))) (\<lambda>err. xret (Inr resp, err))))"

end
