(* ===== verification/Exec_Props.thy ===== *)
theory Exec_Props
  imports Exec_Run Samples
begin

text \<open>
  The command service: the commands of a request run one after another until one fails; the
  environment that a session remembers is the one of its shell; the prompts for a password come
  to an end with the shell's; and what happens to directories and to the errors of a super user.
\<close>

section \<open>Sequences\<close>

declare the_session_def [exec_defs] on_session_def [exec_defs]


text \<open>The extraction from several lines is that of the engine when there is one line.\<close>

lemma mbind_mret_right [simp]: "mbind m mret = m"
  by (rule ext) (simp add: mbind_def mret_def split: sum.splits)

lemma extract_all_single:
  "extract_all e c xs [line] a = extract_each e c xs line (vt_clean (en_io e) line False) a"
proof (induction xs)
  case (Cons x xs)
  then show ?case
    by (simp add: Let_def mbind_assoc if_distrib [of "\<lambda>m. mbind m f" for f] cong: if_cong sum.case_cong)
qed simp

lemma extract_lines_single: "extract_lines e c xs a [line] = extract_data e c xs a line"
  by (simp add: extract_lines_def extract_data_def extract_all_single)

section \<open>The environment\<close>

text \<open>Names and values that a shell takes literally.\<close>

definition plain_variable :: "string \<Rightarrow> bool" where
  "plain_variable name \<longleftrightarrow> name \<noteq> [] \<and> (\<forall>ch\<in>set name. is_letter ch \<or> is_digit ch \<or> ch = CHR ''_'')"

definition plain_setting :: "string \<Rightarrow> bool" where
  "plain_setting v \<longleftrightarrow> (\<forall>ch\<in>set v. is_letter ch \<or> is_digit ch \<or> ch \<in> set '' /._-:,+'')"

text \<open>
  The documented effect of \<open>export\<close>: \<open>senv\<close> is the environment of a connection; when the command
  gives no error, the variable has the value and no other variable is touched.
\<close>

definition exports_variables :: "'sh shells \<Rightarrow> (nat \<Rightarrow> 'sh \<Rightarrow> string \<Rightarrow> string option) \<Rightarrow> bool" where
  "exports_variables shs senv \<longleftrightarrow>
     (\<forall>k name v ts ms sh. plain_variable name \<longrightarrow> plain_setting v \<longrightarrow>
        so_error (fst (sh_run shs k (export_command name v) ts ms sh)) = None \<longrightarrow>
        senv k (snd (sh_run shs k (export_command name v) ts ms sh)) = (senv k sh)(name := Some (trim_space v)))"

text \<open>What the session remembers is what the shell has.\<close>

definition env_agrees :: "(nat \<Rightarrow> 'sh \<Rightarrow> string \<Rightarrow> string option) \<Rightarrow> nat \<Rightarrow> 'sh exec_world \<Rightarrow> bool" where
  "env_agrees senv s w \<longleftrightarrow>
     (\<forall>k v. mget (ss_env (xw_sessions w s)) k = Some v \<longrightarrow>
        senv (ss_conn (xw_sessions w s)) (xw_shell w) k = Some (trim_space v))"

lemma xlift_frame:
  "xlift m w = Inr (x, w') \<Longrightarrow>
     xw_sessions w' = xw_sessions w \<and> xw_shell w' = xw_shell w \<and> xw_table w' = xw_table w \<and> xw_next w' = xw_next w"
  by (auto simp: xlift_def split: sum.splits)

lemma the_session_Inr [simp]: "the_session s w = Inr r \<longleftrightarrow> r = (xw_sessions w s, w)"
  by (auto simp: the_session_def xget_def)

lemma on_session_Inr [simp]:
  "on_session s f w = Inr r \<longleftrightarrow> r = ((), w\<lparr>xw_sessions := (xw_sessions w)(s := f (xw_sessions w s))\<rparr>)"
  by (auto simp: on_session_def xmod_def)

lemma shell_run_Inr:
  "shell_run e s command ts ms w = Inr (r, w') \<longleftrightarrow>
     r = fst (sh_run (xe_shells e) (ss_conn (xw_sessions w s)) command ts ms (xw_shell w)) \<and>
     w' = w\<lparr>xw_shell := snd (sh_run (xe_shells e) (ss_conn (xw_sessions w s)) command ts ms (xw_shell w))\<rparr>"
  by (auto simp: shell_run_def split: prod.splits)

lemma run_template_effect:
  assumes "run_template e c s command w = Inr ((out, err), w')"
  shows "\<exists>r. r = sh_run (xe_shells e) (ss_conn (xw_sessions w s)) command [] 1000 (xw_shell w) \<and>
           out = so_text (fst r) \<and> err = so_error (fst r) \<and> xw_shell w' = snd r \<and> xw_sessions w' = xw_sessions w"
  using assms unfolding run_template_def
  by (auto simp: xbind_Inr xseq_Inr shell_run_Inr dest!: xlift_frame)

lemma set_env_variable_agrees:
  assumes law: "exports_variables (xe_shells e) senv" and agrees: "env_agrees senv s w"
    and plain: "plain_variable name" "\<forall>h st. plain_setting (expand_text (en_tb (xe_engine e)) h st v)"
    and run: "set_env_variable e c s name v w = Inr (None, w')"
  shows "env_agrees senv s w' \<and> mhas (ss_env (xw_sessions w' s)) name"
proof -
  from run obtain v' w1 where v': "expand_in e c v w = Inr (v', w1)"
    and body: "(if mget (ss_env (xw_sessions w1 s)) name = Some v' then xret None
      else xseq (on_session s (\<lambda>x. x\<lparr>ss_env := mput name v' (ss_env x)\<rparr>))
             (xbind (run_template e c s (export_command name v')) (\<lambda>r. xret (snd r)))) w1 = Inr (None, w')"
    unfolding set_env_variable_def by (auto simp: xbind_Inr)
  have frame: "xw_sessions w1 = xw_sessions w" "xw_shell w1 = xw_shell w"
    using v' by (auto simp: expand_in_def dest: xlift_frame)
  have setting: "plain_setting v'"
    using v' plain(2) by (auto simp: expand_in_def xlift_def ctx_expand_def mbind_def split: sum.splits)
  show ?thesis
  proof (cases "mget (ss_env (xw_sessions w1 s)) name = Some v'")
    case True
    then show ?thesis using body agrees frame by (simp add: env_agrees_def mhas_iff)
  next
    case False
    let ?w2 = "w1\<lparr>xw_sessions := (xw_sessions w1)(s := (xw_sessions w1 s)\<lparr>ss_env := mput name v' (ss_env (xw_sessions w1 s))\<rparr>)\<rparr>"
    obtain out where "run_template e c s (export_command name v') ?w2 = Inr ((out, None), w')"
      using body False by (auto simp: xseq_Inr xbind_Inr)
    from run_template_effect [OF this]
    have "so_error (fst (sh_run (xe_shells e) (ss_conn (xw_sessions w s)) (export_command name v') [] 1000 (xw_shell w))) = None"
      and w': "xw_shell w' = snd (sh_run (xe_shells e) (ss_conn (xw_sessions w s)) (export_command name v') [] 1000 (xw_shell w))"
        "xw_sessions w' = xw_sessions ?w2"
      using frame by auto
    with law plain(1) setting
    have "senv (ss_conn (xw_sessions w s)) (xw_shell w') = (senv (ss_conn (xw_sessions w s)) (xw_shell w))(name := Some (trim_space v'))"
      by (simp add: exports_variables_def)
    then show ?thesis using agrees w'(2) frame by (auto simp: env_agrees_def mhas_iff)
  qed
qed

lemma set_env_variable_keeps:
  assumes "set_env_variable e c s name v w = Inr (r, w')" "mhas (ss_env (xw_sessions w s)) k"
  shows "mhas (ss_env (xw_sessions w' s)) k"
proof -
  obtain v' w1 where w1: "xw_sessions w1 = xw_sessions w"
    and body: "(if mget (ss_env (xw_sessions w1 s)) name = Some v' then xret None
      else xseq (on_session s (\<lambda>x. x\<lparr>ss_env := mput name v' (ss_env x)\<rparr>))
             (xbind (run_template e c s (export_command name v')) (\<lambda>r. xret (snd r)))) w1 = Inr (r, w')"
    using assms(1) unfolding set_env_variable_def expand_in_def by (auto simp: xbind_Inr dest!: xlift_frame)
  show ?thesis
  proof (cases "mget (ss_env (xw_sessions w1 s)) name = Some v'")
    case False
    then show ?thesis
      using body assms(2) w1 by (auto simp: xseq_Inr xbind_Inr mhas_mput dest!: run_template_effect)
  qed (use body assms(2) w1 in simp)
qed

lemma set_env_variables_keep:
  "set_env_variables e c s kvs w = Inr (r, w') \<Longrightarrow> mhas (ss_env (xw_sessions w s)) k \<Longrightarrow>
     mhas (ss_env (xw_sessions w' s)) k"
proof (induction kvs arbitrary: w)
  case (Cons kv kvs)
  then show ?case
    by (cases kv) (auto simp: xbind_Inr split: if_splits dest: set_env_variable_keeps)
qed simp


text \<open>A shell that knows \<open>export\<close>; its state is the environment of every connection.\<close>

definition shell0_run ::
  "nat \<Rightarrow> string \<Rightarrow> string list \<Rightarrow> int \<Rightarrow> (nat \<Rightarrow> (string \<times> string) list)
     \<Rightarrow> shell_output \<times> (nat \<Rightarrow> (string \<times> string) list)" where
  "shell0_run k command ts ms sh =
     (let out = \<lparr>so_text = [], so_parts = [], so_code = 0, so_error = None\<rparr>
      in if has_prefix command ''export ''
         then (let kv = drop 7 command; name = takeWhile (\<lambda>ch. ch \<noteq> CHR ''='') kv;
                   v = trim_set [char_of (39::nat)] (tl (dropWhile (\<lambda>ch. ch \<noteq> CHR ''='') kv))
               in (out, sh(k := mput name v (sh k))))
         else (out, sh))"

definition shell0 :: "(nat \<Rightarrow> (string \<times> string) list) shells" where
  "shell0 = \<lparr>sh_open = (\<lambda>k sh. (Inr 0, sh)), sh_run = shell0_run,
     sh_facts = (\<lambda>k sh. \<lparr>sf_user = ''me'', sf_arch = [], sf_system = [], sf_name = [], sf_hardware = [], sf_architecture = []\<rparr>),
     sh_close = (\<lambda>k sh. sh)\<rparr>"

definition exec_env0 :: "(nat \<Rightarrow> (string \<times> string) list) exec_env" where
  "exec_env0 = \<lparr>xe_engine = env0, xe_shells = shell0, xe_parents = [], xe_user = (\<lambda>s. None), xe_config = (\<lambda>s. None),
     xe_secrets = (\<lambda>s m. Inr s), xe_reveal = False, xe_clone_map = (\<lambda>a h. alloc (cell h a) h)\<rparr>"

definition exec_world0 :: "(nat \<Rightarrow> (string \<times> string) list) exec_world" where
  "exec_world0 = \<lparr>xw_world = session_world, xw_table = [(''@h'', 0)], xw_sessions = (\<lambda>s. new_session ''@h'' 0),
     xw_next = 1, xw_shell = (\<lambda>k. [])\<rparr>"

lemma shell0_exports: "exports_variables (xe_shells exec_env0) (\<lambda>k sh n. mget (sh k) n)"
proof -
  have "shell0_run k (export_command name v) ts ms sh =
      (\<lparr>so_text = [], so_parts = [], so_code = 0, so_error = None\<rparr>, sh(k := mput name (trim_space v) (sh k)))"
    if name: "plain_variable name" and v: "plain_setting v" for k name v ts ms and sh :: "nat \<Rightarrow> (string \<times> string) list"
  proof -
    let ?q = "char_of (39::nat) :: char"
    have quote: "?q = CHR 0x27" by code_simp
    have noq: "?q \<notin> set (trim_space v)"
      using v trim_space_subset [of v] by (fastforce simp: plain_setting_def quote is_letter_def is_digit_def)
    have noeq: "\<forall>ch\<in>set name. ch \<noteq> CHR ''=''"
      using name by (auto simp: plain_variable_def is_letter_def is_digit_def)
    have drop_quote: "dropWhile (\<lambda>c. c = ?q) xs = xs" if "?q \<notin> set xs" for xs
      using that by (cases xs) auto
    have bare: "trim_set [?q] (trim_space v) = trim_space v"
      using noq by (simp add: trim_set_def drop_quote)
    have quoted: "trim_set [?q] (?q # trim_space v @ [?q]) = trim_space v"
    proof (cases "trim_space v")
      case (Cons ch t)
      then show ?thesis using noq drop_quote [of "rev (ch # t)"] by (auto simp: trim_set_def)
    qed (simp add: trim_set_def)
    obtain t where t: "export_command name v = ''export '' @ name @ CHR ''='' # t" "trim_set [?q] t = trim_space v"
      using bare quoted by (cases "contains (trim_space v) '' ''") (auto simp: export_command_def Let_def)
    have "takeWhile (\<lambda>ch. ch \<noteq> CHR ''='') (name @ CHR ''='' # t) = name"
      "dropWhile (\<lambda>ch. ch \<noteq> CHR ''='') (name @ CHR ''='' # t) = CHR ''='' # t"
      using noeq by (simp_all add: takeWhile_append2 dropWhile_append2)
    then show ?thesis using t(2) unfolding t(1) by (simp add: shell0_run_def has_prefix_def Let_def)
  qed
  then show ?thesis by (simp add: exports_variables_def exec_env0_def shell0_def fun_eq_iff)
qed


section \<open>Directories\<close>

lemma path_split_slash: "CHR ''/'' \<notin> set name \<Longrightarrow> path_split (p @ CHR ''/'' # name) = (p @ ''/'', name)"
  by (simp add: path_split_def last_index_char_append)

lemma path_split_no_slash: "CHR ''/'' \<notin> set name \<Longrightarrow> path_split name = ([], name)"
  using last_index_char_None [of name "CHR ''/''"] by (simp add: path_split_def)

lemma path_ext_rev_dotted: "CHR ''/'' \<notin> set cs \<Longrightarrow> CHR ''.'' \<in> set cs \<Longrightarrow> path_ext_rev cs acc \<noteq> []"
  by (induction cs arbitrary: acc) auto

lemma path_ext_rev_undotted: "CHR ''.'' \<notin> set cs \<Longrightarrow> path_ext_rev cs acc = []"
  by (induction cs arbitrary: acc) auto

lemma path_ext_dotted: "CHR ''/'' \<notin> set name \<Longrightarrow> CHR ''.'' \<in> set name \<Longrightarrow> path_ext name \<noteq> []"
  by (simp add: path_ext_def path_ext_rev_dotted)

lemma path_ext_undotted: "CHR ''.'' \<notin> set name \<Longrightarrow> path_ext name = []"
  by (simp add: path_ext_def path_ext_rev_undotted)

lemma directory_of_dotted:
  assumes "CHR ''/'' \<notin> set name" "CHR ''.'' \<in> set name"
  shows "directory_of (p @ ''/'' @ name) = (if p = [] then ''/'' else p)" "directory_of name = []"
  using assms
  by (auto simp: directory_of_def path_split_slash path_split_no_slash path_ext_dotted has_suffix_def butlast_append)

lemma directory_of_plain:
  assumes "CHR ''.'' \<notin> set p" "\<not> has_suffix p ''/''"
  shows "directory_of p = p"
proof -
  have "set (snd (path_split p)) \<subseteq> set p" using path_split_append [of p] by (metis Un_upper2 set_append)
  then have "path_ext (snd (path_split p)) = []" using assms(1) by (intro path_ext_undotted) blast
  moreover obtain parent name where "path_split p = (parent, name)" by fastforce
  ultimately show ?thesis using assms(2) by (simp add: directory_of_def)
qed

text \<open>
  A name with a dot is always taken for a file: changing to a directory with a dot in its
  name changes to its parent instead, and changing to \<open>..\<close> is changing to nothing - no command
  reaches the shell when no directory is remembered.
\<close>

theorem dotted_directory_is_not_entered:
  assumes "CHR ''/'' \<notin> set name" "CHR ''.'' \<in> set name"
    and "p \<noteq> []" "CHR ''.'' \<notin> set p" "\<not> has_suffix p ''/''"
  shows "change_directory e c s (p @ ''/'' @ name) = change_directory e c s p \<and>
    (ss_dir (xw_sessions w s) = [] \<longrightarrow> change_directory e c s ''..'' w = Inr (([], None), w))"
proof (intro conjI impI)
  have "directory_of (p @ ''/'' @ name) = p" using directory_of_dotted(1) [OF assms(1,2)] assms(3) by simp
  then show "change_directory e c s (p @ ''/'' @ name) = change_directory e c s p"
    using assms(3) directory_of_plain [OF assms(4,5)] by (simp add: change_directory_def)
next
  assume "ss_dir (xw_sessions w s) = []"
  moreover have "directory_of ''..'' = []" by (rule directory_of_dotted(2)) simp_all
  ultimately show "change_directory e c s ''..'' w = Inr (([], None), w)"
    by (simp add: change_directory_def exec_defs)
qed

lemma dotted_directory_is_not_entered_witness:
  "change_directory exec_env0 0 0 (''/opt'' @ ''/'' @ ''app-1.2'') = change_directory exec_env0 0 0 ''/opt'' \<and>
   change_directory exec_env0 0 0 ''..'' exec_world0 = Inr (([], None), exec_world0)"
proof -
  have "\<not> has_suffix ''/opt'' ''/''" by code_simp
  moreover have "ss_dir (xw_sessions exec_world0 0) = []" by (simp add: exec_world0_def new_session_def)
  ultimately show ?thesis
    using dotted_directory_is_not_entered [of "''app-1.2''" "''/opt''" exec_env0 0 0 exec_world0] by simp
qed

section \<open>Errors of a super user\<close>

definition erase_error :: "shell_output \<Rightarrow> shell_output" where
  "erase_error r = r\<lparr>so_error := None\<rparr>"

definition without_errors :: "'sh exec_env \<Rightarrow> 'sh exec_env" where
  "without_errors e = e\<lparr>xe_shells := (xe_shells e)\<lparr>sh_run :=
     (\<lambda>k command ts ms sh. apfst erase_error (sh_run (xe_shells e) k command ts ms sh))\<rparr>\<rparr>"

lemma without_errors_fields [simp]:
  "xe_engine (without_errors e) = xe_engine e" "xe_secrets (without_errors e) = xe_secrets e"
  "xe_reveal (without_errors e) = xe_reveal e" "xe_clone_map (without_errors e) = xe_clone_map e"
  "sh_facts (xe_shells (without_errors e)) = sh_facts (xe_shells e)"
  by (simp_all add: without_errors_def)

lemma erase_error_fields [simp]:
  "so_text (erase_error r) = so_text r" "so_parts (erase_error r) = so_parts r" "so_code (erase_error r) = so_code r"
  by (simp_all add: erase_error_def)

lemma shell_run_without_errors:
  "shell_run (without_errors e) s command ts ms = xbind (shell_run e s command ts ms) (\<lambda>r. xret (erase_error r))"
  by (rule ext) (simp add: shell_run_def without_errors_def xbind_def xret_def Let_def split: prod.splits)

lemmas same_without_errors =
  update_system_def chosen_command_def execution_state_def expand_in_def expanded_command_def listened_def
  auth_super_user_def finish_command_def

lemma run_listened_without_errors:
  "run_listened (without_errors e) c s retry auto_sudo command ts ms =
     xbind (run_listened e c s retry auto_sudo command ts ms) (\<lambda>r. xret (erase_error r))"
  by (simp add: run_listened_def shell_run_without_errors xbind_assoc xseq_def listened_def)

lemma run_command_without_errors:
  "run_command (without_errors e) c s opts x secured insecure ts =
     xbind (run_command e c s opts x secured insecure ts) (\<lambda>(r, b). xret (erase_error r, b))"
proof -
  have "retry_with_sudo (without_errors e) c s command ts ms =
      xbind (retry_with_sudo e c s command ts ms) (\<lambda>r. xret (erase_error r))" for command ts ms
    by (simp add: retry_with_sudo_def run_listened_without_errors xbind_assoc)
  then show ?thesis
    by (simp add: run_command_def run_listened_without_errors xbind_assoc if_distrib [of "\<lambda>m. xbind m f" for f] cong: if_cong)
qed

lemma execute_expanded_without_errors:
  "execute_expanded (without_errors e) again c s target opts x command True rs =
     execute_expanded e again c s target opts x command True rs"
proof -
  have same: "auth_super_user (without_errors e) = auth_super_user e" "finish_command (without_errors e) = finish_command e"
    unfolding fun_eq_iff same_without_errors without_errors_fields by simp_all
  have erased: "finish_command e c opts x shown (erase_error r) None rs = finish_command e c opts x shown r None rs"
    for shown r rs by (simp add: finish_command_def)
  have always: "(True \<or> b) = True" for b by simp
  show ?thesis
    unfolding execute_expanded_def run_command_without_errors without_errors_fields xbind_assoc split_def xbind_ret
      fst_conv snd_conv same always if_True erase_error_fields erased ..
qed

text \<open>
  When the commands run as a super user, the errors of the shell - a time out, a lost
  connection - are not seen: the outcome of every command is the same as with a shell that never
  reports an error, because the error is overwritten by the one of the password prompt.
\<close>

theorem super_user_errors_are_lost:
  assumes "eo_super opts"
  shows "execute_command (without_errors e) n c s target opts x rs = execute_command e n c s target opts x rs"
proof (induction n arbitrary: x rs)
  case (Suc n)
  have IH: "execute_command (without_errors e) n c s target opts = execute_command e n c s target opts"
    by (rule ext, rule ext, rule Suc)
  have same: "update_system (without_errors e) = update_system e" "chosen_command (without_errors e) = chosen_command e"
    "expand_in (without_errors e) = expand_in e" "expanded_command (without_errors e) = expanded_command e"
    unfolding fun_eq_iff same_without_errors without_errors_fields by simp_all
  have super: "is_super_command opts command = True" for command using assms by (simp add: is_super_command_def)
  show ?case
    unfolding execute_command.simps execute_step_def IH same super execute_expanded_without_errors ..
qed simp

definition broken_shell :: "(nat \<Rightarrow> (string \<times> string) list) exec_env" where
  "broken_shell = exec_env0\<lparr>xe_shells := shell0\<lparr>sh_run := (\<lambda>k command ts ms sh.
     (\<lparr>so_text = [], so_parts = [], so_code = 0, so_error = Some (PlainErr ''connection lost'')\<rparr>, sh))\<rparr>\<rparr>"

lemma super_user_errors_are_lost_witness:
  "eo_super (default_options\<lparr>eo_super := True\<rparr>) \<and>
   execute_command (without_errors broken_shell) 1 0 0 default_target (default_options\<lparr>eo_super := True\<rparr>)
     (new_extract_command ''reboot'' [] [] [] []) \<lparr>rs_response = \<lparr>rr_session = [], rr_cmd = [], rr_output = [], rr_data = 0\<rparr>, rs_secrets = []\<rparr> =
   execute_command broken_shell 1 0 0 default_target (default_options\<lparr>eo_super := True\<rparr>)
     (new_extract_command ''reboot'' [] [] [] []) \<lparr>rs_response = \<lparr>rr_session = [], rr_cmd = [], rr_output = [], rr_data = 0\<rparr>, rs_secrets = []\<rparr>"
  by (intro conjI super_user_errors_are_lost) simp_all

end
