(* ===== verification/Exec_Prompts.thy ===== *)
theory Exec_Prompts
  imports Exec_Props
begin

text \<open>
  The prompts for a password: executing a command returns when the shell asks only so many times,
  and it does not when the shell refuses every password.
\<close>

section \<open>Computations that need no fuel\<close>

definition settles :: "'a m \<Rightarrow> bool" where
  "settles m \<longleftrightarrow> (\<forall>w. m w \<noteq> Inl OutOfFuel)"

named_theorems settling

lemma settles_intros [settling]:
  "settles (mret x)" "settles mget_world" "settles (mupdate f)" "settles (mcrash s)" "settles (new_map m)"
  "settles (on_heap hf)" "settles (on_ctx c g)"
  by (simp_all add: settles_def mret_def mget_world_def mupdate_def mcrash_def new_map_def on_heap_def on_ctx_def
      split: prod.splits)

lemma settles_bind [settling]: "settles m \<Longrightarrow> (\<And>x. settles (f x)) \<Longrightarrow> settles (mbind m f)"
  by (simp add: settles_def mbind_def split: sum.splits prod.splits) (metis sum.inject(1))

lemma settles_seq [settling]: "settles m \<Longrightarrow> settles n \<Longrightarrow> settles (mseq m n)"
  unfolding mseq_def by (rule settles_bind)

lemma settles_publish [settling]: "settles (publish c v)" "settles (publish_with_start c v start)"
  by (simp_all add: settles_def publish_def publish_event_def publish_with_start_def deliver_def split: option.splits)

lemma settles_state [settling]: "settles (get_state e c)" "settles (ctx_expand tb ds c s)"
proof -
  have "settles (ctx_state ds c)" for ds
    unfolding settles_def
  proof
    fix w
    show "ctx_state ds c w \<noteq> Inl OutOfFuel"
      by (cases "cx_state (wd_ctxs w c)")
        (simp_all add: ctx_state_def mbind_def mseq_def mret_def on_ctx_def mupdate_def new_map_def split: prod.splits)
  qed
  then show "settles (get_state e c)" "settles (ctx_expand tb ds c s)"
    by (auto simp: get_state_def ctx_expand_def settles_def mbind_def split: sum.splits)
qed

lemma settles_lift [settling]: "settles (mlift r)"
  by (simp add: settles_def mlift_def mcrash_def mret_def split: sum.splits go_error.splits)

lemma settles_eval [settling]: "settles (eval_criteria e c st expr ty def)"
proof -
  have "settles (case p of (r, ev) \<Rightarrow> mbind (mlift r) (\<lambda>r. case ev of None \<Rightarrow> mret r | Some v \<Rightarrow> mseq (publish c (EvEval v)) (mret r)))"
    for p :: "(go_error + bool) \<times> eval_event option"
    by (cases p; cases "snd p") (auto intro!: settling)
  then show ?thesis unfolding eval_criteria_def by (intro settling) simp
qed

lemma settles_match [settling]: "settles (match_expression e c rx line x a)"
  by (auto simp: match_expression_def Let_def intro!: settling split: option.splits)

lemma settles_lines [settling]: "settles (match_lines e c rx x a ls matched)"
  by (induction ls arbitrary: matched) (auto intro!: settling)

lemma settles_all [settling]: "settles (extract_all e c xs inputs a)"
proof (induction xs)
  case (Cons x xs)
  then show ?case by (auto simp: Let_def intro!: settling split: sum.splits)
qed (simp add: settling)

lemma settles_extract [settling]: "settles (extract_lines e c xs a inputs)"
  by (auto simp: extract_lines_def intro!: settling)

section \<open>Shells that ask a bounded number of times\<close>

text \<open>\<open>prompts\<close> bounds the prompts to come: an output with a prompt uses one up.\<close>

definition asks_at_most :: "'sh exec_env \<Rightarrow> ('sh \<Rightarrow> nat) \<Rightarrow> bool" where
  "asks_at_most e prompts \<longleftrightarrow>
     (\<forall>k command ts ms sh.
        (let (r, sh') = sh_run (xe_shells e) k command ts ms sh
         in if escaped_contains (en_io (xe_engine e)) (so_text r) ''Password'' then prompts sh' < prompts sh
            else prompts sh' \<le> prompts sh))"

text \<open>A computation that does not run out of fuel and uses up no prompt that it does not report.\<close>

definition calm :: "('sh \<Rightarrow> nat) \<Rightarrow> ('sh, 'a) xm \<Rightarrow> bool" where
  "calm prompts m \<longleftrightarrow>
     (\<forall>w. case m w of Inl st \<Rightarrow> st \<noteq> OutOfFuel | Inr (x, w') \<Rightarrow> prompts (xw_shell w') \<le> prompts (xw_shell w))"

lemma calmI:
  "(\<And>w. m w \<noteq> Inl OutOfFuel) \<Longrightarrow>
     (\<And>w x w'. m w = Inr (x, w') \<Longrightarrow> p (xw_shell w') \<le> p (xw_shell w)) \<Longrightarrow> calm p m"
  by (auto simp: calm_def split: sum.splits)

lemma calmD:
  "calm p m \<Longrightarrow> m w \<noteq> Inl OutOfFuel" "calm p m \<Longrightarrow> m w = Inr (x, w') \<Longrightarrow> p (xw_shell w') \<le> p (xw_shell w)"
  by (auto simp: calm_def split: sum.splits dest!: spec [of _ w])

named_theorems calming

lemma calm_intros [calming]:
  "calm p (xret x)" "calm p (xget f)" "calm p (the_session s)" "calm p (on_session s g)"
  by (simp_all add: calm_def exec_defs)

lemma calm_lift [calming]: "settles m \<Longrightarrow> calm p (xlift m)"
  by (simp add: calm_def xlift_def settles_def split: sum.splits prod.splits) metis

lemma calm_bind [calming]: "calm p m \<Longrightarrow> (\<And>x. calm p (f x)) \<Longrightarrow> calm p (xbind m f)"
  by (fastforce simp: calm_def xbind_def split: sum.splits prod.splits intro: order_trans)

lemma calm_seq [calming]: "calm p m \<Longrightarrow> calm p n \<Longrightarrow> calm p (xseq m n)"
  unfolding xseq_def by (rule calm_bind)

lemma calm_try [calming]: "calm p m \<Longrightarrow> (\<And>x. calm p (f x)) \<Longrightarrow> calm p (xtry m f)"
  unfolding xtry_def by (rule calm_bind) (auto intro: calming split: sum.splits)

lemma calm_execution_state [calming]: "calm p (execution_state e c resp)"
  unfolding execution_state_def Let_def
  by (intro calming settling) (auto intro!: settling split: prod.splits)

lemma calm_pieces [calming]:
  "calm p (update_system e c s)" "calm p (chosen_command e c x resp)" "calm p (expand_in e c text)"
  "calm p (expanded_command e c text resp)" "calm p (finish_command e c opts x secured r err rs)"
  unfolding update_system_def chosen_command_def expand_in_def expanded_command_def finish_command_def Let_def
  by (auto intro!: calming settling split: option.splits)

lemma calm_listened [calming]: "calm p (listened e c sid retry auto_sudo parts)"
proof -
  have one: "calm p (if b then xret () else xseq (xlift (publish c v)) (xret ()))" for b v
    by (cases b) (simp_all add: calming settling)
  have "calm p m \<Longrightarrow> calm p (fold (\<lambda>part m. xseq m
         (if (\<not> retry \<and> auto_sudo \<and> \<not> is_permitted [part]) \<or> part = [] then xret ()
          else xseq (xlift (publish c (EvStdout sid part))) (xret ()))) parts m)" for m
    by (induction parts arbitrary: m) (simp_all only: fold_simps id_apply o_apply fold.simps calm_seq one)
  then show ?thesis unfolding listened_def by (simp add: calming)
qed

text \<open>The output of a run tells whether a prompt was used up.\<close>

definition uses_up :: "storage \<Rightarrow> string \<Rightarrow> nat \<Rightarrow> nat \<Rightarrow> bool" where
  "uses_up io text after before \<longleftrightarrow>
     after \<le> before \<and> (escaped_contains io text ''Password'' \<longrightarrow> after < before)"

definition reports :: "storage \<Rightarrow> ('sh \<Rightarrow> nat) \<Rightarrow> ('r \<Rightarrow> shell_output) \<Rightarrow> ('sh, 'r) xm \<Rightarrow> bool" where
  "reports io p out m \<longleftrightarrow>
     (\<forall>w. case m w of Inl st \<Rightarrow> st \<noteq> OutOfFuel
        | Inr (r, w') \<Rightarrow> uses_up io (so_text (out r)) (p (xw_shell w')) (p (xw_shell w)))"

lemma reportsI:
  "(\<And>w. m w \<noteq> Inl OutOfFuel) \<Longrightarrow>
     (\<And>w r w'. m w = Inr (r, w') \<Longrightarrow> uses_up io (so_text (out r)) (p (xw_shell w')) (p (xw_shell w))) \<Longrightarrow>
     reports io p out m"
  by (auto simp: reports_def split: sum.splits)

lemma reportsD:
  "reports io p out m \<Longrightarrow> m w \<noteq> Inl OutOfFuel"
  "reports io p out m \<Longrightarrow> m w = Inr (r, w') \<Longrightarrow> uses_up io (so_text (out r)) (p (xw_shell w')) (p (xw_shell w))"
  by (auto simp: reports_def split: sum.splits dest!: spec [of _ w])

lemma reports_run:
  assumes "asks_at_most (e :: 'a exec_env) p"
  shows "reports (en_io (xe_engine e)) p id (shell_run e s command ts ms)"
  unfolding reports_def
proof
  fix w :: "'a exec_world"
  obtain r sh where "sh_run (xe_shells e) (ss_conn (xw_sessions w s)) command ts ms (xw_shell w) = (r, sh)"
    by fastforce
  moreover from this have "if escaped_contains (en_io (xe_engine e)) (so_text r) ''Password''
      then p sh < p (xw_shell w) else p sh \<le> p (xw_shell w)"
    using assms [unfolded asks_at_most_def, rule_format, of "ss_conn (xw_sessions w s)" command ts ms "xw_shell w"]
    by simp
  ultimately show "case shell_run e s command ts ms w of Inl st \<Rightarrow> st \<noteq> OutOfFuel
      | Inr (r, w') \<Rightarrow> uses_up (en_io (xe_engine e)) (so_text (id r)) (p (xw_shell w')) (p (xw_shell w))"
    by (auto simp: shell_run_def uses_up_def split: if_splits)
qed

lemma reports_after:
  assumes "calm p m" "\<And>x. reports io p out (f x)"
  shows "reports io p out (xbind m f)"
proof (rule reportsI)
  fix w
  show "xbind m f w \<noteq> Inl OutOfFuel" using calmD(1) [OF assms(1)] reportsD(1) [OF assms(2)] by (simp add: xbind_Inl)
  fix r w'
  assume "xbind m f w = Inr (r, w')"
  then obtain x w1 where step: "m w = Inr (x, w1)" "f x w1 = Inr (r, w')" by (auto simp: xbind_Inr)
  show "uses_up io (so_text (out r)) (p (xw_shell w')) (p (xw_shell w))"
    using calmD(2) [OF assms(1) step(1)] reportsD(2) [OF assms(2) step(2)] by (auto simp: uses_up_def)
qed

lemma reports_then:
  assumes "reports io p out m" "\<And>r. calm p (g r)"
  shows "reports io p out (xbind m (\<lambda>r. xseq (g r) (xret r)))"
proof (rule reportsI)
  fix w
  show "xbind m (\<lambda>r. xseq (g r) (xret r)) w \<noteq> Inl OutOfFuel"
    using reportsD(1) [OF assms(1)] calmD(1) [OF assms(2)] by (simp add: xbind_Inl xseq_def xret_def)
  fix r w'
  assume "xbind m (\<lambda>r. xseq (g r) (xret r)) w = Inr (r, w')"
  then obtain w1 y where step: "m w = Inr (r, w1)" "g r w1 = Inr (y, w')" by (auto simp: xbind_Inr xseq_Inr)
  show "uses_up io (so_text (out r)) (p (xw_shell w')) (p (xw_shell w))"
    using calmD(2) [OF assms(2) step(2)] reportsD(2) [OF assms(1) step(1)] by (auto simp: uses_up_def)
qed

lemma reports_listened:
  assumes "asks_at_most e p"
  shows "reports (en_io (xe_engine e)) p id (run_listened e c s retry auto_sudo command ts ms)"
proof -
  have "run_listened e c s retry auto_sudo command ts ms =
      xbind (shell_run e s command ts ms) (\<lambda>r. xseq (xbind (the_session s) (\<lambda>x. listened e c (ss_id x) retry auto_sudo (so_parts r))) (xret r))"
    by (simp add: run_listened_def xseq_def xbind_assoc)
  then show ?thesis by (simp only:) (intro reports_then reports_run assms calming)
qed

lemma reports_command:
  assumes "asks_at_most e p"
  shows "reports (en_io (xe_engine e)) p fst (run_command e c s opts x secured insecure ts)"
proof -
  let ?io = "en_io (xe_engine e)"
  have retry: "reports ?io p id (retry_with_sudo e c s command ts ms)" for command ts ms
    unfolding retry_with_sudo_def by (intro reports_after calming reports_listened assms)
  have second: "reports ?io p fst (xbind (retry_with_sudo e c s command ts ms) (\<lambda>r. xret (r, True)))" for command ts ms
    using reportsD [OF retry] by (intro reportsI) (fastforce simp: xbind_Inl xbind_Inr xret_def)+
  have either: "reports ?io p fst (xbind m (\<lambda>r. xbind (the_session s) (\<lambda>ses. if q r ses then m' else xret (r, False))))"
    if m: "reports ?io p id m" and m': "reports ?io p fst m'" for m m' and q :: "shell_output \<Rightarrow> shell_session \<Rightarrow> bool"
  proof (rule reportsI)
    fix w
    let ?run = "xbind m (\<lambda>r. xbind (the_session s) (\<lambda>ses. if q r ses then m' else xret (r, False)))"
    show "?run w \<noteq> Inl OutOfFuel"
      using reportsD(1) [OF m] reportsD(1) [OF m'] by (auto simp: xbind_Inl the_session_def xget_def xret_def split: if_splits)
    fix r w'
    assume "?run w = Inr (r, w')"
    then obtain x w1 where first: "m w = Inr (x, w1)"
      and rest: "(if q x (xw_sessions w1 s) then m' else xret (x, False)) w1 = Inr (r, w')"
      by (auto simp: xbind_Inr)
    show "uses_up ?io (so_text (fst r)) (p (xw_shell w')) (p (xw_shell w))"
      using reportsD(2) [OF m first] rest reportsD(2) [OF m', of w1 r w']
      by (cases "q x (xw_sessions w1 s)") (auto simp: uses_up_def)
  qed
  show ?thesis
    unfolding run_command_def by (intro either second reports_listened assms)
qed

lemma calm_returns: "calm p m \<Longrightarrow> m w \<noteq> Inl OutOfFuel"
  by (auto simp: calm_def split: sum.splits dest!: spec [of _ w])

lemma calm_then:
  assumes "calm p m" "p (xw_shell w) < k" "\<And>x w'. p (xw_shell w') < k \<Longrightarrow> f x w' \<noteq> Inl OutOfFuel"
  shows "xbind m f w \<noteq> Inl OutOfFuel"
proof (rule xbind_returns)
  show "m w \<noteq> Inl OutOfFuel" using assms(1) by (rule calm_returns)
  show "f x w' \<noteq> Inl OutOfFuel" if "m w = Inr (x, w')" for x w'
  proof (rule assms(3))
    show "p (xw_shell w') < k" using assms(1,2) that by (auto simp: calm_def split: sum.splits dest!: spec [of _ w])
  qed
qed

lemma auth_returns:
  assumes again: "\<And>x rs w. p (xw_shell w) < n \<Longrightarrow> again x rs w \<noteq> Inl OutOfFuel"
    and "uses_up (en_io (xe_engine e)) stdout (p (xw_shell w)) k" "k \<le> n"
  shows "auth_super_user e again s target stdout rs w \<noteq> Inl OutOfFuel"
proof (cases "password_asked (en_io (xe_engine e)) stdout (ss_super (xw_sessions w s))")
  case True
  then have "p (xw_shell w) < n" using assms(2,3) by (auto simp: uses_up_def password_asked_def)
  then show ?thesis using again True by (simp add: auth_super_user_def exec_defs)
qed (simp add: auth_super_user_def exec_defs)

lemma execute_expanded_returns:
  assumes again: "\<And>x rs w. p (xw_shell w) < n \<Longrightarrow> again x rs w \<noteq> Inl OutOfFuel"
    and asks: "asks_at_most e p" and le: "p (xw_shell w) \<le> n"
  shows "execute_expanded e again c s target opts x command super rs w \<noteq> Inl OutOfFuel"
proof -
  let ?io = "en_io (xe_engine e)"
  have finish: "finish_command e c opts x shown r err rs w1 \<noteq> Inl OutOfFuel" for shown r err rs w1
    by (rule calm_returns [where p = p], rule calming)
  have auth: "xtry (auth_super_user e again s target (so_text r) rs1) (finish_command e c opts x shown r None) w2 \<noteq> Inl OutOfFuel"
    if "uses_up ?io (so_text r) (p (xw_shell w2)) (p (xw_shell w))" for r rs1 shown w2
    unfolding xtry_def
    using auth_returns [of p n again e "so_text r" w2, OF again that le] finish
    by (intro xbind_returns) (auto simp: xret_def split: sum.splits)
  have tail: "xseq (xlift (publish c v)) (xbind (run_command e c s opts x shown insecure ts) (\<lambda>(r, retried).
        if super \<or> retried then xtry (auth_super_user e again s target (so_text r) rs1) (finish_command e c opts x shown r None)
        else finish_command e c opts x shown r (so_error r) rs1)) w \<noteq> Inl OutOfFuel" for v shown insecure ts rs1
    unfolding xseq_def
  proof (rule xbind_returns)
    show "xlift (publish c v) w \<noteq> Inl OutOfFuel" by (rule calm_returns) (intro calming settling)
    fix y w1 assume "xlift (publish c v) w = Inr (y, w1)"
    then have shell: "xw_shell w1 = xw_shell w" by (auto dest: xlift_frame)
    show "xbind (run_command e c s opts x shown insecure ts) (\<lambda>(r, retried).
        if super \<or> retried then xtry (auth_super_user e again s target (so_text r) rs1) (finish_command e c opts x shown r None)
        else finish_command e c opts x shown r (so_error r) rs1) w1 \<noteq> Inl OutOfFuel"
    proof (rule xbind_returns)
      show "run_command e c s opts x shown insecure ts w1 \<noteq> Inl OutOfFuel"
        by (rule reportsD(1) [OF reports_command [OF asks]])
      fix z w2 assume "run_command e c s opts x shown insecure ts w1 = Inr (z, w2)"
      then have "uses_up ?io (so_text (fst z)) (p (xw_shell w2)) (p (xw_shell w))"
        using reportsD(2) [OF reports_command [OF asks]] shell by metis
      then show "(case z of (r, retried) \<Rightarrow> if super \<or> retried
          then xtry (auth_super_user e again s target (so_text r) rs1) (finish_command e c opts x shown r None)
          else finish_command e c opts x shown r (so_error r) rs1) w2 \<noteq> Inl OutOfFuel"
        using auth finish by (cases z) simp
    qed
  qed
  show ?thesis
    unfolding execute_expanded_def Let_def
    by (rule xbind_returns) (use tail in \<open>auto simp: xret_def the_session_def xget_def split: sum.splits\<close>)
qed

lemma execute_step_returns:
  assumes again: "\<And>x rs w. p (xw_shell w) < n \<Longrightarrow> again x rs w \<noteq> Inl OutOfFuel"
    and asks: "asks_at_most (e :: 'a exec_env) p" and "p (xw_shell w) \<le> n"
  shows "execute_step e again c s target opts x rs w \<noteq> Inl OutOfFuel"
proof -
  have expanded: "execute_expanded e again c s target opts x command super rs w' \<noteq> Inl OutOfFuel"
    if "p (xw_shell w') < Suc n" for command super w'
    using execute_expanded_returns [OF again asks] that by simp
  have body: "(if trim_space command = [] then xret (Inr rs)
      else xbind (expand_in e c command) (\<lambda>secured. xbind (expanded_command e c secured (rs_response rs)) (\<lambda>text.
        execute_expanded e again c s target opts x (replace_all text ''${qMark}'' ''?'') (is_super_command opts secured) rs))) w'
      \<noteq> Inl OutOfFuel" if "p (xw_shell w') < Suc n" for command w'
  proof (cases "trim_space command = []")
    case False
    then show ?thesis
      using that by (simp del: not_less_eq) (intro calm_then [where p = p and k = "Suc n"] calming expanded)
  qed (simp add: xret_def)
  show ?thesis
    unfolding execute_step_def xseq_def
  proof (rule calm_then [where p = p and k = "Suc n"])
    show "calm p (update_system e c s)" by (rule calming)
    show "p (xw_shell w) < Suc n" using assms(3) by simp
    fix y and w1 :: "'a exec_world" assume "p (xw_shell w1) < Suc n"
    then show "xtry (chosen_command e c x (rs_response rs)) (\<lambda>command.
        if trim_space command = [] then xret (Inr rs)
        else xbind (expand_in e c command) (\<lambda>secured. xbind (expanded_command e c secured (rs_response rs)) (\<lambda>text.
          execute_expanded e again c s target opts x (replace_all text ''${qMark}'' ''?'') (is_super_command opts secured) rs))) w1
        \<noteq> Inl OutOfFuel"
      unfolding xtry_def
      by (rule calm_then [where p = p and k = "Suc n", rotated]) (auto simp: xret_def body split: sum.splits intro: calming)
  qed
qed

text \<open>
  C19: executing a command returns: when the shell asks for a password at most so many times, a
  fuel above that number is enough, whatever the command, its criteria, the options and the
  secrets are.
\<close>

theorem password_prompts_end:
  assumes "asks_at_most e prompts" "prompts (xw_shell w) < n"
  shows "execute_command e n c s target opts x rs w \<noteq> Inl OutOfFuel"
  using assms(2)
proof (induction n arbitrary: x rs w)
  case (Suc n)
  then show ?case
    using execute_step_returns [where n = n and w = w and p = prompts, OF Suc.IH assms(1)] by simp
qed simp

lemma password_prompts_end_witness:
  "asks_at_most exec_env0 (\<lambda>sh. 0) \<and>
   execute_command exec_env0 1 0 0 default_target default_options (new_extract_command ''sudo ls'' [] [] [] [])
      \<lparr>rs_response = \<lparr>rr_session = [], rr_cmd = [], rr_output = [], rr_data = 0\<rparr>, rs_secrets = []\<rparr> exec_world0 \<noteq> Inl OutOfFuel"
proof -
  have "\<not> escaped_contains (en_io (xe_engine exec_env0)) [] ''Password''" by code_simp
  then have "asks_at_most exec_env0 (\<lambda>sh. 0)"
    by (simp add: asks_at_most_def exec_env0_def shell0_def shell0_run_def Let_def split: prod.splits)
  then show ?thesis by (intro conjI password_prompts_end) simp_all
qed

end
