(* ===== verification/Storage_Rules.thy ===== *)
theory Storage_Rules
  imports Exec_Run Tags
begin

text \<open>
  service/system/storage: the transfer rules of the package copy, the requests of the storage
  service with their defaults and validation, and the file systems (viant/afs), which are
  parameters over the state of the outside world, the same that the shells work on.
\<close>

section \<open>File systems\<close>

record afs_object =
  ao_url :: string
  ao_dir :: bool
  ao_size :: nat

text \<open>
  \<open>af_copy\<close> gets the names that are copied and how a content is changed; \<open>af_init\<close> and
  \<open>af_options\<close> are the connection to a resource and its keys and credentials.
\<close>

record 'sh afs =
  af_init :: "resource \<Rightarrow> 'sh \<Rightarrow> go_error option \<times> 'sh"
  af_options :: "resource \<Rightarrow> go_error option"
  af_exists :: "string \<Rightarrow> 'sh \<Rightarrow> go_error + bool"
  af_open :: "string \<Rightarrow> 'sh \<Rightarrow> go_error + string"
  af_object :: "string \<Rightarrow> 'sh \<Rightarrow> go_error + afs_object"
  af_list :: "string \<Rightarrow> bool \<Rightarrow> (afs_object \<Rightarrow> bool) \<Rightarrow> 'sh \<Rightarrow> go_error + afs_object list"
  af_upload :: "string \<Rightarrow> int \<Rightarrow> string \<Rightarrow> 'sh \<Rightarrow> go_error option \<times> 'sh"
  af_create :: "string \<Rightarrow> int \<Rightarrow> bool \<Rightarrow> string option \<Rightarrow> 'sh \<Rightarrow> go_error option \<times> 'sh"
  af_delete :: "string \<Rightarrow> 'sh \<Rightarrow> go_error option \<times> 'sh"
  af_copy :: "string \<Rightarrow> string \<Rightarrow> (afs_object \<Rightarrow> bool) \<Rightarrow> (afs_object \<Rightarrow> string \<Rightarrow> string) \<Rightarrow> 'sh
    \<Rightarrow> go_error option \<times> 'sh"

section \<open>Rules\<close>

text \<open>The matching of viant/afs and the time stamps of toolbox make an option of a matcher.\<close>

record asset_matcher =
  am_basic :: "(string \<times> string \<times> string \<times> bool option) option"
  am_before :: string
  am_after :: string

record matchers =
  mt_time :: "string \<Rightarrow> go_error + int"
  mt_basic :: "string \<times> string \<times> string \<times> bool option \<Rightarrow> go_error + (afs_object \<Rightarrow> bool)"
  mt_modified :: "int option \<Rightarrow> int option \<Rightarrow> afs_object \<Rightarrow> bool"

definition optional_time :: "matchers \<Rightarrow> string \<Rightarrow> go_error + int option" where
  "optional_time ms s = (if s = [] then Inr None else ebind (mt_time ms s) (\<lambda>t. Inr (Some t)))"

text \<open>A matcher without criteria has no handler.\<close>

definition matcher_handler :: "matchers \<Rightarrow> asset_matcher \<Rightarrow> go_error + (afs_object \<Rightarrow> bool) option" where
  "matcher_handler ms m =
     ebind (optional_time ms (am_after m)) (\<lambda>after.
     ebind (optional_time ms (am_before m)) (\<lambda>before.
     ebind (case am_basic m of None \<Rightarrow> Inr None | Some b \<Rightarrow> ebind (mt_basic ms b) (\<lambda>h. Inr (Some h))) (\<lambda>basic.
       if am_before m \<noteq> [] \<or> am_after m \<noteq> []
       then Inr (Some (\<lambda>ob. (case basic of None \<Rightarrow> True | Some h \<Rightarrow> h ob) \<and> mt_modified ms before after ob))
       else Inr basic)))"

record copy_rule =
  cr_matcher :: "asset_matcher option"
  cr_compress :: bool
  cr_expand :: bool
  cr_replace :: "(string \<times> string) list"
  cr_expand_if :: "asset_matcher option"
  cr_source :: "resource option"
  cr_dest :: "resource option"

definition new_rule ::
  "resource option \<Rightarrow> resource option \<Rightarrow> bool \<Rightarrow> bool \<Rightarrow> (string \<times> string) list \<Rightarrow> copy_rule" where
  "new_rule source dest compress expanding replace =
     \<lparr>cr_matcher = None, cr_compress = compress, cr_expand = expanding, cr_replace = replace, cr_expand_if = None,
      cr_source = source, cr_dest = dest\<rparr>"

definition has_url :: "string \<Rightarrow> resource option \<Rightarrow> go_error option" where
  "has_url name r =
     (case r of
        None \<Rightarrow> Some (PlainErr (name @ '' was empty''))
      | Some x \<Rightarrow> if r_url x = [] then Some (PlainErr (name @ ''.URL was empty'')) else None)"

definition validate_rule :: "copy_rule \<Rightarrow> go_error option" where
  "validate_rule r =
     (case has_url ''source'' (cr_source r) of Some err \<Rightarrow> Some err | None \<Rightarrow> has_url ''dest'' (cr_dest r))"

definition source_options :: "matchers \<Rightarrow> copy_rule \<Rightarrow> go_error + (afs_object \<Rightarrow> bool)" where
  "source_options ms r =
     (case cr_matcher r of
        None \<Rightarrow> Inr (\<lambda>_. True)
      | Some m \<Rightarrow> ebind (matcher_handler ms m) (\<lambda>h. Inr (case h of None \<Rightarrow> (\<lambda>_. True) | Some f \<Rightarrow> f)))"

section \<open>Substitution\<close>

text \<open>The replacements are made one after another, in the order in which the map is visited; the keys
  are not empty.\<close>

fun substitute :: "(string \<times> string) list \<Rightarrow> string \<Rightarrow> bool \<times> string" where
  "substitute [] s = (False, s)"
| "substitute ((k, v) # kvs) s =
     (if contains s k then (True, snd (substitute kvs (replace_all s k v))) else substitute kvs s)"

definition max_expandable :: nat where
  "max_expandable = 1024 * 128"

definition substitution_handler :: "matchers \<Rightarrow> asset_matcher option \<Rightarrow> go_error + (afs_object \<Rightarrow> bool)" where
  "substitution_handler ms m =
     (let small = (\<lambda>ob. ao_size ob < max_expandable)
      in case m of
           None \<Rightarrow> Inr small
         | Some x \<Rightarrow> ebind (matcher_handler ms x) (\<lambda>h. Inr (case h of None \<Rightarrow> small | Some f \<Rightarrow> f)))"

text \<open>The first hundred bytes must be printable; the last byte of a short content is not looked at.\<close>

definition can_expand :: "(string \<Rightarrow> bool) \<Rightarrow> string \<Rightarrow> bool" where
  "can_expand printable content \<longleftrightarrow>
     content \<noteq> [] \<and> printable (take (if length content \<le> 100 then length content - 1 else 100) content)"

definition modified_content ::
  "(string \<Rightarrow> bool) \<Rightarrow> (string \<Rightarrow> string) \<Rightarrow> bool \<Rightarrow> (string \<times> string) list \<Rightarrow> string \<Rightarrow> string" where
  "modified_content printable expand_with_state expanding replace content =
     (let s = (if expanding \<and> can_expand printable content then expand_with_state content else content)
      in snd (substitute replace s))"

definition rule_modifier ::
  "matchers \<Rightarrow> (string \<Rightarrow> bool) \<Rightarrow> (string \<Rightarrow> string) \<Rightarrow> copy_rule \<Rightarrow> go_error + (afs_object \<Rightarrow> string \<Rightarrow> string)" where
  "rule_modifier ms printable expand_with_state r =
     ebind (substitution_handler ms (cr_expand_if r)) (\<lambda>h.
       Inr (\<lambda>ob content. if h ob then modified_content printable expand_with_state (cr_expand r) (cr_replace r) content
                         else content))"

section \<open>Requests\<close>

text \<open>A location without a scheme is a file below the parent; another one stands for itself.\<close>

definition join_if_needed :: "urls \<Rightarrow> resource \<Rightarrow> string \<Rightarrow> resource" where
  "join_if_needed u parent uri =
     (if url_scheme u uri = ''file''
      then (if url_path u uri = res_path u parent then parent else res_join u uri parent)
      else new_resource uri [])"

definition at_root :: "urls \<Rightarrow> resource option \<Rightarrow> bool" where
  "at_root u r = (case r of None \<Rightarrow> False | Some x \<Rightarrow> res_path u x = ''/'')"

definition asset_rule :: "urls \<Rightarrow> copy_rule \<Rightarrow> string \<times> string \<Rightarrow> copy_rule" where
  "asset_rule u base = (\<lambda>(source, dest).
     let dest1 = (if dest = [] then source else dest);
         source2 = (if at_root u (cr_source base) \<and> r_url (the (cr_source base)) \<noteq> [] then url_path u source else source);
         dest2 = (if at_root u (cr_dest base) then url_path u dest1 else dest1)
     in \<lparr>cr_matcher = None, cr_compress = cr_compress base, cr_expand = cr_expand base, cr_replace = cr_replace base,
         cr_expand_if = cr_expand_if base,
         cr_source = Some (case cr_source base of None \<Rightarrow> new_resource source2 [] | Some b \<Rightarrow> join_if_needed u b source2),
         cr_dest = Some (case cr_dest base of None \<Rightarrow> new_resource dest2 [] | Some b \<Rightarrow> join_if_needed u b dest2)\<rparr>)"

definition as_transfers :: "urls \<Rightarrow> (string \<times> string) list \<Rightarrow> copy_rule \<Rightarrow> copy_rule list" where
  "as_transfers u assets base = map (asset_rule u base) assets"

record copy_request =
  cq_rule :: "copy_rule option"
  cq_assets :: "(string \<times> string) list"
  cq_transfers :: "copy_rule list"
  cq_udf :: string

definition empty_rule :: copy_rule where
  "empty_rule = new_rule None None False False []"

definition new_copy_request :: "(string \<times> string) list \<Rightarrow> copy_rule list \<Rightarrow> copy_request" where
  "new_copy_request assets transfers =
     \<lparr>cq_rule = (case transfers of [] \<Rightarrow> None | r # rs \<Rightarrow> Some r), cq_assets = assets, cq_transfers = tl transfers, cq_udf = []\<rparr>"

text \<open>The transfers of a request are below its source and destination, where it has them.\<close>

definition based_rule :: "urls \<Rightarrow> resource option \<Rightarrow> resource option \<Rightarrow> copy_rule \<Rightarrow> go_error + copy_rule" where
  "based_rule u source dest r =
     (let r1 = (case cr_source r of None \<Rightarrow> r
          | Some x \<Rightarrow> r\<lparr>cr_source := Some (join_if_needed u (case source of None \<Rightarrow> new_resource ''/'' [] | Some b \<Rightarrow> b) (r_url x))\<rparr>)
      in case cr_dest r1 of
           None \<Rightarrow> Inr r1
         | Some x \<Rightarrow>
             (case dest of
                Some b \<Rightarrow> Inr (r1\<lparr>cr_dest := Some (join_if_needed u b (r_url x))\<rparr>)
              | None \<Rightarrow>
                  if url_scheme u (r_url x) = ''file'' then Inl (Panicked ''nil pointer dereference'')
                  else Inr (r1\<lparr>cr_dest := Some (new_resource (r_url x) [])\<rparr>)))"

definition init_copy_request :: "urls \<Rightarrow> copy_request \<Rightarrow> go_error + copy_request" where
  "init_copy_request u q =
     (let base = (case cq_rule q of None \<Rightarrow> empty_rule | Some r \<Rightarrow> r);
          q1 = q\<lparr>cq_rule := Some base\<rparr>
      in if cq_transfers q \<noteq> [] then
           (if cr_source base = None \<and> cr_dest base = None then Inr q1
            else ebind (emap (based_rule u (cr_source base) (cr_dest base)) (cq_transfers q)) (\<lambda>rs.
                   Inr (q1\<lparr>cq_rule := Some (if cr_source base = None \<and> (\<exists>r\<in>set (cq_transfers q). cr_source r \<noteq> None)
                                          then base\<lparr>cr_source := Some (new_resource ''/'' [])\<rparr> else base),
                           cq_transfers := rs\<rparr>)))
         else if cq_assets q = [] then
           Inr (if cr_source base \<noteq> None \<and> cr_dest base \<noteq> None then q1\<lparr>cq_transfers := [base]\<rparr> else q1)
         else Inr (q1\<lparr>cq_transfers := as_transfers u (cq_assets q) base\<rparr>))"

definition validate_copy_request :: "copy_request \<Rightarrow> go_error option" where
  "validate_copy_request q =
     (if cq_transfers q = [] then Some (PlainErr ''transfers were empty'')
      else case find (\<lambda>r. validate_rule r \<noteq> None) (cq_transfers q) of None \<Rightarrow> None | Some r \<Rightarrow> validate_rule r)"

record upload_request =
  uq_source_key :: string
  uq_mode :: int
  uq_udf :: string
  uq_dest :: "resource option"

definition default_file_mode :: int where
  "default_file_mode = 420"

definition default_dir_mode :: int where
  "default_dir_mode = 493"

definition init_upload :: "upload_request \<Rightarrow> upload_request" where
  "init_upload q = (if uq_mode q = 0 then q\<lparr>uq_mode := default_file_mode\<rparr> else q)"

definition validate_upload :: "upload_request \<Rightarrow> go_error option" where
  "validate_upload q =
     (if uq_dest q = None then Some (PlainErr ''dest was empty'')
      else if uq_source_key q = [] then Some (PlainErr ''sourceKey was empty'') else None)"

record create_request =
  tq_source_key :: string
  tq_mode :: int
  tq_dir :: bool
  tq_dest :: "resource option"

definition init_create :: "create_request \<Rightarrow> create_request" where
  "init_create q =
     (if tq_mode q = 0 then q\<lparr>tq_mode := (if tq_dir q then default_dir_mode else default_file_mode)\<rparr> else q)"

definition validate_create :: "create_request \<Rightarrow> go_error option" where
  "validate_create q = (if tq_dest q = None then Some (PlainErr ''dest was empty'') else None)"

record download_request =
  dq_source :: "resource option"
  dq_dest_key :: string
  dq_udf :: string
  dq_expect :: "value"

definition validate_download :: "download_request \<Rightarrow> go_error option" where
  "validate_download q = (if dq_source q = None then Some (PlainErr ''source was empty'') else None)"

record generate_request =
  gq_template :: string
  gq_line :: string
  gq_lines :: int
  gq_size :: int
  gq_size_mb :: int
  gq_index :: int
  gq_variable :: string
  gq_mode :: int
  gq_dest :: "resource option"
  gq_count :: int
  gq_background :: bool

definition lorem :: string where
  "lorem = ''Lorem ipsum dolor sit amet, consectetur adipiscing elit, sed do eiusmod tempor incididunt ut labore et dolore magna aliqua.''"

definition init_generate :: "generate_request \<Rightarrow> generate_request" where
  "init_generate q =
     (let line = (if gq_template q = [] \<and> gq_line q = [] then lorem else gq_line q)
      in q\<lparr>gq_mode := (if gq_mode q = 0 then default_file_mode else gq_mode q), gq_line := line,
           gq_template := (if gq_template q = [] then line @ [char_of (10::nat)] else gq_template q),
           gq_size := (if gq_size q = 0 then 1024 * 1024 * gq_size_mb q else gq_size q)\<rparr>)"

definition file_number_expr :: string where
  "file_number_expr = ''$fileNo''"

definition validate_generate :: "generate_request \<Rightarrow> go_error option" where
  "validate_generate q =
     (case gq_dest q of
        None \<Rightarrow> Some (PlainErr ''dest was empty'')
      | Some d \<Rightarrow>
          if gq_size q = 0 \<and> gq_size_mb q = 0 \<and> gq_lines q = 0 then Some (PlainErr ''size was empty'')
          else if 1 < gq_count q \<and> \<not> contains (r_url d) file_number_expr
          then Some (PlainErr (''dest.URL is missing '' @ file_number_expr @ '' variable for multi file generation, '' @ r_url d))
          else None)"

end
