(* ===== verification/Storage_Service.thy ===== *)
theory Storage_Service
  imports Storage_Rules
begin

text \<open>
  service/system/storage: the operations of the storage service, in the monad of the command
  service, because the compression runs commands. The file systems, the matchers, the comparison
  of an expected value and the user defined functions are parameters. \<open>sv_afs\<close> gives the file
  systems, and the memory ones when the state says so. The bytes of a file are a text.
\<close>

record 'sh storage_env =
  sv_exec :: "'sh exec_env"
  sv_afs :: "bool \<Rightarrow> 'sh afs"
  sv_matchers :: matchers
  sv_printable :: "string \<Rightarrow> bool"
  sv_assert :: "value \<Rightarrow> value \<Rightarrow> go_error + value"
  sv_predefined :: "string \<Rightarrow> (value \<Rightarrow> go_error + value) option"
  sv_function :: "value \<Rightarrow> (value \<Rightarrow> go_error + value) option"
  sv_modifier :: "value \<Rightarrow> (string \<Rightarrow> string) option"

section \<open>Access\<close>

abbreviation sv_tb :: "'sh storage_env \<Rightarrow> toolbox" where
  "sv_tb e \<equiv> en_tb (xe_engine (sv_exec e))"

abbreviation sv_urls :: "'sh storage_env \<Rightarrow> urls" where
  "sv_urls e \<equiv> en_urls (xe_engine (sv_exec e))"

definition state_of :: "'sh storage_env \<Rightarrow> nat \<Rightarrow> ('sh, nat) xm" where
  "state_of e c = xlift (get_state (xe_engine (sv_exec e)) c)"

definition put_in_state :: "'sh storage_env \<Rightarrow> nat \<Rightarrow> string \<Rightarrow> value \<Rightarrow> ('sh, unit) xm" where
  "put_in_state e c k v = xbind (state_of e c) (\<lambda>st. xlift (on_heap (tb_put (sv_tb e) st k v)))"

definition lookup_in_state :: "'sh storage_env \<Rightarrow> nat \<Rightarrow> string \<Rightarrow> ('sh, value option) xm" where
  "lookup_in_state e c k =
     xbind (state_of e c) (\<lambda>st. xget (\<lambda>w.
       if tb_has (sv_tb e) (wd_heap (xw_world w)) st k then Some (tb_get (sv_tb e) (wd_heap (xw_world w)) st k) else None))"

definition world_step :: "('sh \<Rightarrow> go_error option \<times> 'sh) \<Rightarrow> ('sh, go_error option) xm" where
  "world_step f w = (let (r, sh) = f (xw_shell w) in Inr (r, w\<lparr>xw_shell := sh\<rparr>))"

definition world_read :: "('sh \<Rightarrow> 'a) \<Rightarrow> ('sh, 'a) xm" where
  "world_read f = xget (\<lambda>w. f (xw_shell w))"

section \<open>File systems and resources\<close>

fun init_resources :: "'sh afs \<Rightarrow> resource list \<Rightarrow> ('sh, go_error option) xm" where
  "init_resources fs [] = xret None"
| "init_resources fs (r # rs) =
     (case af_options fs r of
        Some err \<Rightarrow> xret (Some err)
      | None \<Rightarrow> xbind (world_step (af_init fs r)) (\<lambda>err. if err \<noteq> None then xret err else init_resources fs rs))"

text \<open>\<open>StorageService\<close>; the closing of the file systems with the session is left out.\<close>

definition storage_service :: "'sh storage_env \<Rightarrow> nat \<Rightarrow> resource list \<Rightarrow> ('sh, go_error + 'sh afs) xm" where
  "storage_service e c rs =
     xbind (lookup_in_state e c ''useMemoryService'') (\<lambda>memory.
       if memory \<noteq> None then xret (Inr (sv_afs e True))
       else xbind (init_resources (sv_afs e False) rs) (\<lambda>err.
         xret (case err of None \<Rightarrow> Inr (sv_afs e False) | Some x \<Rightarrow> Inl x)))"

definition resource_with_options :: "'sh storage_env \<Rightarrow> nat \<Rightarrow> resource option \<Rightarrow> ('sh, go_error + resource) xm" where
  "resource_with_options e c r =
     xtry (expand_target (sv_exec e) c r) (\<lambda>x.
       xret (case af_options (sv_afs e False) x of None \<Rightarrow> Inr x | Some err \<Rightarrow> Inl err))"

text \<open>A user defined function: a predefined one, or one of the state.\<close>

definition find_udf :: "'sh storage_env \<Rightarrow> nat \<Rightarrow> string \<Rightarrow> ('sh, (value \<Rightarrow> go_error + value) option) xm" where
  "find_udf e c name =
     (case sv_predefined e name of
        Some f \<Rightarrow> xret (Some f)
      | None \<Rightarrow>
          xbind (lookup_in_state e c name) (\<lambda>v.
            case v of
              Some x \<Rightarrow> xret (sv_function e x)
            | None \<Rightarrow>
                xbind (state_of e c) (\<lambda>st. xget (\<lambda>w.
                  case mget (tb_get_map (sv_tb e) (wd_heap (xw_world w)) st ''udf'') name of
                    None \<Rightarrow> None | Some x \<Rightarrow> sv_function e x))))"

definition transform_with_udf ::
  "'sh storage_env \<Rightarrow> nat \<Rightarrow> string \<Rightarrow> string \<Rightarrow> value \<Rightarrow> ('sh, go_error + value) xm" where
  "transform_with_udf e c name source v =
     xbind (find_udf e c name) (\<lambda>f.
       xret (case f of
         None \<Rightarrow> Inl (PlainErr (''failed to lookup udf: '' @ name @ '' for: '' @ source))
       | Some g \<Rightarrow>
           (case g v of
              Inl err \<Rightarrow> Inl (PlainErr (''failed to run udf: '' @ name @ '', '' @ error_text err))
            | Inr x \<Rightarrow> Inr x)))"

definition wrapped :: "string \<Rightarrow> go_error \<Rightarrow> go_error" where
  "wrapped message err = PlainErr (message @ '': '' @ error_text err)"

section \<open>Copying\<close>

definition compressible :: "string \<Rightarrow> bool" where
  "compressible scheme \<longleftrightarrow> scheme \<in> {[], ''scp'', ''file'', ''ssh''}"

text \<open>A request of this service to the command service, with the events and checks of a service.\<close>

definition service_error :: "string \<Rightarrow> string \<Rightarrow> nat \<Rightarrow> go_error \<Rightarrow> ('sh, go_error) xm" where
  "service_error sid act c err =
     xseq (if is_path_error err then xret ()
           else xbind (xlift (publish c (EvError (error_text (new_error sid act err))))) (\<lambda>_. xret ()))
       (xret (new_error sid act err))"

definition call_service ::
  "nat \<Rightarrow> string \<Rightarrow> string \<Rightarrow> go_error option \<Rightarrow> ('sh, go_error + 'r) xm \<Rightarrow> ('sh, go_error + 'r) xm" where
  "call_service c sid act invalid handler =
     xbind (xlift (publish c (EvRequest sid act))) (\<lambda>start.
     xbind (case invalid of
              Some err \<Rightarrow> xret (Inl (new_error sid act err))
            | None \<Rightarrow> xbind handler (\<lambda>r. case r of Inr x \<Rightarrow> xret (Inr x)
                | Inl err \<Rightarrow> xbind (service_error sid act c err) (\<lambda>err'. xret (Inl err')))) (\<lambda>r.
     xbind (xlift (publish_with_start c (EvResponse VNil) start)) (\<lambda>_. xret r)))"

text \<open>\<open>endly.Run\<close> of a run request: the response, unless there is an error.\<close>

definition call_exec_run ::
  "'sh exec_env \<Rightarrow> nat \<Rightarrow> nat \<Rightarrow> exec_request \<Rightarrow> ('sh, go_error + run_response) xm" where
  "call_exec_run e n c req =
     (let q = init_exec_request req
      in call_service c ''exec'' ''run'' (map_option (validation_failed ''*exec.RunRequest'') (validate_exec_request q))
           (xbind (run_commands e n c q) (\<lambda>(r, err). xret (case err of Some x \<Rightarrow> Inl x | None \<Rightarrow> r))))"

definition call_exec_extract ::
  "'sh exec_env \<Rightarrow> nat \<Rightarrow> nat \<Rightarrow> extract_request \<Rightarrow> ('sh, go_error + run_response) xm" where
  "call_exec_extract e n c req =
     (let q = init_extract_request req
      in call_service c ''exec'' ''extract''
           (map_option (validation_failed ''*exec.ExtractRequest'') (validate_extract_request q)) (run_extract e n c q))"

definition with_timeout :: "int \<Rightarrow> exec_request \<Rightarrow> exec_request" where
  "with_timeout ms q = q\<lparr>xr_options := map_option (\<lambda>x. x\<lparr>eo_timeout := ms\<rparr>) (xr_options q)\<rparr>"

definition compression_timeout :: int where
  "compression_timeout = 120000"

definition local_credentials :: "urls \<Rightarrow> resource \<Rightarrow> resource" where
  "local_credentials u r =
     (if res_scheme u r = ''file'' \<and> r_credentials r = [] then r\<lparr>r_credentials := ''localhost''\<rparr> else r)"

text \<open>The archive is made beside the source; both locations change to it.\<close>

definition archive_locations ::
  "urls \<Rightarrow> afs_object \<Rightarrow> string \<Rightarrow> string \<Rightarrow> resource \<Rightarrow> resource \<Rightarrow> resource \<times> resource" where
  "archive_locations u ob name archive source dest =
     (if ao_dir ob
      then (source\<lparr>r_url := url_join u (r_url source) archive\<rparr>, dest\<lparr>r_url := url_join u (r_url dest) archive\<rparr>)
      else
        (res_rename u archive source,
         if path_ext (res_path u dest) \<noteq> [] then
           (let target_name = snd (path_split (res_path u dest))
            in res_rename u (if name \<noteq> target_name then target_name @ ''.tar.gz'' else archive) dest)
         else dest\<lparr>r_url := url_join u (r_url dest) archive\<rparr>))"

definition compress_source ::
  "'sh storage_env \<Rightarrow> nat \<Rightarrow> nat \<Rightarrow> resource \<Rightarrow> resource \<Rightarrow> afs_object \<Rightarrow> ('sh, go_error + (resource \<times> resource)) xm" where
  "compress_source e n c source dest ob =
     (let u = sv_urls e; (parent, file) = path_split (res_path u source);
          base = (if ao_dir ob then res_path u source else parent);
          name = (if ao_dir ob then snd (path_split (res_path u source)) else file);
          archive = name @ ''.tar.gz'';
          tar = ''tar cvzf '' @ archive @ '' '' @ (if ao_dir ob then ''.'' else file);
          source' = local_credentials u source
      in xtry (call_exec_run (sv_exec e) n c
                 (with_timeout compression_timeout (new_exec_request (Some source') False [''cd '' @ base, tar]))) (\<lambda>resp.
           let out = (case response_stdout resp [] of Inr s \<Rightarrow> s | Inl _ \<Rightarrow> [])
           in xret (if no_such_file [out] then Inl (PlainErr (''faied to compress: '' @ tar @ '', '' @ out))
                    else Inr (archive_locations u ob name archive source' dest))))"

definition decompress_target ::
  "'sh storage_env \<Rightarrow> nat \<Rightarrow> nat \<Rightarrow> resource \<Rightarrow> resource \<Rightarrow> ('sh, go_error + run_response) xm" where
  "decompress_target e n c source dest =
     (let (base, name) = path_split (res_path (sv_urls e) dest)
      in call_exec_run (sv_exec e) n c (with_timeout compression_timeout (new_exec_request (Some dest) False
           [''mkdir -p '' @ base, ''cd '' @ base, ''tar xvzf '' @ name, ''rm '' @ name,
            ''cd '' @ res_path (sv_urls e) source])))"

text \<open>The state of the context, with which a content is expanded while it is copied.\<close>

definition expander :: "'sh storage_env \<Rightarrow> nat \<Rightarrow> ('sh, string \<Rightarrow> string) xm" where
  "expander e c = xbind (state_of e c) (\<lambda>st. xget (\<lambda>w s. expand_text (sv_tb e) (wd_heap (xw_world w)) st s))"

definition dest_modifier ::
  "'sh storage_env \<Rightarrow> nat \<Rightarrow> copy_rule \<Rightarrow> (string \<Rightarrow> string) option
     \<Rightarrow> ('sh, go_error + (afs_object \<Rightarrow> string \<Rightarrow> string)) xm" where
  "dest_modifier e c r udf =
     (case udf of
        Some f \<Rightarrow> xret (Inr (\<lambda>_. f))
      | None \<Rightarrow>
          if cr_expand r \<or> cr_replace r \<noteq> []
          then xbind (expander e c) (\<lambda>ex. xret (rule_modifier (sv_matchers e) (sv_printable e) ex r))
          else xret (Inr (\<lambda>_ s. s)))"

definition checked_resource :: "'sh storage_env \<Rightarrow> resource \<Rightarrow> ('sh, go_error + unit) xm" where
  "checked_resource e r = xret (case af_options (sv_afs e False) r of None \<Rightarrow> Inr () | Some err \<Rightarrow> Inl err)"

text \<open>One transfer gives the URL of the object that was copied.\<close>

definition transfer ::
  "'sh storage_env \<Rightarrow> nat \<Rightarrow> nat \<Rightarrow> (string \<Rightarrow> string) option \<Rightarrow> copy_rule \<Rightarrow> ('sh, go_error + string) xm" where
  "transfer e n c udf r =
     xtry (expand_target (sv_exec e) c (cr_source r)) (\<lambda>source.
     xtry (xret (source_options (sv_matchers e) r)) (\<lambda>matches.
     xtry (checked_resource e source) (\<lambda>_.
     xtry (dest_modifier e c r udf) (\<lambda>modifier.
     xtry (expand_target (sv_exec e) c (cr_dest r)) (\<lambda>dest.
     xtry (checked_resource e dest) (\<lambda>_.
     xtry (storage_service e c [source, dest]) (\<lambda>fs.
     xbind (world_read (af_object fs (r_url source))) (\<lambda>ob.
       case ob of
         Inl err \<Rightarrow> xret (Inl (wrapped (r_url source @ '': source not found'') err))
       | Inr ob \<Rightarrow>
           let archive = cr_compress r \<and> compressible (res_scheme (sv_urls e) source) \<and> compressible (res_scheme (sv_urls e) dest)
           in xtry (if archive then compress_source e n c source dest ob else xret (Inr (source, dest))) (\<lambda>(source', dest').
              xtry (xcheck (world_step (af_copy fs (r_url source') (r_url dest') matches modifier))) (\<lambda>_.
              xtry (if archive then xtry (decompress_target e n c source' dest') (\<lambda>_. xret (Inr ())) else xret (Inr ())) (\<lambda>_.
                xret (Inr (ao_url ob)))))))))))))"

text \<open>The URLs that were copied, and the error that ended the copying.\<close>

fun transfer_all ::
  "'sh storage_env \<Rightarrow> nat \<Rightarrow> nat \<Rightarrow> (string \<Rightarrow> string) option \<Rightarrow> copy_rule list \<Rightarrow> ('sh, string list \<times> go_error option) xm" where
  "transfer_all e n c udf [] = xret ([], None)"
| "transfer_all e n c udf (r # rs) =
     xbind (transfer e n c udf r) (\<lambda>x.
       case x of
         Inl err \<Rightarrow> xret ([], Some err)
       | Inr url \<Rightarrow> xbind (transfer_all e n c udf rs) (\<lambda>(urls, err). xret (url # urls, err)))"

text \<open>The function of a request makes the modifier; \<open>sv_modifier\<close> tells the modifiers among the values.\<close>

definition copy_modifier ::
  "'sh storage_env \<Rightarrow> nat \<Rightarrow> string \<Rightarrow> ('sh, go_error + (string \<Rightarrow> string) option) xm" where
  "copy_modifier e c name =
     (if name = [] then xret (Inr None)
      else xbind (transform_with_udf e c name [] VNil) (\<lambda>r.
        xret (case r of
          Inl err \<Rightarrow> Inl (wrapped (''failed to get udf: '' @ name) err)
        | Inr v \<Rightarrow>
            (case sv_modifier e v of
               None \<Rightarrow> Inl (PlainErr (''udf does not implement option.Modifier''))
             | Some f \<Rightarrow> Inr (Some f)))))"

definition copy_assets ::
  "'sh storage_env \<Rightarrow> nat \<Rightarrow> nat \<Rightarrow> copy_request
     \<Rightarrow> ('sh, string list \<times> go_error option) xm" where
  "copy_assets e n c q =
     xbind (copy_modifier e c (cq_udf q)) (\<lambda>m.
       case m of
         Inl err \<Rightarrow> xret ([], Some err)
       | Inr udf \<Rightarrow> transfer_all e n c udf (cq_transfers q))"

text \<open>\<open>Copy\<close> for the other services: the transfers of a request of its own.\<close>

definition call_copy ::
  "'sh storage_env \<Rightarrow> nat \<Rightarrow> nat \<Rightarrow> copy_rule list \<Rightarrow> ('sh, go_error + unit) xm" where
  "call_copy e n c rules =
     (if rules = [] then xret (Inr ())
      else let q = \<lparr>cq_rule = Some empty_rule, cq_assets = [], cq_transfers = rules, cq_udf = []\<rparr>
           in call_service c ''storage'' ''copy'' (map_option (validation_failed ''*storage.CopyRequest'') (validate_copy_request q))
                (xbind (copy_assets e n c q) (\<lambda>(urls, err).
                   xret (case err of None \<Rightarrow> Inr () | Some x \<Rightarrow> Inl x))))"

section \<open>Single assets\<close>

text \<open>
  Uploading the value of a key. The result of the function is uploaded when it is a text or a
  map; another one is ignored. The size is that of the untransformed content.
\<close>

record upload_response =
  us_size :: nat
  us_transformed :: string
  us_url :: string

definition uploaded_text :: "(smap \<Rightarrow> string) \<Rightarrow> string \<Rightarrow> value \<Rightarrow> string \<times> string" where
  "uploaded_text json text v =
     (case v of VStr s \<Rightarrow> (s, s) | VMap m \<Rightarrow> (json m, json m) | _ \<Rightarrow> (text, []))"

definition upload_asset ::
  "'sh storage_env \<Rightarrow> (smap \<Rightarrow> string) \<Rightarrow> nat \<Rightarrow> upload_request \<Rightarrow> ('sh, go_error + upload_response) xm" where
  "upload_asset e json c q =
     xtry (resource_with_options e c (uq_dest q)) (\<lambda>dest.
     xtry (storage_service e c [dest]) (\<lambda>fs.
     xbind (lookup_in_state e c (uq_source_key q)) (\<lambda>v.
       case v of
         None \<Rightarrow> xret (Inl (PlainErr (''sourcekey '' @ uq_source_key q @ '' value was empty'')))
       | Some v \<Rightarrow>
           xbind (expand_in (sv_exec e) c (as_string (sv_tb e) v)) (\<lambda>text.
           xbind (if uq_udf q = [] then xret (Inr (text, []))
                  else xbind (transform_with_udf e c (uq_udf q) (uq_source_key q) (VStr text)) (\<lambda>r.
                    xret (case r of
                      Inl err \<Rightarrow> Inl (PlainErr (''failed to transform: '' @ text @ '' with '' @ uq_udf q @ '', due to: '' @ error_text err))
                    | Inr x \<Rightarrow> Inr (uploaded_text json text x)))) (\<lambda>r.
             case r of
               Inl err \<Rightarrow> xret (Inl err)
             | Inr (content, transformed) \<Rightarrow>
                 xtry (xcheck (world_step (af_upload fs (r_url dest) (uq_mode q) content))) (\<lambda>_.
                   xret (Inr \<lparr>us_size = length text, us_transformed = transformed, us_url = r_url dest\<rparr>)))))))"

record download_response =
  ds_payload :: string
  ds_transformed :: "value"
  ds_assert :: "value"

definition expected_matches :: "'sh storage_env \<Rightarrow> value \<Rightarrow> value \<Rightarrow> ('sh, go_error + value) xm" where
  "expected_matches e expected actual =
     xret (if expected = VNil then Inr VNil else sv_assert e expected actual)"

definition download_asset ::
  "'sh storage_env \<Rightarrow> nat \<Rightarrow> download_request \<Rightarrow> ('sh, go_error + download_response) xm" where
  "download_asset e c q =
     xtry (resource_with_options e c (dq_source q)) (\<lambda>source.
     xtry (storage_service e c [source]) (\<lambda>fs.
     xtry (world_read (af_open fs (r_url source))) (\<lambda>content.
     xtry (if dq_udf q = [] then xret (Inr VNil)
           else xbind (transform_with_udf e c (dq_udf q) (r_url source) (VStr content)) (\<lambda>r.
             xret (case r of
               Inl err \<Rightarrow> Inl (wrapped (''failed to transform with '' @ dq_udf q @ '' udf, source: '' @ r_url source) err)
             | Inr v \<Rightarrow> Inr v))) (\<lambda>transformed.
       let payload = as_payload (en_io (xe_engine (sv_exec e))) content;
           v = (if transformed = VNil then VStr payload else transformed)
       in xseq (if dq_dest_key q = [] then xret () else put_in_state e c (dq_dest_key q) v)
            (xtry (expected_matches e (dq_expect q) v) (\<lambda>a.
               xret (Inr \<lparr>ds_payload = payload, ds_transformed = transformed, ds_assert = a\<rparr>)))))))"

text \<open>Creating a file or a directory; the content is the value of the key, when it has one.\<close>

definition create_asset :: "'sh storage_env \<Rightarrow> nat \<Rightarrow> create_request \<Rightarrow> ('sh, go_error + (nat \<times> string)) xm" where
  "create_asset e c q =
     xbind (if tq_dir q then xret None else lookup_in_state e c (tq_source_key q)) (\<lambda>v.
       let content = map_option (as_string (sv_tb e)) v
       in xtry (resource_with_options e c (tq_dest q)) (\<lambda>dest.
          xtry (storage_service e c [dest]) (\<lambda>fs.
          xtry (xcheck (world_step (af_create fs (r_url dest) (tq_mode q) (tq_dir q) content))) (\<lambda>_.
            xret (Inr (case content of None \<Rightarrow> 0 | Some s \<Rightarrow> length s, r_url dest))))))"

fun exists_each ::
  "'sh storage_env \<Rightarrow> nat \<Rightarrow> 'sh afs \<Rightarrow> resource list \<Rightarrow> (string \<times> bool) list \<Rightarrow> ('sh, go_error + (string \<times> bool) list) xm" where
  "exists_each e c fs [] found = xret (Inr found)"
| "exists_each e c fs (r # rs) found =
     xbind (expand_in (sv_exec e) c (r_url r)) (\<lambda>url.
     xtry (resource_with_options e c (Some r)) (\<lambda>source.
     xtry (world_read (af_exists fs (r_url source))) (\<lambda>b.
       exists_each e c fs rs (mput url b found))))"

text \<open>The expectation is compared at the end; an error of the comparison is dropped.\<close>

definition exists_assets ::
  "'sh storage_env \<Rightarrow> nat \<Rightarrow> resource list \<Rightarrow> (string \<times> bool) list option
     \<Rightarrow> ('sh, go_error + ((string \<times> bool) list \<times> value)) xm" where
  "exists_assets e c rs expected =
     xtry (storage_service e c rs) (\<lambda>fs.
     xtry (exists_each e c fs rs []) (\<lambda>found.
       case expected of
         None \<Rightarrow> xret (Inr (found, VNil))
       | Some m \<Rightarrow>
           xret (Inr (found, case sv_assert e (VMap (map (apsnd VBool) m)) (VMap (map (apsnd VBool) found)) of
             Inl _ \<Rightarrow> VNil | Inr a \<Rightarrow> a))))"

text \<open>
  Removing: the errors are dropped. A resource that cannot be expanded is nil, and its URL is
  read all the same.
\<close>

fun remove_each :: "'sh storage_env \<Rightarrow> nat \<Rightarrow> 'sh afs \<Rightarrow> resource list \<Rightarrow> ('sh, go_error + string list) xm" where
  "remove_each e c fs [] = xret (Inr [])"
| "remove_each e c fs (r # rs) =
     xbind (resource_with_options e c (Some r)) (\<lambda>x.
       case x of
         Inl _ \<Rightarrow> xret (Inl (Panicked ''nil pointer dereference''))
       | Inr source \<Rightarrow>
           xbind (world_step (af_delete fs (r_url source))) (\<lambda>_.
           xtry (remove_each e c fs rs) (\<lambda>urls. xret (Inr (r_url source # urls)))))"

definition remove_assets :: "'sh storage_env \<Rightarrow> nat \<Rightarrow> resource list \<Rightarrow> ('sh, go_error + string list) xm" where
  "remove_assets e c rs = xtry (storage_service e c rs) (\<lambda>fs. remove_each e c fs rs)"

section \<open>Listing\<close>

text \<open>A listed asset: its URL, whether it is a directory, and its content when it was asked for.\<close>

record listed_asset =
  la_url :: string
  la_dir :: bool
  la_data :: "string option"

text \<open>The first object that is listed is the directory itself.\<close>

definition list_object :: "'sh afs \<Rightarrow> bool \<Rightarrow> 'sh \<Rightarrow> afs_object \<Rightarrow> go_error + listed_asset" where
  "list_object fs content sh ob =
     (if ao_dir ob \<or> \<not> content then Inr \<lparr>la_url = ao_url ob, la_dir = ao_dir ob, la_data = None\<rparr>
      else case af_open fs (ao_url ob) sh of
        Inl err \<Rightarrow> Inl (wrapped (''failed to download listed content '' @ ao_url ob) err)
      | Inr s \<Rightarrow> Inr \<lparr>la_url = ao_url ob, la_dir = False, la_data = Some s\<rparr>)"

definition without_self_dir :: "afs_object list \<Rightarrow> afs_object list" where
  "without_self_dir obs = (case obs of ob # rest \<Rightarrow> if ao_dir ob then rest else obs | [] \<Rightarrow> [])"

text \<open>The nesting of the directories bounds the recursion: \<open>None\<close> is a deeper one.\<close>

fun list_resource ::
  "nat \<Rightarrow> 'sh afs \<Rightarrow> bool \<Rightarrow> bool \<Rightarrow> (afs_object \<Rightarrow> bool) \<Rightarrow> 'sh \<Rightarrow> string \<Rightarrow> (go_error + listed_asset list) option" where
  "list_resource 0 fs content recursive matches sh url = None"
| "list_resource (Suc n) fs content recursive matches sh url =
     (case ebind (af_list fs url False matches sh) (\<lambda>obs. emap (list_object fs content sh) (without_self_dir obs)) of
        Inl err \<Rightarrow> Some (Inl err)
      | Inr xs \<Rightarrow>
          if \<not> recursive then Some (Inr xs)
          else (case af_list fs url True matches sh of
            Inl err \<Rightarrow> Some (Inl err)
          | Inr dirs \<Rightarrow>
              fold (\<lambda>ob acc. case acc of
                  Some (Inr ys) \<Rightarrow>
                    (case list_resource n fs content recursive matches sh (ao_url ob) of
                       Some (Inr zs) \<Rightarrow> Some (Inr (ys @ zs))
                     | r \<Rightarrow> r)
                | r \<Rightarrow> r) (tl dirs) (Some (Inr xs))))"

text \<open>The value of a list of assets, as the comparison sees it, belongs to viant/afs.\<close>

definition list_assets ::
  "'sh storage_env \<Rightarrow> (listed_asset list \<Rightarrow> value) \<Rightarrow> nat \<Rightarrow> nat \<Rightarrow> resource option \<Rightarrow> asset_matcher option
     \<Rightarrow> bool \<Rightarrow> bool \<Rightarrow> value option \<Rightarrow> ('sh, go_error + (string \<times> listed_asset list \<times> value)) xm" where
  "list_assets e as_value n c source m content recursive expected =
     xtry (xret (case m of None \<Rightarrow> Inr None | Some x \<Rightarrow> matcher_handler (sv_matchers e) x)) (\<lambda>h.
     xtry (resource_with_options e c source) (\<lambda>r.
     xbind (world_read (\<lambda>sh. list_resource n (sv_afs e False) content recursive
              (case h of None \<Rightarrow> (\<lambda>_. True) | Some f \<Rightarrow> f) sh (r_url r))) (\<lambda>xs.
       case xs of
         None \<Rightarrow> xout
       | Some (Inl err) \<Rightarrow> xret (Inl err)
       | Some (Inr assets) \<Rightarrow>
           xret (Inr (r_url r, assets, case expected of
             None \<Rightarrow> VNil
           | Some v \<Rightarrow> (case sv_assert e v (as_value assets) of Inl _ \<Rightarrow> VNil | Inr a \<Rightarrow> a))))))"

section \<open>Generating\<close>

text \<open>\<open>strings.Repeat\<close> and \<open>text[:size]\<close> panic out of range; the division is cut toward zero.\<close>

definition cut_text :: "int \<Rightarrow> string \<Rightarrow> go_error + string" where
  "cut_text n text =
     (if n \<le> int (length text) then Inr (take (nat n) text)
      else Inl (Panicked ''slice bounds out of range''))"

definition repeat_count :: "generate_request \<Rightarrow> int" where
  "repeat_count q =
     (let template = (if gq_template q = [] then '' '' else gq_template q); len = int (length template)
      in if gq_lines q \<noteq> 0 then gq_lines q
         else (if 0 \<le> gq_size q then gq_size q div len else - (- gq_size q div len)) + 1)"

definition plain_content :: "generate_request \<Rightarrow> go_error + string" where
  "plain_content q =
     (let template = (if gq_template q = [] then '' '' else gq_template q);
          separator = (if 0 < gq_lines q then [char_of (10::nat)] else [])
      in if repeat_count q < 0 then Inl (Panicked ''strings: negative Repeat count'')
         else let text = concat (replicate (nat (repeat_count q)) (template @ separator))
              in if gq_lines q = 0 \<and> 0 < gq_size q then cut_text (gq_size q) text else Inr (trim_space text))"

text \<open>With variables every repetition is expanded with the next index; the index goes on from file to file.\<close>

fun expanded_items :: "toolbox \<Rightarrow> nat \<Rightarrow> string \<Rightarrow> string \<Rightarrow> bool \<Rightarrow> nat \<Rightarrow> int \<Rightarrow> heap \<Rightarrow> string list \<times> heap" where
  "expanded_items tb a var template lines 0 i h = ([], h)"
| "expanded_items tb a var template lines (Suc n) i h =
     (let h1 = tb_put tb a var (VInt i) h; s = expand_text tb h1 a template;
          (rest, h2) = expanded_items tb a var template lines n (i + 1) h1
      in ((if lines then trim_space s else s) # rest, h2))"

definition generate_content ::
  "'sh storage_env \<Rightarrow> nat \<Rightarrow> generate_request \<Rightarrow> ('sh, (go_error + string) \<times> generate_request) xm" where
  "generate_content e c q =
     (if \<not> contains (gq_template q) ''$'' then xret (plain_content q, q)
      else if repeat_count q < 0 then xret (Inl (Panicked ''makeslice: len out of range''), q)
      else
        xbind (state_of e c) (\<lambda>st.
        xbind (xlift (mbind mget_world (\<lambda>v.
            let (a, h) = xe_clone_map (sv_exec e) st (wd_heap v);
                (items, h') = expanded_items (sv_tb e) a (if gq_variable q = [] then ''i'' else gq_variable q)
                  (gq_template q) (0 < gq_lines q) (nat (repeat_count q)) (gq_index q) h
            in mseq (on_heap (\<lambda>_. h')) (mret items)))) (\<lambda>items.
          let text = join (if 0 < gq_lines q then [char_of (10::nat)] else []) items
          in xret (if gq_lines q = 0 \<and> 0 < gq_size q then cut_text (gq_size q) text else Inr text,
                   q\<lparr>gq_index := gq_index q + repeat_count q\<rparr>))))"

definition file_url :: "string \<Rightarrow> nat \<Rightarrow> string" where
  "file_url url i = replace_first url file_number_expr (zero_pad 4 (int i))"

fun generate_files ::
  "'sh storage_env \<Rightarrow> nat \<Rightarrow> string \<Rightarrow> nat \<Rightarrow> nat \<Rightarrow> generate_request \<Rightarrow> ('sh, go_error + (string \<times> string) list) xm" where
  "generate_files e c url i 0 q = xret (Inr [])"
| "generate_files e c url i (Suc n) q =
     xbind (generate_content e c q) (\<lambda>(r, q').
       case r of
         Inl err \<Rightarrow> xret (Inl err)
       | Inr content \<Rightarrow>
           xtry (generate_files e c url (Suc i) n q') (\<lambda>rest. xret (Inr ((file_url url i, content) # rest))))"

text \<open>
  The uploads run at the same time; they are taken in order here, and the last error is returned.
  In background the request has returned before they end, so that their errors are only published.
\<close>

fun upload_files ::
  "nat \<Rightarrow> 'sh afs \<Rightarrow> int \<Rightarrow> bool \<Rightarrow> (string \<times> string) list \<Rightarrow> ('sh, go_error option) xm" where
  "upload_files c fs mode background [] = xret None"
| "upload_files c fs mode background ((url, content) # files) =
     xbind (world_step (af_upload fs url mode content)) (\<lambda>err.
     xseq (case err of
             Some x \<Rightarrow> if background then xbind (xlift (publish c (EvError (error_text x)))) (\<lambda>_. xret ()) else xret ()
           | None \<Rightarrow> xret ())
     (xbind (upload_files c fs mode background files) (\<lambda>later. xret (case later of None \<Rightarrow> err | Some x \<Rightarrow> Some x))))"

definition generate_assets ::
  "'sh storage_env \<Rightarrow> nat \<Rightarrow> generate_request \<Rightarrow> ('sh, string list \<times> go_error option) xm" where
  "generate_assets e c q =
     xbind (resource_with_options e c (gq_dest q)) (\<lambda>r.
       case r of
         Inl err \<Rightarrow> xret ([], Some err)
       | Inr dest \<Rightarrow>
           xbind (storage_service e c [dest]) (\<lambda>s.
             case s of
               Inl err \<Rightarrow> xret ([], Some err)
             | Inr fs \<Rightarrow>
                 xbind (generate_files e c (r_url dest) 0 (nat (if gq_count q = 0 then 1 else gq_count q)) q) (\<lambda>g.
                   case g of
                     Inl err \<Rightarrow> xret ([], Some err)
                   | Inr files \<Rightarrow>
                       xbind (upload_files c fs (gq_mode q) (gq_background q) files) (\<lambda>err.
                         xret (map fst files, if gq_background q then None else err)))))"

end
