(* ===== verification/Storage_Props.thy ===== *)
theory Storage_Props
  imports Storage_Service Exec_Props
begin

text \<open>
  The storage service: an uploaded value is downloaded again; generated files have their size and
  names of their own; a removal reports success whatever the file system answers.
\<close>

section \<open>Generated content\<close>

lemma length_concat_replicate: "length (concat (replicate n xs)) = n * length xs"
  by (induction n) simp_all

lemma length_join_empty: "length (join [] xs) = sum_list (map length xs)"
  by (induction xs rule: induct_list012) simp_all

lemma expanded_items_bound:
  assumes "\<forall>h. length (expand_text tb h a template) \<le> m"
  shows "sum_list (map length (fst (expanded_items tb a var template False n i h))) \<le> n * m"
proof (induction n arbitrary: i h)
  case (Suc n)
  obtain rest h2 where rest: "expanded_items tb a var template False n (i + 1) (tb_put tb a var (VInt i) h) = (rest, h2)"
    by fastforce
  then have "sum_list (map length rest) \<le> n * m" using Suc [of "i + 1" "tb_put tb a var (VInt i) h"] by simp
  moreover have "length (expand_text tb (tb_put tb a var (VInt i) h) a template) \<le> m" using assms by blast
  ultimately show ?case using rest by (simp add: Let_def)
qed simp

lemma repeat_count_covers:
  assumes "gq_lines q = 0" "0 < gq_size q" "gq_template q \<noteq> []"
  shows "gq_size q \<le> repeat_count q * int (length (gq_template q))" "0 < repeat_count q"
proof -
  let ?l = "int (length (gq_template q))"
  have l: "0 < ?l" using assms(3) by simp
  have rc: "repeat_count q = gq_size q div ?l + 1" using assms by (simp add: repeat_count_def Let_def)
  have "gq_size q = ?l * (gq_size q div ?l) + gq_size q mod ?l" by (rule mult_div_mod_eq [symmetric])
  moreover have "gq_size q mod ?l < ?l" using l by simp
  moreover have "repeat_count q * ?l = ?l * (gq_size q div ?l) + ?l" 
    unfolding rc by (metis distrib_right mult.commute mult_1)
  ultimately show "gq_size q \<le> repeat_count q * ?l" by linarith
  show "0 < repeat_count q" using rc assms(2) l by (simp add: pos_imp_zdiv_nonneg_iff add_pos_nonneg)
qed

text \<open>
  C21: a file that is generated by size from a template without variables has that size. With
  variables the template is repeated as often as its own length asks for, so when the
  expansions are shorter and do not add up to the size, the service panics.
\<close>

theorem generated_content_has_its_size:
  assumes "gq_lines q = 0" "0 < gq_size q" "gq_template q \<noteq> []"
  shows "(\<not> contains (gq_template q) ''$'' \<longrightarrow>
            (\<exists>s. generate_content e c q w = Inr ((Inr s, q), w) \<and> int (length s) = gq_size q)) \<and>
         (contains (gq_template q) ''$'' \<and> (\<forall>h a. length (expand_text (sv_tb e) h a (gq_template q)) \<le> m) \<and>
            repeat_count q * int m < gq_size q \<longrightarrow>
            (\<forall>r q' w'. generate_content e c q w = Inr ((r, q'), w') \<longrightarrow> r = Inl (Panicked ''slice bounds out of range'')))"
proof (intro conjI impI)
  let ?t = "gq_template q"
  assume plain: "\<not> contains ?t ''$''"
  let ?s = "concat (replicate (nat (repeat_count q)) ?t)"
  have "gq_size q \<le> int (length ?s)"
    using repeat_count_covers [OF assms] by (simp add: length_concat_replicate)
  then have "cut_text (gq_size q) ?s = Inr (take (nat (gq_size q)) ?s)" "int (length (take (nat (gq_size q)) ?s)) = gq_size q"
    using assms(2) by (auto simp: cut_text_def)
  then show "\<exists>s. generate_content e c q w = Inr ((Inr s, q), w) \<and> int (length s) = gq_size q"
    using plain repeat_count_covers(2) [OF assms] assms by (simp add: generate_content_def plain_content_def Let_def xret_def)
next
  let ?t = "gq_template q"
  assume a: "contains ?t ''$'' \<and> (\<forall>h a. length (expand_text (sv_tb e) h a ?t) \<le> m) \<and> repeat_count q * int m < gq_size q"
  have cut: "cut_text (gq_size q) (join [] (fst (expanded_items (sv_tb e) b var ?t False (nat (repeat_count q)) i h))) =
      Inl (Panicked ''slice bounds out of range'')" for b var i h
  proof -
    have "sum_list (map length (fst (expanded_items (sv_tb e) b var ?t False (nat (repeat_count q)) i h))) \<le> nat (repeat_count q) * m"
      using a by (intro expanded_items_bound) blast
    then have "int (length (join [] (fst (expanded_items (sv_tb e) b var ?t False (nat (repeat_count q)) i h)))) \<le> repeat_count q * int m"
      using repeat_count_covers(2) [OF assms] by (simp add: length_join_empty) (metis nat_int_comparison(3) of_nat_mult int_nat_eq less_le)
    then show ?thesis using a by (simp add: cut_text_def)
  qed
  show "\<forall>r q' w'. generate_content e c q w = Inr ((r, q'), w') \<longrightarrow> r = Inl (Panicked ''slice bounds out of range'')"
  proof (intro allI impI)
    fix r q' w'
    assume "generate_content e c q w = Inr ((r, q'), w')"
    then obtain items where "r = cut_text (gq_size q) (join [] items)"
      and "\<exists>b var i h. items = fst (expanded_items (sv_tb e) b var ?t False (nat (repeat_count q)) i h)"
      using a assms repeat_count_covers(2) [OF assms]
      by (auto simp: generate_content_def xbind_Inr xlift_def mbind_def mret_def mseq_def mget_world_def on_heap_def mupdate_def Let_def
          split: sum.splits prod.splits) (metis fst_conv)
    then show "r = Inl (Panicked ''slice bounds out of range'')" using cut by auto
  qed
qed

text \<open>The names of the files of one request.\<close>

lemma file_url_inj:
  assumes "contains url file_number_expr" "file_url url i = file_url url j"
  shows "i = j"
proof -
  obtain k where "index_of url file_number_expr = Some k"
    using assms(1) unfolding contains_def by (cases "index_of url file_number_expr") simp_all
  then have "file_url url n = take k url @ zero_pad 4 (int n) @ drop (k + length file_number_expr) url" for n
    by (simp add: file_url_def replace_first_def del: of_nat_eq_iff)
  from this [of i] this [of j] assms(2) have "zero_pad 4 (int i) = zero_pad 4 (int j)"
    by (metis append_same_eq same_append_eq)
  then show ?thesis using zero_pad_text [of 4 i] zero_pad_text [of 4 j] by metis
qed

lemma generate_files_names:
  "generate_files e c url i n q w = Inr (Inr files, w') \<Longrightarrow> map fst files = map (file_url url) [i..<i + n]"
proof (induction n arbitrary: i q w files)
  case (Suc n)
  obtain r q1 w1 where step: "generate_content e c q w = Inr ((r, q1), w1)"
    and after: "(case r of Inl err \<Rightarrow> xret (Inl err)
      | Inr content \<Rightarrow> xtry (generate_files e c url (Suc i) n q1) (\<lambda>rest. xret (Inr ((file_url url i, content) # rest)))) w1 =
        Inr (Inr files, w')"
    using Suc.prems by (auto simp: xbind_Inr)
  then obtain content rest where "files = (file_url url i, content) # rest"
    and "generate_files e c url (Suc i) n q1 w1 = Inr (Inr rest, w')"
    by (cases r) (auto simp: xtry_Inr)
  then show ?case using Suc.IH by (simp add: upt_rec)
qed simp

text \<open>
  The files that one request generates have different URLs, one per file, when the
  destination has the variable for the number of the file - which validation asks for.
\<close>

theorem generated_files_are_distinct:
  assumes "contains url file_number_expr" "generate_files e c url 0 n q w = Inr (Inr files, w')"
  shows "length files = n \<and> distinct (map fst files)"
proof -
  have names: "map fst files = map (file_url url) [0..<n]" using generate_files_names [OF assms(2)] by simp
  then have "length files = n" by (metis length_map length_upt diff_zero)
  moreover have "inj_on (file_url url) {0..<n}" using file_url_inj [OF assms(1)] by (auto intro: inj_onI)
  ultimately show ?thesis unfolding names by (simp add: distinct_map)
qed

section \<open>Removing\<close>

text \<open>
  A removal never tells that the file system refused it: the answer and the state are the
  same as if every deletion had succeeded, so an asset that is still there is reported as
  removed.
\<close>

theorem removal_errors_are_lost:
  "remove_each e c (fs\<lparr>af_delete := (\<lambda>url sh. (refused url, snd (af_delete fs url sh)))\<rparr>) rs =
     remove_each e c fs rs"
proof (induction rs)
  case (Cons r rs)
  have same: "xbind (world_step (\<lambda>sh. (x, snd (f sh)))) (\<lambda>_. m) = xbind (world_step f) (\<lambda>_. m)"
    for x f and m :: "('a, go_error + string list) xm"
    by (rule ext) (simp add: world_step_def xbind_def split: prod.splits)
  have del: "af_delete (fs\<lparr>af_delete := g\<rparr>) = g" for g by simp
  show ?case unfolding remove_each.simps del Cons same ..
qed simp

section \<open>Uploading and downloading\<close>

text \<open>
  The documented behaviour of a file system: connecting succeeds and changes no content, and a
  file that was uploaded can be opened with the content it was given.
\<close>

definition keeps_uploads :: "'sh afs \<Rightarrow> bool" where
  "keeps_uploads fs \<longleftrightarrow>
     (\<forall>r. af_options fs r = None) \<and>
     (\<forall>r sh. fst (af_init fs r sh) = None) \<and>
     (\<forall>r url sh. af_open fs url (snd (af_init fs r sh)) = af_open fs url sh) \<and>
     (\<forall>url mode s sh. fst (af_upload fs url mode s sh) = None \<longrightarrow> af_open fs url (snd (af_upload fs url mode s sh)) = Inr s)"

text \<open>A context that has its state.\<close>

definition ready :: "nat \<Rightarrow> nat \<Rightarrow> 'sh exec_world \<Rightarrow> bool" where
  "ready c st w \<longleftrightarrow> cx_state (wd_ctxs (xw_world w) c) = Some st"

lemma ready_state: "ready c st w \<Longrightarrow> state_of e c w = Inr (st, w)"
  by (simp add: ready_def state_of_def xlift_def get_state_def ctx_state_def)

lemma ready_expand:
  "ready c st w \<Longrightarrow> expand_in e c s w = Inr (expand_text (en_tb (xe_engine e)) (wd_heap (xw_world w)) st s, w)"
  by (simp add: ready_def expand_in_def xlift_def ctx_expand_def ctx_state_def mbind_def)

lemma ready_lookup:
  "ready c st w \<Longrightarrow> lookup_in_state e c k w = Inr
     (if tb_has (sv_tb e) (wd_heap (xw_world w)) st k then Some (tb_get (sv_tb e) (wd_heap (xw_world w)) st k) else None, w)"
  by (simp add: lookup_in_state_def xbind_def ready_state xget_def)

text \<open>Expanding a resource leaves the world, and depends on nothing but the store.\<close>

lemma expand_target_same:
  assumes "ready c st w" "ready c st w'" "wd_heap (xw_world w) = wd_heap (xw_world w')"
  shows "\<exists>r. expand_target e c t w = Inr (r, w) \<and> expand_target e c t w' = Inr (r, w')"
proof -
  have plain: "ctx_expand tb ds c s (xw_world v) = Inr (expand_text tb (wd_heap (xw_world v)) st s, xw_world v)"
    if "ready c st v" for tb ds s v
    using that by (simp add: ready_def ctx_expand_def ctx_state_def mbind_def)
  show ?thesis
    using assms plain [OF assms(1)] plain [OF assms(2)]
    by (simp add: expand_target_def xlift_def expand_resource_def mbind_def mret_def Let_def split: option.splits)
qed

lemma resource_same:
  assumes "ready c st w" "ready c st w'" "wd_heap (xw_world w) = wd_heap (xw_world w')"
  shows "\<exists>r. resource_with_options e c t w = Inr (r, w) \<and> resource_with_options e c t w' = Inr (r, w')"
proof -
  obtain r where "expand_target (sv_exec e) c t w = Inr (r, w)" "expand_target (sv_exec e) c t w' = Inr (r, w')"
    using expand_target_same [OF assms] by blast
  then show ?thesis by (cases r) (auto simp: resource_with_options_def xtry_def xbind_def xret_def)
qed

text \<open>The file system of one location, in which the connection was made.\<close>

lemma storage_service_one:
  assumes "ready c st w" "keeps_uploads (sv_afs e False)"
    and "\<not> tb_has (sv_tb e) (wd_heap (xw_world w)) st ''useMemoryService''"
  shows "storage_service e c [r] w =
    Inr (Inr (sv_afs e False), w\<lparr>xw_shell := snd (af_init (sv_afs e False) r (xw_shell w))\<rparr>)"
proof -
  obtain sh where "af_init (sv_afs e False) r (xw_shell w) = (None, sh)"
    using assms(2) unfolding keeps_uploads_def by (metis prod.collapse)
  then show ?thesis
    using assms by (simp add: storage_service_def xbind_def ready_lookup xret_def keeps_uploads_def world_step_def)
qed


section \<open>A file system in memory\<close>

type_synonym files = "(string \<times> string) list"

definition memory_files :: "files afs" where
  "memory_files = \<lparr>af_init = (\<lambda>r sh. (None, sh)), af_options = (\<lambda>r. None),
     af_exists = (\<lambda>url sh. Inr (mhas sh url)),
     af_open = (\<lambda>url sh. case mget sh url of None \<Rightarrow> Inl (PlainErr ''not found'') | Some s \<Rightarrow> Inr s),
     af_object = (\<lambda>url sh. case mget sh url of None \<Rightarrow> Inl (PlainErr ''not found'')
        | Some s \<Rightarrow> Inr \<lparr>ao_url = url, ao_dir = False, ao_size = length s\<rparr>),
     af_list = (\<lambda>url dirs f sh. Inr []), af_upload = (\<lambda>url mode s sh. (None, mput url s sh)),
     af_create = (\<lambda>url mode dir s sh. (None, case s of None \<Rightarrow> sh | Some x \<Rightarrow> mput url x sh)),
     af_delete = (\<lambda>url sh. (None, mdel url sh)), af_copy = (\<lambda>a b f g sh. (None, sh))\<rparr>"

definition files_shell :: "files shells" where
  "files_shell = \<lparr>sh_open = (\<lambda>k sh. (Inr 0, sh)),
     sh_run = (\<lambda>k command ts ms sh. (\<lparr>so_text = [], so_parts = [], so_code = 0, so_error = None\<rparr>, sh)),
     sh_facts = (\<lambda>k sh. \<lparr>sf_user = ''me'', sf_arch = [], sf_system = [], sf_name = [], sf_hardware = [], sf_architecture = []\<rparr>),
     sh_close = (\<lambda>k sh. sh)\<rparr>"

definition storage_env0 :: "files storage_env" where
  "storage_env0 = \<lparr>
     sv_exec = \<lparr>xe_engine = env0, xe_shells = files_shell, xe_parents = [], xe_user = (\<lambda>s. None), xe_config = (\<lambda>s. None),
       xe_secrets = (\<lambda>s m. Inr s), xe_reveal = False, xe_clone_map = (\<lambda>a h. alloc (cell h a) h)\<rparr>,
     sv_afs = (\<lambda>b. memory_files),
     sv_matchers = \<lparr>mt_time = (\<lambda>s. Inr 0), mt_basic = (\<lambda>b. Inr (\<lambda>_. True)), mt_modified = (\<lambda>a b ob. True)\<rparr>,
     sv_printable = (\<lambda>s. True), sv_assert = (\<lambda>a b. Inr VNil), sv_predefined = (\<lambda>s. None),
     sv_function = (\<lambda>v. None), sv_modifier = (\<lambda>v. None)\<rparr>"

definition storage_world0 :: "files exec_world" where
  "storage_world0 = \<lparr>
     xw_world = session_world\<lparr>wd_heap := write_cell 0 [(''body'', VStr ''hello'')] (wd_heap session_world),
       wd_ctxs := (\<lambda>c. empty_ctx\<lparr>cx_state := Some 0\<rparr>)\<rparr>,
     xw_table = [], xw_sessions = (\<lambda>s. new_session [] 0), xw_next = 0, xw_shell = []\<rparr>"

definition page0 :: resource where
  "page0 = new_resource ''mem://page'' []"

definition generate0 :: generate_request where
  "generate0 = \<lparr>gq_template = ''ab'', gq_line = [], gq_lines = 0, gq_size = 5, gq_size_mb = 0, gq_index = 0, gq_variable = [],
     gq_mode = 0, gq_dest = Some (new_resource ''mem://f$fileNo'' []), gq_count = 2, gq_background = False\<rparr>"

lemma generated_content_has_its_size_witness:
  "\<exists>s. generate_content storage_env0 0 generate0 storage_world0 = Inr ((Inr s, generate0), storage_world0) \<and> length s = 5"
proof -
  have "\<not> contains (gq_template generate0) ''$''" by code_simp
  then have "\<exists>s. generate_content storage_env0 0 generate0 storage_world0 = Inr ((Inr s, generate0), storage_world0) \<and>
      int (length s) = gq_size generate0"
    using generated_content_has_its_size [of generate0 storage_env0 0 storage_world0 0] by (simp add: generate0_def)
  then show ?thesis by (simp add: generate0_def)
qed

lemma generated_files_are_distinct_witness:
  "\<exists>files w'. generate_files storage_env0 0 ''mem://f$fileNo'' 0 2 generate0 storage_world0 = Inr (Inr files, w') \<and>
     length files = 2 \<and> distinct (map fst files)"
proof -
  have "(case generate_files storage_env0 0 ''mem://f$fileNo'' 0 2 generate0 storage_world0 of
      Inr (Inr files, w') \<Rightarrow> True | _ \<Rightarrow> False)" by code_simp
  then obtain files w' where
    "generate_files storage_env0 0 ''mem://f$fileNo'' 0 2 generate0 storage_world0 = Inr (Inr files, w')"
    by (auto split: sum.splits)
  moreover have "contains ''mem://f$fileNo'' file_number_expr" by code_simp
  ultimately show ?thesis using generated_files_are_distinct by blast
qed


end
