(* ===== verification/Deploy_Contract.thy ===== *)
theory Deploy_Contract
  imports Storage_Service
begin

text \<open>
  service/deployment/deploy/contract.go: the instructions of a deployment, their validation and
  the choice of the instruction for a system and a version.
\<close>

record deploy_request =
  dr_target :: "resource option"
  dr_meta_url :: string
  dr_app :: string
  dr_version :: string
  dr_variables :: "(string \<times> string) list"
  dr_force :: bool
  dr_base :: string

record dependency =
  dy_name :: string
  dy_version :: string

record addition =
  ad_super :: bool
  ad_auto_sudo :: bool
  ad_commands :: "string list"
  ad_transfers :: "copy_rule list"

record deployment =
  dm_pre :: "addition option"
  dm_transfer :: "copy_rule option"
  dm_run :: "extract_request option"
  dm_check :: "extract_request option"
  dm_post :: "addition option"

record target_meta =
  tm_version :: string
  tm_min_release :: "(string \<times> string) list"
  tm_os :: "os_target option"
  tm_deployment :: "deployment option"
  tm_dependencies :: "dependency list"

record deploy_meta =
  mt_name :: string
  mt_versioning :: string
  mt_targets :: "target_meta list"
  mt_base :: string

definition init_deploy_request :: "deploy_request \<Rightarrow> deploy_request" where
  "init_deploy_request q = q\<lparr>dr_target := Some (service_target (dr_target q))\<rparr>"

definition validate_deploy_request :: "deploy_request \<Rightarrow> go_error option" where
  "validate_deploy_request q =
     (if dr_target q = None then Some (PlainErr ''target host was nil'')
      else if dr_app q = [] then Some (PlainErr ''app name was empty'') else None)"

text \<open>
  The expansion keeps neither the variables nor the expanded target: the target is replaced
  only when its expansion failed, and then by nil.
\<close>

definition expand_deploy_request :: "'sh exec_env \<Rightarrow> nat \<Rightarrow> deploy_request \<Rightarrow> ('sh, deploy_request) xm" where
  "expand_deploy_request e c q =
     xbind (expand_in e c (dr_app q)) (\<lambda>app.
     xbind (expand_in e c (dr_version q)) (\<lambda>version.
     xbind (expand_in e c (dr_meta_url q)) (\<lambda>url.
     xbind (expand_target e c (dr_target q)) (\<lambda>t.
       xret \<lparr>dr_target = (case t of Inl _ \<Rightarrow> None | Inr _ \<Rightarrow> dr_target q), dr_meta_url = url, dr_app = app,
         dr_version = version, dr_variables = [], dr_force = dr_force q, dr_base = dr_base q\<rparr>))))"

section \<open>Validation\<close>

definition validate_deployment :: "deployment \<Rightarrow> go_error option" where
  "validate_deployment d =
     (case dm_transfer d of
        None \<Rightarrow> Some (PlainErr ''transfer was nil'')
      | Some r \<Rightarrow> map_option (\<lambda>err. PlainErr (''invaid deployment.tranfer: '' @ error_text err)) (validate_rule r))"

fun validate_targets :: "target_meta list \<Rightarrow> go_error option" where
  "validate_targets [] = None"
| "validate_targets (t # ts) =
     (case tm_deployment t of
        None \<Rightarrow> Some (PlainErr ''target.Deployment was empty'')
      | Some d \<Rightarrow> (case validate_deployment d of Some err \<Rightarrow> Some err | None \<Rightarrow> validate_targets ts))"

definition validate_meta :: "deploy_meta \<Rightarrow> go_error option" where
  "validate_meta m =
     (if mt_targets m = [] then Some (PlainErr ''targets were empty'') else validate_targets (mt_targets m))"

definition addition_request :: "resource \<Rightarrow> addition \<Rightarrow> exec_request" where
  "addition_request target a =
     (let q = new_exec_request (Some target) (ad_super a) (ad_commands a)
      in q\<lparr>xr_options := map_option (\<lambda>x. x\<lparr>eo_auto_sudo := ad_auto_sudo a\<rparr>) (xr_options q)\<rparr>)"

section \<open>Matching\<close>

definition match_version :: "string \<Rightarrow> string \<Rightarrow> bool" where
  "match_version expected actual =
     (let n = length expected; m = length actual
      in if n = 0 \<or> m = 0 then True
         else if m = n then expected = actual
         else if n < m then expected = take n actual
         else take m expected = actual)"

fun match_targets :: "toolbox \<Rightarrow> os_info \<Rightarrow> string \<Rightarrow> target_meta list \<Rightarrow> target_meta option" where
  "match_targets tb os version [] = None"
| "match_targets tb os version (t # ts) =
     (if tm_version t \<noteq> [] \<and> \<not> match_version version (tm_version t) then match_targets tb os version ts
      else if os_matches tb os (tm_os t) then Some t
      else match_targets tb os version ts)"

definition match_meta :: "toolbox \<Rightarrow> os_info \<Rightarrow> string \<Rightarrow> deploy_meta \<Rightarrow> target_meta option" where
  "match_meta tb os version m = match_targets tb os version (mt_targets m)"

section \<open>Properties\<close>

text \<open>Two versions match when one is a prefix of the other: \<open>1.1\<close> matches \<open>1.10\<close>.\<close>

lemma match_version_prefix: "match_version a b \<longleftrightarrow> prefix a b \<or> prefix b a"
proof -
  consider "length a < length b" | "length b < length a" | "length a = length b" by linarith
  then show ?thesis
  proof cases
    case 1
    then have "\<not> prefix b a" using prefix_length_le by (metis not_le)
    moreover have "prefix a b \<longleftrightarrow> a = take (length a) b"
      by (metis prefix_def append_eq_conv_conj append_take_drop_id)
    ultimately show ?thesis using 1 by (auto simp: match_version_def Let_def)
  next
    case 2
    then have "\<not> prefix a b" using prefix_length_le by (metis not_le)
    moreover have "prefix b a \<longleftrightarrow> take (length b) a = b"
      by (metis prefix_def append_eq_conv_conj append_take_drop_id)
    ultimately show ?thesis using 2 by (auto simp: match_version_def Let_def)
  next
    case 3
    then have "prefix a b \<longleftrightarrow> a = b" "prefix b a \<longleftrightarrow> a = b" by (auto simp: prefix_def)
    then show ?thesis using 3 by (auto simp: match_version_def Let_def)
  qed
qed

lemma match_targets_in:
  assumes "match_targets tb os version ts = Some t"
  shows "t \<in> set ts" "os_matches tb os (tm_os t)" "tm_version t = [] \<or> match_version version (tm_version t)"
  using assms by (induction tb os version ts rule: match_targets.induct) (auto split: if_splits)

lemma validate_targets_ready:
  assumes "validate_targets ts = None" "t \<in> set ts"
  obtains d r where "tm_deployment t = Some d" "dm_transfer d = Some r" "validate_rule r = None"
  using assms
proof (induction ts)
  case (Cons u us)
  then show ?case
    by (cases "t = u") (auto simp: validate_deployment_def split: option.splits)
qed simp

end
