(* ===== verification/Deploy_Service.thy ===== *)
theory Deploy_Service
  imports Deploy_Contract
begin

text \<open>
  service/deployment/deploy/service.go: the deployment of an application with its dependencies.
  The state is that of the command service with the registry of instructions and, for every
  session, the versions that were deployed and what else the services remember on it. The
  decoding of a file, the version of a system and the printing of locations and systems are
  parameters.
\<close>

datatype sdk_info = SdkInfo (si_home: string) (si_build: string) (si_session: string) (si_sdk: string) (si_version: string)

record 'sh deploy_world =
  dw_exec :: "'sh exec_world"
  dw_registry :: "(string \<times> deploy_meta) list"
  dw_deployed :: "nat \<Rightarrow> (string \<times> string) list"
  dw_sdks :: "nat \<Rightarrow> (string \<times> sdk_info) list"

record 'sh deploy_env =
  dv_storage :: "'sh storage_env"
  dv_decode :: "resource \<Rightarrow> 'sh \<Rightarrow> go_error + deploy_meta"
  dv_credentials :: "string \<Rightarrow> string"
  dv_os_version :: "nat \<Rightarrow> 'sh \<Rightarrow> string"
  dv_show_resource :: "resource \<Rightarrow> string"
  dv_show_os :: "os_info \<Rightarrow> string"

type_synonym ('sh, 'a) dm = "('sh deploy_world, 'a) effect"

definition dlift :: "('sh, 'a) xm \<Rightarrow> ('sh, 'a) dm" where
  "dlift m w = (case m (dw_exec w) of Inl s \<Rightarrow> Inl s | Inr (x, v) \<Rightarrow> Inr (x, w\<lparr>dw_exec := v\<rparr>))"

definition xcrash :: "string \<Rightarrow> ('s, 'a) effect" where
  "xcrash reason w = Inl (Crash reason)"

abbreviation dv_exec :: "'sh deploy_env \<Rightarrow> 'sh exec_env" where
  "dv_exec e \<equiv> sv_exec (dv_storage e)"

abbreviation dv_tb :: "'sh deploy_env \<Rightarrow> toolbox" where
  "dv_tb e \<equiv> sv_tb (dv_storage e)"

abbreviation dv_urls :: "'sh deploy_env \<Rightarrow> urls" where
  "dv_urls e \<equiv> sv_urls (dv_storage e)"

definition dput :: "'sh deploy_env \<Rightarrow> nat \<Rightarrow> string \<Rightarrow> value \<Rightarrow> ('sh, unit) dm" where
  "dput e a k v = dlift (xlift (on_heap (tb_put (dv_tb e) a k v)))"

definition dstate :: "'sh deploy_env \<Rightarrow> nat \<Rightarrow> ('sh, nat) dm" where
  "dstate e c = dlift (state_of (dv_storage e) c)"

definition dnew :: "smap \<Rightarrow> ('sh, nat) dm" where
  "dnew m = dlift (xlift (new_map m))"

section \<open>Sessions\<close>

definition call_open ::
  "'sh exec_env \<Rightarrow> nat \<Rightarrow> resource \<Rightarrow> (string \<times> string) list \<Rightarrow> ('sh, go_error + nat) xm" where
  "call_open e c target env =
     (let q = \<lparr>oq_target = Some target, oq_system_paths = [], oq_env = env, oq_transient = False\<rparr>
      in call_service c ''exec'' ''open'' (map_option (validation_failed ''*exec.OpenSessionRequest'') (validate_open_request q))
           (open_session e c q))"

text \<open>\<open>TerminalSession\<close>: a session that was opened under another identity is not found, so it is nil.\<close>

definition terminal_session :: "'sh exec_env \<Rightarrow> nat \<Rightarrow> resource \<Rightarrow> ('sh, go_error + nat option) xm" where
  "terminal_session e c target =
     (let sid = session_id e target
      in xbind (xget xw_table) (\<lambda>table.
         case mget table sid of
           Some s \<Rightarrow> xret (Inr (Some s))
         | None \<Rightarrow> xtry (call_open e c target []) (\<lambda>_. xbind (xget xw_table) (\<lambda>table'. xret (Inr (mget table' sid))))))"

definition deployed_key :: "urls \<Rightarrow> string \<Rightarrow> resource \<Rightarrow> string" where
  "deployed_key u app target = app @ res_path u target"

definition check_on_session :: "'sh deploy_env \<Rightarrow> nat \<Rightarrow> resource \<Rightarrow> deploy_request \<Rightarrow> ('sh, bool) dm" where
  "check_on_session e c target q =
     xbind (dlift (terminal_session (dv_exec e) c target)) (\<lambda>r.
       case r of
         Inl _ \<Rightarrow> xret False
       | Inr None \<Rightarrow> xcrash ''nil pointer dereference''
       | Inr (Some s) \<Rightarrow> xget (\<lambda>w.
           case mget (dw_deployed w s) (deployed_key (dv_urls e) (dr_app q) target) of
             None \<Rightarrow> False
           | Some v \<Rightarrow> if v = [] \<and> dr_version q = [] then True else match_version (dr_version q) v))"

definition update_session :: "'sh deploy_env \<Rightarrow> nat \<Rightarrow> resource \<Rightarrow> string \<Rightarrow> string \<Rightarrow> ('sh, go_error option) dm" where
  "update_session e c target app version =
     xbind (dlift (terminal_session (dv_exec e) c target)) (\<lambda>r.
       case r of
         Inl err \<Rightarrow> xret (Some err)
       | Inr None \<Rightarrow> xcrash ''nil pointer dereference''
       | Inr (Some s) \<Rightarrow>
           xseq (xmod (\<lambda>w. w\<lparr>dw_deployed := (dw_deployed w)(s :=
                   mput (deployed_key (dv_urls e) app target) version (dw_deployed w s))\<rparr>))
             (xret None))"

definition operating_system :: "'sh deploy_env \<Rightarrow> string \<Rightarrow> ('sh, os_info option) dm" where
  "operating_system e sid = xget (\<lambda>w.
     case mget (xw_table (dw_exec w)) sid of
       None \<Rightarrow> None
     | Some s \<Rightarrow>
         let conn = ss_conn (xw_sessions (dw_exec w) s);
             f = sh_facts (xe_shells (dv_exec e)) conn (xw_shell (dw_exec w))
         in Some \<lparr>os_name = sf_name f, os_system = sf_system f, os_architecture = sf_architecture f,
                   os_version = dv_os_version e conn (xw_shell (dw_exec w))\<rparr>)"

definition match_deployment ::
  "'sh deploy_env \<Rightarrow> nat \<Rightarrow> string \<Rightarrow> resource \<Rightarrow> deploy_meta \<Rightarrow> ('sh, go_error + target_meta) dm" where
  "match_deployment e c version target m =
     xbind (dlift (call_open (dv_exec e) c target [])) (\<lambda>r.
       case r of
         Inl err \<Rightarrow> xret (Inl (PlainErr (error_text err)))
       | Inr _ \<Rightarrow>
           xbind (operating_system e (session_id (dv_exec e) target)) (\<lambda>os.
             case os of
               None \<Rightarrow> xret (Inl (PlainErr (''failed to detect operating system on '' @ res_hostname (dv_urls e) target)))
             | Some s \<Rightarrow>
                 xret (case match_meta (dv_tb e) s version m of
                   None \<Rightarrow> Inl (PlainErr (''failed to match '' @ [char_of (39::nat)] @ mt_name m @ [char_of (39::nat)] @
                            '' deployment with operating system '' @ dv_show_os e s @ '' and version '' @ version))
                 | Some t \<Rightarrow> Inr t)))"

definition update_operating_system :: "'sh deploy_env \<Rightarrow> nat \<Rightarrow> resource \<Rightarrow> ('sh, unit) dm" where
  "update_operating_system e c target =
     xbind (xget (\<lambda>w. mget (xw_table (dw_exec w)) (session_id (dv_exec e) target))) (\<lambda>r.
       case r of
         None \<Rightarrow> xret ()
       | Some s \<Rightarrow>
           xbind (xget (\<lambda>w. let conn = ss_conn (xw_sessions (dw_exec w) s); sh = xw_shell (dw_exec w)
                            in (sh_facts (xe_shells (dv_exec e)) conn sh, dv_os_version e conn sh))) (\<lambda>(f, version).
           xbind (dnew [(''System'', VStr (sf_system f)), (''Architecture'', VStr (sf_architecture f)),
             (''Arch'', VStr (sf_arch f)), (''Version'', VStr version), (''Hardware'', VStr (sf_hardware f))]) (\<lambda>a.
           xbind (dstate e c) (\<lambda>st. dput e st ''os'' (VRef a)))))"

text \<open>The key \<open>deploy\<close> of the state is replaced by the settings of the current target.\<close>

definition deploy_settings :: "urls \<Rightarrow> resource \<Rightarrow> (string \<times> string) list \<Rightarrow> smap" where
  "deploy_settings u target variables =
     mput_all (map (apsnd VStr) variables)
       [(''target'', VMap [(''host'', VStr (res_hostname u target)), (''URL'', VStr (r_url target)),
          (''credentials'', VStr (if r_credentials target = [] then ''localhost'' else r_credentials target))])]"

definition update_deploy_state :: "'sh deploy_env \<Rightarrow> nat \<Rightarrow> resource \<Rightarrow> (string \<times> string) list \<Rightarrow> ('sh, unit) dm" where
  "update_deploy_state e c target variables =
     xbind (dstate e c) (\<lambda>st.
     xbind (dnew (deploy_settings (dv_urls e) target variables)) (\<lambda>a. dput e st ''deploy'' (VRef a)))"

section \<open>Instructions\<close>

definition load_meta :: "'sh deploy_env \<Rightarrow> nat \<Rightarrow> resource option \<Rightarrow> ('sh, go_error + deploy_meta) dm" where
  "load_meta e c source =
     xtry (dlift (expand_target (dv_exec e) c source)) (\<lambda>r.
     xbind (dlift (world_read (dv_decode e r))) (\<lambda>m.
       case m of
         Inl err \<Rightarrow> xret (Inl (PlainErr (''unable to decode: '' @ r_url r @ '', '' @ error_text err)))
       | Inr m \<Rightarrow>
           (case validate_meta m of
              Some err \<Rightarrow> xret (Inl (PlainErr (''failed to validate deployment meta: '' @ r_url r @ '' '' @ error_text err)))
            | None \<Rightarrow> xseq (xmod (\<lambda>w. w\<lparr>dw_registry := mput (mt_name m) m (dw_registry w)\<rparr>)) (xret (Inr m)))))"

definition repo_resource :: "'sh storage_env \<Rightarrow> nat \<Rightarrow> string \<Rightarrow> ('sh, go_error + resource) xm" where
  "repo_resource e c uri =
     xbind (expander e c) (\<lambda>ex. world_read (\<lambda>sh.
       let u = ex uri; fs = sv_afs e False; there = af_exists fs u sh;
           url = url_join (sv_urls e) ''mem://github.com/viant/endly'' u
       in if there = Inr True then Inr (new_resource u [])
          else if af_exists fs url sh = Inr True then Inr (new_resource url [])
          else case there of Inl err \<Rightarrow> Inl err | Inr _ \<Rightarrow> Inr (new_resource u [])))"

text \<open>The location of the workflow that runs gives the credentials; without a location it is nil.\<close>

definition workflow_credentials :: "'sh deploy_env \<Rightarrow> nat \<Rightarrow> ('sh, string) dm" where
  "workflow_credentials e c =
     xbind (xget (\<lambda>w. let v = xw_world (dw_exec w)
              in map_option (\<lambda>p. pr_source (wd_procs v p))
                   (processes_last_workflow (\<lambda>p. pr_workflow (wd_procs v p) \<noteq> None) (wd_stack v)))) (\<lambda>r.
       case r of
         None \<Rightarrow> xret []
       | Some None \<Rightarrow> xcrash ''nil pointer dereference''
       | Some (Some url) \<Rightarrow> xret (dv_credentials e url))"

definition meta_url :: "'sh deploy_env \<Rightarrow> nat \<Rightarrow> string \<Rightarrow> string \<Rightarrow> ('sh, go_error + string) dm" where
  "meta_url e c url uri =
     (if url \<noteq> [] then xret (Inr url)
      else xtry (dlift (repo_resource (dv_storage e) c uri)) (\<lambda>r. xret (Inr (r_url r))))"

definition get_meta :: "'sh deploy_env \<Rightarrow> nat \<Rightarrow> deploy_request \<Rightarrow> ('sh, go_error + deploy_meta) dm" where
  "get_meta e c q =
     xbind (xget (\<lambda>w. mget (dw_registry w) (dr_app q))) (\<lambda>r.
       case r of
         Some m \<Rightarrow> xret (Inr m)
       | None \<Rightarrow>
           xtry (meta_url e c (dr_meta_url q) (''meta/deployment/'' @ dr_app q @ ''.json'')) (\<lambda>url.
           xbind (workflow_credentials e c) (\<lambda>cred.
             load_meta e c (Some (new_resource url [with_credentials cred])))))"

section \<open>Checks\<close>

text \<open>\<open>extractVersion\<close>: a command extracts the key \<open>Version\<close>; a value that is no text panics.\<close>

definition extract_version ::
  "'sh deploy_env \<Rightarrow> nat \<Rightarrow> nat \<Rightarrow> resource \<Rightarrow> deployment \<Rightarrow> ('sh, go_error + string) dm" where
  "extract_version e n c target d =
     (case dm_check d of
        None \<Rightarrow> xret (Inr [])
      | Some q \<Rightarrow>
          xtry (dlift (call_exec_extract (dv_exec e) n c (clone_extract_request (Some target) q))) (\<lambda>resp.
          xbind (xget (\<lambda>w. mget (cell (wd_heap (xw_world (dw_exec w))) (rr_data resp)) ''Version'')) (\<lambda>v.
            case v of
              None \<Rightarrow> xret (Inr [])
            | Some (VStr s) \<Rightarrow> xret (Inr s)
            | Some _ \<Rightarrow> xcrash ''interface conversion'')))"

definition check_on_system ::
  "'sh deploy_env \<Rightarrow> nat \<Rightarrow> nat \<Rightarrow> resource \<Rightarrow> target_meta \<Rightarrow> deploy_request \<Rightarrow> ('sh, go_error + bool) dm" where
  "check_on_system e n c target t q =
     (case tm_deployment t of
        None \<Rightarrow> xcrash ''nil pointer dereference''
      | Some d \<Rightarrow>
          if dm_check d \<noteq> None then
            xtry (extract_version e n c target d) (\<lambda>actual.
              xret (Inr (actual \<noteq> [] \<and> match_version (dr_version q) actual)))
          else
            (case dm_transfer d of
               None \<Rightarrow> xcrash ''nil pointer dereference''
             | Some r \<Rightarrow>
                 xtry (dlift (resource_with_options (dv_storage e) c (cr_dest r))) (\<lambda>dest.
                 xtry (dlift (storage_service (dv_storage e) c [dest])) (\<lambda>fs.
                   dlift (world_read (af_exists fs (r_url dest)))))))"

definition deploy_addition ::
  "'sh deploy_env \<Rightarrow> nat \<Rightarrow> nat \<Rightarrow> resource \<Rightarrow> addition option \<Rightarrow> ('sh, go_error + unit) dm" where
  "deploy_addition e n c target a =
     (case a of
        None \<Rightarrow> xret (Inr ())
      | Some x \<Rightarrow>
          xtry (if ad_commands x = [] then xret (Inr ())
                else xbind (dlift (call_exec_run (dv_exec e) n c (addition_request target x))) (\<lambda>r.
                  xret (case r of
                    Inl err \<Rightarrow> Inl (PlainErr (''failed to init deploy app to '' @ dv_show_resource e target @ '': '' @ error_text err))
                  | Inr _ \<Rightarrow> Inr ()))) (\<lambda>_.
          if ad_transfers x = [] then xret (Inr ())
          else xbind (dlift (call_copy (dv_storage e) n c (ad_transfers x))) (\<lambda>r.
            xret (case r of Inl err \<Rightarrow> Inl (PlainErr (''failed to init deploy: '' @ error_text err)) | Inr _ \<Rightarrow> Inr ()))))"

end
