(* ===== verification/Daemon_Service.thy ===== *)
theory Daemon_Service
  imports Deploy_Service Templates
begin

text \<open>
  service/system/daemon: the state of a system service, and starting and stopping it, with the
  service manager of the host. Which manager a host has is remembered on its session
  (\<open>dn_types\<close>). The texts of the patterns that contain box drawing characters are a parameter.
\<close>

datatype daemon_type = DaemonError | InitDaemon | LaunchCtl | StdService | Systemctl

record daemon_info =
  di_service :: string
  di_path :: string
  di_pid :: int
  di_type :: daemon_type
  di_domain :: string
  di_state :: string
  di_launched :: bool

record daemon_request =
  dq_target :: "resource option"
  dq_service :: string
  dq_exclusion :: string

record 'sh daemon_world =
  dn_exec :: "'sh exec_world"
  dn_types :: "nat \<Rightarrow> daemon_type"

record 'sh daemon_env =
  de_exec :: "'sh exec_env"
  de_extracts :: "extraction list"

type_synonym ('sh, 'a) nm = "('sh daemon_world, 'a) effect"

definition nlift :: "('sh, 'a) xm \<Rightarrow> ('sh, 'a) nm" where
  "nlift m w = (case m (dn_exec w) of Inl s \<Rightarrow> Inl s | Inr (x, v) \<Rightarrow> Inr (x, w\<lparr>dn_exec := v\<rparr>))"

abbreviation de_io :: "'sh daemon_env \<Rightarrow> storage" where
  "de_io e \<equiv> en_io (xe_engine (de_exec e))"

abbreviation de_tb :: "'sh daemon_env \<Rightarrow> toolbox" where
  "de_tb e \<equiv> en_tb (xe_engine (de_exec e))"

definition is_active :: "daemon_info \<Rightarrow> bool" where
  "is_active i \<longleftrightarrow> to_lower (di_state i) = ''running''"

text \<open>A command with options, and its whole output.\<close>

definition daemon_command ::
  "'sh daemon_env \<Rightarrow> nat \<Rightarrow> nat \<Rightarrow> resource \<Rightarrow> exec_options \<Rightarrow> extract_command list \<Rightarrow> ('sh, go_error + (string \<times> smap)) nm" where
  "daemon_command e n c target opts commands =
     xtry (nlift (call_exec_extract (de_exec e) n c
        \<lparr>xq_target = Some target, xq_options = Some opts, xq_commands = Some commands\<rparr>)) (\<lambda>resp.
     xbind (xget (\<lambda>w. cell (wd_heap (xw_world (dn_exec w))) (rr_data resp))) (\<lambda>m.
       xret (Inr (join crlf (map cl_stdout (rr_cmd resp)), m))))"

definition plain_command :: "string \<Rightarrow> extract_command" where
  "plain_command command = new_extract_command command [] [] [] []"

section \<open>The manager of a host\<close>

fun try_managers ::
  "'sh daemon_env \<Rightarrow> nat \<Rightarrow> nat \<Rightarrow> resource \<Rightarrow> nat \<Rightarrow> (daemon_type \<times> string) list \<Rightarrow> ('sh, daemon_type) nm" where
  "try_managers e n c target s [] = xret DaemonError"
| "try_managers e n c target s ((t, command) # xs) =
     xbind (daemon_command e n c target default_options [plain_command command]) (\<lambda>r.
       case r of
         Inl _ \<Rightarrow> xret DaemonError
       | Inr (stdout, _) \<Rightarrow>
           if \<not> no_such_file [stdout] \<and> \<not> command_not_found [stdout]
           then xseq (xmod (\<lambda>w. w\<lparr>dn_types := (dn_types w)(s := t)\<rparr>)) (xret t)
           else try_managers e n c target s xs)"

definition determine_service_type :: "'sh daemon_env \<Rightarrow> nat \<Rightarrow> nat \<Rightarrow> resource \<Rightarrow> ('sh, go_error + daemon_type) nm" where
  "determine_service_type e n c target =
     xtry (nlift (terminal_session (de_exec e) c target)) (\<lambda>r.
       case r of
         None \<Rightarrow> xcrash ''nil pointer dereference''
       | Some s \<Rightarrow>
           xbind (xget (\<lambda>w. dn_types w s)) (\<lambda>t.
             if t \<noteq> DaemonError then xret (Inr t)
             else xbind (try_managers e n c target s [(LaunchCtl, ''launchctl version''), (StdService, ''service --version''),
                    (Systemctl, ''systemctl --version'')]) (\<lambda>t'. xret (Inr t'))))"

section \<open>Reading the state\<close>

text \<open>The extracted state and path are texts; other values panic.\<close>

definition state_of_output :: "storage \<Rightarrow> string \<Rightarrow> string" where
  "state_of_output io v =
     (let s = vt_clean io v False
      in if contains s ''inactive'' then ''not running'' else if contains s ''active'' then ''running'' else s)"

text \<open>
  Without an extracted state the output is looked at. The columns are taken of the state that
  was just set, and not of the output.
\<close>

definition state_from_stdout :: "storage \<Rightarrow> toolbox \<Rightarrow> string \<Rightarrow> daemon_info \<Rightarrow> daemon_info" where
  "state_from_stdout io tb stdout i =
     (let text = vt_clean io stdout False
      in if contains text ''start/running'' then
           (let i1 = i\<lparr>di_state := ''running''\<rparr>
            in case extract_columns io (di_state i1) of (cols, ok) \<Rightarrow>
                 if ok \<and> cols \<noteq> [] then i1\<lparr>di_pid := as_int tb (VStr (last cols))\<rparr> else i1)
         else if contains text ''stop/waiting'' then i\<lparr>di_state := ''not running''\<rparr> else i)"

definition extract_service_info :: "storage \<Rightarrow> toolbox \<Rightarrow> string \<Rightarrow> smap \<Rightarrow> daemon_info \<Rightarrow> go_error + daemon_info" where
  "extract_service_info io tb stdout m i0 =
     (let i1 = (case mget m ''pid'' of None \<Rightarrow> i0 | Some v \<Rightarrow> i0\<lparr>di_pid := as_int tb v\<rparr>);
          text = (\<lambda>k. case mget m k of None \<Rightarrow> Inr None | Some (VStr s) \<Rightarrow> Inr (Some s)
                       | Some _ \<Rightarrow> Inl (Panicked ''interface conversion''))
      in ebind (text ''state'') (\<lambda>st.
         ebind (text ''path'') (\<lambda>p.
           let i2 = (case st of None \<Rightarrow> i1 | Some s \<Rightarrow> i1\<lparr>di_state := state_of_output io s\<rparr>);
               i3 = (case p of None \<Rightarrow> i2 | Some s \<Rightarrow> i2\<lparr>di_path := s\<rparr>)
           in Inr (if di_state i3 = [] then state_from_stdout io tb stdout i3 else i3))))"

text \<open>The lines of \<open>launchctl list\<close>: the last one with a process wins, and then the last one.\<close>

definition launch_line :: "storage \<Rightarrow> toolbox \<Rightarrow> string \<Rightarrow> daemon_info \<Rightarrow> daemon_info" where
  "launch_line io tb line i =
     (case extract_columns io line of (cols, ok) \<Rightarrow>
        if \<not> ok \<or> cols = [] then i
        else (let pid = as_int tb (VStr (hd cols))
              in if 0 < di_pid i \<and> pid = 0 then i
                 else i\<lparr>di_pid := pid, di_domain := last cols, di_launched := True\<rparr>))"

definition darwin_info ::
  "'sh daemon_env \<Rightarrow> nat \<Rightarrow> nat \<Rightarrow> resource \<Rightarrow> daemon_request \<Rightarrow> daemon_info \<Rightarrow> ('sh, go_error + daemon_info) nm" where
  "darwin_info e n c target q i =
     (let exclusion = (if dq_exclusion q = [] then [] else '' | grep -v '' @ dq_exclusion q);
          pattern = dq_service q @ '' '' @ exclusion
      in xtry (daemon_command e n c target default_options [plain_command (''ls /Library/LaunchDaemons/ | grep '' @ pattern)]) (\<lambda>(out, _).
         let file = trim_space out;
             i1 = (if file = [] then i else i\<lparr>di_path := path_join [''/Library/LaunchDaemons/'', file]\<rparr>)
         in xtry (daemon_command e n c target default_options [plain_command (''launchctl list | grep '' @ pattern)]) (\<lambda>(out2, _).
              xret (Inr (fold (launch_line (de_io e) (de_tb e)) (split_on [char_of (10::nat)] out2) i1)))))"

section \<open>Status\<close>

definition domain_missing :: "daemon_info \<Rightarrow> bool" where
  "domain_missing i \<longleftrightarrow> (di_path i = [] \<or> di_domain i = []) \<and> di_type i = LaunchCtl"

definition info_of :: "go_error + 'a \<Rightarrow> ('sh, go_error + 'a) nm" where
  "info_of r = (case r of Inl (Panicked s) \<Rightarrow> xcrash s | Inl err \<Rightarrow> xret (Inl err) | Inr i \<Rightarrow> xret (Inr i))"

definition backslashed :: "string \<Rightarrow> string" where
  "backslashed s = concat (map (\<lambda>ch. if ch = CHR ''~'' then [char_of (92::nat)] else [ch]) s)"

text \<open>The command that shows the state, or the state itself on a launchctl host.\<close>

definition determine_check_command ::
  "'sh daemon_env \<Rightarrow> nat \<Rightarrow> nat \<Rightarrow> resource \<Rightarrow> daemon_info \<Rightarrow> ('sh, go_error + (string \<times> daemon_info)) nm" where
  "determine_check_command e n c target i =
     (case di_type i of
        DaemonError \<Rightarrow> xret (Inl (PlainErr ''unknown daemon service type''))
      | LaunchCtl \<Rightarrow>
          if di_pid i \<le> 0 then xret (Inr ([], i))
          else xtry (daemon_command e n c target (default_options\<lparr>eo_super := True\<rparr>)
                 [new_extract_command (''launchctl procinfo '' @ show_int (di_pid i)) [] [] [''Unrecognized'']
                    [new_extract ''path'' (backslashed ''program path[~s|~t]+=[~s|~t]+([^~s]+)'') False False,
                     new_extract ''state'' ''state = (running)'' False False]]) (\<lambda>(out, m).
               xtry (info_of (extract_service_info (de_io e) (de_tb e) out m i)) (\<lambda>i'. xret (Inr ([], i'))))
      | Systemctl \<Rightarrow> xret (Inr (''systemctl status '' @ di_service i @ '' '', i))
      | StdService \<Rightarrow> xret (Inr (''service '' @ di_service i @ '' status'', i))
      | InitDaemon \<Rightarrow> xret (Inr (di_service i @ '' status'', i)))"

definition daemon_options :: "daemon_type \<Rightarrow> exec_options \<Rightarrow> exec_options" where
  "daemon_options t opts = (if t = LaunchCtl then opts else opts\<lparr>eo_super := True\<rparr>)"

definition show_state ::
  "'sh daemon_env \<Rightarrow> nat \<Rightarrow> nat \<Rightarrow> resource \<Rightarrow> string \<Rightarrow> daemon_info \<Rightarrow> ('sh, go_error + daemon_info) nm" where
  "show_state e n c target command i =
     xtry (daemon_command e n c target (daemon_options (di_type i) (default_options\<lparr>eo_terminators := [''(END)'']\<rparr>))
        [new_extract_command command [] [] [] (de_extracts e), new_extract_command ''Q'' ''(END)'' [] [] []]) (\<lambda>(out, m).
       info_of (extract_service_info (de_io e) (de_tb e) out m i))"

definition check_service :: "'sh daemon_env \<Rightarrow> nat \<Rightarrow> nat \<Rightarrow> daemon_request \<Rightarrow> ('sh, go_error + daemon_info) nm" where
  "check_service e n c q =
     (if dq_service q = [] then xret (Inl (PlainErr ''service was empty''))
      else
        xtry (nlift (expand_target (de_exec e) c (dq_target q))) (\<lambda>target.
        xtry (determine_service_type e n c target) (\<lambda>t.
        let i = \<lparr>di_service = dq_service q, di_path = [], di_pid = 0, di_type = t, di_domain = [], di_state = [], di_launched = False\<rparr>
        in xtry (if t = LaunchCtl then darwin_info e n c target q i else xret (Inr i)) (\<lambda>i1.
           if domain_missing i1 then xret (Inr i1)
           else xtry (determine_check_command e n c target i1) (\<lambda>(command, i2).
             if command = [] then xret (Inr i2) else show_state e n c target command i2)))))"

section \<open>Starting and stopping\<close>

definition service_command :: "string \<Rightarrow> daemon_info \<Rightarrow> string" where
  "service_command verb i =
     (case di_type i of
        Systemctl \<Rightarrow> ''systemctl '' @ verb @ '' '' @ di_service i @ '' ''
      | StdService \<Rightarrow> ''service '' @ di_service i @ '' '' @ verb
      | InitDaemon \<Rightarrow> di_service i @ '' '' @ verb
      | LaunchCtl \<Rightarrow> ''launchctl '' @ verb @ (if verb = ''stop'' then ''  '' else '' '') @ di_domain i
      | DaemonError \<Rightarrow> [])"

definition run_manager ::
  "'sh daemon_env \<Rightarrow> nat \<Rightarrow> nat \<Rightarrow> resource \<Rightarrow> string \<Rightarrow> daemon_info \<Rightarrow> ('sh, go_error + unit) nm" where
  "run_manager e n c target verb i =
     xtry (daemon_command e n c target (daemon_options (di_type i) default_options) [plain_command (service_command verb i)]) (\<lambda>(out, _).
       xret (if command_not_found [out] then Inl (PlainErr out) else Inr ()))"

definition unknown_type :: go_error where
  "unknown_type = PlainErr ''Unknown daemon service type''"

definition stop_service :: "'sh daemon_env \<Rightarrow> nat \<Rightarrow> nat \<Rightarrow> daemon_request \<Rightarrow> ('sh, go_error + daemon_info) nm" where
  "stop_service e n c q =
     xtry (check_service e n c q) (\<lambda>i.
       if \<not> is_active i then xret (Inr i)
       else
         xtry (nlift (expand_target (de_exec e) c (dq_target q))) (\<lambda>target.
           if di_type i = DaemonError then xret (Inl unknown_type)
           else xtry (run_manager e n c target ''stop'' i) (\<lambda>_. check_service e n c q)))"

text \<open>
  A launchctl service is loaded first when it was not. The error of the second look is dropped,
  and its result is nil then.
\<close>

definition load_launchctl ::
  "'sh daemon_env \<Rightarrow> nat \<Rightarrow> nat \<Rightarrow> resource \<Rightarrow> daemon_request \<Rightarrow> daemon_info \<Rightarrow> ('sh, go_error + daemon_info) nm" where
  "load_launchctl e n c target q i =
     xtry (if di_launched i then xret (Inr ())
           else xtry (daemon_command e n c target default_options [plain_command (''launchctl load -F '' @ di_path i)]) (\<lambda>_. xret (Inr ()))) (\<lambda>_.
     xbind (check_service e n c q) (\<lambda>r.
       case r of Inl _ \<Rightarrow> xcrash ''nil pointer dereference'' | Inr i' \<Rightarrow> xret (Inr i')))"

definition start_service :: "'sh daemon_env \<Rightarrow> nat \<Rightarrow> nat \<Rightarrow> daemon_request \<Rightarrow> ('sh, go_error + daemon_info) nm" where
  "start_service e n c q =
     xtry (check_service e n c q) (\<lambda>i.
       if is_active i then xret (Inr i)
       else
         xtry (nlift (expand_target (de_exec e) c (dq_target q))) (\<lambda>target.
           if di_type i = DaemonError then xret (Inl unknown_type)
           else
             xtry (if di_type i = LaunchCtl then load_launchctl e n c target q i else xret (Inr i)) (\<lambda>i1.
             xtry (run_manager e n c target ''start'' i1) (\<lambda>_.
             xtry (check_service e n c q) (\<lambda>i2.
               xret (if is_active i2 then Inr i2 else Inl (PlainErr (dq_service q @ '' service is inactive''))))))))"

end
