(* ===== verification/Process_Service.thy ===== *)
theory Process_Service
  imports Storage_Service Templates
begin

text \<open>
  service/system/process: starting, finding and stopping processes with \<open>ps\<close> and \<open>kill\<close>. The local
  files that a started process writes to are read and removed by parameters.
\<close>

record 'sh process_env =
  pv_exec :: "'sh exec_env"
  pv_read :: "string \<Rightarrow> 'sh \<Rightarrow> go_error + string"
  pv_remove :: "string \<Rightarrow> 'sh \<Rightarrow> 'sh"

abbreviation pv_io :: "'sh process_env \<Rightarrow> storage" where
  "pv_io e \<equiv> en_io (xe_engine (pv_exec e))"

abbreviation pv_tb :: "'sh process_env \<Rightarrow> toolbox" where
  "pv_tb e \<equiv> en_tb (xe_engine (pv_exec e))"

record start_request =
  ps_target :: "resource option"
  ps_command :: string
  ps_options :: "exec_options option"
  ps_arguments :: "string list"
  ps_as_super :: bool
  ps_immune :: bool
  ps_watch :: bool

record status_request =
  pt_target :: "resource option"
  pt_command :: string
  pt_exact :: bool

record stop_request =
  po_target :: "resource option"
  po_pid :: int
  po_signal :: string
  po_input :: string

record process_info =
  pi_name :: string
  pi_pid :: int
  pi_command :: string
  pi_arguments :: "string list"
  pi_stdin :: string
  pi_stdout :: string

record start_response =
  pr_info :: "process_info list"
  pr_pid :: int
  pr_stdout :: string

definition init_start_request :: "start_request \<Rightarrow> start_request" where
  "init_start_request q = q\<lparr>ps_target := Some (service_target (ps_target q))\<rparr>"

definition new_stop_request :: "int \<Rightarrow> resource option \<Rightarrow> stop_request" where
  "new_stop_request pid t = \<lparr>po_target = t, po_pid = pid, po_signal = [], po_input = []\<rparr>"

definition new_status_request :: "string \<Rightarrow> resource option \<Rightarrow> status_request" where
  "new_status_request command t = \<lparr>pt_target = t, pt_command = command, pt_exact = False\<rparr>"

section \<open>Finding processes\<close>

definition ps_command_line :: "string \<Rightarrow> string" where
  "ps_command_line command =
     (if contains command '' '' \<and> \<not> contains command ''|''
      then ''ps -ef | grep '' @ [char_of (39::nat)] @ command @ [char_of (39::nat)]
      else ''ps -ef | grep '' @ command)"

text \<open>
  A line belongs to the command when the last occurrence of the command is followed by a
  separator. One character that follows at the very end is not looked at.
\<close>

definition command_ends_in :: "string \<Rightarrow> string \<Rightarrow> bool" where
  "command_ends_in command line =
     (case last_index_of line command of
        None \<Rightarrow> False
      | Some i \<Rightarrow>
          let k = i + length command
          in \<not> (k + 1 < length line \<and> line ! k \<notin> {CHR '' '', char_of (9::nat), CHR ''.'', CHR ''/''}))"

text \<open>The name is the first column that contains the command, and the arguments are those after it.\<close>

fun name_and_arguments :: "string \<Rightarrow> string list \<Rightarrow> string \<times> string list" where
  "name_and_arguments command [] = ([], [])"
| "name_and_arguments command (c # cs) = (if contains c command then (c, cs) else name_and_arguments command cs)"

definition process_of_columns :: "toolbox \<Rightarrow> string \<Rightarrow> string list \<Rightarrow> process_info option" where
  "process_of_columns tb command cols =
     (let pid = as_int tb (VStr (cols ! 1)); (name, args) = name_and_arguments command cols
      in if length cols < 3 \<or> pid = 0 then None
         else Some \<lparr>pi_name = name, pi_pid = pid, pi_command = command, pi_arguments = args,
                pi_stdin = ps_command_line command, pi_stdout = join '' '' cols\<rparr>)"

definition process_of_line :: "storage \<Rightarrow> toolbox \<Rightarrow> bool \<Rightarrow> string \<Rightarrow> string \<Rightarrow> process_info option" where
  "process_of_line io tb exact command line0 =
     (let line = vt_clean io line0 False
      in if contains line ''grep'' then None
         else if \<not> exact \<and> \<not> command_ends_in command line then None
         else (case extract_columns io (trim_space line) of (cols, ok) \<Rightarrow>
           if ok then process_of_columns tb command cols else None))"

definition processes_of_output :: "storage \<Rightarrow> toolbox \<Rightarrow> bool \<Rightarrow> string \<Rightarrow> string \<Rightarrow> process_info list" where
  "processes_of_output io tb exact command stdout =
     List.map_filter (process_of_line io tb exact command)
       (split_on [char_of (10::nat)] (filter (\<lambda>ch. ch \<noteq> char_of (13::nat)) stdout))"

definition check_process :: "'sh process_env \<Rightarrow> nat \<Rightarrow> nat \<Rightarrow> status_request \<Rightarrow> ('sh, go_error + process_info list) xm" where
  "check_process e n c q =
     xtry (call_exec_extract (pv_exec e) n c \<lparr>xq_target = pt_target q, xq_options = Some default_options,
             xq_commands = Some [new_extract_command (ps_command_line (pt_command q)) [] [] [] []]\<rparr>) (\<lambda>resp.
       xret (Inr (processes_of_output (pv_io e) (pv_tb e) (pt_exact q) (pt_command q)
         (join crlf (map cl_stdout (rr_cmd resp))))))"

section \<open>Stopping\<close>

definition stop_pid :: "'sh process_env \<Rightarrow> nat \<Rightarrow> nat \<Rightarrow> resource option \<Rightarrow> string \<Rightarrow> int \<Rightarrow> ('sh, go_error + string) xm" where
  "stop_pid e n c target signal pid =
     xtry (call_exec_extract (pv_exec e) n c \<lparr>xq_target = Some (service_target target),
             xq_options = Some (default_options\<lparr>eo_auto_sudo := True\<rparr>),
             xq_commands = Some [new_extract_command (''kill -'' @ (if signal = [] then ''9'' else signal) @ '' '' @ show_int pid)
               [] [] [] []]\<rparr>) (\<lambda>resp.
       xret (Inr (join crlf (map cl_stdout (rr_cmd resp)))))"

fun stop_each ::
  "'sh process_env \<Rightarrow> nat \<Rightarrow> nat \<Rightarrow> resource option \<Rightarrow> string \<Rightarrow> process_info list \<Rightarrow> string \<Rightarrow> ('sh, go_error + string) xm" where
  "stop_each e n c target signal [] out = xret (Inr out)"
| "stop_each e n c target signal (p # ps) out =
     xtry (stop_pid e n c target signal (pi_pid p)) (\<lambda>s.
       stop_each e n c target signal ps ((if out = [] then [] else out @ [char_of (10::nat)]) @ s))"

definition stop_all_processes :: "'sh process_env \<Rightarrow> nat \<Rightarrow> nat \<Rightarrow> stop_request \<Rightarrow> ('sh, go_error + string) xm" where
  "stop_all_processes e n c q =
     (let target = Some (service_target (po_target q))
      in xtry (check_process e n c \<lparr>pt_target = target, pt_command = po_input q, pt_exact = False\<rparr>) (\<lambda>ps.
           stop_each e n c target (if po_signal q = [] then ''9'' else po_signal q) ps []))"

definition stop_process :: "'sh process_env \<Rightarrow> nat \<Rightarrow> nat \<Rightarrow> stop_request \<Rightarrow> ('sh, go_error + string) xm" where
  "stop_process e n c q =
     (if po_pid q = 0 \<and> po_input q \<noteq> [] then stop_all_processes e n c q
      else stop_pid e n c (po_target q) (po_signal q) (po_pid q))"

section \<open>Starting\<close>

fun stop_same ::
  "'sh process_env \<Rightarrow> nat \<Rightarrow> nat \<Rightarrow> start_request \<Rightarrow> process_info list \<Rightarrow> ('sh, go_error + unit) xm" where
  "stop_same e n c q [] = xret (Inr ())"
| "stop_same e n c q (p # ps) =
     (if join '' '' (pi_arguments p) = join '' '' (ps_arguments q)
      then xtry (stop_process e n c (new_stop_request (pi_pid p) (ps_target q))) (\<lambda>_. stop_same e n c q ps)
      else stop_same e n c q ps)"

definition stop_existing_process :: "'sh process_env \<Rightarrow> nat \<Rightarrow> nat \<Rightarrow> start_request \<Rightarrow> ('sh, go_error + unit) xm" where
  "stop_existing_process e n c q =
     xtry (check_process e n c (new_status_request (ps_command q) (ps_target q))) (\<lambda>ps. stop_same e n c q ps)"

text \<open>The options of the request replace the ones that hold the super user flag.\<close>

definition start_command :: "start_request \<Rightarrow> exec_options \<Rightarrow> exec_request" where
  "start_command q opts =
     (let body = trim_space (join '' '' (ps_command q # ps_arguments q));
          out = path_join [eo_directory opts, ''nohup.out'']
      in (new_exec_request (ps_target q) (ps_as_super q)
            [''cd '' @ eo_directory opts @ '' '', ''touch '' @ out @ '' && chmod 666 '' @ out,
             ''('' @ (if ps_immune q then ''nohup '' @ body else body) @ '' &)''])
         \<lparr>xr_options := Some (opts\<lparr>eo_check := True\<rparr>)\<rparr>)"

text \<open>The directory is read before missing options are replaced, so a request without options panics.\<close>

definition start_process :: "'sh process_env \<Rightarrow> nat \<Rightarrow> nat \<Rightarrow> start_request \<Rightarrow> ('sh, go_error + start_response) xm" where
  "start_process e n c q =
     xtry (stop_existing_process e n c q) (\<lambda>_.
       case ps_options q of
         None \<Rightarrow> (\<lambda>w. Inl (Crash ''nil pointer dereference''))
       | Some opts \<Rightarrow>
           let out = path_join [eo_directory opts, ''nohup.out'']
           in xseq (if ps_immune q then xmod (\<lambda>w. w\<lparr>xw_shell := pv_remove e out (xw_shell w)\<rparr>) else xret ())
              (xtry (call_exec_run (pv_exec e) n c (start_command q opts)) (\<lambda>resp.
               xtry (check_process e n c (new_status_request (ps_command q) (ps_target q))) (\<lambda>ps.
               let pid = (case ps of [] \<Rightarrow> 0 | p # _ \<Rightarrow> pi_pid p)
               in if \<not> ps_immune q then xret (Inr \<lparr>pr_info = ps, pr_pid = pid, pr_stdout = rr_output resp\<rparr>)
                  else xbind (world_read (pv_read e out)) (\<lambda>r.
                    case r of
                      Inl _ \<Rightarrow> xret (Inr \<lparr>pr_info = ps, pr_pid = pid, pr_stdout = rr_output resp\<rparr>)
                    | Inr s \<Rightarrow> xbind (xlift (publish c (EvStdout ''nohoup'' s))) (\<lambda>_.
                        xret (Inr \<lparr>pr_info = ps, pr_pid = pid, pr_stdout = rr_output resp @ s\<rparr>)))))))"

text \<open>
  One look of the goroutine that watches the output: what is beyond the position is published.
  \<open>None\<close> is a file that cannot be read, which ends the watching.
\<close>

definition watch_step :: "nat \<Rightarrow> string \<Rightarrow> event list \<times> nat" where
  "watch_step position stdout =
     (if position < length stdout then ([EvStdout ''nohoup'' (drop position stdout)], length stdout) else ([], position))"

fun watch_output :: "nat \<Rightarrow> string option list \<Rightarrow> event list" where
  "watch_output position [] = []"
| "watch_output position (None # rs) = []"
| "watch_output position (Some s # rs) =
     (case watch_step position s of (vs, p) \<Rightarrow> vs @ watch_output p rs)"

section \<open>Properties\<close>

definition stdout_text :: "event list \<Rightarrow> string" where
  "stdout_text vs = concat (map (\<lambda>v. case v of EvStdout _ s \<Rightarrow> s | _ \<Rightarrow> []) vs)"

fun growing :: "string \<Rightarrow> string list \<Rightarrow> bool" where
  "growing s [] = True"
| "growing s (t # ts) = (prefix s t \<and> growing t ts)"

lemma growing_last: "growing s ts \<Longrightarrow> prefix s (last (s # ts))"
proof (induction ts arbitrary: s)
  case (Cons t ts)
  then have "prefix t (last (t # ts))" "prefix s t" by auto
  then show ?case by auto
qed simp

text \<open>
  C34: watching a file that only grows publishes everything that is written after the start, in
  order and once, however the writes fall between two looks.
\<close>

theorem watching_misses_nothing:
  "growing s ts \<Longrightarrow> stdout_text (watch_output (length s) (map Some ts)) = drop (length s) (last (s # ts))"
proof (induction ts arbitrary: s)
  case (Cons t ts)
  then have IH: "stdout_text (watch_output (length t) (map Some ts)) = drop (length t) (last (t # ts))" by simp
  obtain u where t: "t = s @ u" using Cons.prems by (auto simp: prefix_def)
  obtain v where l: "last (t # ts) = t @ v" using growing_last [of t ts] Cons.prems by (auto simp: prefix_def)
  have "watch_step (length s) t = ((if u = [] then [] else [EvStdout ''nohoup'' u]), length t)"
    using t by (simp add: watch_step_def)
  then show ?case using IH t l by (auto simp: stdout_text_def)
qed (simp add: stdout_text_def)

lemma watching_misses_nothing_witness:
  "stdout_text (watch_output 1 [Some ''ab'', Some ''ab'', Some ''abcd'']) = ''bcd''"
  using watching_misses_nothing [of "''a''" "[''ab'', ''ab'', ''abcd'']"] by (simp add: prefix_def)

text \<open>
  A process is started as a super user only when its options say so; the flag of the request
  itself is dropped.
\<close>

theorem super_user_flag_is_dropped:
  "start_command (q\<lparr>ps_as_super := b\<rparr>) opts = start_command q opts \<and>
   map_option eo_super (xr_options (start_command q opts)) = Some (eo_super opts)"
  by (simp add: start_command_def Let_def new_exec_request_def)

text \<open>
  A process whose command has one more character than the requested one, and no arguments, is
  taken for it.
\<close>

theorem longer_command_is_matched:
  assumes "last_index_of (p @ command @ [ch]) command = Some (length p)"
  shows "command_ends_in command (p @ command @ [ch])"
  using assms by (simp add: command_ends_in_def)

end
