(* ===== verification/Deploy_Run.thy ===== *)
theory Deploy_Run
  imports Deploy_Service
begin

text \<open>
  service/deployment/deploy/service.go: the discovery of the release and the deployment itself.
  Dependencies are deployed by the same operation, so it has fuel for their nesting; the second
  fuel is the one of the command service.
\<close>

section \<open>Discovery of the release\<close>

text \<open>The artifact is a map of the state, which the discovery fills in; expansions read it.\<close>

definition check_resource :: "'sh deploy_env \<Rightarrow> nat \<Rightarrow> 'sh afs \<Rightarrow> resource \<Rightarrow> ('sh, bool) dm" where
  "check_resource e c fs source =
     xbind (dlift (expand_in (dv_exec e) c (r_url source))) (\<lambda>url.
       dlift (world_read (\<lambda>sh. af_exists fs url sh = Inr True)))"

text \<open>Indexing a list beyond its end panics.\<close>

fun put_fragments :: "'sh deploy_env \<Rightarrow> nat \<Rightarrow> string list \<Rightarrow> string list \<Rightarrow> ('sh, unit) dm" where
  "put_fragments e a keys [] = xret ()"
| "put_fragments e a [] (v # vs) = xcrash ''index out of range''"
| "put_fragments e a (k # ks) (v # vs) = xseq (dput e a k (VStr v)) (put_fragments e a ks vs)"

fun put_all_fragments :: "'sh deploy_env \<Rightarrow> nat \<Rightarrow> string list \<Rightarrow> string list \<Rightarrow> ('sh, unit) dm" where
  "put_all_fragments e a [] vs = xret ()"
| "put_all_fragments e a (k # ks) [] = xcrash ''index out of range''"
| "put_all_fragments e a (k # ks) (v # vs) = xseq (dput e a k (VStr v)) (put_all_fragments e a ks vs)"

text \<open>
  A version of one fragment is completed by the first key of a target that begins with it; every
  target may replace it again.
\<close>

definition complete_version :: "target_meta list \<Rightarrow> string \<Rightarrow> string" where
  "complete_version ts version =
     fold (\<lambda>t v. case find (\<lambda>k. hd (split_on ''.'' k) = v) (map fst (tm_min_release t)) of
         None \<Rightarrow> v | Some k \<Rightarrow> k) ts version"

text \<open>The releases from \<open>i\<close> on are tried until one exists.\<close>

fun try_releases ::
  "'sh deploy_env \<Rightarrow> nat \<Rightarrow> 'sh afs \<Rightarrow> resource \<Rightarrow> nat \<Rightarrow> string \<Rightarrow> string \<Rightarrow> bool \<Rightarrow> nat \<Rightarrow> int \<Rightarrow> ('sh, bool) dm" where
  "try_releases e c fs source a key version unknown 0 i = xret False"
| "try_releases e c fs source a key version unknown (Suc n) i =
     xseq (dput e a key (VStr (as_string (dv_tb e) (VInt i))))
     (xseq (dput e a ''Version'' (VStr (if unknown \<and> i = 0 then ''%v'' else version @ ''.'' @ show_int i)))
     (xbind (check_resource e c fs source) (\<lambda>found.
       if found then xret True
       else try_releases e c fs source a key version unknown n (i + 1))))"

definition max_release :: "toolbox \<Rightarrow> string \<Rightarrow> int" where
  "max_release tb minimum =
     as_int tb (VStr (replicate (Suc (if minimum = [] then 1 else length minimum)) (CHR ''9'')))"

text \<open>
  The release that exists is remembered only in the artifact: the discovered location is assigned
  to a variable that shadows the source of the rule.
\<close>

definition discover_release ::
  "'sh deploy_env \<Rightarrow> nat \<Rightarrow> deploy_meta \<Rightarrow> target_meta \<Rightarrow> resource option \<Rightarrow> nat \<Rightarrow> string
     \<Rightarrow> ('sh, go_error + string) dm" where
  "discover_release e c m t source a version0 =
     (let keys = split_on ''.'' (mt_versioning m); fragments = split_on ''.'' version0;
          version = (if length fragments = 1 \<and> 1 < length keys then complete_version (mt_targets m) version0 else version0)
      in xtry (dlift (resource_with_options (dv_storage e) c source)) (\<lambda>src.
         xtry (dlift (storage_service (dv_storage e) c [src])) (\<lambda>fs.
         xseq (put_fragments e a keys fragments)
         (let minimum = (case mget (tm_min_release t) version of None \<Rightarrow> [] | Some v \<Rightarrow> v);
              low = as_int (dv_tb e) (VStr minimum); high = max_release (dv_tb e) minimum
          in xbind (try_releases e c fs src a (last keys) version (minimum = []) (nat (high - low + 1)) low) (\<lambda>found.
             xseq (if found then xret ()
                   else xseq (dput e a ''Version'' (VStr version)) (xbind (check_resource e c fs src) (\<lambda>_. xret ())))
               (xret (Inr version)))))))"

definition discover_transfer ::
  "'sh deploy_env \<Rightarrow> nat \<Rightarrow> deploy_request \<Rightarrow> deploy_meta \<Rightarrow> target_meta \<Rightarrow> copy_rule
     \<Rightarrow> ('sh, go_error + (copy_rule \<times> string)) dm" where
  "discover_transfer e c q m t rule =
     (if mt_versioning m = [] \<or> dr_version q = [] then xret (Inr (rule, dr_version q))
      else
        xbind (dstate e c) (\<lambda>st.
        xbind (dnew []) (\<lambda>a.
        xseq (dput e st ''artifact'' (VRef a))
        (let keys = split_on ''.'' (mt_versioning m); fragments = split_on ''.'' (dr_version q)
         in xtry (if tm_min_release t = [] \<or> length keys = length fragments
                  then xseq (dput e a ''Version'' (VStr (dr_version q)))
                         (xseq (put_all_fragments e a keys fragments) (xret (Inr (dr_version q))))
                  else discover_release e c m t (cr_source rule) a (dr_version q)) (\<lambda>version.
            xbind (dlift (expand_target (dv_exec e) c (cr_dest rule))) (\<lambda>dest.
              xret (Inr (case dest of Inl _ \<Rightarrow> rule | Inr d \<Rightarrow> rule\<lparr>cr_dest := Some d\<rparr>, version))))))))"

section \<open>Deployment\<close>

definition enter_directory :: "'sh deploy_env \<Rightarrow> nat \<Rightarrow> nat \<Rightarrow> resource \<Rightarrow> ('sh, go_error + unit) dm" where
  "enter_directory e n c target =
     (let path = res_path (dv_urls e) target;
          cd = \<lambda>dir. dlift (call_exec_run (dv_exec e) n c (new_exec_request (Some target) False [''cd '' @ dir]))
      in if path = [] then xret (Inr ())
         else xbind (cd path) (\<lambda>r.
           case r of
             Inr _ \<Rightarrow> xret (Inr ())
           | Inl _ \<Rightarrow> xtry (cd ''/'') (\<lambda>_. xret (Inr ()))))"

fun deploy_dependencies ::
  "(deploy_request \<Rightarrow> ('sh, go_error + string) dm) \<Rightarrow> resource \<Rightarrow> dependency list \<Rightarrow> ('sh, go_error + unit) dm" where
  "deploy_dependencies F target [] = xret (Inr ())"
| "deploy_dependencies F target (d # ds) =
     xtry (F \<lparr>dr_target = Some target, dr_meta_url = [], dr_app = dy_name d, dr_version = dy_version d,
        dr_variables = [], dr_force = False, dr_base = []\<rparr>) (\<lambda>_. deploy_dependencies F target ds)"

text \<open>The version of the response is that of the key with the empty name, which no discovery sets.\<close>

definition artifact_version :: "'sh deploy_env \<Rightarrow> nat \<Rightarrow> ('sh, string) dm" where
  "artifact_version e st = xget (\<lambda>w.
     case mget (tb_get_map (dv_tb e) (wd_heap (xw_world (dw_exec w))) st ''artifact'') [] of
       None \<Rightarrow> [] | Some v \<Rightarrow> as_string (dv_tb e) v)"

definition run_after ::
  "'sh deploy_env \<Rightarrow> nat \<Rightarrow> nat \<Rightarrow> resource \<Rightarrow> extract_request option \<Rightarrow> ('sh, go_error + unit) dm" where
  "run_after e n c target q =
     (case q of
        None \<Rightarrow> xret (Inr ())
      | Some x \<Rightarrow>
          xbind (dlift (call_exec_extract (dv_exec e) n c (clone_extract_request (Some target) x))) (\<lambda>r.
            xret (case r of
              Inl err \<Rightarrow> Inl (PlainErr (''failed to init deploy app to '' @ dv_show_resource e target @ '': '' @ error_text err))
            | Inr _ \<Rightarrow> Inr ())))"

text \<open>The steps of a deployment, and the check that records it; the version is that of the request.\<close>

definition install ::
  "'sh deploy_env \<Rightarrow> nat \<Rightarrow> nat \<Rightarrow> resource \<Rightarrow> deployment \<Rightarrow> copy_rule \<Rightarrow> ('sh, go_error + unit) dm" where
  "install e n c target d rule =
     xtry (deploy_addition e n c target (dm_pre d)) (\<lambda>_.
     xtry (xbind (dlift (call_copy (dv_storage e) n c [rule])) (\<lambda>r.
        xret (case r of Inl err \<Rightarrow> Inl (PlainErr (''failed to deploy: '' @ error_text err)) | Inr _ \<Rightarrow> Inr ()))) (\<lambda>_.
     xtry (run_after e n c target (dm_run d)) (\<lambda>_.
       deploy_addition e n c target (dm_post d))))"

definition verify_and_record ::
  "'sh deploy_env \<Rightarrow> nat \<Rightarrow> nat \<Rightarrow> resource \<Rightarrow> target_meta \<Rightarrow> deploy_request \<Rightarrow> string \<Rightarrow> ('sh, go_error + string) dm" where
  "verify_and_record e n c target t q version =
     xbind (check_on_system e n c target t q) (\<lambda>r.
       if r = Inr True
       then xtry (xcheck (update_session e c target (dr_app q)
                    (if dr_version q = [] then version else dr_version q))) (\<lambda>_. xret (Inr version))
       else xret (Inl (PlainErr (''failed to deploy '' @ dr_app q @ '', unable to verify deployments''))))"

definition deploy_transfer ::
  "'sh deploy_env \<Rightarrow> nat \<Rightarrow> nat \<Rightarrow> resource \<Rightarrow> deploy_meta \<Rightarrow> target_meta \<Rightarrow> deploy_request \<Rightarrow> ('sh, go_error + string) dm" where
  "deploy_transfer e n c target m t q =
     (case tm_deployment t of
        None \<Rightarrow> xcrash ''nil pointer dereference''
      | Some d \<Rightarrow>
          (case dm_transfer d of
             None \<Rightarrow> xcrash ''nil pointer dereference''
           | Some rule0 \<Rightarrow>
               xtry (discover_transfer e c q m t rule0) (\<lambda>(rule, v).
               xbind (dstate e c) (\<lambda>st.
               xbind (artifact_version e st) (\<lambda>version.
               let q' = q\<lparr>dr_version := v\<rparr>
               in xbind (xtry (install e n c target d rule) (\<lambda>_. verify_and_record e n c target t q' version)) (\<lambda>r.
                  xseq (dlift (xlift (on_heap (tb_delete (dv_tb e) st ''artifact'')))) (xret r)))))))"

text \<open>
  The check on the system before the installation: its error counts as not deployed. A version
  that is already there is not reported in the response.
\<close>

definition deploy_matched ::
  "'sh deploy_env \<Rightarrow> (deploy_request \<Rightarrow> ('sh, go_error + string) dm) \<Rightarrow> nat \<Rightarrow> nat \<Rightarrow> resource \<Rightarrow> deploy_meta
     \<Rightarrow> target_meta \<Rightarrow> deploy_request \<Rightarrow> ('sh, go_error + string) dm" where
  "deploy_matched e F n c target m t q =
     xseq (update_operating_system e c target)
     (xtry (deploy_dependencies F target (tm_dependencies t)) (\<lambda>_.
      xbind (if dr_force q then xret False
             else xbind (check_on_system e n c target t q) (\<lambda>r. xret (r = Inr True))) (\<lambda>there.
        if there then xret (Inr []) else deploy_transfer e n c target m t q)))"

definition deploy_target ::
  "'sh deploy_env \<Rightarrow> (deploy_request \<Rightarrow> ('sh, go_error + string) dm) \<Rightarrow> nat \<Rightarrow> nat \<Rightarrow> resource \<Rightarrow> deploy_request
     \<Rightarrow> ('sh, go_error + string) dm" where
  "deploy_target e F n c target q =
     xtry (enter_directory e n c target) (\<lambda>_.
     xtry (get_meta e c q) (\<lambda>m.
     xbind (dstate e c) (\<lambda>st.
     xseq (dlift (xlift (on_heap (set_value (dv_tb e) st ''deploy.baseLocation''
             (VStr (if dr_base q = [] then mt_base m else dr_base q))))))
     (xbind (dlift (expand_in (dv_exec e) c (dr_version q))) (\<lambda>version.
      xtry (match_deployment e c version target m) (\<lambda>t.
        deploy_matched e F n c target m t q))))))"

definition deploy_step ::
  "'sh deploy_env \<Rightarrow> (deploy_request \<Rightarrow> ('sh, go_error + string) dm) \<Rightarrow> nat \<Rightarrow> nat \<Rightarrow> deploy_request
     \<Rightarrow> ('sh, go_error + string) dm" where
  "deploy_step e F n c q0 =
     xbind (dlift (expand_deploy_request (dv_exec e) c q0)) (\<lambda>q.
     xtry (dlift (expand_target (dv_exec e) c (dr_target q))) (\<lambda>target.
     xseq (update_deploy_state e c target (dr_variables q))
     (xbind (check_on_session e c target q) (\<lambda>known.
        if known then xret (Inr (dr_version q)) else deploy_target e F n c target q))))"

fun deploy :: "'sh deploy_env \<Rightarrow> nat \<Rightarrow> nat \<Rightarrow> nat \<Rightarrow> deploy_request \<Rightarrow> ('sh, go_error + string) dm" where
  "deploy e 0 n c q = xout"
| "deploy e (Suc k) n c q = deploy_step e (deploy e k n c) n c q"

text \<open>\<open>endly.Run\<close> of a deployment from another service, with its checks and events.\<close>

definition dservice ::
  "nat \<Rightarrow> string \<Rightarrow> string \<Rightarrow> go_error option \<Rightarrow> ('sh, go_error + 'r) dm \<Rightarrow> ('sh, go_error + 'r) dm" where
  "dservice c sid act invalid handler =
     xbind (dlift (xlift (publish c (EvRequest sid act)))) (\<lambda>start.
     xbind (case invalid of
              Some err \<Rightarrow> xret (Inl (new_error sid act err))
            | None \<Rightarrow> xbind handler (\<lambda>r. case r of Inr x \<Rightarrow> xret (Inr x)
                | Inl err \<Rightarrow> xbind (dlift (service_error sid act c err)) (\<lambda>err'. xret (Inl err')))) (\<lambda>r.
     xbind (dlift (xlift (publish_with_start c (EvResponse VNil) start))) (\<lambda>_. xret r)))"

definition call_deploy ::
  "'sh deploy_env \<Rightarrow> nat \<Rightarrow> nat \<Rightarrow> nat \<Rightarrow> deploy_request \<Rightarrow> ('sh, go_error + string) dm" where
  "call_deploy e k n c q0 =
     (let q = init_deploy_request q0
      in dservice c ''deployment'' ''deploy'' (map_option (validation_failed ''*deploy.Request'') (validate_deploy_request q))
           (deploy e k n c q))"

end
