(* ===== verification/Sdk_Service.thy ===== *)
theory Sdk_Service
  imports Deploy_Run Templates
begin

text \<open>
  service/deployment/sdk: finding a development kit on a session, and deploying it when it is not
  there. What was found is remembered on the session (\<open>dw_sdks\<close>).
\<close>

record sdk_request =
  sq_sdk :: string
  sq_version :: string
  sq_env :: "(string \<times> string) list"
  sq_target :: "resource option"
  sq_base :: string

definition sdk_base :: string where
  "sdk_base = ''/usr/local''"

definition init_sdk_request :: "sdk_request \<Rightarrow> sdk_request" where
  "init_sdk_request q =
     (let q1 = (case index_of (sq_sdk q) '':'' of
                  Some i \<Rightarrow> if sq_version q = [] then q\<lparr>sq_sdk := take i (sq_sdk q), sq_version := drop (Suc i) (sq_sdk q)\<rparr> else q
                | None \<Rightarrow> q)
      in q1\<lparr>sq_base := (if sq_base q1 = [] then sdk_base else sq_base q1), sq_target := Some (service_target (sq_target q1))\<rparr>)"

definition validate_sdk_request :: "sdk_request \<Rightarrow> go_error option" where
  "validate_sdk_request q =
     (if sq_sdk q = [] then Some (PlainErr ''sdk was empty'')
      else if sq_version q = [] then Some (PlainErr ''version was empty'') else None)"

text \<open>The error for a kit that is missing is told apart from the others by its identity.\<close>

datatype sdk_failure = SdkNotFound | SdkError go_error

definition as_failure :: "go_error + 'a \<Rightarrow> sdk_failure + 'a" where
  "as_failure r = (case r of Inl err \<Rightarrow> Inl (SdkError err) | Inr x \<Rightarrow> Inr x)"

definition failure_error :: "sdk_failure \<Rightarrow> go_error" where
  "failure_error f = (case f of SdkNotFound \<Rightarrow> PlainErr ''SDK NOT FUND'' | SdkError err \<Rightarrow> err)"

section \<open>Looking for a kit\<close>

definition sdk_extract ::
  "resource option \<Rightarrow> string list \<Rightarrow> extract_command list \<Rightarrow> extract_request" where
  "sdk_extract target paths commands =
     \<lparr>xq_target = target, xq_options = Some (default_options\<lparr>eo_system_paths := paths\<rparr>), xq_commands = Some commands\<rparr>"

definition extracted_text :: "run_response \<Rightarrow> string \<Rightarrow> ('sh, string option) dm" where
  "extracted_text resp k =
     xbind (xget (\<lambda>w. mget (cell (wd_heap (xw_world (dw_exec w))) (rr_data resp)) k)) (\<lambda>v.
       case v of
         None \<Rightarrow> xret None
       | Some (VStr s) \<Rightarrow> xret (Some s)
       | Some _ \<Rightarrow> xcrash ''interface conversion'')"

definition all_stdout :: "run_response \<Rightarrow> string" where
  "all_stdout resp = join crlf (map cl_stdout (rr_cmd resp))"

definition versioned_kit ::
  "'sh deploy_env \<Rightarrow> nat \<Rightarrow> nat \<Rightarrow> sdk_request \<Rightarrow> string \<Rightarrow> string \<Rightarrow> string \<Rightarrow> bool \<Rightarrow> ('sh, sdk_failure + sdk_info) dm" where
  "versioned_kit e n c q name command pattern defaulting =
     (let home = path_join [sq_base q, name];
          req = sdk_extract (sq_target q) [home @ ''/bin'']
                  [new_extract_command command [] [] [] [new_extract ''version'' pattern False False]]
      in xbind (dlift (call_exec_extract (dv_exec e) n c req)) (\<lambda>r.
           case r of
             Inl err \<Rightarrow> xret (Inl (SdkError err))
           | Inr resp \<Rightarrow>
               if command_not_found [all_stdout resp] \<or> no_such_file [all_stdout resp] then xret (Inl SdkNotFound)
               else xbind (extracted_text resp ''version'') (\<lambda>v.
                 let version = (case v of None \<Rightarrow> [] | Some s \<Rightarrow> s)
                 in xret (if \<not> match_version (sq_version q) version then Inl SdkNotFound
                    else Inr (SdkInfo home [] [] name (if defaulting \<and> version = [] then sq_version q else version))))))"

definition go_pattern :: string where
  "go_pattern = ''go version go([^'' @ [char_of (92::nat)] @ ''s]+)''"

definition node_pattern :: string where
  "node_pattern = ''v([^'' @ [char_of (92::nat)] @ ''s]+)''"

definition quoted :: "string \<Rightarrow> string" where
  "quoted s = [char_of (39::nat)] @ s @ [char_of (39::nat)]"

definition set_go :: "'sh deploy_env \<Rightarrow> nat \<Rightarrow> nat \<Rightarrow> sdk_request \<Rightarrow> ('sh, sdk_failure + sdk_info) dm" where
  "set_go e n c q =
     xbind (dlift (call_exec_run (dv_exec e) n c (new_exec_request (sq_target q) False
        [''export GOROOT='' @ quoted (path_join [sq_base q, ''go''])]))) (\<lambda>_.
       versioned_kit e n c q ''go'' ''go version'' go_pattern True)"

definition set_node :: "'sh deploy_env \<Rightarrow> nat \<Rightarrow> nat \<Rightarrow> sdk_request \<Rightarrow> ('sh, sdk_failure + sdk_info) dm" where
  "set_node e n c q = versioned_kit e n c q ''node'' ''node -v'' node_pattern False"

text \<open>
  A Java version must be the requested one exactly. The candidate is a directory without a
  percent sign. The name of the kit is not set.
\<close>

definition std_errors :: "string list" where
  "std_errors = [''command not found'', ''no such file or directory'', ''can be found in the following packages'']"

definition java_pattern :: string where
  "java_pattern = ''version '' @ [char_of (34::nat)] @ ''('' @ [char_of (92::nat)] @ ''d+'' @ [char_of (92::nat)] @ ''.'' @
     [char_of (92::nat)] @ ''d).+''"

definition print_java_home :: string where
  "print_java_home = ''jrunscript -e '' @ quoted (''java.lang.System.out.println(java.lang.System.getProperty('' @
     [char_of (34::nat)] @ ''java.home'' @ [char_of (34::nat)] @ ''));'')"

definition check_java ::
  "'sh deploy_env \<Rightarrow> nat \<Rightarrow> nat \<Rightarrow> string \<Rightarrow> sdk_request \<Rightarrow> ('sh, go_error + sdk_info) dm" where
  "check_java e n c candidate0 q =
     (let candidate = replace_first candidate0 ''/jre'' [];
          req = sdk_extract (sq_target q) []
            [new_extract_command (candidate @ ''java -version'') [] [] std_errors [new_extract ''build'' java_pattern False False],
             new_extract_command (candidate @ print_java_home) [] [] std_errors [new_extract ''JAVA_HOME'' ''(.+)'' False False]]
      in xtry (dlift (call_exec_extract (dv_exec e) n c req)) (\<lambda>resp.
         xbind (xget (\<lambda>w. let m = cell (wd_heap (xw_world (dw_exec w))) (rr_data resp)
                          in (mget m ''JAVA_HOME'', mget m ''build''))) (\<lambda>(home, build).
           case (home, build) of
             (Some h, Some b) \<Rightarrow>
               if b \<noteq> VStr (sq_version q)
               then xret (Inl (PlainErr (''invalid version was found expected: '' @ sq_version q @ '', but had: '' @
                      as_string (dv_tb e) b)))
               else (case h of
                  VStr s \<Rightarrow>
                    (let dir = replace_first s ''/jre'' []
                     in xbind (dlift (call_exec_run (dv_exec e) n c (new_exec_request (sq_target q) False
                              [''export JAVA_HOME='' @ quoted dir]))) (\<lambda>_.
                          xret (Inr (SdkInfo dir [] [] [] (sq_version q)))))
                | _ \<Rightarrow> xcrash ''interface conversion'')
           | _ \<Rightarrow> xret (Inl (PlainErr ''failed to check java version'')))))"

definition java_home_command :: "'sh deploy_env \<Rightarrow> nat \<Rightarrow> sdk_request \<Rightarrow> ('sh, string) dm" where
  "java_home_command e c q =
     xbind (dlift (expand_target (dv_exec e) c (sq_target q))) (\<lambda>t.
       case t of
         Inl _ \<Rightarrow> xret []
       | Inr target \<Rightarrow>
           xbind (operating_system e (session_id (dv_exec e) target)) (\<lambda>os.
             case os of
               None \<Rightarrow> xcrash ''nil pointer dereference''
             | Some s \<Rightarrow>
                 xret (if os_system s = ''darwin'' then ''/usr/libexec/java_home -v'' @ sq_version q
                       else ''update-java-alternatives --list | grep '' @ replace_first (sq_version q) ''1.'' [])))"

definition set_jdk :: "'sh deploy_env \<Rightarrow> nat \<Rightarrow> nat \<Rightarrow> sdk_request \<Rightarrow> ('sh, sdk_failure + sdk_info) dm" where
  "set_jdk e n c q =
     xbind (check_java e n c [] q) (\<lambda>r.
       case r of
         Inr info \<Rightarrow> xret (Inr info)
       | Inl _ \<Rightarrow>
           xbind (java_home_command e c q) (\<lambda>command.
           xbind (dlift (call_exec_extract (dv_exec e) n c (sdk_extract (sq_target q) []
                    [new_extract_command command [] [] std_errors
                       [new_extract ''JAVA_HOME'' ''(.+jdk.+)'' False False,
                        new_extract ''JAVA_HOME'' ''(.+jvm.+)'' False False]]))) (\<lambda>r2.
             case r2 of
               Inl err \<Rightarrow> xret (Inl (SdkError err))
             | Inr resp \<Rightarrow>
                 xbind (extracted_text resp ''JAVA_HOME'') (\<lambda>home.
                   case home of
                     None \<Rightarrow> xret (Inl SdkNotFound)
                   | Some h \<Rightarrow>
                       if contains h ''*'' then xret (Inl SdkNotFound)
                       else xbind (check_java e n c (vt_clean (en_io (xe_engine (dv_exec e))) h False @ ''/bin/'') q) (\<lambda>r3.
                              xret (case r3 of Inr info \<Rightarrow> Inr info | Inl _ \<Rightarrow> Inl SdkNotFound))))))"

section \<open>The service\<close>

definition check_sdk_on_session ::
  "'sh deploy_env \<Rightarrow> nat \<Rightarrow> resource \<Rightarrow> sdk_request \<Rightarrow> ('sh, sdk_info option) dm" where
  "check_sdk_on_session e c target q =
     xbind (dlift (terminal_session (dv_exec e) c target)) (\<lambda>r.
       case r of
         Inr (Some s) \<Rightarrow> xget (\<lambda>w.
           case mget (dw_sdks w s) (sq_sdk q) of
             None \<Rightarrow> None
           | Some i \<Rightarrow> if si_version i = [] \<and> sq_version q = [] \<or> match_version (sq_version q) (si_version i)
                       then Some i else None)
       | _ \<Rightarrow> xret None)"

definition update_sdk ::
  "'sh deploy_env \<Rightarrow> nat \<Rightarrow> resource \<Rightarrow> sdk_info \<Rightarrow> ('sh, go_error option) dm" where
  "update_sdk e c target i =
     xbind (dlift (terminal_session (dv_exec e) c target)) (\<lambda>r.
       case r of
         Inl err \<Rightarrow> xret (Some err)
       | Inr None \<Rightarrow> xcrash ''nil pointer dereference''
       | Inr (Some s) \<Rightarrow>
           xseq (xmod (\<lambda>w. w\<lparr>dw_sdks := (dw_sdks w)(s := mput (si_sdk i) i (dw_sdks w s))\<rparr>)) (xret None))"

definition find_kit :: "'sh deploy_env \<Rightarrow> nat \<Rightarrow> nat \<Rightarrow> sdk_request \<Rightarrow> ('sh, sdk_failure + sdk_info) dm" where
  "find_kit e n c q =
     (if sq_sdk q = ''jdk'' then set_jdk e n c q
      else if sq_sdk q = ''go'' then set_go e n c q
      else if sq_sdk q = ''node'' then set_node e n c q
      else xret (Inl (SdkError (PlainErr (''unsupported jdk: '' @ sq_sdk q)))))"

definition set_sdk :: "'sh deploy_env \<Rightarrow> nat \<Rightarrow> nat \<Rightarrow> sdk_request \<Rightarrow> ('sh, sdk_failure + sdk_info) dm" where
  "set_sdk e n c q =
     xbind (dlift (expand_target (dv_exec e) c (sq_target q))) (\<lambda>t.
       case t of
         Inl err \<Rightarrow> xret (Inl (SdkError err))
       | Inr target \<Rightarrow>
           xbind (check_sdk_on_session e c target q) (\<lambda>known.
             case known of
               Some i \<Rightarrow> xret (Inr i)
             | None \<Rightarrow>
                 xbind (dlift (call_open (dv_exec e) c target (sq_env q))) (\<lambda>r.
                   case r of
                     Inl err \<Rightarrow> xret (Inl (SdkError err))
                   | Inr _ \<Rightarrow>
                       xbind (find_kit e n c q) (\<lambda>r2.
                         case r2 of
                           Inl f \<Rightarrow> xret (Inl f)
                         | Inr i \<Rightarrow> xbind (update_sdk e c target i) (\<lambda>err.
                             xret (case err of None \<Rightarrow> Inr i | Some x \<Rightarrow> Inl (SdkError x)))))))"

text \<open>A target that cannot be expanded counts as deployed.\<close>

definition deploy_sdk :: "'sh deploy_env \<Rightarrow> nat \<Rightarrow> nat \<Rightarrow> nat \<Rightarrow> sdk_request \<Rightarrow> ('sh, go_error option) dm" where
  "deploy_sdk e k n c q =
     xbind (dlift (expand_target (dv_exec e) c (sq_target q))) (\<lambda>t.
       case t of
         Inl _ \<Rightarrow> xret None
       | Inr target \<Rightarrow>
           xbind (dlift (xlift (clone_ctx (dv_tb e) (en_defaults (xe_engine (dv_exec e))) c))) (\<lambda>d.
           xbind (dstate e d) (\<lambda>st.
           xseq (dput e st ''buildHost'' (VStr (res_hostname (dv_urls e) target)))
           (xseq (dput e st ''buildHostCredential'' (VStr (r_credentials target)))
           (xbind (call_deploy e k n d \<lparr>dr_target = Some target, dr_meta_url = [], dr_app = sq_sdk q,
                     dr_version = sq_version q, dr_variables = [], dr_force = False, dr_base = sq_base q\<rparr>) (\<lambda>r.
              xret (case r of Inl err \<Rightarrow> Some err | Inr _ \<Rightarrow> None)))))))"

definition set_sdk_and_deploy ::
  "'sh deploy_env \<Rightarrow> nat \<Rightarrow> nat \<Rightarrow> nat \<Rightarrow> sdk_request \<Rightarrow> ('sh, go_error + sdk_info) dm" where
  "set_sdk_and_deploy e k n c q =
     xbind (set_sdk e n c q) (\<lambda>r.
       case r of
         Inr i \<Rightarrow> xret (Inr i)
       | Inl SdkNotFound \<Rightarrow>
           xbind (deploy_sdk e k n c q) (\<lambda>err.
             case err of
               Some x \<Rightarrow> xret (Inl x)
             | None \<Rightarrow> xbind (set_sdk e n c q) (\<lambda>r2.
                 xret (case r2 of Inr i \<Rightarrow> Inr i | Inl f \<Rightarrow> Inl (failure_error f))))
       | Inl (SdkError err) \<Rightarrow> xret (Inl err))"

definition call_sdk :: "'sh deploy_env \<Rightarrow> nat \<Rightarrow> nat \<Rightarrow> nat \<Rightarrow> sdk_request \<Rightarrow> ('sh, go_error + sdk_info) dm" where
  "call_sdk e k n c q0 =
     (let q = init_sdk_request q0
      in dservice c ''sdk'' ''set'' (map_option (validation_failed ''*sdk.SetRequest'') (validate_sdk_request q))
           (set_sdk_and_deploy e k n c q))"

end
