(* ===== verification/Build_Service.thy ===== *)
theory Build_Service
  imports Sdk_Service
begin

text \<open>
  service/deployment/build: a build runs the commands of a goal after its kit and its
  dependencies were set up. The registry of goals is a state beside that of the deployments.
\<close>

record build_spec =
  bs_name :: string
  bs_version :: string
  bs_goal :: string
  bs_build_goal :: string
  bs_args :: string
  bs_sdk :: string
  bs_sdk_version :: string

record build_request =
  br_meta_url :: string
  br_spec :: "build_spec option"
  br_secrets :: "(string \<times> string) list"
  br_env :: "(string \<times> string) list"
  br_target :: "resource option"

record build_goal =
  bg_name :: string
  bg_init :: "copy_request option"
  bg_run :: "extract_request option"
  bg_post :: "copy_request option"
  bg_verify :: "extract_request option"

record build_meta =
  bm_name :: string
  bm_goals :: "build_goal list"
  bm_dependencies :: "dependency list"

record 'sh build_world =
  bw_deploy :: "'sh deploy_world"
  bw_registry :: "(string \<times> build_meta) list"

record 'sh build_env =
  be_deploy :: "'sh deploy_env"
  be_decode :: "resource \<Rightarrow> 'sh \<Rightarrow> go_error + build_meta"
  be_resource :: "resource \<Rightarrow> value"

type_synonym ('sh, 'a) bm = "('sh build_world, 'a) effect"

definition blift :: "('sh, 'a) dm \<Rightarrow> ('sh, 'a) bm" where
  "blift m w = (case m (bw_deploy w) of Inl s \<Rightarrow> Inl s | Inr (x, v) \<Rightarrow> Inr (x, w\<lparr>bw_deploy := v\<rparr>))"

abbreviation be_exec :: "'sh build_env \<Rightarrow> 'sh exec_env" where
  "be_exec e \<equiv> dv_exec (be_deploy e)"

definition init_build_request :: "build_request \<Rightarrow> build_request" where
  "init_build_request q = q\<lparr>br_target := Some (service_target (br_target q))\<rparr>"

definition validate_build_request :: "build_request \<Rightarrow> go_error option" where
  "validate_build_request q =
     (case br_spec q of
        None \<Rightarrow> Some (PlainErr ''buildSpec was empty'')
      | Some s \<Rightarrow>
          if bs_name s = [] then Some (PlainErr (''buildSpec.Name was empty for '' @ bs_name s))
          else if bs_goal s = [] then Some (PlainErr (''buildSpec.Goal was empty for '' @ bs_name s)) else None)"

definition validate_build_meta :: "build_meta \<Rightarrow> go_error option" where
  "validate_build_meta m =
     (if bm_name m = [] then Some (PlainErr (''metaBuild.Names '' @ bm_name m))
      else if bm_goals m = [] then Some (PlainErr (''metaBuild.Goals were empty '' @ bm_name m)) else None)"

text \<open>The last goal of a name is the one that is found.\<close>

definition goals_index :: "build_goal list \<Rightarrow> (string \<times> build_goal) list" where
  "goals_index gs = fold (\<lambda>g m. mput (bg_name g) g m) gs []"

text \<open>Loading does not validate.\<close>

definition load_build_meta :: "'sh build_env \<Rightarrow> nat \<Rightarrow> resource option \<Rightarrow> ('sh, go_error + build_meta) bm" where
  "load_build_meta e c source =
     xtry (blift (dlift (expand_target (be_exec e) c source))) (\<lambda>r.
     xbind (blift (dlift (world_read (be_decode e r)))) (\<lambda>m.
       case m of
         Inl err \<Rightarrow> xret (Inl (PlainErr (''unable to decode: '' @ r_url r @ '', '' @ error_text err)))
       | Inr m \<Rightarrow> xseq (xmod (\<lambda>w. w\<lparr>bw_registry := mput (bm_name m) m (bw_registry w)\<rparr>)) (xret (Inr m))))"

definition get_build_meta :: "'sh build_env \<Rightarrow> nat \<Rightarrow> build_request \<Rightarrow> build_spec \<Rightarrow> ('sh, go_error + build_meta) bm" where
  "get_build_meta e c q spec =
     xbind (xget (\<lambda>w. mget (bw_registry w) (bs_name spec))) (\<lambda>r.
       case r of
         Some m \<Rightarrow> xret (Inr m)
       | None \<Rightarrow>
           xtry (blift (meta_url (be_deploy e) c (br_meta_url q) (''meta/build/'' @ bs_name spec @ ''.json''))) (\<lambda>url.
           xbind (blift (workflow_credentials (be_deploy e) c)) (\<lambda>cred.
             load_build_meta e c (Some (new_resource url [with_credentials cred])))))"

text \<open>
  A dependency that fails ends the loop, but the error that is returned is that of the lookup of
  the service, which is nil.
\<close>

fun deploy_build_dependencies ::
  "'sh build_env \<Rightarrow> nat \<Rightarrow> nat \<Rightarrow> nat \<Rightarrow> resource \<Rightarrow> dependency list \<Rightarrow> ('sh, go_error option) bm" where
  "deploy_build_dependencies e k n c target [] = xret None"
| "deploy_build_dependencies e k n c target (d # ds) =
     xbind (blift (dlift (expand_in (be_exec e) c (dy_name d)))) (\<lambda>app.
     xbind (blift (dlift (expand_in (be_exec e) c (dy_version d)))) (\<lambda>version.
     xbind (blift (call_deploy (be_deploy e) k n c \<lparr>dr_target = Some target, dr_meta_url = [], dr_app = app,
              dr_version = version, dr_variables = [], dr_force = False, dr_base = []\<rparr>)) (\<lambda>r.
       case r of
         Inl _ \<Rightarrow> xret None
       | Inr _ \<Rightarrow> deploy_build_dependencies e k n c target ds)))"

definition set_kit_if_needed ::
  "'sh build_env \<Rightarrow> nat \<Rightarrow> nat \<Rightarrow> nat \<Rightarrow> build_request \<Rightarrow> build_spec \<Rightarrow> ('sh, go_error + unit) bm" where
  "set_kit_if_needed e k n c q spec =
     (if bs_sdk spec = [] then xret (Inr ())
      else xtry (blift (call_sdk (be_deploy e) k n c \<lparr>sq_sdk = bs_sdk spec, sq_version = bs_sdk_version spec,
                  sq_env = br_env q, sq_target = br_target q, sq_base = []\<rparr>)) (\<lambda>_. xret (Inr ())))"

definition build_state :: "'sh build_env \<Rightarrow> resource \<Rightarrow> build_spec \<Rightarrow> smap" where
  "build_state e target s =
     mput_all [(''name'', VStr (bs_name s)), (''version'', VStr (bs_version s)), (''args'', VStr (bs_args s)),
       (''goal'', VStr (bs_build_goal s)), (''path'', VStr (res_path (dv_urls (be_deploy e)) target)),
       (''host'', VStr (res_host (dv_urls (be_deploy e)) target)), (''credentials'', VStr (r_credentials target)),
       (''target'', be_resource e target), (''sdk'', VStr (bs_sdk s)), (''sdkVersion'', VStr (bs_sdk_version s))] []"

definition with_secrets :: "(string \<times> string) list \<Rightarrow> extract_request \<Rightarrow> extract_request" where
  "with_secrets secrets q = q\<lparr>xq_options := map_option (\<lambda>x. x\<lparr>eo_secrets := secrets\<rparr>) (xq_options q)\<rparr>"

text \<open>Assigning the secrets of a request without options panics.\<close>

definition run_goal ::
  "'sh build_env \<Rightarrow> nat \<Rightarrow> nat \<Rightarrow> build_request \<Rightarrow> resource \<Rightarrow> extract_request \<Rightarrow> ('sh, go_error + run_response) bm" where
  "run_goal e n c q target x =
     (if xq_options x = None then xcrash ''nil pointer dereference''
      else blift (dlift (call_exec_extract (be_exec e) n c
             (with_secrets (br_secrets q) (clone_extract_request (Some target) x)))))"

definition copy_all :: "'sh build_env \<Rightarrow> nat \<Rightarrow> nat \<Rightarrow> copy_request option \<Rightarrow> ('sh, go_error + unit) bm" where
  "copy_all e n c q =
     (case q of
        None \<Rightarrow> xret (Inr ())
      | Some x \<Rightarrow> blift (dlift (call_copy (dv_storage (be_deploy e)) n c (cq_transfers x))))"

definition build_goal_steps ::
  "'sh build_env \<Rightarrow> nat \<Rightarrow> nat \<Rightarrow> build_request \<Rightarrow> build_spec \<Rightarrow> resource \<Rightarrow> build_goal \<Rightarrow> ('sh, go_error + run_response) bm" where
  "build_goal_steps e n c q spec target g =
     xtry (copy_all e n c (bg_init g)) (\<lambda>_.
       case bg_run g of
         None \<Rightarrow> xret (Inl (PlainErr (''run was empty '' @ bg_name g @ '' '' @ bs_name spec @ [char_of (10::nat)])))
       | Some x \<Rightarrow>
           xtry (run_goal e n c q target x) (\<lambda>resp.
           xtry (copy_all e n c (bg_post g)) (\<lambda>_.
             case bg_verify g of
               None \<Rightarrow> xret (Inr resp)
             | Some v \<Rightarrow> xtry (run_goal e n c q target v) (\<lambda>_. xret (Inr resp)))))"

definition build :: "'sh build_env \<Rightarrow> nat \<Rightarrow> nat \<Rightarrow> nat \<Rightarrow> build_request \<Rightarrow> ('sh, go_error + run_response) bm" where
  "build e k n c q =
     (case br_spec q of
        None \<Rightarrow> xcrash ''nil pointer dereference''
      | Some spec \<Rightarrow>
          xtry (blift (dlift (expand_target (be_exec e) c (br_target q)))) (\<lambda>target.
          xtry (get_build_meta e c q spec) (\<lambda>m.
            case mget (goals_index (bm_goals m)) (bs_goal spec) of
              None \<Rightarrow> xret (Inl (PlainErr (''failed to lookup build '' @ bs_name spec @ '' goal: '' @ bs_goal spec)))
            | Some g \<Rightarrow>
                xbind (blift (dnew (build_state e target spec))) (\<lambda>a.
                xbind (blift (dstate (be_deploy e) c)) (\<lambda>st.
                xseq (blift (dput (be_deploy e) st ''buildSpec'' (VRef a)))
                (xtry (set_kit_if_needed e k n c q spec) (\<lambda>_.
                 xbind (deploy_build_dependencies e k n c target (bm_dependencies m)) (\<lambda>err.
                   case err of
                     Some x \<Rightarrow> xret (Inl x)
                   | None \<Rightarrow> build_goal_steps e n c q spec target g)))))))) "

end
