(* ===== verification/Deploy_Props.thy ===== *)
theory Deploy_Props
  imports Build_Service Storage_Props
begin

text \<open>
  Deployments: what a session remembers is not deployed again, the variables of a request do not
  reach the deployment, a build ignores dependencies that fail, and a Java kit is not remembered.
\<close>

section \<open>Frames\<close>

text \<open>Operations of the command and storage services leave the deployments alone.\<close>

lemma dlift_preserves [preserve]:
  "preserves dw_registry (dlift m)" "preserves dw_deployed (dlift m)" "preserves dw_sdks (dlift m)"
  by (auto simp: preserves_def dlift_def split: sum.splits)

lemma dlift_state_preserves [preserve]:
  "preserves dw_sdks (dput e a k v)" "preserves dw_sdks (dstate e c)" "preserves dw_sdks (dnew m)"
  by (simp_all add: dput_def dstate_def dnew_def preserve)

lemma preserves_crash [preserve]: "preserves f (xcrash reason)"
  by (simp add: preserves_def xcrash_def)

lemma operating_system_preserves [preserve]: "preserves f (operating_system e sid)"
  by (simp add: operating_system_def preserve)

lemma extracted_text_preserves [preserve]: "preserves f (extracted_text resp k)"
  unfolding extracted_text_def
  by (intro preserve) (simp add: preserve split: option.splits "value.splits")

lemma versioned_kit_preserves [preserve]: "preserves dw_sdks (versioned_kit e n c q name command pattern d)"
  unfolding versioned_kit_def Let_def by (intro preserve)

lemma set_go_preserves [preserve]: "preserves dw_sdks (set_go e n c q)"
  unfolding set_go_def by (intro preserve)

lemma set_node_preserves [preserve]: "preserves dw_sdks (set_node e n c q)"
  unfolding set_node_def by (intro preserve)

lemma check_java_preserves [preserve]: "preserves dw_sdks (check_java e n c d q)"
  unfolding check_java_def Let_def
  by (intro preserve) (simp add: preserve split: "value.splits")

lemma java_home_command_preserves [preserve]: "preserves dw_sdks (java_home_command e c q)"
  unfolding java_home_command_def by (intro preserve)

lemma set_jdk_preserves [preserve]: "preserves dw_sdks (set_jdk e n c q)"
  unfolding set_jdk_def by (intro preserve)

section \<open>A deployment that is remembered\<close>

lemma ready_alloc: "ready c st w \<Longrightarrow> ready c st (w\<lparr>xw_world := (xw_world w)\<lparr>wd_heap := h\<rparr>\<rparr>)"
  by (simp add: ready_def)

lemma update_deploy_state_runs:
  assumes "ready c st (dw_exec w)"
  shows "\<exists>h. update_deploy_state e c target vs w =
    Inr ((), w\<lparr>dw_exec := (dw_exec w)\<lparr>xw_world := (xw_world (dw_exec w))\<lparr>wd_heap := h\<rparr>\<rparr>\<rparr>)"
proof -
  let ?m = "deploy_settings (dv_urls e) target vs"
  obtain a h where new: "alloc ?m (wd_heap (xw_world (dw_exec w))) = (a, h)" by fastforce
  show ?thesis
    using assms new
    by (simp add: update_deploy_state_def xbind_def dstate_def dnew_def dput_def dlift_def xlift_def ready_state
        new_map_def on_heap_def mupdate_def) blast
qed


lemma expand_without_variables:
  "expand_deploy_request e c (q\<lparr>dr_variables := vs\<rparr>) = expand_deploy_request e c q"
  by (simp add: expand_deploy_request_def cong: sum.case_cong)

text \<open>
  The variables of a request have no influence on its deployment, although they are there to
  be expanded in the instructions.
\<close>

theorem deployment_ignores_variables:
  "deploy e k n c (q\<lparr>dr_variables := vs\<rparr>) = deploy e k n c q"
  by (cases k) (simp_all add: deploy_step_def expand_without_variables)

section \<open>Builds\<close>

lemma gives_crash [gives]: "gives P (xcrash reason)"
  by (simp add: gives_def xcrash_def)

lemma dependencies_report_nothing: "gives (\<lambda>r. r = None) (deploy_build_dependencies e k n c target ds)"
  by (induction ds) (auto intro!: gives)

text \<open>
  A build goes on when a dependency could not be deployed. The failure ends the deployment of
  the dependencies, and no error is reported for any list of them.
\<close>

theorem failed_dependencies_are_ignored:
  fixes e :: "'sh build_env" and w :: "'sh build_world"
  defines "ex \<equiv> expand_text (dv_tb (be_deploy e)) (wd_heap (xw_world (dw_exec (bw_deploy w))))"
  assumes ready: "ready c st (dw_exec (bw_deploy w))"
    and fails: "call_deploy (be_deploy e) k n c \<lparr>dr_target = Some target, dr_meta_url = [], dr_app = ex st (dy_name d),
        dr_version = ex st (dy_version d), dr_variables = [], dr_force = False, dr_base = []\<rparr> (bw_deploy w) = Inr (Inl err, v)"
  shows "deploy_build_dependencies e k n c target (d # ds) w = Inr (None, w\<lparr>bw_deploy := v\<rparr>) \<and>
    (\<forall>es u r u'. deploy_build_dependencies e k n c target es u = Inr (r, u') \<longrightarrow> r = None)"
proof
  show "deploy_build_dependencies e k n c target (d # ds) w = Inr (None, w\<lparr>bw_deploy := v\<rparr>)"
    using fails ready_expand [OF ready, of "be_exec e"]
    by (simp add: xbind_def blift_def dlift_def ex_def xret_def)
  show "\<forall>es u r u'. deploy_build_dependencies e k n c target es u = Inr (r, u') \<longrightarrow> r = None"
    using givesD [OF dependencies_report_nothing] by blast
qed

section \<open>Kits\<close>

abbreviation no_name :: "'f + sdk_info \<Rightarrow> bool" where
  "no_name r \<equiv> (case r of Inl _ \<Rightarrow> True | Inr i \<Rightarrow> si_sdk i = [])"

lemma check_java_anonymous: "gives no_name (check_java e n c d q)"
  unfolding check_java_def Let_def
  by (intro gives) (auto intro!: gives split: "value.splits")

lemma set_jdk_anonymous: "gives no_name (set_jdk e n c q)"
  unfolding set_jdk_def
  by (rule gives_bind_from [OF check_java_anonymous])
    (auto intro!: gives gives_bind_from [OF check_java_anonymous] split: sum.splits)

lemma preserves_bind_gives:
  assumes "preserves f m" "gives Q m" "\<And>x. Q x \<Longrightarrow> preserves f (k x)"
  shows "preserves f (xbind m k)"
  using assms by (fastforce simp: preserves_def gives_def xbind_Inr)

lemma preserves_comp: "preserves f m \<Longrightarrow> preserves (\<lambda>w. g (f w)) m"
  by (simp add: preserves_def)

lemma dlift_kit [preserve]: "preserves (\<lambda>w. mget (dw_sdks w s) k) (dlift m)"
  by (rule preserves_comp [OF dlift_preserves(3)])

lemma update_sdk_preserves:
  assumes "si_sdk i \<noteq> k"
  shows "preserves (\<lambda>w. mget (dw_sdks w s) k) (update_sdk e c target i)"
  unfolding update_sdk_def
  by (intro preserve preserves_mod) (use assms in simp)

text \<open>
  Looking for a Java kit does not change what a session remembers of the kit, so it is looked
  for again with every request. (The kit that was found has no name, and is remembered without.)
\<close>

theorem jdk_is_not_remembered:
  assumes "sq_sdk q = ''jdk''" "set_sdk e n c q w = Inr (r, w')"
  shows "mget (dw_sdks w' s) ''jdk'' = mget (dw_sdks w s) ''jdk''"
proof -
  let ?f = "\<lambda>w. mget (dw_sdks w s) ''jdk''"
  have jdk: "preserves ?f (set_jdk e n c q)"
    by (rule preserves_comp [OF set_jdk_preserves])
  have kit: "preserves ?f (case r2 of Inl f \<Rightarrow> xret (Inl f)
      | Inr i \<Rightarrow> xbind (update_sdk e c target i) (\<lambda>err. xret (case err of None \<Rightarrow> Inr i | Some x \<Rightarrow> Inl (SdkError x))))"
    if "no_name r2" for target and r2 :: "sdk_failure + sdk_info"
  proof (cases r2)
    case (Inr i)
    then have "si_sdk i \<noteq> ''jdk''" using that by simp
    then show ?thesis using Inr by (simp add: preserves_bind update_sdk_preserves preserves_ret)
  qed (simp add: preserves_ret)
  have found: "preserves ?f (xbind (set_jdk e n c q) (\<lambda>r2. case r2 of Inl f \<Rightarrow> xret (Inl f)
      | Inr i \<Rightarrow> xbind (update_sdk e c target i) (\<lambda>err. xret (case err of None \<Rightarrow> Inr i | Some x \<Rightarrow> Inl (SdkError x)))))"
    for target
    by (rule preserves_bind_gives [OF jdk set_jdk_anonymous kit])
  have "preserves ?f (set_sdk e n c q)"
    unfolding set_sdk_def find_kit_def check_sdk_on_session_def assms(1) if_True simp_thms
    by (intro preserve found)
  then show ?thesis using assms(2) by (rule preservesD)
qed

section \<open>A small host\<close>

text \<open>A shell that answers every command with a version, which every pattern extracts.\<close>

definition version_shell :: "files shells" where
  "version_shell = files_shell\<lparr>sh_run := (\<lambda>k command ts ms sh.
     (\<lparr>so_text = ''1.8'', so_parts = [], so_code = 0, so_error = None\<rparr>, sh))\<rparr>"

definition deploy_env0 :: "files deploy_env" where
  "deploy_env0 = \<lparr>
     dv_storage = storage_env0\<lparr>sv_exec := (sv_exec storage_env0)\<lparr>xe_shells := version_shell,
       xe_engine := env0\<lparr>en_regexp := (\<lambda>s. Inr (\<lambda>line. Some [line, line]))\<rparr>\<rparr>\<rparr>,
     dv_decode = (\<lambda>r sh. Inl (PlainErr ''not found'')), dv_credentials = (\<lambda>s. []), dv_os_version = (\<lambda>k sh. []),
     dv_show_resource = r_url, dv_show_os = os_name\<rparr>"

definition deploy_world0 :: "files deploy_world" where
  "deploy_world0 = \<lparr>
     dw_exec = storage_world0\<lparr>xw_table := [(''@mem'', 0)], xw_sessions := (\<lambda>s. new_session ''@mem'' 0), xw_next := 1\<rparr>,
     dw_registry = [], dw_deployed = (\<lambda>s. [(''tomcatmem://page'', ''7.0'')]), dw_sdks = (\<lambda>s. [])\<rparr>"

definition deploy_request0 :: deploy_request where
  "deploy_request0 = \<lparr>dr_target = Some page0, dr_meta_url = [], dr_app = ''tomcat'', dr_version = ''7'',
     dr_variables = [(''a'', ''b'')], dr_force = False, dr_base = []\<rparr>"

definition jdk_request0 :: sdk_request where
  "jdk_request0 = \<lparr>sq_sdk = ''jdk'', sq_version = ''1.8'', sq_env = [], sq_target = Some page0, sq_base = sdk_base\<rparr>"

definition build_env0 :: "files build_env" where
  "build_env0 = \<lparr>be_deploy = deploy_env0, be_decode = (\<lambda>r sh. Inl (PlainErr ''not found'')), be_resource = (\<lambda>r. VStr (r_url r))\<rparr>"

lemma deploy_ready: "ready 0 0 (dw_exec deploy_world0)"
  by (simp add: ready_def deploy_world0_def storage_world0_def)

lemma deploy_expand: "case s of [] \<Rightarrow> True | ch # _ \<Rightarrow> ch \<noteq> CHR ''$'' \<Longrightarrow> expand_text (dv_tb deploy_env0) h a s = s"
  by (cases s) (simp_all add: deploy_env0_def storage_env0_def env0_def tb0_def expand0_def)

definition closed_env0 :: "files deploy_env" where
  "closed_env0 = deploy_env0\<lparr>dv_storage := storage_env0\<lparr>sv_exec := (sv_exec storage_env0)\<lparr>xe_shells :=
     files_shell\<lparr>sh_open := (\<lambda>k sh. (Inl (PlainErr ''no route to host''), sh))\<rparr>\<rparr>\<rparr>\<rparr>"

definition jdk_request1 :: sdk_request where
  "jdk_request1 = jdk_request0\<lparr>sq_target := Some (new_resource ''mem://other'' [])\<rparr>"


lemma failed_dependencies_are_ignored_witness:
  "\<exists>w'. deploy_build_dependencies build_env0 1 1 0 page0 [\<lparr>dy_name = [], dy_version = []\<rparr>]
     \<lparr>bw_deploy = deploy_world0, bw_registry = []\<rparr> = Inr (None, w')"
proof -
  let ?q = "\<lparr>dr_target = Some page0, dr_meta_url = [], dr_app = [], dr_version = [], dr_variables = [],
    dr_force = False, dr_base = []\<rparr> :: deploy_request"
  let ?run = "call_deploy (be_deploy build_env0) 1 1 0 ?q deploy_world0"
  have "(case ?run of Inr (Inl err, v) \<Rightarrow> True | _ \<Rightarrow> False)" by code_simp
  then obtain err v where run: "?run = Inr (Inl err, v)" by (auto split: sum.splits)
  have plain: "expand_text (dv_tb (be_deploy build_env0)) h a [] = []" for h a
    by (simp add: build_env0_def deploy_expand)
  have ready: "ready 0 0 (dw_exec (bw_deploy \<lparr>bw_deploy = deploy_world0, bw_registry = []\<rparr>))"
    using deploy_ready by simp
  show ?thesis
    using failed_dependencies_are_ignored [OF ready, of build_env0 1 1 page0 "\<lparr>dy_name = [], dy_version = []\<rparr>"] run
    by (simp add: plain del: deploy_build_dependencies.simps)
qed

lemma jdk_is_not_remembered_witness:
  "\<exists>f w'. set_sdk closed_env0 3 0 jdk_request1 deploy_world0 = Inr (Inl f, w') \<and> mget (dw_sdks w' 0) ''jdk'' = None"
proof -
  have "(case set_sdk closed_env0 3 0 jdk_request1 deploy_world0 of Inr (Inl f, w') \<Rightarrow> True | _ \<Rightarrow> False)"
    by code_simp
  then obtain f w' where run: "set_sdk closed_env0 3 0 jdk_request1 deploy_world0 = Inr (Inl f, w')"
    by (auto split: sum.splits)
  have "mget (dw_sdks w' 0) ''jdk'' = mget (dw_sdks deploy_world0 0) ''jdk''"
    by (rule jdk_is_not_remembered [OF _ run]) (simp add: jdk_request1_def jdk_request0_def)
  then show ?thesis using run by (simp add: deploy_world0_def mget_def)
qed

end
