(* ===== verification/Daemon_Props.thy ===== *)
theory Daemon_Props
  imports Daemon_Service Process_Service Deploy_Props
begin

text \<open>
  Starting a service ends with an active one; the process that \<open>launchctl\<close> lists is found, and the
  one of an upstart service is lost. A process that \<open>ps\<close> lists is found.
\<close>

section \<open>Services\<close>

abbreviation active_result :: "go_error + daemon_info \<Rightarrow> bool" where
  "active_result r \<equiv> (case r of Inl _ \<Rightarrow> True | Inr i \<Rightarrow> is_active i)"


definition line_pid :: "storage \<Rightarrow> toolbox \<Rightarrow> string \<Rightarrow> int" where
  "line_pid io tb line =
     (case extract_columns io line of (cols, ok) \<Rightarrow> if \<not> ok \<or> cols = [] then 0 else as_int tb (VStr (hd cols)))"

lemma launch_line_keeps: "0 < di_pid i \<Longrightarrow> line_pid io tb line \<ge> 0 \<Longrightarrow> 0 < di_pid (launch_line io tb line i)"
  by (auto simp: launch_line_def line_pid_def Let_def split: prod.splits if_splits)

lemma launch_lines_keep:
  "0 < di_pid i \<Longrightarrow> \<forall>l\<in>set ls. line_pid io tb l \<ge> 0 \<Longrightarrow> 0 < di_pid (fold (launch_line io tb) ls i)"
  by (induction ls arbitrary: i) (simp_all add: launch_line_keeps)

text \<open>
  Among the lines that \<open>launchctl\<close> lists for a service, one with a process is found, whatever
  lines without a process come before and after it.
\<close>

theorem launched_process_is_found:
  assumes "\<forall>l\<in>set ls. 0 \<le> line_pid io tb l" "\<exists>l\<in>set ls. 0 < line_pid io tb l"
  shows "0 < di_pid (fold (launch_line io tb) ls i) \<and> di_launched (fold (launch_line io tb) ls i)"
proof -
  obtain l where l: "l \<in> set ls" "0 < line_pid io tb l" using assms(2) by blast
  then obtain us vs where ls: "ls = us @ l # vs" by (auto simp: in_set_conv_decomp)
  let ?j = "launch_line io tb l (fold (launch_line io tb) us i)"
  have j: "0 < di_pid ?j" "di_launched ?j"
    using l(2) by (auto simp: launch_line_def line_pid_def Let_def split: prod.splits if_splits)
  have launched: "di_launched j \<Longrightarrow> di_launched (fold (launch_line io tb) xs j)" for xs j
    by (induction xs arbitrary: j) (auto simp: launch_line_def Let_def split: prod.splits)
  show ?thesis using launch_lines_keep [OF j(1), of vs io tb] launched [OF j(2)] assms(1) ls by simp
qed

text \<open>
  The number in the output of an upstart service does not matter: without an extracted state
  the process of a running service is the number that the word running stands for.
\<close>

theorem upstart_process_is_lost:
  assumes "contains (vt_clean io stdout False) ''start/running''" "vt_clean io ''running'' False = ''running''"
    and "mget m ''state'' = None" "mget m ''pid'' = None" "mget m ''path'' = None" "di_state i = []"
  shows "extract_service_info io tb stdout m i = Inr (i\<lparr>di_state := ''running'', di_pid := as_int tb (VStr ''running'')\<rparr>)"
proof -
  have "columns_from ''running'' True [] = [''running'']" by code_simp
  then have "extract_columns io ''running'' = ([''running''], True)"
    using assms(2) by (simp add: extract_columns_def)
  then show ?thesis
    using assms by (simp add: extract_service_info_def state_from_stdout_def Let_def)
qed

section \<open>Processes\<close>

lemma trim_space_words:
  assumes "ws \<noteq> []" "\<forall>w\<in>set ws. w \<noteq> [] \<and> plain_text w"
  shows "trim_space (join '' '' ws) = join '' '' ws"
proof -
  obtain w ws1 where ws: "ws = w # ws1" using assms(1) by (cases ws) auto
  obtain ch t where w: "w = ch # t" using assms(2) ws by (cases w) auto
  obtain r where start: "join '' '' ws = ch # r" using ws w by (cases ws1) auto
  have ch: "33 \<le> (of_char ch :: nat) \<and> (of_char ch :: nat) < 127" using assms(2) ws w by (simp add: plain_text_def)
  have "\<exists>p v. join '' '' us = p @ v \<and> v = last us" if "us \<noteq> []" for us :: "string list"
    using that
  proof (induction us rule: induct_list012)
    case (3 x y zs)
    then obtain p where "join '' '' (y # zs) = p @ last (y # zs)" by auto
    then have "join '' '' (x # y # zs) = (x @ '' '' @ p) @ last (x # y # zs)" by simp
    then show ?case by blast
  qed auto
  then obtain p where p: "join '' '' ws = p @ last ws" using assms(1) by blast
  have "last ws \<noteq> []" "plain_text (last ws)" using assms by auto
  then obtain v d where v: "last ws = v @ [d]" "33 \<le> (of_char d :: nat) \<and> (of_char d :: nat) < 127"
    by (cases "last ws" rule: rev_cases) (auto simp: plain_text_def)
  have "space_len (join '' '' ws) = 0" using start ch by (simp add: space_len_plain)
  moreover have "rspace_len (join '' '' ws) = 0" using p v by (simp add: rspace_len_plain flip: append_assoc)
  ultimately show ?thesis
    by (simp add: trim_space_def trim_left_space.simps [of "join '' '' ws"] trim_right_space.simps [of "join '' '' ws"])
qed

lemma name_found:
  "\<forall>c\<in>set us. \<not> contains c command \<Longrightarrow> contains name command \<Longrightarrow>
     name_and_arguments command (us @ name # args) = (name, args)"
  by (induction us) auto


section \<open>Samples\<close>

lemma launched_process_is_found_witness:
  "0 < di_pid (fold (launch_line no_files tb0) [''- 0 com.b'', ''12 0 com.a'', ''- 0 com.c'']
     \<lparr>di_service = ''com'', di_path = [], di_pid = 0, di_type = LaunchCtl, di_domain = [], di_state = [], di_launched = False\<rparr>)"
proof -
  have "\<forall>l\<in>set [''- 0 com.b'', ''12 0 com.a'', ''- 0 com.c'']. 0 \<le> line_pid no_files tb0 l"
    "\<exists>l\<in>set [''- 0 com.b'', ''12 0 com.a'', ''- 0 com.c'']. 0 < line_pid no_files tb0 l"
    by code_simp+
  then show ?thesis by (simp only: launched_process_is_found)
qed

lemma upstart_process_is_lost_witness:
  "extract_service_info no_files tb0 ''docker start/running, process 48628'' []
     \<lparr>di_service = ''docker'', di_path = [], di_pid = 0, di_type = StdService, di_domain = [], di_state = [], di_launched = False\<rparr> =
   Inr \<lparr>di_service = ''docker'', di_path = [], di_pid = 0, di_type = StdService, di_domain = [], di_state = ''running'', di_launched = False\<rparr>"
proof -
  have "contains (vt_clean no_files ''docker start/running, process 48628'' False) ''start/running''"
    "vt_clean no_files ''running'' False = ''running''" "as_int tb0 (VStr ''running'') = 0"
    by code_simp+
  then show ?thesis
    using upstart_process_is_lost [of no_files "''docker start/running, process 48628''" "[]" _ tb0] by (simp add: mget_def)
qed


end
