(* ===== verification/Vc_Service.thy ===== *)
theory Vc_Service
  imports Storage_Service
begin

text \<open>
  service/deployment/vc: version control through the command service. The output of \<open>git status\<close>
  and \<open>svn stat\<close> is read by small state machines. The lookup of a user name and the order in which
  the map of error messages is visited are parameters.
\<close>

section \<open>Requests\<close>

record checkout_request =
  vo_type :: string
  vo_origin :: "resource option"
  vo_dest :: "resource option"
  vo_modules :: "string list"
  vo_remove :: bool

record vc_request =
  vq_type :: string
  vq_source :: "resource option"
  vq_origin :: "resource option"
  vq_message :: string

record vc_info =
  vi_managed :: bool
  vi_origin :: string
  vi_revision :: string
  vi_branch :: string
  vi_up_to_date :: bool
  vi_new :: "string list"
  vi_untracked :: "string list"
  vi_modified :: "string list"
  vi_deleted :: "string list"

definition no_info :: vc_info where
  "no_info = \<lparr>vi_managed = False, vi_origin = [], vi_revision = [], vi_branch = [], vi_up_to_date = False,
     vi_new = [], vi_untracked = [], vi_modified = [], vi_deleted = []\<rparr>"

definition has_pending_changes :: "vc_info \<Rightarrow> bool" where
  "has_pending_changes i \<longleftrightarrow> vi_new i \<noteq> [] \<or> vi_untracked i \<noteq> [] \<or> vi_deleted i \<noteq> [] \<or> vi_modified i \<noteq> []"

definition vc_type :: "resource option \<Rightarrow> string \<Rightarrow> string" where
  "vc_type r t =
     (case r of
        None \<Rightarrow> t
      | Some x \<Rightarrow>
          if t \<noteq> [] then t
          else if contains (r_url x) ''/svn'' then ''svn''
          else if contains (r_url x) ''git'' then ''git'' else [])"

definition init_checkout :: "urls \<Rightarrow> checkout_request \<Rightarrow> checkout_request" where
  "init_checkout u q =
     (case (vo_origin q, vo_dest q) of
        (Some origin, Some dest) \<Rightarrow>
          (let t = vc_type (Some origin) (vo_type q)
           in q\<lparr>vo_type := (if t \<in> {[], ''local''} \<and> res_scheme u origin = ''file'' then ''local'' else t),
                vo_dest := Some (if r_credentials dest = [] then dest\<lparr>r_credentials := ''localhost''\<rparr> else dest)\<rparr>)
      | _ \<Rightarrow> q)"

definition validate_checkout :: "checkout_request \<Rightarrow> go_error option" where
  "validate_checkout q =
     (case (vo_origin q, vo_dest q) of
        (None, _) \<Rightarrow> Some (PlainErr ''origin was empty'')
      | (Some _, None) \<Rightarrow> Some (PlainErr ''dest was empty'')
      | (Some o', Some _) \<Rightarrow>
          if vo_type q = [] then Some (PlainErr (''version control was empty for '' @ r_url o')) else None)"

text \<open>The requests for the state, a commit or a pull; a pull names its source the destination.\<close>

definition init_vc_request :: "vc_request \<Rightarrow> vc_request" where
  "init_vc_request q = q\<lparr>vq_type := vc_type (vq_source q) (vq_type q)\<rparr>"

definition validate_vc_request :: "string \<Rightarrow> vc_request \<Rightarrow> go_error option" where
  "validate_vc_request name q =
     (case vq_source q of
        None \<Rightarrow> Some (PlainErr (name @ '' type was empty''))
      | Some r \<Rightarrow> if vq_type q = [] then Some (PlainErr (''type was empty for '' @ r_url r)) else None)"

definition normalize_vc_path :: "urls \<Rightarrow> string \<Rightarrow> string" where
  "normalize_vc_path u url =
     (let r = new_resource url []; p = res_hostname u r @ res_path u r
      in take (length p - length (path_ext p)) p)"

section \<open>Reading the state\<close>

definition add_if_matched :: "string \<Rightarrow> string \<Rightarrow> string list \<Rightarrow> string list" where
  "add_if_matched line fragment xs =
     (case index_of line fragment of
        None \<Rightarrow> xs
      | Some i \<Rightarrow> xs @ [trim_space (drop (i + length fragment) line)])"

definition status_line :: "string \<Rightarrow> bool \<times> vc_info \<Rightarrow> bool \<times> vc_info" where
  "status_line line s =
     (case s of (untracked, i) \<Rightarrow>
        if \<not> untracked then
          (contains line ''Untracked files:'',
           i\<lparr>vi_new := add_if_matched line ''new file:'' (vi_new i),
             vi_modified := add_if_matched line ''modified:'' (vi_modified i),
             vi_deleted := add_if_matched line ''deleted:'' (vi_deleted i)\<rparr>)
        else if CHR ''('' \<in> set line then (True, i)
        else (let file = trim_set [CHR '' '', char_of (9::nat)] line
              in (True, if file = [] then i else i\<lparr>vi_untracked := vi_untracked i @ [file]\<rparr>)))"

definition extract_git_status :: "storage \<Rightarrow> string \<Rightarrow> vc_info \<Rightarrow> vc_info" where
  "extract_git_status io stdout i =
     (let i1 = i\<lparr>vi_up_to_date := vi_up_to_date i \<or> contains stdout ''nothing to commit'',
                 vi_new := [], vi_modified := [], vi_deleted := [], vi_untracked := []\<rparr>
      in snd (fold (\<lambda>line. status_line (vt_clean io line False)) (split_on crlf stdout) (False, i1)))"

definition extract_revision :: "string \<Rightarrow> vc_info \<Rightarrow> vc_info" where
  "extract_revision stdout i =
     (if contains stdout ''unknown revision'' then i\<lparr>vi_managed := True\<rparr> else i\<lparr>vi_revision := trim_space stdout\<rparr>)"

definition svn_line :: "storage \<Rightarrow> string \<Rightarrow> vc_info \<Rightarrow> vc_info" where
  "svn_line io line i =
     (case extract_columns io line of
        (key # file # _, True) \<Rightarrow>
          (if key = ''?'' then i\<lparr>vi_untracked := vi_untracked i @ [file]\<rparr>
           else if key = ''A'' then i\<lparr>vi_new := vi_new i @ [file]\<rparr>
           else if key = ''D'' then i\<lparr>vi_deleted := vi_deleted i @ [file]\<rparr>
           else if key = ''M'' then i\<lparr>vi_modified := vi_modified i @ [file]\<rparr> else i)
      | _ \<Rightarrow> i)"

definition read_svn_status :: "storage \<Rightarrow> string \<Rightarrow> vc_info \<Rightarrow> vc_info" where
  "read_svn_status io stdout i0 =
     (let i = fold (svn_line io) (split_on [char_of (10::nat)] stdout)
                (i0\<lparr>vi_new := [], vi_modified := [], vi_deleted := [], vi_untracked := []\<rparr>)
      in if vi_modified i = [] \<and> vi_deleted i = [] \<and> vi_new i = [] then i\<lparr>vi_up_to_date := True\<rparr> else i)"

section \<open>Access\<close>

record 'sh vc_env =
  vc_storage :: "'sh storage_env"
  vc_username :: "string \<Rightarrow> go_error + string"
  vc_order :: "string list"

abbreviation vc_exec :: "'sh vc_env \<Rightarrow> 'sh exec_env" where
  "vc_exec e \<equiv> sv_exec (vc_storage e)"

abbreviation vc_urls :: "'sh vc_env \<Rightarrow> urls" where
  "vc_urls e \<equiv> sv_urls (vc_storage e)"

abbreviation vc_io :: "'sh vc_env \<Rightarrow> storage" where
  "vc_io e \<equiv> en_io (xe_engine (sv_exec (vc_storage e)))"

definition rewritten_error :: "'sh vc_env \<Rightarrow> resource \<Rightarrow> string \<Rightarrow> string" where
  "rewritten_error e origin key =
     (if key = ''error validating server certificate''
      then ''failed to validate svn certificate: '' @ r_url origin
      else ''failed to authenticate username: '' @ (case vc_username e (r_credentials origin) of Inl _ \<Rightarrow> [] | Inr u \<Rightarrow> u) @
           '' with '' @ r_credentials origin @ '' secret'')"

definition check_auth_errors :: "'sh vc_env \<Rightarrow> resource \<Rightarrow> go_error \<Rightarrow> go_error" where
  "check_auth_errors e origin err =
     (case find (contains (to_lower (error_text err))) (vc_order e) of
        None \<Rightarrow> err
      | Some key \<Rightarrow> PlainErr (rewritten_error e origin key))"

definition vc_run :: "'sh vc_env \<Rightarrow> nat \<Rightarrow> nat \<Rightarrow> resource option \<Rightarrow> string \<Rightarrow> ('sh, go_error + run_response) xm" where
  "vc_run e n c target command = call_exec_run (vc_exec e) n c (new_exec_request target False [command])"

definition vc_extract ::
  "'sh vc_env \<Rightarrow> nat \<Rightarrow> nat \<Rightarrow> resource option \<Rightarrow> exec_options \<Rightarrow> extract_command list \<Rightarrow> ('sh, go_error + run_response) xm" where
  "vc_extract e n c target opts commands =
     call_exec_extract (vc_exec e) n c \<lparr>xq_target = target, xq_options = Some opts, xq_commands = Some commands\<rparr>"

definition data_text :: "run_response \<Rightarrow> string \<Rightarrow> ('sh, string) xm" where
  "data_text resp k =
     xbind (xget (\<lambda>w. mget (cell (wd_heap (xw_world w)) (rr_data resp)) k)) (\<lambda>v w.
       case v of
         None \<Rightarrow> Inr ([], w)
       | Some (VStr s) \<Rightarrow> Inr (s, w)
       | Some _ \<Rightarrow> Inl (Crash ''interface conversion''))"

definition stdout_at :: "run_response \<Rightarrow> int list \<Rightarrow> string" where
  "stdout_at resp is = (case response_stdout resp is of Inr s \<Rightarrow> s | Inl _ \<Rightarrow> [])"

definition pattern_of :: "string \<Rightarrow> string" where
  "pattern_of s = concat (map (\<lambda>ch. if ch = CHR ''~'' then [char_of (92::nat)] else [ch]) s)"

text \<open>A directory that cannot be entered is one that is not under version control.\<close>

definition in_directory ::
  "'sh vc_env \<Rightarrow> nat \<Rightarrow> nat \<Rightarrow> resource \<Rightarrow> ('sh, go_error + vc_info) xm \<Rightarrow> ('sh, go_error + vc_info) xm" where
  "in_directory e n c target body =
     xbind (vc_run e n c (Some target) (''cd '' @ res_path (vc_urls e) target)) (\<lambda>r.
       case r of
         Inl _ \<Rightarrow> xret (Inr no_info)
       | Inr resp \<Rightarrow> if command_not_found [stdout_at resp []] then xret (Inr no_info) else body)"

section \<open>Git\<close>

definition git_check_info :: "'sh vc_env \<Rightarrow> nat \<Rightarrow> nat \<Rightarrow> resource option \<Rightarrow> ('sh, go_error + vc_info) xm" where
  "git_check_info e n c source =
     xtry (expand_target (vc_exec e) c source) (\<lambda>target.
     in_directory e n c target
       (xtry (vc_extract e n c source default_options
          [new_extract_command ''git status'' [] [] []
             [new_extract ''branch'' (pattern_of ''On branch[~s~t]+([^~s]+)'') True False],
           new_extract_command ''git remote -v'' [] [] []
             [new_extract ''origin'' (pattern_of ''origin[~s~t]+([^~s]+)~s+~(fetch~)'') True False],
           new_extract_command ''git rev-parse HEAD'' [] [] [] []]) (\<lambda>resp.
        xbind (data_text resp ''branch'') (\<lambda>branch.
        xbind (data_text resp ''origin'') (\<lambda>origin.
          let i = no_info\<lparr>vi_branch := branch, vi_origin := origin\<rparr>
          in xret (Inr (if escaped_contains (vc_io e) (to_lower (stdout_at resp [])) ''not a git'' then i
               else extract_revision (stdout_at resp [2])
                      (extract_git_status (vc_io e) (stdout_at resp [0]) (i\<lparr>vi_managed := True\<rparr>)))))))))"

definition vc_errors :: "string list" where
  "vc_errors = [''no such file or directory'', ''Event not found'']"

text \<open>A command that may ask for a password, and the state afterwards.\<close>

definition git_secure_command ::
  "'sh vc_env \<Rightarrow> nat \<Rightarrow> nat \<Rightarrow> resource \<Rightarrow> resource \<Rightarrow> string \<Rightarrow> bool \<Rightarrow> ('sh, go_error + vc_info) xm" where
  "git_secure_command e n c origin source command parent =
     xbind (expand_target (vc_exec e) c (Some source)) (\<lambda>t w.
       if parent \<and> (case t of Inl _ \<Rightarrow> True | Inr _ \<Rightarrow> False) then Inl (Crash ''nil pointer dereference'')
       else
         (let target = (case t of Inl _ \<Rightarrow> None | Inr x \<Rightarrow> Some (if parent then res_rename (vc_urls e) [] x else x));
              opts = default_options\<lparr>eo_secrets := [(''vc'', r_credentials origin)], eo_timeout := 200000,
                       eo_terminators := [''Password'']\<rparr>
          in xbind (vc_extract e n c target opts
               [new_extract_command command [] [] (vc_errors @ [''Unable to connect'']) [],
                new_extract_command ''vc'' ''Password'' [] (vc_errors @ [''Authentication failed'']) []]) (\<lambda>r.
               case r of
                 Inl err \<Rightarrow> xret (Inl (check_auth_errors e origin err))
               | Inr _ \<Rightarrow> git_check_info e n c (Some source)) w))"

definition git_pull :: "'sh vc_env \<Rightarrow> nat \<Rightarrow> nat \<Rightarrow> resource option \<Rightarrow> resource option \<Rightarrow> ('sh, go_error + vc_info) xm" where
  "git_pull e n c dest origin =
     xtry (expand_target (vc_exec e) c dest) (\<lambda>target.
     xtry (expand_target (vc_exec e) c origin) (\<lambda>from.
     xtry (vc_run e n c (Some target) (''cd '' @ res_path (vc_urls e) target)) (\<lambda>_.
       git_secure_command e n c from target ''git pull'' False)))"

definition user_of :: "'sh vc_env \<Rightarrow> resource \<Rightarrow> go_error + string" where
  "user_of e origin = (if r_credentials origin = [] then Inr [] else vc_username e (r_credentials origin))"

text \<open>
  The preparation of a clone: the directory is made when the project is named as its origin,
  otherwise its parent is entered. A directory that cannot be made ends the checkout without an
  error (\<open>None\<close>); one that was made is not entered.
\<close>

definition prepare_clone ::
  "'sh vc_env \<Rightarrow> nat \<Rightarrow> nat \<Rightarrow> resource \<Rightarrow> resource \<Rightarrow> ('sh, go_error + (string \<times> bool) option) xm" where
  "prepare_clone e n c origin dest =
     (let path = res_path (vc_urls e) dest; (parent, project) = path_split path
      in if snd (path_split (res_path (vc_urls e) origin)) = project
         then (if path = ''/'' then xret (Inr (Some (''.'', False)))
               else xbind (vc_run e n c (Some dest) (''mkdir -p '' @ path)) (\<lambda>r.
                 xret (case r of Inl _ \<Rightarrow> Inr None | Inr _ \<Rightarrow> Inr (Some (''.'', False)))))
         else xtry (vc_run e n c (Some dest) (''cd '' @ parent)) (\<lambda>_. xret (Inr (Some (project, True)))))"

definition git_checkout ::
  "'sh vc_env \<Rightarrow> nat \<Rightarrow> nat \<Rightarrow> resource option \<Rightarrow> resource option \<Rightarrow> ('sh, go_error + vc_info option) xm" where
  "git_checkout e n c origin0 dest0 =
     xtry (expand_target (vc_exec e) c origin0) (\<lambda>origin.
     xtry (expand_target (vc_exec e) c dest0) (\<lambda>dest.
     xtry (xret (user_of e origin)) (\<lambda>user.
     xtry (prepare_clone e n c origin dest) (\<lambda>p.
       case p of
         None \<Rightarrow> xret (Inr None)
       | Some (project, parent) \<Rightarrow>
           xtry (git_secure_command e n c origin dest
                   (''git clone '' @ credential_url (vc_urls e) origin user [] @ '' '' @ project) parent) (\<lambda>i.
             xret (Inr (Some i)))))))"

definition git_sparse_checkout ::
  "'sh vc_env \<Rightarrow> nat \<Rightarrow> nat \<Rightarrow> resource option \<Rightarrow> resource option \<Rightarrow> string list \<Rightarrow> ('sh, go_error + unit) xm" where
  "git_sparse_checkout e n c origin0 dest0 modules =
     xtry (expand_target (vc_exec e) c origin0) (\<lambda>origin.
     xtry (expand_target (vc_exec e) c dest0) (\<lambda>dest.
     xtry (xret (user_of e origin)) (\<lambda>user.
     xtry (prepare_clone e n c origin dest) (\<lambda>p.
       case p of
         None \<Rightarrow> xret (Inr ())
       | Some (project, parent) \<Rightarrow>
           xtry (git_check_info e n c (Some dest)) (\<lambda>i.
           xtry (if vi_managed i then xret (Inr no_info)
                 else git_secure_command e n c origin dest (''git clone --no-checkout '' @
                        credential_url (vc_urls e) origin user [] @ '' '' @ project) parent) (\<lambda>_.
           xtry (git_secure_command e n c origin dest ''git config core.sparseCheckout true'' False) (\<lambda>_.
           xtry (vc_run e n c (Some dest) ''rm -f .git/info/sparse-checkout'') (\<lambda>_.
           xtry (git_secure_command e n c origin dest (''echo '' @ [char_of (34::nat)] @
                   concat (map (\<lambda>m. m @ [char_of (10::nat)]) modules) @ [char_of (34::nat)] @
                   '' >> .git/info/sparse-checkout'') False) (\<lambda>_.
           xtry (if vi_managed i then xret (Inr no_info)
                 else git_secure_command e n c origin dest ''git checkout'' False) (\<lambda>_. xret (Inr ())))))))))))"

definition quoted_message :: "string \<Rightarrow> string" where
  "quoted_message s = replace_all s [char_of (34::nat)] [char_of (39::nat)]"

fun git_add_all :: "'sh vc_env \<Rightarrow> nat \<Rightarrow> nat \<Rightarrow> resource option \<Rightarrow> string list \<Rightarrow> ('sh, go_error + unit) xm" where
  "git_add_all e n c source [] = xret (Inr ())"
| "git_add_all e n c source (f # fs) =
     xtry (vc_extract e n c source default_options
        [new_extract_command (''git add '' @ f @ '' '') [] [] [''no such file or directory'', ''Errors''] []]) (\<lambda>_.
       git_add_all e n c source fs)"

definition git_commit :: "'sh vc_env \<Rightarrow> nat \<Rightarrow> nat \<Rightarrow> resource option \<Rightarrow> string \<Rightarrow> ('sh, go_error + vc_info) xm" where
  "git_commit e n c source message =
     xtry (git_check_info e n c source) (\<lambda>i.
     xtry (git_add_all e n c source (vi_untracked i)) (\<lambda>_.
     xtry (vc_extract e n c source default_options
        [new_extract_command (''git commit -m '' @ [char_of (34::nat)] @ quoted_message message @ [char_of (34::nat)] @ '' -a'')
           [] [] [''no such file or directory'', ''Errors''] []]) (\<lambda>_.
     xtry (vc_run e n c source ''git push'') (\<lambda>_.
       git_check_info e n c source))))"

section \<open>Subversion\<close>

definition svn_check_info :: "'sh vc_env \<Rightarrow> nat \<Rightarrow> nat \<Rightarrow> resource option \<Rightarrow> ('sh, go_error + vc_info) xm" where
  "svn_check_info e n c source =
     xtry (expand_target (vc_exec e) c source) (\<lambda>target.
     in_directory e n c target
       (xtry (vc_extract e n c (Some target) default_options
          [new_extract_command ''svn info'' [] [] []
             [new_extract ''origin'' (pattern_of ''^URL:[~t~s]+([^~s]+)'') False False,
              new_extract ''revision'' (pattern_of ''Revision:~s+([^~s]+)'') False False],
           new_extract_command ''svn stat'' [] [] [] []]) (\<lambda>resp.
        xbind (data_text resp ''revision'') (\<lambda>revision.
        xbind (xget (\<lambda>w. mhas (cell (wd_heap (xw_world w)) (rr_data resp)) ''origin'')) (\<lambda>has.
        xbind (data_text resp ''origin'') (\<lambda>origin.
          let i = no_info\<lparr>vi_revision := revision, vi_origin := origin,
                    vi_branch := (if has then snd (path_split origin) else [])\<rparr>
          in xret (Inr (if contains (stdout_at resp [1]) ''is not a working copy'' then i
               else read_svn_status (vc_io e) (stdout_at resp []) (i\<lparr>vi_managed := True\<rparr>)))))))))"

definition svn_command :: "string \<Rightarrow> string \<Rightarrow> string list \<Rightarrow> string" where
  "svn_command command user arguments = ''svn '' @ command @ '' --username='' @ user @ '' '' @ join '' '' arguments"

definition svn_secure_command ::
  "'sh vc_env \<Rightarrow> nat \<Rightarrow> nat \<Rightarrow> resource \<Rightarrow> resource \<Rightarrow> string \<Rightarrow> string list \<Rightarrow> ('sh, go_error + vc_info) xm" where
  "svn_secure_command e n c source origin command arguments =
     xtry (xret (vc_username e (r_credentials origin))) (\<lambda>user.
     (let certificate = ''Errors validating server certificate'';
          opts = default_options\<lparr>eo_secrets := [(''vc'', r_credentials origin)], eo_timeout := 200000,
                   eo_terminators := [''Password for'', ''(yes/no)?'']\<rparr>
      in xbind (vc_extract e n c (Some source) opts
           [new_extract_command (svn_command command user arguments) [] []
              (vc_errors @ [certificate, ''Unable to connect to a repository'']) [],
            new_extract_command ''vc'' ''Password'' [] (vc_errors @ [''Username:'']) [],
            new_extract_command ''no'' ''Store password unencrypted'' [] (vc_errors @ [certificate]) []]) (\<lambda>r.
           case r of
             Inl err \<Rightarrow> xret (Inl (check_auth_errors e origin err))
           | Inr _ \<Rightarrow> svn_check_info e n c (Some source))))"

text \<open>The origin is used as it is given, without an expansion.\<close>

definition svn_pull :: "'sh vc_env \<Rightarrow> nat \<Rightarrow> nat \<Rightarrow> resource option \<Rightarrow> resource option \<Rightarrow> ('sh, go_error + vc_info) xm" where
  "svn_pull e n c dest origin =
     xtry (expand_target (vc_exec e) c dest) (\<lambda>target.
       case origin of
         None \<Rightarrow> (\<lambda>w. Inl (Crash ''nil pointer dereference''))
       | Some from \<Rightarrow> svn_secure_command e n c target from ''up'' [])"

definition svn_checkout :: "'sh vc_env \<Rightarrow> nat \<Rightarrow> nat \<Rightarrow> resource \<Rightarrow> resource option \<Rightarrow> ('sh, go_error + vc_info option) xm" where
  "svn_checkout e n c origin dest =
     xtry (expand_target (vc_exec e) c dest) (\<lambda>target.
     xtry (svn_secure_command e n c target origin ''co'' [r_url origin, res_path (vc_urls e) target]) (\<lambda>i.
       xret (Inr (Some i))))"

definition svn_commit :: "'sh vc_env \<Rightarrow> nat \<Rightarrow> nat \<Rightarrow> resource option \<Rightarrow> string \<Rightarrow> ('sh, go_error + vc_info) xm" where
  "svn_commit e n c source message =
     xtry (vc_run e n c source (''svn ci -m '' @ [char_of (34::nat)] @ quoted_message message @ [char_of (34::nat)] @ '' '')) (\<lambda>resp.
       if no_such_file [stdout_at resp []]
       then xret (Inl (PlainErr (''failed to commit '' @ stdout_at resp [])))
       else svn_check_info e n c source)"

section \<open>The service\<close>

definition vc_unsupported :: "string \<Rightarrow> resource \<Rightarrow> go_error" where
  "vc_unsupported t r = PlainErr (''unsupported type: '' @ t @ '' for URL '' @ r_url r)"

definition vc_check_info :: "'sh vc_env \<Rightarrow> nat \<Rightarrow> nat \<Rightarrow> string \<Rightarrow> resource option \<Rightarrow> ('sh, go_error + vc_info) xm" where
  "vc_check_info e n c t source =
     xtry (expand_target (vc_exec e) c source) (\<lambda>r.
       if t = ''git'' then git_check_info e n c source
       else if t = ''svn'' then svn_check_info e n c source
       else if t = ''local'' then xret (Inr (no_info\<lparr>vi_origin := (case source of Some s \<Rightarrow> r_url s | None \<Rightarrow> [])\<rparr>))
       else xret (Inl (PlainErr (''unsupported vc type: '' @ t @ '' for URL '' @ r_url r))))"

definition vc_commit :: "'sh vc_env \<Rightarrow> nat \<Rightarrow> nat \<Rightarrow> vc_request \<Rightarrow> ('sh, go_error + vc_info) xm" where
  "vc_commit e n c q =
     xtry (expand_target (vc_exec e) c (vq_source q)) (\<lambda>target.
     xtry (vc_run e n c (Some target) (''cd '' @ res_path (vc_urls e) target)) (\<lambda>_.
       if vq_type q = ''git'' then git_commit e n c (vq_source q) (vq_message q)
       else if vq_type q = ''svn'' then svn_commit e n c (vq_source q) (vq_message q)
       else xret (Inl (vc_unsupported (vq_type q) target))))"

definition vc_pull :: "'sh vc_env \<Rightarrow> nat \<Rightarrow> nat \<Rightarrow> vc_request \<Rightarrow> ('sh, go_error + vc_info) xm" where
  "vc_pull e n c q =
     xtry (expand_target (vc_exec e) c (vq_source q)) (\<lambda>target.
     xtry (vc_run e n c (Some target) (''cd '' @ res_path (vc_urls e) target)) (\<lambda>_.
       if vq_type q = ''git'' then git_pull e n c (vq_source q) (vq_origin q)
       else if vq_type q = ''svn'' then svn_pull e n c (vq_source q) (vq_origin q)
       else xret (Inl (vc_unsupported (vq_type q) target))))"

definition copy_local :: "'sh vc_env \<Rightarrow> nat \<Rightarrow> nat \<Rightarrow> resource \<Rightarrow> resource \<Rightarrow> ('sh, go_error + unit) xm" where
  "copy_local e n c origin dest =
     (case init_copy_request (vc_urls e) (new_copy_request [] [new_rule (Some origin) (Some dest) False False []]) of
        Inl err \<Rightarrow> call_service c ''storage'' ''copy'' (Some (init_failed ''*storage.CopyRequest'' err)) (xret (Inr ()))
      | Inr q \<Rightarrow>
          call_service c ''storage'' ''copy'' (map_option (validation_failed ''*storage.CopyRequest'') (validate_copy_request q))
            (xbind (copy_assets (vc_storage e) n c q) (\<lambda>(urls, err).
               xret (case err of None \<Rightarrow> Inr () | Some x \<Rightarrow> Inl x))))"

definition fresh_checkout ::
  "'sh vc_env \<Rightarrow> nat \<Rightarrow> nat \<Rightarrow> string \<Rightarrow> resource \<Rightarrow> resource \<Rightarrow> ('sh, go_error + vc_info option) xm" where
  "fresh_checkout e n c t origin dest =
     (if t = ''git'' then git_checkout e n c (Some origin) (Some dest)
      else if t = ''svn'' then svn_checkout e n c origin (Some dest)
      else if t = ''local'' then
        xtry (copy_local e n c origin dest) (\<lambda>_. xret (Inr (Some (no_info\<lparr>vi_origin := r_url origin\<rparr>))))
      else xret (Inl (PlainErr (''unsupported version control type: '' @ [char_of (39::nat)] @ t @ [char_of (39::nat)]))))"

text \<open>
  A directory that is managed and has the same origin is only updated, and its state before the
  update is returned. Another repository is only removed when local changes may be.
\<close>

definition checkout_steps ::
  "'sh vc_env \<Rightarrow> nat \<Rightarrow> nat \<Rightarrow> string \<Rightarrow> resource \<Rightarrow> resource \<Rightarrow> bool \<Rightarrow> ('sh, go_error + vc_info option) xm" where
  "checkout_steps e n c t origin dest removing =
     xtry (storage_service (vc_storage e) c [dest]) (\<lambda>fs.
     xtry (world_read (af_exists fs (r_url dest))) (\<lambda>there.
       if \<not> there then fresh_checkout e n c t origin dest
       else
         xtry (vc_check_info e n c t (Some dest)) (\<lambda>i.
           if \<not> vi_managed i then fresh_checkout e n c t origin dest
           else if normalize_vc_path (vc_urls e) (r_url origin) = normalize_vc_path (vc_urls e) (vi_origin i) then
             xtry (vc_pull e n c \<lparr>vq_type = t, vq_source = Some dest, vq_origin = Some origin, vq_message = []\<rparr>) (\<lambda>_.
               xret (Inr (Some i)))
           else if removing then
             xtry (vc_run e n c (Some dest) (''rm -rf '' @ res_path (vc_urls e) dest)) (\<lambda>_.
               fresh_checkout e n c t origin dest)
           else xret (Inl (PlainErr (''directory contains incompatible repo: '' @ vi_origin i @ '' '' @ r_url origin))))))"

definition checkout_artifact ::
  "'sh vc_env \<Rightarrow> nat \<Rightarrow> nat \<Rightarrow> string \<Rightarrow> resource \<Rightarrow> resource \<Rightarrow> bool \<Rightarrow> ('sh, go_error + vc_info option) xm" where
  "checkout_artifact e n c t origin dest removing =
     xbind (checkout_steps e n c t origin dest removing) (\<lambda>r.
       xret (case r of
         Inl err \<Rightarrow> Inl (PlainErr (''failed to checkout '' @ r_url origin @ '', '' @ error_text err))
       | Inr i \<Rightarrow> Inr i))"

definition module_resource :: "'sh vc_env \<Rightarrow> resource \<Rightarrow> string \<Rightarrow> resource" where
  "module_resource e r m = (if m = [] then r else r\<lparr>r_url := url_path_join (vc_io e) (r_url r) m\<rparr>)"

fun checkout_modules ::
  "'sh vc_env \<Rightarrow> nat \<Rightarrow> nat \<Rightarrow> string \<Rightarrow> resource \<Rightarrow> resource \<Rightarrow> bool \<Rightarrow> string list
     \<Rightarrow> (string \<times> vc_info option) list \<Rightarrow> ('sh, go_error + (string \<times> vc_info option) list) xm" where
  "checkout_modules e n c t origin dest removing [] found = xret (Inr found)"
| "checkout_modules e n c t origin dest removing (m # ms) found =
     xtry (checkout_artifact e n c t (module_resource e origin m) (module_resource e dest m) removing) (\<lambda>i.
       checkout_modules e n c t origin dest removing ms (mput (r_url (module_resource e origin m)) i found))"

definition checkout ::
  "'sh vc_env \<Rightarrow> nat \<Rightarrow> nat \<Rightarrow> checkout_request \<Rightarrow> ('sh, go_error + (string \<times> vc_info option) list) xm" where
  "checkout e n c q =
     xtry (expand_target (vc_exec e) c (vo_dest q)) (\<lambda>target.
     xtry (expand_target (vc_exec e) c (vo_origin q)) (\<lambda>origin.
     (let modules = (if vo_modules q = [] then [[]] else vo_modules q)
      in if vo_type q = ''git'' then
           xtry (if hd modules = [] then xret (Inr ())
                 else git_sparse_checkout e n c (Some origin) (Some target) modules) (\<lambda>_.
           xtry (checkout_artifact e n c (vo_type q) origin target (vo_remove q)) (\<lambda>i.
             xret (Inr [(r_url origin, i)])))
         else checkout_modules e n c (vo_type q) origin target (vo_remove q) modules [])))"

end
