(* ===== verification/Vc_Props.thy ===== *)
theory Vc_Props
  imports Vc_Service Storage_Props
begin

text \<open>The output of \<open>git status\<close> is read back, and a directory that cannot be made is no error.\<close>

section \<open>Lines that end in a carriage return and a newline\<close>

lemma index_of_crlf: "char_of (13::nat) \<notin> set p \<Longrightarrow> index_of (p @ crlf @ s) crlf = Some (length p)"
  by (induction p) (auto simp: crlf_def prefix_def)

lemma index_of_crlf_None: "char_of (13::nat) \<notin> set p \<Longrightarrow> index_of p crlf = None"
  by (induction p) (auto simp: crlf_def prefix_def)

lemma split_on_crlf_join:
  assumes "xs \<noteq> []" "\<forall>x\<in>set xs. char_of (13::nat) \<notin> set x"
  shows "split_on crlf (join crlf xs) = xs"
  using assms
proof (induction xs rule: induct_list012)
  case (2 x)
  then show ?case by (subst split_on.simps) (simp add: index_of_crlf_None)
next
  case (3 x y zs)
  have "split_on crlf (join crlf (y # zs)) = y # zs" using 3 by simp
  moreover have "join crlf (x # y # zs) = x @ crlf @ join crlf (y # zs)" by simp
  moreover have "index_of (x @ crlf @ join crlf (y # zs)) crlf = Some (length x)" using 3(4) by (simp add: index_of_crlf)
  moreover have "crlf \<noteq> []" by (simp add: crlf_def)
  ultimately show ?case by (subst split_on.simps) simp
qed simp

section \<open>The state of a working copy\<close>

definition change_kinds :: "string list" where
  "change_kinds = [''new file:'', ''modified:'', ''deleted:'']"

definition tab_char :: char where
  "tab_char = char_of (9::nat)"

definition change_line :: "string \<times> string \<Rightarrow> string" where
  "change_line x = tab_char # fst x @ ''   '' @ snd x"

text \<open>What git prints of the changes and of the files that are not tracked.\<close>

definition status_lines :: "(string \<times> string) list \<Rightarrow> string list \<Rightarrow> string list" where
  "status_lines cs us =
     map change_line cs @ ''Untracked files:'' # ''  (use git add <file>...)'' # map (\<lambda>f. tab_char # f) us"

definition readable_change :: "string \<times> string \<Rightarrow> bool" where
  "readable_change x \<longleftrightarrow>
     fst x \<in> set change_kinds \<and> plain_text (snd x) \<and>
     (\<forall>k\<in>set (''Untracked files:'' # change_kinds). k \<noteq> fst x \<longrightarrow> \<not> contains (change_line x) k)"

definition readable_file :: "string \<Rightarrow> bool" where
  "readable_file f \<longleftrightarrow> f \<noteq> [] \<and> plain_text f \<and> CHR ''('' \<notin> set f"

definition files_of :: "string \<Rightarrow> (string \<times> string) list \<Rightarrow> string list" where
  "files_of k cs = map snd (filter (\<lambda>x. fst x = k) cs)"

lemma tab_char_simps [simp]: "tab_char \<noteq> CHR ''(''" "CHR ''('' \<noteq> tab_char" "tab_char \<noteq> CHR 0x0D" "CHR 0x0D \<noteq> tab_char"
  by code_simp+

lemma carriage_return [simp]: "char_of (13::nat) = CHR 0x0D"
  by code_simp

lemma trim_three_spaces: "plain_text f \<Longrightarrow> trim_space (''   '' @ f) = f"
proof -
  assume "plain_text f"
  then have "trim_space f = f" by (rule trim_space_plain)
  moreover have "trim_left_space (CHR '' '' # s) = trim_left_space s" for s
    by (subst trim_left_space.simps) (simp add: space_len_def ascii_space_def)
  ultimately show ?thesis by (simp add: trim_space_def)
qed

lemma index_of_kind: "k \<in> set change_kinds \<Longrightarrow> index_of (change_line (k, f)) k = Some 1"
  by (auto simp: change_kinds_def change_line_def tab_char_def)

lemma add_change:
  assumes "readable_change x" "k \<in> set change_kinds"
  shows "add_if_matched (change_line x) k xs = xs @ files_of k [x]"
proof (cases "k = fst x")
  case True
  have "drop (1 + length k) (change_line x) = ''   '' @ snd x"
    using True by (simp add: change_line_def)
  then show ?thesis
    using assms True index_of_kind [of k "snd x"]
    by (simp add: add_if_matched_def files_of_def readable_change_def trim_three_spaces [simplified])
next
  case False
  then have "index_of (change_line x) k = None"
    using assms by (auto simp: readable_change_def contains_def)
  then show ?thesis using False by (simp add: add_if_matched_def files_of_def)
qed

definition with_changes :: "(string \<times> string) list \<Rightarrow> vc_info \<Rightarrow> vc_info" where
  "with_changes cs i = i\<lparr>vi_new := vi_new i @ files_of ''new file:'' cs,
     vi_modified := vi_modified i @ files_of ''modified:'' cs, vi_deleted := vi_deleted i @ files_of ''deleted:'' cs\<rparr>"

lemma fold_changes:
  "\<forall>x\<in>set cs. readable_change x \<Longrightarrow> fold status_line (map change_line cs) (False, i) = (False, with_changes cs i)"
proof (induction cs arbitrary: i)
  case (Cons x cs)
  have "status_line (change_line x) (False, i) = (False, with_changes [x] i)"
  proof -
    have x: "readable_change x" using Cons.prems by simp
    have "''Untracked files:'' \<notin> set change_kinds" by (simp add: change_kinds_def)
    then have "\<not> contains (change_line x) ''Untracked files:''"
      using x unfolding readable_change_def by (metis list.set_intros(1))
    moreover have "add_if_matched (change_line x) ''new file:'' xs = xs @ files_of ''new file:'' [x]"
      "add_if_matched (change_line x) ''modified:'' xs = xs @ files_of ''modified:'' [x]"
      "add_if_matched (change_line x) ''deleted:'' xs = xs @ files_of ''deleted:'' [x]" for xs
      by (rule add_change [OF x], simp add: change_kinds_def)+
    ultimately show ?thesis unfolding status_line_def with_changes_def by (simp only: prod.case not_False_eq_True if_True)
  qed
  moreover have "with_changes cs (with_changes [x] i) = with_changes (x # cs) i"
    by (simp add: with_changes_def files_of_def)
  ultimately show ?case using Cons by simp
qed (simp add: with_changes_def files_of_def)

lemma plain_not_blank: "plain_text f \<Longrightarrow> \<forall>c\<in>set f. c \<noteq> CHR '' '' \<and> c \<noteq> char_of (9::nat)"
  by (auto simp: plain_text_def)

lemma trim_plain: "plain_text f \<Longrightarrow> trim_set [CHR '' '', char_of (9::nat)] (tab_char # f) = f"
proof -
  assume "plain_text f"
  then have "\<forall>c\<in>set f. c \<noteq> CHR '' '' \<and> c \<noteq> char_of (9::nat)" by (rule plain_not_blank)
  then have "dropWhile (\<lambda>c. c \<in> set [CHR '' '', char_of (9::nat)]) g = g" if "set g = set f" for g
    using that by (cases g) auto
  then show ?thesis by (simp add: trim_set_def tab_char_def)
qed

lemma fold_untracked:
  "\<forall>f\<in>set us. readable_file f \<Longrightarrow>
     fold status_line (map (\<lambda>f. tab_char # f) us) (True, i) = (True, i\<lparr>vi_untracked := vi_untracked i @ us\<rparr>)"
proof (induction us arbitrary: i)
  case (Cons f us)
  have "status_line (tab_char # f) (True, i) = (True, i\<lparr>vi_untracked := vi_untracked i @ [f]\<rparr>)"
    using Cons.prems by (simp add: status_line_def readable_file_def trim_plain)
  then show ?case using Cons by simp
qed simp

lemma status_lines_plain:
  assumes "\<forall>x\<in>set cs. readable_change x" "\<forall>f\<in>set us. readable_file f" "l \<in> set (status_lines cs us)"
  shows "char_of (13::nat) \<notin> set l"
proof -
  have p: "char_of (13::nat) \<notin> set f" if "plain_text f" for f using that by (auto simp: plain_text_def)
  have k: "char_of (13::nat) \<notin> set k" if "k \<in> set change_kinds" for k using that by (auto simp: change_kinds_def)
  consider x where "x \<in> set cs" "l = change_line x" | f where "f \<in> set us" "l = tab_char # f"
    | "l = ''Untracked files:''" | "l = ''  (use git add <file>...)''"
    using assms(3) by (auto simp: status_lines_def)
  then show ?thesis
  proof cases
    case 1
    then have "plain_text (snd x)" "fst x \<in> set change_kinds" using assms(1) by (auto simp: readable_change_def)
    then show ?thesis using 1 p k by (simp add: change_line_def)
  next
    case 2
    then show ?thesis using assms(2) p by (auto simp: readable_file_def)
  qed simp_all
qed


text \<open>
  When the directory of a checkout cannot be made, the checkout ends without an error and
  without information, so the caller reports success.
\<close>

theorem failed_mkdir_is_no_error:
  assumes paths: "snd (path_split (res_path (vc_urls e) origin)) = snd (path_split (res_path (vc_urls e) dest))"
    and path: "res_path (vc_urls e) dest \<noteq> ''/''"
    and origin: "expand_target (vc_exec e) c o0 w = Inr (Inr origin, w)"
    and dest: "expand_target (vc_exec e) c d0 w = Inr (Inr dest, w)"
    and user: "user_of e origin = Inr user"
    and mkdir: "vc_run e n c (Some dest) (''mkdir -p '' @ res_path (vc_urls e) dest) w = Inr (Inl err, w')"
  shows "git_checkout e n c o0 d0 w = Inr (Inr None, w')"
proof -
  have "prepare_clone e n c origin dest w = Inr (Inr None, w')"
    using paths path mkdir
    by (simp add: prepare_clone_def Let_def xbind_def xret_def split: prod.splits)
  then show ?thesis
    using origin dest user by (simp add: git_checkout_def xtry_def xbind_def xret_def)
qed

section \<open>A small repository\<close>


definition vc_env0 :: "files vc_env" where
  "vc_env0 = \<lparr>vc_storage = storage_env0\<lparr>sv_exec := (sv_exec storage_env0)\<lparr>xe_shells :=
       files_shell\<lparr>sh_open := (\<lambda>k sh. (Inl (PlainErr ''no route to host''), sh))\<rparr>\<rparr>\<rparr>,
     vc_username = (\<lambda>s. Inr ''me''), vc_order = []\<rparr>"

lemma failed_mkdir_is_no_error_witness:
  "\<exists>w'. git_checkout vc_env0 1 0 (Some page0) (Some page0) storage_world0 = Inr (Inr None, w')"
proof -
  have ready: "ready 0 0 storage_world0" by (simp add: ready_def storage_world0_def)
  have "(case expand_target (vc_exec vc_env0) 0 (Some page0) storage_world0 of Inr (Inr t, v) \<Rightarrow> t = page0 | _ \<Rightarrow> False)"
    by code_simp
  then have page: "expand_target (vc_exec vc_env0) 0 (Some page0) storage_world0 = Inr (Inr page0, storage_world0)"
    using expand_target_same [OF ready ready, of "vc_exec vc_env0" "Some page0"] by (auto split: sum.splits)
  let ?run = "vc_run vc_env0 1 0 (Some page0) (''mkdir -p '' @ res_path (vc_urls vc_env0) page0) storage_world0"
  have "(case ?run of Inr (Inl err, v) \<Rightarrow> True | _ \<Rightarrow> False)" by code_simp
  then obtain err v where run: "?run = Inr (Inl err, v)" by (auto split: sum.splits)
  have user: "user_of vc_env0 page0 = Inr []" by code_simp
  have path: "res_path (vc_urls vc_env0) page0 \<noteq> ''/''" by code_simp
  show ?thesis using failed_mkdir_is_no_error [OF refl path page page user run] by blast
qed

end
