(* ===== verification/Http_Headers.thy ===== *)
theory Http_Headers
  imports Util_Text
begin

text \<open>
  The headers of net/http as the code uses them: a map from keys to lists of values, in which
  \<open>Set\<close>, \<open>Add\<close> and \<open>Get\<close> work on the canonical form of a key; and the copying of headers of
  service/testing/runner/http/helper.go.
\<close>

section \<open>Canonical keys\<close>

type_synonym http_header = "(string \<times> string list) list"

definition upper_char :: "char \<Rightarrow> char" where
  "upper_char c = (if of_char c \<in> {97..122::nat} then char_of (of_char c - 32 :: nat) else c)"

definition token_char :: "char \<Rightarrow> bool" where
  "token_char c \<longleftrightarrow> is_letter c \<or> is_digit c \<or>
     c \<in> set (char_of (39::nat) # ''!#$%&*+-.^_`|~'')"

fun canonical_chars :: "bool \<Rightarrow> string \<Rightarrow> string" where
  "canonical_chars up [] = []"
| "canonical_chars up (c # cs) =
     (if up then upper_char c else hd (to_lower [c])) # canonical_chars (c = CHR ''-'') cs"

definition canonical_key :: "string \<Rightarrow> string" where
  "canonical_key k = (if list_all token_char k then canonical_chars True k else k)"

definition header_set :: "string \<Rightarrow> string \<Rightarrow> http_header \<Rightarrow> http_header" where
  "header_set k v h = mput (canonical_key k) [v] h"

definition header_get :: "http_header \<Rightarrow> string \<Rightarrow> string" where
  "header_get h k = (case mget h (canonical_key k) of Some (v # _) \<Rightarrow> v | _ \<Rightarrow> [])"

definition header_add :: "string \<Rightarrow> string \<Rightarrow> http_header \<Rightarrow> http_header" where
  "header_add k v h = mput (canonical_key k) ((case mget h (canonical_key k) of Some vs \<Rightarrow> vs | None \<Rightarrow> []) @ [v]) h"

section \<open>Copying\<close>

text \<open>An entry is made under the key as it is written, the values go under its canonical form.\<close>

definition copy_entry :: "(string \<Rightarrow> string) \<Rightarrow> string \<Rightarrow> string list \<Rightarrow> http_header \<Rightarrow> http_header" where
  "copy_entry f k vs target =
     (let t = (if mhas target k then target else mput k [] target)
      in case vs of [v] \<Rightarrow> header_set k (f v) t | _ \<Rightarrow> fold (\<lambda>v. header_add k (f v)) vs t)"

fun copy_with :: "(string \<Rightarrow> string) \<Rightarrow> http_header \<Rightarrow> http_header \<Rightarrow> http_header" where
  "copy_with f [] target = target"
| "copy_with f ((k, vs) # h) target = copy_with f h (copy_entry f k vs target)"

definition copy_headers :: "http_header \<Rightarrow> http_header \<Rightarrow> http_header" where
  "copy_headers source target = copy_with (\<lambda>v. v) source target"

definition copy_expanded_headers :: "(string \<Rightarrow> string) \<Rightarrow> http_header \<Rightarrow> http_header \<Rightarrow> http_header" where
  "copy_expanded_headers expand_fn source target = copy_with expand_fn source target"

end
