(* ===== verification/Http_Endpoint.thy ===== *)
theory Http_Endpoint
  imports Effects Http_Headers Endly_Error "HOL-Library.Word"
begin

text \<open>
  service/testing/endpoint/http: the HTTP endpoint that replays recorded trips. \<open>endpoint\<close> is the
  state of the service: the responses (\<open>*HTTPResponses\<close>) by address, the servers by port, the
  answers of \<open>listen\<close> that the state of the service keeps, and the global registry of the key
  providers. A server holds the closure of its handler (\<open>hs_handler\<close>), which \<open>append\<close> replaces.

  Reading the recorded trips is viant/toolbox/bridge, starting a listener the operating system:
  both are the record \<open>endpoint_env\<close>. Requests are handled one at a time, as the handler's
  mutex makes them.
\<close>

section \<open>Requests and their keys\<close>

record recorded_request =
  rr_method :: string
  rr_url :: string
  rr_header :: http_header
  rr_body :: string

record recorded_response =
  rs_code :: int
  rs_header :: http_header
  rs_body :: string

text \<open>A live request; \<open>lq_body\<close> is the outcome of reading its body, which can be read once.\<close>

record live_request =
  lq_method :: string
  lq_url :: string
  lq_header :: http_header
  lq_length :: int
  lq_body :: "go_error + string"

datatype key_source = Recorded recorded_request | Live live_request

datatype key_provider = UrlProvider | MethodProvider | BodyProvider | HeaderProvider string

definition init_providers :: "(string \<times> key_provider) list" where
  "init_providers = [(''URL'', UrlProvider), (''Method'', MethodProvider), (''Cookie'', HeaderProvider ''Cookie''),
     (''Content-Type'', HeaderProvider ''Content-Type''), (''Body'', BodyProvider)]"

definition strip_proto_and_host :: "string \<Rightarrow> string" where
  "strip_proto_and_host url =
     (let u = (case index_of url ''://'' of Some i \<Rightarrow> drop (i + 3) url | None \<Rightarrow> url)
      in case index_of u ''/'' of Some i \<Rightarrow> (if 0 < i then drop i u else u) | None \<Rightarrow> u)"

definition header_provider :: "string \<Rightarrow> key_source \<Rightarrow> string" where
  "header_provider name src =
     (let h = (case src of Recorded r \<Rightarrow> rr_header r | Live r \<Rightarrow> lq_header r)
      in join [CHR 0x0A] (case mget h name of Some vs \<Rightarrow> vs | None \<Rightarrow> []))"

definition payload_bytes :: "storage \<Rightarrow> string \<Rightarrow> string" where
  "payload_bytes io s = (case from_payload io s of Inr b \<Rightarrow> b | Inl _ \<Rightarrow> [])"

definition body_provider :: "storage \<Rightarrow> key_source \<Rightarrow> (go_error + string) \<times> key_source" where
  "body_provider io src =
     (case src of
        Recorded r \<Rightarrow> (Inr (as_payload io (payload_bytes io (rr_body r))), src)
      | Live r \<Rightarrow>
          if lq_length r = 0 then (Inr [], src)
          else (case lq_body r of
              Inl e \<Rightarrow> (Inl (PlainErr (''failed to read body '' @ lq_url r @ '', '' @ error_text e)), src)
            | Inr content \<Rightarrow>
                (Inr (as_payload io (if has_prefix content ''base64:'' then payload_bytes io content else content)),
                 Live (r\<lparr>lq_body := Inr []\<rparr>))))"

definition key_value :: "storage \<Rightarrow> key_provider \<Rightarrow> key_source \<Rightarrow> (go_error + string) \<times> key_source" where
  "key_value io p src =
     (case p of
        UrlProvider \<Rightarrow>
          (Inr (strip_proto_and_host (case src of Recorded r \<Rightarrow> rr_url r | Live r \<Rightarrow> lq_url r)), src)
      | MethodProvider \<Rightarrow> (Inr (case src of Recorded r \<Rightarrow> rr_method r | Live r \<Rightarrow> lq_method r), src)
      | HeaderProvider name \<Rightarrow> (Inr (header_provider name src), src)
      | BodyProvider \<Rightarrow> body_provider io src)"

section \<open>The state of the service\<close>

record http_responses =
  hr_request :: recorded_request
  hr_responses :: "recorded_response list"
  hr_index :: "32 word"

type_synonym trip_map = "(string \<times> nat) list"

record server_trips =
  st_base_dir :: string
  st_rotate :: bool
  st_trips :: trip_map
  st_index_keys :: "string list"

record http_server =
  hs_running :: bool
  hs_handler :: server_trips
  hs_think_time :: int
  hs_trips :: trip_map
  hs_rotate :: bool
  hs_index_keys :: "string list"
  hs_request_template :: string
  hs_response_template :: string

record endpoint =
  ed_responses :: "nat \<Rightarrow> http_responses"
  ed_fresh :: nat
  ed_servers :: "(int \<times> http_server) list"
  ed_listening :: "(string \<times> trip_map) list"
  ed_providers :: "(string \<times> key_provider) list"

record endpoint_env =
  ee_io :: storage
  ee_tb :: toolbox
  ee_read_trips :: "string \<Rightarrow> string \<Rightarrow> string \<Rightarrow> go_error + (recorded_request \<times> recorded_response) list"
  ee_start :: "int \<Rightarrow> go_error option"
  ee_shutdown :: "int \<Rightarrow> go_error option"
  ee_directory :: "string \<Rightarrow> string"

type_synonym 'a ep = "(endpoint, 'a) effect"

section \<open>Keys\<close>

definition find_provider :: "string \<Rightarrow> (go_error + key_provider) ep" where
  "find_provider key =
     xbind (xget ed_providers) (\<lambda>ps.
       case mget ps key of
         Some p \<Rightarrow> xret (Inr p)
       | None \<Rightarrow>
           if has_prefix key ''Header.'' then
             let p = HeaderProvider (replace_first key ''Header.'' [])
             in xseq (xmod (\<lambda>ed. ed\<lparr>ed_providers := mput key p (ed_providers ed)\<rparr>)) (xret (Inr p))
           else xret (Inl (PlainErr (''unsupported key: '' @ key @ '', available, ['' @
                  join '','' (map fst ps) @ '']''))))"

fun key_values :: "storage \<Rightarrow> string list \<Rightarrow> key_source \<Rightarrow> (go_error + string list) ep" where
  "key_values io [] src = xret (Inr [])"
| "key_values io (k # ks) src =
     xtry (find_provider k) (\<lambda>p.
       case key_value io p src of (r, src') \<Rightarrow>
         (case r of
            Inl e \<Rightarrow> xret (Inl (PlainErr (''unable to get value for '' @ k @ '', '' @ error_text e)))
          | Inr v \<Rightarrow> xtry (key_values io ks src') (\<lambda>vs. xret (Inr (v # vs)))))"

definition build_key_value :: "storage \<Rightarrow> string list \<Rightarrow> key_source \<Rightarrow> (go_error + string) ep" where
  "build_key_value io keys src = xtry (key_values io keys src) (\<lambda>vs. xret (Inr (join '','' vs)))"

section \<open>Loading trips\<close>

definition new_responses :: "recorded_request \<Rightarrow> nat ep" where
  "new_responses r =
     xbind (xget ed_fresh) (\<lambda>a.
       xseq (xmod (\<lambda>ed. ed\<lparr>ed_responses := (ed_responses ed)(a := \<lparr>hr_request = r, hr_responses = [], hr_index = 0\<rparr>),
                            ed_fresh := Suc a\<rparr>))
         (xret a))"

definition add_response :: "nat \<Rightarrow> recorded_response \<Rightarrow> unit ep" where
  "add_response a r =
     xmod (\<lambda>ed. ed\<lparr>ed_responses := (ed_responses ed)(a :=
       (ed_responses ed a)\<lparr>hr_responses := hr_responses (ed_responses ed a) @ [r]\<rparr>)\<rparr>)"

fun group_trips ::
  "storage \<Rightarrow> string list \<Rightarrow> (recorded_request \<times> recorded_response) list \<Rightarrow> trip_map \<Rightarrow> (go_error + trip_map) ep" where
  "group_trips io keys [] m = xret (Inr m)"
| "group_trips io keys ((q, r) # trips) m =
     xbind (build_key_value io keys (Recorded q)) (\<lambda>k.
       case k of
         Inl e \<Rightarrow> xret (Inl (PlainErr (''failed to build request key: '' @ rr_url q @ '', '' @ error_text e)))
       | Inr key \<Rightarrow>
           (case mget m key of
              Some a \<Rightarrow> xseq (add_response a r) (group_trips io keys trips m)
            | None \<Rightarrow>
                xbind (new_responses q) (\<lambda>a.
                  xseq (add_response a r) (group_trips io keys trips (mput key a m)))))"

definition load_trips_if_needed ::
  "endpoint_env \<Rightarrow> string \<Rightarrow> string \<Rightarrow> server_trips \<Rightarrow> (go_error + server_trips) ep" where
  "load_trips_if_needed e req_template resp_template t =
     (if st_base_dir t \<noteq> [] then
        (case ee_read_trips e (st_base_dir t) req_template resp_template of
           Inl err \<Rightarrow> xret (Inl err)
         | Inr [] \<Rightarrow> xret (Inl (PlainErr (''http capautre directory was empty '' @ st_base_dir t)))
         | Inr trips \<Rightarrow> xtry (group_trips (ee_io e) (st_index_keys t) trips []) (\<lambda>m. xret (Inr (t\<lparr>st_trips := m\<rparr>))))
      else xret (Inr t))"

definition init_trips ::
  "endpoint_env \<Rightarrow> string \<Rightarrow> string \<Rightarrow> server_trips \<Rightarrow> (go_error + server_trips) ep" where
  "init_trips e req_template resp_template t =
     xbind (load_trips_if_needed e req_template resp_template t) (\<lambda>r.
       case r of
         Inl err \<Rightarrow> xret (Inl (PlainErr (''failed to load trips: '' @ error_text err)))
       | Inr t' \<Rightarrow> xret (Inr t'))"

section \<open>Contracts\<close>

record listen_request =
  lr_port :: int
  lr_rotate :: bool
  lr_request_template :: string
  lr_response_template :: string
  lr_base_dir :: string
  lr_index_keys :: "string list"

record append_request =
  ar_port :: int
  ar_base_dir :: string

definition init_listen :: "listen_request \<Rightarrow> listen_request" where
  "init_listen r = r\<lparr>
     lr_request_template := (if lr_request_template r = [] then ''%02d-req.json'' else lr_request_template r),
     lr_response_template := (if lr_response_template r = [] then ''%02d-resp.json'' else lr_response_template r)\<rparr>"

definition validate_listen :: "listen_request \<Rightarrow> go_error option" where
  "validate_listen r = (if lr_port r = 0 then Some (PlainErr ''port was empty'') else None)"

definition validate_append :: "append_request \<Rightarrow> go_error option" where
  "validate_append r =
     (if ar_base_dir r = [] then Some (PlainErr ''baseDirectory was empty'')
      else if ar_port r = 0 then Some (PlainErr ''port was empty'') else None)"

definition listen_trips :: "listen_request \<Rightarrow> server_trips" where
  "listen_trips r = \<lparr>st_base_dir = lr_base_dir r, st_rotate = lr_rotate r, st_trips = [],
     st_index_keys = (if lr_index_keys r = [] then [''Method'', ''URL'', ''Body'', ''Cookie'', ''Content-Type'']
                      else lr_index_keys r)\<rparr>"

definition append_trips :: "append_request \<Rightarrow> bool \<Rightarrow> string list \<Rightarrow> server_trips" where
  "append_trips r rot keys =
     \<lparr>st_base_dir = ar_base_dir r, st_rotate = rot, st_trips = [], st_index_keys = keys\<rparr>"

section \<open>Handling a request\<close>

record http_reply =
  rp_code :: int
  rp_header :: http_header
  rp_body :: string
  rp_delay :: int

definition error_reply :: "string \<Rightarrow> int \<Rightarrow> http_reply" where
  "error_reply message code = \<lparr>rp_code = code,
     rp_header = [(''Content-Type'', [''text/plain; charset=utf-8'']), (''X-Content-Type-Options'', [''nosniff''])],
     rp_body = message @ [CHR 0x0A], rp_delay = 0\<rparr>"

text \<open>
  The turn that the loop over the index takes: whether the request is served, and the index that
  is stored. A served request always gets the response \<open>0\<close>, the value of the variable that
  the loop shadows.
\<close>

definition take_turn :: "bool \<Rightarrow> nat \<Rightarrow> 32 word \<Rightarrow> bool \<times> 32 word" where
  "take_turn rot keys i = (if keys \<le> unat i \<and> \<not> rot then (False, i + 1) else (True, 0))"

fun set_headers :: "http_header \<Rightarrow> http_header \<Rightarrow> http_header" where
  "set_headers [] h = h"
| "set_headers ((k, vs) # kvs) h = set_headers kvs (fold (header_set k) vs h)"

definition body_allowed :: "int \<Rightarrow> bool" where
  "body_allowed code \<longleftrightarrow> \<not> (100 \<le> code \<and> code \<le> 199) \<and> code \<noteq> 204 \<and> code \<noteq> 304"

definition reply_of :: "storage \<Rightarrow> int \<Rightarrow> recorded_response \<Rightarrow> go_error + http_reply" where
  "reply_of io think r =
     (if rs_code r < 100 \<or> 999 < rs_code r
      then Inl (Panicked (''invalid WriteHeader code '' @ show_int (rs_code r)))
      else Inr \<lparr>rp_code = rs_code r, rp_header = set_headers (rs_header r) [],
             rp_body = (if body_allowed (rs_code r) then payload_bytes io (rs_body r) else []),
             rp_delay = max 0 think\<rparr>)"

definition set_index :: "nat \<Rightarrow> 32 word \<Rightarrow> unit ep" where
  "set_index a i = xmod (\<lambda>ed. ed\<lparr>ed_responses := (ed_responses ed)(a := (ed_responses ed a)\<lparr>hr_index := i\<rparr>)\<rparr>)"

definition replay :: "storage \<Rightarrow> int \<Rightarrow> server_trips \<Rightarrow> nat \<Rightarrow> (go_error + http_reply) ep" where
  "replay io think t a =
     xbind (xget (\<lambda>ed. ed_responses ed a)) (\<lambda>rs.
       case take_turn (st_rotate t) (length (st_trips t)) (hr_index rs) of (served, i) \<Rightarrow>
         xseq (set_index a i)
           (if \<not> served then xret (Inr (error_reply ''404 page not found'' 404))
            else xret (case hr_responses rs of [] \<Rightarrow> Inl (Panicked ''index out of range'') | r # _ \<Rightarrow> reply_of io think r)))"

definition serve_trips :: "storage \<Rightarrow> int \<Rightarrow> server_trips \<Rightarrow> live_request \<Rightarrow> (go_error + http_reply) ep" where
  "serve_trips io think t req =
     xbind (build_key_value io (st_index_keys t) (Live req)) (\<lambda>k.
       case k of
         Inl e \<Rightarrow> xret (Inr (error_reply (error_text e) 500))
       | Inr key \<Rightarrow>
           (case mget (st_trips t) key of
              None \<Rightarrow> xret (Inr (error_reply (''key: '' @ key @ '' not found, available: '' @ [CHR 0x0A] @
                        join ('','' @ [CHR 0x0A]) (map fst (st_trips t))) 404))
            | Some a \<Rightarrow> replay io think t a))"

definition think_time :: "toolbox \<Rightarrow> live_request \<Rightarrow> int \<Rightarrow> int" where
  "think_time tb req old =
     (let v = header_get (lq_header req) ''Think-Time-Ms''
      in if v \<noteq> [] then as_int tb (VStr v) * 1000000 else old)"

definition put_server :: "int \<Rightarrow> http_server \<Rightarrow> unit ep" where
  "put_server port s = xmod (\<lambda>ed. ed\<lparr>ed_servers := mput port s (ed_servers ed)\<rparr>)"

text \<open>A request that reaches the server of a port; a server that is not running answers nothing.\<close>

definition serve_http :: "endpoint_env \<Rightarrow> int \<Rightarrow> http_server \<Rightarrow> live_request \<Rightarrow> (go_error + http_reply) ep" where
  "serve_http e port s req =
     (let s' = s\<lparr>hs_think_time := think_time (ee_tb e) req (hs_think_time s)\<rparr>
      in xseq (put_server port s')
           (if hs_running s then serve_trips (ee_io e) (hs_think_time s') (hs_handler s) req
            else xret (Inr \<lparr>rp_code = 200, rp_header = [], rp_body = [], rp_delay = 0\<rparr>)))"

section \<open>Servers\<close>

definition start_server ::
  "endpoint_env \<Rightarrow> int \<Rightarrow> server_trips \<Rightarrow> string \<Rightarrow> string \<Rightarrow> (go_error + http_server) ep" where
  "start_server e port trips req_template resp_template =
     xbind (init_trips e req_template resp_template trips) (\<lambda>r.
       case r of
         Inl err \<Rightarrow> xret (Inl (PlainErr (''failed to start http server :'' @ show_int port @ '', '' @ error_text err)))
       | Inr t \<Rightarrow>
           (case ee_start e port of
              Some err \<Rightarrow> xret (Inl err)
            | None \<Rightarrow> xret (Inr \<lparr>hs_running = True, hs_handler = t, hs_think_time = 0, hs_trips = st_trips t,
                hs_rotate = st_rotate t, hs_index_keys = st_index_keys t,
                hs_request_template = req_template, hs_response_template = resp_template\<rparr>)))"

text \<open>\<open>Append\<close>: the trips of the start are added to the new ones; the server keeps the former.\<close>

definition append_to_server :: "server_trips \<Rightarrow> http_server \<Rightarrow> http_server" where
  "append_to_server t s =
     s\<lparr>hs_handler := t\<lparr>st_trips := st_trips t @ filter (\<lambda>(k, a). \<not> mhas (st_trips t) k) (hs_trips s)\<rparr>\<rparr>"

definition listening_key :: "int \<Rightarrow> string" where
  "listening_key port = ''http/endpoint:'' @ show_int port"

definition base_directory :: "endpoint_env \<Rightarrow> heap \<Rightarrow> nat \<Rightarrow> string \<Rightarrow> string" where
  "base_directory e h st dir = (if dir \<noteq> [] then ee_directory e (expand_text (ee_tb e) h st dir) else dir)"

definition listen :: "endpoint_env \<Rightarrow> heap \<Rightarrow> nat \<Rightarrow> listen_request \<Rightarrow> (go_error + trip_map) ep" where
  "listen e h st req =
     (let req' = req\<lparr>lr_base_dir := base_directory e h st (lr_base_dir req)\<rparr>;
          key = listening_key (lr_port req')
      in xbind (xget ed_listening) (\<lambda>known.
           case mget known key of
             Some trips \<Rightarrow> xret (Inr trips)
           | None \<Rightarrow>
               xtry (start_server e (lr_port req') (listen_trips req') (lr_request_template req') (lr_response_template req'))
                 (\<lambda>s. xseq (put_server (lr_port req') s)
                   (xseq (xmod (\<lambda>ed. ed\<lparr>ed_listening := mput key (hs_trips s) (ed_listening ed)\<rparr>))
                     (xret (Inr (hs_trips s)))))))"

definition append_endpoint :: "endpoint_env \<Rightarrow> heap \<Rightarrow> nat \<Rightarrow> append_request \<Rightarrow> (go_error + trip_map) ep" where
  "append_endpoint e h st req =
     xbind (xget ed_servers) (\<lambda>servers.
       case mget servers (ar_port req) of
         None \<Rightarrow> xret (Inl (PlainErr (''server not started on port: '' @ show_int (ar_port req))))
       | Some s \<Rightarrow>
           (let req' = req\<lparr>ar_base_dir := base_directory e h st (ar_base_dir req)\<rparr>
            in xtry (init_trips e (hs_request_template s) (hs_response_template s)
                       (append_trips req' (hs_rotate s) (hs_index_keys s)))
                 (\<lambda>t. let s' = append_to_server t s
                      in xseq (put_server (ar_port req) s') (xret (Inr (st_trips (hs_handler s')))))))"

definition shutdown_endpoint :: "endpoint_env \<Rightarrow> int \<Rightarrow> (go_error option) ep" where
  "shutdown_endpoint e port =
     xbind (xget ed_servers) (\<lambda>servers.
       case mget servers port of
         None \<Rightarrow> xret (Some (PlainErr (''ednpoint at '' @ show_int port @ '', not found'')))
       | Some s \<Rightarrow> xseq (put_server port (s\<lparr>hs_running := False\<rparr>)) (xret (ee_shutdown e port)))"

definition new_endpoint :: endpoint where
  "new_endpoint = \<lparr>ed_responses = (\<lambda>_. \<lparr>hr_request = \<lparr>rr_method = [], rr_url = [], rr_header = [], rr_body = []\<rparr>,
       hr_responses = [], hr_index = 0\<rparr>),
     ed_fresh = 0, ed_servers = [], ed_listening = [], ed_providers = init_providers\<rparr>"

end
