(* ===== verification/Http_Endpoint_Props.thy ===== *)
theory Http_Endpoint_Props
  imports Http_Endpoint Samples
begin

text \<open>
  What the HTTP endpoint promises. \<open>request_key\<close> is the abstract key of a request, a function of
  the request alone; \<open>registry_ok\<close> says that the registry of providers, which grows as keys
  are met, still gives it. \<open>endpoint_reached\<close> are the states that any sequence of listen,
  append, shutdown and served requests can reach.
\<close>

section \<open>The key of a request\<close>

definition provider_of :: "string \<Rightarrow> key_provider option" where
  "provider_of key =
     (case mget init_providers key of
        Some p \<Rightarrow> Some p
      | None \<Rightarrow> if has_prefix key ''Header.'' then Some (HeaderProvider (replace_first key ''Header.'' [])) else None)"

fun request_values :: "storage \<Rightarrow> string list \<Rightarrow> key_source \<Rightarrow> string list option" where
  "request_values io [] src = Some []"
| "request_values io (k # ks) src =
     (case provider_of k of
        None \<Rightarrow> None
      | Some p \<Rightarrow>
          (case key_value io p src of
             (Inl _, _) \<Rightarrow> None
           | (Inr v, src') \<Rightarrow> map_option ((#) v) (request_values io ks src')))"

definition request_key :: "storage \<Rightarrow> string list \<Rightarrow> key_source \<Rightarrow> string option" where
  "request_key io keys src = map_option (join '','') (request_values io keys src)"

definition registry_ok :: "(string \<times> key_provider) list \<Rightarrow> bool" where
  "registry_ok ps \<longleftrightarrow>
     (\<forall>k p. mget ps k = Some p \<longrightarrow> provider_of k = Some p) \<and>
     (\<forall>k p. mget init_providers k = Some p \<longrightarrow> mget ps k = Some p)"

lemma registry_ok_init: "registry_ok init_providers"
  by (simp add: registry_ok_def provider_of_def)

lemma registry_ok_put:
  assumes "registry_ok ps" "provider_of k = Some p" "mget ps k = None"
  shows "registry_ok (mput k p ps)"
  using assms by (force simp: registry_ok_def)

abbreviation with_providers :: "endpoint \<Rightarrow> (string \<times> key_provider) list \<Rightarrow> endpoint" where
  "with_providers ed ps \<equiv> ed\<lparr>ed_providers := ps\<rparr>"

lemma find_provider_spec:
  assumes "registry_ok (ed_providers ed)"
  shows "\<exists>r ps. find_provider k ed = Inr (r, with_providers ed ps) \<and> registry_ok ps \<and>
           (case provider_of k of Some p \<Rightarrow> r = Inr p | None \<Rightarrow> \<exists>e. r = Inl e)"
proof (cases "mget (ed_providers ed) k")
  case (Some p)
  then have "provider_of k = Some p" using assms by (auto simp: registry_ok_def)
  then show ?thesis using Some assms
    by (intro exI [of _ "Inr p"] exI [of _ "ed_providers ed"]) (simp add: find_provider_def exec_defs)
next
  case None
  then have init: "mget init_providers k = None" using assms
    by (cases "mget init_providers k") (auto simp: registry_ok_def)
  show ?thesis
  proof (cases "has_prefix k ''Header.''")
    case True
    let ?p = "HeaderProvider (replace_first k ''Header.'' [])"
    have p: "provider_of k = Some ?p" using init True by (simp add: provider_of_def)
    show ?thesis using None True p registry_ok_put [OF assms p None]
      by (intro exI [of _ "Inr ?p"] exI [of _ "mput k ?p (ed_providers ed)"])
         (simp add: find_provider_def exec_defs Let_def)
  next
    case False
    then have "provider_of k = None" using init by (simp add: provider_of_def)
    then show ?thesis using None False assms
      by (intro exI [of _ "Inl _"] exI [of _ "ed_providers ed"]) (simp add: find_provider_def exec_defs)
  qed
qed

lemma key_values_spec:
  assumes "registry_ok (ed_providers ed)"
  shows "\<exists>r ps. key_values io keys src ed = Inr (r, with_providers ed ps) \<and> registry_ok ps \<and>
           (case request_values io keys src of Some vs \<Rightarrow> r = Inr vs | None \<Rightarrow> \<exists>e. r = Inl e)"
  using assms
proof (induction keys arbitrary: src ed)
  case Nil
  then show ?case by (auto simp: xret_def intro: exI [of _ "ed_providers ed"])
next
  case (Cons k ks)
  obtain r ps where fp: "find_provider k ed = Inr (r, with_providers ed ps)" "registry_ok ps"
    and r: "case provider_of k of Some p \<Rightarrow> r = Inr p | None \<Rightarrow> \<exists>e. r = Inl e"
    using find_provider_spec [OF Cons.prems] by blast
  show ?case
  proof (cases "provider_of k")
    case None
    then show ?thesis using fp r by (auto simp: xtry_def xbind_def xret_def)
  next
    case (Some p)
    obtain v src' where kv: "key_value io p src = (v, src')" by fastforce
    show ?thesis
    proof (cases v)
      case (Inl e)
      then show ?thesis using Some fp r kv by (auto simp: xtry_def xbind_def xret_def)
    next
      case (Inr x)
      have "registry_ok (ed_providers (with_providers ed ps))" using fp by simp
      from Cons.IH [OF this, of src'] obtain r' ps' where
        rest: "key_values io ks src' (with_providers ed ps) = Inr (r', with_providers ed ps')" "registry_ok ps'"
          "case request_values io ks src' of Some vs \<Rightarrow> r' = Inr vs | None \<Rightarrow> \<exists>e. r' = Inl e"
        by auto
      then show ?thesis using Some fp r kv Inr
        by (cases "request_values io ks src'") (auto simp: xtry_def xbind_def xret_def)
    qed
  qed
qed

lemma build_key_value_spec:
  assumes "registry_ok (ed_providers ed)"
  obtains r ps where "build_key_value io keys src ed = Inr (r, with_providers ed ps)" "registry_ok ps"
    "case request_key io keys src of Some k \<Rightarrow> r = Inr k | None \<Rightarrow> \<exists>e. r = Inl e"
proof -
  obtain r ps where "key_values io keys src ed = Inr (r, with_providers ed ps)" "registry_ok ps"
    "case request_values io keys src of Some vs \<Rightarrow> r = Inr vs | None \<Rightarrow> \<exists>e. r = Inl e"
    using key_values_spec [OF assms] by blast
  then show ?thesis using that
    by (cases "request_values io keys src")
       (auto simp: build_key_value_def request_key_def xtry_def xbind_def xret_def)
qed

section \<open>Grouping the recorded trips\<close>

definition recorded_for ::
  "storage \<Rightarrow> string list \<Rightarrow> (recorded_request \<times> recorded_response) list \<Rightarrow> string \<Rightarrow> recorded_response list" where
  "recorded_for io keys trips k = map snd (filter (\<lambda>t. request_key io keys (Recorded (fst t)) = Some k) trips)"

definition responses_of :: "endpoint \<Rightarrow> trip_map \<Rightarrow> string \<Rightarrow> recorded_response list" where
  "responses_of ed m k = (case mget m k of Some a \<Rightarrow> hr_responses (ed_responses ed a) | None \<Rightarrow> [])"

definition trips_ok :: "endpoint \<Rightarrow> trip_map \<Rightarrow> bool" where
  "trips_ok ed m \<longleftrightarrow>
     (\<forall>k a. mget m k = Some a \<longrightarrow> a < ed_fresh ed \<and> hr_responses (ed_responses ed a) \<noteq> [])"

definition separate :: "trip_map \<Rightarrow> bool" where
  "separate m \<longleftrightarrow> (\<forall>j k a. mget m j = Some a \<longrightarrow> mget m k = Some a \<longrightarrow> j = k)"


text \<open>
  What loading may change: the registry, the responses that it allocates, and those of the map
  it extends.
\<close>

definition loads :: "trip_map \<Rightarrow> endpoint \<Rightarrow> endpoint \<Rightarrow> bool" where
  "loads m ed ed' \<longleftrightarrow> ed_fresh ed \<le> ed_fresh ed' \<and> ed_servers ed' = ed_servers ed \<and> ed_listening ed' = ed_listening ed \<and>
     registry_ok (ed_providers ed') \<and>
     (\<forall>a<ed_fresh ed. (\<forall>k. mget m k \<noteq> Some a) \<longrightarrow> ed_responses ed' a = ed_responses ed a) \<and>
     ((\<forall>a. hr_index (ed_responses ed a) = 0) \<longrightarrow> (\<forall>a. hr_index (ed_responses ed' a) = 0))"

definition extended :: "endpoint \<Rightarrow> nat \<Rightarrow> recorded_response \<Rightarrow> endpoint" where
  "extended ed a r = ed\<lparr>ed_responses := (ed_responses ed)(a :=
     (ed_responses ed a)\<lparr>hr_responses := hr_responses (ed_responses ed a) @ [r]\<rparr>)\<rparr>"

definition allocated :: "endpoint \<Rightarrow> recorded_request \<Rightarrow> endpoint" where
  "allocated ed q = ed\<lparr>ed_responses := (ed_responses ed)(ed_fresh ed := \<lparr>hr_request = q, hr_responses = [], hr_index = 0\<rparr>),
     ed_fresh := Suc (ed_fresh ed)\<rparr>"

lemma group_trips_Cons:
  assumes "build_key_value io keys (Recorded q) ed = Inr (k, ed1)"
  shows "group_trips io keys ((q, r) # trips) m ed =
     (case k of
        Inl e \<Rightarrow> Inr (Inl (PlainErr (''failed to build request key: '' @ rr_url q @ '', '' @ error_text e)), ed1)
      | Inr key \<Rightarrow>
          (case mget m key of
             Some a \<Rightarrow> group_trips io keys trips m (extended ed1 a r)
           | None \<Rightarrow> group_trips io keys trips (mput key (ed_fresh ed1) m)
                      (extended (allocated ed1 q) (ed_fresh ed1) r)))"
  using assms
  by (cases k) (simp_all add: xbind_def xret_def xseq_def xget_def xmod_def new_responses_def add_response_def
      extended_def allocated_def split: option.splits)

lemma responses_of_with [simp]: "responses_of (with_providers ed ps) m k = responses_of ed m k"
  by (simp add: responses_of_def split: option.splits)

lemma trips_ok_extended: "trips_ok ed m \<Longrightarrow> trips_ok (extended ed a r) m"
  by (auto simp: trips_ok_def extended_def)

lemma trips_ok_allocated:
  assumes "trips_ok ed m"
  shows "trips_ok (extended (allocated ed q) (ed_fresh ed) r) (mput k (ed_fresh ed) m)"
  using assms by (fastforce simp: trips_ok_def extended_def allocated_def)

lemma separate_allocated: "separate m \<Longrightarrow> trips_ok ed m \<Longrightarrow> separate (mput k (ed_fresh ed) m)"
  by (auto simp: separate_def trips_ok_def)

lemma responses_of_extended:
  assumes "separate m" "mget m k = Some a"
  shows "responses_of (extended ed a r) m j = responses_of ed m j @ (if j = k then [r] else [])"
  using assms by (auto simp: responses_of_def extended_def separate_def split: option.splits)

lemma responses_of_allocated:
  assumes "trips_ok ed m" "mget m k = None"
  shows "responses_of (extended (allocated ed q) (ed_fresh ed) r) (mput k (ed_fresh ed) m) j =
           responses_of ed m j @ (if j = k then [r] else [])"
  using assms by (fastforce simp: responses_of_def extended_def allocated_def trips_ok_def split: option.splits)

lemma recorded_for_Cons:
  "recorded_for io keys ((q, r) # trips) k =
     (if request_key io keys (Recorded q) = Some k then [r] else []) @ recorded_for io keys trips k"
  by (simp add: recorded_for_def)

lemma group_trips_spec:
  assumes "group_trips io keys trips m ed = Inr (res, ed')"
    and "registry_ok (ed_providers ed)" "trips_ok ed m" "separate m"
  shows "loads m ed ed' \<and> (\<forall>m'. res = Inr m' \<longrightarrow> trips_ok ed' m' \<and> separate m' \<and>
           (\<forall>k. responses_of ed' m' k = responses_of ed m k @ recorded_for io keys trips k))"
  using assms
proof (induction trips arbitrary: m ed)
  case Nil
  then show ?case by (auto simp: loads_def xret_def recorded_for_def)
next
  case (Cons t trips)
  obtain q r where t: "t = (q, r)" by fastforce
  obtain kr ps where kv: "build_key_value io keys (Recorded q) ed = Inr (kr, with_providers ed ps)" "registry_ok ps"
    and key: "case request_key io keys (Recorded q) of Some k \<Rightarrow> kr = Inr k | None \<Rightarrow> \<exists>e. kr = Inl e"
    using build_key_value_spec [OF Cons.prems(2)] by blast
  let ?ed = "with_providers ed ps"
  have ok: "trips_ok ?ed m" using Cons.prems(3) by (simp add: trips_ok_def)
  note step = Cons.prems(1) [unfolded t group_trips_Cons [OF kv(1)]]
  show ?case
  proof (cases kr)
    case (Inl e)
    then show ?thesis using step kv(2) by (auto simp: loads_def)
  next
    case (Inr k)
    then have rk: "request_key io keys (Recorded q) = Some k" using key by (auto split: option.splits)
    show ?thesis
    proof (cases "mget m k")
      case (Some a)
      have run: "group_trips io keys trips m (extended ?ed a r) = Inr (res, ed')" using step Inr Some by simp
      have "registry_ok (ed_providers (extended ?ed a r))" using kv(2) by (simp add: extended_def)
      note ih = Cons.IH [OF run this trips_ok_extended [OF ok] Cons.prems(4)]
      have "loads m ed ed'" using ih Some
        by (auto simp: loads_def extended_def)
      moreover have "responses_of (extended ?ed a r) m j = responses_of ed m j @ (if j = k then [r] else [])" for j
        using responses_of_extended [OF Cons.prems(4) Some, of ?ed] by simp
      ultimately show ?thesis using ih by (simp add: t recorded_for_Cons rk)
    next
      case None
      let ?ed1 = "extended (allocated ?ed q) (ed_fresh ?ed) r" and ?m = "mput k (ed_fresh ?ed) m"
      have run: "group_trips io keys trips ?m ?ed1 = Inr (res, ed')" using step Inr None by simp
      have "registry_ok (ed_providers ?ed1)" using kv(2) by (simp add: extended_def allocated_def)
      note ih = Cons.IH [OF run this trips_ok_allocated [OF ok] separate_allocated [OF Cons.prems(4) ok]]
      have "loads m ed ed'" using ih
        by (auto simp: loads_def extended_def allocated_def)
      moreover have "responses_of ?ed1 ?m j = responses_of ed m j @ (if j = k then [r] else [])" for j
        using responses_of_allocated [OF ok None] by simp
      ultimately show ?thesis using ih by (simp add: t recorded_for_Cons rk)
    qed
  qed
qed

section \<open>Reachable states\<close>

definition server_ok :: "endpoint \<Rightarrow> http_server \<Rightarrow> bool" where
  "server_ok ed s \<longleftrightarrow> trips_ok ed (st_trips (hs_handler s)) \<and> trips_ok ed (hs_trips s)"

definition endpoint_ok :: "endpoint \<Rightarrow> bool" where
  "endpoint_ok ed \<longleftrightarrow> registry_ok (ed_providers ed) \<and> (\<forall>a. hr_index (ed_responses ed a) = 0) \<and>
     (\<forall>port s. mget (ed_servers ed) port = Some s \<longrightarrow> server_ok ed s)"

inductive endpoint_reached :: "endpoint_env \<Rightarrow> endpoint \<Rightarrow> bool" for e where
  reached_new: "endpoint_reached e new_endpoint"
| reached_listen: "endpoint_reached e ed \<Longrightarrow> listen e h st req ed = Inr (r, ed') \<Longrightarrow> endpoint_reached e ed'"
| reached_append: "endpoint_reached e ed \<Longrightarrow> append_endpoint e h st areq ed = Inr (r, ed') \<Longrightarrow> endpoint_reached e ed'"
| reached_shutdown: "endpoint_reached e ed \<Longrightarrow> shutdown_endpoint e port ed = Inr (answer, ed') \<Longrightarrow> endpoint_reached e ed'"
| reached_serve:
    "endpoint_reached e ed \<Longrightarrow> mget (ed_servers ed) port = Some s \<Longrightarrow> serve_http e port s q ed = Inr (a, ed') \<Longrightarrow>
     endpoint_reached e ed'"

lemma init_trips_spec:
  assumes "init_trips e rt pt t ed = Inr (res, ed')" "registry_ok (ed_providers ed)" "st_trips t = []"
  shows "loads [] ed ed' \<and> (\<forall>t'. res = Inr t' \<longrightarrow> trips_ok ed' (st_trips t') \<and> t' = t\<lparr>st_trips := st_trips t'\<rparr> \<and>
           (st_base_dir t \<noteq> [] \<longrightarrow> (\<exists>trips. ee_read_trips e (st_base_dir t) rt pt = Inr trips \<and>
              (\<forall>k. responses_of ed' (st_trips t') k = recorded_for (ee_io e) (st_index_keys t) trips k))))"
proof (cases "st_base_dir t = []")
  case True
  then show ?thesis using assms
    by (auto simp: init_trips_def load_trips_if_needed_def exec_defs loads_def trips_ok_def)
next
  case False
  show ?thesis
  proof (cases "ee_read_trips e (st_base_dir t) rt pt")
    case (Inl err)
    then show ?thesis using False assms by (auto simp: init_trips_def load_trips_if_needed_def exec_defs loads_def)
  next
    case (Inr trips)
    show ?thesis
    proof (cases "trips = []")
      case True
      then show ?thesis using Inr False assms
        by (auto simp: init_trips_def load_trips_if_needed_def exec_defs loads_def)
    next
      case ne: False
      then obtain res1 where g: "group_trips (ee_io e) (st_index_keys t) trips [] ed = Inr (res1, ed')"
        and res: "res = (case res1 of Inl err \<Rightarrow> Inl (PlainErr (''failed to load trips: '' @ error_text err))
                         | Inr m \<Rightarrow> Inr (t\<lparr>st_trips := m\<rparr>))"
        using assms(1) Inr False
        by (cases trips) (auto simp: init_trips_def load_trips_if_needed_def exec_defs split: sum.splits)
      have "trips_ok ed []" "separate []" by (simp_all add: trips_ok_def separate_def)
      from group_trips_spec [OF g assms(2) this] show ?thesis using Inr
        by (auto simp: res responses_of_def split: sum.splits)
    qed
  qed
qed

lemma trips_ok_loads: "loads [] ed ed' \<Longrightarrow> trips_ok ed m \<Longrightarrow> trips_ok ed' m"
  by (fastforce simp: loads_def trips_ok_def)

lemma endpoint_ok_loads: "loads [] ed ed' \<Longrightarrow> endpoint_ok ed \<Longrightarrow> endpoint_ok ed'"
  using trips_ok_loads by (auto simp: endpoint_ok_def server_ok_def loads_def) 

lemma endpoint_ok_put:
  assumes "endpoint_ok ed" "server_ok ed s"
  shows "endpoint_ok (ed\<lparr>ed_servers := mput port s (ed_servers ed)\<rparr>)"
  using assms by (auto simp: endpoint_ok_def server_ok_def trips_ok_def)

lemma trips_ok_append:
  assumes "trips_ok ed m" "trips_ok ed n"
  shows "trips_ok ed (m @ filter (\<lambda>(k, a). \<not> mhas m k) n)"
proof -
  have "mget (filter (\<lambda>(k, a). \<not> mhas m k) n) k = (if mhas m k then None else mget n k)" for k
    by (induction n) (auto simp: mget_def)
  moreover have "mget (m @ l) k = (case mget m k of Some a \<Rightarrow> Some a | None \<Rightarrow> mget l k)" for l k
    by (simp add: mget_def map_add_def split: option.splits)
  ultimately show ?thesis using assms by (auto simp: trips_ok_def mhas_iff split: option.splits if_splits)
qed

text \<open>A listen that opened the server \<open>s\<close>: \<open>ed1\<close> is the state with the loaded trips.\<close>

definition opened :: "endpoint_env \<Rightarrow> heap \<Rightarrow> nat \<Rightarrow> listen_request \<Rightarrow> endpoint \<Rightarrow> endpoint \<Rightarrow> http_server \<Rightarrow> bool" where
  "opened e h st req ed ed' s \<longleftrightarrow>
     (let dir = base_directory e h st (lr_base_dir req); keys = st_index_keys (listen_trips req); key = listening_key (lr_port req)
      in mget (ed_listening ed) key = None \<and> hs_running s \<and> hs_trips s = st_trips (hs_handler s) \<and>
         st_index_keys (hs_handler s) = keys \<and>
         (\<exists>ed1. loads [] ed ed1 \<and> trips_ok ed1 (hs_trips s) \<and>
            (dir \<noteq> [] \<longrightarrow> (\<exists>trips. ee_read_trips e dir (lr_request_template req) (lr_response_template req) = Inr trips \<and>
               (\<forall>k. responses_of ed1 (hs_trips s) k = recorded_for (ee_io e) keys trips k))) \<and>
            ed' = ed1\<lparr>ed_servers := mput (lr_port req) s (ed_servers ed),
                      ed_listening := mput key (hs_trips s) (ed_listening ed)\<rparr>))"

lemma listen_trips_simps [simp]:
  "st_trips (listen_trips r) = []" "st_base_dir (listen_trips r) = lr_base_dir r"
  "st_index_keys (listen_trips (r\<lparr>lr_base_dir := d\<rparr>)) = st_index_keys (listen_trips r)"
  by (simp_all add: listen_trips_def)

lemma listen_cases:
  assumes "listen e h st req ed = Inr (res, ed')" "registry_ok (ed_providers ed)"
  obtains (known) m where "ed' = ed" "mget (ed_listening ed) (listening_key (lr_port req)) = Some m" "res = Inr m"
  | (failed) err where "loads [] ed ed'" "res = Inl err"
  | (opened) s where "opened e h st req ed ed' s" "res = Inr (hs_trips s)"
proof (cases "mget (ed_listening ed) (listening_key (lr_port req))")
  case (Some m)
  then show ?thesis using assms(1) known by (simp add: listen_def exec_defs Let_def)
next
  case None
  let ?req = "req\<lparr>lr_base_dir := base_directory e h st (lr_base_dir req)\<rparr>"
  obtain r ed1 where i: "init_trips e (lr_request_template req) (lr_response_template req) (listen_trips ?req) ed = Inr (r, ed1)"
    using assms(1) None
    by (fastforce simp: listen_def start_server_def exec_defs Let_def split: sum.splits if_splits)
  from init_trips_spec [OF i assms(2)] have l: "loads [] ed ed1"
    and spec: "\<And>t. r = Inr t \<Longrightarrow> trips_ok ed1 (st_trips t) \<and> t = (listen_trips ?req)\<lparr>st_trips := st_trips t\<rparr> \<and>
        (base_directory e h st (lr_base_dir req) \<noteq> [] \<longrightarrow>
          (\<exists>trips. ee_read_trips e (base_directory e h st (lr_base_dir req)) (lr_request_template req) (lr_response_template req)
               = Inr trips \<and>
             (\<forall>k. responses_of ed1 (st_trips t) k = recorded_for (ee_io e) (st_index_keys (listen_trips req)) trips k)))"
    by simp_all
  show ?thesis
  proof (cases r)
    case (Inl err)
    then show ?thesis using assms(1) None i l failed
      by (auto simp: listen_def start_server_def exec_defs Let_def)
  next
    case (Inr t)
    note t = spec [OF Inr]
    then have keys: "st_index_keys t = st_index_keys (listen_trips req)"
      by (metis listen_trips_simps(3) server_trips.select_convs(4) server_trips.surjective server_trips.update_convs(3))
    show ?thesis
    proof (cases "ee_start e (lr_port req)")
      case (Some err)
      then show ?thesis using assms(1) None i l Inr failed
        by (auto simp: listen_def start_server_def exec_defs Let_def)
    next
      case start: None
      define s where "s = \<lparr>hs_running = True, hs_handler = t, hs_think_time = 0, hs_trips = st_trips t,
              hs_rotate = st_rotate t, hs_index_keys = st_index_keys t,
              hs_request_template = lr_request_template req, hs_response_template = lr_response_template req\<rparr>"
      have run: "res = Inr (hs_trips s)"
        "ed' = ed1\<lparr>ed_servers := mput (lr_port req) s (ed_servers ed),
                ed_listening := mput (listening_key (lr_port req)) (hs_trips s) (ed_listening ed)\<rparr>"
        using assms(1) None i Inr start l
        by (simp_all add: listen_def start_server_def put_server_def exec_defs Let_def s_def loads_def)
      have "opened e h st req ed ed' s"
        unfolding opened_def Let_def
        by (intro conjI exI [of _ ed1]) (use run None t keys l in \<open>simp_all add: s_def\<close>)
      then show ?thesis using opened run by simp
    qed
  qed
qed

lemma trips_ok_updates [simp]:
  "trips_ok (ed\<lparr>ed_servers := x\<rparr>) m = trips_ok ed m" "trips_ok (ed\<lparr>ed_listening := y\<rparr>) m = trips_ok ed m"
  "server_ok (ed\<lparr>ed_listening := y\<rparr>) s = server_ok ed s" "server_ok ed (s\<lparr>hs_running := b\<rparr>) = server_ok ed s"
  by (simp_all add: trips_ok_def server_ok_def)

lemma responses_of_updates [simp]:
  "responses_of (ed\<lparr>ed_servers := x\<rparr>) m k = responses_of ed m k"
  "responses_of (ed\<lparr>ed_listening := y\<rparr>) m k = responses_of ed m k"
  by (simp_all add: responses_of_def split: option.splits)

lemma endpoint_ok_providers: "endpoint_ok ed \<Longrightarrow> registry_ok ps \<Longrightarrow> endpoint_ok (with_providers ed ps)"
  by (simp add: endpoint_ok_def server_ok_def trips_ok_def)

lemma opened_server:
  assumes "opened e h st req ed ed' s"
  shows "mget (ed_servers ed') (lr_port req) = Some s" "hs_running s" "hs_trips s = st_trips (hs_handler s)"
    "st_index_keys (hs_handler s) = st_index_keys (listen_trips req)"
  using assms by (auto simp: opened_def Let_def)

lemma endpoint_ok_listening: "endpoint_ok ed \<Longrightarrow> endpoint_ok (ed\<lparr>ed_listening := y\<rparr>)"
  by (simp add: endpoint_ok_def)

lemma endpoint_ok_opened:
  assumes "opened e h st req ed ed' s" "endpoint_ok ed"
  shows "endpoint_ok ed'"
proof -
  obtain ed1 l where l: "loads [] ed ed1" and t: "trips_ok ed1 (hs_trips s)" "hs_trips s = st_trips (hs_handler s)"
    and ed': "ed' = ed1\<lparr>ed_servers := mput (lr_port req) s (ed_servers ed), ed_listening := l\<rparr>"
    using assms(1) unfolding opened_def Let_def by blast
  from endpoint_ok_loads [OF l assms(2)] t have "endpoint_ok (ed1\<lparr>ed_servers := mput (lr_port req) s (ed_servers ed1)\<rparr>)"
    by (intro endpoint_ok_put) (simp_all add: server_ok_def)
  moreover have "ed_servers ed1 = ed_servers ed" using l by (simp add: loads_def)
  ultimately show ?thesis using ed' endpoint_ok_listening by simp
qed

lemma server_loads: "loads [] ed ed' \<Longrightarrow> server_ok ed s \<Longrightarrow> server_ok ed' s"
  using trips_ok_loads by (simp add: server_ok_def)

lemma endpoint_ok_append:
  assumes "append_endpoint e h st req ed = Inr (res, ed')" "endpoint_ok ed"
  shows "endpoint_ok ed'"
proof (cases "mget (ed_servers ed) (ar_port req)")
  case None
  then show ?thesis using assms by (simp add: append_endpoint_def exec_defs)
next
  case (Some s)
  let ?t = "append_trips (req\<lparr>ar_base_dir := base_directory e h st (ar_base_dir req)\<rparr>) (hs_rotate s) (hs_index_keys s)"
  obtain r ed1 where i: "init_trips e (hs_request_template s) (hs_response_template s) ?t ed = Inr (r, ed1)"
    using assms(1) Some by (fastforce simp: append_endpoint_def exec_defs Let_def split: sum.splits)
  have "registry_ok (ed_providers ed)" "st_trips ?t = []" using assms(2) by (simp_all add: endpoint_ok_def append_trips_def)
  note spec = init_trips_spec [OF i this]
  then have ok: "endpoint_ok ed1" using endpoint_ok_loads assms(2) by blast
  show ?thesis
  proof (cases r)
    case (Inl err)
    then show ?thesis using assms(1) Some i ok by (simp add: append_endpoint_def exec_defs Let_def)
  next
    case (Inr t)
    have s: "server_ok ed1 s" using server_loads spec Some assms(2) by (auto simp: endpoint_ok_def)
    with spec Inr have "server_ok ed1 (append_to_server t s)"
      by (simp add: server_ok_def append_to_server_def trips_ok_append)
    from endpoint_ok_put [OF ok this] show ?thesis using assms(1) Some i Inr
      by (auto simp: append_endpoint_def exec_defs Let_def put_server_def)
  qed
qed

lemma serve_http_spec:
  assumes "serve_http e port s q ed = Inr (res, ed')" "endpoint_ok ed" "mget (ed_servers ed) port = Some s"
  shows "\<exists>think ps. registry_ok ps \<and>
           ed' = ed\<lparr>ed_servers := mput port (s\<lparr>hs_think_time := think\<rparr>) (ed_servers ed), ed_providers := ps\<rparr> \<and>
           (\<forall>k a. hs_running s \<longrightarrow> request_key (ee_io e) (st_index_keys (hs_handler s)) (Live q) = Some k \<longrightarrow>
              mget (st_trips (hs_handler s)) k = Some a \<longrightarrow>
              res = reply_of (ee_io e) think (hd (hr_responses (ed_responses ed a))))"
proof -
  define think where "think = think_time (ee_tb e) q (hs_think_time s)"
  let ?ed = "ed\<lparr>ed_servers := mput port (s\<lparr>hs_think_time := think\<rparr>) (ed_servers ed)\<rparr>"
  have reg: "registry_ok (ed_providers ?ed)" using assms(2) by (simp add: endpoint_ok_def)
  show ?thesis
  proof (cases "hs_running s")
    case False
    then show ?thesis using assms(1) reg
      by (intro exI [of _ think] exI [of _ "ed_providers ed"])
         (auto simp: serve_http_def exec_defs Let_def put_server_def think_def)
  next
    case True
    obtain kr ps where kv: "build_key_value (ee_io e) (st_index_keys (hs_handler s)) (Live q) ?ed = Inr (kr, with_providers ?ed ps)"
      "registry_ok ps"
      and key: "case request_key (ee_io e) (st_index_keys (hs_handler s)) (Live q) of Some k \<Rightarrow> kr = Inr k | None \<Rightarrow> \<exists>x. kr = Inl x"
      using build_key_value_spec [OF reg] by blast
    have run: "serve_trips (ee_io e) think (hs_handler s) q ?ed = Inr (res, ed')"
      using assms(1) True by (simp add: serve_http_def xseq_def xbind_def xmod_def put_server_def Let_def think_def)
    show ?thesis
    proof (cases kr)
      case (Inl err)
      then show ?thesis using run kv key
        by (intro exI [of _ think] exI [of _ ps]) (auto simp: serve_trips_def exec_defs)
    next
      case (Inr k)
      show ?thesis
      proof (cases "mget (st_trips (hs_handler s)) k")
        case None
        then show ?thesis using run kv key Inr
          by (intro exI [of _ think] exI [of _ ps]) (auto simp: serve_trips_def exec_defs split: option.splits)
      next
        case (Some a)
        then have ne: "hr_responses (ed_responses ed a) \<noteq> []" and zero: "hr_index (ed_responses ed a) = 0"
          using assms(2,3) by (auto simp: endpoint_ok_def server_ok_def trips_ok_def)
        have "st_trips (hs_handler s) \<noteq> []" using Some by auto
        then have turn: "take_turn (st_rotate (hs_handler s)) (length (st_trips (hs_handler s))) 0 = (True, 0)"
          by (simp add: take_turn_def)
        have "replay (ee_io e) think (hs_handler s) a (with_providers ?ed ps) =
            Inr (reply_of (ee_io e) think (hd (hr_responses (ed_responses ed a))), with_providers ?ed ps)"
          using ne zero turn
          by (cases "hr_responses (ed_responses ed a)")
             (auto simp: replay_def exec_defs set_index_def fun_upd_idem)
        then show ?thesis using run kv key Inr Some
          by (intro exI [of _ think] exI [of _ ps]) (auto simp: serve_trips_def xbind_def split: option.splits)
      qed
    qed
  qed
qed

text \<open>A request is always answered.\<close>

lemma serve_http_returns:
  assumes "registry_ok (ed_providers ed)"
  shows "\<exists>res ed'. serve_http e port s q ed = Inr (res, ed')"
proof -
  define think where "think = think_time (ee_tb e) q (hs_think_time s)"
  let ?ed = "ed\<lparr>ed_servers := mput port (s\<lparr>hs_think_time := think\<rparr>) (ed_servers ed)\<rparr>"
  have "registry_ok (ed_providers ?ed)" using assms by simp
  then obtain kr ps where kv: "build_key_value (ee_io e) (st_index_keys (hs_handler s)) (Live q) ?ed = Inr (kr, with_providers ?ed ps)"
    using build_key_value_spec by blast
  have replay: "\<exists>res ed'. replay io t trips a ed1 = Inr (res, ed')" for io t trips a ed1
    by (cases "take_turn (st_rotate trips) (length (st_trips trips)) (hr_index (ed_responses ed1 a))")
       (simp add: replay_def exec_defs set_index_def)
  have "\<exists>res ed'. serve_trips (ee_io e) think (hs_handler s) q ?ed = Inr (res, ed')"
  proof (cases kr)
    case (Inr key)
    have eq: "serve_trips (ee_io e) think (hs_handler s) q ?ed =
        (case mget (st_trips (hs_handler s)) key of
           None \<Rightarrow> xret (Inr (error_reply (''key: '' @ key @ '' not found, available: '' @ [CHR 0x0A] @
                     join ('','' @ [CHR 0x0A]) (map fst (st_trips (hs_handler s)))) 404))
         | Some a \<Rightarrow> replay (ee_io e) think (hs_handler s) a) (with_providers ?ed ps)"
      by (simp only: serve_trips_def xbind_def kv Inr sum.case prod.case)
    show ?thesis
    proof (cases "mget (st_trips (hs_handler s)) key")
      case None
      show ?thesis unfolding eq None option.case xret_def by (intro exI) (rule refl)
    next
      case (Some a)
      show ?thesis unfolding eq Some option.case by (rule replay)
    qed
  qed (use kv in \<open>simp add: serve_trips_def xbind_def xret_def\<close>)
  then show ?thesis
    by (simp add: serve_http_def Let_def xseq_def xbind_def xmod_def xret_def put_server_def think_def)
qed

lemma endpoint_ok_serve:
  assumes "serve_http e port s q ed = Inr (res, ed')" "endpoint_ok ed" "mget (ed_servers ed) port = Some s"
  shows "endpoint_ok ed'"
proof -
  obtain think ps where "registry_ok ps"
    and ed': "ed' = with_providers (ed\<lparr>ed_servers := mput port (s\<lparr>hs_think_time := think\<rparr>) (ed_servers ed)\<rparr>) ps"
    using serve_http_spec [OF assms] by auto
  moreover have "server_ok ed (s\<lparr>hs_think_time := think\<rparr>)" using assms(2,3) by (auto simp: endpoint_ok_def server_ok_def)
  ultimately show ?thesis using endpoint_ok_put [OF assms(2)] endpoint_ok_providers by blast
qed

lemma endpoint_reached_ok: "endpoint_reached e ed \<Longrightarrow> endpoint_ok ed"
proof (induction rule: endpoint_reached.induct)
  case reached_new
  show ?case by (simp add: endpoint_ok_def new_endpoint_def registry_ok_init)
next
  case (reached_listen ed h st req r ed')
  then have "registry_ok (ed_providers ed)" by (simp add: endpoint_ok_def)
  with reached_listen show ?case
    by (auto elim!: listen_cases dest: endpoint_ok_loads endpoint_ok_opened)
next
  case (reached_shutdown ed port r ed')
  show ?case
  proof (cases "mget (ed_servers ed) port")
    case (Some s)
    then have "server_ok ed (s\<lparr>hs_running := False\<rparr>)" using reached_shutdown.IH
      by (auto simp: endpoint_ok_def server_ok_def)
    from endpoint_ok_put [OF reached_shutdown.IH this] show ?thesis using reached_shutdown Some
      by (auto simp: shutdown_endpoint_def exec_defs put_server_def)
  qed (use reached_shutdown in \<open>simp add: shutdown_endpoint_def exec_defs\<close>)
qed (auto intro: endpoint_ok_append endpoint_ok_serve)

section \<open>What the endpoint answers\<close>

text \<open>
  C26: in every reachable state, a request that reaches a running server, and whose key is one of
  the server's trips, is answered with the first response recorded for that key, whatever was
  asked before, with or without rotation, and no response is used up.
\<close>

theorem endpoint_replays_first_response:
  assumes "endpoint_reached e ed" "mget (ed_servers ed) port = Some s" "hs_running s"
    and "request_key (ee_io e) (st_index_keys (hs_handler s)) (Live q) = Some k"
    and "mhas (st_trips (hs_handler s)) k"
    and "serve_http e port s q ed = Inr (res, ed')"
  shows "\<exists>think r rs. responses_of ed (st_trips (hs_handler s)) k = r # rs \<and> res = reply_of (ee_io e) think r \<and>
           ed_responses ed' = ed_responses ed"
proof -
  have ok: "endpoint_ok ed" by (rule endpoint_reached_ok [OF assms(1)])
  obtain a where a: "mget (st_trips (hs_handler s)) k = Some a" using assms(5) by (auto simp: mhas_iff)
  then have "hr_responses (ed_responses ed a) \<noteq> []" using ok assms(2)
    by (auto simp: endpoint_ok_def server_ok_def trips_ok_def)
  then show ?thesis using serve_http_spec [OF assms(6) ok assms(2)] assms(3,4) a
    by (cases "hr_responses (ed_responses ed a)") (auto simp: responses_of_def)
qed

text \<open>
  C27: listening on a new port keeps, for every key, exactly the recorded responses whose request
  has that key, in the order of the recording, and the server answers from them.
\<close>

theorem recorded_trips_are_grouped:
  assumes "endpoint_reached e ed" "listen e h st req ed = Inr (Inr m, ed')"
    and "mget (ed_listening ed) (listening_key (lr_port req)) = None"
    and "ee_read_trips e (base_directory e h st (lr_base_dir req)) (lr_request_template req) (lr_response_template req) = Inr trips"
    and "base_directory e h st (lr_base_dir req) \<noteq> []"
  shows "\<exists>s. mget (ed_servers ed') (lr_port req) = Some s \<and> hs_running s \<and> st_trips (hs_handler s) = m \<and>
           (\<forall>k. responses_of ed' m k = recorded_for (ee_io e) (st_index_keys (hs_handler s)) trips k)"
proof -
  have "registry_ok (ed_providers ed)" using endpoint_reached_ok [OF assms(1)] by (simp add: endpoint_ok_def)
  from assms(2) this show ?thesis
  proof (cases rule: listen_cases)
    case (opened s)
    then show ?thesis using assms(4,5) by (auto simp: opened_def Let_def)
  qed (use assms(3) in auto)
qed

text \<open>
  The endpoint is not started again after a shutdown: listening once more on the port
  succeeds with the trips of the first time and changes nothing, and the server is not running.
\<close>

theorem endpoint_is_not_restarted:
  assumes "endpoint_reached e ed" "listen e h st req ed = Inr (Inr m, ed1)"
    and "mget (ed_listening ed) (listening_key (lr_port req)) = None"
    and "lr_port req' = lr_port req"
  shows "\<exists>ed2 s. shutdown_endpoint e (lr_port req) ed1 = Inr (ee_shutdown e (lr_port req), ed2) \<and>
           listen e h' st' req' ed2 = Inr (Inr m, ed2) \<and> mget (ed_servers ed2) (lr_port req) = Some s \<and> \<not> hs_running s"
proof -
  have "registry_ok (ed_providers ed)" using endpoint_reached_ok [OF assms(1)] by (simp add: endpoint_ok_def)
  from assms(2) this show ?thesis
  proof (cases rule: listen_cases)
    case (opened s)
    then have "mget (ed_servers ed1) (lr_port req) = Some s" "mget (ed_listening ed1) (listening_key (lr_port req)) = Some m"
      by (auto simp: opened_def Let_def)
    then show ?thesis using assms(4)
      by (simp add: shutdown_endpoint_def listen_def put_server_def exec_defs Let_def)
  qed (use assms(3) in auto)
qed

text \<open>The trips that were appended are forgotten by the next append.\<close>

theorem second_append_forgets_first:
  assumes "\<not> mhas (st_trips t2) k" "\<not> mhas (hs_trips s) k"
  shows "\<not> mhas (st_trips (hs_handler (append_to_server t2 (append_to_server t1 s)))) k"
  using assms by (auto simp: append_to_server_def mhas_def)

section \<open>A recorded endpoint\<close>

definition sample_recorded :: "(recorded_request \<times> recorded_response) list" where
  "sample_recorded = [
     (\<lparr>rr_method = ''GET'', rr_url = ''http://host/a'', rr_header = [], rr_body = []\<rparr>, \<lparr>rs_code = 200, rs_header = [], rs_body = ''one''\<rparr>),
     (\<lparr>rr_method = ''GET'', rr_url = ''http://host/a'', rr_header = [], rr_body = []\<rparr>, \<lparr>rs_code = 200, rs_header = [], rs_body = ''two''\<rparr>)]"

definition sample_endpoint_env :: endpoint_env where
  "sample_endpoint_env = \<lparr>ee_io = no_files, ee_tb = tb0, ee_read_trips = (\<lambda>d rt pt. Inr sample_recorded),
     ee_start = (\<lambda>p. None), ee_shutdown = (\<lambda>p. None), ee_directory = (\<lambda>d. ''/rec'')\<rparr>"

definition sample_listen :: listen_request where
  "sample_listen = \<lparr>lr_port = 8080, lr_rotate = True, lr_request_template = [], lr_response_template = [],
     lr_base_dir = ''/rec'', lr_index_keys = [''Method'']\<rparr>"


definition sample_opened :: "endpoint" where
  "sample_opened = snd (projr (listen sample_endpoint_env \<lparr>cells = (\<lambda>_. []), fresh = 1\<rparr> 0 sample_listen new_endpoint))"

lemma sample_opened_run: "listen sample_endpoint_env \<lparr>cells = (\<lambda>_. []), fresh = 1\<rparr> 0 sample_listen new_endpoint =
    Inr (Inr [(''GET'', 0)], sample_opened)"
proof -
  have "case listen sample_endpoint_env \<lparr>cells = (\<lambda>_. []), fresh = 1\<rparr> 0 sample_listen new_endpoint of
      Inr (Inr m, ed) \<Rightarrow> m = [(''GET'', 0)] | _ \<Rightarrow> False"
    by (simp add: listen_def sample_endpoint_env_def sample_listen_def new_endpoint_def exec_defs Let_def base_directory_def
        start_server_def init_trips_def load_trips_if_needed_def sample_recorded_def listen_trips_def build_key_value_def
        find_provider_def init_providers_def key_value_def mget_def add_response_def new_responses_def put_server_def
        mput_def tb0_def)
  then show ?thesis unfolding sample_opened_def by (auto split: sum.splits)
qed

lemma sample_reached: "endpoint_reached sample_endpoint_env sample_opened"
  by (rule reached_listen [OF reached_new sample_opened_run])

definition sample_server :: http_server where
  "sample_server = the (mget (ed_servers sample_opened) 8080)"

definition sample_get :: live_request where
  "sample_get = \<lparr>lq_method = ''GET'', lq_url = ''/a'', lq_header = [], lq_length = 0, lq_body = Inr []\<rparr>"

lemma recorded_trips_are_grouped_witness:
  "\<exists>s. mget (ed_servers sample_opened) 8080 = Some s \<and> hs_running s \<and> st_trips (hs_handler s) = [(''GET'', 0)] \<and>
     (\<forall>k. responses_of sample_opened [(''GET'', 0)] k =
        recorded_for no_files (st_index_keys (hs_handler s)) sample_recorded k)"
  using recorded_trips_are_grouped [OF reached_new sample_opened_run]
  by (simp add: new_endpoint_def sample_endpoint_env_def base_directory_def sample_listen_def tb0_def)

lemma endpoint_is_not_restarted_witness:
  "\<exists>ed2 s. shutdown_endpoint sample_endpoint_env 8080 sample_opened = Inr (None, ed2) \<and>
     listen sample_endpoint_env \<lparr>cells = (\<lambda>_. []), fresh = 1\<rparr> 0 sample_listen ed2 = Inr (Inr [(''GET'', 0)], ed2) \<and>
     mget (ed_servers ed2) 8080 = Some s \<and> \<not> hs_running s"
  using endpoint_is_not_restarted [OF reached_new sample_opened_run]
  by (simp add: new_endpoint_def sample_listen_def sample_endpoint_env_def)

lemma sample_served:
  "mget (ed_servers sample_opened) 8080 = Some sample_server \<and> hs_running sample_server \<and>
   st_trips (hs_handler sample_server) = [(''GET'', 0)] \<and> st_index_keys (hs_handler sample_server) = [''Method'']"
proof -
  have "registry_ok (ed_providers new_endpoint)" by (simp add: new_endpoint_def registry_ok_init)
  from sample_opened_run this show ?thesis
  proof (cases rule: listen_cases)
    case (opened s)
    then show ?thesis using opened_server [OF opened(1)]
      by (simp add: sample_server_def sample_listen_def listen_trips_def)
  next
    case (known m)
    show ?thesis using known(2) by (simp add: new_endpoint_def)
  qed simp
qed

lemma sample_env_io: "ee_io sample_endpoint_env = no_files"
  by (simp add: sample_endpoint_env_def)

lemma endpoint_replays_first_response_witness:
  "\<exists>think r rs. responses_of sample_opened [(''GET'', 0)] ''GET'' = r # rs \<and>
     fst (projr (serve_http sample_endpoint_env 8080 sample_server sample_get sample_opened)) = reply_of no_files think r"
proof -
  have reg: "registry_ok (ed_providers sample_opened)"
    using endpoint_reached_ok [OF sample_reached] by (simp add: endpoint_ok_def)
  obtain res ed' where run: "serve_http sample_endpoint_env 8080 sample_server sample_get sample_opened = Inr (res, ed')"
    using serve_http_returns [OF reg] by blast
  have "request_key no_files [''Method''] (Live sample_get) = Some ''GET''"
    by (simp add: request_key_def provider_of_def init_providers_def mget_def key_value_def sample_get_def)
  then show ?thesis
    using endpoint_replays_first_response [OF sample_reached _ _ _ _ run, of "''GET''"] sample_served
    by (auto simp: run sample_env_io mhas_def)
qed

end
