(* ===== verification/Smtp_Endpoint.thy ===== *)
theory Smtp_Endpoint
  imports Queues Util Endly_Error
begin

text \<open>
  service/testing/endpoint/smtp: the mail endpoint. A session of the SMTP server collects a
  message, decodes it and pushes it to the queue of the user that logged in; an assertion takes
  the messages from the queues in order and compares them with the expected ones. The protocol
  (emersion/go-smtp) is not modelled: its calls of the backend are the operations below.
\<close>

section \<open>Messages\<close>

record mail =
  ml_from :: string
  ml_to :: "string list"
  ml_subject :: string
  ml_header :: "(string \<times> string) list"
  ml_raw :: string
  ml_body :: string

definition empty_mail :: mail where
  "empty_mail = \<lparr>ml_from = [], ml_to = [], ml_subject = [], ml_header = [], ml_raw = [], ml_body = []\<rparr>"

definition mail_newline :: string where
  "mail_newline = [CHR 0x0A]"

fun decode_lines :: "string list \<Rightarrow> mail \<Rightarrow> mail" where
  "decode_lines [] m = m"
| "decode_lines (line # rest) m =
     (case split2 '':'' line of
        [k, v] \<Rightarrow>
          decode_lines rest (m\<lparr>ml_subject := (if k = ''Subject'' then trim_space v else ml_subject m),
                               ml_header := mput k v (ml_header m)\<rparr>)
      | _ \<Rightarrow> (if rest \<noteq> [] then m\<lparr>ml_body := join mail_newline rest\<rparr> else m))"

definition decode_mail :: "mail \<Rightarrow> mail" where
  "decode_mail m = decode_lines (split_on mail_newline (ml_raw m)) m"

definition new_mail :: "string \<Rightarrow> string list \<Rightarrow> go_error + string \<Rightarrow> go_error + mail" where
  "new_mail from to content =
     ebind content (\<lambda>raw. Inr (decode_mail (empty_mail\<lparr>ml_from := from, ml_to := to, ml_raw := raw\<rparr>)))"

section \<open>The queues\<close>

record mail_queues =
  mq_by_user :: "(string \<times> mail list) list"
  mq_debug :: bool
  mq_printed :: "string list"

definition new_mail_queues :: mail_queues where
  "new_mail_queues = \<lparr>mq_by_user = [], mq_debug = False, mq_printed = []\<rparr>"

definition mails_of :: "string \<Rightarrow> mail_queues \<Rightarrow> mail list" where
  "mails_of u q = (case mget (mq_by_user q) u of Some ms \<Rightarrow> ms | None \<Rightarrow> [])"

definition debug_print :: "string \<Rightarrow> mail_queues \<Rightarrow> mail_queues" where
  "debug_print text q = (if mq_debug q then q\<lparr>mq_printed := mq_printed q @ [text]\<rparr> else q)"

definition push_mail :: "(mail \<Rightarrow> string) \<Rightarrow> string \<Rightarrow> mail \<Rightarrow> mail_queues \<Rightarrow> mail_queues" where
  "push_mail json u m q =
     (let q' = debug_print (''push ['' @ u @ ''] <- '' @ json m) q
      in q'\<lparr>mq_by_user := mput u (mails_of u q' @ [m]) (mq_by_user q')\<rparr>)"

definition shift_mail :: "(mail \<Rightarrow> string) \<Rightarrow> string \<Rightarrow> mail_queues \<Rightarrow> mail option \<times> mail_queues" where
  "shift_mail json u q =
     (case mget (mq_by_user q) u of
        None \<Rightarrow> (None, q)
      | Some [] \<Rightarrow> (None, q)
      | Some (m # ms) \<Rightarrow>
          (Some m, debug_print (''shift ['' @ u @ ''] -> '' @ json m) (q\<lparr>mq_by_user := mput u ms (mq_by_user q)\<rparr>)))"

lemma debug_print_simps [simp]: "mq_by_user (debug_print t q) = mq_by_user q" "mails_of u (debug_print t q) = mails_of u q"
  by (simp_all add: debug_print_def mails_of_def)

lemma mails_of_push [simp]: "mails_of v (push_mail json u m q) = mails_of v q @ (if v = u then [m] else [])"
  by (simp add: push_mail_def mails_of_def Let_def)

lemma mails_of_put [simp]: "mails_of v (q\<lparr>mq_by_user := mput u ms (mq_by_user q)\<rparr>) = (if v = u then ms else mails_of v q)"
  by (simp add: mails_of_def)

lemma shift_mail_cases:
  "shift_mail json u q =
     (case mails_of u q of
        [] \<Rightarrow> (None, q)
      | m # ms \<Rightarrow> (Some m, debug_print (''shift ['' @ u @ ''] -> '' @ json m) (q\<lparr>mq_by_user := mput u ms (mq_by_user q)\<rparr>)))"
  by (simp add: shift_mail_def mails_of_def split: option.splits list.splits)

interpretation user_mails: fifo "push_mail json u" "shift_mail json u" "mails_of u" for json u
  by unfold_locales (simp_all add: shift_mail_cases)

lemma shift_mail_others: "v \<noteq> u \<Longrightarrow> mails_of v (snd (shift_mail json u q)) = mails_of v q"
  by (simp add: shift_mail_cases split: list.splits)

section \<open>Sessions\<close>

record smtp_user =
  su_username :: string
  su_password :: string
  su_credentials :: string

record smtp_session =
  ss_username :: string
  ss_msg :: "mail option"

fun find_login :: "smtp_user list \<Rightarrow> string \<Rightarrow> string \<Rightarrow> bool" where
  "find_login [] username password = False"
| "find_login (c # cs) username password =
     (if su_username c = username then su_password c = password else find_login cs username password)"

definition login :: "smtp_user list \<Rightarrow> string \<Rightarrow> string \<Rightarrow> go_error + smtp_session" where
  "login users username password =
     (if find_login users username password then Inr \<lparr>ss_username = username, ss_msg = None\<rparr>
      else Inl (PlainErr (''invalid user or credentials: '' @ username)))"

definition anonymous_login :: smtp_session where
  "anonymous_login = \<lparr>ss_username = [], ss_msg = None\<rparr>"

definition reset_session :: "smtp_session \<Rightarrow> smtp_session" where
  "reset_session s = s\<lparr>ss_msg := Some empty_mail\<rparr>"

definition session_mail :: "string \<Rightarrow> smtp_session \<Rightarrow> smtp_session" where
  "session_mail from s = (reset_session s)\<lparr>ss_msg := Some (empty_mail\<lparr>ml_from := from\<rparr>)\<rparr>"

definition session_rcpt :: "string \<Rightarrow> smtp_session \<Rightarrow> go_error + smtp_session" where
  "session_rcpt to s =
     (case ss_msg s of
        None \<Rightarrow> Inl (Panicked ''nil pointer dereference'')
      | Some m \<Rightarrow> Inr (s\<lparr>ss_msg := Some (m\<lparr>ml_to := ml_to m @ [to]\<rparr>)\<rparr>))"

text \<open>The message stays in the session; the queue holds the same pointer.\<close>

definition session_data ::
  "(mail \<Rightarrow> string) \<Rightarrow> go_error + string \<Rightarrow> smtp_session \<Rightarrow> mail_queues \<Rightarrow> go_error + (smtp_session \<times> mail_queues)" where
  "session_data json content s q =
     (case content of
        Inl e \<Rightarrow> Inl e
      | Inr raw \<Rightarrow>
          (case ss_msg s of
             None \<Rightarrow> Inl (Panicked ''nil pointer dereference'')
           | Some m \<Rightarrow>
               (let m' = decode_mail (m\<lparr>ml_raw := raw\<rparr>)
                in Inr (s\<lparr>ss_msg := Some m'\<rparr>, push_mail json (ss_username s) m' q))))"

section \<open>Contracts\<close>

record smtp_listen_request =
  sl_server_name :: string
  sl_port :: int
  sl_enable_tls :: bool
  sl_max_body_size :: int
  sl_users :: "smtp_user list"
  sl_cert_location :: string
  sl_debug :: bool

text \<open>\<open>creds\<close> is the credentials service of viant/scy: user name and password.\<close>

definition init_user :: "(string \<Rightarrow> go_error + (string \<times> string)) \<Rightarrow> smtp_user \<Rightarrow> smtp_user" where
  "init_user creds u =
     (if su_credentials u \<noteq> [] \<and> su_password u = [] then
        (case creds (su_credentials u) of
           Inl _ \<Rightarrow> u
         | Inr (name, password) \<Rightarrow>
             u\<lparr>su_password := password, su_username := (if su_username u = [] then name else su_username u)\<rparr>)
      else u)"

definition init_smtp_listen :: "(string \<Rightarrow> go_error + (string \<times> string)) \<Rightarrow> smtp_listen_request \<Rightarrow> smtp_listen_request" where
  "init_smtp_listen creds r = r\<lparr>
     sl_server_name := (if sl_server_name r = [] then ''localhost'' else sl_server_name r),
     sl_port := (if sl_port r = 0 then 1587 else sl_port r),
     sl_max_body_size := (if sl_max_body_size r = 0 then 1024 * 1024 else sl_max_body_size r),
     sl_users := map (init_user creds) (sl_users r)\<rparr>"

fun user_without_password :: "nat \<Rightarrow> smtp_user list \<Rightarrow> nat option" where
  "user_without_password i [] = None"
| "user_without_password i (u # us) = (if su_password u = [] then Some i else user_without_password (Suc i) us)"

definition validate_smtp_listen :: "smtp_listen_request \<Rightarrow> go_error option" where
  "validate_smtp_listen r =
     (if sl_users r = [] then Some (PlainErr ''users were empty'')
      else map_option (\<lambda>i. PlainErr (''users['' @ show_int (int i) @ ''].Password was empty'')) (user_without_password 0 (sl_users r)))"

section \<open>Listening and assertions\<close>

record smtp_server =
  sv_addr :: string
  sv_domain :: string
  sv_max_bytes :: int
  sv_insecure_auth :: bool
  sv_certificate :: "string option"

text \<open>\<open>load_cert\<close> is \<open>tls.LoadX509KeyPair\<close> of the two files, \<open>cert_path\<close> the path of the location.\<close>

definition init_smtp_server ::
  "(string \<Rightarrow> string) \<Rightarrow> (string \<Rightarrow> string \<Rightarrow> string) \<Rightarrow> (string \<Rightarrow> string \<Rightarrow> go_error + string) \<Rightarrow> smtp_listen_request \<Rightarrow> go_error + smtp_server" where
  "init_smtp_server cert_path path_join load_cert r =
     (let s = \<lparr>sv_addr = '':'' @ show_int (sl_port r), sv_domain = sl_server_name r, sv_max_bytes = sl_max_body_size r,
               sv_insecure_auth = True, sv_certificate = None\<rparr>
      in if sl_enable_tls r then
           (let location = cert_path (sl_cert_location r);
                cert = path_join location ''cert.pem''; key = path_join location ''key.pem''
            in case load_cert cert key of
                 Inl e \<Rightarrow> Inl (PlainErr (''failed to load certifiacte: '' @ error_text e @ '', '' @ cert @ '', '' @ key))
               | Inr c \<Rightarrow> Inr (s\<lparr>sv_certificate := Some c\<rparr>))
         else Inr s)"

definition listen_smtp ::
  "(string \<Rightarrow> string) \<Rightarrow> (string \<Rightarrow> string \<Rightarrow> string) \<Rightarrow> (string \<Rightarrow> string \<Rightarrow> go_error + string) \<Rightarrow> smtp_listen_request \<Rightarrow> mail_queues
     \<Rightarrow> go_error + (smtp_server \<times> mail_queues)" where
  "listen_smtp cert_path path_join load_cert r q =
     ebind (init_smtp_server cert_path path_join load_cert r) (\<lambda>s. Inr (s, q\<lparr>mq_debug := sl_debug r\<rparr>))"

record user_message =
  um_user :: string
  um_tag_id :: string
  um_message :: "value"

record smtp_assert_request =
  sa_template :: string
  sa_expect :: "user_message list"

definition init_smtp_assert :: "smtp_assert_request \<Rightarrow> smtp_assert_request" where
  "init_smtp_assert r = r\<lparr>sa_template := (if sa_template r = [] then ''Message Validation: $user'' else sa_template r)\<rparr>"

text \<open>A validation: the message was missing, or it was compared (with the outcome of \<open>criteria.Assert\<close>).\<close>

datatype 'v mail_outcome = MailPending | MailMissing string "value" | MailCompared string mail 'v

record 'v mail_validation =
  mv_tag_id :: string
  mv_description :: string
  mv_outcome :: "'v mail_outcome"

fun assert_mails ::
  "(mail \<Rightarrow> string) \<Rightarrow> (user_message \<Rightarrow> string) \<Rightarrow> (string \<Rightarrow> value \<Rightarrow> mail \<Rightarrow> go_error + 'v) \<Rightarrow> user_message list
     \<Rightarrow> (string \<times> nat) list \<Rightarrow> mail_queues \<Rightarrow> (go_error + 'v mail_validation list) \<times> mail_queues" where
  "assert_mails json describe compare [] counts q = (Inr [], q)"
| "assert_mails json describe compare (x # xs) counts q =
     (let n = (case mget counts (um_user x) of Some n \<Rightarrow> n | None \<Rightarrow> 0);
          v = \<lparr>mv_tag_id = um_tag_id x, mv_description = describe x, mv_outcome = MailPending\<rparr>
      in case shift_mail json (um_user x) q of
           (None, q') \<Rightarrow>
             (Inr [v\<lparr>mv_outcome := MailMissing (''missing mail,  user '' @ um_user x @ '' '') (um_message x)\<rparr>], q')
         | (Some m, q') \<Rightarrow>
             (let place = ''mail('' @ um_user x @ ''['' @ show_int (int n) @ ''])''
              in case compare place (um_message x) m of
                   Inl e \<Rightarrow> (Inl e, q')
                 | Inr c \<Rightarrow>
                     (case assert_mails json describe compare xs (mput (um_user x) (Suc n) counts) q' of
                        (Inl e, q'') \<Rightarrow> (Inl e, q'')
                      | (Inr vs, q'') \<Rightarrow> (Inr (v\<lparr>mv_outcome := MailCompared place m c\<rparr> # vs), q''))))"

definition assert_smtp ::
  "toolbox \<Rightarrow> heap \<Rightarrow> (mail \<Rightarrow> string) \<Rightarrow> (string \<Rightarrow> value \<Rightarrow> mail \<Rightarrow> go_error + 'v) \<Rightarrow> smtp_assert_request
     \<Rightarrow> mail_queues \<Rightarrow> (go_error + 'v mail_validation list) \<times> mail_queues" where
  "assert_smtp tb h json compare req q =
     assert_mails json
       (\<lambda>x. expand_text_with tb h [(''user'', VStr (um_user x)), (''TagID'', VStr (um_tag_id x))] (sa_template req))
       compare (sa_expect req) [] q"

end
