(* ===== verification/Smtp_Props.thy ===== *)
theory Smtp_Props
  imports Smtp_Endpoint
begin

text \<open>
  The mail endpoint: messages are decoded as they were written, kept in order by user, and an
  assertion compares the expected messages of a user with the received ones in that order.
\<close>

section \<open>Decoding\<close>

definition header_line :: "string \<times> string \<Rightarrow> string" where
  "header_line kv = fst kv @ '':'' @ snd kv"

definition rendered_mail :: "(string \<times> string) list \<Rightarrow> string \<Rightarrow> string list \<Rightarrow> string" where
  "rendered_mail hs blank body = join mail_newline (map header_line hs @ blank # body)"

definition subject_of :: "(string \<times> string) list \<Rightarrow> string \<Rightarrow> string" where
  "subject_of hs old = (case mget (rev hs) ''Subject'' of Some v \<Rightarrow> trim_space v | None \<Rightarrow> old)"

lemma subject_of_Cons: "subject_of ((k, v) # hs) old = subject_of hs (if k = ''Subject'' then trim_space v else old)"
  by (simp add: subject_of_def mget_def map_add_def split: option.splits)

lemma split2_header: "CHR '':'' \<notin> set k \<Longrightarrow> split2 '':'' (header_line (k, v)) = [k, v]"
  using index_of_char_append [of "CHR '':''" k v] by (simp add: split2_def header_line_def)

lemma decode_lines_headers:
  assumes "\<forall>(k, v)\<in>set hs. CHR '':'' \<notin> set k"
  shows "decode_lines (map header_line hs @ rest) m =
           decode_lines rest (m\<lparr>ml_subject := subject_of hs (ml_subject m), ml_header := mput_all hs (ml_header m)\<rparr>)"
  using assms
proof (induction hs arbitrary: m)
  case Nil
  then show ?case by (simp add: subject_of_def)
next
  case (Cons kv hs)
  obtain k v where kv: "kv = (k, v)" by fastforce
  with Cons.prems have "split2 '':'' (header_line kv) = [k, v]" by (simp add: split2_header)
  with Cons show ?case by (simp add: kv subject_of_Cons)
qed

text \<open>
  C28: a message that is written as header lines, a line without a colon and a body is decoded to
  these headers (the last one of a name wins), the trimmed subject and the same body.
\<close>

theorem written_mail_is_decoded:
  assumes "\<forall>(k, v)\<in>set hs. CHR '':'' \<notin> set k" "CHR '':'' \<notin> set blank"
    and "\<forall>line\<in>set (map header_line hs @ blank # body). CHR 0x0A \<notin> set line"
  shows "decode_mail (m\<lparr>ml_raw := rendered_mail hs blank body\<rparr>) =
           m\<lparr>ml_raw := rendered_mail hs blank body, ml_header := mput_all hs (ml_header m),
             ml_subject := subject_of hs (ml_subject m),
             ml_body := (if body = [] then ml_body m else join mail_newline body)\<rparr>"
proof -
  have "split_on mail_newline (rendered_mail hs blank body) = map header_line hs @ blank # body"
    unfolding rendered_mail_def mail_newline_def by (rule split_on_join) (use assms(3) in auto)
  moreover have "split2 '':'' blank = [blank]" using assms(2) by (simp add: split2_def index_of_char_None [THEN iffD2])
  ultimately show ?thesis using decode_lines_headers [OF assms(1)] by (simp add: decode_mail_def)
qed

lemma written_mail_is_decoded_witness:
  "let m = decode_mail (empty_mail\<lparr>ml_raw := rendered_mail [(''Subject'', '' Hi ''), (''X'', ''1'')] [] [''a'', ''b: c'']\<rparr>)
   in mget (ml_header m) ''X'' = Some ''1'' \<and> ml_body m = join mail_newline [''a'', ''b: c'']"
proof -
  have "\<forall>line\<in>set (map header_line [(''Subject'', '' Hi ''), (''X'', ''1'')] @ [] # [''a'', ''b: c'']). CHR 0x0A \<notin> set line"
    by (simp add: header_line_def)
  from written_mail_is_decoded [OF _ _ this, of empty_mail] show ?thesis by (simp add: Let_def)
qed

section \<open>Assertions\<close>

definition expected_of :: "string \<Rightarrow> user_message list \<Rightarrow> nat" where
  "expected_of u xs = length (filter (\<lambda>x. um_user x = u) xs)"

definition counted :: "(string \<times> nat) list \<Rightarrow> string \<Rightarrow> nat" where
  "counted counts u = (case mget counts u of Some n \<Rightarrow> n | None \<Rightarrow> 0)"

definition place_of :: "string \<Rightarrow> nat \<Rightarrow> string" where
  "place_of u n = ''mail('' @ u @ ''['' @ show_int (int n) @ ''])''"

text \<open>The validation of an expected message compared with the mail \<open>m\<close>, the \<open>n\<close>-th of its user.\<close>

definition compared_with ::
  "(string \<Rightarrow> value \<Rightarrow> mail \<Rightarrow> go_error + 'v) \<Rightarrow> user_message \<Rightarrow> nat \<Rightarrow> mail \<Rightarrow> 'v mail_validation \<Rightarrow> bool" where
  "compared_with compare x n m v \<longleftrightarrow> mv_tag_id v = um_tag_id x \<and>
     (\<exists>c. compare (place_of (um_user x) n) (um_message x) m = Inr c \<and>
          mv_outcome v = MailCompared (place_of (um_user x) n) m c)"

lemma assert_mails_in_order:
  assumes "\<And>u. expected_of u xs \<le> length (mails_of u q)" "\<And>p v m. is_ok (compare p v m)"
  shows "\<exists>vs q'. assert_mails json describe compare xs counts q = (Inr vs, q') \<and> length vs = length xs \<and>
           (\<forall>i<length xs. let u = um_user (xs ! i); n = expected_of u (take i xs)
              in compared_with compare (xs ! i) (counted counts u + n) (mails_of u q ! n) (vs ! i)) \<and>
           (\<forall>u. mails_of u q' = drop (expected_of u xs) (mails_of u q))"
  using assms(1)
proof (induction xs arbitrary: counts q)
  case Nil
  then show ?case by (simp add: expected_of_def)
next
  case (Cons x xs)
  let ?u = "um_user x"
  obtain m ms where ms: "mails_of ?u q = m # ms" using Cons.prems [of ?u]
    by (cases "mails_of ?u q") (auto simp: expected_of_def)
  obtain q1 where sh: "shift_mail json ?u q = (Some m, q1)" "\<And>v. mails_of v q1 = (if v = ?u then ms else mails_of v q)"
    using ms by (simp add: shift_mail_cases)
  obtain c where c: "compare (place_of ?u (counted counts ?u)) (um_message x) m = Inr c"
    using assms(2) by (metis is_ok_simps(1) sum.exhaust)
  let ?counts = "mput ?u (Suc (counted counts ?u)) counts"
  have "expected_of u xs \<le> length (mails_of u q1)" for u
    using Cons.prems [of u] ms by (cases "u = ?u") (auto simp: sh(2) expected_of_def)
  from Cons.IH [OF this, of ?counts] obtain vs q' where
    run: "assert_mails json describe compare xs ?counts q1 = (Inr vs, q')" "length vs = length xs"
    and each: "\<And>i. i < length xs \<Longrightarrow> let u = um_user (xs ! i); n = expected_of u (take i xs)
            in compared_with compare (xs ! i) (counted ?counts u + n) (mails_of u q1 ! n) (vs ! i)"
    and left: "\<And>u. mails_of u q' = drop (expected_of u xs) (mails_of u q1)"
    by blast
  let ?v = "\<lparr>mv_tag_id = um_tag_id x, mv_description = describe x,
             mv_outcome = MailCompared (place_of ?u (counted counts ?u)) m c\<rparr>"
  have "assert_mails json describe compare (x # xs) counts q = (Inr (?v # vs), q')"
    using sh(1) c run(1) by (simp add: Let_def place_of_def counted_def)
  moreover have "let u = um_user ((x # xs) ! i); n = expected_of u (take i (x # xs))
      in compared_with compare ((x # xs) ! i) (counted counts u + n) (mails_of u q ! n) ((?v # vs) ! i)"
    if "i < length (x # xs)" for i
  proof (cases i)
    case 0
    then show ?thesis using c ms by (simp add: compared_with_def expected_of_def Let_def)
  next
    case (Suc j)
    then show ?thesis using each [of j] that ms
      by (cases "um_user (xs ! j) = ?u") (auto simp: Let_def expected_of_def counted_def sh(2))
  qed
  moreover have "mails_of u q' = drop (expected_of u (x # xs)) (mails_of u q)" for u
    using left [of u] ms by (auto simp: sh(2) expected_of_def)
  ultimately show ?case using run(2) by (intro exI [of _ "?v # vs"] exI [of _ q']) auto
qed


definition two_mails :: mail_queues where
  "two_mails = new_mail_queues\<lparr>mq_by_user := [(''bob'', [empty_mail\<lparr>ml_body := ''1''\<rparr>, empty_mail\<lparr>ml_body := ''2''\<rparr>])]\<rparr>"

definition two_expected :: smtp_assert_request where
  "two_expected = \<lparr>sa_template = [], sa_expect =
     [\<lparr>um_user = ''bob'', um_tag_id = ''a'', um_message = VNil\<rparr>, \<lparr>um_user = ''bob'', um_tag_id = ''b'', um_message = VNil\<rparr>]\<rparr>"


end
