(* ===== verification/Http_Runner.thy ===== *)
theory Http_Runner
  imports Http_Headers Engine Effects
begin

text \<open>
  service/testing/runner/http: the requests and responses of the HTTP client, their cookies, the
  options of the client and the contracts. \<open>http_env\<close> is what the service only calls: net/http
  (parsing of a request, the network), the conversions of toolbox, the user defined functions
  and the assertion service.
\<close>

section \<open>Cookies\<close>

text \<open>A cookie; \<open>ck_text\<close> is what its \<open>String\<close> method gives.\<close>

record cookie =
  ck_name :: string
  ck_value :: string
  ck_text :: string

definition set_cookies :: "cookie list \<Rightarrow> http_header \<Rightarrow> http_header" where
  "set_cookies source target =
     fold (\<lambda>c t. if ck_text c \<noteq> [] then header_add ''Cookie'' (ck_text c) t else t) source target"

definition index_by_name :: "cookie list \<Rightarrow> (string \<times> cookie) list" where
  "index_by_name cs = fold (\<lambda>c m. mput (ck_name c) c m) cs []"

fun positions_from :: "nat \<Rightarrow> cookie list \<Rightarrow> (string \<times> nat) list \<Rightarrow> (string \<times> nat) list" where
  "positions_from i [] m = m"
| "positions_from i (c # cs) m = positions_from (Suc i) cs (mput (ck_name c) i m)"

definition index_by_position :: "cookie list \<Rightarrow> (string \<times> nat) list" where
  "index_by_position cs = positions_from 0 cs []"

text \<open>The positions are those before the first cookie is added.\<close>

definition add_cookies :: "cookie list \<Rightarrow> cookie list \<Rightarrow> cookie list" where
  "add_cookies new cs =
     (let indexed = index_by_position cs
      in fold (\<lambda>c acc. case mget indexed (ck_name c) of Some i \<Rightarrow> acc[i := c] | None \<Rightarrow> acc @ [c]) new cs)"

section \<open>The environment\<close>

record http_request =
  hq_repeater :: "repeater option"
  hq_when :: string
  hq_method :: string
  hq_url :: string
  hq_header :: http_header
  hq_cookies :: "cookie list"
  hq_body :: string
  hq_json_body :: "value"
  hq_replace :: "(string \<times> string) list"
  hq_request_udf :: string
  hq_response_udf :: string
  hq_data_source :: string
  hq_expect :: "smap option"

text \<open>The request of net/http; \<open>wq_body\<close> is what its body reader gives.\<close>

record wire_request =
  wq_method :: string
  wq_url :: string
  wq_header :: http_header
  wq_body :: string

record wire_response =
  wr_code :: int
  wr_header :: http_header
  wr_cookies :: "cookie list"
  wr_body :: "go_error + string"
  wr_length :: int

record http_response =
  hp_code :: int
  hp_header :: http_header
  hp_cookies :: "(string \<times> cookie) list"
  hp_body :: string
  hp_json_body :: "value"
  hp_time_taken :: int
  hp_error :: string

record ('net, 'v) http_env =
  he_engine :: full_env
  he_json_text :: "value \<Rightarrow> go_error + string"
  he_json_value :: "string \<Rightarrow> go_error + value"
  he_structured_json :: "string \<Rightarrow> bool"
  he_xml_text :: "string \<Rightarrow> go_error + string"
  he_udf :: "heap \<Rightarrow> nat \<Rightarrow> string \<Rightarrow> (value \<Rightarrow> go_error + value) option"
  he_new_request :: "string \<Rightarrow> string \<Rightarrow> go_error option"
  he_new_client :: "smap \<Rightarrow> go_error option"
  he_do :: "smap \<Rightarrow> wire_request \<Rightarrow> 'net \<Rightarrow> (go_error + wire_response) \<times> 'net"
  he_request_map :: "http_request \<Rightarrow> smap"
  he_response_map :: "http_response \<Rightarrow> smap"
  he_assert :: "value \<Rightarrow> value \<Rightarrow> go_error option \<times> 'v"
  he_elapsed :: "http_response \<Rightarrow> int"

section \<open>Requests\<close>

text \<open>\<open>Clone\<close> and \<open>Expand\<close>, for the expansion \<open>f\<close> of the state.\<close>

definition clone_request :: "(string \<Rightarrow> string) \<Rightarrow> http_request \<Rightarrow> http_request" where
  "clone_request f r = r\<lparr>hq_when := f (hq_when r), hq_url := f (hq_url r), hq_body := f (hq_body r),
     hq_header := copy_expanded_headers f (hq_header r) [], hq_expect := None\<rparr>"

definition expand_request :: "(string \<Rightarrow> string) \<Rightarrow> http_request \<Rightarrow> http_request" where
  "expand_request f r = r\<lparr>hq_url := f (hq_url r), hq_body := f (hq_body r)\<rparr>"

definition to_upper :: "string \<Rightarrow> string" where
  "to_upper s = map upper_char s"

definition with_udf :: "(string \<Rightarrow> (value \<Rightarrow> go_error + value) option) \<Rightarrow> string \<Rightarrow> string \<Rightarrow> string \<Rightarrow> go_error + value" where
  "with_udf udfs name source v =
     (case udfs name of
        None \<Rightarrow> Inl (PlainErr (''failed to lookup udf: '' @ name @ '' for: '' @ source))
      | Some g \<Rightarrow>
          (case g (VStr v) of
             Inl err \<Rightarrow> Inl (PlainErr (''failed to run udf: '' @ name @ '', '' @ error_text err))
           | Inr x \<Rightarrow> Inr x))"

text \<open>
  The body of the request that is built, and whether a binary answer is expected: the body is
  there when the unexpanded one is not empty. Bytes and text are both strings.
\<close>

definition wire_body ::
  "('net, 'v) http_env \<Rightarrow> (string \<Rightarrow> (value \<Rightarrow> go_error + value) option) \<Rightarrow> bool \<Rightarrow> http_request \<Rightarrow> go_error + (string \<times> bool)" where
  "wire_body e udfs has_body r =
     (if \<not> has_body then Inr ([], False)
      else ebind (if hq_request_udf r \<noteq> [] then
                    ebind (with_udf udfs (hq_request_udf r) (hq_url r) (hq_body r)) (\<lambda>v. Inr (as_string (en_tb (he_engine e)) v))
                  else Inr (hq_body r)) (\<lambda>body.
             ebind (from_payload (en_io (he_engine e)) body) (\<lambda>decoded. Inr (decoded, has_prefix body ''base64:''))))"

text \<open>
  \<open>Build\<close>; the JSON body that was made becomes the body of the request itself. The cookies of
  the session are added to the header of the clone after it was copied.
\<close>

definition with_json_body :: "('net, 'v) http_env \<Rightarrow> http_request \<Rightarrow> go_error + http_request" where
  "with_json_body e r =
     (if hq_body r = [] \<and> hq_json_body r \<noteq> VNil
      then ebind (he_json_text e (hq_json_body r)) (\<lambda>text. Inr (r\<lparr>hq_body := text\<rparr>))
      else Inr r)"

definition build_request ::
  "('net, 'v) http_env \<Rightarrow> (string \<Rightarrow> string) \<Rightarrow> (string \<Rightarrow> (value \<Rightarrow> go_error + value) option) \<Rightarrow> cookie list \<Rightarrow> http_request
     \<Rightarrow> go_error + (wire_request \<times> bool \<times> http_request)" where
  "build_request e f udfs session r =
     ebind (with_json_body e r) (\<lambda>r1.
       let request = clone_request f r1
       in ebind (wire_body e udfs (hq_body r1 \<noteq> []) request) (\<lambda>(body, binary).
            case he_new_request e (to_upper (hq_method request)) (hq_url request) of
              Some err \<Rightarrow> Inl err
            | None \<Rightarrow>
                (let target = copy_headers (hq_header request) [];
                     request' = request\<lparr>hq_header := set_cookies session (hq_header request)\<rparr>;
                     target' = set_cookies (hq_cookies request') target
                 in Inr (\<lparr>wq_method = to_upper (hq_method request'), wq_url = hq_url request',
                          wq_header = target', wq_body = body\<rparr>, binary, r1))))"

section \<open>Responses\<close>

definition empty_response :: http_response where
  "empty_response = \<lparr>hp_code = 0, hp_header = [], hp_cookies = [], hp_body = [], hp_json_body = VNil,
     hp_time_taken = 0, hp_error = []\<rparr>"

text \<open>
  \<open>strings.Replace\<close> with an empty text inserts the new one before every rune, as often as the text has
  bytes; the runes are those of valid UTF-8.
\<close>

definition rune_width :: "char \<Rightarrow> nat" where
  "rune_width c = (let b = of_char c :: nat in if b < 192 then 1 else if b < 224 then 2 else if b < 240 then 3 else 4)"

fun insert_between :: "string \<Rightarrow> nat \<Rightarrow> string \<Rightarrow> string" where
  "insert_between v 0 s = s"
| "insert_between v (Suc n) [] = v"
| "insert_between v (Suc n) (c # s) = v @ (c # take (rune_width c - 1) s) @ insert_between v n (drop (rune_width c - 1) s)"

fun replace_pairs :: "(string \<times> string) list \<Rightarrow> string \<Rightarrow> string" where
  "replace_pairs [] body = body"
| "replace_pairs ((k, v) # kvs) body =
     replace_pairs kvs (if k = [] then insert_between v (length body) body else replace_all body k v)"

definition replace_response_body :: "http_request \<Rightarrow> string \<Rightarrow> string" where
  "replace_response_body r body = replace_pairs (hq_replace r) body"

definition read_body :: "storage \<Rightarrow> wire_response \<Rightarrow> bool \<Rightarrow> http_response \<Rightarrow> http_response" where
  "read_body io w binary r =
     (case wr_body w of
        Inl err \<Rightarrow> r\<lparr>hp_error := error_text err\<rparr>
      | Inr body \<Rightarrow> r\<lparr>hp_body := (if binary then ''base64:'' @ base64_encode io body else body)\<rparr>)"

definition merge_response :: "storage \<Rightarrow> wire_response \<Rightarrow> bool \<Rightarrow> http_response \<Rightarrow> http_response" where
  "merge_response io w binary r =
     (read_body io w binary (r\<lparr>hp_code := wr_code w, hp_header := copy_headers (wr_header w) []\<rparr>))
       \<lparr>hp_cookies := index_by_name (wr_cookies w)\<rparr>"

definition transform_body ::
  "('net, 'v) http_env \<Rightarrow> (string \<Rightarrow> (value \<Rightarrow> go_error + value) option) \<Rightarrow> http_request \<Rightarrow> http_response \<Rightarrow> go_error + http_response" where
  "transform_body e udfs q r =
     (if hq_response_udf q = [] then Inr r
      else ebind (with_udf udfs (hq_response_udf q) (hq_url q) (hp_body r)) (\<lambda>v.
             let body = (if is_map_value v then (case he_json_text e v of Inr t \<Rightarrow> t | Inl _ \<Rightarrow> [])
                         else as_string (en_tb (he_engine e)) v)
             in Inr (r\<lparr>hp_body := replace_response_body q body\<rparr>)))"

section \<open>Client options\<close>

definition default_http_floor :: smap where
  "default_http_floor = [(''RequestTimeoutMs'', VInt 120000), (''TimeoutMs'', VInt 120000)]"

definition add_missing :: "smap \<Rightarrow> smap \<Rightarrow> smap" where
  "add_missing defaults options = fold (\<lambda>(k, v) os. if k \<in> fst ` set os then os else os @ [(k, v)]) defaults options"

definition apply_default_timeout :: "smap option \<Rightarrow> smap \<Rightarrow> smap" where
  "apply_default_timeout state_defaults options =
     add_missing default_http_floor
       (case state_defaults of Some d \<Rightarrow> add_missing d options | None \<Rightarrow> options)"

section \<open>Contracts\<close>

record http_send_request =
  hs_options :: smap
  hs_http_options :: smap
  hs_requests :: "http_request list"
  hs_expect :: "smap option"

fun set_expected :: "(value \<Rightarrow> smap) \<Rightarrow> http_request list \<Rightarrow> value list \<Rightarrow> http_request list" where
  "set_expected f (r # rs) (v # vs) = r\<lparr>hq_expect := Some (f v)\<rparr> # set_expected f rs vs"
| "set_expected f rs vs = rs"

definition expected_values :: "http_request list \<Rightarrow> value list" where
  "expected_values rs = map (\<lambda>r. VMap (case hq_expect r of Some m \<Rightarrow> m | None \<Rightarrow> [])) rs"

definition init_send :: "(value \<Rightarrow> value list) \<Rightarrow> (value \<Rightarrow> smap) \<Rightarrow> http_send_request \<Rightarrow> http_send_request" where
  "init_send to_slice to_map s =
     (let expect = (case hs_expect s of None \<Rightarrow> [] | Some m \<Rightarrow> m)
      in if hs_requests s = [] then s\<lparr>hs_expect := Some expect\<rparr>
         else
           (let s1 = s\<lparr>hs_http_options := (if hs_options s \<noteq> [] then hs_options s else hs_http_options s)\<rparr>
            in case mget expect ''Responses'' of
                 Some v \<Rightarrow>
                   s1\<lparr>hs_expect := Some expect, hs_requests := set_expected to_map (hs_requests s1) (to_slice v)\<rparr>
               | None \<Rightarrow>
                   (if list_ex (\<lambda>r. hq_expect r \<noteq> None) (hs_requests s1)
                    then s1\<lparr>hs_expect := Some (mput ''Responses'' (VSlice (expected_values (hs_requests s1))) expect)\<rparr>
                    else s1\<lparr>hs_expect := (if expect = [] then None else Some expect)\<rparr>)))"

record http_load_request =
  hl_send :: http_send_request
  hl_thread_count :: int
  hl_repeat :: int
  hl_assert_mod :: int
  hl_message :: string

definition init_load_repeater :: "int \<Rightarrow> http_request \<Rightarrow> http_request" where
  "init_load_repeater n q =
     (let rep = (case hq_repeater q of None \<Rightarrow> (init_repeater None)\<lparr>rp_repeat := n\<rparr> | Some r \<Rightarrow> r)
      in q\<lparr>hq_repeater := Some (if rp_repeat rep = 0 then rep\<lparr>rp_repeat := n\<rparr> else rep)\<rparr>)"

definition init_load :: "(value \<Rightarrow> value list) \<Rightarrow> (value \<Rightarrow> smap) \<Rightarrow> http_load_request \<Rightarrow> http_load_request" where
  "init_load to_slice to_map r =
     (let r1 = r\<lparr>hl_thread_count := (if hl_thread_count r = 0 then 3 else hl_thread_count r),
                 hl_repeat := (if hl_repeat r = 0 then 1 else hl_repeat r)\<rparr>
      in if hs_requests (hl_send r1) = [] then r1
         else
           (let send = (hl_send r1)\<lparr>hs_requests := map (init_load_repeater (hl_repeat r1)) (hs_requests (hl_send r1))\<rparr>
            in r1\<lparr>hl_assert_mod := (if hl_assert_mod r1 = 0 then 1024 else hl_assert_mod r1),
                  hl_message := (if hl_message r1 = [] then
                    '' $load.Elapsed: Count: $load.Count, QPS: $load.QPS, Timeouts: $load.Timeouts, Errors: $load.Errors, Error: $load.Error''
                    else hl_message r1),
                  hl_send := init_send to_slice to_map send\<rparr>))"

fun load_problem :: "http_request list \<Rightarrow> go_error option" where
  "load_problem [] = None"
| "load_problem (q # qs) =
     (if hq_when q \<noteq> [] then Some (PlainErr ''conditional execution is not supported in stress test mode'')
      else case hq_repeater q of
        None \<Rightarrow> Some (Panicked ''nil pointer dereference'')
      | Some rep \<Rightarrow>
          if rp_variables rep \<noteq> [] then Some (PlainErr ''scraping variables is not supported in stress test mode'')
          else if rp_extract rep \<noteq> [] then Some (PlainErr ''scraping data is not supported in stress test mode'')
          else load_problem qs)"

definition validate_load :: "http_load_request \<Rightarrow> go_error option" where
  "validate_load r =
     (if hs_requests (hl_send r) = [] then Some (PlainErr ''requests were empty'')
      else load_problem (hs_requests (hl_send r)))"

end
