(* ===== verification/Http_Send.thy ===== *)
theory Http_Send
  imports Http_Runner
begin

text \<open>
  service/testing/runner/http/service.go and trips.go: sending a group of requests. The state of a
  run is the world of the session, the network, the cookies of the group (\<open>sessionCookies\<close>), its
  responses and the address of its data; \<open>hx_current\<close> is the response of the request at hand.
\<close>

record 'net http_run =
  hx_world :: world
  hx_net :: 'net
  hx_session :: "cookie list"
  hx_responses :: "http_response list"
  hx_data :: nat
  hx_current :: "nat option"

type_synonym ('net, 'a) hm = "('net http_run, 'a) effect"

definition hlift :: "'a m \<Rightarrow> ('net, 'a) hm" where
  "hlift m w = (case m (hx_world w) of Inl s \<Rightarrow> Inl s | Inr (x, v) \<Rightarrow> Inr (x, w\<lparr>hx_world := v\<rparr>))"

definition hcrash :: "string \<Rightarrow> ('net, 'a) hm" where
  "hcrash s w = Inl (Crash s)"

text \<open>An error that may be a panic.\<close>

definition hraise :: "go_error + 'a \<Rightarrow> ('net, go_error + 'a) hm" where
  "hraise r = hlift (mlift r)"

section \<open>Shared maps of the state\<close>

text \<open>\<open>GetMap\<close>: the map that the state holds under the key, or a new one with what it gives.\<close>

definition shared_map :: "('net, 'v) http_env \<Rightarrow> nat \<Rightarrow> string \<Rightarrow> ('net, nat) hm" where
  "shared_map e st key =
     xbind (xget (\<lambda>w. wd_heap (hx_world w))) (\<lambda>h.
       case tb_get (en_tb (he_engine e)) h st key of
         VRef a \<Rightarrow> xret a
       | _ \<Rightarrow> hlift (new_map (tb_get_map (en_tb (he_engine e)) h st key)))"

definition new_trips :: smap where
  "new_trips = [(''Request'', VSlice []), (''Response'', VSlice [])]"

definition ensure_map :: "('net, 'v) http_env \<Rightarrow> nat \<Rightarrow> string \<Rightarrow> smap \<Rightarrow> ('net, unit) hm" where
  "ensure_map e st key m =
     xbind (xget (\<lambda>w. wd_heap (hx_world w))) (\<lambda>h.
       if tb_has (en_tb (he_engine e)) h st key then xret ()
       else xbind (hlift (new_map m)) (\<lambda>a. hlift (put_state (he_engine e) st key (VRef a))))"

definition initialize_context :: "('net, 'v) http_env \<Rightarrow> nat \<Rightarrow> ('net, unit) hm" where
  "initialize_context e st = xseq (ensure_map e st ''cookies'' []) (ensure_map e st ''httpTrips'' new_trips)"

definition add_trip :: "nat \<Rightarrow> string \<Rightarrow> smap \<Rightarrow> ('net, unit) hm" where
  "add_trip trips index m =
     hlift (on_heap (\<lambda>h. write_cell trips
       (mput index (VSlice ((case mget (cell h trips) index of Some (VSlice vs) \<Rightarrow> vs | _ \<Rightarrow> []) @ [VMap m])) (cell h trips)) h))"

definition set_trip_data :: "nat \<Rightarrow> nat \<Rightarrow> ('net, unit) hm" where
  "set_trip_data trips data = hlift (on_heap (\<lambda>h. write_cell trips (mput ''Data'' (VRef data) (cell h trips)) h))"

section \<open>One request\<close>

definition state_text :: "('net, 'v) http_env \<Rightarrow> world \<Rightarrow> nat \<Rightarrow> string \<Rightarrow> string" where
  "state_text e w st s = expand_text (en_tb (he_engine e)) (wd_heap w) st s"

text \<open>The response of the request: the first attempt appends it to those of the group.\<close>

definition current_response :: "('net, nat) hm" where
  "current_response =
     xbind (xget hx_current) (\<lambda>cur.
       case cur of
         Some i \<Rightarrow> xret i
       | None \<Rightarrow>
           xbind (xget (\<lambda>w. length (hx_responses w))) (\<lambda>i.
             xseq (xmod (\<lambda>w. w\<lparr>hx_responses := hx_responses w @ [empty_response], hx_current := Some i\<rparr>)) (xret i)))"

definition put_response :: "nat \<Rightarrow> http_response \<Rightarrow> ('net, unit) hm" where
  "put_response i r = xmod (\<lambda>w. w\<lparr>hx_responses := (hx_responses w)[i := r]\<rparr>)"

definition do_request :: "('net, 'v) http_env \<Rightarrow> smap \<Rightarrow> wire_request \<Rightarrow> ('net, go_error + wire_response) hm" where
  "do_request e options q w = (let (r, n) = he_do e options q (hx_net w) in Inr (r, w\<lparr>hx_net := n\<rparr>))"

fun update_cookies :: "toolbox \<Rightarrow> nat \<Rightarrow> (string \<times> cookie) list \<Rightarrow> heap \<Rightarrow> heap" where
  "update_cookies tb a [] h = h"
| "update_cookies tb a ((k, c) # cs) h = update_cookies tb a cs (tb_put tb a k (VStr (ck_value c)) h)"

definition send_handler ::
  "('net, 'v) http_env \<Rightarrow> smap \<Rightarrow> nat \<Rightarrow> nat \<Rightarrow> http_request \<Rightarrow> wire_request \<Rightarrow> bool \<Rightarrow> ('net, go_error + value) hm" where
  "send_handler e options st cookies q wire binary =
     xtry (do_request e options wire) (\<lambda>answer.
       xbind current_response (\<lambda>i.
       xbind (xget (\<lambda>w. hx_responses w ! i)) (\<lambda>old.
         let r = merge_response (en_io (he_engine e)) answer binary old
         in xseq (put_response i r)
           (xseq (hlift (on_heap (update_cookies (en_tb (he_engine e)) cookies (hp_cookies r))))
           (xseq (xmod (\<lambda>w. w\<lparr>hx_session := add_cookies (wr_cookies answer) (hx_session w)\<rparr>))
           (xbind (xget (\<lambda>w. transform_body e (he_udf e (wd_heap (hx_world w)) st) q r)) (\<lambda>t.
           xtry (hraise t) (\<lambda>r'.
             xseq (put_response i r')
               (xret (Inr (if hq_data_source q = ''response'' then VMap (he_response_map e r')
                           else VStr (hp_body r')))))))))))) "

fun repeat_request ::
  "('net, 'v) http_env \<Rightarrow> nat \<Rightarrow> nat \<Rightarrow> repeater \<Rightarrow> ('net, go_error + value) hm \<Rightarrow> nat \<Rightarrow> ('net, go_error option) hm" where
  "repeat_request e 0 c rep handler extracted = xret None"
| "repeat_request e (Suc n) c rep handler extracted =
     xbind handler (\<lambda>r.
       case r of
         Inl err \<Rightarrow> xret (Some err)
       | Inr out_value \<Rightarrow>
           xbind (hlift (repeater_eval (he_engine e) c ''HttpRunner'' rep out_value extracted)) (\<lambda>(go_on, err).
             if err \<noteq> None \<or> \<not> go_on then xret err
             else xseq (hlift (service_sleep c (rp_think rep))) (repeat_request e n c rep handler extracted)))"

text \<open>A structured body: the error of reading the JSON text is lost, the one of the XML is not.\<close>

definition structured_body :: "('net, 'v) http_env \<Rightarrow> http_response \<Rightarrow> go_error + http_response" where
  "structured_body e r =
     (let body_value = (\<lambda>text. case he_json_value e text of Inr v \<Rightarrow> v | Inl _ \<Rightarrow> VNil)
      in if has_prefix (trim_space (hp_body r)) ''<?xml'' then
           ebind (he_xml_text e (hp_body r)) (\<lambda>text. Inr (r\<lparr>hp_json_body := body_value text\<rparr>))
         else if he_structured_json e (hp_body r) then Inr (r\<lparr>hp_json_body := body_value (hp_body r)\<rparr>)
         else Inr r)"

fun expand_data :: "nat \<Rightarrow> ('net, 'v) http_env \<Rightarrow> nat \<Rightarrow> ('net, unit) hm" where
  "expand_data 0 e source = xret ()"
| "expand_data (Suc n) e source =
     xbind (xget (\<lambda>w. as_map (en_tb (he_engine e)) (expand (en_tb (he_engine e)) (wd_heap (hx_world w)) (hx_data w) (VRef source)))) (\<lambda>m.
     xbind (hlift (new_map m)) (\<lambda>a.
       xseq (xmod (\<lambda>w. w\<lparr>hx_data := a\<rparr>)) (expand_data n e source)))"

definition expand_group_data :: "('net, 'v) http_env \<Rightarrow> ('net, unit) hm" where
  "expand_group_data e =
     xbind (xget (\<lambda>w. (hx_data w, cell (wd_heap (hx_world w)) (hx_data w)))) (\<lambda>(a, m).
       if m = [] then xret () else expand_data 3 e a)"

definition finish_request ::
  "('net, 'v) http_env \<Rightarrow> nat \<Rightarrow> nat \<Rightarrow> published \<Rightarrow> ('net, go_error + unit) hm" where
  "finish_request e c trips start =
     xbind (xget hx_current) (\<lambda>cur.
       case cur of
         None \<Rightarrow> hcrash ''nil pointer dereference''
       | Some i \<Rightarrow>
           xbind (xget (\<lambda>w. hx_responses w ! i)) (\<lambda>r0.
           xtry (xret (structured_body e r0)) (\<lambda>r.
             xseq (put_response i r)
             (xseq (expand_group_data e)
             (xbind (xget hx_data) (\<lambda>data.
             xseq (set_trip_data trips data)
             (xseq (add_trip trips ''Response'' (he_response_map e r))
             (xseq (hlift (publish_with_start c (EvResponse (VStruct ''*http.Response'' (he_response_map e r))) start))
             (xseq (put_response i (r\<lparr>hp_time_taken := he_elapsed e r\<rparr>))
                (xret (Inr ())))))))))))"

definition perform_request ::
  "('net, 'v) http_env \<Rightarrow> smap \<Rightarrow> nat \<Rightarrow> nat \<Rightarrow> nat \<Rightarrow> nat \<Rightarrow> http_request \<Rightarrow> ('net, go_error + unit) hm" where
  "perform_request e options c st cookies trips q =
     xbind (xget (\<lambda>w. build_request e (state_text e (hx_world w) st) (he_udf e (wd_heap (hx_world w)) st) (hx_session w) q)) (\<lambda>b.
     xtry (hraise b) (\<lambda>(wire, binary, q').
       xseq (add_trip trips ''Request'' (he_request_map e q'))
       (xbind (hlift (publish c (EvResponse (VStruct ''*http.Request'' (he_request_map e q'))))) (\<lambda>start.
       xseq (xmod (\<lambda>w. w\<lparr>hx_current := None\<rparr>))
       (let rep = init_repeater (hq_repeater q')
        in xbind (xget hx_data) (\<lambda>data.
           xbind (repeat_request e (nat (rp_repeat rep)) c rep (send_handler e options st cookies q' wire binary) data) (\<lambda>err.
             case err of
               Some x \<Rightarrow> xret (Inl x)
             | None \<Rightarrow> finish_request e c trips start)))))))"

text \<open>A request whose condition does not hold is skipped without an error.\<close>

definition send_request ::
  "('net, 'v) http_env \<Rightarrow> smap \<Rightarrow> nat \<Rightarrow> nat \<Rightarrow> http_request \<Rightarrow> ('net, go_error + unit) hm" where
  "send_request e options c st q0 =
     xbind (shared_map e st ''cookies'') (\<lambda>cookies.
     xbind (shared_map e st ''httpTrips'') (\<lambda>trips.
     xbind (xget (\<lambda>w. expand_request (state_text e (hx_world w) st) q0)) (\<lambda>q.
     xtry (hlift (eval_criteria (he_engine e) c st (hq_when q) ''HttpRequest.When'' True)) (\<lambda>can_run.
       if can_run then perform_request e options c st cookies trips q else xret (Inr ())))))"

fun send_each ::
  "('net, 'v) http_env \<Rightarrow> smap \<Rightarrow> nat \<Rightarrow> nat \<Rightarrow> http_request list \<Rightarrow> ('net, go_error + unit) hm" where
  "send_each e options c st [] = xret (Inr ())"
| "send_each e options c st (q # qs) = xtry (send_request e options c st q) (\<lambda>_. send_each e options c st qs)"

section \<open>The group\<close>

definition reset_context :: "('net, 'v) http_env \<Rightarrow> nat \<Rightarrow> http_request list \<Rightarrow> heap \<Rightarrow> heap" where
  "reset_context e st qs h =
     fold (\<lambda>q h. case hq_repeater q of
             Some rep \<Rightarrow> (if rp_extract rep \<noteq> [] then reset_extracts (rp_extract rep) st h else h)
           | None \<Rightarrow> h) qs (tb_delete (en_tb (he_engine e)) st ''httpTrips'' h)"

record 'v http_send_response =
  hd_responses :: "http_response list"
  hd_data :: nat
  hd_assert :: "'v option"

text \<open>\<open>send\<close>: the error of the assertion is dropped.\<close>

definition send_group ::
  "('net, 'v) http_env \<Rightarrow> nat \<Rightarrow> nat \<Rightarrow> smap \<Rightarrow> http_send_request \<Rightarrow> ('net, go_error + 'v http_send_response) hm" where
  "send_group e c st options req =
     xseq (initialize_context e st)
     (xbind (hlift (new_map [])) (\<lambda>data.
      xseq (xmod (\<lambda>w. w\<lparr>hx_session := [], hx_responses := [], hx_data := data\<rparr>))
      (xtry (send_each e options c st (hs_requests req)) (\<lambda>_.
         xget (\<lambda>w. Inr \<lparr>hd_responses = hx_responses w, hd_data = hx_data w,
           hd_assert = map_option (\<lambda>expect. snd (he_assert e (VMap expect)
               (VMap [(''Responses'', VSlice (map (\<lambda>r. VMap (he_response_map e r)) (hx_responses w))), (''Data'', VRef (hx_data w))])))
             (hs_expect req)\<rparr>)))))"

definition http_send ::
  "('net, 'v) http_env \<Rightarrow> nat \<Rightarrow> http_send_request \<Rightarrow> ('net, go_error + 'v http_send_response) hm" where
  "http_send e c req =
     xbind (hlift (get_state (he_engine e) c)) (\<lambda>st.
     xbind (xget (\<lambda>w. let tb = en_tb (he_engine e); h = wd_heap (hx_world w)
                      in if tb_has tb h st ''httpDefaults'' then Some (as_map tb (tb_get tb h st ''httpDefaults'')) else None)) (\<lambda>defaults.
       let options = apply_default_timeout defaults (hs_http_options req)
       in case he_new_client e options of
            Some err \<Rightarrow> xret (Inl (PlainErr (''failed to send req: '' @ error_text err)))
          | None \<Rightarrow>
              xbind (send_group e c st options req) (\<lambda>r.
                xseq (hlift (on_heap (reset_context e st (hs_requests req)))) (xret r))))"

end
