(* ===== verification/Http_Send_Props.thy ===== *)
theory Http_Send_Props
  imports Http_Send Samples
begin

text \<open>What sending a group of requests does with the cookies of the session and the state.\<close>

section \<open>Session cookies\<close>

text \<open>
  The request that goes on the wire does not depend on the cookies that the session has
  collected: they are put into a header that was already copied.
\<close>

theorem session_cookies_are_not_sent:
  "build_request e f udfs session r = build_request e f udfs [] r"
  by (simp add: build_request_def Let_def cong: option.case_cong)

section \<open>The state after a group\<close>

lemma reset_extracts_keeps_missing:
  "mget (cell h st) k = None \<Longrightarrow> mget (cell (reset_extracts xs st h) st) k = None"
proof -
  have "mget m k = None \<Longrightarrow> mget (fold (\<lambda>x m. if x_reset x then mdel (x_key x) m else m) xs m) k = None" for m
    by (induction xs arbitrary: m) auto
  then show "mget (cell h st) k = None \<Longrightarrow> mget (cell (reset_extracts xs st h) st) k = None"
    by (simp add: reset_extracts_def)
qed

lemma reset_context_clears:
  assumes "map_laws (en_tb (he_engine e))"
  shows "mget (cell (reset_context e st qs h) st) ''httpTrips'' = None"
proof -
  let ?step = "\<lambda>q h. case hq_repeater q of
      Some rep \<Rightarrow> (if rp_extract rep \<noteq> [] then reset_extracts (rp_extract rep) st h else h) | None \<Rightarrow> h"
  have "mget (cell h0 st) ''httpTrips'' = None \<Longrightarrow> mget (cell (fold ?step qs h0) st) ''httpTrips'' = None" for h0
    by (induction qs arbitrary: h0) (auto simp: reset_extracts_keeps_missing split: option.splits)
  then show ?thesis using assms by (simp add: reset_context_def map_law)
qed

text \<open>
  Once the client was made, a group of requests leaves no trips in the state of the
  session, whether it succeeded or failed.
\<close>

theorem trips_are_removed:
  assumes "map_laws (en_tb (he_engine e))" "http_send e c req w = Inr (r, w')"
    and "\<And>options. he_new_client e options = None"
  shows "\<exists>st w1. get_state (he_engine e) c (hx_world w) = Inr (st, w1) \<and>
           mget (cell (wd_heap (hx_world w')) st) ''httpTrips'' = None"
proof -
  obtain st w1 where st: "get_state (he_engine e) c (hx_world w) = Inr (st, w1)"
    using assms(2) by (auto simp: http_send_def xbind_Inr hlift_def split: sum.splits)
  obtain options w2 where "send_group e c st options req (w\<lparr>hx_world := w1\<rparr>) = Inr (r, w2)"
    and w': "w' = w2\<lparr>hx_world := (hx_world w2)\<lparr>wd_heap := reset_context e st (hs_requests req) (wd_heap (hx_world w2))\<rparr>\<rparr>"
    using assms(2) st
    by (auto simp: http_send_def xbind_Inr xseq_Inr hlift_def xget_def assms(3) Let_def on_heap_def mupdate_def)
  then show ?thesis using st reset_context_clears [OF assms(1)] by simp
qed

definition quiet_http :: "(unit, unit) http_env" where
  "quiet_http = \<lparr>he_engine = env0, he_json_text = (\<lambda>v. Inr []), he_json_value = (\<lambda>s. Inr VNil), he_structured_json = (\<lambda>s. False),
     he_xml_text = (\<lambda>s. Inr []), he_udf = (\<lambda>h st name. None), he_new_request = (\<lambda>m u. None), he_new_client = (\<lambda>o'. None),
     he_do = (\<lambda>o' q n. (Inl (PlainErr ''refused''), n)), he_request_map = (\<lambda>q. []), he_response_map = (\<lambda>r. []),
     he_assert = (\<lambda>x y. (None, ())), he_elapsed = (\<lambda>r. 0)\<rparr>"

definition no_requests :: http_send_request where
  "no_requests = \<lparr>hs_options = [], hs_http_options = [], hs_requests = [], hs_expect = None\<rparr>"

definition quiet_run :: "unit http_run" where
  "quiet_run = \<lparr>hx_world = session_world, hx_net = (), hx_session = [], hx_responses = [], hx_data = 0, hx_current = None\<rparr>"

lemma trips_are_removed_witness:
  "\<exists>r w' st. http_send quiet_http 0 no_requests quiet_run = Inr (r, w') \<and> mget (cell (wd_heap (hx_world w')) st) ''httpTrips'' = None"
proof -
  have "\<exists>r w'. http_send quiet_http 0 no_requests quiet_run = Inr (r, w')"
    by (simp add: http_send_def send_group_def initialize_context_def ensure_map_def no_requests_def quiet_http_def exec_defs
        hlift_def get_state_def ctx_state_def new_map_def on_heap_def mupdate_def mbind_def mseq_def mret_def put_state_def
        on_ctx_def Let_def split: option.splits prod.splits)
  then obtain r w' where run: "http_send quiet_http 0 no_requests quiet_run = Inr (r, w')" by blast
  have "map_laws (en_tb (he_engine quiet_http))" by (simp add: quiet_http_def env0_def tb0_laws)
  from trips_are_removed [OF this run] show ?thesis using run by (auto simp: quiet_http_def)
qed

end
