(* ===== verification/Http_Load.thy ===== *)
theory Http_Load
  imports Http_Runner "HOL-Library.Word"
begin

text \<open>
  service/testing/runner/http/service.go and stress_trip.go: the stress test. The requests are
  built and sent in batches to a channel, the clients take them from it, and the metrics of the
  trips make the response. Times are in nanoseconds; a channel is the list of what was sent to
  it. The schedule of the clients only decides the times and the order of the requests on the network, which
  are given with the answers.
\<close>

section \<open>Trips\<close>

record stress_trip =
  tp_id :: nat
  tp_index :: nat
  tp_err :: "go_error option"
  tp_timeout :: bool
  tp_expect_binary :: bool
  tp_request :: wire_request
  tp_response :: "wire_response option"
  tp_expected :: bool
  tp_request_time :: int
  tp_response_time :: int
  tp_elapsed :: int

text \<open>The batch: \<open>pt_slots\<close> is the slice \<open>trips\<close>, \<open>pt_sent\<close> what went to the channel.\<close>

record 'a partial_trips =
  pt_slots :: "'a option list"
  pt_index :: nat
  pt_sent :: "'a list"

definition new_partial_trips :: "nat \<Rightarrow> 'a partial_trips" where
  "new_partial_trips capacity = \<lparr>pt_slots = replicate capacity None, pt_index = 0, pt_sent = []\<rparr>"

definition flush_trips :: "nat \<Rightarrow> 'a partial_trips \<Rightarrow> go_error + 'a partial_trips" where
  "flush_trips count t =
     (if length (pt_slots t) < count then Inl (Panicked ''index out of range'')
      else Inr (t\<lparr>pt_sent := pt_sent t @ List.map_filter (\<lambda>x. x) (take count (pt_slots t))\<rparr>))"

definition append_trip :: "'a \<Rightarrow> 'a partial_trips \<Rightarrow> go_error + 'a partial_trips" where
  "append_trip trip t =
     ebind (if length (pt_slots t) \<le> pt_index t
            then ebind (flush_trips (length (pt_slots t)) t) (\<lambda>t'. Inr (t'\<lparr>pt_index := 0\<rparr>))
            else Inr t) (\<lambda>t1.
       if length (pt_slots t1) \<le> pt_index t1 then Inl (Panicked ''index out of range'')
       else Inr (t1\<lparr>pt_slots := (pt_slots t1)[pt_index t1 := Some trip], pt_index := Suc (pt_index t1)\<rparr>))"

text \<open>The last batch, after all the trips were appended: one more slot than was filled.\<close>

definition flush_rest :: "'a partial_trips \<Rightarrow> go_error + 'a partial_trips" where
  "flush_rest t = (if 0 < pt_index t then flush_trips (pt_index t + 1) t else Inr t)"

definition send_trips :: "nat \<Rightarrow> 'a list \<Rightarrow> go_error + 'a partial_trips" where
  "send_trips capacity trips = ebind (efold append_trip trips (new_partial_trips capacity)) flush_rest"

section \<open>Building the trips\<close>

definition expected_responses :: "('net, 'v) http_env \<Rightarrow> (value \<Rightarrow> value list) \<Rightarrow> smap option \<Rightarrow> value list" where
  "expected_responses e to_slice expect =
     (case expect of
        None \<Rightarrow> []
      | Some m \<Rightarrow>
          (case mget m ''Responses'' of
             Some v \<Rightarrow> to_slice v
           | None \<Rightarrow> (case mget m ''responses'' of Some v \<Rightarrow> to_slice v | None \<Rightarrow> [])))"

definition is_checked :: "int \<Rightarrow> nat \<Rightarrow> go_error + bool" where
  "is_checked assert_mod i =
     (if i = 0 then Inr True
      else if assert_mod = 0 then Inl (Panicked ''integer divide by zero'')
      else Inr (i mod nat \<bar>assert_mod\<bar> = 0))"

definition new_trip :: "nat \<Rightarrow> nat \<Rightarrow> bool \<Rightarrow> wire_request \<Rightarrow> bool \<Rightarrow> stress_trip" where
  "new_trip n index expected wire binary =
     \<lparr>tp_id = n, tp_index = index, tp_err = None, tp_timeout = False, tp_expect_binary = binary, tp_request = wire,
      tp_response = None, tp_expected = expected, tp_request_time = 0, tp_response_time = 0, tp_elapsed = 0\<rparr>"

text \<open>The trips of one request, \<open>build\<close> being \<open>Build\<close> with no session cookies.\<close>

fun request_trips ::
  "(http_request \<Rightarrow> go_error + (wire_request \<times> bool \<times> http_request)) \<Rightarrow> int \<Rightarrow> nat \<Rightarrow> nat \<Rightarrow> nat \<Rightarrow> nat \<Rightarrow> http_request \<Rightarrow> nat
     \<Rightarrow> go_error + stress_trip list" where
  "request_trips build amod nexpected index n i q 0 = Inr []"
| "request_trips build amod nexpected index n i q (Suc left) =
     ebind (is_checked amod i) (\<lambda>checked.
     ebind (build q) (\<lambda>(wire, binary, q').
     ebind (request_trips build amod nexpected index (Suc n) (Suc i) q' left) (\<lambda>ts.
       Inr (new_trip n index (checked \<and> index < nexpected) wire binary # ts))))"

definition request_repeat :: "http_request \<Rightarrow> go_error + nat" where
  "request_repeat q =
     (case hq_repeater q of None \<Rightarrow> Inl (Panicked ''nil pointer dereference'') | Some r \<Rightarrow> Inr (nat (rp_repeat r)))"

fun all_trips ::
  "(http_request \<Rightarrow> go_error + (wire_request \<times> bool \<times> http_request)) \<Rightarrow> (string \<Rightarrow> string) \<Rightarrow> int \<Rightarrow> nat \<Rightarrow> nat \<Rightarrow> nat
     \<Rightarrow> http_request list \<Rightarrow> go_error + stress_trip list" where
  "all_trips build f amod nexpected index n [] = Inr []"
| "all_trips build f amod nexpected index n (q # qs) =
     ebind (request_repeat q) (\<lambda>times.
     ebind (request_trips build amod nexpected index n 0 (expand_request f q) times) (\<lambda>ts.
     ebind (all_trips build f amod nexpected (Suc index) (n + length ts) qs) (\<lambda>us. Inr (ts @ us))))"

section \<open>Sending a trip\<close>

record runtime_metric =
  rm_count :: "32 word"
  rm_start_time :: int
  rm_timeouts :: "32 word"
  rm_errors :: "32 word"
  rm_err :: "go_error option"

definition empty_metric :: runtime_metric where
  "empty_metric = \<lparr>rm_count = 0, rm_start_time = 0, rm_timeouts = 0, rm_errors = 0, rm_err = None\<rparr>"

datatype answer = TimedOut go_error | Failed go_error | Answered wire_response

text \<open>The copy of an answer: its body is only read when its length is known.\<close>

definition received :: "wire_response \<Rightarrow> wire_response" where
  "received r = r\<lparr>wr_body := Inr (if 0 < wr_length r then (case wr_body r of Inr b \<Rightarrow> b | Inl _ \<Rightarrow> []) else [])\<rparr>"

text \<open>\<open>handleRequest\<close> with the answer of the network between two times.\<close>

definition handle_trip :: "int \<Rightarrow> int \<Rightarrow> answer \<Rightarrow> stress_trip \<Rightarrow> runtime_metric \<Rightarrow> stress_trip \<times> runtime_metric" where
  "handle_trip t0 t1 a trip m =
     (let trip1 = trip\<lparr>tp_request_time := t0, tp_response_time := t1, tp_elapsed := t1 - t0\<rparr>;
          m1 = m\<lparr>rm_start_time := (if rm_start_time m = 0 then t0 else rm_start_time m), rm_count := rm_count m + 1\<rparr>
      in case a of
           TimedOut err \<Rightarrow> (trip1\<lparr>tp_timeout := True\<rparr>, m1\<lparr>rm_timeouts := rm_timeouts m1 + 1\<rparr>)
         | Failed err \<Rightarrow> (trip1\<lparr>tp_err := Some err\<rparr>, m1\<lparr>rm_err := Some err, rm_errors := rm_errors m1 + 1\<rparr>)
         | Answered r \<Rightarrow>
             (if tp_err trip1 \<noteq> None \<or> tp_timeout trip1 \<or> \<not> tp_expected trip1 then (trip1, m1)
              else (trip1\<lparr>tp_response := Some (received r)\<rparr>, m1)))"

section \<open>The response\<close>

text \<open>The response without the list of the asserted responses, which are the pairs of the assertion.\<close>

record load_response =
  ld_status :: string
  ld_error :: string
  ld_qps :: gofloat
  ld_timeouts :: int
  ld_errors :: int
  ld_codes :: "(int \<times> int) list"
  ld_duration :: gofloat
  ld_requests :: int
  ld_min :: gofloat
  ld_avg :: gofloat
  ld_max :: gofloat

definition empty_load_response :: load_response where
  "empty_load_response = \<lparr>ld_status = ''ok'', ld_error = [], ld_qps = FFin 0, ld_timeouts = 0, ld_errors = 0, ld_codes = [],
     ld_duration = FFin 0, ld_requests = 0, ld_min = FFin 0, ld_avg = FFin 0, ld_max = FFin 0\<rparr>"

definition fl_divide :: "rat \<Rightarrow> rat \<Rightarrow> gofloat" where
  "fl_divide a b = (if b \<noteq> 0 then FFin (a / b) else if a = 0 then FNaN else FInf (0 < a))"

record trip_totals =
  tt_start :: int
  tt_end :: int
  tt_min :: int
  tt_max :: int
  tt_sum :: int
  tt_errors :: int
  tt_timeouts :: int
  tt_error :: string

definition add_trip_totals :: "stress_trip \<Rightarrow> trip_totals \<Rightarrow> trip_totals" where
  "add_trip_totals t s = \<lparr>
     tt_start = (if tp_request_time t < tt_start s then tp_request_time t else tt_start s),
     tt_end = (if tt_end s < tp_response_time t then tp_response_time t else tt_end s),
     tt_min = (if tp_elapsed t < tt_min s then tp_elapsed t else tt_min s),
     tt_max = (if tt_max s < tp_elapsed t then tp_elapsed t else tt_max s),
     tt_sum = tt_sum s + tp_elapsed t,
     tt_errors = (if tp_err t \<noteq> None then tt_errors s + 1 else tt_errors s),
     tt_timeouts = (if tp_timeout t then tt_timeouts s + 1 else tt_timeouts s),
     tt_error = (case tp_err t of Some err \<Rightarrow> error_text err | None \<Rightarrow> tt_error s)\<rparr>"

definition first_totals :: "stress_trip \<Rightarrow> trip_totals" where
  "first_totals t = \<lparr>tt_start = tp_request_time t, tt_end = tp_response_time t, tt_min = tp_elapsed t, tt_max = tp_elapsed t,
     tt_sum = 0, tt_errors = 0, tt_timeouts = 0, tt_error = []\<rparr>"

definition collect_trips :: "stress_trip list \<Rightarrow> load_response \<Rightarrow> go_error + load_response" where
  "collect_trips trips r =
     (case trips of
        [] \<Rightarrow> Inl (Panicked ''index out of range'')
      | t # _ \<Rightarrow>
          (let s = fold add_trip_totals trips (first_totals t);
               n = of_nat (length trips) :: rat;
               seconds = of_int (tt_end s - tt_start s) / 1000000000 :: rat
           in Inr (r\<lparr>ld_error := (if tt_errors s = 0 then ld_error r else tt_error s),
                 ld_errors := ld_errors r + tt_errors s, ld_timeouts := ld_timeouts r + tt_timeouts s, ld_codes := [],
                 ld_min := FFin (of_int (tt_min s) / 1000000), ld_max := FFin (of_int (tt_max s) / 1000000),
                 ld_avg := FFin (of_int (tt_sum s) / n / 1000000), ld_duration := FFin seconds,
                 ld_requests := int (length trips), ld_qps := fl_divide n seconds\<rparr>)))"

text \<open>The responses that are asserted, with the expected ones, and the codes that were counted.\<close>

fun compared_trips ::
  "('net, 'v) http_env \<Rightarrow> (string \<Rightarrow> (value \<Rightarrow> go_error + value) option) \<Rightarrow> http_request list \<Rightarrow> stress_trip list
     \<Rightarrow> (int \<times> int) list \<Rightarrow> (http_response \<times> smap) list \<times> (int \<times> int) list" where
  "compared_trips e udfs qs [] codes = ([], codes)"
| "compared_trips e udfs qs (t # ts) codes =
     (if \<not> tp_expected t \<or> length qs \<le> tp_index t then compared_trips e udfs qs ts codes
      else case hq_expect (qs ! tp_index t) of
        None \<Rightarrow> compared_trips e udfs qs ts codes
      | Some expect \<Rightarrow>
          (case tp_response t of
             None \<Rightarrow> (let (cs, codes') = compared_trips e udfs qs ts codes in ((empty_response, expect) # cs, codes'))
           | Some w \<Rightarrow>
               (let n = (case mget codes (wr_code w) of Some n \<Rightarrow> n | None \<Rightarrow> 0);
                    (cs, codes') = compared_trips e udfs qs ts (mput (wr_code w) (n + 1) codes)
                in case transform_body e udfs (qs ! tp_index t) (merge_response (en_io (he_engine e)) w (tp_expect_binary t) empty_response) of
                     Inl _ \<Rightarrow> (cs, codes')
                   | Inr r \<Rightarrow>
                       ((if he_structured_json e (hp_body r)
                         then r\<lparr>hp_json_body := (case he_json_value e (hp_body r) of Inr v \<Rightarrow> v | Inl _ \<Rightarrow> VNil)\<rparr> else r, expect) # cs,
                        codes'))))"

text \<open>
  \<open>stressTest\<close>, with the outcome \<open>run\<close> of the clients on the trips that were sent to the channel: it
  gives the trips as the clients left them.
\<close>

definition stress_test ::
  "('net, 'v) http_env \<Rightarrow> (value \<Rightarrow> value list) \<Rightarrow> (string \<Rightarrow> string) \<Rightarrow> (string \<Rightarrow> (value \<Rightarrow> go_error + value) option) \<Rightarrow>
     (stress_trip list \<Rightarrow> stress_trip list \<Rightarrow> stress_trip list) \<Rightarrow> smap option \<Rightarrow> http_load_request
     \<Rightarrow> go_error + (load_response \<times> 'v option)" where
  "stress_test e to_slice f udfs run defaults req =
     (let qs = hs_requests (hl_send req);
          expect = hs_expect (hl_send req);
          options = apply_default_timeout defaults (hs_http_options (hl_send req));
          checks = length (expected_responses e to_slice expect)
      in if hl_thread_count req < 0 then Inl (Panicked ''makechan: size out of range'')
         else case (if 0 < hl_thread_count req then he_new_client e options else None) of
           Some err \<Rightarrow> Inl err
         | None \<Rightarrow>
             ebind (all_trips (build_request e f udfs []) f (hl_assert_mod req) checks 0 0 qs) (\<lambda>trips.
             ebind (send_trips (1024 * nat (hl_thread_count req)) trips) (\<lambda>sent.
             let done_trips = run (pt_sent sent) trips
             in ebind (collect_trips done_trips empty_load_response) (\<lambda>r.
                  case expect of
                    None \<Rightarrow> Inr (r, None)
                  | Some _ \<Rightarrow>
                      (let (pairs, codes) = compared_trips e udfs (map (expand_request f) qs) done_trips [];
                           (err, v) = he_assert e (VSlice (map (\<lambda>p. VMap (snd p)) pairs)) (VSlice (map (\<lambda>p. VMap (he_response_map e (fst p))) pairs))
                       in case err of Some x \<Rightarrow> Inl x | None \<Rightarrow> Inr (r\<lparr>ld_codes := codes\<rparr>, Some v))))))"

end
