(* ===== verification/Http_Load_Props.thy ===== *)
theory Http_Load_Props
  imports Http_Load
begin

text \<open>What the stress test sends, and what its metrics tell.\<close>

section \<open>Batches\<close>

text \<open>
  The state of the batches after the trips \<open>xs\<close>: \<open>q\<close> full batches were sent, the next one is
  filled up to \<open>pt_index\<close>, and the slots after it hold the trips of the batch before.
\<close>

definition batch_base :: "nat \<Rightarrow> nat \<Rightarrow> nat" where
  "batch_base cap n = (n - 1) div cap * cap"

definition batched :: "nat \<Rightarrow> 'a list \<Rightarrow> 'a partial_trips \<Rightarrow> bool" where
  "batched cap xs t \<longleftrightarrow>
     (let b = batch_base cap (length xs)
      in length (pt_slots t) = cap \<and> pt_index t = length xs - b \<and> pt_sent t = take b xs \<and>
         (\<forall>i<cap. pt_slots t ! i =
            (if i < pt_index t then Some (xs ! (b + i)) else if cap \<le> b then Some (xs ! (b - cap + i)) else None)))"

lemma batch_base_bounds:
  assumes "0 < cap" "0 < n"
  shows "batch_base cap n < n" "n - batch_base cap n \<le> cap"
proof -
  have "(n - 1) mod cap < cap" using assms by simp
  moreover have "n - 1 = batch_base cap n + (n - 1) mod cap" by (simp add: batch_base_def)
  ultimately show "batch_base cap n < n" "n - batch_base cap n \<le> cap" using assms by linarith+
qed

lemma batch_base_Suc:
  assumes "0 < cap"
  shows "batch_base cap (Suc n) = (if n - batch_base cap n = cap then batch_base cap n + cap else batch_base cap n)"
proof (cases n)
  case 0
  then show ?thesis using assms by (simp add: batch_base_def)
next
  case (Suc m)
  have eq: "batch_base cap n = m div cap * cap" "batch_base cap (Suc n) = Suc m div cap * cap"
    by (simp_all add: batch_base_def Suc)
  have "m - m div cap * cap = m mod cap" by (simp add: minus_div_mult_eq_mod)
  moreover have "m div cap * cap \<le> m" by simp
  ultimately have n: "n - m div cap * cap = Suc (m mod cap)" by (simp add: Suc Suc_diff_le)
  show ?thesis using n assms by (auto simp: eq div_Suc mod_Suc algebra_simps)
qed

lemma map_filter_all: "(\<And>i. i < length ys \<Longrightarrow> ys ! i = Some (f i)) \<Longrightarrow> List.map_filter (\<lambda>x. x) ys = map f [0..<length ys]"
proof -
  assume "\<And>i. i < length ys \<Longrightarrow> ys ! i = Some (f i)"
  then have "ys = map (Some \<circ> f) [0..<length ys]" by (intro nth_equalityI) simp_all
  then have "List.map_filter (\<lambda>x. x) ys = List.map_filter (\<lambda>x. x) (map (Some \<circ> f) [0..<length ys])" by simp
  also have "\<dots> = map f [0..<length ys]" by (simp add: List.map_filter_def comp_def)
  finally show ?thesis .
qed

lemma take_drop_nth: "b + n \<le> length xs \<Longrightarrow> map (\<lambda>i. xs ! (b + i)) [0..<n] = take n (drop b xs)"
  by (intro nth_equalityI) simp_all

lemma batched_append:
  assumes "0 < cap" "batched cap xs t"
  shows "\<exists>t'. append_trip x t = Inr t' \<and> batched cap (xs @ [x]) t'"
proof -
  define b where "b = batch_base cap (length xs)"
  have t: "length (pt_slots t) = cap" "pt_index t = length xs - b" "pt_sent t = take b xs"
    "\<And>i. i < cap \<Longrightarrow> pt_slots t ! i =
       (if i < pt_index t then Some (xs ! (b + i)) else if cap \<le> b then Some (xs ! (b - cap + i)) else None)"
    using assms(2) by (simp_all add: batched_def b_def Let_def)
  have bn: "b \<le> length xs" "length xs - b \<le> cap"
    using batch_base_bounds [OF assms(1), of "length xs"] by (cases "length xs"; force simp: b_def batch_base_def)+
  show ?thesis
  proof (cases "length xs - b = cap")
    case True
    then have len: "length xs = b + cap" using bn by simp
    have b': "batch_base cap (length (xs @ [x])) = b + cap" using batch_base_Suc [OF assms(1)] True by (simp add: b_def)
    have "List.map_filter (\<lambda>x. x) (pt_slots t) = map (\<lambda>i. xs ! (b + i)) [0..<length (pt_slots t)]"
      by (rule map_filter_all) (use t True in simp)
    also have "\<dots> = take cap (drop b xs)" using take_drop_nth [of b cap xs] True bn t(1) by simp
    finally have sent: "pt_sent t @ List.map_filter (\<lambda>x. x) (pt_slots t) = xs" using t(3) True bn by simp
    have run: "append_trip x t = Inr (t\<lparr>pt_sent := xs, pt_slots := (pt_slots t)[0 := Some x], pt_index := 1\<rparr>)"
      using t True assms(1) sent by (simp add: append_trip_def flush_trips_def)
    have "(pt_slots t)[0 := Some x] ! i = (if i < 1 then Some ((xs @ [x]) ! (b + cap + i)) else Some ((xs @ [x]) ! (b + i)))" if "i < cap" for i
      using t(1) t(4) [OF that] that len by (cases i) (simp_all add: nth_append t(2))
    then have "batched cap (xs @ [x]) (t\<lparr>pt_sent := xs, pt_slots := (pt_slots t)[0 := Some x], pt_index := 1\<rparr>)"
      unfolding batched_def b' Let_def using t True bn by (simp add: Suc_diff_le)
    with run show ?thesis by blast
  next
    case False
    then have lt: "length xs - b < cap" using bn by simp
    have b': "batch_base cap (length (xs @ [x])) = b" using batch_base_Suc [OF assms(1)] False by (simp add: b_def)
    let ?t = "t\<lparr>pt_slots := (pt_slots t)[pt_index t := Some x], pt_index := Suc (pt_index t)\<rparr>"
    have run: "append_trip x t = Inr ?t" using t lt by (simp add: append_trip_def)
    have "(pt_slots t)[pt_index t := Some x] ! i =
        (if i < Suc (pt_index t) then Some ((xs @ [x]) ! (b + i)) else if cap \<le> b then Some ((xs @ [x]) ! (b - cap + i)) else None)"
      if "i < cap" for i
      using t(1) t(4) [OF that] that lt bn by (cases "i = pt_index t") (auto simp: nth_append t(2) nth_list_update)
    then have "batched cap (xs @ [x]) ?t"
      unfolding batched_def b' Let_def using t bn by (simp add: Suc_diff_le)
    with run show ?thesis by blast
  qed
qed

lemma batched_all:
  assumes "0 < cap"
  shows "\<exists>t. efold append_trip xs (new_partial_trips cap) = Inr t \<and> batched cap xs t"
proof (induction xs rule: rev_induct)
  case Nil
  show ?case by (simp add: batched_def new_partial_trips_def batch_base_def)
next
  case (snoc x xs)
  then obtain t where "efold append_trip xs (new_partial_trips cap) = Inr t" "batched cap xs t" by blast
  with batched_append [OF assms this(2), of x] show ?case by (auto simp: efold_append)
qed

text \<open>The last batch: it starts at a multiple of the capacity, and is full when the trips are one.\<close>

lemma batch_base_dvd: "cap dvd batch_base cap n"
  by (simp add: batch_base_def)

lemma last_batch:
  assumes "0 < cap" "0 < n"
  shows "batch_base cap n < n \<and> n - batch_base cap n \<le> cap"
    and "n - batch_base cap n = cap \<longleftrightarrow> n mod cap = 0"
    and "n mod cap \<noteq> 0 \<Longrightarrow> cap \<le> batch_base cap n \<longleftrightarrow> cap < n"
proof -
  have bn: "batch_base cap n < n" "n - batch_base cap n \<le> cap" using batch_base_bounds [OF assms] by simp_all
  then show "batch_base cap n < n \<and> n - batch_base cap n \<le> cap" by simp
  show full: "n - batch_base cap n = cap \<longleftrightarrow> n mod cap = 0"
  proof
    assume "n - batch_base cap n = cap"
    then have "n = batch_base cap n + cap" using bn by simp
    then show "n mod cap = 0" using batch_base_dvd [of cap n] by (metis dvd_add_triv_right_iff mod_0_imp_dvd dvd_imp_mod_0)
  next
    assume "n mod cap = 0"
    then have "cap dvd n - batch_base cap n" using batch_base_dvd by (simp add: dvd_eq_mod_eq_0 [symmetric])
    then show "n - batch_base cap n = cap" using bn by (auto dest: dvd_imp_le)
  qed
  assume part: "n mod cap \<noteq> 0"
  show "cap \<le> batch_base cap n \<longleftrightarrow> cap < n"
  proof
    assume "cap < n"
    then have "batch_base cap n \<noteq> 0" using bn by auto
    then show "cap \<le> batch_base cap n" using batch_base_dvd [of cap n] by (simp add: dvd_imp_le)
  qed (use bn in simp)
qed

lemma map_filter_snoc:
  "List.map_filter (\<lambda>x. x) (ys @ [z]) = List.map_filter (\<lambda>x. x) ys @ (case z of Some y \<Rightarrow> [y] | None \<Rightarrow> [])"
  by (cases z) (simp_all add: List.map_filter_def)

text \<open>A last batch that is not full is sent with one slot more.\<close>

lemma flush_rest_partial:
  assumes "0 < cap" "0 < length trips" "batched cap trips t" "length trips mod cap \<noteq> 0"
  shows "flush_rest t =
    Inr (t\<lparr>pt_sent := trips @ (if cap < length trips then [trips ! (length trips - cap)] else [])\<rparr>)"
proof -
  define b where "b = batch_base cap (length trips)"
  define k where "k = length trips - b"
  note last = last_batch [OF assms(1,2), folded b_def]
  have t: "length (pt_slots t) = cap" "pt_index t = k" "pt_sent t = take b trips"
    "\<And>i. i < cap \<Longrightarrow> pt_slots t ! i =
       (if i < k then Some (trips ! (b + i)) else if cap \<le> b then Some (trips ! (b - cap + i)) else None)"
    using assms(3) by (simp_all add: batched_def b_def k_def Let_def)
  have k: "0 < k" "k < cap" "b < length trips" using last assms(4) by (auto simp: k_def)
  have "List.map_filter (\<lambda>x. x) (take k (pt_slots t)) = map (\<lambda>i. trips ! (b + i)) [0..<k]"
    using map_filter_all [of "take k (pt_slots t)" "\<lambda>i. trips ! (b + i)"] k t(1,4) by simp
  also have "\<dots> = drop b trips" using take_drop_nth [of b k trips] k by (simp add: k_def)
  finally have body: "List.map_filter (\<lambda>x. x) (take k (pt_slots t)) = drop b trips" .
  have "pt_slots t ! k = (if cap < length trips then Some (trips ! (length trips - cap)) else None)"
    using t(4) [OF k(2)] last(3) [OF assms(4)] k by (auto simp: k_def)
  moreover have "take (Suc k) (pt_slots t) = take k (pt_slots t) @ [pt_slots t ! k]"
    using k t(1) by (simp add: take_Suc_conv_app_nth)
  ultimately show ?thesis
    using t(1-3) k body by (simp add: flush_rest_def flush_trips_def map_filter_snoc)
qed

text \<open>
  C30: fewer trips than the capacity of the channel are sent once each, in order; when their number
  is a multiple of the capacity the last flush panics, and otherwise, above the capacity, one
  trip of the batch before is sent a second time.
\<close>

theorem stress_trips_sent:
  assumes "0 < cap"
  shows "map_sum id pt_sent (send_trips cap trips) =
           (if trips \<noteq> [] \<and> length trips mod cap = 0 then Inl (Panicked ''index out of range'')
            else Inr (trips @ (if cap < length trips then [trips ! (length trips - cap)] else [])))"
proof (cases "trips = []")
  case True
  then show ?thesis by (simp add: send_trips_def new_partial_trips_def flush_rest_def)
next
  case False
  then have pos: "0 < length trips" by simp
  obtain t where run: "efold append_trip trips (new_partial_trips cap) = Inr t" and bt: "batched cap trips t"
    using batched_all [OF assms] by blast
  show ?thesis
  proof (cases "length trips mod cap = 0")
    case True
    with bt last_batch [OF assms pos] have "length (pt_slots t) = cap" "pt_index t = cap"
      by (simp_all add: batched_def Let_def)
    with True False run assms show ?thesis by (simp add: send_trips_def flush_rest_def flush_trips_def)
  next
    case part: False
    with run flush_rest_partial [OF assms pos bt] show ?thesis by (simp add: send_trips_def)
  qed
qed

lemma stress_trips_sent_witness:
  "\<forall>a b c. map_sum id pt_sent (send_trips 2 [a, b, c]) = Inr [a, b, c, b] \<and>
   map_sum id pt_sent (send_trips 2 [a, b]) = Inl (Panicked ''index out of range'') \<and>
   map_sum id pt_sent (send_trips 3 [a, b]) = Inr [a, b]"
proof (intro allI)
  fix a b c
  show "map_sum id pt_sent (send_trips 2 [a, b, c]) = Inr [a, b, c, b] \<and>
    map_sum id pt_sent (send_trips 2 [a, b]) = Inl (Panicked ''index out of range'') \<and>
    map_sum id pt_sent (send_trips 3 [a, b]) = Inr [a, b]"
    using stress_trips_sent [of 2 "[a, b, c]"] stress_trips_sent [of 2 "[a, b]"] stress_trips_sent [of 3 "[a, b]"] by simp
qed

section \<open>Metrics\<close>

definition totals_of :: "stress_trip list \<Rightarrow> trip_totals \<Rightarrow> bool" where
  "totals_of ts s \<longleftrightarrow> (\<forall>t\<in>set ts. tt_min s \<le> tp_elapsed t \<and> tp_elapsed t \<le> tt_max s \<and>
       tt_start s \<le> tp_request_time t \<and> tp_response_time t \<le> tt_end s) \<and>
     tt_sum s = sum_list (map tp_elapsed ts) \<and>
     tt_errors s = int (length (filter (\<lambda>t. tp_err t \<noteq> None) ts)) \<and>
     tt_timeouts s = int (length (filter tp_timeout ts))"

lemma totals_of_snoc: "totals_of ts s \<Longrightarrow> totals_of (ts @ [t]) (add_trip_totals t s)"
  by (fastforce simp: totals_of_def add_trip_totals_def)

lemma totals_of_all: "totals_of ts (fold add_trip_totals ts (first_totals t))"
  by (induction ts rule: rev_induct) (simp add: totals_of_def first_totals_def, simp add: totals_of_snoc)

lemma sum_list_between:
  assumes "\<forall>x\<in>set xs. lo \<le> (x :: int) \<and> x \<le> hi"
  shows "lo * int (length xs) \<le> sum_list xs \<and> sum_list xs \<le> hi * int (length xs)"
  using assms by (induction xs) (auto simp: algebra_simps)


definition sample_trip :: "int \<Rightarrow> stress_trip" where
  "sample_trip n = \<lparr>tp_id = 0, tp_index = 0, tp_err = None, tp_timeout = False, tp_expect_binary = False,
     tp_request = \<lparr>wq_method = ''GET'', wq_url = ''http://host/'', wq_header = [], wq_body = []\<rparr>, tp_response = None,
     tp_expected = False, tp_request_time = 0, tp_response_time = n, tp_elapsed = n\<rparr>"


end
