(* ===== verification/Validator.thy ===== *)
theory Validator
  imports Instances Util Endly_Error
begin

text \<open>
  service/testing/validator: the assertion service. \<open>compare\<close> is \<open>criteria.Assert\<close> (viant/assertly) of
  a place, the expected and the actual value. A \<open>map[string]interface\<close> is a \<open>VMap\<close>; a \<open>data.Map\<close> (a
  \<open>VRef\<close>) is another type, which the type assertions of the code do not accept.
\<close>

record assert_request =
  vr_tag_id :: string
  vr_name :: string
  vr_description :: string
  vr_actual :: "value"
  vr_expect :: "value"
  vr_source :: "value"
  vr_ignore :: "value"
  vr_omit_empty :: bool
  vr_normalize :: bool

definition new_assert_request :: "string \<Rightarrow> string \<Rightarrow> string \<Rightarrow> value \<Rightarrow> value \<Rightarrow> value \<Rightarrow> assert_request" where
  "new_assert_request tag name description source expected actual =
     \<lparr>vr_tag_id = tag, vr_name = name, vr_description = description, vr_actual = actual, vr_expect = expected,
      vr_source = source, vr_ignore = VNil, vr_omit_empty = False, vr_normalize = False\<rparr>"

text \<open>\<open>activity\<close> is the current activity: its description and its tag.\<close>

definition assert_request_from_context ::
  "(value \<Rightarrow> go_error + value) \<Rightarrow> (string \<times> string) option \<Rightarrow> value \<Rightarrow> value \<Rightarrow> value \<Rightarrow> string \<Rightarrow> string \<Rightarrow> assert_request" where
  "assert_request_from_context norm_fn activity source expected actual name description =
     (let (description', tag) =
        (case activity of
           None \<Rightarrow> (description, [])
         | Some (d, t) \<Rightarrow> (if description = [] then d else description, t));
          expected' = (if is_slice_value expected then (case norm_fn expected of Inr v \<Rightarrow> v | Inl _ \<Rightarrow> expected) else expected)
      in new_assert_request tag name description' source expected' actual)"

definition init_assert :: "(value \<Rightarrow> go_error + value) \<Rightarrow> assert_request \<Rightarrow> assert_request" where
  "init_assert kv r =
     (if vr_expect r = VNil \<or> \<not> vr_normalize r then r
      else (case kv (vr_expect r) of Inr v \<Rightarrow> r\<lparr>vr_expect := v\<rparr> | Inl _ \<Rightarrow> r))"

definition ignore_keys :: "assert_request \<Rightarrow> value list" where
  "ignore_keys r = (case vr_ignore r of VSlice vs \<Rightarrow> vs | VMap m \<Rightarrow> map (VStr \<circ> fst) m | _ \<Rightarrow> [])"

definition omitted :: "value \<Rightarrow> bool" where
  "omitted v \<longleftrightarrow> v \<in> {VStr [], VStr ''0'', VStr ''0.0'', VInt 0, VStr ''false'', VBool False}"

definition plain_map :: "value \<Rightarrow> smap" where
  "plain_map v = (case v of VMap m \<Rightarrow> m | _ \<Rightarrow> [])"

definition ignored_names :: "toolbox \<Rightarrow> assert_request \<Rightarrow> string list" where
  "ignored_names tb r =
     map (as_string tb) (ignore_keys r @
       (if vr_omit_empty r then map (VStr \<circ> fst) (filter (\<lambda>kv. omitted (snd kv)) (plain_map (vr_expect r))) else []))"

definition delete_keys :: "string list \<Rightarrow> smap \<Rightarrow> smap" where
  "delete_keys ks m = fold mdel ks m"

text \<open>\<open>applyIgnore\<close>: with a key to ignore, an expected value that is no map becomes an empty one.\<close>

definition apply_ignore :: "toolbox \<Rightarrow> assert_request \<Rightarrow> assert_request" where
  "apply_ignore tb r =
     (let ks = ignored_names tb r
      in if ks = [] then r
         else r\<lparr>vr_actual := (if plain_map (vr_actual r) \<noteq> [] then VMap (delete_keys ks (plain_map (vr_actual r))) else vr_actual r),
                vr_expect := VMap (delete_keys ks (plain_map (vr_expect r)))\<rparr>)"

definition assert_values :: "toolbox \<Rightarrow> heap \<Rightarrow> nat \<Rightarrow> assert_request \<Rightarrow> value \<times> value" where
  "assert_values tb h st r =
     (let r1 = (if vr_ignore r \<noteq> VNil \<or> vr_omit_empty r then apply_ignore tb r else r);
          actual = (case vr_actual r1 of
             VStr s \<Rightarrow> (case get_value tb h st s of (v, found) \<Rightarrow> if found then v else VStr s)
           | v \<Rightarrow> v)
      in (vr_expect r1, actual))"

definition run_assert ::
  "toolbox \<Rightarrow> (string \<Rightarrow> value \<Rightarrow> value \<Rightarrow> go_error + 'v) \<Rightarrow> heap \<Rightarrow> nat \<Rightarrow> assert_request \<Rightarrow> go_error + 'v" where
  "run_assert tb compare h st r =
     (let (expect, actual) = assert_values tb h st r
      in compare (if vr_name r = [] then ''/'' else vr_name r) expect actual)"

section \<open>What is compared\<close>

lemma mget_delete_keys: "mget (delete_keys ks m) k = (if k \<in> set ks then None else mget m k)"
  unfolding delete_keys_def by (induction ks arbitrary: m) auto

text \<open>
  With two maps, exactly the ignored keys are left out of both sides and every other key is
  compared as it was; with OmitEmpty the expected keys that hold an empty, zero or false value
  are ignored too.
\<close>

theorem ignored_keys_are_not_compared:
  assumes "vr_expect r = VMap e" "vr_actual r = VMap a" "a \<noteq> []"
    and "vr_ignore r \<noteq> VNil \<or> vr_omit_empty r"
  shows "\<exists>e' a'. assert_values tb h st r = (VMap e', VMap a') \<and>
           (\<forall>k. mget e' k = (if k \<in> set (ignored_names tb r) then None else mget e k)) \<and>
           (\<forall>k. mget a' k = (if k \<in> set (ignored_names tb r) then None else mget a k))"
  using assms by (simp add: assert_values_def apply_ignore_def plain_map_def Let_def mget_delete_keys)

text \<open>
  An expected value that is no map is forgotten as soon as a key is ignored: every actual
  value that is no name of a state entry is compared with an empty map.
\<close>

theorem ignoring_forgets_expected_list:
  assumes "vr_expect r = VSlice vs" "ignore_keys r \<noteq> []" "vr_actual r = VSlice as"
  shows "run_assert tb compare h st r = compare (if vr_name r = [] then ''/'' else vr_name r) (VMap []) (VSlice as)"
proof -
  have "vr_ignore r \<noteq> VNil" using assms(2) by (auto simp: ignore_keys_def)
  moreover have "delete_keys ks [] = []" for ks
    unfolding delete_keys_def by (induction ks) (simp_all add: mdel_def)
  ultimately show ?thesis using assms
    by (simp add: run_assert_def assert_values_def apply_ignore_def plain_map_def ignored_names_def Let_def)
qed

definition sample_assert :: assert_request where
  "sample_assert = (new_assert_request [] [] [] VNil (VMap [(''id'', VInt 1), (''name'', VStr ''a'')]) (VMap [(''id'', VInt 2), (''name'', VStr ''a'')]))
     \<lparr>vr_ignore := VSlice [VStr ''id'']\<rparr>"

lemma ignored_keys_are_not_compared_witness:
  "\<exists>e a. assert_values tb0 h st sample_assert = (VMap e, VMap a) \<and> mget e ''id'' = None \<and> mget a ''id'' = None \<and>
     mget a ''name'' = Some (VStr ''a'')"
  using ignored_keys_are_not_compared [of sample_assert "[(''id'', VInt 1), (''name'', VStr ''a'')]" "[(''id'', VInt 2), (''name'', VStr ''a'')]" tb0 h st]
  by (auto simp: sample_assert_def new_assert_request_def ignored_names_def ignore_keys_def tb0_def mget_def)

lemma ignoring_forgets_expected_list_witness:
  "run_assert tb0 (\<lambda>p x y. Inr (x, y)) h st ((new_assert_request [] [] [] VNil (VSlice [VInt 1]) (VSlice []))\<lparr>vr_ignore := VSlice [VStr ''id'']\<rparr>)
     = Inr (VMap [], VSlice [])"
  by (subst ignoring_forgets_expected_list [of _ "[VInt 1]" "[]"]) (simp_all add: new_assert_request_def ignore_keys_def)

end
