(* ===== verification/Msg_Contract.thy ===== *)
theory Msg_Contract
  imports Util Endly_Error
begin

text \<open>
  service/testing/msg: the resources, messages and requests of the messaging service
  (resource.go, contract.go, helper.go). The pointer of a resource that may be nil is an option.
\<close>

section \<open>Resources\<close>

record msg_resource =
  mr_url :: string
  mr_brokers :: "string list"
  mr_credentials :: string
  mr_offset :: int
  mr_group_id :: string
  mr_partition :: int
  mr_replication :: int
  mr_partitions :: int
  mr_id :: string
  mr_name :: string
  mr_type :: string
  mr_vendor :: string
  mr_project :: string

record msg_config =
  mc_topic :: "msg_resource option"
  mc_labels :: "(string \<times> string) list"
  mc_attributes :: "(string \<times> string) list"
  mc_ack_deadline :: int
  mc_retention :: int
  mc_retain_acked :: bool

record msg_setup =
  ms_resource :: msg_resource
  ms_recreate :: bool
  ms_config :: "msg_config option"

definition empty_msg_resource :: msg_resource where
  "empty_msg_resource = \<lparr>mr_url = [], mr_brokers = [], mr_credentials = [], mr_offset = 0, mr_group_id = [], mr_partition = 0,
     mr_replication = 0, mr_partitions = 0, mr_id = [], mr_name = [], mr_type = [], mr_vendor = [], mr_project = []\<rparr>"

fun sub_path_of :: "string list \<Rightarrow> string \<Rightarrow> string" where
  "sub_path_of (a # b # rest) m = (if contains a m then b else sub_path_of (b # rest) m)"
| "sub_path_of xs m = []"

definition extract_sub_path :: "string \<Rightarrow> string \<Rightarrow> string" where
  "extract_sub_path path m = sub_path_of (split_on ''/'' path) m"

definition name_of_url :: "string \<Rightarrow> string" where
  "name_of_url url =
     (case last_index_of url ''/'' of
        Some i \<Rightarrow> drop (Suc i) url
      | None \<Rightarrow> (case last_index_of url '':'' of Some i \<Rightarrow> drop (Suc i) url | None \<Rightarrow> url))"

text \<open>\<open>url_parse\<close> is \<open>url.Parse\<close>, of which the host is used.\<close>

definition init_msg_resource :: "(string \<Rightarrow> go_error + string) \<Rightarrow> msg_resource \<Rightarrow> go_error + msg_resource" where
  "init_msg_resource url_parse r =
     (if mr_url r = [] then Inr r
      else
        (let r1 = r\<lparr>mr_project := extract_sub_path (mr_url r) ''project'',
                    mr_name := (if mr_name r = [] then name_of_url (mr_url r) else mr_name r)\<rparr>
         in if mr_vendor r1 = ''kafka'' \<and> mr_brokers r1 = [] then
              (case url_parse (mr_url r1) of
                 Inl e \<Rightarrow> Inl (PlainErr (''invalid kafka url: '' @ mr_url r1 @ '': '' @ error_text e))
               | Inr host \<Rightarrow> Inr (r1\<lparr>mr_brokers := [host]\<rparr>))
            else Inr r1))"

definition init_optional :: "(string \<Rightarrow> go_error + string) \<Rightarrow> msg_resource option \<Rightarrow> go_error + msg_resource option" where
  "init_optional url_parse r =
     (case r of
        None \<Rightarrow> Inl (PlainErr ''resource was empty'')
      | Some x \<Rightarrow> ebind (init_msg_resource url_parse x) (\<lambda>y. Inr (Some y)))"

text \<open>A failed initialisation of the topic is ignored; what it had set by then is kept.\<close>

definition init_ignoring :: "(string \<Rightarrow> go_error + string) \<Rightarrow> msg_resource \<Rightarrow> msg_resource" where
  "init_ignoring url_parse r =
     (case init_msg_resource url_parse r of
        Inr r' \<Rightarrow> r'
      | Inl _ \<Rightarrow> r\<lparr>mr_project := extract_sub_path (mr_url r) ''project'',
                    mr_name := (if mr_name r = [] then name_of_url (mr_url r) else mr_name r)\<rparr>)"

definition setup_topic :: "msg_setup \<Rightarrow> msg_resource option" where
  "setup_topic s = (case ms_config s of None \<Rightarrow> None | Some c \<Rightarrow> mc_topic c)"

definition map_setup_topic :: "(msg_resource \<Rightarrow> msg_resource) \<Rightarrow> msg_setup \<Rightarrow> msg_setup" where
  "map_setup_topic f s = s\<lparr>ms_config := map_option (\<lambda>c. c\<lparr>mc_topic := map_option f (mc_topic c)\<rparr>) (ms_config s)\<rparr>"

definition init_setup :: "(string \<Rightarrow> go_error + string) \<Rightarrow> msg_setup \<Rightarrow> go_error + msg_setup" where
  "init_setup url_parse s =
     (let typed = (\<lambda>t s. s\<lparr>ms_resource := (ms_resource s)\<lparr>mr_type := t\<rparr>\<rparr>);
          s1 = (if mr_type (ms_resource s) \<noteq> [] then s
                else if setup_topic s = None then typed ''topic'' s
                else map_setup_topic (\<lambda>t. t\<lparr>mr_type := ''topic''\<rparr>) (typed ''subscription'' s));
          s2 = map_setup_topic (init_ignoring url_parse) s1
      in ebind (init_msg_resource url_parse (ms_resource s2)) (\<lambda>r. Inr (s2\<lparr>ms_resource := r\<rparr>)))"

definition validate_setup :: "msg_setup \<Rightarrow> go_error option" where
  "validate_setup s =
     (let r = ms_resource s
      in if mr_type r = ''subscription'' \<and> mr_vendor r = ''gcp'' \<and> ms_config s = None
         then Some (PlainErr ''subscription config was empty'')
         else if mr_type r = ''subscription'' \<and> mr_vendor r = ''gcp'' \<and> setup_topic s = None
         then Some (PlainErr ''subscription config.Topic was empty'')
         else if mr_type r = ''kafka'' \<and> mr_brokers r = [] then Some (PlainErr ''brokers where empty'')
         else if mr_type r = ''queue'' \<and> mr_name r = [] then Some (PlainErr ''name was empty'')
         else None)"

definition expand_msg_resource :: "(string \<Rightarrow> string) \<Rightarrow> msg_resource \<Rightarrow> msg_resource" where
  "expand_msg_resource f r = empty_msg_resource\<lparr>mr_url := f (mr_url r), mr_type := f (mr_type r), mr_name := f (mr_name r),
     mr_vendor := mr_vendor r, mr_credentials := f (mr_credentials r), mr_brokers := mr_brokers r,
     mr_partitions := mr_partitions r, mr_partition := mr_partition r, mr_offset := mr_offset r,
     mr_replication := mr_replication r\<rparr>"

section \<open>Messages\<close>

record message =
  me_id :: string
  me_subject :: string
  me_attributes :: smap
  me_data :: "value"
  me_transformed :: "value"

definition empty_message :: message where
  "empty_message = \<lparr>me_id = [], me_subject = [], me_attributes = [], me_data = VNil, me_transformed = VNil\<rparr>"

definition expand_message :: "(string \<Rightarrow> string) \<Rightarrow> (value \<Rightarrow> value) \<Rightarrow> message \<Rightarrow> message" where
  "expand_message f g m = empty_message\<lparr>me_subject := me_subject m,
     me_attributes := fold (\<lambda>(k, v). mput (f k) (g v)) (me_attributes m) [],
     me_data := (if me_data m \<noteq> VNil then g (me_data m) else VNil)\<rparr>"

text \<open>
  What the code uses of the JSON functions of toolbox and encoding/json: whether a text is
  newline-delimited JSON, its records, the conversion of a record to a message, and the messages
  that decoding gives with whether it failed.
\<close>

record json_api =
  js_delimited :: "string \<Rightarrow> bool"
  js_records :: "string \<Rightarrow> go_error + value list"
  js_message :: "smap \<Rightarrow> bool \<times> message"
  js_messages :: "string \<Rightarrow> message list \<times> bool"

definition record_message :: "json_api \<Rightarrow> smap \<Rightarrow> message" where
  "record_message js m =
     (let (ok, x) = js_message js m
      in if \<not> ok \<or> me_data x = VNil \<and> me_attributes x = [] then x\<lparr>me_data := VMap m\<rparr> else x)"

definition plain_messages :: "json_api \<Rightarrow> string \<Rightarrow> message list" where
  "plain_messages js text =
     (let (ms, ok) = js_messages js text
      in if ok then ms else ms @ map (\<lambda>line. empty_message\<lparr>me_data := VStr line\<rparr>) (split_on [CHR 0x0A] text))"

definition load_messages :: "json_api \<Rightarrow> string \<Rightarrow> message list" where
  "load_messages js text =
     (if js_delimited js text
      then (case js_records js text of
              Inr vs \<Rightarrow> List.map_filter (\<lambda>v. case v of VMap m \<Rightarrow> Some (record_message js m) | _ \<Rightarrow> None) vs
            | Inl _ \<Rightarrow> plain_messages js text)
      else plain_messages js text)"

definition attribute_type :: "value \<Rightarrow> string" where
  "attribute_type v = (case v of VInt _ \<Rightarrow> ''Number'' | VFloat _ \<Rightarrow> ''Number'' | _ \<Rightarrow> ''String'')"

text \<open>The attributes of an SQS or SNS message: type and text.\<close>

definition put_attributes :: "toolbox \<Rightarrow> smap \<Rightarrow> (string \<times> string \<times> string) list" where
  "put_attributes tb attrs =
     fold (\<lambda>(k, v) t. if v = VNil then t else mput k (attribute_type v, as_string tb v) t) attrs []"

section \<open>Requests\<close>

record msg_create_request =
  cr_credentials :: string
  cr_resources :: "msg_setup list"

record msg_delete_request =
  mdr_credentials :: string
  mdr_resources :: "msg_resource list"

record 'src msg_push_request =
  pu_credentials :: string
  pu_dest :: "msg_resource option"
  pu_messages :: "message list"
  pu_source :: "'src option"
  pu_timeout :: int
  pu_udf :: string

record msg_pull_request =
  pl_credentials :: string
  pl_source :: "msg_resource option"
  pl_timeout :: int
  pl_count :: int
  pl_nack :: bool
  pl_udf :: string
  pl_expect :: "value"

definition with_default_credentials :: "string \<Rightarrow> msg_resource \<Rightarrow> msg_resource" where
  "with_default_credentials cred r = (if mr_credentials r = [] then r\<lparr>mr_credentials := cred\<rparr> else r)"

definition init_create :: "(string \<Rightarrow> go_error + string) \<Rightarrow> msg_create_request \<Rightarrow> go_error + msg_create_request" where
  "init_create url_parse r =
     ebind (emap (\<lambda>s. ebind (init_setup url_parse s) (\<lambda>s'.
               Inr (s'\<lparr>ms_resource := with_default_credentials (cr_credentials r) (ms_resource s')\<rparr>))) (cr_resources r))
       (\<lambda>ss. Inr (r\<lparr>cr_resources := ss\<rparr>))"

fun first_problem :: "('a \<Rightarrow> go_error option) \<Rightarrow> 'a list \<Rightarrow> go_error option" where
  "first_problem f [] = None"
| "first_problem f (x # xs) = (case f x of Some e \<Rightarrow> Some e | None \<Rightarrow> first_problem f xs)"

definition validate_create :: "msg_create_request \<Rightarrow> go_error option" where
  "validate_create r =
     (if cr_resources r = [] then Some (PlainErr ''resources was empty'')
      else first_problem validate_setup (cr_resources r))"

definition init_delete :: "(string \<Rightarrow> go_error + string) \<Rightarrow> msg_delete_request \<Rightarrow> msg_delete_request" where
  "init_delete url_parse r =
     r\<lparr>mdr_resources := map (with_default_credentials (mdr_credentials r) \<circ> init_ignoring url_parse) (mdr_resources r)\<rparr>"

definition init_push :: "(string \<Rightarrow> go_error + string) \<Rightarrow> 'src msg_push_request \<Rightarrow> go_error + 'src msg_push_request" where
  "init_push url_parse r =
     ebind (case pu_dest r of
              None \<Rightarrow> Inr None
            | Some d \<Rightarrow> ebind (init_msg_resource url_parse d) (\<lambda>d'. Inr (Some (with_default_credentials (pu_credentials r) d'))))
       (\<lambda>dest. Inr (r\<lparr>pu_dest := dest, pu_timeout := (if pu_timeout r = 0 then 10000 else pu_timeout r)\<rparr>))"

definition validate_push :: "'src msg_push_request \<Rightarrow> go_error option" where
  "validate_push r =
     (if pu_dest r = None then Some (PlainErr ''dest was empty'')
      else if pu_messages r = [] \<and> pu_source r = None then Some (PlainErr ''messages were empty'')
      else None)"

text \<open>The source of a pull request is used before it is validated.\<close>

definition init_pull :: "(string \<Rightarrow> go_error + string) \<Rightarrow> msg_pull_request \<Rightarrow> go_error + msg_pull_request" where
  "init_pull url_parse r =
     (case pl_source r of
        None \<Rightarrow> Inl (Panicked ''nil pointer dereference'')
      | Some s \<Rightarrow>
          ebind (init_msg_resource url_parse (with_default_credentials (pl_credentials r) s)) (\<lambda>s'.
            Inr (r\<lparr>pl_source := Some s', pl_timeout := (if pl_timeout r = 0 then 10000 else pl_timeout r)\<rparr>)))"

definition validate_pull :: "msg_pull_request \<Rightarrow> go_error option" where
  "validate_pull r = (if pl_source r = None then Some (PlainErr ''source was empty'') else None)"

end
