(* ===== verification/Msg_Clients.thy ===== *)
theory Msg_Clients
  imports Msg_Contract Effects
begin

text \<open>
  service/testing/msg/aws.go, kafka.go and gcp.go: the clients of the three vendors. What they call
  (the SDKs of the vendors) is a record of operations on the state \<open>'c\<close> of the vendor; waiting
  times are not modelled. The loops that follow what the vendor answers have fuel.
\<close>

type_synonym ('c, 'a) call = "('c, go_error + 'a) effect"

record 'c msg_client =
  cl_push :: "msg_resource \<Rightarrow> message \<Rightarrow> ('c, value) call"
  cl_pull :: "msg_resource \<Rightarrow> int \<Rightarrow> bool \<Rightarrow> ('c, message list) call"
  cl_setup :: "msg_setup \<Rightarrow> ('c, msg_resource) call"
  cl_delete :: "msg_resource \<Rightarrow> ('c, unit) call"

definition xfail :: "string \<Rightarrow> ('c, 'a) call" where
  "xfail s = xret (Inl (PlainErr s))"

definition xdone :: "'a \<Rightarrow> ('c, 'a) call" where
  "xdone x = xret (Inr x)"

text \<open>An error whose message is replaced or prefixed.\<close>

definition on_error :: "(go_error \<Rightarrow> go_error) \<Rightarrow> ('c, 'a) call \<Rightarrow> ('c, 'a) call" where
  "on_error f m = xbind m (\<lambda>r. xret (case r of Inl e \<Rightarrow> Inl (f e) | Inr x \<Rightarrow> Inr x))"

definition wrap_error :: "string \<Rightarrow> go_error \<Rightarrow> go_error" where
  "wrap_error text e = PlainErr (text @ '': '' @ error_text e)"

section \<open>Amazon\<close>

text \<open>An attribute value may be nil, and so may the text in it.\<close>

record sqs_message =
  sq_id :: string
  sq_handle :: string
  sq_body :: "string option"
  sq_attributes :: "(string \<times> string option option) list"

record 'c aws_api =
  aa_tb :: toolbox
  aa_queue_url :: "string \<Rightarrow> ('c, string) call"
  aa_send :: "string \<Rightarrow> (string \<times> string \<times> string) list \<Rightarrow> string \<Rightarrow> ('c, string) call"
  aa_publish :: "string \<Rightarrow> (string \<times> string \<times> string) list \<Rightarrow> string \<Rightarrow> string \<Rightarrow> ('c, string) call"
  aa_topics :: "string option \<Rightarrow> ('c, string list \<times> string option) call"
  aa_receive :: "string \<Rightarrow> int \<Rightarrow> int \<Rightarrow> bool \<Rightarrow> ('c, sqs_message list) call"
  aa_delete_batch :: "string \<Rightarrow> (string \<times> string) list \<Rightarrow> ('c, unit) call"
  aa_queue_size :: "string \<Rightarrow> ('c, string option) call"
  aa_create_queue :: "string \<Rightarrow> (string \<times> string) list \<Rightarrow> ('c, string) call"
  aa_delete_queue :: "string \<Rightarrow> ('c, unit) call"
  aa_create_topic :: "string \<Rightarrow> (string \<times> string) list \<Rightarrow> ('c, string) call"
  aa_delete_topic :: "string \<Rightarrow> ('c, unit) call"
  aa_subscribe :: "string \<Rightarrow> string \<Rightarrow> ('c, string) call"

definition get_queue_url :: "'c aws_api \<Rightarrow> string \<Rightarrow> ('c, string) call" where
  "get_queue_url a name = on_error (\<lambda>_. PlainErr (''failed to lookup queue URL '' @ name)) (aa_queue_url a name)"

fun find_topic :: "string \<Rightarrow> string list \<Rightarrow> string option" where
  "find_topic name [] = None"
| "find_topic name (arn # arns) = (if last (split_on '':'' arn) = name then Some arn else find_topic name arns)"

fun topic_arn_from :: "'c aws_api \<Rightarrow> nat \<Rightarrow> string option \<Rightarrow> string \<Rightarrow> ('c, string) call" where
  "topic_arn_from a 0 token name = xout"
| "topic_arn_from a (Suc n) token name =
     xtry (aa_topics a token) (\<lambda>(arns, next_token).
       case find_topic name arns of
         Some arn \<Rightarrow> xdone arn
       | None \<Rightarrow>
           (case next_token of
              None \<Rightarrow> xfail (''failed to lookup topic URL '' @ name)
            | Some t \<Rightarrow> topic_arn_from a n (Some t) name))"

definition get_topic_arn :: "'c aws_api \<Rightarrow> nat \<Rightarrow> string \<Rightarrow> ('c, string) call" where
  "get_topic_arn a n name = topic_arn_from a n None name"

definition message_attributes :: "'c aws_api \<Rightarrow> message \<Rightarrow> (string \<times> string \<times> string) list" where
  "message_attributes a m = put_attributes (aa_tb a) (me_attributes m)"

definition send_message :: "'c aws_api \<Rightarrow> msg_resource \<Rightarrow> message \<Rightarrow> ('c, value) call" where
  "send_message a dest m =
     xtry (get_queue_url a (mr_name dest)) (\<lambda>url.
     xtry (aa_send a url (message_attributes a m) (as_string (aa_tb a) (me_data m))) (\<lambda>i. xdone (VStr i)))"

definition publish_message :: "'c aws_api \<Rightarrow> nat \<Rightarrow> msg_resource \<Rightarrow> message \<Rightarrow> ('c, value) call" where
  "publish_message a n dest m =
     xtry (get_topic_arn a n (mr_name dest)) (\<lambda>arn.
     xtry (aa_publish a arn (message_attributes a m) (as_string (aa_tb a) (me_data m)) (me_subject m)) (\<lambda>i. xdone (VStr i)))"

definition aws_push :: "'c aws_api \<Rightarrow> nat \<Rightarrow> msg_resource \<Rightarrow> message \<Rightarrow> ('c, value) call" where
  "aws_push a n dest m =
     (if mr_type dest = ''topic'' then publish_message a n dest m
      else if mr_type dest = ''queue'' then send_message a dest m
      else xfail (''unsupported resource type: '' @ mr_type dest))"

fun attribute_values :: "(string \<times> string option option) list \<Rightarrow> smap \<Rightarrow> go_error + smap" where
  "attribute_values [] m = Inr m"
| "attribute_values ((k, v) # kvs) m =
     (case v of
        None \<Rightarrow> attribute_values kvs (mput k (VStr []) m)
      | Some None \<Rightarrow> Inl (Panicked ''nil pointer dereference'')
      | Some (Some s) \<Rightarrow> attribute_values kvs (mput k (VStr s) m))"

definition build_message :: "sqs_message \<Rightarrow> go_error + message" where
  "build_message q =
     ebind (attribute_values (sq_attributes q) []) (\<lambda>m.
       Inr (empty_message\<lparr>me_id := sq_id q, me_attributes := m,
              me_data := (case sq_body q of Some s \<Rightarrow> VStr s | None \<Rightarrow> VNil)\<rparr>))"

text \<open>
  The messages of one answer: \<open>handler\<close> gives the new state of the caller and whether to go on. The
  entries are the messages to delete.
\<close>

fun handle_batch ::
  "bool \<Rightarrow> (sqs_message \<Rightarrow> 'r \<Rightarrow> go_error + ('r \<times> bool)) \<Rightarrow> sqs_message list \<Rightarrow> 'r \<Rightarrow> go_error + ('r \<times> (string \<times> string) list \<times> bool)" where
  "handle_batch del handler [] r = Inr (r, [], False)"
| "handle_batch del handler (q # qs) r =
     (let entry = (if del then [(sq_id q, sq_handle q)] else [])
      in case handler q r of
           Inl e \<Rightarrow> Inl e
         | Inr (r', go_on) \<Rightarrow>
             (if \<not> go_on then Inr (r', entry, True)
              else ebind (handle_batch del handler qs r') (\<lambda>(r'', entries, stop). Inr (r'', entry @ entries, stop))))"

fun process_loop ::
  "'c aws_api \<Rightarrow> nat \<Rightarrow> string \<Rightarrow> bool \<Rightarrow> bool \<Rightarrow> int \<Rightarrow> int \<Rightarrow> (sqs_message \<Rightarrow> 'r \<Rightarrow> go_error + ('r \<times> bool)) \<Rightarrow> int \<Rightarrow> int \<Rightarrow> bool \<Rightarrow> 'r
     \<Rightarrow> ('c, 'r) call" where
  "process_loop a 0 url del attrs count wait handler i pull stop r = xout"
| "process_loop a (Suc n) url del attrs count wait handler i pull stop r =
     (if \<not> (i < count \<and> \<not> stop) then xdone r
      else
        (let pull' = (if count < pull + i then count mod 10 else pull)
         in xtry (on_error (wrap_error (''failed to clean queue messages: '' @ url)) (aa_receive a url pull' wait attrs)) (\<lambda>qs.
            case handle_batch del handler qs r of
              Inl e \<Rightarrow> xret (Inl e)
            | Inr (r', entries, stop') \<Rightarrow>
                xtry (if entries = [] then xdone ()
                      else on_error (wrap_error (''failed to clean queue messages: '' @ url)) (aa_delete_batch a url entries)) (\<lambda>_.
                  process_loop a n url del attrs count wait handler (i + int (length qs)) pull' stop' r'))))"

text \<open>
  With a maximum of zero the size of the queue is read into a variable of its own, and the loop is
  not entered.
\<close>

definition process_messages ::
  "'c aws_api \<Rightarrow> nat \<Rightarrow> string \<Rightarrow> bool \<Rightarrow> bool \<Rightarrow> int \<Rightarrow> int \<Rightarrow> (sqs_message \<Rightarrow> 'r \<Rightarrow> go_error + ('r \<times> bool)) \<Rightarrow> 'r \<Rightarrow> ('c, 'r) call" where
  "process_messages a n url del attrs max_count wait handler r =
     (if max_count = 0 then
        xtry (on_error (wrap_error (''failed to clean queue messages: '' @ url)) (aa_queue_size a url)) (\<lambda>size.
          case size of
            None \<Rightarrow> xdone r
          | Some s \<Rightarrow> (if as_int (aa_tb a) (VStr s) = 0 then xdone r
                       else process_loop a n url del attrs max_count wait handler 0 10 False r))
      else process_loop a n url del attrs max_count wait handler 0 10 False r)"

definition collect_message :: "int \<Rightarrow> sqs_message \<Rightarrow> message list \<Rightarrow> go_error + (message list \<times> bool)" where
  "collect_message count q ms =
     ebind (build_message q) (\<lambda>m. Inr (ms @ [m], int (length (ms @ [m])) < count))"

text \<open>\<open>seconds\<close> is the time out of the client.\<close>

definition aws_pull :: "'c aws_api \<Rightarrow> nat \<Rightarrow> int \<Rightarrow> msg_resource \<Rightarrow> int \<Rightarrow> bool \<Rightarrow> ('c, message list) call" where
  "aws_pull a n seconds source count nack =
     xtry (get_queue_url a (mr_name source)) (\<lambda>url.
       process_messages a n url (\<not> nack) True count (if 20 < seconds then 20 else seconds) (collect_message count) [])"

definition aws_delete_queue :: "'c aws_api \<Rightarrow> msg_resource \<Rightarrow> ('c, unit) call" where
  "aws_delete_queue a r = xtry (get_queue_url a (mr_name r)) (aa_delete_queue a)"

definition aws_delete_topic :: "'c aws_api \<Rightarrow> nat \<Rightarrow> msg_resource \<Rightarrow> ('c, unit) call" where
  "aws_delete_topic a n r =
     xtry (get_topic_arn a n (mr_name r)) (\<lambda>arn. xbind (aa_delete_topic a arn) (\<lambda>_. xdone ()))"

definition setup_attributes :: "msg_setup \<Rightarrow> (string \<times> string) list" where
  "setup_attributes s = (case ms_config s of None \<Rightarrow> [] | Some c \<Rightarrow> mc_attributes c)"

definition aws_create_topic :: "'c aws_api \<Rightarrow> nat \<Rightarrow> msg_setup \<Rightarrow> ('c, msg_resource) call" where
  "aws_create_topic a n s =
     (let name = mr_name (ms_resource s)
      in xtry (if \<not> ms_recreate s then xdone ()
               else xbind (get_topic_arn a n name) (\<lambda>found.
                 case found of
                   Inr (c # cs) \<Rightarrow>
                     on_error (\<lambda>e. PlainErr (''failed to delete topic: '' @ name @ '', '' @ error_text e))
                       (aws_delete_topic a n (ms_resource s))
                 | _ \<Rightarrow> xdone ()))
           (\<lambda>_. xtry (aa_create_topic a name (setup_attributes s)) (\<lambda>arn.
              xdone (empty_msg_resource\<lparr>mr_url := arn, mr_name := name\<rparr>))))"

text \<open>The queue that is there: deleted to be made again, or cleaned.\<close>

definition prepare_queue :: "'c aws_api \<Rightarrow> nat \<Rightarrow> msg_setup \<Rightarrow> ('c, unit) call" where
  "prepare_queue a n s =
     xbind (get_queue_url a (mr_name (ms_resource s))) (\<lambda>found.
       let url = (case found of Inr u \<Rightarrow> u | Inl _ \<Rightarrow> [])
       in if url = [] then xdone ()
          else if ms_recreate s then
            on_error (\<lambda>e. PlainErr (''failed to delete queue: '' @ mr_name (ms_resource s) @ '', '' @ error_text e))
              (aws_delete_queue a (ms_resource s))
          else process_messages a n url True False 0 20 (\<lambda>q r. Inr (r, True)) ())"

definition aws_create_queue :: "'c aws_api \<Rightarrow> nat \<Rightarrow> msg_setup \<Rightarrow> ('c, msg_resource) call" where
  "aws_create_queue a n s =
     xtry (prepare_queue a n s) (\<lambda>_.
     xtry (aa_create_queue a (mr_name (ms_resource s)) (setup_attributes s)) (\<lambda>url.
       let result = empty_msg_resource\<lparr>mr_url := url, mr_name := mr_name (ms_resource s)\<rparr>
       in case setup_topic s of
            None \<Rightarrow> xdone result
          | Some t \<Rightarrow>
              xtry (get_topic_arn a n (mr_url t)) (\<lambda>arn.
              xtry (aa_subscribe a arn url) (\<lambda>_. xdone result))))"

definition aws_setup :: "'c aws_api \<Rightarrow> nat \<Rightarrow> msg_setup \<Rightarrow> ('c, msg_resource) call" where
  "aws_setup a n s =
     (if mr_type (ms_resource s) = ''topic'' then aws_create_topic a n s
      else if mr_type (ms_resource s) = ''queue'' then aws_create_queue a n s
      else xfail (''unsupported resource type: '' @ mr_type (ms_resource s)))"

definition aws_delete :: "'c aws_api \<Rightarrow> nat \<Rightarrow> msg_resource \<Rightarrow> ('c, unit) call" where
  "aws_delete a n r =
     (if mr_type r = ''queue'' then aws_delete_queue a r
      else if mr_type r = ''topic'' then aws_delete_topic a n r
      else xfail (''unsupported resource type: '' @ mr_type r))"

definition aws_client :: "'c aws_api \<Rightarrow> nat \<Rightarrow> int \<Rightarrow> 'c msg_client" where
  "aws_client a n seconds = \<lparr>cl_push = aws_push a n, cl_pull = aws_pull a n seconds, cl_setup = aws_setup a n,
     cl_delete = aws_delete a n\<rparr>"

section \<open>Kafka\<close>

record 'c kafka_api =
  ka_tb :: toolbox
  ka_write :: "string list \<Rightarrow> string \<Rightarrow> int \<Rightarrow> string \<Rightarrow> string \<Rightarrow> ('c, unit) call"
  ka_set_offset :: "msg_resource \<Rightarrow> int \<Rightarrow> ('c, unit) call"
  ka_read :: "msg_resource \<Rightarrow> ('c, string \<times> string) call"
  ka_commit :: "msg_resource \<Rightarrow> string \<times> string \<Rightarrow> ('c, unit) call"
  ka_dial :: "string \<Rightarrow> string \<Rightarrow> int \<Rightarrow> ('c, unit) call"
  ka_create_topic :: "string \<Rightarrow> int \<Rightarrow> int \<Rightarrow> ('c, unit) call"
  ka_delete_topic :: "string \<Rightarrow> ('c, unit) call"

definition kafka_key :: "toolbox \<Rightarrow> smap \<Rightarrow> string" where
  "kafka_key tb attrs =
     fold (\<lambda>(k, v) key. if to_lower k = ''key'' \<or> to_lower k = ''id'' then as_string tb v else key) attrs []"

definition kafka_push :: "'c kafka_api \<Rightarrow> msg_resource \<Rightarrow> message \<Rightarrow> ('c, value) call" where
  "kafka_push k dest m =
     (let key = kafka_key (ka_tb k) (me_attributes m)
      in xtry (ka_write k (mr_brokers dest) (mr_name dest) (mr_partition dest) key (as_string (ka_tb k) (me_data m)))
           (\<lambda>_. xdone (VStr key)))"

definition kafka_message :: "string \<times> string \<Rightarrow> message" where
  "kafka_message kv = empty_message\<lparr>me_data := VStr (snd kv),
     me_attributes := (if fst kv \<noteq> [] then [(''key'', VStr (fst kv))] else [])\<rparr>"

fun kafka_read :: "'c kafka_api \<Rightarrow> msg_resource \<Rightarrow> bool \<Rightarrow> nat \<Rightarrow> ('c, message list) call" where
  "kafka_read k source nack 0 = xdone []"
| "kafka_read k source nack (Suc n) =
     xtry (ka_read k source) (\<lambda>kv.
     xtry (if nack then xdone ()
           else on_error (wrap_error ''failed to commit message'') (ka_commit k source kv)) (\<lambda>_.
     xtry (kafka_read k source nack n) (\<lambda>ms. xdone (kafka_message kv # ms))))"

definition kafka_pull :: "'c kafka_api \<Rightarrow> msg_resource \<Rightarrow> int \<Rightarrow> bool \<Rightarrow> ('c, message list) call" where
  "kafka_pull k source count nack =
     xtry (if 0 < mr_offset source
           then on_error (wrap_error (''failed to set offset: '' @ show_int (mr_offset source))) (ka_set_offset k source (mr_offset source))
           else xdone ()) (\<lambda>_. kafka_read k source nack (nat count))"

definition kafka_connect :: "'c kafka_api \<Rightarrow> msg_resource \<Rightarrow> ('c, unit) call" where
  "kafka_connect k r =
     (case mr_brokers r of
        [] \<Rightarrow> xret (Inl (Panicked ''index out of range''))
      | b # _ \<Rightarrow> on_error (wrap_error (''failed to connect to '' @ b)) (ka_dial k b (mr_name r) (mr_partition r)))"

definition kafka_setup :: "'c kafka_api \<Rightarrow> msg_setup \<Rightarrow> ('c, msg_resource) call" where
  "kafka_setup k s =
     (let r = ms_resource s
      in xtry (kafka_connect k r) (\<lambda>_.
         xbind (if ms_recreate s then ka_delete_topic k (mr_name r) else xdone ()) (\<lambda>_.
         xtry (ka_create_topic k (mr_name r) (mr_replication r) (mr_partitions r)) (\<lambda>_. xdone r))))"

definition kafka_delete :: "'c kafka_api \<Rightarrow> msg_resource \<Rightarrow> ('c, unit) call" where
  "kafka_delete k r = xtry (kafka_connect k r) (\<lambda>_. ka_delete_topic k (mr_name r))"

definition kafka_client :: "'c kafka_api \<Rightarrow> 'c msg_client" where
  "kafka_client k = \<lparr>cl_push = kafka_push k, cl_pull = kafka_pull k, cl_setup = kafka_setup k, cl_delete = kafka_delete k\<rparr>"

section \<open>Google\<close>

text \<open>A topic or subscription is known by its name and, if one is given, its project.\<close>

type_synonym gcp_ref = "string \<times> string option"

record gcp_message =
  gm_id :: string
  gm_data :: string
  gm_attributes :: "(string \<times> string) list"

record 'c gcp_api =
  ga_tb :: toolbox
  ga_json :: "value \<Rightarrow> go_error + string"
  ga_parse :: "string \<Rightarrow> smap"
  ga_topic_exists :: "gcp_ref \<Rightarrow> ('c, bool) call"
  ga_topic_delete :: "gcp_ref \<Rightarrow> ('c, unit) call"
  ga_topic_create :: "string \<Rightarrow> ('c, unit) call"
  ga_publish :: "gcp_ref \<Rightarrow> gcp_message \<Rightarrow> ('c, string) call"
  ga_sub_exists :: "gcp_ref \<Rightarrow> ('c, bool) call"
  ga_sub_delete :: "gcp_ref \<Rightarrow> ('c, unit) call"
  ga_sub_create :: "string \<Rightarrow> gcp_ref \<Rightarrow> msg_config \<Rightarrow> ('c, unit) call"
  ga_receive :: "gcp_ref \<Rightarrow> int \<Rightarrow> ('c, gcp_message list) call"
  ga_ack :: "string \<Rightarrow> bool \<Rightarrow> ('c, unit) effect"

definition gcp_ref_of :: "string \<Rightarrow> msg_resource \<Rightarrow> go_error + gcp_ref" where
  "gcp_ref_of expected r =
     (if mr_name r = [] \<and> mr_url r = [] then Inl (PlainErr (''subscription name and URL was empty, expected '' @ expected))
      else Inr (mr_name r, if mr_project r = [] then None else Some (mr_project r)))"

definition get_subscription :: "msg_resource \<Rightarrow> go_error + gcp_ref" where
  "get_subscription r = gcp_ref_of ''/projects/[PROJECT SessionID]/subscriptions/[SUBSCRIPTION] URL or subscription name'' r"

definition get_topic :: "msg_resource \<Rightarrow> go_error + gcp_ref" where
  "get_topic r = gcp_ref_of ''/projects/[PROJECT SessionID]/topics/[SUBSCRIPTION] URL or topic name'' r"

definition gcp_create_topic :: "'c gcp_api \<Rightarrow> msg_setup \<Rightarrow> ('c, gcp_ref) call" where
  "gcp_create_topic g s =
     xtry (xret (get_topic (ms_resource s))) (\<lambda>topic.
     xtry (ga_topic_exists g topic) (\<lambda>found.
     xtry (if found \<and> ms_recreate s then ga_topic_delete g topic else xdone ()) (\<lambda>_.
       if found \<and> \<not> ms_recreate s then xdone topic
       else xtry (ga_topic_create g (fst topic)) (\<lambda>_. xdone (fst topic, None)))))"

definition gcp_create_subscription :: "'c gcp_api \<Rightarrow> msg_setup \<Rightarrow> ('c, gcp_ref) call" where
  "gcp_create_subscription g s =
     xtry (xret (get_subscription (ms_resource s))) (\<lambda>sub.
     xtry (ga_sub_exists g sub) (\<lambda>found.
     xtry (if found \<and> ms_recreate s then ga_sub_delete g sub else xdone ()) (\<lambda>_.
       if found \<and> \<not> ms_recreate s then xdone sub
       else case ms_config s of
         None \<Rightarrow> xret (Inl (Panicked ''nil pointer dereference''))
       | Some c \<Rightarrow>
           (case mc_topic c of
              None \<Rightarrow> xfail ''topic was empty''
            | Some t \<Rightarrow>
                xtry (xret (get_topic t)) (\<lambda>topic.
                xtry (on_error (wrap_error (''failed to create subscription: '' @ fst sub)) (ga_sub_create g (fst sub) topic c))
                  (\<lambda>_. xdone (fst sub, None)))))))"

definition gcp_setup :: "'c gcp_api \<Rightarrow> msg_setup \<Rightarrow> ('c, msg_resource) call" where
  "gcp_setup g s =
     (let r = ms_resource s
      in if mr_type r = ''topic'' then
           xtry (on_error (wrap_error (''failed to setup topic: '' @ mr_url r)) (gcp_create_topic g s)) (\<lambda>t. xdone (r\<lparr>mr_id := fst t\<rparr>))
         else if mr_type r = ''subscription'' then
           xtry (on_error (wrap_error (''failed to setup subscription: '' @ mr_url r)) (gcp_create_subscription g s))
             (\<lambda>t. xdone (r\<lparr>mr_id := fst t\<rparr>))
         else xfail (''unsupported resource type: '' @ mr_type r @ '', '' @ mr_url r))"

definition gcp_delete :: "'c gcp_api \<Rightarrow> msg_resource \<Rightarrow> ('c, unit) call" where
  "gcp_delete g r =
     (if mr_type r = ''topic'' then xtry (xret (get_topic r)) (ga_topic_delete g)
      else if mr_type r = ''subscription'' then xtry (xret (get_subscription r)) (ga_sub_delete g)
      else xfail (''unsupported resource type: '' @ mr_type r @ '', '' @ mr_url r))"

text \<open>Text and bytes are sent as they are, everything else as indented JSON.\<close>

definition gcp_body :: "'c gcp_api \<Rightarrow> value \<Rightarrow> go_error + string" where
  "gcp_body g v = (case v of VNil \<Rightarrow> Inr [] | VStr s \<Rightarrow> Inr s | _ \<Rightarrow> ga_json g v)"

definition gcp_push :: "'c gcp_api \<Rightarrow> msg_resource \<Rightarrow> message \<Rightarrow> ('c, value) call" where
  "gcp_push g dest m =
     xtry (xret (get_topic dest)) (\<lambda>topic.
     xtry (ga_topic_exists g topic) (\<lambda>found.
       if \<not> found then xfail (''topic '' @ mr_name dest @ '' does not exist'')
       else xtry (xret (gcp_body g (me_data m))) (\<lambda>body.
         xtry (ga_publish g topic \<lparr>gm_id = [], gm_data = body,
             gm_attributes = map (\<lambda>(k, v). (k, as_string (ga_tb g) v)) (me_attributes m)\<rparr>) (\<lambda>i. xdone (VStr i)))))"

definition gcp_message_of :: "'c gcp_api \<Rightarrow> gcp_message \<Rightarrow> message" where
  "gcp_message_of g m = empty_message\<lparr>me_id := gm_id m, me_data := VStr (gm_data m),
     me_transformed := (if gm_data m \<noteq> [] \<and> ga_parse g (gm_data m) \<noteq> [] then VMap (ga_parse g (gm_data m)) else VNil),
     me_attributes := map (\<lambda>(k, v). (k, VStr v)) (gm_attributes m)\<rparr>"

fun gcp_acknowledge :: "'c gcp_api \<Rightarrow> bool \<Rightarrow> gcp_message list \<Rightarrow> ('c, unit) effect" where
  "gcp_acknowledge g nack [] = xret ()"
| "gcp_acknowledge g nack (m # ms) = xseq (ga_ack g (gm_id m) (\<not> nack)) (gcp_acknowledge g nack ms)"

text \<open>\<open>ga_receive\<close> gives the messages that \<open>Receive\<close> hands to its callback until it is cancelled.\<close>

definition gcp_pull :: "'c gcp_api \<Rightarrow> msg_resource \<Rightarrow> int \<Rightarrow> bool \<Rightarrow> ('c, message list) call" where
  "gcp_pull g source limit nack =
     xtry (xret (get_subscription source)) (\<lambda>sub.
     xtry (ga_receive g sub limit) (\<lambda>ms.
       xseq (gcp_acknowledge g nack ms) (xdone (map (gcp_message_of g) ms))))"

definition gcp_client :: "'c gcp_api \<Rightarrow> 'c msg_client" where
  "gcp_client g = \<lparr>cl_push = gcp_push g, cl_pull = gcp_pull g, cl_setup = gcp_setup g, cl_delete = gcp_delete g\<rparr>"

end
