(* ===== verification/Msg_Service.thy ===== *)
theory Msg_Service
  imports Msg_Clients Util_Text
begin

text \<open>
  service/testing/msg/service.go and client.go: pushing and pulling messages, and the resources. The
  state is the store of maps with that of the vendors; \<open>st\<close> is the address of the state of the
  session.
\<close>

record 'c msg_world =
  mw_heap :: heap
  mw_cloud :: 'c

type_synonym ('c, 'a) ms = "('c msg_world, 'a) effect"

definition on_cloud :: "('c, 'a) effect \<Rightarrow> ('c, 'a) ms" where
  "on_cloud m w = (case m (mw_cloud w) of Inl s \<Rightarrow> Inl s | Inr (x, c) \<Rightarrow> Inr (x, w\<lparr>mw_cloud := c\<rparr>))"

text \<open>The generic credentials of viant/scy, as far as they are used.\<close>

record msg_credentials =
  gc_key :: string
  gc_secret :: string
  gc_project :: string

record ('src, 'c, 'v) msg_env =
  me_tb :: toolbox
  me_credentials :: "string \<Rightarrow> go_error + msg_credentials"
  me_gcp :: "msg_credentials \<Rightarrow> string \<Rightarrow> int \<Rightarrow> go_error + 'c msg_client"
  me_aws :: "msg_credentials \<Rightarrow> int \<Rightarrow> go_error + 'c msg_client"
  me_kafka :: "int \<Rightarrow> 'c msg_client"
  me_download :: "'src \<Rightarrow> ('c, string) call"
  me_json :: json_api
  me_udf :: "heap \<Rightarrow> nat \<Rightarrow> string \<Rightarrow> (value \<Rightarrow> go_error + value) option"
  me_assert :: "value \<Rightarrow> message list \<Rightarrow> go_error + 'v"

definition vendor_of_credentials :: "msg_credentials \<Rightarrow> string" where
  "vendor_of_credentials c =
     (if gc_key c \<noteq> [] \<and> gc_secret c \<noteq> [] then ''aws'' else if gc_project c \<noteq> [] then ''gcp'' else [])"

definition no_credentials :: msg_credentials where
  "no_credentials = \<lparr>gc_key = [], gc_secret = [], gc_project = []\<rparr>"

text \<open>The vendor and type that the client sets in the resource it is made for.\<close>

definition with_vendor :: "msg_credentials \<Rightarrow> msg_resource \<Rightarrow> msg_resource" where
  "with_vendor cred r =
     (let r1 = (if mr_brokers r \<noteq> [] then r\<lparr>mr_vendor := ''kafka'', mr_type := ''topic''\<rparr> else r)
      in if mr_vendor r1 = [] then r1\<lparr>mr_vendor := vendor_of_credentials cred\<rparr> else r1)"

definition text_in :: "('src, 'c, 'v) msg_env \<Rightarrow> nat \<Rightarrow> 'c msg_world \<Rightarrow> string \<Rightarrow> string" where
  "text_in e st w s = expand_text (me_tb e) (mw_heap w) st s"

definition client_for :: "('src, 'c, 'v) msg_env \<Rightarrow> int \<Rightarrow> msg_credentials \<Rightarrow> msg_resource \<Rightarrow> go_error + 'c msg_client" where
  "client_for e timeout cred r =
     (if mr_vendor r = ''gcp'' then me_gcp e cred (mr_url r) timeout
      else if mr_vendor r = ''aws'' then me_aws e cred timeout
      else if mr_vendor r = ''kafka'' then Inr (me_kafka e timeout)
      else Inl (PlainErr (''unsupported vendor: '' @ [char_of (39::nat)] @ mr_vendor r @ [char_of (39::nat)])))"

definition new_client ::
  "('src, 'c, 'v) msg_env \<Rightarrow> nat \<Rightarrow> int \<Rightarrow> msg_resource \<Rightarrow> ('c, go_error + ('c msg_client \<times> msg_resource)) ms" where
  "new_client e st timeout dest =
     xtry (xret (if mr_credentials dest = [] then Inr no_credentials else me_credentials e (mr_credentials dest))) (\<lambda>cred.
       let r = with_vendor cred dest
       in xseq (if gc_project cred = [] then xret ()
                else xmod (\<lambda>w. w\<lparr>mw_heap := set_value (me_tb e) st ''msg.projectID'' (VStr (gc_project cred)) (mw_heap w)\<rparr>))
         (xbind (xget (\<lambda>w. expand_msg_resource (text_in e st w) r)) (\<lambda>expanded.
            xret (case client_for e timeout cred expanded of Inl err \<Rightarrow> Inl err | Inr c \<Rightarrow> Inr (c, r)))))"

definition run_udf ::
  "('src, 'c, 'v) msg_env \<Rightarrow> nat \<Rightarrow> string \<Rightarrow> string \<Rightarrow> value \<Rightarrow> ('c, go_error + value) ms" where
  "run_udf e st name source v =
     xget (\<lambda>w. case me_udf e (mw_heap w) st name of
         None \<Rightarrow> Inl (PlainErr (''failed to lookup udf: '' @ name @ '' for: '' @ source))
       | Some g \<Rightarrow>
           (case g v of
              Inl err \<Rightarrow> Inl (PlainErr (''failed to run udf: '' @ name @ '', '' @ error_text err))
            | Inr x \<Rightarrow> Inr x))"

definition source_name :: "msg_resource \<Rightarrow> string" where
  "source_name r = mr_type r @ ''/'' @ mr_name r"

section \<open>Pushing\<close>

fun push_each ::
  "('src, 'c, 'v) msg_env \<Rightarrow> nat \<Rightarrow> 'c msg_client \<Rightarrow> msg_resource \<Rightarrow> msg_resource \<Rightarrow> string \<Rightarrow> message list \<Rightarrow> ('c, go_error + value list) ms" where
  "push_each e st client raw dest udf [] = xret (Inr [])"
| "push_each e st client raw dest udf (m # ms) =
     xbind (xget (\<lambda>w. expand_message (text_in e st w) (expand (me_tb e) (mw_heap w) st) m)) (\<lambda>x.
     xtry (if udf = [] then xret (Inr (me_data x)) else run_udf e st udf (source_name raw) (me_data x)) (\<lambda>data.
     xtry (on_cloud (cl_push client dest (x\<lparr>me_data := data\<rparr>))) (\<lambda>result.
     xtry (push_each e st client raw dest udf ms) (\<lambda>results. xret (Inr (result # results))))))"

definition msg_push :: "('src, 'c, 'v) msg_env \<Rightarrow> nat \<Rightarrow> 'src msg_push_request \<Rightarrow> ('c, go_error + value list) ms" where
  "msg_push e st req =
     (case pu_dest req of
        None \<Rightarrow> xret (Inl (Panicked ''nil pointer dereference''))
      | Some d \<Rightarrow>
          xtry (case pu_source req of
                  None \<Rightarrow> xret (Inr (pu_messages req))
                | Some src \<Rightarrow>
                    xtry (on_cloud (on_error (wrap_error ''failed to download push source'') (me_download e src))) (\<lambda>text.
                      xret (Inr (load_messages (me_json e) text)))) (\<lambda>ms.
          xtry (new_client e st (pu_timeout req) d) (\<lambda>(client, d').
          xbind (xget (\<lambda>w. expand_msg_resource (text_in e st w) d')) (\<lambda>dest.
            push_each e st client d' dest (pu_udf req) ms))))"

section \<open>Pulling\<close>

fun transform_each ::
  "('src, 'c, 'v) msg_env \<Rightarrow> nat \<Rightarrow> string \<Rightarrow> string \<Rightarrow> message list \<Rightarrow> ('c, go_error + message list) ms" where
  "transform_each e st udf source [] = xret (Inr [])"
| "transform_each e st udf source (m # ms) =
     xtry (if udf = [] then xret (Inr (me_transformed m)) else run_udf e st udf source (me_data m)) (\<lambda>v.
     xtry (transform_each e st udf source ms) (\<lambda>rest. xret (Inr (m\<lparr>me_transformed := v\<rparr> # rest))))"

definition msg_pull ::
  "('src, 'c, 'v) msg_env \<Rightarrow> nat \<Rightarrow> msg_pull_request \<Rightarrow> ('c, go_error + (message list \<times> 'v option)) ms" where
  "msg_pull e st req =
     (case pl_source req of
        None \<Rightarrow> xret (Inl (Panicked ''nil pointer dereference''))
      | Some s \<Rightarrow>
          xtry (new_client e st (pl_timeout req) s) (\<lambda>(client, s').
          xbind (xget (\<lambda>w. expand_msg_resource (text_in e st w) s')) (\<lambda>source.
          xtry (on_cloud (cl_pull client source (pl_count req) (pl_nack req))) (\<lambda>ms.
          xtry (transform_each e st (pl_udf req) (source_name s') ms) (\<lambda>ms'.
            if pl_expect req = VNil then xret (Inr (ms', None))
            else xret (case me_assert e (pl_expect req) ms' of Inl err \<Rightarrow> Inl err | Inr v \<Rightarrow> Inr (ms', Some v)))))))"

section \<open>Resources\<close>

definition expand_setup :: "(string \<Rightarrow> string) \<Rightarrow> msg_setup \<Rightarrow> msg_setup" where
  "expand_setup f s =
     (let ex = (\<lambda>r. r\<lparr>mr_url := f (mr_url r), mr_project := f (mr_project r)\<rparr>)
      in map_setup_topic ex (s\<lparr>ms_resource := ex (ms_resource s)\<rparr>))"

definition setup_resource :: "('src, 'c, 'v) msg_env \<Rightarrow> nat \<Rightarrow> msg_setup \<Rightarrow> ('c, go_error + msg_resource) ms" where
  "setup_resource e st s =
     xtry (new_client e st 10000 (ms_resource s)) (\<lambda>(client, r).
     xbind (xget (\<lambda>w. expand_setup (text_in e st w) (s\<lparr>ms_resource := r\<rparr>))) (\<lambda>s'. on_cloud (cl_setup client s')))"

fun msg_create :: "('src, 'c, 'v) msg_env \<Rightarrow> nat \<Rightarrow> msg_setup list \<Rightarrow> ('c, go_error + msg_resource list) ms" where
  "msg_create e st [] = xret (Inr [])"
| "msg_create e st (s # ss) =
     xtry (setup_resource e st s) (\<lambda>r. xtry (msg_create e st ss) (\<lambda>rs. xret (Inr (r # rs))))"

definition delete_resource :: "('src, 'c, 'v) msg_env \<Rightarrow> nat \<Rightarrow> msg_resource \<Rightarrow> ('c, go_error + unit) ms" where
  "delete_resource e st r =
     xtry (new_client e st 10000 r) (\<lambda>(client, r').
     xbind (xget (\<lambda>w. r'\<lparr>mr_url := text_in e st w (mr_url r')\<rparr>)) (\<lambda>r''. on_cloud (cl_delete client r'')))"

fun msg_delete :: "('src, 'c, 'v) msg_env \<Rightarrow> nat \<Rightarrow> msg_resource list \<Rightarrow> ('c, go_error + unit) ms" where
  "msg_delete e st [] = xret (Inr ())"
| "msg_delete e st (r # rs) = xtry (delete_resource e st r) (\<lambda>_. msg_delete e st rs)"

end
