(* ===== verification/Msg_Props.thy ===== *)
theory Msg_Props
  imports Msg_Service Instances
begin

text \<open>What the messaging service promises about the queues of Amazon.\<close>

section \<open>Pulling\<close>

lemma collect_message_built:
  "build_message q = Inr m \<Longrightarrow> collect_message count q ms = Inr (ms @ [m], int (length (ms @ [m])) < count)"
  "build_message q = Inl err \<Longrightarrow> collect_message count q ms = Inl err"
  by (simp_all add: collect_message_def)

lemma handle_batch_bounded:
  assumes "handle_batch del (collect_message count) qs ms = Inr (ms', entries, stop)" "int (length ms) < count"
  shows "int (length ms') \<le> count \<and> (\<not> stop \<longrightarrow> int (length ms') < count)"
  using assms
proof (induction qs arbitrary: ms entries)
  case (Cons q qs)
  obtain m where m: "build_message q = Inr m"
    using Cons.prems(1) by (cases "build_message q") (auto simp: collect_message_built Let_def)
  show ?case
  proof (cases "int (length (ms @ [m])) < count")
    case True
    then obtain es where "handle_batch del (collect_message count) qs (ms @ [m]) = Inr (ms', es, stop)"
      using Cons.prems(1) True by (auto simp: collect_message_built(1) [OF m] Let_def ebind_Inr_iff)
    from Cons.IH [OF this True] show ?thesis .
  next
    case False
    then show ?thesis using Cons.prems by (auto simp: collect_message_built(1) [OF m] Let_def)
  qed
qed simp

lemma process_loop_bounded:
  assumes "process_loop a n url del attrs count wait (collect_message count) i pull stop ms c = Inr (Inr ms', c')"
    and "int (length ms) \<le> count" "\<not> stop \<Longrightarrow> int (length ms) < count"
  shows "int (length ms') \<le> count"
  using assms
proof (induction n arbitrary: i pull stop ms c)
  case 0
  then show ?case by (simp add: xout_def)
next
  case (Suc n)
  show ?case
  proof (cases "i < count \<and> \<not> stop")
    case False
    then show ?thesis using Suc.prems by (auto simp: xdone_def)
  next
    case True
    define p where "p = (if count < pull + i then count mod 10 else pull)"
    obtain qs c1 where cont: "(case handle_batch del (collect_message count) qs ms of
          Inl e \<Rightarrow> xret (Inl e)
        | Inr (r', entries, stop') \<Rightarrow>
            xtry (if entries = [] then xdone ()
                  else on_error (wrap_error (''failed to clean queue messages: '' @ url)) (aa_delete_batch a url entries)) (\<lambda>_.
              process_loop a n url del attrs count wait (collect_message count) (i + int (length qs)) p stop' r')) c1
          = Inr (Inr ms', c')"
      using Suc.prems(1) True by (auto simp: Let_def xtry_Inr p_def [symmetric])
    then obtain r' entries stop' where batch: "handle_batch del (collect_message count) qs ms = Inr (r', entries, stop')"
      by (cases "handle_batch del (collect_message count) qs ms") auto
    obtain c2 where rest:
      "process_loop a n url del attrs count wait (collect_message count) (i + int (length qs)) p stop' r' c2 = Inr (Inr ms', c')"
      using cont by (auto simp: batch xtry_Inr)
    have "int (length r') \<le> count \<and> (\<not> stop' \<longrightarrow> int (length r') < count)"
      using handle_batch_bounded [OF batch] Suc.prems(3) True by blast
    with rest Suc.IH show ?thesis by blast
  qed
qed

text \<open>
  A pull from a queue never gives more messages than were asked for, however many the queue
  hands out at a time.
\<close>

theorem pull_is_bounded:
  assumes "aws_pull a n seconds source count nack c = Inr (Inr ms, c')" "0 \<le> count"
  shows "int (length ms) \<le> count"
proof -
  obtain url c1 where run: "process_messages a n url (\<not> nack) True count (if 20 < seconds then 20 else seconds) (collect_message count) [] c1
      = Inr (Inr ms, c')"
    using assms(1) by (auto simp: aws_pull_def xtry_Inr)
  show ?thesis
  proof (cases "count = 0")
    case True
    have none: "process_loop a n url d b 0 w h 0 10 False ([] :: message list) c2 = Inr (Inr ms, c') \<Longrightarrow> ms = []" for d b w h c2
      by (cases n) (auto simp: xout_def xdone_def)
    show ?thesis using run True
      by (auto simp: process_messages_def xtry_Inr xdone_def split: option.splits if_splits dest: none)
  next
    case False
    then have "0 < count" using assms(2) by simp
    then show ?thesis using run False process_loop_bounded [of a n url "\<not> nack" True count _ 0 10 False "[]" c1 ms c']
      by (simp add: process_messages_def)
  qed
qed

text \<open>
  Pulling from a queue that has no message left never ends: however long the loop runs, it is
  still asking.
\<close>

theorem pull_of_empty_queue_never_ends:
  assumes "\<And>p w b. aa_receive a url p w b c = Inr (Inr [], c)" "aa_queue_url a (mr_name source) c0 = Inr (Inr url, c)"
    and "0 < count"
  shows "aws_pull a n seconds source count nack c0 = Inl OutOfFuel"
proof -
  have "process_loop a n url d b count w h 0 pull False r c = Inl OutOfFuel" for d b w h pull and r :: "message list"
  proof (induction n arbitrary: pull)
    case 0
    then show ?case by (simp add: xout_def)
  next
    case (Suc n)
    then show ?case using assms(1,3) by (simp add: Let_def xtry_def xbind_def on_error_def xret_def xdone_def)
  qed
  then show ?thesis using assms(2,3)
    by (simp add: aws_pull_def process_messages_def get_queue_url_def xtry_def xbind_def on_error_def xret_def)
qed

section \<open>Setting up a queue\<close>

lemma preserves_on_error: "preserves f m \<Longrightarrow> preserves f (on_error g m)"
  unfolding on_error_def by (intro preserve)

text \<open>
  Setting up a queue that is there without making it again leaves its outstanding messages
  where they are: only the calls that look the queue up are made, none that receives or
  deletes, so whatever these keep is kept.
\<close>

theorem outstanding_messages_stay:
  assumes "\<not> ms_recreate s" "\<And>name. preserves f (aa_queue_url a name)" "\<And>url. preserves f (aa_queue_size a url)"
    and "prepare_queue a n s c = Inr (r, c')"
  shows "f c' = f c"
proof -
  have loop: "preserves f (process_loop a k url True False 0 20 h 0 10 False ())" for k url h
    by (cases k) (simp_all add: preserve xdone_def)
  have "preserves f (process_messages a n url True False 0 20 h ())" for url h
    unfolding process_messages_def xdone_def
    by (simp, intro preserve preserves_on_error assms(3) loop)
  then have "preserves f (prepare_queue a n s)"
    unfolding prepare_queue_def get_queue_url_def Let_def xdone_def
    by (intro preserve preserves_on_error assms(2)) (simp_all add: assms(1))
  from preservesD [OF this assms(4)] show ?thesis .
qed

section \<open>A queue\<close>

text \<open>A vendor with one queue, for the witnesses: its state is the list of the messages.\<close>

definition one_queue :: "sqs_message list aws_api" where
  "one_queue = \<lparr>aa_tb = tb0, aa_queue_url = (\<lambda>name. xret (Inr ''q'')), aa_send = (\<lambda>u as b. xret (Inr ''1'')),
     aa_publish = (\<lambda>u as b s. xret (Inr ''1'')), aa_topics = (\<lambda>t. xret (Inr ([], None))),
     aa_receive = (\<lambda>u n w b q. Inr (Inr (take (nat n) q), drop (nat n) q)),
     aa_delete_batch = (\<lambda>u es. xret (Inr ())), aa_queue_size = (\<lambda>u q. Inr (Inr (Some (show_int (int (length q)))), q)),
     aa_create_queue = (\<lambda>n as. xret (Inr ''q'')), aa_delete_queue = (\<lambda>u. xret (Inr ())),
     aa_create_topic = (\<lambda>n as. xret (Inr ''t'')), aa_delete_topic = (\<lambda>t. xret (Inr ())), aa_subscribe = (\<lambda>t u. xret (Inr ''s''))\<rparr>"

definition sqs0 :: sqs_message where
  "sqs0 = \<lparr>sq_id = ''1'', sq_handle = ''h'', sq_body = Some ''hi'', sq_attributes = []\<rparr>"

lemma pull_is_bounded_witness:
  "\<exists>ms c'. aws_pull one_queue 3 1 empty_msg_resource 2 False [sqs0, sqs0, sqs0] = Inr (Inr ms, c') \<and> int (length ms) \<le> 2"
proof -
  have "\<exists>ms c'. aws_pull one_queue 3 1 empty_msg_resource 2 False [sqs0, sqs0, sqs0] = Inr (Inr ms, c')"
    by (simp add: aws_pull_def one_queue_def get_queue_url_def process_messages_def exec_defs on_error_def eval_nat_numeral
        Let_def collect_message_def build_message_def sqs0_def xdone_def)
  then show ?thesis using pull_is_bounded [of one_queue 3 1 empty_msg_resource 2 False] by fastforce
qed

lemma pull_of_empty_queue_never_ends_witness:
  "aws_pull one_queue n 1 empty_msg_resource 2 False [] = Inl OutOfFuel"
  by (rule pull_of_empty_queue_never_ends [where url = "''q''" and c = "[]"]) (simp_all add: one_queue_def xret_def)

lemma outstanding_messages_stay_witness:
  "\<exists>r c'. prepare_queue one_queue 3 \<lparr>ms_resource = empty_msg_resource, ms_recreate = False, ms_config = None\<rparr> [sqs0] = Inr (r, c') \<and>
     c' = [sqs0]"
proof -
  let ?s = "\<lparr>ms_resource = empty_msg_resource, ms_recreate = False, ms_config = None\<rparr> :: msg_setup"
  have "\<exists>r c'. prepare_queue one_queue 3 ?s [sqs0] = Inr (r, c')"
    by (simp add: prepare_queue_def one_queue_def get_queue_url_def process_messages_def exec_defs on_error_def eval_nat_numeral
        Let_def xdone_def)
  then obtain r c' where run: "prepare_queue one_queue 3 ?s [sqs0] = Inr (r, c')" by blast
  have "c' = [sqs0]"
    using outstanding_messages_stay [of ?s "\<lambda>c. c" one_queue 3 "[sqs0]" r c'] run
    by (simp add: one_queue_def preserves_def xret_def)
  with run show ?thesis by blast
qed

end
