(* ===== verification/Yaml_Node.thy ===== *)
theory Yaml_Node
  imports Util_Text
begin

text \<open>
  model/graph/yml: the nodes of a YAML document. A node of gopkg.in/yaml.v3 is a tree; its
  style, its anchors and its position in the text are left out, which this code does not read.
  The children of a mapping are its keys and values in turn. A pointer to a node is the node
  itself: an operation that changes it gives the changed node.
\<close>

section \<open>Nodes and their lookup\<close>

datatype ykind = NoKind | DocumentNode | SequenceNode | MappingNode | ScalarNode | AliasNode

datatype ynode = YNode (y_kind: ykind) (y_tag: string) (y_value: string) (y_content: "ynode list")

definition out_of_range :: go_error where
  "out_of_range = Panicked ''index out of range''"

text \<open>Every child is compared with the name, the values as well as the keys.\<close>

fun lookup_value_node :: "string \<Rightarrow> ynode list \<Rightarrow> go_error + ynode option" where
  "lookup_value_node name [] = Inr None"
| "lookup_value_node name (n # ns) =
     (if y_value n = name then (case ns of [] \<Rightarrow> Inl out_of_range | v # _ \<Rightarrow> Inr (Some v))
      else lookup_value_node name ns)"

definition lookup_node_value :: "string \<Rightarrow> ynode list \<Rightarrow> go_error + string" where
  "lookup_node_value name ns =
     ebind (lookup_value_node name ns) (\<lambda>r. Inr (case r of None \<Rightarrow> [] | Some n \<Rightarrow> y_value n))"

definition lookup_node :: "string \<Rightarrow> ynode list \<Rightarrow> ynode option" where
  "lookup_node name ns = (case ns of [] \<Rightarrow> None | n # _ \<Rightarrow> Some n)"

fun filter_nodes :: "(string \<Rightarrow> bool) \<Rightarrow> ynode list \<Rightarrow> ynode list" where
  "filter_nodes names [] = []"
| "filter_nodes names (n # ns) =
     (if names (y_value n) then filter_nodes names (drop 1 ns) else n # filter_nodes names ns)"

definition filter_node :: "string \<Rightarrow> ynode list \<Rightarrow> ynode list" where
  "filter_node name ns = filter_nodes (\<lambda>x. x = name) ns"

definition text_node :: "string \<Rightarrow> ynode" where
  "text_node s = YNode ScalarNode ''!!str'' s []"

definition append_scalar :: "string \<Rightarrow> ynode list \<Rightarrow> ynode list" where
  "append_scalar key ns = ns @ [text_node key]"

definition append_pair :: "string \<Rightarrow> string \<Rightarrow> ynode list \<Rightarrow> ynode list" where
  "append_pair key val ns = ns @ [text_node key, text_node val]"

definition new_slice :: ynode where
  "new_slice = YNode SequenceNode ''!!seq'' [] []"

definition new_map :: ynode where
  "new_map = YNode MappingNode ''!!map'' [] []"

definition new_document :: ynode where
  "new_document = YNode DocumentNode [] [] []"

definition merged_map :: "ynode list \<Rightarrow> ynode" where
  "merged_map ns = YNode MappingNode ''!!map'' [] (concat (map y_content ns))"

definition node_lookup :: "string \<Rightarrow> ynode \<Rightarrow> go_error + ynode option" where
  "node_lookup name n = lookup_value_node name (y_content n)"

section \<open>Iteration\<close>

text \<open>The loops with a callback: the state is what the callback changes.\<close>

definition items :: "(nat \<Rightarrow> ynode \<Rightarrow> 's \<Rightarrow> go_error + 's) \<Rightarrow> ynode \<Rightarrow> 's \<Rightarrow> go_error + 's" where
  "items f n s = efold (\<lambda>(i, x). f i x) (List.enumerate 0 (y_content n)) s"

fun pairs_of :: "(string \<Rightarrow> ynode \<Rightarrow> 's \<Rightarrow> go_error + 's) \<Rightarrow> ynode list \<Rightarrow> 's \<Rightarrow> go_error + 's" where
  "pairs_of f [] s = Inr s"
| "pairs_of f [k] s = Inl out_of_range"
| "pairs_of f (k # v # rest) s = ebind (f (y_value k) v s) (pairs_of f rest)"

definition pairs :: "(string \<Rightarrow> ynode \<Rightarrow> 's \<Rightarrow> go_error + 's) \<Rightarrow> ynode \<Rightarrow> 's \<Rightarrow> go_error + 's" where
  "pairs f n s = pairs_of f (y_content n) s"

lemma pairs_of_cong [fundef_cong]:
  assumes "ns = ms" "s = t" and "\<And>k v s. v \<in> set ms \<Longrightarrow> f k v s = g k v s"
  shows "pairs_of f ns s = pairs_of g ms t"
proof -
  have "(\<And>k v s. v \<in> set ns \<Longrightarrow> f k v s = g k v s) \<Longrightarrow> pairs_of f ns s = pairs_of g ns s" for ns
    by (induction f ns s rule: pairs_of.induct) (simp_all add: ebind_def split: sum.splits)
  with assms show ?thesis by simp
qed

lemma pairs_cong [fundef_cong]:
  assumes "n = m" "s = t" and "\<And>k v s. v \<in> set (y_content m) \<Longrightarrow> f k v s = g k v s"
  shows "pairs f n s = pairs g m t"
  using assms by (auto simp: pairs_def intro: pairs_of_cong)

section \<open>The content of a node\<close>

definition scalar_value :: "toolbox \<Rightarrow> string \<Rightarrow> string \<Rightarrow> value" where
  "scalar_value tb t s =
     (if t = ''!!str'' then VStr s
      else if t = ''!!bool'' then VBool (as_bool tb (VStr s))
      else if t = ''!!nil'' then VNil
      else if t = ''!!float'' then VFloat (as_float tb (VStr s))
      else if t = ''!!int'' then VInt (as_int tb (VStr s))
      else VStr s)"

fun node_interface :: "toolbox \<Rightarrow> ynode \<Rightarrow> go_error + value"
and node_pairs :: "toolbox \<Rightarrow> ynode list \<Rightarrow> smap \<Rightarrow> go_error + value"
and node_items :: "toolbox \<Rightarrow> ynode list \<Rightarrow> go_error + value list" where
  "node_interface tb (YNode k t s c) =
     (case k of
        ScalarNode \<Rightarrow> Inr (scalar_value tb t s)
      | MappingNode \<Rightarrow> node_pairs tb c []
      | SequenceNode \<Rightarrow> ebind (node_items tb c) (\<lambda>xs. Inr (VSlice xs))
      | _ \<Rightarrow> Inr VNil)"
| "node_pairs tb [] m = Inr (VMap m)"
| "node_pairs tb [k] m = Inl out_of_range"
| "node_pairs tb (k # v # rest) m =
     ebind (node_interface tb v) (\<lambda>x. node_pairs tb rest (mput (y_value k) x m))"
| "node_items tb [] = Inr []"
| "node_items tb (n # ns) =
     ebind (node_interface tb n) (\<lambda>x. ebind (node_items tb ns) (\<lambda>xs. Inr (x # xs)))"

section \<open>Building of nodes\<close>

definition null_node :: ynode where
  "null_node = YNode ScalarNode ''!!null'' [] []"

definition new_scalar :: "toolbox \<Rightarrow> value \<Rightarrow> ynode" where
  "new_scalar tb v =
     (if v = VNil then null_node
      else YNode ScalarNode
             (case v of VInt _ \<Rightarrow> ''!!int'' | VFloat _ \<Rightarrow> ''!!float'' | VBool _ \<Rightarrow> ''!!bool'' | _ \<Rightarrow> ''!!str'')
             (as_string tb v) [])"

definition type_name :: "value \<Rightarrow> string" where
  "type_name v =
     (case v of
        VNil \<Rightarrow> ''<nil>'' | VBool _ \<Rightarrow> ''bool'' | VInt _ \<Rightarrow> ''int'' | VFloat _ \<Rightarrow> ''float64'' | VStr _ \<Rightarrow> ''string''
      | VSlice _ \<Rightarrow> ''[]interface {}'' | VMap _ \<Rightarrow> ''map[string]interface {}'' | VRef _ \<Rightarrow> ''data.Map''
      | VStruct t _ \<Rightarrow> t | VFunc _ \<Rightarrow> ''func'')"

fun value_node :: "toolbox \<Rightarrow> value \<Rightarrow> go_error + ynode"
and map_nodes :: "toolbox \<Rightarrow> smap \<Rightarrow> go_error + ynode list"
and slice_nodes :: "toolbox \<Rightarrow> value list \<Rightarrow> go_error + ynode list" where
  "value_node tb VNil = Inr (new_scalar tb VNil)"
| "value_node tb (VStr s) = Inr (new_scalar tb (VStr s))"
| "value_node tb (VInt i) = Inr (new_scalar tb (VInt i))"
| "value_node tb (VFloat x) = Inr (new_scalar tb (VFloat x))"
| "value_node tb (VBool b) = Inr (new_scalar tb (VBool b))"
| "value_node tb (VMap m) =
     ebind (map_nodes tb m) (\<lambda>c. Inr (YNode MappingNode ''!!map'' [] c))"
| "value_node tb (VSlice vs) =
     ebind (slice_nodes tb vs) (\<lambda>c. Inr (YNode SequenceNode ''!!seq'' [] c))"
| "value_node tb v = Inl (Panicked (''not supported yaml.node put type '' @ type_name v))"
| "map_nodes tb [] = Inr []"
| "map_nodes tb ((k, v) # m) =
     ebind (value_node tb v) (\<lambda>n. ebind (map_nodes tb m) (\<lambda>c. Inr (new_scalar tb (VStr k) # n # c)))"
| "slice_nodes tb [] = Inr []"
| "slice_nodes tb (v # vs) =
     ebind (value_node tb v) (\<lambda>n. ebind (slice_nodes tb vs) (\<lambda>c. Inr (n # c)))"

text \<open>What is put into a node: a node, which is taken as it is, or a value.\<close>

datatype yaml_item = ANode ynode | AValue "value"

definition item_node :: "toolbox \<Rightarrow> yaml_item \<Rightarrow> go_error + ynode" where
  "item_node tb x = (case x of ANode n \<Rightarrow> Inr n | AValue v \<Rightarrow> value_node tb v)"

definition node_append :: "toolbox \<Rightarrow> yaml_item \<Rightarrow> ynode \<Rightarrow> go_error + ynode" where
  "node_append tb x n =
     (if y_kind n \<in> {DocumentNode, SequenceNode}
      then ebind (item_node tb x) (\<lambda>m. Inr (YNode (y_kind n) (y_tag n) (y_value n) (y_content n @ [m])))
      else Inl (Panicked ''not a sequence node''))"

definition node_put :: "toolbox \<Rightarrow> string \<Rightarrow> yaml_item \<Rightarrow> ynode \<Rightarrow> go_error + ynode" where
  "node_put tb key x n =
     (if y_kind n \<noteq> MappingNode then Inl (Panicked ''not a map node'')
      else ebind (item_node tb x) (\<lambda>m.
        Inr (YNode (y_kind n) (y_tag n) (y_value n) (y_content n @ [new_scalar tb (VStr key), m]))))"

section \<open>Round trips\<close>

text \<open>A map is built by puts in its order, and a slice by appends.\<close>

definition item_law :: "toolbox \<Rightarrow> bool" where
  "item_law tb \<longleftrightarrow> (\<forall>s. as_string tb (VStr s) = s)"

lemma node_put_map:
  "node_put tb k (AValue v) (YNode MappingNode t s c) =
     ebind (value_node tb v) (\<lambda>m. Inr (YNode MappingNode t s (c @ [new_scalar tb (VStr k), m])))"
  by (simp add: node_put_def item_node_def)

lemma node_append_slice:
  "node_append tb (AValue v) (YNode SequenceNode t s c) =
     ebind (value_node tb v) (\<lambda>m. Inr (YNode SequenceNode t s (c @ [m])))"
  by (simp add: node_append_def item_node_def)

lemma efold_put:
  "efold (\<lambda>(k, v). node_put tb k (AValue v)) m (YNode MappingNode t s c) =
     ebind (map_nodes tb m) (\<lambda>c'. Inr (YNode MappingNode t s (c @ c')))"
proof (induction m arbitrary: c)
  case (Cons p m)
  obtain k v where p: "p = (k, v)" by fastforce
  show ?case
    by (cases "value_node tb v"; cases "map_nodes tb m")
      (simp_all add: p node_put_map Cons.IH)
qed simp

lemma efold_append_nodes:
  "efold (\<lambda>v. node_append tb (AValue v)) vs (YNode SequenceNode t s c) =
     ebind (slice_nodes tb vs) (\<lambda>c'. Inr (YNode SequenceNode t s (c @ c')))"
proof (induction vs arbitrary: c)
  case (Cons v vs)
  show ?case
    by (cases "value_node tb v"; cases "slice_nodes tb vs")
      (simp_all add: node_append_slice Cons.IH)
qed simp

lemma value_node_map: "value_node tb (VMap m) = efold (\<lambda>(k, v). node_put tb k (AValue v)) m new_map"
  by (simp add: new_map_def efold_put)

lemma value_node_slice: "value_node tb (VSlice vs) = efold (\<lambda>v. node_append tb (AValue v)) vs new_slice"
  by (simp add: new_slice_def efold_append_nodes)

text \<open>
  The values that are written: scalars other than nil, maps with distinct keys and slices; the text
  of a floating point number is one that it is read back from.
\<close>

fun yaml_plain :: "toolbox \<Rightarrow> value \<Rightarrow> bool" where
  "yaml_plain tb (VStr s) = True"
| "yaml_plain tb (VInt i) = True"
| "yaml_plain tb (VFloat x) = (as_float tb (VStr (as_string tb (VFloat x))) = x)"
| "yaml_plain tb (VBool b) = True"
| "yaml_plain tb (VMap m) = (distinct (map fst m) \<and> list_all (\<lambda>(k, v). yaml_plain tb v) m)"
| "yaml_plain tb (VSlice vs) = list_all (yaml_plain tb) vs"
| "yaml_plain tb _ = False"

text \<open>The documented conversions: a scalar is read back from its text.\<close>

definition text_laws :: "toolbox \<Rightarrow> bool" where
  "text_laws tb \<longleftrightarrow>
     (\<forall>s. as_string tb (VStr s) = s) \<and>
     (\<forall>b. as_bool tb (VStr (as_string tb (VBool b))) = b) \<and>
     (\<forall>i. as_int tb (VStr (as_string tb (VInt i))) = i)"

definition is_scalar :: "value \<Rightarrow> bool" where
  "is_scalar v = (case v of VStr _ \<Rightarrow> True | VInt _ \<Rightarrow> True | VFloat _ \<Rightarrow> True | VBool _ \<Rightarrow> True | _ \<Rightarrow> False)"

lemma scalar_read_back: "text_laws tb \<Longrightarrow> is_scalar v \<Longrightarrow> yaml_plain tb v \<Longrightarrow> node_interface tb (new_scalar tb v) = Inr v"
  by (cases v) (simp_all add: new_scalar_def scalar_value_def text_laws_def is_scalar_def)

lemma mput_new: "k \<notin> fst ` set m \<Longrightarrow> mput k v m = m @ [(k, v)]"
  by (induction m) (auto simp: mput_def)

lemma read_back_values:
  "text_laws tb \<Longrightarrow> yaml_plain tb v \<Longrightarrow> \<exists>n. value_node tb v = Inr n \<and> node_interface tb n = Inr v"
  "text_laws tb \<Longrightarrow> list_all (\<lambda>(k, v). yaml_plain tb v) m \<Longrightarrow> distinct (map fst m) \<Longrightarrow>
     \<exists>c. map_nodes tb m = Inr c \<and>
       (\<forall>acc. fst ` set m \<inter> fst ` set acc = {} \<longrightarrow> node_pairs tb c acc = Inr (VMap (acc @ m)))"
  "text_laws tb \<Longrightarrow> list_all (yaml_plain tb) vs \<Longrightarrow> \<exists>c. slice_nodes tb vs = Inr c \<and> node_items tb c = Inr vs"
proof (induction tb v and tb m and tb vs rule: value_node_map_nodes_slice_nodes.induct)
  case (6 tb m)
  from "6.IH" [OF "6.prems"(1)] "6.prems"(2) obtain c where "map_nodes tb m = Inr c"
    "\<forall>acc. fst ` set m \<inter> fst ` set acc = {} \<longrightarrow> node_pairs tb c acc = Inr (VMap (acc @ m))" by auto
  then show ?case by (auto dest: spec [where x = "[]"])
next
  case (10 tb k v m)
  then obtain n where n: "value_node tb v = Inr n" "node_interface tb n = Inr v" by auto
  have s: "y_value (new_scalar tb (VStr k)) = k"
    using "10.prems" by (simp add: new_scalar_def text_laws_def)
  from 10 n(1) obtain c where c: "map_nodes tb m = Inr c"
    "\<And>acc. fst ` set m \<inter> fst ` set acc = {} \<Longrightarrow> node_pairs tb c acc = Inr (VMap (acc @ m))" by auto
  have "node_pairs tb (new_scalar tb (VStr k) # n # c) acc = Inr (VMap (acc @ (k, v) # m))"
    if "fst ` set ((k, v) # m) \<inter> fst ` set acc = {}" for acc
    using that "10.prems"(3) c(2) [of "acc @ [(k, v)]"] by (auto simp: n s mput_new)
  with n c show ?case by simp
qed (auto simp: scalar_read_back is_scalar_def)

text \<open>Nil is not: its node has the tag of YAML, \<open>!!null\<close>, and is read as the empty text.\<close>

lemma nil_is_read_as_text: "ebind (value_node tb VNil) (node_interface tb) = Inr (VStr [])"
  by (simp add: new_scalar_def null_node_def scalar_value_def)

text \<open>A lookup may find a value that is spelled like the key.\<close>

lemma lookup_finds_value:
  "y_value v = name \<Longrightarrow> y_value k \<noteq> name \<Longrightarrow> lookup_value_node name [k, v] = Inl out_of_range"
  by simp

text \<open>When no value is spelled like a key, it is the value of the first such key.\<close>

lemma lookup_plain:
  "(\<And>v. v \<in> set vs \<Longrightarrow> y_value v \<noteq> name) \<Longrightarrow> length ks = length vs \<Longrightarrow>
   lookup_value_node name (concat (map2 (\<lambda>k v. [k, v]) ks vs)) = Inr (map_of (zip (map y_value ks) vs) name)"
proof (induction ks arbitrary: vs)
  case (Cons k ks)
  then show ?case by (cases vs) auto
qed simp

end
