(* ===== verification/Graph_Node.thy ===== *)
theory Graph_Node
  imports Yaml_Node
begin

text \<open>
  model/graph/node.go and service.go: a workflow as a graph of typed nodes over the YAML
  document. \<open>json\<close> is \<open>json.Marshal\<close>, \<open>unyaml\<close> is \<open>yaml.Unmarshal\<close> into a document node.
\<close>

section \<open>Typed nodes\<close>

datatype node_type = TypeWorkflow | TypeVariable | TypeTask | TypeAction | TypeTemplate

record graph_node =
  gn_node :: ynode
  gn_type :: node_type
  gn_name :: string
  gn_is_template :: bool

definition untyped_node :: "ynode \<Rightarrow> graph_node" where
  "untyped_node n = \<lparr>gn_node = n, gn_type = TypeWorkflow, gn_name = [], gn_is_template = False\<rparr>"

definition new_workflow_node :: "string \<Rightarrow> ynode \<Rightarrow> graph_node" where
  "new_workflow_node name n = \<lparr>gn_node = n, gn_type = TypeWorkflow, gn_name = name, gn_is_template = False\<rparr>"

definition nil_pointer :: go_error where
  "nil_pointer = Panicked ''nil pointer dereference''"

text \<open>The node of a task: an action when it has the key \<open>action\<close>.\<close>

definition typed_child :: "node_type \<Rightarrow> bool \<Rightarrow> string \<Rightarrow> ynode \<Rightarrow> go_error + graph_node" where
  "typed_child t template key n =
     ebind (node_lookup ''action'' n) (\<lambda>action.
       Inr \<lparr>gn_node = n, gn_type = (if action \<noteq> None then TypeAction else t), gn_name = key,
            gn_is_template = template\<rparr>)"

definition find_task :: "string \<Rightarrow> graph_node \<Rightarrow> go_error + graph_node option" where
  "find_task name n =
     ebind (case gn_type n of
              TypeWorkflow \<Rightarrow> node_lookup ''pipeline'' (gn_node n)
            | TypeTask \<Rightarrow> Inr (Some (gn_node n))
            | TypeTemplate \<Rightarrow> Inr (Some (gn_node n))
            | _ \<Rightarrow> Inl nil_pointer) (\<lambda>holder.
       case holder of
         None \<Rightarrow> Inr None
       | Some x \<Rightarrow> ebind (node_lookup name x) (\<lambda>r.
           case r of
             None \<Rightarrow> Inr None
           | Some y \<Rightarrow> ebind (typed_child TypeAction False name y) (\<lambda>t. Inr (Some t))))"

definition on_child ::
  "node_type \<Rightarrow> bool \<Rightarrow> (string \<Rightarrow> graph_node \<Rightarrow> 's \<Rightarrow> go_error + 's) \<Rightarrow> string \<Rightarrow> ynode \<Rightarrow> 's \<Rightarrow> go_error + 's" where
  "on_child t template f key n s = ebind (typed_child t template key n) (\<lambda>x. f key x s)"

text \<open>The children of a task are always given the type of an action.\<close>

definition tasks :: "(string \<Rightarrow> graph_node \<Rightarrow> 's \<Rightarrow> go_error + 's) \<Rightarrow> graph_node \<Rightarrow> 's \<Rightarrow> go_error + 's" where
  "tasks f n s =
     (case gn_type n of
        TypeWorkflow \<Rightarrow> ebind (node_lookup ''pipeline'' (gn_node n)) (\<lambda>pipeline.
          case pipeline of None \<Rightarrow> Inr s | Some p \<Rightarrow> pairs (on_child TypeTask False f) p s)
      | TypeTask \<Rightarrow> pairs (on_child TypeAction False f) (gn_node n) s
      | TypeTemplate \<Rightarrow> pairs (on_child TypeTask True f) (gn_node n) s
      | _ \<Rightarrow> Inr s)"

lemma typed_child_node: "typed_child t b key n = Inr x \<Longrightarrow> gn_node x = n"
  by (auto simp: typed_child_def ebind_Inr_iff)

lemma lookup_smaller: "lookup_value_node name ns = Inr (Some v) \<Longrightarrow> size v < Suc (size_list size ns)"
  by (induction ns rule: lookup_value_node.induct) (auto split: if_splits list.splits)

lemma node_lookup_smaller: "node_lookup name n = Inr (Some v) \<Longrightarrow> size v < size n"
  by (cases n) (auto simp: node_lookup_def dest: lookup_smaller)

lemma child_smaller: "v \<in> set (y_content n) \<Longrightarrow> size v < size n"
  by (cases n) (auto dest: size_list_estimation' [where f = size])

text \<open>The callback is only applied to smaller nodes.\<close>

lemma tasks_cong [fundef_cong]:
  assumes "n = m" "s = t"
    and "\<And>key x s. size (gn_node x) < size (gn_node m) \<Longrightarrow> f key x s = g key x s"
  shows "tasks f n s = tasks g m t"
proof -
  have child: "on_child ty b f k v s = on_child ty b g k v s" if "size v < size (gn_node m)" for ty b k v s
    using assms(3) that by (auto simp: on_child_def ebind_def dest: typed_child_node split: sum.splits)
  have p: "pairs (on_child ty b f) x s = pairs (on_child ty b g) x s" if "size x \<le> size (gn_node m)" for ty b x s
    using that by (intro pairs_cong refl child) (use child_smaller in fastforce)
  show ?thesis
    using p by (auto simp: tasks_def assms(1,2) ebind_def less_imp_le dest: node_lookup_smaller
        split: node_type.splits sum.splits option.splits)
qed

function is_task_node :: "graph_node \<Rightarrow> go_error + bool" where
  "is_task_node n =
     tasks (\<lambda>key x result.
       case gn_type x of
         TypeTask \<Rightarrow> ebind (is_task_node x) (\<lambda>b. Inr (b \<or> result))
       | TypeAction \<Rightarrow> ebind (node_lookup ''action'' (gn_node x)) (\<lambda>action. Inr (action \<noteq> None \<or> result))
       | _ \<Rightarrow> Inr result) n False"
  by pat_completeness auto
termination by (relation "measure (\<lambda>n. size (gn_node n))") auto

section \<open>Variables, requests and attributes\<close>

definition graph_variables ::
  "(string \<Rightarrow> graph_node \<Rightarrow> 's \<Rightarrow> go_error + 's) \<Rightarrow> ynode \<Rightarrow> 's \<Rightarrow> go_error + 's" where
  "graph_variables f init s =
     (let variable = (\<lambda>n. \<lparr>gn_node = n, gn_type = TypeVariable, gn_name = [], gn_is_template = False\<rparr>)
      in case y_kind init of
           MappingNode \<Rightarrow> pairs (\<lambda>key n. f key (variable n)) init s
         | SequenceNode \<Rightarrow> items (\<lambda>i n s.
             case y_content n of
               [] \<Rightarrow> Inr s
             | [k] \<Rightarrow> Inl out_of_range
             | k # v # _ \<Rightarrow> f (y_value k) (variable v) s) init s
         | _ \<Rightarrow> Inr s)"

definition variable_text :: "toolbox \<Rightarrow> (value \<Rightarrow> go_error + string) \<Rightarrow> value \<Rightarrow> go_error + string" where
  "variable_text tb json v =
     (case v of VMap _ \<Rightarrow> json v | VSlice _ \<Rightarrow> json v | VStr s \<Rightarrow> Inr s | _ \<Rightarrow> Inr (as_string tb v))"

definition add_variable ::
  "toolbox \<Rightarrow> (value \<Rightarrow> go_error + string) \<Rightarrow> string \<Rightarrow> graph_node \<Rightarrow> value list \<Rightarrow> go_error + value list" where
  "add_variable tb json name n result =
     ebind (node_interface tb (gn_node n)) (\<lambda>v. ebind (variable_text tb json v) (\<lambda>text.
       Inr (result @ [VMap [(''name'', VStr name), (''value'', VStr text)]])))"

text \<open>
  The error of the loop is overwritten by the one of the encoding, which then sees the variables
  before the failing one. A panic is none of these errors. The nodes are taken first: a mapping
  of a document has as many values as keys.
\<close>

fun add_variables ::
  "toolbox \<Rightarrow> (value \<Rightarrow> go_error + string) \<Rightarrow> (string \<times> graph_node) list \<Rightarrow> value list \<Rightarrow> go_error + value list" where
  "add_variables tb json [] result = Inr result"
| "add_variables tb json ((name, n) # vs) result =
     (case add_variable tb json name n result of
        Inl e \<Rightarrow> if is_panic e then Inl e else Inr result
      | Inr result' \<Rightarrow> add_variables tb json vs result')"

definition variable_nodes :: "ynode \<Rightarrow> (string \<times> graph_node) list \<times> go_error option" where
  "variable_nodes init =
     (case graph_variables (\<lambda>name n s. Inr (s @ [(name, n)])) init [] of Inl e \<Rightarrow> ([], Some e) | Inr vs \<Rightarrow> (vs, None))"

definition variables :: "toolbox \<Rightarrow> (value \<Rightarrow> go_error + string) \<Rightarrow> string \<Rightarrow> graph_node \<Rightarrow> go_error + string" where
  "variables tb json ns n =
     ebind (node_lookup ns (gn_node n)) (\<lambda>vars.
       case vars of
         None \<Rightarrow> Inr []
       | Some v \<Rightarrow> ebind (is_task_node (untyped_node v)) (\<lambda>b.
           if b then Inr []
           else case variable_nodes v of
             (_, Some e) \<Rightarrow> Inl e
           | (vs, None) \<Rightarrow> ebind (add_variables tb json vs []) (\<lambda>result.
               json (if result = [] then VNil else VSlice result))))"

definition extracts :: "(string \<Rightarrow> graph_node \<Rightarrow> 's \<Rightarrow> go_error + 's) \<Rightarrow> graph_node \<Rightarrow> 's \<Rightarrow> go_error + 's" where
  "extracts f n s =
     ebind (node_lookup ''extract'' (gn_node n)) (\<lambda>r.
       case r of None \<Rightarrow> Inr s | Some init \<Rightarrow> graph_variables f init s)"

definition reserved_keys :: "string list" where
  "reserved_keys = [''init'', ''post'', ''variables'', ''when'', ''sleeptimems'', ''logging'', ''description'',
     ''input'', ''repeat'', ''thinktimems'', ''exit'', ''action'', ''service'', ''extract'']"

definition request_attribute :: "toolbox \<Rightarrow> string \<Rightarrow> ynode \<Rightarrow> smap \<Rightarrow> go_error + smap" where
  "request_attribute tb key n result =
     (if has_prefix key '':'' then Inr (mput (drop 1 key) (VStr (y_value n)) result)
      else if has_prefix key ''@'' then Inr result
      else if to_lower key \<in> set reserved_keys then Inr result
      else ebind (node_interface tb n) (\<lambda>v. Inr (mput key v result)))"

definition node_request :: "toolbox \<Rightarrow> graph_node \<Rightarrow> go_error + value" where
  "node_request tb n =
     ebind (node_lookup ''input'' (gn_node n)) (\<lambda>input.
       case input of
         Some v \<Rightarrow> node_interface tb v
       | None \<Rightarrow> ebind (pairs (request_attribute tb) (gn_node n) []) (\<lambda>m. Inr (VMap m)))"

definition node_scalar :: "toolbox \<Rightarrow> string \<Rightarrow> graph_node \<Rightarrow> go_error + value option" where
  "node_scalar tb name n =
     ebind (node_lookup name (gn_node n)) (\<lambda>r.
       case r of None \<Rightarrow> Inr None | Some v \<Rightarrow> ebind (node_interface tb v) (\<lambda>x. Inr (Some x)))"

definition node_text :: "toolbox \<Rightarrow> string \<Rightarrow> graph_node \<Rightarrow> go_error + string option" where
  "node_text tb name n =
     ebind (node_scalar tb name n) (\<lambda>r.
       case r of
         None \<Rightarrow> Inr None
       | Some (VStr s) \<Rightarrow> Inr (Some s)
       | Some v \<Rightarrow> Inl (Panicked ''interface conversion''))"

text \<open>The attributes whose lower case name is one of \<open>names\<close>, as texts.\<close>

definition copy_attribute :: "string list \<Rightarrow> string \<Rightarrow> ynode \<Rightarrow> smap \<Rightarrow> go_error + smap" where
  "copy_attribute names key n result =
     Inr (if to_lower key \<in> set names then mput key (VStr (y_value n)) result else result)"

definition abstract_names :: "string list" where
  "abstract_names = [''when'', ''sleeptimems'', ''logging'', ''description'', ''comments'']"

definition abstract_node :: "graph_node \<Rightarrow> smap \<Rightarrow> go_error + smap" where
  "abstract_node n result =
     (if gn_type n \<notin> {TypeWorkflow, TypeAction, TypeTask}
      then Inl (PlainErr (''invalid node type: '' @ (if gn_type n = TypeVariable then ''1'' else ''4'')))
      else pairs (copy_attribute abstract_names) (gn_node n)
             (if gn_name n \<noteq> [] then mput ''name'' (VStr (gn_name n)) result else result))"

definition workflow_map :: "graph_node \<Rightarrow> go_error + smap" where
  "workflow_map n = abstract_node n []"

definition action_names :: "string list" where
  "action_names = [''repeat'', ''thinktimems'', ''exit'', ''action'', ''service'', ''async'', ''skip'']"

definition action_attribute :: "string \<Rightarrow> ynode \<Rightarrow> smap \<Rightarrow> go_error + smap" where
  "action_attribute key n result =
     (if to_lower key = ''uri'' then Inr (mput ''inputuri'' (VStr (y_value n)) result)
      else copy_attribute action_names key n result)"

definition action_map :: "graph_node \<Rightarrow> go_error + smap" where
  "action_map n = ebind (abstract_node n []) (pairs action_attribute (gn_node n))"

definition task_names :: "string list" where
  "task_names = [''defer'', ''onerror'', ''fail'', ''subpath'', ''tag'', ''range'']"

definition task_map :: "graph_node \<Rightarrow> go_error + smap" where
  "task_map n = ebind (abstract_node n []) (pairs (copy_attribute task_names) (gn_node n))"

definition node_data :: "(value \<Rightarrow> go_error + string) \<Rightarrow> graph_node \<Rightarrow> go_error + string" where
  "node_data json n =
     ebind (node_lookup ''data'' (gn_node n)) (\<lambda>r.
       case r of
         None \<Rightarrow> Inr []
       | Some d \<Rightarrow> ebind (pairs (\<lambda>key x m. Inr (mput key (VStr (y_value x)) m)) d []) (\<lambda>m.
           Inr (case json (VMap m) of Inl e \<Rightarrow> [] | Inr s \<Rightarrow> s)))"

definition template_node :: "graph_node \<Rightarrow> go_error + graph_node option" where
  "template_node n =
     ebind (node_lookup ''template'' (gn_node n)) (\<lambda>r.
       Inr (map_option (\<lambda>t. \<lparr>gn_node = t, gn_type = TypeTemplate, gn_name = [], gn_is_template = False\<rparr>) r))"

section \<open>Loading of a document\<close>

definition file_stem :: "string \<Rightarrow> string" where
  "file_stem name = (case last_index_of name ''.'' of None \<Rightarrow> name | Some i \<Rightarrow> take i name)"

definition load_workflow_node ::
  "urls \<Rightarrow> (string \<Rightarrow> go_error + string) \<Rightarrow> (string \<Rightarrow> go_error + ynode) \<Rightarrow> string \<Rightarrow> go_error + graph_node" where
  "load_workflow_node us fetch unyaml url =
     ebind (fetch url) (\<lambda>data. ebind (unyaml data) (\<lambda>n.
       case y_content n of
         [] \<Rightarrow> Inl out_of_range
       | c # _ \<Rightarrow> Inr (new_workflow_node (file_stem (snd (url_split us url))) c)))"

end
