(* ===== verification/Project_Model.thy ===== *)
theory Project_Model
  imports Graph_Node
begin

text \<open>
  model/project: projects, bundles, workflows, tasks and assets, and how a workflow is written
  as YAML. Tasks and workflows are pointers that several lists share: a store (\<open>project_heap\<close>)
  keeps them by address. Assets and bundles do not change once they are in a list.
\<close>

section \<open>The model\<close>

record extract_rule =
  xr_regexpr :: string
  xr_key :: string
  xr_reset :: bool
  xr_required :: bool

record project_task =
  pt_id :: string
  pt_workflow_id :: string
  pt_parent :: string
  pt_position :: int
  pt_tag :: string
  pt_init :: string
  pt_post :: string
  pt_description :: string
  pt_when :: string
  pt_exit :: string
  pt_on_error :: string
  pt_deferred :: string
  pt_service :: string
  pt_action :: string
  pt_input :: string
  pt_input_uri :: string
  pt_async :: bool
  pt_skip :: string
  pt_fail :: bool
  pt_is_template :: bool
  pt_sub_path :: string
  pt_range :: string
  pt_data :: string
  pt_variables :: string
  pt_extracts :: "extract_rule list"
  pt_sleep :: int
  pt_think :: int
  pt_logging :: "bool option"
  pt_repeat :: int
  pt_instance_index :: int
  pt_instance_tag :: string

definition empty_task :: project_task where
  "empty_task = \<lparr>pt_id = [], pt_workflow_id = [], pt_parent = [], pt_position = 0, pt_tag = [], pt_init = [],
     pt_post = [], pt_description = [], pt_when = [], pt_exit = [], pt_on_error = [], pt_deferred = [],
     pt_service = [], pt_action = [], pt_input = [], pt_input_uri = [], pt_async = False, pt_skip = [],
     pt_fail = False, pt_is_template = False, pt_sub_path = [], pt_range = [], pt_data = [], pt_variables = [],
     pt_extracts = [], pt_sleep = 0, pt_think = 0, pt_logging = None, pt_repeat = 0, pt_instance_index = 0,
     pt_instance_tag = []\<rparr>"

record project_asset =
  pa_id :: string
  pa_location :: string
  pa_workflow_id :: string
  pa_dir :: bool
  pa_template :: string
  pa_instance_index :: int
  pa_instance_tag :: string
  pa_source :: "string option"
  pa_format :: string

record project_workflow =
  pw_id :: string
  pw_position :: int
  pw_parent :: string
  pw_uri :: string
  pw_project :: string
  pw_name :: string
  pw_init :: string
  pw_post :: string
  pw_steps :: "nat list"
  pw_assets :: "project_asset list"
  pw_workflows :: "nat list"
  pw_template :: string
  pw_instance_index :: int
  pw_instance_tag :: string

definition empty_workflow :: project_workflow where
  "empty_workflow = \<lparr>pw_id = [], pw_position = 0, pw_parent = [], pw_uri = [], pw_project = [], pw_name = [],
     pw_init = [], pw_post = [], pw_steps = [], pw_assets = [], pw_workflows = [], pw_template = [],
     pw_instance_index = 0, pw_instance_tag = []\<rparr>"

text \<open>A project is its identifier, which is its name.\<close>

datatype project_bundle = Bundle
  (bu_project: string) (bu_workflow: "nat option") (bu_tasks: "nat list") (bu_assets: "project_asset list")
  (bu_subs: "project_bundle list") (bu_templates: "(string \<times> project_bundle list) list")

record project_heap =
  ph_tasks :: "nat \<Rightarrow> project_task"
  ph_next_task :: nat
  ph_workflows :: "nat \<Rightarrow> project_workflow"
  ph_next_workflow :: nat

definition on_task :: "nat \<Rightarrow> (project_task \<Rightarrow> project_task) \<Rightarrow> project_heap \<Rightarrow> project_heap" where
  "on_task a f h = h\<lparr>ph_tasks := (ph_tasks h)(a := f (ph_tasks h a))\<rparr>"

definition on_workflow :: "nat \<Rightarrow> (project_workflow \<Rightarrow> project_workflow) \<Rightarrow> project_heap \<Rightarrow> project_heap" where
  "on_workflow a f h = h\<lparr>ph_workflows := (ph_workflows h)(a := f (ph_workflows h a))\<rparr>"

section \<open>Bundles\<close>

fun bundle_workflows :: "project_bundle \<Rightarrow> nat option list" where
  "bundle_workflows (Bundle p w ts as subs temps) =
     [w] @ concat (map bundle_workflows subs) @
     concat (map (\<lambda>(k, bs). concat (map bundle_workflows bs)) temps)"

fun bundle_tasks :: "project_bundle \<Rightarrow> nat list" where
  "bundle_tasks (Bundle p w ts as subs temps) =
     ts @ concat (map bundle_tasks subs) @ concat (map (\<lambda>(k, bs). concat (map bundle_tasks bs)) temps)"

fun bundle_assets :: "project_bundle \<Rightarrow> project_asset list" where
  "bundle_assets (Bundle p w ts as subs temps) =
     as @ concat (map bundle_assets subs) @ concat (map (\<lambda>(k, bs). concat (map bundle_assets bs)) temps)"

definition bundle_projects :: "project_bundle \<Rightarrow> string list" where
  "bundle_projects b = [bu_project b]"

definition first_some :: "'a option list \<Rightarrow> 'a option" where
  "first_some xs = List.find (\<lambda>_. True) (List.map_filter id xs)"

text \<open>The workflow with an identifier, in the order of the nested bundles.\<close>

fun find_workflow :: "project_heap \<Rightarrow> string \<Rightarrow> project_bundle \<Rightarrow> nat option" where
  "find_workflow h i (Bundle p w ts as subs temps) =
     (case w of
        Some a \<Rightarrow> if pw_id (ph_workflows h a) = i then Some a
                  else first_some (map (find_workflow h i) subs @
                         concat (map (\<lambda>(k, bs). map (find_workflow h i) bs) temps))
      | None \<Rightarrow> first_some (map (find_workflow h i) subs @
                  concat (map (\<lambda>(k, bs). map (find_workflow h i) bs) temps)))"

definition append_asset :: "project_asset \<Rightarrow> project_bundle \<Rightarrow> project_heap \<Rightarrow> project_bundle \<times> project_heap" where
  "append_asset x b h =
     (let target = (case find_workflow h (pa_workflow_id x) b of None \<Rightarrow> bu_workflow b | Some a \<Rightarrow> Some a)
      in (Bundle (bu_project b) (bu_workflow b) (bu_tasks b) (bu_assets b @ [x]) (bu_subs b) (bu_templates b),
          (case target of None \<Rightarrow> h | Some a \<Rightarrow> on_workflow a (\<lambda>w. w\<lparr>pw_assets := pw_assets w @ [x]\<rparr>) h)))"

definition append_task :: "nat \<Rightarrow> project_bundle \<Rightarrow> project_heap \<Rightarrow> project_bundle \<times> project_heap" where
  "append_task a b h =
     (Bundle (bu_project b) (bu_workflow b) (bu_tasks b @ [a]) (bu_assets b) (bu_subs b) (bu_templates b),
      (case bu_workflow b of None \<Rightarrow> h | Some w \<Rightarrow> on_workflow w (\<lambda>w. w\<lparr>pw_steps := pw_steps w @ [a]\<rparr>) h))"

section \<open>Tasks\<close>

definition task_method :: "project_task \<Rightarrow> string" where
  "task_method t = (if pt_action t \<noteq> [] then pt_service t @ '':'' @ pt_action t else [])"

definition is_workflow_run :: "project_task \<Rightarrow> bool" where
  "is_workflow_run t \<longleftrightarrow> task_method t = ''workflow:run''"

text \<open>\<open>unjson\<close> is \<open>json.Unmarshal\<close> into a map of texts.\<close>

definition task_data :: "(string \<Rightarrow> go_error + (string \<times> string) list) \<Rightarrow> project_task \<Rightarrow> (string \<times> string) list" where
  "task_data unjson t = (case unjson (pt_data t) of Inl e \<Rightarrow> [] | Inr m \<Rightarrow> m)"

definition set_id :: "string \<Rightarrow> string \<Rightarrow> project_task \<Rightarrow> project_task" where
  "set_id base name t = t\<lparr>pt_id := base @ ''/'' @ name, pt_tag := name\<rparr>"

section \<open>Writing of a task\<close>

text \<open>
  \<open>Node.Encode\<close> of a task: a mapping of the fields in their order, without those that are
  empty, under the names of their tags.
\<close>

definition text_field :: "string \<Rightarrow> string \<Rightarrow> ynode list" where
  "text_field key s = (if s = [] then [] else [text_node key, text_node s])"

definition bool_field :: "string \<Rightarrow> bool \<Rightarrow> ynode list" where
  "bool_field key b = (if b then [text_node key, YNode ScalarNode ''!!bool'' ''true'' []] else [])"

definition int_field :: "string \<Rightarrow> int \<Rightarrow> ynode list" where
  "int_field key i = (if i = 0 then [] else [text_node key, YNode ScalarNode ''!!int'' (show_int i) []])"

definition encode_extract :: "extract_rule \<Rightarrow> ynode" where
  "encode_extract x = YNode MappingNode ''!!map'' []
     (text_field ''regexpr'' (xr_regexpr x) @ text_field ''key'' (xr_key x) @
      bool_field ''reset'' (xr_reset x) @ bool_field ''required'' (xr_required x))"

definition encode_task :: "project_task \<Rightarrow> ynode" where
  "encode_task t = YNode MappingNode ''!!map'' []
     (text_field ''description'' (pt_description t) @ text_field ''when'' (pt_when t) @
      text_field ''exit'' (pt_exit t) @ text_field ''onError'' (pt_on_error t) @
      text_field ''deferred'' (pt_deferred t) @ text_field ''service'' (pt_service t) @
      text_field ''action'' (pt_action t) @ text_field ''uri'' (pt_input_uri t) @
      bool_field ''async'' (pt_async t) @ text_field ''skip'' (pt_skip t) @ bool_field ''fail'' (pt_fail t) @
      text_field ''subpath'' (pt_sub_path t) @ text_field ''range'' (pt_range t) @
      (if pt_extracts t = [] then []
       else [text_node ''extracts'', YNode SequenceNode ''!!seq'' [] (map encode_extract (pt_extracts t))]) @
      int_field ''sleepTimeMs'' (pt_sleep t) @ int_field ''thinkTimeMs'' (pt_think t) @
      (case pt_logging t of
         None \<Rightarrow> []
       | Some b \<Rightarrow> [text_node ''logging'', YNode ScalarNode ''!!bool'' (if b then ''true'' else ''false'') []]) @
      int_field ''repeat'' (pt_repeat t))"

text \<open>
  The copy of the task is the same pointer, so the task itself gets the service in its action.
  \<open>decode\<close> is \<open>json.Unmarshal\<close> into a value.
\<close>

definition prefix_action :: "project_task \<Rightarrow> project_task" where
  "prefix_action t =
     (let t' = (if pt_service t = ''workflow'' then t\<lparr>pt_service := []\<rparr> else t)
      in if pt_service t' \<noteq> [] then t'\<lparr>pt_action := pt_service t' @ '':'' @ pt_action t'\<rparr> else t')"

definition unquote :: "string \<Rightarrow> go_error + string" where
  "unquote s =
     (if has_prefix s [CHR 0x27] \<and> has_suffix s [CHR 0x27]
      then (if length s = 1 then Inl (Panicked ''slice bounds out of range'') else Inr (take (length s - 2) (drop 1 s)))
      else Inr s)"

definition marshal_structured ::
  "toolbox \<Rightarrow> (string \<Rightarrow> go_error + value) \<Rightarrow> string \<Rightarrow> string \<Rightarrow> ynode \<Rightarrow> go_error + ynode" where
  "marshal_structured tb decode key literal n =
     ebind (unquote literal) (\<lambda>text. ebind (decode text) (\<lambda>v.
       case v of
         VMap m \<Rightarrow> efold (\<lambda>(k, x). node_put tb k (AValue x)) m n
       | _ \<Rightarrow> node_put tb key (AValue v) n))"

definition put_if_set ::
  "toolbox \<Rightarrow> (string \<Rightarrow> go_error + value) \<Rightarrow> string \<Rightarrow> string \<Rightarrow> ynode \<Rightarrow> go_error + ynode" where
  "put_if_set tb decode key literal n = (if literal = [] then Inr n else marshal_structured tb decode key literal n)"

definition marshal_task :: "toolbox \<Rightarrow> (string \<Rightarrow> go_error + value) \<Rightarrow> project_task \<Rightarrow> go_error + ynode" where
  "marshal_task tb decode t =
     ebind (put_if_set tb decode ''input'' (pt_input t) (encode_task (prefix_action t))) (\<lambda>n.
     ebind (put_if_set tb decode ''variables'' (pt_variables t) n) (\<lambda>n.
     ebind (put_if_set tb decode ''data'' (pt_data t) n) (\<lambda>n.
     ebind (put_if_set tb decode ''post'' (pt_post t) n) (\<lambda>n.
       if pt_sub_path t \<noteq> [] then node_put tb ''template'' (ANode new_map) n else Inr n))))"

section \<open>Writing of a workflow\<close>

definition file_name :: "project_workflow \<Rightarrow> string" where
  "file_name w = (if path_ext (pw_uri w) \<noteq> [] then pw_uri w else pw_uri w @ ''.yaml'')"

definition adjust_variable :: "(string \<Rightarrow> go_error + value) \<Rightarrow> smap \<Rightarrow> value" where
  "adjust_variable decode decl =
     (let v = (case mget decl ''value'' of None \<Rightarrow> VNil | Some v \<Rightarrow> v)
      in case v of
           VStr s \<Rightarrow>
             let v' = (if s = ''null'' then VNil else v);
                 text = trim_char s (CHR 0x27);
                 as_value = (\<lambda>ok. case decode text of Inr x \<Rightarrow> (if ok x then x else v') | Inl e \<Rightarrow> v')
             in if has_prefix text ''{'' \<and> has_suffix text ''}'' \<and> is_ok (decode text) then as_value (\<lambda>_. True)
                else if has_prefix text ''['' \<and> has_suffix text '']'' then as_value (\<lambda>x. is_slice_value x)
                else v'
         | _ \<Rightarrow> v)"

definition put_declared ::
  "toolbox \<Rightarrow> (string \<Rightarrow> go_error + value) \<Rightarrow> value \<Rightarrow> ynode \<Rightarrow> go_error + ynode" where
  "put_declared tb decode item n =
     (case item of
        VMap decl \<Rightarrow>
          (case mget decl ''name'' of
             Some (VStr name) \<Rightarrow> node_put tb name (AValue (adjust_variable decode decl)) n
           | _ \<Rightarrow> Inl (Panicked ''interface conversion''))
      | _ \<Rightarrow> Inl (PlainErr (''unsupported variable declaration type: '' @ type_name item)))"

definition marshal_variables ::
  "toolbox \<Rightarrow> (string \<Rightarrow> go_error + value) \<Rightarrow> string \<Rightarrow> go_error + ynode" where
  "marshal_variables tb decode vars =
     ebind (decode vars) (\<lambda>v.
       case v of
         VSlice xs \<Rightarrow> efold (put_declared tb decode) xs new_map
       | _ \<Rightarrow> Inl (PlainErr (''unsupported variable type: '' @ type_name v)))"

text \<open>The position of the value that a lookup finds.\<close>

fun lookup_index :: "string \<Rightarrow> ynode list \<Rightarrow> go_error + nat option" where
  "lookup_index name [] = Inr None"
| "lookup_index name (n # ns) =
     (if y_value n = name then (if ns = [] then Inl out_of_range else Inr (Some 1))
      else ebind (lookup_index name ns) (\<lambda>r. Inr (map_option Suc r)))"

text \<open>An operation on the value that a lookup finds, in place; without one the pointer is nil.\<close>

definition on_lookup :: "string \<Rightarrow> (ynode \<Rightarrow> go_error + ynode \<times> 'a) \<Rightarrow> ynode \<Rightarrow> go_error + ynode \<times> 'a" where
  "on_lookup name f n =
     ebind (lookup_index name (y_content n)) (\<lambda>r.
       case r of
         None \<Rightarrow> Inl nil_pointer
       | Some i \<Rightarrow> ebind (f (y_content n ! i)) (\<lambda>(m, x).
           Inr (YNode (y_kind n) (y_tag n) (y_value n) ((y_content n)[i := m]), x)))"

definition wrap_marshal_error :: "string \<Rightarrow> go_error + 'a \<Rightarrow> go_error + 'a" where
  "wrap_marshal_error name r =
     (case r of
        Inl e \<Rightarrow> Inl (if is_panic e then e else PlainErr (''failed to marshal node: '' @ name @ '', '' @ error_text e))
      | Inr x \<Rightarrow> Inr x)"

text \<open>
  The steps of a parent and, inside of their nodes, those below them. The steps are changed while
  they are written. A recursion that is deeper than the number of steps visits one of them again,
  and never ends: it overflows the stack.
\<close>

primrec marshal_tasks ::
  "nat \<Rightarrow> toolbox \<Rightarrow> (string \<Rightarrow> go_error + value) \<Rightarrow> string \<Rightarrow> ynode \<Rightarrow> project_task list
     \<Rightarrow> go_error + ynode \<times> project_task list" where
  "marshal_tasks 0 tb decode parent holder steps = Inl (Panicked ''stack overflow'')"
| "marshal_tasks (Suc fuel) tb decode parent holder steps =
     efold (\<lambda>i (holder, steps).
       let t = steps ! i
       in if pt_parent t \<noteq> parent then Inr (holder, steps)
          else ebind (wrap_marshal_error (pt_tag t) (marshal_task tb decode t)) (\<lambda>n.
            let below = (\<lambda>m. marshal_tasks fuel tb decode (pt_id t) m (steps[i := prefix_action t]))
            in ebind (if pt_sub_path t \<noteq> [] then on_lookup ''template'' below n else below n) (\<lambda>(n, steps).
              ebind (node_put tb (pt_tag t) (ANode n) holder) (\<lambda>holder. Inr (holder, steps)))))
       [0..<length steps] (holder, steps)"

text \<open>The steps of a workflow, as values, and in the order of their positions.\<close>

definition marshal_workflow ::
  "toolbox \<Rightarrow> (string \<Rightarrow> go_error + value) \<Rightarrow> project_workflow \<Rightarrow> project_task list
     \<Rightarrow> go_error + ynode \<times> project_task list" where
  "marshal_workflow tb decode w steps =
     ebind (if pw_init w = [] then Inr new_map
            else ebind (marshal_variables tb decode (pw_init w)) (\<lambda>v. node_put tb ''init'' (ANode v) new_map)) (\<lambda>n.
     let sorted = sort_key pt_position steps
     in ebind (marshal_tasks (Suc (length sorted)) tb decode [] new_map sorted) (\<lambda>(holder, steps).
     ebind (node_put tb ''pipeline'' (ANode holder) n) (\<lambda>n.
     if pw_post w = [] then Inr (n, steps)
     else ebind (marshal_variables tb decode (pw_post w)) (\<lambda>v.
       ebind (node_put tb ''post'' (ANode v) n) (\<lambda>n. Inr (n, steps))))))"

end
