(* ===== verification/Project_Assets.thy ===== *)
theory Project_Assets
  imports Project_Model Tags "HOL-Library.List_Lexorder"
begin

text \<open>
  model/graph/asset.go, model/project/option and the session of the loader. \<open>project_env\<close> is what
  they use of viant/afs, of encoding/json and yaml.v3, and of toolbox; the options of the storage
  are left out, as the files do not change while a project is loaded.
\<close>

record project_env =
  pe_toolbox :: toolbox
  pe_urls :: urls
  pe_relative :: "string \<Rightarrow> bool"
  pe_equals :: "string \<Rightarrow> string \<Rightarrow> bool"
  pe_join :: "string \<Rightarrow> string list \<Rightarrow> string"
  pe_download :: "string \<Rightarrow> go_error + string"
  pe_exists :: "string \<Rightarrow> bool"
  pe_object :: "string \<Rightarrow> go_error + object"
  pe_list :: "string \<Rightarrow> go_error + object list"
  pe_yaml :: "string \<Rightarrow> go_error + ynode"
  pe_json :: "value \<Rightarrow> go_error + string"
  pe_texts :: "string \<Rightarrow> go_error + (string \<times> string) list"
  pe_task :: "smap \<Rightarrow> go_error + project_task"
  pe_regexp :: "string \<Rightarrow> go_error + (string \<Rightarrow> string list option)"

section \<open>The manager of assets\<close>

record graph_asset =
  ga_name :: string
  ga_uri :: string
  ga_object :: "object option"

record asset_manager =
  am_base_url :: string
  am_base_path :: string
  am_assets :: "(string \<times> graph_asset) list"

definition new_asset_manager :: "project_env \<Rightarrow> string \<Rightarrow> asset_manager" where
  "new_asset_manager e base = \<lparr>am_base_url = base, am_base_path = url_path (pe_urls e) base, am_assets = []\<rparr>"

definition put_asset :: "string \<Rightarrow> graph_asset \<Rightarrow> asset_manager \<Rightarrow> asset_manager" where
  "put_asset url x m = m\<lparr>am_assets := mput url x (am_assets m)\<rparr>"

text \<open>The path below the base: the slash behind the base is dropped without being looked at.\<close>

definition asset_uri :: "project_env \<Rightarrow> string \<Rightarrow> asset_manager \<Rightarrow> go_error + string" where
  "asset_uri e url m =
     (let path = url_path (pe_urls e) url
      in case index_of path (am_base_path m) of
           None \<Rightarrow> Inr path
         | Some i \<Rightarrow>
             (let start = i + length (am_base_path m) + 1
              in if length path < start then Inl (Panicked ''slice bounds out of range'') else Inr (drop start path)))"

definition load_asset_at :: "project_env \<Rightarrow> string \<Rightarrow> asset_manager \<Rightarrow> go_error + graph_asset \<times> asset_manager" where
  "load_asset_at e candidate m =
     ebind (pe_object e candidate) (\<lambda>ob. ebind (asset_uri e (ob_url ob) m) (\<lambda>uri.
       let ext = path_ext (ob_name ob);
           asset = \<lparr>ga_name = take (length (ob_name ob) - length ext) (ob_name ob), ga_uri = uri, ga_object = Some ob\<rparr>
       in Inr (asset, put_asset (ob_url ob) asset m)))"

definition load_workflow_asset ::
  "project_env \<Rightarrow> string \<Rightarrow> asset_manager \<Rightarrow> go_error + graph_asset option \<times> asset_manager" where
  "load_workflow_asset e url m =
     (case load_asset_at e url m of
        Inl err \<Rightarrow> if is_panic err then Inl err else Inr (None, m)
      | Inr (asset, m') \<Rightarrow>
          (let bare = (\<lambda>u. \<lparr>ga_name = [], ga_uri = u, ga_object = None\<rparr>);
               parent = fst (url_split (pe_urls e) url)
           in Inr (Some asset, put_asset parent (bare parent) (put_asset url (bare url) m'))))"

fun load_first_asset ::
  "project_env \<Rightarrow> string \<Rightarrow> string list \<Rightarrow> asset_manager \<Rightarrow> go_error + graph_asset \<times> bool \<times> asset_manager" where
  "load_first_asset e loc [] m = Inl (PlainErr (''failed to load asset: '' @ loc))"
| "load_first_asset e loc (c # cs) m =
     (case mget (am_assets m) c of
        Some x \<Rightarrow> Inr (x, False, m)
      | None \<Rightarrow>
          (case load_asset_at e c m of
             Inl err \<Rightarrow> if is_panic err then Inl err else load_first_asset e loc cs m
           | Inr (x, m') \<Rightarrow> Inr (x, True, m')))"

definition asset_extensions :: "string list" where
  "asset_extensions = [''.json'', ''.yaml'', ''.yml'', ''.txt'', []]"

definition load_asset :: "project_env \<Rightarrow> string \<Rightarrow> asset_manager \<Rightarrow> go_error + graph_asset \<times> bool \<times> asset_manager" where
  "load_asset e loc m =
     (let url = (if pe_relative e loc then pe_join e (am_base_url m) [loc] else loc)
      in load_first_asset e loc (map (\<lambda>ext. url @ ext) (if path_ext loc \<noteq> [] then [[]] else asset_extensions)) m)"

section \<open>Options\<close>

text \<open>\<open>WithAssetsManager\<close> passes on the manager that is loaded with, of which there is one.\<close>

datatype loader_option =
    WithDependencies bool
  | WithAssets bool
  | WithURI string
  | WithProjectID string
  | WithTemplate string
  | WithBaseURL string
  | WithIsRoot bool
  | WithAssetsManager
  | WithParentWorkflowID string
  | WithInstance tag_instance

record loader_options =
  lo_dependencies :: bool
  lo_assets :: bool
  lo_opts :: "loader_option list"
  lo_project :: string
  lo_uri :: string
  lo_template :: string
  lo_base_url :: string
  lo_parent :: string
  lo_instance :: "tag_instance option"
  lo_manager :: bool
  lo_root :: "bool option"

fun apply_option :: "loader_option \<Rightarrow> loader_options \<Rightarrow> loader_options" where
  "apply_option (WithDependencies b) q = q\<lparr>lo_dependencies := b\<rparr>"
| "apply_option (WithAssets b) q = q\<lparr>lo_assets := b\<rparr>"
| "apply_option (WithURI s) q = q\<lparr>lo_uri := s\<rparr>"
| "apply_option (WithProjectID s) q = q\<lparr>lo_project := s\<rparr>"
| "apply_option (WithTemplate s) q = q\<lparr>lo_template := s\<rparr>"
| "apply_option (WithBaseURL s) q = q\<lparr>lo_base_url := s\<rparr>"
| "apply_option (WithIsRoot b) q = q\<lparr>lo_root := Some b\<rparr>"
| "apply_option WithAssetsManager q = q\<lparr>lo_manager := True\<rparr>"
| "apply_option (WithParentWorkflowID s) q = q\<lparr>lo_parent := s\<rparr>"
| "apply_option (WithInstance i) q = q\<lparr>lo_instance := Some i\<rparr>"

definition new_options :: "loader_option list \<Rightarrow> loader_options" where
  "new_options opts =
     (let q = fold apply_option opts
            \<lparr>lo_dependencies = False, lo_assets = False, lo_opts = opts, lo_project = [], lo_uri = [], lo_template = [],
             lo_base_url = [], lo_parent = [], lo_instance = None, lo_manager = False, lo_root = None\<rparr>
      in if lo_root q = None then q\<lparr>lo_root := Some True\<rparr> else q)"

definition is_root :: "loader_options \<Rightarrow> bool" where
  "is_root q = (case lo_root q of None \<Rightarrow> False | Some b \<Rightarrow> b)"

definition extended_options :: "loader_options \<Rightarrow> loader_option list \<Rightarrow> loader_option list" where
  "extended_options q opts = lo_opts q @ opts"

section \<open>Sessions\<close>

record load_session =
  ss_base_url :: string
  ss_bundle :: project_bundle
  ss_task_index :: "(string \<times> int) list"
  ss_sub_workflows :: "string list"
  ss_templates :: "string list"
  ss_options :: loader_options

text \<open>What the sessions share: the tasks and workflows, and the manager.\<close>

record load_state =
  ls_heap :: project_heap
  ls_assets :: asset_manager

definition workflow_id :: "project_env \<Rightarrow> load_session \<Rightarrow> string" where
  "workflow_id e s = pe_join e (lo_project (ss_options s)) [lo_uri (ss_options s)]"

definition with_workflow :: "nat \<Rightarrow> project_bundle \<Rightarrow> project_bundle" where
  "with_workflow a b = Bundle (bu_project b) (Some a) (bu_tasks b) (bu_assets b) (bu_subs b) (bu_templates b)"

definition new_workflow ::
  "project_env \<Rightarrow> string \<Rightarrow> graph_asset option \<Rightarrow> load_session \<Rightarrow> load_state \<Rightarrow> go_error + nat \<times> load_session \<times> load_state" where
  "new_workflow e name asset s st =
     (case asset of
        None \<Rightarrow> Inl nil_pointer
      | Some x \<Rightarrow>
          (let s' = s\<lparr>ss_options := (ss_options s)\<lparr>lo_uri := ga_uri x\<rparr>\<rparr>;
               h = ls_heap st;
               a = ph_next_workflow h;
               w = empty_workflow\<lparr>pw_name := name, pw_uri := ga_uri x, pw_template := lo_template (ss_options s'),
                     pw_id := workflow_id e s', pw_project := bu_project (ss_bundle s)\<rparr>
           in Inr (a, s'\<lparr>ss_bundle := with_workflow a (ss_bundle s)\<rparr>,
                   st\<lparr>ls_heap := h\<lparr>ph_workflows := (ph_workflows h)(a := w), ph_next_workflow := Suc a\<rparr>\<rparr>)))"

definition project_id :: "project_env \<Rightarrow> loader_options \<Rightarrow> string" where
  "project_id e q =
     (if lo_project q \<noteq> [] then lo_project q
      else let (ancestor, i) = url_split (pe_urls e) (lo_base_url q)
           in if i = ''e2e'' then snd (url_split (pe_urls e) ancestor) else i)"

definition new_session :: "project_env \<Rightarrow> loader_options \<Rightarrow> string \<Rightarrow> load_state \<Rightarrow> load_session \<times> load_state" where
  "new_session e q url st =
     (let q = (if lo_base_url q = [] then q\<lparr>lo_base_url := fst (url_split (pe_urls e) url)\<rparr> else q);
          q = q\<lparr>lo_project := project_id e q\<rparr>
      in (\<lparr>ss_base_url = lo_base_url q, ss_bundle = Bundle (lo_project q) None [] [] [] [], ss_task_index = [],
           ss_sub_workflows = [], ss_templates = [], ss_options = q\<lparr>lo_manager := True\<rparr>\<rparr>,
          if lo_manager q then st else st\<lparr>ls_assets := new_asset_manager e (lo_base_url q)\<rparr>))"

end
