(* ===== verification/Project_Loader.thy ===== *)
theory Project_Loader
  imports Project_Assets
begin

text \<open>
  model/project/loader/service.go: loading of a project with the workflows, templates and assets
  it depends on. A load may load itself, and directories are walked, so both have fuel;
  \<open>out_of_fuel\<close> is no outcome of the code. A failing operation gives no session.
\<close>

definition out_of_fuel :: go_error where
  "out_of_fuel = Panicked ''out of fuel''"

type_synonym loading = "load_session \<times> load_state"

section \<open>Tasks\<close>

definition split_action :: "project_task \<Rightarrow> project_task" where
  "split_action t =
     (let t' = (if pt_action t = [] then t
                else case index_of (pt_action t) '':'' of
                  None \<Rightarrow> t
                | Some i \<Rightarrow> t\<lparr>pt_service := take i (pt_action t), pt_action := drop (i + 1) (pt_action t)\<rparr>)
      in if pt_service t' = [] \<and> pt_action t' \<noteq> [] then t'\<lparr>pt_service := ''workflow''\<rparr> else t')"

definition task_position :: "string \<Rightarrow> load_session \<Rightarrow> int" where
  "task_position parent s = (case mget (ss_task_index s) parent of None \<Rightarrow> 0 | Some i \<Rightarrow> i)"

definition session_workflow :: "load_session \<Rightarrow> load_state \<Rightarrow> go_error + project_workflow" where
  "session_workflow s st =
     (case bu_workflow (ss_bundle s) of None \<Rightarrow> Inl nil_pointer | Some a \<Rightarrow> Inr (ph_workflows (ls_heap st) a))"

definition add_task :: "project_task \<Rightarrow> loading \<Rightarrow> nat \<times> loading" where
  "add_task t c =
     (case c of (s, st) \<Rightarrow>
        let h = ls_heap st;
            a = ph_next_task h;
            (b, h') = append_task a (ss_bundle s) (h\<lparr>ph_tasks := (ph_tasks h)(a := t), ph_next_task := Suc a\<rparr>)
        in (a, s\<lparr>ss_bundle := b, ss_task_index := mput (pt_parent t) (1 + pt_position t) (ss_task_index s)\<rparr>,
            st\<lparr>ls_heap := h'\<rparr>))"

definition new_task ::
  "project_env \<Rightarrow> string \<Rightarrow> graph_node \<Rightarrow> smap \<Rightarrow> string \<Rightarrow> string \<Rightarrow> loading \<Rightarrow> go_error + nat \<times> loading" where
  "new_task e name n m base parent c =
     (case c of (s, st) \<Rightarrow>
        ebind (pe_task e m) (\<lambda>t.
        ebind (session_workflow s st) (\<lambda>w.
        ebind (variables (pe_toolbox e) (pe_json e) ''init'' n) (\<lambda>init.
        ebind (variables (pe_toolbox e) (pe_json e) ''post'' n) (\<lambda>post.
          let t = set_id base name t;
              t = (case lo_instance (ss_options s) of
                     None \<Rightarrow> t | Some i \<Rightarrow> t\<lparr>pt_instance_index := gi_index i, pt_instance_tag := gi_tag i\<rparr>);
              t = split_action t
          in Inr (add_task (t\<lparr>pt_parent := parent, pt_workflow_id := pw_id w, pt_init := init, pt_post := post,
                    pt_position := task_position parent s\<rparr>) c))))))"

definition change_task :: "nat \<Rightarrow> (project_task \<Rightarrow> project_task) \<Rightarrow> loading \<Rightarrow> loading" where
  "change_task a f c = (case c of (s, st) \<Rightarrow> (s, st\<lparr>ls_heap := on_task a f (ls_heap st)\<rparr>))"

definition task_at :: "nat \<Rightarrow> loading \<Rightarrow> project_task" where
  "task_at a c = ph_tasks (ls_heap (snd c)) a"

text \<open>The only attribute of the request, when it is its input.\<close>

definition request_input :: "value \<Rightarrow> value option" where
  "request_input request =
     (case request of
        VMap [(k, v)] \<Rightarrow> if k = ''input'' \<or> k = ''request'' then Some v else None
      | _ \<Rightarrow> None)"

definition set_input :: "project_env \<Rightarrow> value \<Rightarrow> project_task \<Rightarrow> go_error + project_task" where
  "set_input e request t =
     (case request_input request of
        None \<Rightarrow> Inr t
      | Some v \<Rightarrow>
          (let text = as_string (pe_toolbox e) v
           in if \<not> has_prefix text ''@'' then Inr t
              else if \<not> is_workflow_run t then Inr (t\<lparr>pt_input := text\<rparr>)
              else case v of
                VStr uri \<Rightarrow>
                  Inr (if uri \<noteq> [] then t\<lparr>pt_input := [], pt_input_uri := trim_left uri (CHR ''@'')\<rparr>
                       else t\<lparr>pt_input := text\<rparr>)
              | _ \<Rightarrow> Inl (Panicked ''interface conversion'')))"

definition schedule_run :: "project_task \<Rightarrow> load_session \<Rightarrow> load_session" where
  "schedule_run t s =
     (if pt_input_uri t = [] \<or> \<not> is_workflow_run t then s
      else if pt_is_template t then s\<lparr>ss_templates := ss_templates s @ [pt_input_uri t]\<rparr>
      else s\<lparr>ss_sub_workflows := ss_sub_workflows s @ [pt_input_uri t]\<rparr>)"

definition transfer_action ::
  "project_env \<Rightarrow> string \<Rightarrow> graph_node \<Rightarrow> string \<Rightarrow> string \<Rightarrow> loading \<Rightarrow> go_error + loading" where
  "transfer_action e name n base parent c =
     ebind (action_map n) (\<lambda>m. ebind (new_task e name n m base parent c) (\<lambda>(a, c).
     ebind (node_request (pe_toolbox e) n) (\<lambda>request.
     ebind (set_input e request ((task_at a c)\<lparr>pt_is_template := gn_is_template n\<rparr>)) (\<lambda>t.
       let c = change_task a (\<lambda>_. t) c;
           c = (schedule_run t (fst c), snd c)
       in if pt_input_uri t \<noteq> [] then Inr c
          else ebind (pe_json e request) (\<lambda>text. Inr (change_task a (\<lambda>t. t\<lparr>pt_input := text\<rparr>) c))))))"

text \<open>The tasks below a node; \<open>expandable\<close> loads the instances of a template.\<close>

definition task_prefix :: "string \<Rightarrow> loading \<Rightarrow> go_error + string" where
  "task_prefix parent c =
     (if parent \<noteq> [] then Inr parent else ebind (session_workflow (fst c) (snd c)) (\<lambda>w. Inr (pw_id w)))"

lemma template_node_smaller: "template_node n = Inr (Some t) \<Longrightarrow> size (gn_node t) < size (gn_node n)"
  by (auto simp: template_node_def ebind_Inr_iff dest: node_lookup_smaller)

function transfer_tasks ::
  "project_env \<Rightarrow> (nat \<Rightarrow> loading \<Rightarrow> go_error + loading) \<Rightarrow> string \<Rightarrow> graph_node \<Rightarrow> loading \<Rightarrow> go_error + loading" where
  "transfer_tasks e expandable parent n c =
     ebind (task_prefix parent c) (\<lambda>base.
       tasks (\<lambda>name x c.
         case gn_type x of
           TypeTask \<Rightarrow>
             ebind (task_map x) (\<lambda>m. ebind (new_task e name x m base parent c) (\<lambda>(a, c).
             ebind (node_data (pe_json e) x) (\<lambda>data.
               let c = change_task a (\<lambda>t. t\<lparr>pt_data := data\<rparr>) c;
                   i = pt_id (task_at a c)
               in case template_node x of
                    Inl err \<Rightarrow> Inl err
                  | Inr None \<Rightarrow> transfer_tasks e expandable i x c
                  | Inr (Some t) \<Rightarrow> ebind (transfer_tasks e expandable i t c) (expandable a))))
         | TypeAction \<Rightarrow> transfer_action e name x base parent c
         | _ \<Rightarrow> Inl (PlainErr ''unsupported task type'')) n c)"
  by pat_completeness auto
termination
  by (relation "measure (\<lambda>(e, f, parent, n, c). size (gn_node n))") (auto dest: template_node_smaller)

section \<open>Assets\<close>

definition asset_is_dir :: "graph_asset \<Rightarrow> go_error + object" where
  "asset_is_dir x = (case ga_object x of None \<Rightarrow> Inl nil_pointer | Some ob \<Rightarrow> Inr ob)"

definition new_workflow_asset ::
  "project_env \<Rightarrow> object \<Rightarrow> loading \<Rightarrow> go_error + project_asset option \<times> loading" where
  "new_workflow_asset e ob c =
     (case c of (s, st) \<Rightarrow>
        case load_asset e (ob_url ob) (ls_assets st) of
          Inl err \<Rightarrow> if is_panic err then Inl err else Inr (None, c)
        | Inr (x, is_new, m) \<Rightarrow>
            (let c = (s, st\<lparr>ls_assets := m\<rparr>)
             in if \<not> is_new then Inr (None, c)
                else ebind (session_workflow s st) (\<lambda>w. ebind (asset_is_dir x) (\<lambda>xob.
                  Inr (Some \<lparr>pa_id = bu_project (ss_bundle s) @ ''/'' @ ga_uri x, pa_location = ga_uri x,
                         pa_workflow_id = pw_id w, pa_dir = ob_dir xob, pa_template = [], pa_instance_index = 0,
                         pa_instance_tag = [],
                         pa_source = (case pe_download e (ob_url ob) of Inl err \<Rightarrow> None | Inr d \<Rightarrow> Some d),
                         pa_format = []\<rparr>, c)))))"

definition add_asset :: "project_asset \<Rightarrow> loading \<Rightarrow> loading" where
  "add_asset x c =
     (case c of (s, st) \<Rightarrow> case append_asset x (ss_bundle s) (ls_heap st) of (b, h) \<Rightarrow>
        (s\<lparr>ss_bundle := b\<rparr>, st\<lparr>ls_heap := h\<rparr>))"

primrec transfer_assets :: "nat \<Rightarrow> project_env \<Rightarrow> string \<Rightarrow> loading \<Rightarrow> go_error + loading" where
  "transfer_assets 0 e url c = Inl out_of_fuel"
| "transfer_assets (Suc fuel) e url c =
     ebind (pe_list e url) (\<lambda>objects. efold (\<lambda>ob c.
       if pe_equals e (ob_url ob) url then Inr c
       else ebind (new_workflow_asset e ob c) (\<lambda>(asset, c).
         case asset of
           None \<Rightarrow> Inr c
         | Some x \<Rightarrow> ebind (if ob_dir ob then transfer_assets fuel e (ob_url ob) c else Inr c) (\<lambda>c.
             Inr (add_asset x c)))) objects c)"

definition new_template_asset ::
  "project_env \<Rightarrow> project_task \<Rightarrow> graph_asset \<Rightarrow> tag_instance \<Rightarrow> loading \<Rightarrow> go_error + project_asset" where
  "new_template_asset e t x inst c =
     ebind (asset_is_dir x) (\<lambda>ob. ebind (session_workflow (fst c) (snd c)) (\<lambda>w.
       Inr \<lparr>pa_id = pw_id w @ ''/'' @ ga_uri x, pa_location = ga_uri x, pa_workflow_id = pw_id w, pa_dir = ob_dir ob,
            pa_template = pt_tag t, pa_instance_index = gi_index inst, pa_instance_tag = gi_tag inst,
            pa_source = (if ob_dir ob then None else case pe_download e (ob_url ob) of Inl err \<Rightarrow> None | Inr d \<Rightarrow> Some d),
            pa_format = path_ext (ob_name ob)\<rparr>))"

primrec load_instance_asset ::
  "nat \<Rightarrow> project_env \<Rightarrow> project_task \<Rightarrow> tag_instance \<Rightarrow> string \<Rightarrow> loading \<Rightarrow> go_error + loading" where
  "load_instance_asset 0 e t inst url c = Inl out_of_fuel"
| "load_instance_asset (Suc fuel) e t inst url c =
     (case c of (s, st) \<Rightarrow>
        case load_asset e url (ls_assets st) of
          Inl err \<Rightarrow> if is_panic err then Inl err else Inr c
        | Inr (x, is_new, m) \<Rightarrow>
            (let c = (s, st\<lparr>ls_assets := m\<rparr>)
             in ebind (new_template_asset e t x inst c) (\<lambda>asset. ebind (asset_is_dir x) (\<lambda>xob.
               let c = add_asset asset c
               in if \<not> pa_dir asset then Inr c
                  else case pe_list e (ob_url xob) of
                    Inl err \<Rightarrow> Inr c
                  | Inr objects \<Rightarrow> efold (\<lambda>ob c.
                      if pe_equals e (ob_url xob) (ob_url ob) then Inr c
                      else load_instance_asset fuel e t inst (ob_url ob) c) objects c))))"

section \<open>Templates\<close>

text \<open>\<open>run\<close> loads a nested bundle.\<close>

type_synonym nested_load = "string \<Rightarrow> loader_option list \<Rightarrow> load_state \<Rightarrow> go_error + project_bundle \<times> load_state"

definition instance_uri :: "project_env \<Rightarrow> string \<Rightarrow> string \<Rightarrow> string \<Rightarrow> go_error + string" where
  "instance_uri e base url name =
     (case index_of url base of
        None \<Rightarrow> Inr []
      | Some i \<Rightarrow>
          (if length url < 1 + i + length base then Inl (Panicked ''slice bounds out of range'')
           else Inr (pe_join e (drop (1 + i + length base) url) [name])))"

definition add_template :: "string \<Rightarrow> project_bundle \<Rightarrow> project_bundle \<Rightarrow> project_bundle" where
  "add_template tag t b =
     Bundle (bu_project b) (bu_workflow b) (bu_tasks b) (bu_assets b) (bu_subs b)
       (mput tag ((case mget (bu_templates b) tag of None \<Rightarrow> [] | Some bs \<Rightarrow> bs) @ [t]) (bu_templates b))"

text \<open>A load that fails gives no bundle, which is dereferenced before its error is looked at.\<close>

definition load_template_workflow ::
  "project_env \<Rightarrow> nested_load \<Rightarrow> nat \<Rightarrow> tag_instance \<Rightarrow> string \<Rightarrow> loading \<Rightarrow> go_error + loading" where
  "load_template_workflow e run a inst name c =
     (case c of (s, st) \<Rightarrow>
        let candidate = pe_join e (ob_url (gi_object inst)) [name @ ''.yaml'']
        in if \<not> pe_exists e candidate then Inr c
           else ebind (instance_uri e (ss_base_url s) (ob_url (gi_object inst)) name) (\<lambda>uri.
             ebind (session_workflow s st) (\<lambda>w.
             let opts = extended_options (ss_options s)
                   [WithProjectID (bu_project (ss_bundle s)), WithTemplate name, WithInstance inst, WithIsRoot False,
                    WithParentWorkflowID (pw_id w), WithAssetsManager, WithBaseURL (ss_base_url s), WithURI uri]
             in case run candidate opts st of
                  Inl err \<Rightarrow> Inl (if is_panic err then err else nil_pointer)
                | Inr (b, st) \<Rightarrow>
                    (case bu_workflow b of
                       None \<Rightarrow> Inl nil_pointer
                     | Some wa \<Rightarrow>
                         (let tag = pt_tag (task_at a (s, st))
                          in Inr (s\<lparr>ss_bundle := add_template tag b (ss_bundle s)\<rparr>,
                               st\<lparr>ls_heap := on_workflow wa (\<lambda>w. w\<lparr>pw_template := tag,
                                   pw_instance_index := gi_index inst, pw_instance_tag := gi_tag inst\<rparr>) (ls_heap st)\<rparr>))))))"

definition load_template_instance ::
  "nat \<Rightarrow> project_env \<Rightarrow> nested_load \<Rightarrow> nat \<Rightarrow> tag_instance \<Rightarrow> loading \<Rightarrow> go_error + loading" where
  "load_template_instance fuel e run a inst c =
     ebind (efold (load_template_workflow e run a inst) (ss_templates (fst c)) c) (\<lambda>c.
       let t = task_at a c
       in efold (\<lambda>(k, name) c.
            let name = (if has_prefix name ''@'' then drop 1 name else name)
            in load_instance_asset fuel e t inst (pe_join e (ob_url (gi_object inst)) [name]) c)
          (task_data (pe_texts e) t) c)"

definition load_template ::
  "nat \<Rightarrow> project_env \<Rightarrow> nested_load \<Rightarrow> nat \<Rightarrow> instances \<Rightarrow> loading \<Rightarrow> go_error + loading" where
  "load_template fuel e run a insts c =
     ebind (case pe_object e (pe_join e (ss_base_url (fst c)) [''default'']) of
              Inl err \<Rightarrow> Inr c
            | Inr ob \<Rightarrow> load_template_instance fuel e run a
                \<lparr>gi_object = ob, gi_tag = ''default'', gi_match = [], gi_index = 0\<rparr> c)
       (efold (load_template_instance fuel e run a) (is_list insts))"

definition template_url :: "project_env \<Rightarrow> project_task \<Rightarrow> project_workflow \<Rightarrow> string \<Rightarrow> string" where
  "template_url e t w base =
     (let url = pe_join e base [pt_sub_path t]
      in if \<not> pe_exists e (fst (url_split (pe_urls e) url)) \<and> pe_relative e (pw_uri w)
         then (case index_of (pw_uri w) ''/'' of
                 None \<Rightarrow> url
               | Some i \<Rightarrow> pe_join e base [take i (pw_uri w), pt_sub_path t])
         else url)"

text \<open>The error of the listing is dropped.\<close>

definition transfer_expandable ::
  "nat \<Rightarrow> project_env \<Rightarrow> nested_load \<Rightarrow> nat \<Rightarrow> loading \<Rightarrow> go_error + loading" where
  "transfer_expandable fuel e run a c =
     (let t = task_at a c
      in if pt_sub_path t = [] then Inr c
         else ebind (session_workflow (fst c) (snd c)) (\<lambda>w.
           case url_split (pe_urls e) (template_url e t w (ss_base_url (fst c))) of (parent, name) \<Rightarrow>
             case pe_object e parent of
               Inl err \<Rightarrow> Inl (if is_panic err then err
                   else PlainErr (''invalid template subpath: '' @ parent @ '', '' @ error_text err))
             | Inr holder \<Rightarrow>
                 (let objects = (case pe_list e parent of Inl err \<Rightarrow> [] | Inr obs \<Rightarrow> sort_key ob_name obs)
                  in ebind (new_instances (pe_toolbox e) (pe_equals e) (pe_regexp e) (ob_url holder) name objects)
                       (\<lambda>insts. load_template fuel e run a insts c))))"

section \<open>Workflows and their dependencies\<close>

definition transfer_workflow ::
  "nat \<Rightarrow> project_env \<Rightarrow> nested_load \<Rightarrow> string \<Rightarrow> graph_node \<Rightarrow> loading \<Rightarrow> go_error + loading" where
  "transfer_workflow fuel e run url n c =
     (case c of (s, st) \<Rightarrow>
        ebind (load_workflow_asset e url (ls_assets st)) (\<lambda>(asset, m).
        ebind (new_workflow e (gn_name n) asset s (st\<lparr>ls_assets := m\<rparr>)) (\<lambda>(a, s, st).
        ebind (variables (pe_toolbox e) (pe_json e) ''init'' n) (\<lambda>init.
        ebind (variables (pe_toolbox e) (pe_json e) ''post'' n) (\<lambda>post.
          transfer_tasks e (transfer_expandable fuel e run) [] n
            (s, st\<lparr>ls_heap := on_workflow a (\<lambda>w. w\<lparr>pw_parent := lo_parent (ss_options s), pw_init := init,
                 pw_post := post\<rparr>) (ls_heap st)\<rparr>))))))"

definition parent_uri :: "string \<Rightarrow> string" where
  "parent_uri uri =
     (if to_lower (path_ext uri) = ''.yaml''
      then (case last_index_of uri ''/'' of None \<Rightarrow> [] | Some i \<Rightarrow> take i uri) else [])"

definition add_sub :: "project_bundle \<Rightarrow> project_bundle \<Rightarrow> project_bundle" where
  "add_sub sub b = Bundle (bu_project b) (bu_workflow b) (bu_tasks b) (bu_assets b) (bu_subs b @ [sub]) (bu_templates b)"

definition transfer_dependency ::
  "project_env \<Rightarrow> nested_load \<Rightarrow> string \<Rightarrow> string \<Rightarrow> loading \<Rightarrow> go_error + loading" where
  "transfer_dependency e run parent scheduled c =
     (case c of (s, st) \<Rightarrow>
        let base = ss_base_url s;
            plain = (parent = [] \<or> has_prefix scheduled parent);
            url = (if plain then pe_join e base [scheduled @ ''.yaml'']
                   else pe_join e base [parent, scheduled @ ''.yaml'']);
            uri = (if plain then scheduled else pe_join e parent [scheduled])
        in ebind (session_workflow s st) (\<lambda>w.
           ebind (run url (extended_options (ss_options s)
              [WithIsRoot False, WithProjectID (pw_project w), WithAssetsManager, WithParentWorkflowID (pw_id w),
               WithBaseURL base, WithURI uri]) st) (\<lambda>(sub, st).
           case bu_workflow sub of
             None \<Rightarrow> Inl nil_pointer
           | Some a \<Rightarrow> Inr (s\<lparr>ss_bundle := add_sub sub (ss_bundle s)\<rparr>,
               st\<lparr>ls_heap := on_workflow a (\<lambda>w. w\<lparr>pw_position := int (length (bu_subs (ss_bundle s)))\<rparr>)
                  (ls_heap st)\<rparr>))))"

definition transfer_dependencies :: "project_env \<Rightarrow> nested_load \<Rightarrow> string \<Rightarrow> loading \<Rightarrow> go_error + loading" where
  "transfer_dependencies e run uri c =
     efold (transfer_dependency e run (parent_uri uri)) (ss_sub_workflows (fst c)) c"

section \<open>Loading\<close>

text \<open>Every workflow with a parent in the bundle is added to it.\<close>

definition link_workflow :: "project_bundle \<Rightarrow> nat option \<Rightarrow> project_heap \<Rightarrow> go_error + project_heap" where
  "link_workflow b w h =
     (case w of
        None \<Rightarrow> Inl nil_pointer
      | Some a \<Rightarrow>
          Inr (if pw_parent (ph_workflows h a) = [] then h
               else case find_workflow h (pw_parent (ph_workflows h a)) b of
                 None \<Rightarrow> h
               | Some p \<Rightarrow> on_workflow p (\<lambda>w. w\<lparr>pw_workflows := pw_workflows w @ [a]\<rparr>) h))"

definition link_workflows :: "project_bundle \<Rightarrow> project_heap \<Rightarrow> go_error + project_heap" where
  "link_workflows b h = efold (link_workflow b) (bundle_workflows b) h"

definition own_assets :: "nat \<Rightarrow> project_env \<Rightarrow> string \<Rightarrow> loading \<Rightarrow> go_error + loading" where
  "own_assets fuel e url c =
     (let parent = fst (url_split (pe_urls e) url)
      in if lo_assets (ss_options (fst c)) \<and> \<not> has_suffix parent ''default'' \<and>
            (\<not> pe_equals e (ss_base_url (fst c)) parent \<or> is_root (ss_options (fst c)))
         then transfer_assets fuel e parent c else Inr c)"

primrec load_project ::
  "nat \<Rightarrow> project_env \<Rightarrow> string \<Rightarrow> loader_option list \<Rightarrow> load_state \<Rightarrow> go_error + project_bundle \<times> load_state" where
  "load_project 0 e url opts st = Inl out_of_fuel"
| "load_project (Suc fuel) e url opts st =
     (let url = url_normalize (pe_urls e) url;
          run = load_project fuel e
      in case new_session e (new_options opts) url st of (s, st) \<Rightarrow>
           ebind (load_workflow_node (pe_urls e) (pe_download e) (pe_yaml e) url) (\<lambda>n.
           ebind (transfer_workflow fuel e run url n (s, st)) (\<lambda>c.
           ebind (session_workflow (fst c) (snd c)) (\<lambda>w.
           ebind (if lo_dependencies (ss_options (fst c)) then transfer_dependencies e run (pw_uri w) c else Inr c) (\<lambda>c.
           ebind (own_assets fuel e url c) (\<lambda>c.
           ebind (link_workflows (ss_bundle (fst c)) (ls_heap (snd c))) (\<lambda>h.
             Inr (ss_bundle (fst c), (snd c)\<lparr>ls_heap := h\<rparr>))))))))"

end
