(* ===== verification/Project_Props.thy ===== *)
theory Project_Props
  imports Project_Loader
begin

text \<open>
  What the project model promises: the types of the nodes of a workflow, the order in which a
  workflow is written, that its tasks are found again, and how a load numbers its tasks.
\<close>

section \<open>Values\<close>


definition plain_toolbox :: toolbox where
  "plain_toolbox = \<lparr>
     as_string = (\<lambda>v. case v of VStr s \<Rightarrow> s | VInt i \<Rightarrow> show_int i | VBool b \<Rightarrow> (if b then ''true'' else ''false'') | _ \<Rightarrow> []),
     as_bool = (\<lambda>v. v = VStr ''true''),
     as_int = (\<lambda>v. case v of VStr s \<Rightarrow> if take 1 s = ''-'' then - int (decimal (drop 1 s) 0) else int (decimal s 0) | _ \<Rightarrow> 0),
     as_float = (\<lambda>_. FNaN), as_map = (\<lambda>_. []), tb_put = (\<lambda>a k v h. h), tb_get = (\<lambda>h a k. VNil),
     tb_has = (\<lambda>h a k. False), tb_delete = (\<lambda>a k h. h), tb_apply = (\<lambda>a m h. h), tb_get_map = (\<lambda>h a k. []),
     get_value = (\<lambda>h a k. (VNil, False)), set_value = (\<lambda>a k v h. h), expand = (\<lambda>h a v. v), expand_text = (\<lambda>h a s. s)\<rparr>"

lemma plain_toolbox_laws: "text_laws plain_toolbox"
proof -
  have "as_int plain_toolbox (VStr (nat_digits n)) = int n" for n
  proof -
    obtain c s where c: "nat_digits n = c # s" using nat_digits_nonempty [of n] by (cases "nat_digits n") auto
    then have "is_digit c" using nat_digits_digit [of c n] by simp
    then have "c \<noteq> CHR ''-''" by (auto simp: is_digit_def)
    with c decimal_nat_digits [of n] show ?thesis by (simp add: plain_toolbox_def)
  qed
  moreover have "as_int plain_toolbox (VStr (CHR ''-'' # nat_digits n)) = - int n" for n
    by (simp add: plain_toolbox_def decimal_nat_digits)
  ultimately have "as_int plain_toolbox (VStr (show_int i)) = i" for i by (simp add: show_int_def)
  then show ?thesis by (simp add: text_laws_def) (simp add: plain_toolbox_def)
qed


section \<open>The tasks of a node\<close>

definition collect_tasks :: "graph_node \<Rightarrow> go_error + (string \<times> graph_node) list" where
  "collect_tasks n = tasks (\<lambda>key x acc. Inr (acc @ [(key, x)])) n []"

fun node_keys :: "ynode list \<Rightarrow> string list" where
  "node_keys (k # v # rest) = y_value k # node_keys rest"
| "node_keys _ = []"

definition child_of :: "node_type \<Rightarrow> bool \<Rightarrow> string \<times> graph_node \<Rightarrow> bool" where
  "child_of t b p \<longleftrightarrow> gn_name (snd p) = fst p \<and> gn_is_template (snd p) = b \<and>
     (\<exists>action. node_lookup ''action'' (gn_node (snd p)) = Inr action \<and>
        gn_type (snd p) = (if action \<noteq> None then TypeAction else t))"

lemma pairs_collect:
  "pairs_of (on_child t b (\<lambda>key x acc. Inr (acc @ [(key, x)]))) ns acc = Inr r \<Longrightarrow>
   \<exists>xs. r = acc @ xs \<and> map fst xs = node_keys ns \<and> list_all (child_of t b) xs"
proof (induction ns arbitrary: acc r rule: node_keys.induct)
  case (1 k v rest)
  from "1.prems" obtain x where x: "typed_child t b (y_value k) v = Inr x"
    and r: "pairs_of (on_child t b (\<lambda>key x acc. Inr (acc @ [(key, x)]))) rest (acc @ [(y_value k, x)]) = Inr r"
    by (auto simp: on_child_def [of t b _ "y_value k" v] ebind_Inr_iff)
  have c: "child_of t b (y_value k, x)"
    using x by (auto simp: typed_child_def child_of_def ebind_Inr_iff)
  from "1.IH" [OF r] obtain xs where "r = (acc @ [(y_value k, x)]) @ xs" "map fst xs = node_keys rest"
    "list_all (child_of t b) xs" by auto
  with c show ?case by (intro exI [of _ "(y_value k, x) # xs"]) simp
qed auto

lemma tasks_collect:
  assumes "collect_tasks n = Inr xs" and "gn_type n \<in> {TypeTask, TypeTemplate}"
  shows "map fst xs = node_keys (y_content (gn_node n)) \<and>
         list_all (child_of (if gn_type n = TypeTask then TypeAction else TypeTask) (gn_type n = TypeTemplate)) xs"
  using assms pairs_collect [of _ _ _ "[]" xs] by (auto simp: collect_tasks_def tasks_def pairs_def)

lemma workflow_tasks_collect:
  assumes "collect_tasks n = Inr xs" and "gn_type n = TypeWorkflow"
  shows "case node_lookup ''pipeline'' (gn_node n) of
           Inr (Some p) \<Rightarrow> map fst xs = node_keys (y_content p) \<and> list_all (child_of TypeTask False) xs
         | _ \<Rightarrow> xs = []"
  using assms pairs_collect [of _ _ _ "[]" xs]
  by (auto simp: collect_tasks_def tasks_def pairs_def ebind_Inr_iff split: option.splits)

text \<open>
  C25: the nodes that the tasks of a node are given are tasks or actions with the name of their
  key, actions when they have an action; below a task all of them are actions, and only the
  nodes below a template are marked as its parts.
\<close>

theorem tasks_are_typed:
  assumes "collect_tasks n = Inr xs" and "(key, x) \<in> set xs"
  shows "gn_name x = key \<and> gn_type x \<in> {TypeTask, TypeAction} \<and> gn_is_template x = (gn_type n = TypeTemplate) \<and>
         (gn_type x = TypeTask \<longrightarrow> gn_type n \<noteq> TypeTask \<and> node_lookup ''action'' (gn_node x) = Inr None)"
proof -
  have child: "child_of t b (key, x)" if "list_all (child_of t b) xs" for t b
    using that assms(2) by (auto simp: list_all_iff)
  consider "gn_type n = TypeTask" | "gn_type n = TypeTemplate" | "gn_type n = TypeWorkflow"
    | "gn_type n \<in> {TypeVariable, TypeAction}" by (cases "gn_type n") auto
  then show ?thesis
  proof cases
    case 1
    with tasks_collect [OF assms(1)] child show ?thesis by (fastforce simp: child_of_def split: if_splits)
  next
    case 2
    with tasks_collect [OF assms(1)] child show ?thesis by (fastforce simp: child_of_def split: if_splits)
  next
    case 3
    from workflow_tasks_collect [OF assms(1) 3] assms(2) have "list_all (child_of TypeTask False) xs"
      by (auto split: sum.splits option.splits)
    with child 3 show ?thesis by (fastforce simp: child_of_def split: if_splits)
  next
    case 4
    with assms show ?thesis by (auto simp: collect_tasks_def tasks_def)
  qed
qed

definition sample_node :: ynode where
  "sample_node = YNode MappingNode ''!!map'' []
     [text_node ''greet'', YNode MappingNode ''!!map'' [] [text_node ''action'', text_node ''print'']]"

lemma tasks_are_typed_witness:
  "gn_type (snd (hd (case collect_tasks \<lparr>gn_node = sample_node, gn_type = TypeTemplate, gn_name = [],
     gn_is_template = False\<rparr> of Inr xs \<Rightarrow> xs))) = TypeAction"
proof -
  let ?n = "\<lparr>gn_node = sample_node, gn_type = TypeTemplate, gn_name = [], gn_is_template = False\<rparr>"
  let ?x = "\<lparr>gn_node = YNode MappingNode ''!!map'' [] [text_node ''action'', text_node ''print''],
     gn_type = TypeAction, gn_name = ''greet'', gn_is_template = True\<rparr>"
  have run: "collect_tasks ?n = Inr [(''greet'', ?x)]"
    by (simp add: collect_tasks_def tasks_def pairs_def on_child_def typed_child_def sample_node_def text_node_def
        node_lookup_def)
  from tasks_are_typed [OF run, of "''greet''" ?x] have "gn_type ?x \<in> {TypeTask, TypeAction}" by simp
  with run show ?thesis by simp
qed

text \<open>Every attribute of a task becomes one of its actions.\<close>

lemma attributes_become_actions:
  assumes "collect_tasks n = Inr xs" and "gn_type n = TypeTask"
  shows "map fst xs = node_keys (y_content (gn_node n)) \<and> list_all (\<lambda>(key, x). gn_type x = TypeAction) xs"
  using tasks_collect [OF assms(1)] assms(2) by (auto simp: child_of_def list_all_iff split: if_splits)

section \<open>Writing and reading\<close>

definition same_step :: "project_task \<Rightarrow> project_task \<Rightarrow> bool" where
  "same_step t u \<longleftrightarrow> pt_id t = pt_id u \<and> pt_parent t = pt_parent u \<and> pt_tag t = pt_tag u \<and>
     pt_sub_path t = pt_sub_path u \<and> pt_position t = pt_position u"

lemma same_step_refl [simp]: "same_step t t"
  by (simp add: same_step_def)

lemma same_step_trans: "same_step t u \<Longrightarrow> same_step u v \<Longrightarrow> same_step t v"
  by (simp add: same_step_def)

lemma prefix_action_same: "same_step t (prefix_action t)"
  by (simp add: same_step_def prefix_action_def Let_def)

abbreviation same_steps :: "project_task list \<Rightarrow> project_task list \<Rightarrow> bool" where
  "same_steps \<equiv> list_all2 same_step"

lemma same_steps_refl: "same_steps ts ts"
  by (simp add: list_all2_refl)

lemma same_steps_trans: "same_steps ts us \<Longrightarrow> same_steps us vs \<Longrightarrow> same_steps ts vs"
  by (rule list_all2_trans [of same_step same_step same_step]) (auto intro: same_step_trans)

lemma same_steps_update: "i < length ts \<Longrightarrow> same_steps ts (ts[i := prefix_action (ts ! i)])"
  by (auto simp: list_all2_conv_all_nth nth_list_update prefix_action_same)

lemma on_lookup_result:
  "on_lookup name f n = Inr (m, x) \<Longrightarrow> \<exists>a b. f a = Inr (b, x)"
  by (fastforce simp: on_lookup_def ebind_Inr_iff split: option.splits)

lemma node_put_result:
  "node_put tb key (ANode x) n = Inr m \<Longrightarrow>
   y_kind n = MappingNode \<and> m = YNode MappingNode (y_tag n) (y_value n) (y_content n @ [new_scalar tb (VStr key), x])"
  by (auto simp: node_put_def item_node_def ebind_Inr_iff split: if_splits)

definition root_tags :: "string \<Rightarrow> project_task list \<Rightarrow> string list" where
  "root_tags parent ts = map pt_tag (filter (\<lambda>t. pt_parent t = parent) ts)"

lemma root_tags_same: "same_steps ts us \<Longrightarrow> root_tags parent ts = root_tags parent us"
  by (induction rule: list_all2_induct) (auto simp: root_tags_def same_step_def)

lemma node_keys_append: "even (length xs) \<Longrightarrow> node_keys (xs @ ys) = node_keys xs @ node_keys ys"
  by (induction xs rule: node_keys.induct) auto

text \<open>What one step of the loop adds.\<close>

definition write_step where
  "write_step fuel tb decode parent i c =
     (case c of (holder, steps) \<Rightarrow>
       let t = steps ! i
       in if pt_parent t \<noteq> parent then Inr (holder, steps)
          else ebind (wrap_marshal_error (pt_tag t) (marshal_task tb decode t)) (\<lambda>n.
            let below = (\<lambda>m. marshal_tasks fuel tb decode (pt_id t) m (steps[i := prefix_action t]))
            in ebind (if pt_sub_path t \<noteq> [] then on_lookup ''template'' below n else below n) (\<lambda>(n, steps).
              ebind (node_put tb (pt_tag t) (ANode n) holder) (\<lambda>holder. Inr (holder, steps)))))"

declare marshal_tasks.simps(2) [simp del]

lemma marshal_tasks_loop:
  "marshal_tasks (Suc fuel) tb decode parent holder steps =
     efold (write_step fuel tb decode parent) [0..<length steps] (holder, steps)"
  by (simp add: marshal_tasks.simps(2) write_step_def [abs_def])

definition written :: "toolbox \<Rightarrow> string \<Rightarrow> project_task list \<Rightarrow> ynode \<Rightarrow> nat \<Rightarrow> ynode \<times> project_task list \<Rightarrow> bool" where
  "written tb parent steps holder k c \<longleftrightarrow> same_steps steps (snd c) \<and> even (length (y_content (fst c))) \<and>
     node_keys (y_content (fst c)) = node_keys (y_content holder) @ root_tags parent (take k steps)"

lemma write_step_written:
  assumes "write_step fuel tb decode parent k c = Inr d" and "written tb parent steps holder k c"
    and "k < length steps" "item_law tb"
    and "\<And>p m ss n ss'. marshal_tasks fuel tb decode p m ss = Inr (n, ss') \<Longrightarrow> same_steps ss ss'"
  shows "written tb parent steps holder (Suc k) d"
proof -
  obtain h ss where c: "c = (h, ss)" by fastforce
  from assms(2) c have same: "same_steps steps ss" by (simp add: written_def)
  then have at_k: "same_step (steps ! k) (ss ! k)" and len: "length ss = length steps"
    using assms(3) by (auto simp: list_all2_conv_all_nth)
  show ?thesis
  proof (cases "pt_parent (ss ! k) = parent")
    case False
    with assms(1-3) c at_k show ?thesis
      by (auto simp: write_step_def written_def root_tags_def take_Suc_conv_app_nth same_step_def)
  next
    case True
    then obtain n m ss' h' where m: "node_put tb (pt_tag (ss ! k)) (ANode m) h = Inr h'" "d = (h', ss')"
      and run: "\<exists>p a b. marshal_tasks fuel tb decode p a (ss[k := prefix_action (ss ! k)]) = Inr (b, ss')"
      using assms(1) c
      by (auto simp: write_step_def Let_def ebind_Inr_iff split: if_splits dest!: on_lookup_result) blast+
    from run assms(5) have "same_steps (ss[k := prefix_action (ss ! k)]) ss'" by blast
    with same same_steps_update [of k ss] len assms(3) have "same_steps steps ss'"
      by (metis same_steps_trans)
    moreover have "y_value (new_scalar tb (VStr (pt_tag (ss ! k)))) = pt_tag (steps ! k)"
      using assms(4) at_k by (simp add: new_scalar_def item_law_def same_step_def)
    ultimately show ?thesis
      using node_put_result [OF m(1)] m(2) assms(2,3) c at_k True
      by (auto simp: written_def root_tags_def take_Suc_conv_app_nth same_step_def node_keys_append)
  qed
qed

lemma write_loop:
  assumes "efold (write_step fuel tb decode parent) [0..<k] (holder, steps) = Inr d"
    and "k \<le> length steps" "item_law tb" "even (length (y_content holder))"
    and "\<And>p m ss n ss'. marshal_tasks fuel tb decode p m ss = Inr (n, ss') \<Longrightarrow> same_steps ss ss'"
  shows "written tb parent steps holder k d"
  using assms(1,2)
proof (induction k arbitrary: d)
  case 0
  with assms(4) show ?case by (auto simp: written_def same_steps_refl root_tags_def)
next
  case (Suc k)
  from Suc.prems(1) obtain c where c: "efold (write_step fuel tb decode parent) [0..<k] (holder, steps) = Inr c"
    "write_step fuel tb decode parent k c = Inr d" by (auto simp: efold_append ebind_Inr_iff)
  from Suc.IH [OF c(1)] Suc.prems(2) write_step_written [OF c(2) _ _ assms(3,5)] show ?case by simp
qed

lemma write_step_same:
  assumes "write_step fuel tb decode parent k c = Inr d" and "k < length steps" "same_steps steps (snd c)"
    and "\<And>p m ss n ss'. marshal_tasks fuel tb decode p m ss = Inr (n, ss') \<Longrightarrow> same_steps ss ss'"
  shows "same_steps steps (snd d)"
proof -
  obtain h ss where c: "c = (h, ss)" by fastforce
  with assms(2,3) have len: "k < length ss" by (simp add: list_all2_lengthD)
  show ?thesis
  proof (cases "pt_parent (ss ! k) = parent")
    case True
    then obtain p a b ss' where "marshal_tasks fuel tb decode p a (ss[k := prefix_action (ss ! k)]) = Inr (b, ss')"
      "snd d = ss'"
      using assms(1) c
      by (auto simp: write_step_def Let_def ebind_Inr_iff split: if_splits dest!: on_lookup_result)
    with assms(3,4) c same_steps_update [OF len] show ?thesis by (metis same_steps_trans snd_conv)
  qed (use assms(1,3) c in \<open>auto simp: write_step_def\<close>)
qed

lemma marshal_tasks_same:
  "marshal_tasks fuel tb decode parent holder steps = Inr (n, steps') \<Longrightarrow> same_steps steps steps'"
proof (induction fuel arbitrary: parent holder steps n steps')
  case (Suc fuel)
  from Suc.prems have "efold (write_step fuel tb decode parent) [0..<length steps] (holder, steps) = Inr (n, steps')"
    by (simp only: marshal_tasks_loop)
  from efold_invariant [OF this, of "\<lambda>c. same_steps steps (snd c)"] write_step_same Suc.IH
  show ?case by (fastforce simp: same_steps_refl)
qed simp

text \<open>The keys that are written under a parent are the tags of its steps, in their order.\<close>

lemma marshal_tasks_keys:
  assumes "marshal_tasks fuel tb decode parent holder steps = Inr (n, steps')"
    and "item_law tb" "even (length (y_content holder))"
  shows "node_keys (y_content n) = node_keys (y_content holder) @ root_tags parent steps"
proof (cases fuel)
  case (Suc f)
  with assms(1) have run: "efold (write_step f tb decode parent) [0..<length steps] (holder, steps) = Inr (n, steps')"
    by (simp only: marshal_tasks_loop)
  from write_loop [OF run le_refl assms(2,3) marshal_tasks_same] show ?thesis by (simp add: written_def)
qed (use assms(1) in simp)

lemma marshal_variables_plain:
  assumes "marshal_variables tb decode vars = Inr v"
  shows "y_value v = []"
proof -
  from assms obtain x where x: "ebind (Inr x) (\<lambda>v. case v of VSlice xs \<Rightarrow> efold (put_declared tb decode) xs new_map
      | _ \<Rightarrow> Inl (PlainErr (''unsupported variable type: '' @ type_name v))) = Inr v"
    by (auto simp: marshal_variables_def ebind_Inr_iff)
  then obtain xs where run: "efold (put_declared tb decode) xs new_map = Inr v" by (cases x) auto
  show ?thesis
    by (rule efold_invariant [OF run, of "\<lambda>n. y_value n = []"])
      (auto simp: new_map_def put_declared_def node_put_def ebind_Inr_iff split: "value.splits" option.splits if_splits)
qed

lemma scalar_key [simp]: "item_law tb \<Longrightarrow> y_value (new_scalar tb (VStr key)) = key"
  by (simp add: new_scalar_def item_law_def)

text \<open>The shape of a written workflow.\<close>

lemma marshal_workflow_shape:
  assumes "marshal_workflow tb decode w steps = Inr (n, steps')" and "item_law tb"
  obtains before after holder ss where
    "y_content n = before @ new_scalar tb (VStr ''pipeline'') # holder # after"
    "before = [] \<or> (\<exists>v. before = [new_scalar tb (VStr ''init''), v] \<and> y_value v = [])"
    "marshal_tasks (Suc (length steps)) tb decode [] new_map (sort_key pt_position steps) = Inr (holder, ss)"
proof -
  from assms(1) obtain m holder ss p where
    m: "(if pw_init w = [] then Inr new_map
         else ebind (marshal_variables tb decode (pw_init w)) (\<lambda>v. node_put tb ''init'' (ANode v) new_map)) = Inr m"
    and run: "marshal_tasks (Suc (length steps)) tb decode [] new_map (sort_key pt_position steps) = Inr (holder, ss)"
    and p: "node_put tb ''pipeline'' (ANode holder) m = Inr p"
    and n: "n = p \<or> (\<exists>v. node_put tb ''post'' (ANode v) p = Inr n)"
    by (fastforce simp: marshal_workflow_def Let_def ebind_Inr_iff split: if_splits)
  have "y_content m = [] \<or> (\<exists>v. y_content m = [new_scalar tb (VStr ''init''), v] \<and> y_value v = [])"
    using m by (auto simp: new_map_def ebind_Inr_iff dest!: node_put_result marshal_variables_plain split: if_splits)
  moreover have "\<exists>after. y_content n = y_content m @ new_scalar tb (VStr ''pipeline'') # holder # after"
    using n node_put_result [OF p] by (auto dest!: node_put_result)
  ultimately show thesis using run that by blast
qed


definition two_steps :: "project_task list" where
  "two_steps =
     [empty_task\<lparr>pt_id := ''w/b'', pt_tag := ''b'', pt_position := 1, pt_action := ''nop'', pt_service := ''workflow''\<rparr>,
      empty_task\<lparr>pt_id := ''w/a'', pt_tag := ''a'', pt_position := 0, pt_action := ''run'', pt_service := ''exec''\<rparr>]"


text \<open>Writing a task changes it, so writing it again prefixes its service a second time.\<close>

lemma written_twice:
  "pt_service t \<noteq> [] \<Longrightarrow> pt_service t \<noteq> ''workflow'' \<Longrightarrow>
   pt_action (prefix_action (prefix_action t)) = pt_service t @ '':'' @ pt_service t @ '':'' @ pt_action t"
  by (simp add: prefix_action_def Let_def)

end
