(* ===== verification/Project_Numbering.thy ===== *)
theory Project_Numbering
  imports Project_Loader
begin

text \<open>
  A load numbers the tasks of every parent by their order. The invariant of a session
  (\<open>numbered\<close>) is kept by each operation of the loader, which moves no task that is already
  there (\<open>placed\<close>).
\<close>

section \<open>The invariant\<close>

definition placed :: "project_heap \<Rightarrow> project_heap \<Rightarrow> bool" where
  "placed h h' \<longleftrightarrow> ph_next_task h \<le> ph_next_task h' \<and>
     (\<forall>a<ph_next_task h. pt_position (ph_tasks h' a) = pt_position (ph_tasks h a) \<and>
        pt_parent (ph_tasks h' a) = pt_parent (ph_tasks h a))"

lemma placed_refl [simp]: "placed h h"
  by (simp add: placed_def)

lemma placed_trans: "placed h1 h2 \<Longrightarrow> placed h2 h3 \<Longrightarrow> placed h1 h3"
  by (simp add: placed_def)

lemma placed_on_workflow [simp]: "placed h (on_workflow a f h)"
  by (simp add: placed_def on_workflow_def)

text \<open>The tasks of a parent, and that they are numbered.\<close>

definition below :: "project_heap \<Rightarrow> nat list \<Rightarrow> string \<Rightarrow> nat list" where
  "below h as p = filter (\<lambda>a. pt_parent (ph_tasks h a) = p) as"

definition numbered_tasks :: "project_heap \<Rightarrow> nat list \<Rightarrow> bool" where
  "numbered_tasks h as \<longleftrightarrow> (\<forall>a\<in>set as. a < ph_next_task h) \<and>
     (\<forall>p. map (\<lambda>a. pt_position (ph_tasks h a)) (below h as p) = map int [0..<length (below h as p)])"

fun numbered_bundle :: "project_heap \<Rightarrow> project_bundle \<Rightarrow> bool" where
  "numbered_bundle h (Bundle p w ts as subs temps) \<longleftrightarrow> numbered_tasks h ts \<and> list_all (numbered_bundle h) subs \<and>
     list_all (\<lambda>(k, bs). list_all (numbered_bundle h) bs) temps"

lemma below_placed:
  assumes "placed h h'" "\<forall>a\<in>set as. a < ph_next_task h"
  shows "below h' as p = below h as p"
  using assms by (auto simp: below_def placed_def intro!: filter_cong)

lemma numbered_tasks_placed:
  assumes "placed h h'" "numbered_tasks h as"
  shows "numbered_tasks h' as"
proof -
  have b: "below h' as p = below h as p" for p
    using assms by (intro below_placed) (auto simp: numbered_tasks_def)
  have "map (\<lambda>a. pt_position (ph_tasks h' a)) (below h as p) = map (\<lambda>a. pt_position (ph_tasks h a)) (below h as p)" for p
    using assms by (intro map_cong refl) (auto simp: below_def placed_def numbered_tasks_def)
  with b assms show ?thesis by (force simp: numbered_tasks_def placed_def)
qed

lemma numbered_bundle_placed: "placed h h' \<Longrightarrow> numbered_bundle h b \<Longrightarrow> numbered_bundle h' b"
proof (induction h b rule: numbered_bundle.induct)
  case (1 h p w ts as subs temps)
  then show ?case by (auto simp: list_all_iff numbered_tasks_placed split: prod.splits)
qed

lemma numbered_list_placed: "placed h h' \<Longrightarrow> list_all (numbered_bundle h) bs \<Longrightarrow> list_all (numbered_bundle h') bs"
  by (auto simp: list_all_iff intro: numbered_bundle_placed)

lemma numbered_templates_placed:
  "placed h h' \<Longrightarrow> list_all (\<lambda>(k, bs). list_all (numbered_bundle h) bs) ts \<Longrightarrow>
   list_all (\<lambda>(k, bs). list_all (numbered_bundle h') bs) ts"
  by (induction ts) (auto intro: numbered_list_placed)

definition numbered :: "loading \<Rightarrow> bool" where
  "numbered c \<longleftrightarrow> numbered_bundle (ls_heap (snd c)) (ss_bundle (fst c)) \<and>
     (\<forall>p. task_position p (fst c) = int (length (below (ls_heap (snd c)) (bu_tasks (ss_bundle (fst c))) p)))"

definition kept :: "loading \<Rightarrow> loading \<Rightarrow> bool" where
  "kept c d \<longleftrightarrow> placed (ls_heap (snd c)) (ls_heap (snd d)) \<and> (numbered c \<longrightarrow> numbered d)"

named_theorems keeps \<open>operations of the loader that keep the invariant\<close>

lemma kept_refl [simp]: "kept c c"
  by (simp add: kept_def)

lemma kept_trans: "kept c d \<Longrightarrow> kept d e \<Longrightarrow> kept c e"
  by (auto simp: kept_def intro: placed_trans)

lemma numbered_bundle_parts:
  "numbered_bundle h b \<longleftrightarrow> numbered_tasks h (bu_tasks b) \<and> list_all (numbered_bundle h) (bu_subs b) \<and>
     list_all (\<lambda>(k, bs). list_all (numbered_bundle h) bs) (bu_templates b)"
  by (cases b) simp

text \<open>A change that leaves the tasks of the session alone keeps it.\<close>

lemma kept_same:
  assumes "placed (ls_heap (snd c)) (ls_heap (snd d))"
    and "bu_tasks (ss_bundle (fst d)) = bu_tasks (ss_bundle (fst c))" "ss_task_index (fst d) = ss_task_index (fst c)"
    and "list_all (numbered_bundle (ls_heap (snd c))) (bu_subs (ss_bundle (fst c))) \<Longrightarrow>
         list_all (numbered_bundle (ls_heap (snd d))) (bu_subs (ss_bundle (fst d)))"
    and "list_all (\<lambda>(k, bs). list_all (numbered_bundle (ls_heap (snd c))) bs) (bu_templates (ss_bundle (fst c))) \<Longrightarrow>
         list_all (\<lambda>(k, bs). list_all (numbered_bundle (ls_heap (snd d))) bs) (bu_templates (ss_bundle (fst d)))"
  shows "kept c d"
proof -
  have "numbered d" if n: "numbered c"
  proof -
    from n have t: "numbered_tasks (ls_heap (snd c)) (bu_tasks (ss_bundle (fst c)))"
      by (simp add: numbered_def numbered_bundle_parts)
    then have "below (ls_heap (snd d)) (bu_tasks (ss_bundle (fst c))) p = below (ls_heap (snd c)) (bu_tasks (ss_bundle (fst c))) p" for p
      using assms(1) by (intro below_placed) (auto simp: numbered_tasks_def)
    with n numbered_tasks_placed [OF assms(1) t] assms(2-5) show ?thesis
      by (simp add: numbered_def numbered_bundle_parts task_position_def)
  qed
  with assms(1) show ?thesis by (simp add: kept_def)
qed

lemma kept_heap:
  assumes "placed (ls_heap st) (ls_heap st')" and "ss_bundle s' = ss_bundle s" "ss_task_index s' = ss_task_index s"
  shows "kept (s, st) (s', st')"
  by (rule kept_same) (use assms in \<open>auto intro: numbered_list_placed numbered_templates_placed\<close>)

section \<open>Loops\<close>

lemma efold_kept:
  assumes "efold f xs c = Inr d" and "\<And>x c d. x \<in> set xs \<Longrightarrow> f x c = Inr d \<Longrightarrow> kept c d"
  shows "kept c d"
  by (rule efold_invariant [OF assms(1), of "kept c"]) (auto intro: kept_trans assms(2))

lemma pairs_of_kept:
  assumes "pairs_of f ns c = Inr d" and "\<And>k v c d. v \<in> set ns \<Longrightarrow> f k v c = Inr d \<Longrightarrow> kept c d"
  shows "kept c d"
  using assms
proof (induction f ns c rule: pairs_of.induct)
  case (3 f k v rest c)
  then obtain c' where c': "f (y_value k) v c = Inr c'" "pairs_of f rest c' = Inr d" by (auto simp: ebind_Inr_iff)
  have "kept c c'" by (rule "3.prems"(2) [OF _ c'(1)]) simp
  moreover have "kept c' d" by (rule "3.IH" [OF c'(2)]) (use "3.prems"(2) in \<open>metis list.set_intros(2)\<close>)
  ultimately show ?case by (rule kept_trans)
qed auto

lemma tasks_kept:
  assumes "tasks f n c = Inr d"
    and "\<And>key x c d. size (gn_node x) < size (gn_node n) \<Longrightarrow> f key x c = Inr d \<Longrightarrow> kept c d"
  shows "kept c d"
proof -
  have child: "kept c d" if run: "on_child t b f k v c = Inr d" and sz: "size v < size (gn_node n)" for t b k v c d
  proof -
    from run obtain x where "typed_child t b k v = Inr x" "f k x c = Inr d" by (auto simp: on_child_def ebind_Inr_iff)
    with assms(2) [of x k c d] sz show ?thesis by (simp add: typed_child_node)
  qed
  have p: "kept c d" if "pairs (on_child t b f) m c = Inr d" "size m \<le> size (gn_node n)" for t b m
    using that(1) unfolding pairs_def
    by (rule pairs_of_kept) (use that(2) child child_smaller in fastforce)
  show ?thesis
    using assms(1) p [OF _ less_imp_le [OF node_lookup_smaller]] p [OF _ le_refl]
    by (auto simp: tasks_def ebind_Inr_iff split: node_type.splits option.splits)
qed

section \<open>The operations\<close>

lemma placed_alloc:
  "placed h (h\<lparr>ph_tasks := (ph_tasks h)(ph_next_task h := t), ph_next_task := Suc (ph_next_task h)\<rparr>)"
  by (simp add: placed_def)

lemma add_task_kept:
  assumes "pt_position t = task_position (pt_parent t) (fst c)" and "add_task t c = (a, d)"
  shows "kept c d"
proof -
  obtain s st where c: "c = (s, st)" by fastforce
  let ?h = "ls_heap st"
  let ?h1 = "?h\<lparr>ph_tasks := (ph_tasks ?h)(ph_next_task ?h := t), ph_next_task := Suc (ph_next_task ?h)\<rparr>"
  obtain h2 where d: "ss_task_index (fst d) = mput (pt_parent t) (1 + pt_position t) (ss_task_index s)"
    "bu_tasks (ss_bundle (fst d)) = bu_tasks (ss_bundle s) @ [ph_next_task ?h]"
    "bu_subs (ss_bundle (fst d)) = bu_subs (ss_bundle s)" "bu_templates (ss_bundle (fst d)) = bu_templates (ss_bundle s)"
    "ls_heap (snd d) = h2" "ph_tasks h2 = ph_tasks ?h1" "ph_next_task h2 = ph_next_task ?h1"
    using assms(2) c
    by (auto simp: add_task_def append_task_def on_workflow_def Let_def split: option.splits)
  then have pl: "placed ?h h2" by (simp add: placed_def)
  have "numbered d" if n: "numbered c"
  proof -
    have t: "numbered_tasks ?h (bu_tasks (ss_bundle s))"
      and subs: "list_all (numbered_bundle ?h) (bu_subs (ss_bundle s))"
      and temps: "list_all (\<lambda>(k, bs). list_all (numbered_bundle ?h) bs) (bu_templates (ss_bundle s))"
      and idx: "\<And>p. task_position p s = int (length (below ?h (bu_tasks (ss_bundle s)) p))"
      using n c by (simp_all add: numbered_def numbered_bundle_parts)
    have b: "below h2 (bu_tasks (ss_bundle s)) p = below ?h (bu_tasks (ss_bundle s)) p" for p
      using t pl by (intro below_placed) (auto simp: numbered_tasks_def)
    have t2: "numbered_tasks h2 (bu_tasks (ss_bundle s))" by (rule numbered_tasks_placed [OF pl t])
    have new: "ph_tasks h2 (ph_next_task ?h) = t" "ph_next_task ?h < ph_next_task h2" by (simp_all add: d)
    have app: "below h2 (bu_tasks (ss_bundle s) @ [ph_next_task ?h]) p =
        below ?h (bu_tasks (ss_bundle s)) p @ (if pt_parent t = p then [ph_next_task ?h] else [])" for p
      using b [of p] new by (simp add: below_def)
    have "numbered_tasks h2 (bu_tasks (ss_bundle s) @ [ph_next_task ?h])"
      using t2 new assms(1) idx c by (auto simp: numbered_tasks_def app b)
    moreover have "list_all (numbered_bundle h2) (bu_subs (ss_bundle s))"
      by (rule numbered_list_placed [OF pl subs])
    moreover have "list_all (\<lambda>(k, bs). list_all (numbered_bundle h2) bs) (bu_templates (ss_bundle s))"
      by (rule numbered_templates_placed [OF pl temps])
    moreover have "task_position p (fst d) = int (length (below h2 (bu_tasks (ss_bundle s) @ [ph_next_task ?h]) p))" for p
      using idx [of p] assms(1) c by (auto simp: task_position_def d app)
    ultimately show ?thesis by (simp add: numbered_def numbered_bundle_parts d)
  qed
  with pl c d(5) show ?thesis by (simp add: kept_def)
qed

lemma split_action_place [simp]:
  "pt_position (split_action t) = pt_position t" "pt_parent (split_action t) = pt_parent t"
  by (auto simp: split_action_def Let_def split: option.splits)

lemma new_task_kept: "new_task e name n m base parent c = Inr (a, d) \<Longrightarrow> kept c d"
  by (cases c) (auto simp: new_task_def Let_def ebind_Inr_iff intro!: add_task_kept)

lemma change_task_kept:
  assumes "pt_position (f (task_at a c)) = pt_position (task_at a c)" "pt_parent (f (task_at a c)) = pt_parent (task_at a c)"
  shows "kept c (change_task a f c)"
  using assms by (cases c) (auto simp: change_task_def on_task_def task_at_def placed_def intro!: kept_heap)

lemma set_input_place:
  "set_input e request t = Inr u \<Longrightarrow> pt_position u = pt_position t \<and> pt_parent u = pt_parent t"
  by (auto simp: set_input_def Let_def split: option.splits "value.splits" if_splits)

lemma schedule_run_kept: "kept c (schedule_run t (fst c), snd c)"
  by (cases c) (auto simp: schedule_run_def intro!: kept_heap)

lemma transfer_action_kept:
  assumes "transfer_action e name n base parent c = Inr d"
  shows "kept c d"
proof -
  from assms obtain m a c1 request t where c1: "new_task e name n m base parent c = Inr (a, c1)"
    and t: "set_input e request ((task_at a c1)\<lparr>pt_is_template := gn_is_template n\<rparr>) = Inr t"
    and run: "(let c = change_task a (\<lambda>_. t) c1; c = (schedule_run t (fst c), snd c)
       in if pt_input_uri t \<noteq> [] then Inr c
          else ebind (pe_json e request) (\<lambda>text. Inr (change_task a (\<lambda>t. t\<lparr>pt_input := text\<rparr>) c))) = Inr d"
    by (fastforce simp: transfer_action_def ebind_Inr_iff)
  from run have d: "d = (schedule_run t (fst (change_task a (\<lambda>_. t) c1)), snd (change_task a (\<lambda>_. t) c1)) \<or>
      (\<exists>text. d = change_task a (\<lambda>t. t\<lparr>pt_input := text\<rparr>)
         (schedule_run t (fst (change_task a (\<lambda>_. t) c1)), snd (change_task a (\<lambda>_. t) c1)))"
    by (auto simp: Let_def ebind_Inr_iff split: if_splits)
  have change: "kept c' (change_task a (\<lambda>t. t\<lparr>pt_input := s\<rparr>) c')" for c' s by (intro change_task_kept) auto
  from c1 have "kept c c1" by (rule new_task_kept)
  moreover have "kept c1 (change_task a (\<lambda>_. t) c1)" using set_input_place [OF t] by (intro change_task_kept) auto
  moreover note schedule_run_kept [of "change_task a (\<lambda>_. t) c1" t]
  ultimately have "kept c (schedule_run t (fst (change_task a (\<lambda>_. t) c1)), snd (change_task a (\<lambda>_. t) c1))"
    by (blast intro: kept_trans)
  with d show ?thesis using change by (auto intro: kept_trans)
qed

declare transfer_tasks.simps [simp del]

lemma transfer_tasks_kept:
  assumes "transfer_tasks e expandable parent n c = Inr d"
    and "\<And>a c d. expandable a c = Inr d \<Longrightarrow> kept c d"
  shows "kept c d"
  using assms(1)
proof (induction "size (gn_node n)" arbitrary: parent n c d rule: less_induct)
  case less
  from less.prems obtain base where run: "tasks (\<lambda>name x c.
         case gn_type x of
           TypeTask \<Rightarrow>
             ebind (task_map x) (\<lambda>m. ebind (new_task e name x m base parent c) (\<lambda>(a, c).
             ebind (node_data (pe_json e) x) (\<lambda>data.
               let c = change_task a (\<lambda>t. t\<lparr>pt_data := data\<rparr>) c;
                   i = pt_id (task_at a c)
               in case template_node x of
                    Inl err \<Rightarrow> Inl err
                  | Inr None \<Rightarrow> transfer_tasks e expandable i x c
                  | Inr (Some t) \<Rightarrow> ebind (transfer_tasks e expandable i t c) (expandable a))))
         | TypeAction \<Rightarrow> transfer_action e name x base parent c
         | _ \<Rightarrow> Inl (PlainErr ''unsupported task type'')) n c = Inr d"
    by (subst (asm) transfer_tasks.simps) (auto simp: ebind_Inr_iff)
  from run show ?case
  proof (rule tasks_kept, goal_cases)
    case (1 key x c d)
    show ?case
    proof (cases "gn_type x")
      case TypeAction
      with 1 show ?thesis by (auto intro: transfer_action_kept)
    next
      case TypeTask
      with 1(2) obtain m a c1 data where c1: "new_task e key x m base parent c = Inr (a, c1)"
        and rest: "(let c = change_task a (\<lambda>t. t\<lparr>pt_data := data\<rparr>) c1; i = pt_id (task_at a c)
               in case template_node x of
                    Inl err \<Rightarrow> Inl err
                  | Inr None \<Rightarrow> transfer_tasks e expandable i x c
                  | Inr (Some t) \<Rightarrow> ebind (transfer_tasks e expandable i t c) (expandable a)) = Inr d"
        by (auto simp: ebind_Inr_iff)
      let ?c = "change_task a (\<lambda>t. t\<lparr>pt_data := data\<rparr>) c1"
      have "kept c c1" "kept c1 ?c" using new_task_kept [OF c1] by (auto intro: change_task_kept)
      moreover have "kept ?c d"
      proof (cases "template_node x")
        case (Inr t)
        show ?thesis
        proof (cases t)
          case None
          with rest Inr less.hyps [OF 1(1)] show ?thesis by (auto simp: Let_def)
        next
          case (Some y)
          with rest Inr obtain c2 where "transfer_tasks e expandable (pt_id (task_at a ?c)) y ?c = Inr c2"
            "expandable a c2 = Inr d" by (auto simp: Let_def ebind_Inr_iff)
          with less.hyps [of y] template_node_smaller [of x y] Inr Some 1(1) assms(2) [of a c2 d]
          show ?thesis by (meson kept_trans less_trans)
        qed
      qed (use rest in auto)
      ultimately show ?thesis by (blast intro: kept_trans)
    qed (use 1 in auto)
  qed
qed

section \<open>Assets and templates\<close>

lemma add_asset_kept: "kept c (add_asset x c)"
proof -
  obtain s st where c: "c = (s, st)" by fastforce
  obtain b h where b: "append_asset x (ss_bundle s) (ls_heap st) = (b, h)" by fastforce
  then have "placed (ls_heap st) h" "bu_tasks b = bu_tasks (ss_bundle s)" "bu_subs b = bu_subs (ss_bundle s)"
    "bu_templates b = bu_templates (ss_bundle s)"
    by (auto simp: append_asset_def Let_def split: option.splits)
  then show ?thesis
    by (intro kept_same) (auto simp: c b add_asset_def intro: numbered_list_placed numbered_templates_placed)
qed

lemma kept_assets: "kept (s, st) (s, st\<lparr>ls_assets := m\<rparr>)"
  by (rule kept_heap) simp_all

lemma new_workflow_asset_kept: "new_workflow_asset e ob c = Inr (x, d) \<Longrightarrow> kept c d"
  by (cases c) (auto simp: new_workflow_asset_def Let_def ebind_Inr_iff kept_assets split: sum.splits if_splits)

lemma transfer_assets_kept: "transfer_assets fuel e url c = Inr d \<Longrightarrow> kept c d"
proof (induction fuel arbitrary: url c d)
  case (Suc fuel)
  from Suc.prems obtain objects where run: "efold (\<lambda>ob c.
       if pe_equals e (ob_url ob) url then Inr c
       else ebind (new_workflow_asset e ob c) (\<lambda>(asset, c).
         case asset of
           None \<Rightarrow> Inr c
         | Some x \<Rightarrow> ebind (if ob_dir ob then transfer_assets fuel e (ob_url ob) c else Inr c) (\<lambda>c.
             Inr (add_asset x c)))) objects c = Inr d" by (auto simp: ebind_Inr_iff)
  then show ?case
  proof (rule efold_kept, goal_cases)
    case (1 ob c d)
    show ?case
    proof (cases "pe_equals e (ob_url ob) url")
      case False
      with 1 obtain asset c1 where c1: "new_workflow_asset e ob c = Inr (asset, c1)"
        and r: "(case asset of None \<Rightarrow> Inr c1 | Some x \<Rightarrow>
           ebind (if ob_dir ob then transfer_assets fuel e (ob_url ob) c1 else Inr c1) (\<lambda>c. Inr (add_asset x c))) = Inr d"
        by (auto simp: ebind_Inr_iff)
      have "kept c1 d"
      proof (cases asset)
        case (Some x)
        with r obtain c2 where c2: "(if ob_dir ob then transfer_assets fuel e (ob_url ob) c1 else Inr c1) = Inr c2"
          "d = add_asset x c2" by (auto simp: ebind_Inr_iff)
        from c2(1) have "kept c1 c2" by (auto split: if_splits intro: Suc.IH)
        with c2(2) add_asset_kept show ?thesis by (blast intro: kept_trans)
      qed (use r in simp)
      with new_workflow_asset_kept [OF c1] show ?thesis by (rule kept_trans)
    qed (use 1 in simp)
  qed
qed simp

lemma load_instance_asset_kept: "load_instance_asset fuel e t inst url c = Inr d \<Longrightarrow> kept c d"
proof (induction fuel arbitrary: url c d)
  case (Suc fuel)
  obtain s st where c: "c = (s, st)" by fastforce
  show ?case
  proof (cases "load_asset e url (ls_assets st)")
    case (Inr r)
    obtain x is_new m where r: "r = (x, is_new, m)" by (cases r)
    let ?c1 = "(s, st\<lparr>ls_assets := m\<rparr>)"
    from Suc.prems c Inr r obtain asset and xob :: object where run:
      "(if \<not> pa_dir asset then Inr (add_asset asset ?c1)
        else case pe_list e (ob_url xob) of
               Inl err \<Rightarrow> Inr (add_asset asset ?c1)
             | Inr objects \<Rightarrow> efold (\<lambda>ob c.
                 if pe_equals e (ob_url xob) (ob_url ob) then Inr c
                 else load_instance_asset fuel e t inst (ob_url ob) c) objects (add_asset asset ?c1)) = Inr d"
      by (clarsimp simp: Let_def ebind_Inr_iff)
    have "kept (add_asset asset ?c1) d"
    proof (cases "pa_dir asset \<and> is_ok (pe_list e (ob_url xob))")
      case True
      with run obtain objects :: "object list" where "efold (\<lambda>ob c.
          if pe_equals e (ob_url xob) (ob_url ob) then Inr c
          else load_instance_asset fuel e t inst (ob_url ob) c) objects (add_asset asset ?c1) = Inr d"
        by (auto simp: is_ok_def split: sum.splits)
      then show ?thesis by (rule efold_kept) (auto split: if_splits intro: Suc.IH)
    qed (use run in \<open>auto simp: is_ok_def split: if_splits sum.splits\<close>)
    with kept_assets add_asset_kept c show ?thesis by (blast intro: kept_trans)
  qed (use Suc.prems c in \<open>auto split: if_splits\<close>)
qed simp

text \<open>What is asked of a nested load.\<close>

definition loads_numbered :: "nested_load \<Rightarrow> bool" where
  "loads_numbered run \<longleftrightarrow> (\<forall>url opts st b st'. run url opts st = Inr (b, st') \<longrightarrow>
     placed (ls_heap st) (ls_heap st') \<and> numbered_bundle (ls_heap st') b)"

lemma loads_numbered_result:
  "loads_numbered run \<Longrightarrow> run url opts st = Inr (b, st') \<Longrightarrow>
   placed (ls_heap st) (ls_heap st') \<and> numbered_bundle (ls_heap st') b"
  by (simp add: loads_numbered_def)

lemma list_all_mput:
  "P v \<Longrightarrow> list_all (\<lambda>(k, v). P v) m \<Longrightarrow> list_all (\<lambda>(k, v). P v) (mput tag v m)"
  by (induction m) (auto simp: mput_def)

lemma list_all_mget: "list_all (\<lambda>(k, v). P v) m \<Longrightarrow> mget m tag = Some v \<Longrightarrow> P v"
  by (induction m) (auto simp: mget_def split: if_splits)

lemma add_template_numbered:
  assumes "numbered_bundle h t" "list_all (\<lambda>(k, bs). list_all (numbered_bundle h) bs) (bu_templates b)"
  shows "list_all (\<lambda>(k, bs). list_all (numbered_bundle h) bs) (bu_templates (add_template tag t b))"
proof (cases "mget (bu_templates b) tag")
  case None
  with assms list_all_mput [of "list_all (numbered_bundle h)" "[t]"] show ?thesis by (simp add: add_template_def)
next
  case (Some bs)
  from list_all_mget [OF assms(2) Some] assms list_all_mput [of "list_all (numbered_bundle h)" "bs @ [t]"] Some
  show ?thesis by (simp add: add_template_def)
qed

lemma load_template_workflow_kept:
  assumes "loads_numbered run" and "load_template_workflow e run a inst name c = Inr d"
  shows "kept c d"
proof -
  obtain s st where c: "c = (s, st)" by fastforce
  show ?thesis
  proof (cases "pe_exists e (pe_join e (ob_url (gi_object inst)) [name @ ''.yaml''])")
    case True
    let ?url = "pe_join e (ob_url (gi_object inst)) [name @ ''.yaml'']"
    from True assms(2) c obtain opts where r: "(case run ?url opts st of
                  Inl err \<Rightarrow> Inl (if is_panic err then err else nil_pointer)
                | Inr (b, st) \<Rightarrow>
                    (case bu_workflow b of
                       None \<Rightarrow> Inl nil_pointer
                     | Some wa \<Rightarrow>
                         (let tag = pt_tag (task_at a (s, st))
                          in Inr (s\<lparr>ss_bundle := add_template tag b (ss_bundle s)\<rparr>,
                               st\<lparr>ls_heap := on_workflow wa (\<lambda>w. w\<lparr>pw_template := tag,
                                   pw_instance_index := gi_index inst, pw_instance_tag := gi_tag inst\<rparr>) (ls_heap st)\<rparr>)))) = Inr d"
      by (auto simp: load_template_workflow_def Let_def ebind_Inr_iff)
    then obtain b st1 where run: "run ?url opts st = Inr (b, st1)" by (auto split: sum.splits)
    with r obtain wa tag f where
      d: "d = (s\<lparr>ss_bundle := add_template tag b (ss_bundle s)\<rparr>, st1\<lparr>ls_heap := on_workflow wa f (ls_heap st1)\<rparr>)"
      by (cases "bu_workflow b") (auto simp: Let_def)
    from loads_numbered_result [OF assms(1) run] have pl: "placed (ls_heap st) (on_workflow wa f (ls_heap st1))"
      and b: "numbered_bundle (on_workflow wa f (ls_heap st1)) b"
      by (auto intro: placed_trans numbered_bundle_placed [OF placed_on_workflow])
    show ?thesis
      by (rule kept_same)
        (auto simp: c d add_template_def [of _ _ "ss_bundle s"] intro: pl numbered_list_placed [OF pl],
         use add_template_numbered [OF b, of "ss_bundle s" tag] numbered_templates_placed [OF pl] in
           \<open>auto simp: add_template_def\<close>)
  qed (use assms(2) c in \<open>simp add: load_template_workflow_def Let_def\<close>)
qed

lemma load_template_instance_kept:
  assumes "loads_numbered run" and "load_template_instance fuel e run a inst c = Inr d"
  shows "kept c d"
proof -
  from assms(2) obtain c1 where "efold (load_template_workflow e run a inst) (ss_templates (fst c)) c = Inr c1"
    and r: "efold (\<lambda>(k, name) c.
            let name = (if has_prefix name ''@'' then drop 1 name else name)
            in load_instance_asset fuel e (task_at a c1) inst (pe_join e (ob_url (gi_object inst)) [name]) c)
          (task_data (pe_texts e) (task_at a c1)) c1 = Inr d"
    by (auto simp: load_template_instance_def Let_def ebind_Inr_iff)
  then have "kept c c1" by (auto intro: efold_kept load_template_workflow_kept [OF assms(1)])
  moreover have "kept c1 d"
    using r by (rule efold_kept) (auto simp: Let_def intro: load_instance_asset_kept)
  ultimately show ?thesis by (rule kept_trans)
qed

lemma load_template_kept:
  assumes "loads_numbered run" and "load_template fuel e run a insts c = Inr d"
  shows "kept c d"
proof -
  from assms(2) obtain c1 where c1: "(case pe_object e (pe_join e (ss_base_url (fst c)) [''default'']) of
              Inl err \<Rightarrow> Inr c
            | Inr ob \<Rightarrow> load_template_instance fuel e run a
                \<lparr>gi_object = ob, gi_tag = ''default'', gi_match = [], gi_index = 0\<rparr> c) = Inr c1"
    and r: "efold (load_template_instance fuel e run a) (is_list insts) c1 = Inr d"
    by (auto simp: load_template_def ebind_Inr_iff)
  from c1 have "kept c c1" by (auto split: sum.splits intro: load_template_instance_kept [OF assms(1)])
  moreover from r have "kept c1 d" by (rule efold_kept) (rule load_template_instance_kept [OF assms(1)])
  ultimately show ?thesis by (rule kept_trans)
qed

lemma transfer_expandable_kept:
  assumes "loads_numbered run" and "transfer_expandable fuel e run a c = Inr d"
  shows "kept c d"
proof (cases "pt_sub_path (task_at a c) = []")
  case False
  with assms(2) obtain w where w: "(case url_split (pe_urls e) (template_url e (task_at a c) w (ss_base_url (fst c))) of (parent, name) \<Rightarrow>
             case pe_object e parent of
               Inl err \<Rightarrow> Inl (if is_panic err then err
                   else PlainErr (''invalid template subpath: '' @ parent @ '', '' @ error_text err))
             | Inr holder \<Rightarrow>
                 (let objects = (case pe_list e parent of Inl err \<Rightarrow> [] | Inr obs \<Rightarrow> sort_key ob_name obs)
                  in ebind (new_instances (pe_toolbox e) (pe_equals e) (pe_regexp e) (ob_url holder) name objects)
                       (\<lambda>insts. load_template fuel e run a insts c))) = Inr d"
    by (auto simp: transfer_expandable_def Let_def ebind_Inr_iff)
  obtain parent name where u: "url_split (pe_urls e) (template_url e (task_at a c) w (ss_base_url (fst c))) = (parent, name)"
    by fastforce
  with w obtain insts where "load_template fuel e run a insts c = Inr d"
    by (cases "pe_object e parent") (auto simp: Let_def ebind_Inr_iff)
  then show ?thesis by (rule load_template_kept [OF assms(1)])
qed (use assms(2) in \<open>simp add: transfer_expandable_def Let_def\<close>)

section \<open>Loading\<close>

lemma kept_on_workflow: "kept (s, st) (s, st\<lparr>ls_heap := on_workflow a f (ls_heap st)\<rparr>)"
  by (rule kept_heap) simp_all

lemma new_workflow_kept:
  assumes "new_workflow e name asset s st = Inr (a, s', st')"
  shows "kept (s, st) (s', st')"
proof -
  from assms have "ss_task_index s' = ss_task_index s" "\<exists>b. ss_bundle s' = with_workflow b (ss_bundle s)"
    "placed (ls_heap st) (ls_heap st')"
    by (auto simp: new_workflow_def Let_def placed_def split: option.splits)
  then show ?thesis
    by (intro kept_same) (auto simp: with_workflow_def intro: numbered_list_placed numbered_templates_placed)
qed

lemma transfer_workflow_kept:
  assumes "loads_numbered run" and "transfer_workflow fuel e run url n c = Inr d"
  shows "kept c d"
proof -
  obtain s st where c: "c = (s, st)" by fastforce
  from assms(2) c obtain m a s1 st1 f asset where
    w: "new_workflow e (gn_name n) asset s (st\<lparr>ls_assets := m\<rparr>) = Inr (a, s1, st1)"
    and r: "transfer_tasks e (transfer_expandable fuel e run) [] n (s1, st1\<lparr>ls_heap := on_workflow a f (ls_heap st1)\<rparr>) = Inr d"
    by (fastforce simp: transfer_workflow_def ebind_Inr_iff)
  have "kept (s1, st1\<lparr>ls_heap := on_workflow a f (ls_heap st1)\<rparr>) d"
    by (rule transfer_tasks_kept [OF r]) (rule transfer_expandable_kept [OF assms(1)])
  with new_workflow_kept [OF w] show ?thesis using c kept_assets kept_on_workflow by (blast intro: kept_trans)
qed

lemma transfer_dependency_kept:
  assumes "loads_numbered run" and "transfer_dependency e run parent scheduled c = Inr d"
  shows "kept c d"
proof -
  obtain s st where c: "c = (s, st)" by fastforce
  from assms(2) c obtain url opts sub st1 a f where run: "run url opts st = Inr (sub, st1)"
    and d: "d = (s\<lparr>ss_bundle := add_sub sub (ss_bundle s)\<rparr>, st1\<lparr>ls_heap := on_workflow a f (ls_heap st1)\<rparr>)"
    by (fastforce simp: transfer_dependency_def Let_def ebind_Inr_iff split: option.splits)
  from loads_numbered_result [OF assms(1) run] have pl: "placed (ls_heap st) (on_workflow a f (ls_heap st1))"
    and b: "numbered_bundle (on_workflow a f (ls_heap st1)) sub"
    by (auto intro: placed_trans numbered_bundle_placed [OF placed_on_workflow])
  show ?thesis
    by (rule kept_same)
      (auto simp: c d add_sub_def b intro: pl numbered_list_placed [OF pl] numbered_templates_placed [OF pl])
qed

lemma link_workflows_placed: "link_workflows b h = Inr h' \<Longrightarrow> placed h h'"
  unfolding link_workflows_def
  by (erule efold_invariant [of _ _ _ _ "placed h"])
    (auto simp: link_workflow_def split: option.splits if_splits intro: placed_trans)

lemma new_session_numbered: "new_session e q url st = (s, st') \<Longrightarrow> numbered (s, st') \<and> ls_heap st' = ls_heap st"
  by (auto simp: new_session_def Let_def numbered_def numbered_tasks_def below_def task_position_def split: if_splits)

lemma load_project_numbered: "loads_numbered (load_project fuel e)"
proof (induction fuel)
  case (Suc fuel)
  show ?case
    unfolding loads_numbered_def
  proof (intro allI impI)
    fix url opts st b st'
    assume load: "load_project (Suc fuel) e url opts st = Inr (b, st')"
    let ?url = "url_normalize (pe_urls e) url"
    obtain s st0 where s: "new_session e (new_options opts) ?url st = (s, st0)" by fastforce
    from load s obtain n c1 c2 c3 h and w :: project_workflow where
      c1: "transfer_workflow fuel e (load_project fuel e) ?url n (s, st0) = Inr c1"
      and c2: "(if lo_dependencies (ss_options (fst c1)) then transfer_dependencies e (load_project fuel e) (pw_uri w) c1
                else Inr c1) = Inr c2"
      and c3: "own_assets fuel e ?url c2 = Inr c3"
      and h: "link_workflows (ss_bundle (fst c3)) (ls_heap (snd c3)) = Inr h"
      and b: "ss_bundle (fst c3) = b" "(snd c3)\<lparr>ls_heap := h\<rparr> = st'"
      by (simp only: load_project.simps Let_def s prod.case ebind_Inr_iff sum.inject prod.inject) blast
    have "kept (s, st0) c1" by (rule transfer_workflow_kept [OF Suc.IH c1])
    moreover have "kept c1 c2"
      using c2 by (auto simp: transfer_dependencies_def split: if_splits
          intro: efold_kept transfer_dependency_kept [OF Suc.IH])
    moreover have "kept c2 c3"
      using c3 by (auto simp: own_assets_def Let_def split: if_splits intro: transfer_assets_kept)
    ultimately have "kept (s, st0) c3" by (blast intro: kept_trans)
    with new_session_numbered [OF s] have "numbered c3" "placed (ls_heap st) (ls_heap (snd c3))"
      by (auto simp: kept_def)
    with link_workflows_placed [OF h] b [symmetric] show "placed (ls_heap st) (ls_heap st') \<and> numbered_bundle (ls_heap st') b"
      by (auto simp: numbered_def intro: placed_trans numbered_bundle_placed)
  qed
qed (simp add: loads_numbered_def)

text \<open>All bundles of a bundle.\<close>

fun all_bundles :: "project_bundle \<Rightarrow> project_bundle list" where
  "all_bundles (Bundle p w ts as subs temps) =
     Bundle p w ts as subs temps # concat (map all_bundles subs) @
     concat (map (\<lambda>(k, bs). concat (map all_bundles bs)) temps)"

lemma numbered_bundle_all: "numbered_bundle h b \<Longrightarrow> x \<in> set (all_bundles b) \<Longrightarrow> numbered_tasks h (bu_tasks x)"
  by (induction h b rule: numbered_bundle.induct) (fastforce simp: list_all_iff)

text \<open>
  C22: in a loaded project, and in the workflows and templates it depends on, the tasks of every
  parent are numbered from zero in the order they were read.
\<close>

theorem loaded_tasks_are_numbered:
  assumes "load_project fuel e url opts st = Inr (b, st')" and "x \<in> set (all_bundles b)"
  shows "let ts = filter (\<lambda>t. pt_parent t = p) (map (ph_tasks (ls_heap st')) (bu_tasks x))
         in map pt_position ts = map int [0..<length ts]"
proof -
  have "numbered_bundle (ls_heap st') b"
    using loads_numbered_result [OF load_project_numbered assms(1)] by simp
  from numbered_bundle_all [OF this assms(2)]
  show ?thesis by (simp add: numbered_tasks_def below_def filter_map comp_def Let_def)
qed

text \<open>A project with one workflow of two tasks.\<close>

definition sample_document :: ynode where
  "sample_document = YNode DocumentNode [] []
     [YNode MappingNode ''!!map'' []
        [text_node ''pipeline'', YNode MappingNode ''!!map'' []
           [text_node ''a'', YNode MappingNode ''!!map'' [] [text_node ''action'', text_node ''nop''],
            text_node ''b'', YNode MappingNode ''!!map'' [] [text_node ''action'', text_node ''nop'']]]]"

definition sample_files :: project_env where
  "sample_files = \<lparr>
     pe_toolbox = \<lparr>as_string = (\<lambda>v. case v of VStr s \<Rightarrow> s | _ \<Rightarrow> []), as_bool = (\<lambda>_. False), as_int = (\<lambda>_. 0),
       as_float = (\<lambda>_. FNaN), as_map = (\<lambda>_. []), tb_put = (\<lambda>a k v h. h), tb_get = (\<lambda>h a k. VNil),
       tb_has = (\<lambda>h a k. False), tb_delete = (\<lambda>a k h. h), tb_apply = (\<lambda>a m h. h), tb_get_map = (\<lambda>h a k. []),
       get_value = (\<lambda>h a k. (VNil, False)), set_value = (\<lambda>a k v h. h), expand = (\<lambda>h a v. v),
       expand_text = (\<lambda>h a s. s)\<rparr>,
     pe_urls = \<lparr>url_scheme = (\<lambda>_. ''mem''), url_host = (\<lambda>_. []), url_path = id, url_split = path_split,
       url_join = (\<lambda>a b. a @ ''/'' @ b), url_normalize = id\<rparr>,
     pe_relative = (\<lambda>_. False), pe_equals = (=), pe_join = (\<lambda>a bs. a @ concat bs),
     pe_download = (\<lambda>_. Inr []), pe_exists = (\<lambda>_. True),
     pe_object = (\<lambda>u. Inr \<lparr>ob_url = u, ob_name = ''w.yaml'', ob_dir = False\<rparr>), pe_list = (\<lambda>_. Inr []),
     pe_yaml = (\<lambda>_. Inr sample_document), pe_json = (\<lambda>_. Inr []), pe_texts = (\<lambda>_. Inr []),
     pe_task = (\<lambda>_. Inr empty_task), pe_regexp = (\<lambda>_. Inr (\<lambda>_. None))\<rparr>"

definition sample_state :: load_state where
  "sample_state = \<lparr>ls_heap = \<lparr>ph_tasks = (\<lambda>_. empty_task), ph_next_task = 0, ph_workflows = (\<lambda>_. empty_workflow),
     ph_next_workflow = 0\<rparr>, ls_assets = \<lparr>am_base_url = [], am_base_path = [], am_assets = []\<rparr>\<rparr>"

lemma sample_load:
  "\<exists>b st. load_project 1 sample_files ''x/w.yaml'' [WithBaseURL ''x'', WithProjectID ''p''] sample_state = Inr (b, st) \<and>
     bu_tasks b = [0, 1] \<and> pt_parent (ph_tasks (ls_heap st) 0) = [] \<and> pt_parent (ph_tasks (ls_heap st) 1) = []"
  by (simp add: new_session_def new_options_def project_id_def load_workflow_node_def file_stem_def new_workflow_node_def
      sample_document_def sample_files_def sample_state_def
      transfer_workflow_def load_workflow_asset_def load_asset_at_def asset_uri_def put_asset_def new_workflow_def
      new_asset_manager_def workflow_id_def with_workflow_def variables_def node_lookup_def text_node_def
      transfer_tasks.simps tasks_def pairs_def on_child_def typed_child_def transfer_action_def action_map_def
      abstract_node_def copy_attribute_def abstract_names_def action_attribute_def action_names_def task_prefix_def
      session_workflow_def new_task_def set_id_def split_action_def add_task_def append_task_def on_workflow_def
      node_request_def request_attribute_def reserved_keys_def set_input_def request_input_def change_task_def on_task_def
      task_at_def schedule_run_def empty_task_def empty_workflow_def task_position_def own_assets_def link_workflows_def
      link_workflow_def Let_def is_workflow_run_def task_method_def mget_def mput_def to_lower_def)

lemma loaded_tasks_are_numbered_witness:
  "\<exists>b st. load_project 1 sample_files ''x/w.yaml'' [WithBaseURL ''x'', WithProjectID ''p''] sample_state = Inr (b, st) \<and>
     map (\<lambda>a. pt_position (ph_tasks (ls_heap st) a)) (bu_tasks b) = [0, 1]"
proof -
  obtain b st where run: "load_project 1 sample_files ''x/w.yaml'' [WithBaseURL ''x'', WithProjectID ''p''] sample_state = Inr (b, st)"
    "bu_tasks b = [0, 1]" "pt_parent (ph_tasks (ls_heap st) 0) = []" "pt_parent (ph_tasks (ls_heap st) 1) = []"
    using sample_load by blast
  have "b \<in> set (all_bundles b)" by (cases b) simp
  from loaded_tasks_are_numbered [OF run(1) this, of "[]"] run show ?thesis by (simp add: Let_def)
qed

end
