(* ===== verification/Spec2Isabelle.thy ===== *)
theory Spec2Isabelle
  imports Criteria_Props Util_Text Engine_Fuel Inlined_Props Run_Log_Props Registry Log_Props Exec_Prompts
    Storage_Props Daemon_Props Vc_Props Http_Endpoint_Props Smtp_Props Http_Send_Props Http_Load_Props
    Validator Msg_Props Project_Props Project_Numbering
begin

text \<open>
  A verification development for endly, a workflow engine written in Go.

  \<^bold>\<open>The program.\<close> A workflow (model/workflow.go) is a tree of tasks with actions. The workflow
  service (service/workflow) runs it: it pushes a process on a stack shared by the session,
  makes a context for it, runs the selected tasks, and every action calls a service through
  \<open>endly.Run\<close> (manager.go, service.go), which may be the workflow service again. State is kept
  in maps that are shared by reference (\<open>data.Map\<close>), progress is published as events to the
  listener of the context (context.go, model/msg). Conditions are written in a small language
  of their own (model/criteria). Resources, arguments and variables are loaded and expanded by
  internal/util and model/variable*.go.

  \<^bold>\<open>The theories.\<close>
  \<^item> \<open>Go_Base\<close>, \<open>Go_Strings\<close>: the prelude. Values, errors as sums, maps, the store of shared
    maps, floating point comparison, and the parts of the Go string library that are used.
    Packages that are not part of the repository are records of functions (\<open>toolbox\<close>, \<open>parsly\<close>,
    \<open>storage\<close>, \<open>urls\<close>), with their documented laws as named predicates (\<open>map_laws\<close>,
    \<open>path_laws\<close>, \<open>parsly_ok\<close>).
  \<^item> \<open>Criteria_Ast\<close>, \<open>Criteria_Parser\<close>, \<open>Criteria_Compiler\<close>, \<open>Criteria_Props\<close>: model/criteria. The
    parser is a recursive descent with fuel \<open>3 n + 3\<close> for \<open>n\<close> bytes, which is proved to be
    enough; compiled closures are proved equal to a meaning function.
  \<^item> \<open>Endly_Error\<close>: error.go. \<open>Selectors\<close>: model/selector.go, os.go, path.go.
  \<^item> \<open>Util\<close>, \<open>Util_Text\<close>: internal/util and model/location.
  \<^item> \<open>Variables\<close>: model/variable.go, variables.go. \<open>Nodes\<close>: actions, tasks and workflows, their
    initialisation, selection and lookup. \<open>Processes\<close>: the stacks of processes and activities,
    as interpretations of one locale. \<open>Contracts\<close>: the requests of the workflow service.
  \<^item> \<open>Contexts\<close>: the state of a session (\<open>world\<close>) as a record of stores, the monad that threads
    it, and the operations of context.go. An operation returns a result and a world, or stops:
    by a panic (\<open>Crash\<close>) or for lack of fuel.
  \<^item> \<open>Engine\<close>: service/workflow/service.go, with model/extracts.go and repeater.go. \<open>Samples\<close>: a
    small environment for the witnesses. \<open>Instances\<close>: a toolbox and a lexer that satisfy the laws.
  \<^item> \<open>Engine_Invariants\<close>, \<open>Engine_Relation\<close>, \<open>Engine_Keeps\<close>, \<open>Engine_Async\<close>, \<open>Engine_Kept\<close>: the
    locale \<open>world_relation\<close> and the proof, operation by operation, that the whole engine keeps
    every relation with its laws. \<open>Engine_Safety\<close> interprets it four times and states what a run
    restores and how its events are bracketed; \<open>Engine_Order\<close> the order of tasks, the effect of
    an exit and of a late goroutine; \<open>Engine_Fuel\<close> that the fuel does not matter.
  \<^item> \<open>Tags\<close>, \<open>Templates\<close>, \<open>Inlined\<close>, \<open>Inlined_Props\<close>: model/tag.go, tag_iterator.go, template.go,
    inlined.go and graph/instances.go. A workflow that is written as a map is built into tasks and
    actions, and a template is expanded once for every number of its range.
  \<^item> \<open>Run_Log\<close>, \<open>Run_Log_Props\<close>: service/workflow/logger.go, as a listener of the events of the
    engine. \<open>Registry\<close>: the registers of manager.go and service.go behind one locale.
  \<^item> \<open>Yaml_Node\<close>, \<open>Graph_Node\<close>, \<open>Project_Model\<close>, \<open>Project_Assets\<close>, \<open>Project_Loader\<close>: model/graph and
    model/project. A YAML document becomes a graph of typed nodes, and a project is loaded from it
    with the workflows, templates and assets it depends on. \<open>Project_Props\<close>: values and workflows
    that are written are found again; \<open>Project_Numbering\<close>: the numbers of the loaded tasks.
  \<^item> \<open>Queues\<close>: the locale \<open>fifo\<close>, which the pending records of a log file and the mails of a user
    interpret. \<open>Log_Files\<close>, \<open>Log_Service\<close>, \<open>Log_Props\<close>: service/testing/log.
  \<^item> \<open>Effects\<close>: computations that may stop over the state of a service. On it are built
    service/system/exec (\<open>Exec_Contract\<close>, \<open>Exec_Session\<close>, \<open>Exec_Run\<close>, \<open>Exec_Prompts\<close>, \<open>Exec_Props\<close>),
    service/system/storage (\<open>Storage_Rules\<close>, \<open>Storage_Service\<close>, \<open>Storage_Props\<close>),
    service/deployment (\<open>Deploy_Contract\<close>, \<open>Deploy_Service\<close>, \<open>Deploy_Run\<close>, \<open>Deploy_Props\<close>,
    \<open>Sdk_Service\<close>, \<open>Build_Service\<close>, \<open>Vc_Service\<close>, \<open>Vc_Props\<close>), and service/system/process and daemon
    (\<open>Process_Service\<close>, \<open>Daemon_Service\<close>, \<open>Daemon_Props\<close>). Each of the later services runs commands
    through the command service, as the code does.
  \<^item> \<open>Http_Headers\<close>, \<open>Http_Endpoint\<close>, \<open>Http_Endpoint_Props\<close>, \<open>Smtp_Endpoint\<close>, \<open>Smtp_Props\<close>: the servers
    of service/testing/endpoint. \<open>Http_Runner\<close>, \<open>Http_Send\<close>, \<open>Http_Load\<close> with \<open>Http_Send_Props\<close> and
    \<open>Http_Load_Props\<close>: service/testing/runner/http. \<open>Validator\<close>: service/testing/validator.
    \<open>Msg_Contract\<close>, \<open>Msg_Clients\<close>, \<open>Msg_Service\<close>, \<open>Msg_Props\<close>: service/testing/msg.

  \<^bold>\<open>Bounds.\<close> The engine recurs through services and through tasks that a goto schedules; \<open>engine\<close>
  has fuel for the depth of this nesting, and a run that does not use it up has the same
  outcome with any larger fuel (\<open>Engine_Fuel\<close>). The fuel of the command service is the
  number of password prompts that follow one another; \<open>Exec_Prompts\<close> shows how many are
  enough. Deployments have fuel for the nesting of their dependencies, the builder of inlined
  workflows for the nesting of its maps and the rounds of an expansion, for which
  \<open>Inlined_Props\<close> says how many are enough; the pulls of a queue for the answers of the
  vendor, of which \<open>pull_of_empty_queue_never_ends\<close> shows that no number is enough in general. A
  load of a project has fuel for its nested loads and for the depth of directories: a workflow
  that depends on itself is never loaded. \<open>marshal_tasks\<close> has as much fuel as there are steps,
  beyond which the code overflows its stack. All other recursions are structural or have their
  termination proofs.

  \<^bold>\<open>Concurrency.\<close> A goroutine of an asynchronous action runs as a whole, either when it is
  started or when its group is waited for, as the list \<open>wd_schedule\<close> says; interleavings inside an
  action are not modelled. An asynchronous workflow runs when the session waits. The listener of
  the log validator changes its files by a schedule, one change for every sleep; the clients of a
  stress test are represented by the trips they were given.

  \<^bold>\<open>Not modelled.\<close> Whatever only calls other packages or services: the cloud services, docker,
  the database and browser services, secrets, notifications, the git library, the web planner, the
  bootstrap and the HTTP server, and generated code. The command line runner is left out.
  Waiting times and the printing of progress are left out. The response that accompanies an error
  is not kept: the end event of a failing run carries nil.
\<close>

end
